(* ===== verification/Saml_Prelude.thy ===== *)
theory Saml_Prelude
  imports Main "HOL-Library.Char_ord" "HOL-Library.List_Lexorder"
begin

text \<open>
  Shared vocabulary of the development: Go's errors as a datatype, fallible results as
  \<open>error + 'a\<close> with their sequencing operators, time instants and durations, the few
  operations of Go's \<^verbatim>\<open>strings\<close>, \<^verbatim>\<open>slices\<close> and \<^verbatim>\<open>cmp\<close> packages that the
  sources use, and the list lemmas that several components share.

  A Go \<^verbatim>\<open>string\<close> and a Go \<^verbatim>\<open>[]byte\<close> are both sequences of bytes, so both are HOL's
  \<open>string\<close> (a \<open>char\<close> is one byte).
\<close>

section \<open>Proof collections\<close>

named_theorems result_simps \<open>simplification rules for fallible results\<close>
named_theorems go_simps \<open>simplification rules for the modelled Go library operations\<close>

section \<open>Errors and fallible results\<close>

text \<open>
  \<open>Errorf\<close> is \<^verbatim>\<open>fmt.Errorf\<close> or \<^verbatim>\<open>errors.New\<close>: the format text and the string
  arguments that select the message. \<open>Wrapf\<close> is an error that carries another one
  (\<open>%w\<close>, \<open>%v\<close> or \<open>%s\<close> of an error). Arguments that are not strings (times,
  lengths, Go types) only decorate a message and are left out. \<open>Panic\<close> is a run-time panic, such
  as the use of a nil pointer. \<open>InvalidResponseError\<close> has the private error, the response and the time
  (as nanoseconds) of the struct of that name. \<open>JoinedErrors\<close> has the texts of several errors. The other constructors are the errors which the sources
  compare by identity or by type.
\<close>

datatype error =
    Errorf string "string list"
  | Wrapf string "string list" error
  | ErrNotExist
  | ErrNotFound
  | ErrNoSession
  | ErrNoCookie
  | ErrSignatureElementNotPresent
  | ErrBadStatus string
  | InvalidResponseError error string int
  | JoinedErrors "error list"
  | ErrPartialLogout
  | ErrReservedNamespace
  | ErrInvalidDefaultNamespace
  | ErrTraversalLimit
  | ErrUndeclaredNSPrefix string
  | Panic string

type_synonym 'a result = "error + 'a"

abbreviation (input) Err :: "string \<Rightarrow> error" where
  "Err msg \<equiv> Errorf msg []"

text \<open>\<^verbatim>\<open>errors.Is\<close>: only \<^verbatim>\<open>%w\<close> makes an error that is unwrapped.\<close>

fun errorsIs :: "error \<Rightarrow> error \<Rightarrow> bool" where
  "errorsIs (Wrapf fmt args e) target \<longleftrightarrow>
     Wrapf fmt args e = target \<or> (list_ex (\<lambda>i. take 2 (drop i fmt) = ''%w'') [0..<length fmt] \<and> errorsIs e target)"
| "errorsIs e target \<longleftrightarrow> e = target"

definition bindE :: "'a result \<Rightarrow> ('a \<Rightarrow> 'b result) \<Rightarrow> 'b result" where
  "bindE m f = (case m of Inl e \<Rightarrow> Inl e | Inr a \<Rightarrow> f a)"

text \<open>\<open>wrapE\<close> is the Go idiom that replaces an error by one that describes it. A panic is not an error
  that the code handles: it passes through.\<close>

definition isPanic :: "error \<Rightarrow> bool" where
  "isPanic e \<longleftrightarrow> (case e of Panic _ \<Rightarrow> True | _ \<Rightarrow> False)"

definition wrapE :: "(error \<Rightarrow> error) \<Rightarrow> 'a result \<Rightarrow> 'a result" where
  "wrapE w m = (case m of Inl e \<Rightarrow> Inl (if isPanic e then e else w e) | Inr a \<Rightarrow> Inr a)"

text \<open>\<open>tryE\<close> is a call whose error the code goes on with: only a panic ends it. \<open>nonNil\<close> is the use of a
  pointer.\<close>

definition tryE :: "'a result \<Rightarrow> 'a result result" where
  "tryE m = (case m of Inl e \<Rightarrow> if isPanic e then Inl e else Inr (Inl e) | Inr a \<Rightarrow> Inr (Inr a))"

definition nonNil :: "'a option \<Rightarrow> 'a result" where
  "nonNil x = (case x of None \<Rightarrow> Inl (Panic ''nil pointer'') | Some a \<Rightarrow> Inr a)"

text \<open>A function that returns only an \<^verbatim>\<open>error\<close> returns \<open>unit result\<close>.\<close>

definition checkE :: "bool \<Rightarrow> error \<Rightarrow> unit result" where
  "checkE ok e = (if ok then Inr () else Inl e)"

fun mapE :: "('a \<Rightarrow> 'b result) \<Rightarrow> 'a list \<Rightarrow> 'b list result" where
  "mapE f [] = Inr []"
| "mapE f (x # xs) = bindE (f x) (\<lambda>y. bindE (mapE f xs) (\<lambda>ys. Inr (y # ys)))"

lemma bindE_simps [simp, result_simps]:
  "bindE (Inl e) f = Inl e" "bindE (Inr a) f = f a"
  by (simp_all add: bindE_def)

lemma bindE_Inr_iff [simp, result_simps]:
  "bindE m f = Inr b \<longleftrightarrow> (\<exists>a. m = Inr a \<and> f a = Inr b)"
  by (cases m) auto

lemma bindE_Inl_iff [result_simps]:
  "bindE m f = Inl e \<longleftrightarrow> m = Inl e \<or> (\<exists>a. m = Inr a \<and> f a = Inl e)"
  by (cases m) auto

lemma bindE_assoc [result_simps]:
  "bindE (bindE m f) g = bindE m (\<lambda>x. bindE (f x) g)"
  by (cases m) auto

lemma bindE_cong [fundef_cong]:
  "m = m' \<Longrightarrow> (\<And>a. m' = Inr a \<Longrightarrow> f a = g a) \<Longrightarrow> bindE m f = bindE m' g"
  by (cases m') auto

lemma wrapE_simps [simp, result_simps]:
  "wrapE w (Inl e) = Inl (if isPanic e then e else w e)" "wrapE w (Inr a) = Inr a"
  by (simp_all add: wrapE_def)

lemma wrapE_Inr_iff [simp, result_simps]: "wrapE w m = Inr b \<longleftrightarrow> m = Inr b"
  by (cases m) auto

lemma tryE_Inr_iff [simp, result_simps]:
  "tryE m = Inr r \<longleftrightarrow> m = r \<and> (\<forall>e. m = Inl e \<longrightarrow> \<not> isPanic e)"
  by (cases m) (auto simp: tryE_def)

lemma nonNil_Inr_iff [simp, result_simps]: "nonNil x = Inr a \<longleftrightarrow> x = Some a"
  by (cases x) (auto simp: nonNil_def)

lemma checkE_Inr_iff [simp, result_simps]: "checkE ok e = Inr u \<longleftrightarrow> ok"
  by (simp add: checkE_def)

lemma checkE_simps [simp, result_simps]:
  "checkE True e = Inr ()" "checkE False e = Inl e"
  by (simp_all add: checkE_def)

lemma mapE_Inr_iff [result_simps]:
  "mapE f xs = Inr ys \<longleftrightarrow> list_all2 (\<lambda>x y. f x = Inr y) xs ys"
  by (induction xs arbitrary: ys) (auto simp: list_all2_Cons1)

section \<open>Time\<close>

text \<open>
  A \<^verbatim>\<open>time.Time\<close> is the number of nanoseconds since the zero value of the type
  (January 1 of year 1, UTC), so that \<^verbatim>\<open>IsZero\<close> is equality with 0. A
  \<^verbatim>\<open>time.Duration\<close> is a number of nanoseconds.
\<close>

type_synonym time = int
type_synonym duration = int

definition nsSecond :: duration where "nsSecond = 1000000000"
definition nsMinute :: duration where "nsMinute = 60 * nsSecond"
definition nsHour :: duration where "nsHour = 60 * nsMinute"

lemmas ns_defs = nsSecond_def nsMinute_def nsHour_def

section \<open>Strings\<close>

definition firstSet :: "string \<Rightarrow> string \<Rightarrow> string" where
  "firstSet a b = (if a = [] then b else a)"

text \<open>Reading a Go map at a key that may be absent gives the zero value of its element type.\<close>

definition the_default :: "'a \<Rightarrow> 'a option \<Rightarrow> 'a" where
  "the_default d x = (case x of None \<Rightarrow> d | Some a \<Rightarrow> a)"

lemma the_default_simps [simp]: "the_default d None = d" "the_default d (Some a) = a"
  by (simp_all add: the_default_def)

text \<open>\<^verbatim>\<open>strings.Split\<close> on a one-byte separator: never empty.\<close>

fun splitOn :: "char \<Rightarrow> string \<Rightarrow> string list" where
  "splitOn c [] = [[]]"
| "splitOn c (x # xs) =
     (if x = c then [] # splitOn c xs
      else (case splitOn c xs of [] \<Rightarrow> [[x]] | p # ps \<Rightarrow> (x # p) # ps))"

text \<open>\<^verbatim>\<open>strings.Join\<close> with a one-byte separator.\<close>

fun joinWith :: "char \<Rightarrow> string list \<Rightarrow> string" where
  "joinWith c [] = []"
| "joinWith c [s] = s"
| "joinWith c (s # t # ss) = s @ c # joinWith c (t # ss)"

text \<open>\<^verbatim>\<open>strings.Cut\<close> at the first occurrence of a one-byte separator.\<close>

definition cutAt :: "char \<Rightarrow> string \<Rightarrow> string \<times> string \<times> bool" where
  "cutAt c s = (takeWhile (\<lambda>x. x \<noteq> c) s, tl (dropWhile (\<lambda>x. x \<noteq> c) s), c \<in> set s)"

definition isSpaceByte :: "char \<Rightarrow> bool" where
  "isSpaceByte c \<longleftrightarrow> c \<in> set [CHR 0x20, CHR 0x09, CHR 0x0A, CHR 0x0D, CHR 0x0C]"

text \<open>\<^verbatim>\<open>regexp.MustCompile(`\s+`).ReplaceAllString(s, "")\<close>: RE2's class is tab, newline,
  form feed, carriage return and space.\<close>

definition removeWhitespace :: "string \<Rightarrow> string" where
  "removeWhitespace s = filter (\<lambda>c. \<not> isSpaceByte c) s"

lemma splitOn_nonempty [simp]: "splitOn c s \<noteq> []"
  by (induction s) (auto split: list.splits)

lemma splitOn_no_sep: "c \<notin> set s \<Longrightarrow> splitOn c s = [s]"
  by (induction s) auto

lemma splitOn_append: "c \<notin> set s \<Longrightarrow> splitOn c (s @ c # t) = s # splitOn c t"
  by (induction s) auto

lemma splitOn_append_gen: "splitOn c (s @ c # t) = splitOn c s @ splitOn c t"
  by (induction s) (auto split: list.splits)

lemma splitOn_joinWith:
  "ss \<noteq> [] \<Longrightarrow> (\<forall>s \<in> set ss. c \<notin> set s) \<Longrightarrow> splitOn c (joinWith c ss) = ss"
  by (induction c ss rule: joinWith.induct) (auto simp: splitOn_no_sep splitOn_append)

lemma joinWith_splitOn [simp]: "joinWith c (splitOn c s) = s"
proof (induction s)
  case (Cons x s)
  obtain p ps where ps: "splitOn c s = p # ps"
    by (cases "splitOn c s") auto
  with Cons show ?case by (cases ps) auto
qed simp

lemma splitOn_pieces: "p \<in> set (splitOn c s) \<Longrightarrow> c \<notin> set p"
proof (induction s arbitrary: p)
  case (Cons x s)
  obtain q qs where qs: "splitOn c s = q # qs" by (cases "splitOn c s") auto
  with Cons show ?case by (auto split: if_splits)
qed simp

lemma cutAt_append [simp]:
  "c \<notin> set k \<Longrightarrow> cutAt c (k @ c # v) = (k, v, True)"
  by (auto simp: cutAt_def takeWhile_append dropWhile_append)

lemma removeWhitespace_idem [simp]: "removeWhitespace (removeWhitespace s) = removeWhitespace s"
  by (simp add: removeWhitespace_def)

section \<open>Searching lists\<close>

text \<open>A nested Go loop that returns at the first match is \<open>find\<close> over the flattened
  list; these are the facts every such lookup uses.\<close>

lemma find_Some_in: "find P xs = Some x \<Longrightarrow> x \<in> set xs \<and> P x"
  by (induction xs) (auto split: if_splits)

lemma find_None_all: "find P xs = None \<longleftrightarrow> (\<forall>x \<in> set xs. \<not> P x)"
  by (induction xs) auto

lemma find_append: "find P (xs @ ys) = (case find P xs of None \<Rightarrow> find P ys | Some x \<Rightarrow> Some x)"
  by (induction xs) auto

end
