(* ===== verification/Xml_Tree.thy ===== *)
theory Xml_Tree
  imports Saml_Prelude
begin

text \<open>
  The XML trees that the sources work on, and the namespace contexts of
  \<^verbatim>\<open>internal/dsig/etreeutils/namespace.go\<close>.

  An \<^verbatim>\<open>etree.Element\<close> is its prefix (\<^verbatim>\<open>Space\<close>), its local name (\<^verbatim>\<open>Tag\<close>), its
  attributes and its child tokens. The tree has no parent pointers: code that walks up from an
  element takes a \<open>node\<close>, the element with its ancestors, nearest first. The parent of the root of
  a parsed document is the document itself, an element without name and attributes.
\<close>

section \<open>Element trees\<close>

record attr =
  at_Space :: string
  at_Key :: string
  at_Value :: string

datatype element = Element
  (el_Space: string) (el_Tag: string) (el_Attr: "attr list") (el_Child: "token list")
and token = Elem element | CharData string | Comment string | ProcInst string string | Directive string

type_synonym node = "element list \<times> element"

definition mkAttr :: "string \<Rightarrow> string \<Rightarrow> string \<Rightarrow> attr" where
  "mkAttr sp k v = \<lparr>at_Space = sp, at_Key = k, at_Value = v\<rparr>"

fun child_elements :: "token list \<Rightarrow> element list" where
  "child_elements [] = []"
| "child_elements (Elem e # ts) = e # child_elements ts"
| "child_elements (_ # ts) = child_elements ts"

abbreviation ChildElements :: "element \<Rightarrow> element list" where
  "ChildElements el \<equiv> child_elements (el_Child el)"

lemma child_elements_iff: "e \<in> set (child_elements ts) \<longleftrightarrow> Elem e \<in> set ts"
  by (induction ts rule: child_elements.induct) auto

lemma child_elements_append [simp]:
  "child_elements (xs @ ys) = child_elements xs @ child_elements ys"
  by (induction xs rule: child_elements.induct) auto

lemma size_child_elements [termination_simp]:
  "e \<in> set (child_elements (el_Child el)) \<Longrightarrow> size e < size el"
proof (cases el)
  case (Element sp tg as ts)
  assume "e \<in> set (child_elements (el_Child el))"
  then have "Elem e \<in> set ts" by (simp add: Element child_elements_iff)
  then have "size (Elem e) \<le> size_list size ts" by (rule size_list_estimation') simp
  with Element show ?thesis by simp
qed

lemma size_list_child_elements [termination_simp]:
  "size_list size (child_elements (el_Child el)) < size el"
proof (cases el)
  case (Element sp tg as ts)
  have "size_list size (child_elements ts) \<le> size_list size ts"
    by (induction ts rule: child_elements.induct) auto
  with Element show ?thesis by simp
qed

text \<open>\<open>subtree d e\<close>: \<open>d\<close> is \<open>e\<close> or a descendant element of it.\<close>

inductive subtree :: "element \<Rightarrow> element \<Rightarrow> bool" where
  subtree_refl: "subtree e e"
| subtree_child: "subtree d c \<Longrightarrow> c \<in> set (ChildElements e) \<Longrightarrow> subtree d e"

text \<open>The number of elements of a tree, which the traversal limit counts.\<close>

fun element_count :: "element \<Rightarrow> nat" where
  "element_count el = Suc (sum_list (map element_count (ChildElements el)))"

declare element_count.simps [simp del]

section \<open>Namespace contexts\<close>

definition defaultPrefix :: string where "defaultPrefix = ''''"
definition xmlnsPrefix :: string where "xmlnsPrefix = ''xmlns''"
definition xmlPrefix :: string where "xmlPrefix = ''xml''"
definition XMLNamespace :: string where
  "XMLNamespace = ''http://www.w3.org/XML/1998/namespace''"
definition XMLNSNamespace :: string where
  "XMLNSNamespace = ''http://www.w3.org/2000/xmlns/''"

lemmas ns_const_defs =
  defaultPrefix_def xmlnsPrefix_def xmlPrefix_def XMLNamespace_def XMLNSNamespace_def

text \<open>The prefix map of a context. It is an association list, newest declaration first, so that
  its bindings can be enumerated. The limit of the context is a counter that all the contexts of
  one traversal share, so the functions that use it take and return it.\<close>

record nscontext =
  ns_prefixes :: "(string \<times> string) list"

definition defaultLimit :: nat where "defaultLimit = 1000"

definition NewDefaultNSContext :: nscontext where
  "NewDefaultNSContext = \<lparr>ns_prefixes =
     [(defaultPrefix, XMLNamespace), (xmlPrefix, XMLNamespace), (xmlnsPrefix, XMLNSNamespace)]\<rparr>"

definition declare_ns :: "nscontext \<Rightarrow> string \<Rightarrow> string \<Rightarrow> nscontext" where
  "declare_ns ctx prefix namespace =
     ctx\<lparr>ns_prefixes := (prefix, namespace) # filter (\<lambda>b. fst b \<noteq> prefix) (ns_prefixes ctx)\<rparr>"

text \<open>The attribute that \<^verbatim>\<open>declare\<close> returns.\<close>

definition ns_attr :: "string \<Rightarrow> string \<Rightarrow> attr" where
  "ns_attr prefix namespace =
     (if prefix = defaultPrefix then mkAttr '''' xmlnsPrefix namespace
      else mkAttr xmlnsPrefix prefix namespace)"

definition isDefaultDecl :: "attr \<Rightarrow> bool" where
  "isDefaultDecl a \<longleftrightarrow> at_Space a = defaultPrefix \<and> at_Key a = xmlnsPrefix"

definition isNSDecl :: "attr \<Rightarrow> bool" where
  "isNSDecl a \<longleftrightarrow> at_Space a = xmlnsPrefix \<or> isDefaultDecl a"

fun subContextAttrs :: "nscontext \<Rightarrow> attr list \<Rightarrow> nscontext result" where
  "subContextAttrs ctx [] = Inr ctx"
| "subContextAttrs ctx (a # as) =
     (if at_Space a = xmlnsPrefix then
        if at_Key a = xmlPrefix \<and> at_Value a \<noteq> XMLNamespace then Inl ErrReservedNamespace
        else if at_Key a = xmlnsPrefix then Inl ErrReservedNamespace
        else subContextAttrs (declare_ns ctx (at_Key a) (at_Value a)) as
      else if at_Space a = defaultPrefix \<and> at_Key a = xmlnsPrefix then
        if at_Value a = XMLNSNamespace then Inl ErrInvalidDefaultNamespace
        else subContextAttrs (declare_ns ctx defaultPrefix (at_Value a)) as
      else subContextAttrs ctx as)"

definition SubContext :: "nscontext \<Rightarrow> element \<Rightarrow> nscontext result" where
  "SubContext ctx el = subContextAttrs ctx (el_Attr el)"

definition LookupPrefix :: "nscontext \<Rightarrow> string \<Rightarrow> string result" where
  "LookupPrefix ctx prefix =
     (case map_of (ns_prefixes ctx) prefix of
        Some namespace \<Rightarrow> Inr namespace | None \<Rightarrow> Inl (ErrUndeclaredNSPrefix prefix))"

text \<open>\<^verbatim>\<open>NSBuildParentContext\<close>, on the ancestors of the element.\<close>

fun NSBuildParentContext :: "element list \<Rightarrow> nscontext result" where
  "NSBuildParentContext [] = Inr NewDefaultNSContext"
| "NSBuildParentContext (parent # anc) =
     bindE (NSBuildParentContext anc) (\<lambda>ctx. SubContext ctx parent)"

subsection \<open>Traversal limits\<close>

definition CheckLimit :: "nat \<Rightarrow> nat result" where
  "CheckLimit limit = (if limit = 0 then Inl ErrTraversalLimit else Inr (limit - 1))"

function (sequential) checkSubtreeLimit :: "nat \<Rightarrow> element \<Rightarrow> nat result"
and checkSubtreesLimit :: "nat \<Rightarrow> element list \<Rightarrow> nat result" where
  "checkSubtreeLimit limit el =
     bindE (CheckLimit limit) (\<lambda>l. checkSubtreesLimit l (ChildElements el))"
| "checkSubtreesLimit limit [] = Inr limit"
| "checkSubtreesLimit limit (c # cs) =
     bindE (checkSubtreeLimit limit c) (\<lambda>l. checkSubtreesLimit l cs)"
  by pat_completeness auto
termination
  by (relation "measure (case_sum (\<lambda>(l, e). size e) (\<lambda>(l, cs). size_list size cs))")
    (auto simp: size_list_child_elements)

lemma CheckLimit_Inr_iff: "CheckLimit l = Inr l' \<longleftrightarrow> l = Suc l'"
  by (auto simp: CheckLimit_def)

text \<open>A subtree passes the check exactly when it has no more elements than the limit allows, and the
  limit goes down by that number.\<close>

lemma checkSubtreeLimit_iff:
  "checkSubtreeLimit l el = Inr l' \<longleftrightarrow> l = l' + element_count el"
  "checkSubtreesLimit l els = Inr l' \<longleftrightarrow> l = l' + sum_list (map element_count els)"
proof (induction l el and l els arbitrary: l' and l' rule: checkSubtreeLimit_checkSubtreesLimit.induct)
  case (1 limit el)
  show ?case
  proof (cases limit)
    case 0
    then show ?thesis by (simp add: CheckLimit_def element_count.simps [of el])
  next
    case (Suc n)
    with 1 show ?thesis
      by (auto simp: CheckLimit_def element_count.simps [of el])
  qed
next
  case (2 limit)
  then show ?case by auto
next
  case (3 limit c cs)
  show ?case
  proof
    assume "checkSubtreesLimit limit (c # cs) = Inr l'"
    then obtain m where m: "checkSubtreeLimit limit c = Inr m" "checkSubtreesLimit m cs = Inr l'"
      by auto
    have "limit = m + element_count c" using m(1) 3(1) by blast
    moreover have "m = l' + sum_list (map element_count cs)" using m(2) 3(2) [OF m(1)] by blast
    ultimately show "limit = l' + sum_list (map element_count (c # cs))" by simp
  next
    assume l: "limit = l' + sum_list (map element_count (c # cs))"
    then have c: "checkSubtreeLimit limit c = Inr (l' + sum_list (map element_count cs))"
      using 3(1) [THEN iffD2] by simp
    then have "checkSubtreesLimit (l' + sum_list (map element_count cs)) cs = Inr l'"
      using 3(2) [OF c, THEN iffD2] by simp
    then show "checkSubtreesLimit limit (c # cs) = Inr l'"
      by (simp only: checkSubtreesLimit.simps c bindE_simps)
  qed
qed

subsection \<open>What a context resolves\<close>

lemma map_of_filter_fst [simp]:
  "map_of (filter (\<lambda>b. fst b \<noteq> k) xs) k' = (if k' = k then None else map_of xs k')"
  by (induction xs) auto

lemma declare_ns_lookup [simp]:
  "map_of (ns_prefixes (declare_ns ctx p n)) = (map_of (ns_prefixes ctx))(p \<mapsto> n)"
  by (rule ext) (auto simp: declare_ns_def)

lemma LookupPrefix_Inr [simp]:
  "LookupPrefix ctx p = Inr n \<longleftrightarrow> map_of (ns_prefixes ctx) p = Some n"
  by (auto simp: LookupPrefix_def split: option.splits)

definition ns_extends :: "nscontext \<Rightarrow> nscontext \<Rightarrow> bool" where
  "ns_extends c d \<longleftrightarrow> dom (map_of (ns_prefixes c)) \<subseteq> dom (map_of (ns_prefixes d))"

lemma subContextAttrs_dom:
  "subContextAttrs ctx as = Inr ctx' \<Longrightarrow>
   dom (map_of (ns_prefixes ctx')) =
     dom (map_of (ns_prefixes ctx)) \<union> {at_Key a | a. a \<in> set as \<and> at_Space a = xmlnsPrefix}
       \<union> (if \<exists>a \<in> set as. isDefaultDecl a then {defaultPrefix} else {})"
proof (induction ctx as rule: subContextAttrs.induct)
  case (1 ctx)
  then show ?case by simp
next
  case (2 ctx a as)
  have ne: "xmlnsPrefix \<noteq> defaultPrefix" by (simp add: ns_const_defs)
  have d: "dom (map_of (ns_prefixes (declare_ns ctx p n))) = insert p (dom (map_of (ns_prefixes ctx)))"
    for p n by (auto simp: dom_def)
  show ?case
    using 2 ne by (auto simp: d isDefaultDecl_def split: if_splits)
qed

lemma NSBuildParentContext_reserved:
  "NSBuildParentContext anc = Inr ctx \<Longrightarrow>
   {defaultPrefix, xmlPrefix, xmlnsPrefix} \<subseteq> dom (map_of (ns_prefixes ctx))"
proof (induction anc arbitrary: ctx)
  case Nil
  then show ?case by (auto simp: NewDefaultNSContext_def ns_const_defs)
next
  case (Cons p anc)
  then obtain c where c: "NSBuildParentContext anc = Inr c" "SubContext c p = Inr ctx" by auto
  from Cons.IH [OF c(1)] subContextAttrs_dom [OF c(2) [unfolded SubContext_def]]
  show ?case by auto
qed

end
