(* ===== verification/Schema_Types.thy ===== *)
theory Schema_Types
  imports Xml_Tree
begin

text \<open>
  The SAML messages of \<^verbatim>\<open>schema.go\<close> and the metadata of \<^verbatim>\<open>metadata.go\<close>, one record per
  struct and one field per Go field. A pointer is an \<open>option\<close>, a slice is a list, an embedded
  struct is a record extension. \<^verbatim>\<open>XMLName\<close> fields hold a constant that the struct tag fixes and are
  left out. A field's prefix names its struct.

  \<^verbatim>\<open>url.URL\<close> is used through \<^verbatim>\<open>String()\<close>, \<^verbatim>\<open>Path\<close> and \<^verbatim>\<open>RawQuery\<close> only. The field
  \<open>u_Base\<close> is what \<^verbatim>\<open>String()\<close> prints before the query: the scheme, the authority and the
  escaped path.
\<close>

section \<open>Constants\<close>

definition HTTPPostBinding :: string where
  "HTTPPostBinding = ''urn:oasis:names:tc:SAML:2.0:bindings:HTTP-POST''"
definition HTTPRedirectBinding :: string where
  "HTTPRedirectBinding = ''urn:oasis:names:tc:SAML:2.0:bindings:HTTP-Redirect''"
definition HTTPArtifactBinding :: string where
  "HTTPArtifactBinding = ''urn:oasis:names:tc:SAML:2.0:bindings:HTTP-Artifact''"
definition SOAPBinding :: string where
  "SOAPBinding = ''urn:oasis:names:tc:SAML:2.0:bindings:SOAP''"

definition UnspecifiedNameIDFormat :: string where
  "UnspecifiedNameIDFormat = ''urn:oasis:names:tc:SAML:1.1:nameid-format:unspecified''"
definition TransientNameIDFormat :: string where
  "TransientNameIDFormat = ''urn:oasis:names:tc:SAML:2.0:nameid-format:transient''"
definition EmailAddressNameIDFormat :: string where
  "EmailAddressNameIDFormat = ''urn:oasis:names:tc:SAML:1.1:nameid-format:emailAddress''"
definition PersistentNameIDFormat :: string where
  "PersistentNameIDFormat = ''urn:oasis:names:tc:SAML:2.0:nameid-format:persistent''"

text \<open>The value SAMLCore 3.4.1.1 gives for a format left open, and the format of an EncryptedID.\<close>

definition unspecifiedNameIDFormat :: string where
  "unspecifiedNameIDFormat = ''urn:oasis:names:tc:SAML:2.0:nameid-format:unspecified''"
definition encryptedNameIDFormat :: string where
  "encryptedNameIDFormat = ''urn:oasis:names:tc:SAML:2.0:nameid-format:encrypted''"
definition entityNameIDFormat :: string where
  "entityNameIDFormat = ''urn:oasis:names:tc:SAML:2.0:nameid-format:entity''"

definition bearerSubjectConfirmationMethod :: string where
  "bearerSubjectConfirmationMethod = ''urn:oasis:names:tc:SAML:2.0:cm:bearer''"

definition defaultAuthnContextClassRef :: string where
  "defaultAuthnContextClassRef = ''urn:oasis:names:tc:SAML:2.0:ac:classes:PasswordProtectedTransport''"

definition StatusSuccess :: string where
  "StatusSuccess = ''urn:oasis:names:tc:SAML:2.0:status:Success''"
definition StatusRequester :: string where
  "StatusRequester = ''urn:oasis:names:tc:SAML:2.0:status:Requester''"
definition StatusResponder :: string where
  "StatusResponder = ''urn:oasis:names:tc:SAML:2.0:status:Responder''"
definition StatusVersionMismatch :: string where
  "StatusVersionMismatch = ''urn:oasis:names:tc:SAML:2.0:status:VersionMismatch''"
definition StatusAuthnFailed :: string where
  "StatusAuthnFailed = ''urn:oasis:names:tc:SAML:2.0:status:AuthnFailed''"
definition StatusInvalidNameIDPolicy :: string where
  "StatusInvalidNameIDPolicy = ''urn:oasis:names:tc:SAML:2.0:status:InvalidNameIDPolicy''"
definition StatusNoAuthnContext :: string where
  "StatusNoAuthnContext = ''urn:oasis:names:tc:SAML:2.0:status:NoAuthnContext''"
definition StatusNoPassive :: string where
  "StatusNoPassive = ''urn:oasis:names:tc:SAML:2.0:status:NoPassive''"
definition StatusPartialLogout :: string where
  "StatusPartialLogout = ''urn:oasis:names:tc:SAML:2.0:status:PartialLogout''"

lemmas status_defs =
  StatusSuccess_def StatusRequester_def StatusResponder_def StatusVersionMismatch_def
  StatusAuthnFailed_def StatusInvalidNameIDPolicy_def StatusNoAuthnContext_def
  StatusNoPassive_def StatusPartialLogout_def

lemmas binding_defs =
  HTTPPostBinding_def HTTPRedirectBinding_def HTTPArtifactBinding_def SOAPBinding_def

lemmas nameid_format_defs =
  UnspecifiedNameIDFormat_def TransientNameIDFormat_def unspecifiedNameIDFormat_def
  encryptedNameIDFormat_def entityNameIDFormat_def EmailAddressNameIDFormat_def
  PersistentNameIDFormat_def

definition MaxIssueDelay :: duration where "MaxIssueDelay = 90 * nsSecond"
definition MaxClockSkew :: duration where "MaxClockSkew = 180 * nsSecond"
definition DefaultValidDuration :: duration where "DefaultValidDuration = nsHour * 24 * 2"
definition DefaultCacheDuration :: duration where "DefaultCacheDuration = nsHour * 24 * 1"

lemma delays_positive [simp]: "0 < MaxIssueDelay" "0 < MaxClockSkew"
  by (simp_all add: MaxIssueDelay_def MaxClockSkew_def ns_defs)

record url =
  u_Scheme :: string
  u_HasUser :: bool
  u_Host :: string
  u_Base :: string
  u_Path :: string
  u_ForceQuery :: bool
  u_RawQuery :: string
  u_Fragment :: string

definition urlString :: "url \<Rightarrow> string" where
  "urlString u = u_Base u
     @ (if u_ForceQuery u \<or> u_RawQuery u \<noteq> [] then CHR ''?'' # u_RawQuery u else [])
     @ (if u_Fragment u \<noteq> [] then CHR ''#'' # u_Fragment u else [])"

section \<open>Protocol messages and assertions\<close>

record Issuer =
  iss_NameQualifier :: string
  iss_SPNameQualifier :: string
  iss_Format :: string
  iss_SPProvidedID :: string
  iss_Value :: string

record NameID =
  nid_NameQualifier :: string
  nid_SPNameQualifier :: string
  nid_Format :: string
  nid_SPProvidedID :: string
  nid_Value :: string

record NameIDPolicy =
  np_Format :: "string option"
  np_SPNameQualifier :: "string option"
  np_AllowCreate :: "bool option"

record RequestedAuthnContext =
  rac_Comparison :: string
  rac_ClassRefs :: "string list"
  rac_DeclRefs :: "string list"

record SubjectConfirmationData =
  scd_NotBefore :: time
  scd_NotOnOrAfter :: time
  scd_Recipient :: string
  scd_InResponseTo :: string
  scd_Address :: string

record SubjectConfirmation =
  scf_Method :: string
  scf_NameID :: "NameID option"
  scf_Data :: "SubjectConfirmationData option"

record Subject =
  subj_NameID :: "NameID option"
  subj_Confirmations :: "SubjectConfirmation list"

text \<open>\<^verbatim>\<open>Audience\<close> is a struct with the one field \<^verbatim>\<open>Value\<close>, \<^verbatim>\<open>AudienceRestriction\<close> one with the
  one field \<^verbatim>\<open>Audiences\<close>, and \<^verbatim>\<open>OneTimeUse\<close> has no fields.\<close>

record Audience =
  aud_Value :: string

record AudienceRestriction =
  ar_Audiences :: "Audience list"

record ProxyRestriction =
  pr_Count :: "int option"
  pr_Audiences :: "Audience list"

record Conditions =
  cond_NotBefore :: time
  cond_NotOnOrAfter :: time
  cond_AudienceRestrictions :: "AudienceRestriction list"
  cond_OneTimeUse :: "unit option"
  cond_ProxyRestriction :: "ProxyRestriction option"

record AuthnRequest =
  areq_ID :: string
  areq_Version :: string
  areq_IssueInstant :: time
  areq_Destination :: string
  areq_Consent :: string
  areq_Issuer :: "Issuer option"
  areq_Signature :: "element option"
  areq_Subject :: "Subject option"
  areq_NameIDPolicy :: "NameIDPolicy option"
  areq_Conditions :: "Conditions option"
  areq_RequestedAuthnContext :: "RequestedAuthnContext option"
  areq_ForceAuthn :: "bool option"
  areq_IsPassive :: "bool option"
  areq_ACSIndex :: string
  areq_ACSURL :: string
  areq_ProtocolBinding :: string
  areq_AttributeConsumingServiceIndex :: string
  areq_ProviderName :: string

text \<open>The zero value \<^verbatim>\<open>AuthnRequest{}\<close>.\<close>

definition zeroAuthnRequest :: AuthnRequest where
  "zeroAuthnRequest = \<lparr>areq_ID = [], areq_Version = [], areq_IssueInstant = 0, areq_Destination = [],
     areq_Consent = [], areq_Issuer = None, areq_Signature = None, areq_Subject = None,
     areq_NameIDPolicy = None, areq_Conditions = None, areq_RequestedAuthnContext = None,
     areq_ForceAuthn = None, areq_IsPassive = None, areq_ACSIndex = [], areq_ACSURL = [],
     areq_ProtocolBinding = [], areq_AttributeConsumingServiceIndex = [], areq_ProviderName = []\<rparr>"

record LogoutRequest =
  lreq_ID :: string
  lreq_Version :: string
  lreq_IssueInstant :: time
  lreq_NotOnOrAfter :: "time option"
  lreq_Destination :: string
  lreq_Issuer :: "Issuer option"
  lreq_NameID :: "NameID option"
  lreq_Signature :: "element option"
  lreq_SessionIndexes :: "string list"

datatype StatusCode = StatusCode (sc_Value: string) (sc_StatusCode: "StatusCode option")

record Status =
  st_StatusCode :: StatusCode
  st_StatusMessage :: "string option"
  st_StatusDetail :: "element list option"

record ArtifactResolve =
  ares_ID :: string
  ares_Version :: string
  ares_IssueInstant :: time
  ares_Issuer :: "Issuer option"
  ares_Signature :: "element option"
  ares_Artifact :: string

record SubjectLocality =
  sl_Address :: string
  sl_DNSName :: string

text \<open>\<^verbatim>\<open>AuthnContext\<close> has one field, a pointer to an \<^verbatim>\<open>AuthnContextClassRef\<close>, which has the one
  field \<^verbatim>\<open>Value\<close>.\<close>

record AuthnContext =
  ac_ClassRef :: "string option"

record AuthnStatement =
  as_AuthnInstant :: time
  as_SessionIndex :: string
  as_SessionNotOnOrAfter :: "time option"
  as_SubjectLocality :: "SubjectLocality option"
  as_AuthnContext :: AuthnContext

record AttributeValue =
  av_Type :: string
  av_Value :: string
  av_NameID :: "NameID option"

record Attribute =
  att_FriendlyName :: string
  att_Name :: string
  att_NameFormat :: string
  att_Values :: "AttributeValue list"

record AttributeStatement =
  ats_Attributes :: "Attribute list"

record Assertion =
  asr_ID :: string
  asr_IssueInstant :: time
  asr_Version :: string
  asr_Issuer :: Issuer
  asr_Signature :: "element option"
  asr_Subject :: "Subject option"
  asr_Conditions :: "Conditions option"
  asr_AuthnStatements :: "AuthnStatement list"
  asr_AttributeStatements :: "AttributeStatement list"

record Response =
  resp_ID :: string
  resp_InResponseTo :: string
  resp_Version :: string
  resp_IssueInstant :: time
  resp_Destination :: string
  resp_Consent :: string
  resp_Issuer :: "Issuer option"
  resp_Signature :: "element option"
  resp_Status :: Status
  resp_EncryptedAssertion :: "element option"
  resp_Assertion :: "Assertion option"

record ArtifactResponse =
  arsp_ID :: string
  arsp_InResponseTo :: string
  arsp_Version :: string
  arsp_IssueInstant :: time
  arsp_Issuer :: "Issuer option"
  arsp_Signature :: "element option"
  arsp_Status :: Status
  arsp_Response :: Response

record LogoutResponse =
  lrsp_ID :: string
  lrsp_InResponseTo :: string
  lrsp_Version :: string
  lrsp_IssueInstant :: time
  lrsp_Destination :: string
  lrsp_Consent :: string
  lrsp_Issuer :: "Issuer option"
  lrsp_Signature :: "element option"
  lrsp_Status :: Status

section \<open>Metadata\<close>

record Endpoint =
  ep_Binding :: string
  ep_Location :: string
  ep_ResponseLocation :: string

record IndexedEndpoint =
  iep_Binding :: string
  iep_Location :: string
  iep_ResponseLocation :: "string option"
  iep_Index :: int
  iep_IsDefault :: "bool option"

text \<open>\<^verbatim>\<open>KeyInfo\<close>, \<^verbatim>\<open>X509Data\<close>, \<^verbatim>\<open>X509Certificate\<close> and \<^verbatim>\<open>EncryptionMethod\<close> are structs with one
  field each: a key descriptor holds the data of its certificates and the algorithms it lists.\<close>

record KeyDescriptor =
  kd_Use :: string
  kd_X509Certificates :: "string list"
  kd_EncryptionMethods :: "string list"

record LocalizedName =
  ln_Lang :: string
  ln_Value :: string

record LocalizedURI =
  lu_Lang :: string
  lu_Value :: string

record Organization =
  org_Names :: "LocalizedName list"
  org_DisplayNames :: "LocalizedName list"
  org_URLs :: "LocalizedURI list"

record ContactPerson =
  cp_ContactType :: string
  cp_Company :: string
  cp_GivenName :: string
  cp_SurName :: string
  cp_EmailAddresses :: "string list"
  cp_TelephoneNumbers :: "string list"

record RoleDescriptor =
  rd_ID :: string
  rd_ValidUntil :: "time option"
  rd_CacheDuration :: string
  rd_ProtocolSupportEnumeration :: string
  rd_ErrorURL :: string
  rd_Signature :: "element option"
  rd_KeyDescriptors :: "KeyDescriptor list"
  rd_Organization :: "Organization option"
  rd_ContactPeople :: "ContactPerson list"

record SSODescriptor = RoleDescriptor +
  sso_ArtifactResolutionServices :: "IndexedEndpoint list"
  sso_SingleLogoutServices :: "Endpoint list"
  sso_ManageNameIDServices :: "Endpoint list"
  sso_NameIDFormats :: "string list"

record IDPSSODescriptor = SSODescriptor +
  idps_WantAuthnRequestsSigned :: "bool option"
  idps_SingleSignOnServices :: "Endpoint list"
  idps_ArtifactResolutionServices :: "Endpoint list"
  idps_NameIDMappingServices :: "Endpoint list"
  idps_AssertionIDRequestServices :: "Endpoint list"
  idps_AttributeProfiles :: "string list"
  idps_Attributes :: "Attribute list"

record RequestedAttribute = Attribute +
  ra_IsRequired :: "bool option"

record AttributeConsumingService =
  acs_Index :: int
  acs_IsDefault :: "bool option"
  acs_ServiceNames :: "LocalizedName list"
  acs_ServiceDescriptions :: "LocalizedName list"
  acs_RequestedAttributes :: "RequestedAttribute list"

record SPSSODescriptor = SSODescriptor +
  sps_AuthnRequestsSigned :: "bool option"
  sps_WantAssertionsSigned :: "bool option"
  sps_AssertionConsumerServices :: "IndexedEndpoint list"
  sps_AttributeConsumingServices :: "AttributeConsumingService list"

text \<open>The descriptors of authorities, which are only read and written.\<close>

record AuthnAuthorityDescriptor = RoleDescriptor +
  aad_AuthnQueryServices :: "Endpoint list"
  aad_AssertionIDRequestServices :: "Endpoint list"
  aad_NameIDFormats :: "string list"

record PDPDescriptor = RoleDescriptor +
  pdp_AuthzServices :: "Endpoint list"
  pdp_AssertionIDRequestServices :: "Endpoint list"
  pdp_NameIDFormats :: "string list"

record AttributeAuthorityDescriptor = RoleDescriptor +
  atad_AttributeServices :: "Endpoint list"
  atad_AssertionIDRequestServices :: "Endpoint list"
  atad_NameIDFormats :: "string list"
  atad_AttributeProfiles :: "string list"
  atad_Attributes :: "Attribute list"

record AffiliationDescriptor =
  afd_AffiliationOwnerID :: string
  afd_ID :: string
  afd_ValidUntil :: time
  afd_CacheDuration :: "string option"
  afd_Signature :: "element option"
  afd_AffiliateMembers :: "string list"
  afd_KeyDescriptors :: "KeyDescriptor list"

record EntityDescriptor =
  ed_EntityID :: string
  ed_ID :: string
  ed_ValidUntil :: time
  ed_CacheDuration :: duration
  ed_Signature :: "element option"
  ed_RoleDescriptors :: "RoleDescriptor list"
  ed_IDPSSODescriptors :: "IDPSSODescriptor list"
  ed_SPSSODescriptors :: "SPSSODescriptor list"
  ed_AuthnAuthorityDescriptors :: "AuthnAuthorityDescriptor list"
  ed_AttributeAuthorityDescriptors :: "AttributeAuthorityDescriptor list"
  ed_PDPDescriptors :: "PDPDescriptor list"
  ed_AffiliationDescriptor :: "AffiliationDescriptor option"
  ed_Organization :: "Organization option"
  ed_ContactPerson :: "ContactPerson option"
  ed_AdditionalMetadataLocations :: "string list"

text \<open>Metadata may be a group of entities; \<^verbatim>\<open>encoding/xml\<close> reports that it expected a single one. Groups within a
  group are not a field of the model.\<close>

record EntitiesDescriptor =
  eds_ID :: "string option"
  eds_ValidUntil :: "time option"
  eds_CacheDuration :: "duration option"
  eds_Name :: "string option"
  eds_Signature :: "element option"
  eds_EntityDescriptors :: "EntityDescriptor list"

definition wrongRootError :: error where
  "wrongRootError = Err ''expected element type <EntityDescriptor> but have <EntitiesDescriptor>''"

section \<open>Certificates\<close>

text \<open>What the sources use of an \<^verbatim>\<open>x509.Certificate\<close>: its DER bytes, which decide equality, its
  validity period and its public key. An ECDSA key carries
  \<^verbatim>\<open>Curve.Params().BitSize\<close> and \<^verbatim>\<open>Curve.Params().N.BitLen()\<close>.\<close>

datatype public_key = RSA_Key string | ECDSA_Key nat nat string | Other_Key string

record certificate =
  cert_Raw :: string
  cert_NotBefore :: time
  cert_NotAfter :: time
  cert_PublicKey :: public_key

definition isRSA :: "public_key \<Rightarrow> bool" where
  "isRSA k \<longleftrightarrow> (case k of RSA_Key _ \<Rightarrow> True | _ \<Rightarrow> False)"

definition isECDSA :: "public_key \<Rightarrow> bool" where
  "isECDSA k \<longleftrightarrow> (case k of ECDSA_Key _ _ _ \<Rightarrow> True | _ \<Rightarrow> False)"

end
