(* ===== verification/Externals.thy ===== *)
theory Externals
  imports Schema_Types
begin

text \<open>
  The code outside the repository that the sources call and whose results the model does not
  compute: the cryptography, certificate parsing, XML parsing and printing, compression, and IP address
  and URL parsing of the libraries. Each is a field of the record \<open>externs\<close>,
  an argument \<open>X\<close> of the definitions that use it, so every theorem holds for every
  implementation of these functions; a theorem that needs a law of one of them states it as a
  hypothesis.
\<close>

datatype hash = SHA1 | SHA256 | SHA384 | SHA512

datatype key_algorithm = AlgRSA | AlgECDSA | AlgUnknown

text \<open>An \<^verbatim>\<open>x509.SignatureAlgorithm\<close> is a key algorithm with a hash.\<close>

type_synonym signature_algorithm = "key_algorithm \<times> hash"

text \<open>The block ciphers and the digests of OAEP that \<^verbatim>\<open>xmlenc\<close> uses.\<close>

datatype block_cipher = AES | TripleDES

datatype oaep_hash = OaepSHA1 | OaepSHA256 | OaepSHA512 | OaepRIPEMD160

text \<open>An IP address as \<^verbatim>\<open>netip.Addr\<close> keeps it: the address and its zone.\<close>

record ipaddr =
  ip_Addr :: string
  ip_Zone :: string

text \<open>The struct types of \<^verbatim>\<open>internal/dsig/types/signature.go\<close>.\<close>

record Transform =
  tr_Algorithm :: string
  tr_InclusiveNamespaces :: "string option"

record Reference =
  ref_URI :: string
  ref_DigestValue :: string
  ref_DigestAlgo :: string
  ref_Transforms :: "Transform list"

record SignedInfo =
  si_CanonicalizationMethod :: string
  si_SignatureMethod :: string
  si_References :: "Reference list"

record Signature =
  sig_SignedInfo :: "SignedInfo option"
  sig_SignatureValue :: "string option"
  sig_KeyInfo :: "string list option"

record externs =
  \<comment> \<open>hashes and signatures: digest of some bytes; \<^verbatim>\<open>rsa.VerifyPKCS1v15\<close> on key, hash, digest
    and signature; \<^verbatim>\<open>ecdsa.Verify\<close> on key, digest, r and s; \<^verbatim>\<open>Certificate.CheckSignature\<close>
    on certificate, algorithm, signed bytes and signature; \<^verbatim>\<open>crypto.Signer.Sign\<close>
    on the random bytes it reads, private key, digest and hash\<close>
  x_Hash :: "hash \<Rightarrow> string \<Rightarrow> string"
  x_VerifyPKCS1v15 :: "string \<Rightarrow> hash \<Rightarrow> string \<Rightarrow> string \<Rightarrow> bool"
  x_EcdsaVerify :: "string \<Rightarrow> string \<Rightarrow> nat \<Rightarrow> nat \<Rightarrow> bool"
  x_CheckSignature :: "certificate \<Rightarrow> signature_algorithm \<Rightarrow> string \<Rightarrow> string \<Rightarrow> unit result"
  x_Sign :: "string \<Rightarrow> string \<Rightarrow> string \<Rightarrow> hash \<Rightarrow> string result"
  x_Asn1MarshalEcdsa :: "nat \<Rightarrow> nat \<Rightarrow> string result"
  x_Asn1UnmarshalEcdsa :: "string \<Rightarrow> (int \<times> int \<times> string) result"
  \<comment> \<open>certificates\<close>
  x_ParseCertificate :: "string \<Rightarrow> certificate result"
  x_ParseCertificates :: "string \<Rightarrow> certificate list result"
  \<comment> \<open>DEFLATE: the compressed form, the bytes a decompressor delivers with the error that ends them, and
    how reading some compressed data to its end proceeds: for each read, the free capacity of the
    buffer less one, the bytes the decompressor offers less one, and whether it reports the end of its
    data only with the read after the last bytes\<close>
  x_Deflate :: "string \<Rightarrow> string"
  x_Inflate :: "string \<Rightarrow> string \<times> error option"
  x_ReadSchedule :: "string \<Rightarrow> nat \<Rightarrow> nat \<times> nat \<times> bool"
  \<comment> \<open>XML: the round-trip validator, \<^verbatim>\<open>etree.Document.ReadFromBytes\<close> followed by \<^verbatim>\<open>Root\<close>,
    \<^verbatim>\<open>WriteToBytes\<close> with default and with canonical settings, and \<^verbatim>\<open>xml.Unmarshal\<close> per type\<close>
  x_XrvValidate :: "string \<Rightarrow> unit result"
  x_ReadFromBytes :: "string \<Rightarrow> element option result"
  x_WriteToBytes :: "element \<Rightarrow> string"
  x_CanonicalWrite :: "element \<Rightarrow> string"
  x_UnmarshalAuthnRequest :: "string \<Rightarrow> AuthnRequest result"
  x_UnmarshalLogoutRequest :: "string \<Rightarrow> LogoutRequest result"
  x_UnmarshalResponse :: "string \<Rightarrow> Response result"
  x_UnmarshalArtifactResponse :: "string \<Rightarrow> ArtifactResponse result"
  x_UnmarshalAssertion :: "string \<Rightarrow> Assertion result"
  x_UnmarshalLogoutResponse :: "string \<Rightarrow> LogoutResponse result"
  x_UnmarshalSignature :: "string \<Rightarrow> Signature result"
  x_UnmarshalSignedInfo :: "string \<Rightarrow> SignedInfo result"
  \<comment> \<open>encryption: one block with a block cipher and key; \<^verbatim>\<open>Seal\<close> and \<^verbatim>\<open>Open\<close> of AES-GCM on key,
    nonce and data; RSA encryption and decryption with OAEP (on digest, random bytes, public key and message, or
    digest, private key and ciphertext) and with PKCS #1 v1.5; and \<^verbatim>\<open>pem.Decode\<close> of a
    certificate block with the given text\<close>
  x_BlockEncrypt :: "block_cipher \<Rightarrow> string \<Rightarrow> string \<Rightarrow> string"
  x_BlockDecrypt :: "block_cipher \<Rightarrow> string \<Rightarrow> string \<Rightarrow> string"
  x_GcmSeal :: "string \<Rightarrow> string \<Rightarrow> string \<Rightarrow> string"
  x_GcmOpen :: "string \<Rightarrow> string \<Rightarrow> string \<Rightarrow> string result"
  x_EncryptOAEP :: "oaep_hash \<Rightarrow> string \<Rightarrow> string \<Rightarrow> string \<Rightarrow> string result"
  x_DecryptOAEP :: "oaep_hash \<Rightarrow> string \<Rightarrow> string \<Rightarrow> string result"
  x_EncryptPKCS1v15 :: "string \<Rightarrow> string \<Rightarrow> string \<Rightarrow> string result"
  x_DecryptPKCS1v15 :: "string \<Rightarrow> string \<Rightarrow> string result"
  x_PemCertificate :: "string \<Rightarrow> string option"
  \<comment> \<open>addresses and URLs\<close>
  x_ParseAddr :: "string \<Rightarrow> ipaddr option"
  x_AddrString :: "ipaddr \<Rightarrow> string"
  x_SplitHostPort :: "string \<Rightarrow> string result"
  x_ParseURL :: "string \<Rightarrow> url result"

section \<open>Signature method identifiers\<close>

definition RSASHA1SignatureMethod :: string where
  "RSASHA1SignatureMethod = ''http://www.w3.org/2000/09/xmldsig#rsa-sha1''"
definition RSASHA256SignatureMethod :: string where
  "RSASHA256SignatureMethod = ''http://www.w3.org/2001/04/xmldsig-more#rsa-sha256''"
definition RSASHA384SignatureMethod :: string where
  "RSASHA384SignatureMethod = ''http://www.w3.org/2001/04/xmldsig-more#rsa-sha384''"
definition RSASHA512SignatureMethod :: string where
  "RSASHA512SignatureMethod = ''http://www.w3.org/2001/04/xmldsig-more#rsa-sha512''"
definition ECDSASHA1SignatureMethod :: string where
  "ECDSASHA1SignatureMethod = ''http://www.w3.org/2001/04/xmldsig-more#ecdsa-sha1''"
definition ECDSASHA256SignatureMethod :: string where
  "ECDSASHA256SignatureMethod = ''http://www.w3.org/2001/04/xmldsig-more#ecdsa-sha256''"
definition ECDSASHA384SignatureMethod :: string where
  "ECDSASHA384SignatureMethod = ''http://www.w3.org/2001/04/xmldsig-more#ecdsa-sha384''"
definition ECDSASHA512SignatureMethod :: string where
  "ECDSASHA512SignatureMethod = ''http://www.w3.org/2001/04/xmldsig-more#ecdsa-sha512''"

lemmas signature_method_defs =
  RSASHA1SignatureMethod_def RSASHA256SignatureMethod_def RSASHA384SignatureMethod_def
  RSASHA512SignatureMethod_def ECDSASHA1SignatureMethod_def ECDSASHA256SignatureMethod_def
  ECDSASHA384SignatureMethod_def ECDSASHA512SignatureMethod_def

definition rsaMethods :: "(string \<times> hash) list" where
  "rsaMethods = [(RSASHA1SignatureMethod, SHA1), (RSASHA256SignatureMethod, SHA256),
     (RSASHA384SignatureMethod, SHA384), (RSASHA512SignatureMethod, SHA512)]"

definition ecdsaMethods :: "(string \<times> hash) list" where
  "ecdsaMethods = [(ECDSASHA1SignatureMethod, SHA1), (ECDSASHA256SignatureMethod, SHA256),
     (ECDSASHA384SignatureMethod, SHA384), (ECDSASHA512SignatureMethod, SHA512)]"

text \<open>\<^verbatim>\<open>redirectSignatureHashes\<close> of \<^verbatim>\<open>identity_provider_signature.go\<close>.\<close>

definition redirectSignatureHashes :: "(string \<times> hash) list" where
  "redirectSignatureHashes = rsaMethods @ ecdsaMethods"

definition keyAlgorithm :: "public_key \<Rightarrow> key_algorithm" where
  "keyAlgorithm k = (case k of RSA_Key _ \<Rightarrow> AlgRSA | ECDSA_Key _ _ _ \<Rightarrow> AlgECDSA | Other_Key _ \<Rightarrow> AlgUnknown)"

text \<open>\<^verbatim>\<open>signatureMethodIdentifiers\<close> and \<^verbatim>\<open>signatureMethodsByIdentifier\<close> of
  \<^verbatim>\<open>internal/dsig/xml_constants.go\<close>.\<close>

definition signatureMethodIdentifier :: "key_algorithm \<Rightarrow> hash \<Rightarrow> string" where
  "signatureMethodIdentifier alg h =
     (case alg of
        AlgRSA \<Rightarrow> (case h of SHA1 \<Rightarrow> RSASHA1SignatureMethod | SHA256 \<Rightarrow> RSASHA256SignatureMethod
          | SHA384 \<Rightarrow> RSASHA384SignatureMethod | SHA512 \<Rightarrow> RSASHA512SignatureMethod)
      | AlgECDSA \<Rightarrow> (case h of SHA1 \<Rightarrow> ECDSASHA1SignatureMethod | SHA256 \<Rightarrow> ECDSASHA256SignatureMethod
          | SHA384 \<Rightarrow> ECDSASHA384SignatureMethod | SHA512 \<Rightarrow> ECDSASHA512SignatureMethod)
      | AlgUnknown \<Rightarrow> '''')"

definition signatureMethodsByIdentifier :: "string \<Rightarrow> (key_algorithm \<times> hash) option" where
  "signatureMethodsByIdentifier m =
     (case map_of rsaMethods m of
        Some h \<Rightarrow> Some (AlgRSA, h)
      | None \<Rightarrow> map_option (\<lambda>h. (AlgECDSA, h)) (map_of ecdsaMethods m))"

lemma signatureMethodsByIdentifier_inverse [simp]:
  "alg \<noteq> AlgUnknown \<Longrightarrow>
   signatureMethodsByIdentifier (signatureMethodIdentifier alg h) = Some (alg, h)"
  by (cases alg; cases h)
    (simp_all add: signatureMethodsByIdentifier_def signatureMethodIdentifier_def rsaMethods_def
      ecdsaMethods_def signature_method_defs)

lemma signatureMethodsByIdentifier_Some:
  "signatureMethodsByIdentifier m = Some (alg, h) \<Longrightarrow>
   alg \<noteq> AlgUnknown \<and> signatureMethodIdentifier alg h = m"
  by (auto simp: signatureMethodsByIdentifier_def signatureMethodIdentifier_def rsaMethods_def
      ecdsaMethods_def split: option.splits if_splits)

text \<open>The digest identifiers of \<^verbatim>\<open>internal/dsig/xml_constants.go\<close>.\<close>

definition digestAlgorithmIdentifier :: "hash \<Rightarrow> string" where
  "digestAlgorithmIdentifier h =
     (case h of SHA1 \<Rightarrow> ''http://www.w3.org/2000/09/xmldsig#sha1''
      | SHA256 \<Rightarrow> ''http://www.w3.org/2001/04/xmlenc#sha256''
      | SHA384 \<Rightarrow> ''http://www.w3.org/2001/04/xmldsig-more#sha384''
      | SHA512 \<Rightarrow> ''http://www.w3.org/2001/04/xmlenc#sha512'')"

definition digestAlgorithmsByIdentifier :: "string \<Rightarrow> hash option" where
  "digestAlgorithmsByIdentifier m =
     map_of (map (\<lambda>h. (digestAlgorithmIdentifier h, h)) [SHA1, SHA256, SHA384, SHA512]) m"

lemma digestAlgorithmsByIdentifier_inverse [simp]:
  "digestAlgorithmsByIdentifier (digestAlgorithmIdentifier h) = Some h"
  by (cases h) (simp_all add: digestAlgorithmsByIdentifier_def digestAlgorithmIdentifier_def)


section \<open>A concrete instance\<close>

text \<open>An instance of the external functions on which the hypotheses of the theorems can be evaluated: a
  digest is the data after twenty fixed bytes, a signature is the key followed by what it signs, compressed
  data has one byte in front, an XML document is the tag of its root, and a certificate parses from any
  bytes to a fixed validity period and an RSA key of the same bytes.\<close>

definition exampleCert :: "string \<Rightarrow> certificate" where
  "exampleCert raw = \<lparr>cert_Raw = raw, cert_NotBefore = 0, cert_NotAfter = 1000 * nsHour,
     cert_PublicKey = RSA_Key raw\<rparr>"

definition exampleX :: externs where
  "exampleX = \<lparr>
     x_Hash = (\<lambda>h s. replicate 20 CHR ''#'' @ s),
     x_VerifyPKCS1v15 = (\<lambda>k h d s. s = k @ d),
     x_EcdsaVerify = (\<lambda>k d r s. False),
     x_CheckSignature = (\<lambda>c a d s. checkE (s = cert_Raw c @ replicate 20 CHR ''#'' @ d) (Err ''verification error'')),
     x_Sign = (\<lambda>rnd k d h. Inr (k @ d)),
     x_Asn1MarshalEcdsa = (\<lambda>r s. Inl (Err ''asn1'')),
     x_Asn1UnmarshalEcdsa = (\<lambda>d. Inl (Err ''asn1'')),
     x_ParseCertificate = (\<lambda>d. Inr (exampleCert d)),
     x_ParseCertificates = (\<lambda>d. Inr [exampleCert d]),
     x_Deflate = (\<lambda>d. CHR ''D'' # d),
     x_Inflate = (\<lambda>d. case d of [] \<Rightarrow> ([], Some (Err ''unexpected EOF'')) | _ # r \<Rightarrow> (r, None)),
     x_ReadSchedule = (\<lambda>d i. (511, 99, False)),
     x_XrvValidate = (\<lambda>d. Inr ()),
     x_ReadFromBytes = (\<lambda>d. Inr (if d = [] then None else Some (Element [] d [] []))),
     x_WriteToBytes = el_Tag,
     x_CanonicalWrite = el_Tag,
     x_UnmarshalAuthnRequest = (\<lambda>d. Inl (Err ''EOF'')),
     x_UnmarshalLogoutRequest = (\<lambda>d. Inl (Err ''EOF'')),
     x_UnmarshalResponse = (\<lambda>d. Inl (Err ''EOF'')),
     x_UnmarshalArtifactResponse = (\<lambda>d. Inl (Err ''EOF'')),
     x_UnmarshalAssertion = (\<lambda>d. Inl (Err ''EOF'')),
     x_UnmarshalLogoutResponse = (\<lambda>d. Inl (Err ''EOF'')),
     x_UnmarshalSignature = (\<lambda>d. Inl (Err ''EOF'')),
     x_UnmarshalSignedInfo = (\<lambda>d. Inl (Err ''EOF'')),
     x_BlockEncrypt = (\<lambda>c k b. rev b),
     x_BlockDecrypt = (\<lambda>c k b. rev b),
     x_GcmSeal = (\<lambda>k n p. rev p @ replicate 16 CHR ''T''),
     x_GcmOpen = (\<lambda>k n c. Inr (drop 16 (rev c))),
     x_EncryptOAEP = (\<lambda>h r k m. Inr (rev m)),
     x_DecryptOAEP = (\<lambda>h k c. Inr (rev c)),
     x_EncryptPKCS1v15 = (\<lambda>r k m. Inr m),
     x_DecryptPKCS1v15 = (\<lambda>k c. Inr c),
     x_PemCertificate = (\<lambda>s. Some (''cert'')),
     x_ParseAddr = (\<lambda>s. Some \<lparr>ip_Addr = s, ip_Zone = []\<rparr>),
     x_AddrString = ip_Addr,
     x_SplitHostPort = (\<lambda>s. Inr (takeWhile (\<lambda>c. c \<noteq> CHR '':'') s)),
     x_ParseURL = (\<lambda>s. Inr \<lparr>u_Scheme = [], u_HasUser = False, u_Host = [], u_Base = s, u_Path = [], u_ForceQuery = False, u_RawQuery = [], u_Fragment = []\<rparr>)\<rparr>"


lemma exampleX_sel [simp]:
  "x_Hash exampleX h s = replicate 20 CHR ''#'' @ s"
  "x_VerifyPKCS1v15 exampleX k h d s \<longleftrightarrow> s = k @ d"
  "x_CheckSignature exampleX c a d s = checkE (s = cert_Raw c @ replicate 20 CHR ''#'' @ d) (Err ''verification error'')"
  "x_Sign exampleX rnd k d h = Inr (k @ d)"
  "x_ParseCertificate exampleX d = Inr (exampleCert d)"
  "x_ParseCertificates exampleX d = Inr [exampleCert d]"
  "x_Deflate exampleX d = CHR ''D'' # d"
  "x_Inflate exampleX (b # s) = (s, None)"
  "x_XrvValidate exampleX d = Inr ()"
  "x_ReadFromBytes exampleX d = Inr (if d = [] then None else Some (Element [] d [] []))"
  "x_WriteToBytes exampleX = el_Tag"
  "x_CanonicalWrite exampleX = el_Tag"
  "x_ParseAddr exampleX s = Some \<lparr>ip_Addr = s, ip_Zone = []\<rparr>"
  "x_AddrString exampleX = ip_Addr"
  "x_SplitHostPort exampleX s = Inr (takeWhile (\<lambda>c. c \<noteq> CHR '':'') s)"
  "x_ParseURL exampleX s =
     Inr \<lparr>u_Scheme = [], u_HasUser = False, u_Host = [], u_Base = s, u_Path = [], u_ForceQuery = False, u_RawQuery = [], u_Fragment = []\<rparr>"
  by (simp_all add: exampleX_def)

lemma exampleX_enc_sel [simp]:
  "x_BlockEncrypt exampleX bc k b = rev b"
  "x_BlockDecrypt exampleX bc k b = rev b"
  "x_EncryptOAEP exampleX oh r k m = Inr (rev m)"
  "x_DecryptOAEP exampleX oh k m = Inr (rev m)"
  "x_GcmSeal exampleX k n p = rev p @ replicate 16 CHR ''T''"
  "x_GcmOpen exampleX k n p = Inr (drop 16 (rev p))"
  "x_PemCertificate exampleX s = Some ''cert''"
  by (simp_all add: exampleX_def)

end
