(* ===== verification/Go_Encoding.thy ===== *)
theory Go_Encoding
  imports Saml_Prelude
begin

text \<open>
  The text encodings of Go's standard library that the bindings use: \<^verbatim>\<open>url.QueryEscape\<close> and
  \<^verbatim>\<open>url.QueryUnescape\<close>, \<^verbatim>\<open>url.ParseQuery\<close> with the \<^verbatim>\<open>Get\<close> and \<^verbatim>\<open>Has\<close> of its result, and
  \<^verbatim>\<open>base64.StdEncoding\<close>. The interface their clients rely on is the locale \<open>text_codec\<close>, and
  \<open>safe_codec\<close> for an encoding that avoids a set of separators.
\<close>

section \<open>Codecs\<close>

locale text_codec =
  fixes enc :: "string \<Rightarrow> string" and dec :: "string \<Rightarrow> string result"
  assumes dec_enc [simp]: "dec (enc s) = Inr s"
begin

lemma enc_inject [simp]: "enc s = enc t \<longleftrightarrow> s = t"
  by (metis dec_enc sum.inject(2))

lemma mapE_dec_enc: "mapE dec (map enc ss) = Inr ss"
  by (simp add: mapE_Inr_iff list_all2_conv_all_nth)

end

locale safe_codec = text_codec +
  fixes reserved :: "char set"
  assumes enc_safe: "set (enc s) \<inter> reserved = {}"
begin

lemma enc_avoids [simp]: "c \<in> reserved \<Longrightarrow> c \<notin> set (enc s)"
  using enc_safe [of s] by blast

text \<open>Encoded fields can be joined with a reserved separator and recovered.\<close>

lemma split_join_enc:
  "c \<in> reserved \<Longrightarrow> ss \<noteq> [] \<Longrightarrow> splitOn c (joinWith c (map enc ss)) = map enc ss"
  by (intro splitOn_joinWith) auto

lemma fields_round_trip:
  "c \<in> reserved \<Longrightarrow> ss \<noteq> [] \<Longrightarrow> mapE dec (splitOn c (joinWith c (map enc ss))) = Inr ss"
  by (simp add: split_join_enc mapE_dec_enc)

end

text \<open>Two codecs in sequence are a codec; the separators the outer one avoids stay avoided.\<close>

locale codec_pair = outer: safe_codec enc2 dec2 reserved + inner: text_codec enc1 dec1
  for enc2 dec2 reserved enc1 dec1
begin

lemma both_round_trip: "bindE (dec2 (enc2 (enc1 s))) dec1 = Inr s"
  by simp

lemma both_avoids: "c \<in> reserved \<Longrightarrow> c \<notin> set (enc2 (enc1 s))"
  by simp

end

section \<open>Query escaping\<close>

definition byte :: "char \<Rightarrow> nat" where "byte c = of_char c"

lemma byte_less [simp]: "byte c < 256"
  by (simp add: byte_def)

lemma char_of_byte [simp]: "char_of (byte c) = c"
  by (simp add: byte_def)

lemma byte_char_of [simp]: "n < 256 \<Longrightarrow> byte (char_of n) = n"
  by (simp add: byte_def)

lemma byte_inject [simp]: "byte c = byte d \<longleftrightarrow> c = d"
  by (metis char_of_byte)

definition isAlnum :: "char \<Rightarrow> bool" where
  "isAlnum c \<longleftrightarrow> (let b = byte c in 48 \<le> b \<and> b \<le> 57 \<or> 65 \<le> b \<and> b \<le> 90 \<or> 97 \<le> b \<and> b \<le> 122)"

definition unreserved :: "char \<Rightarrow> bool" where
  "unreserved c \<longleftrightarrow> isAlnum c \<or> c \<in> set ''-_.~''"

definition upperhex :: "nat \<Rightarrow> char" where
  "upperhex n = (if n < 10 then char_of (48 + n) else char_of (55 + n))"

definition unhex :: "char \<Rightarrow> nat option" where
  "unhex c = (let b = byte c in
     if 48 \<le> b \<and> b \<le> 57 then Some (b - 48)
     else if 97 \<le> b \<and> b \<le> 102 then Some (b - 87)
     else if 65 \<le> b \<and> b \<le> 70 then Some (b - 55)
     else None)"

fun QueryEscape :: "string \<Rightarrow> string" where
  "QueryEscape [] = []"
| "QueryEscape (c # cs) =
     (if unreserved c then c # QueryEscape cs
      else if c = CHR '' '' then CHR ''+'' # QueryEscape cs
      else CHR ''%'' # upperhex (byte c div 16) # upperhex (byte c mod 16) # QueryEscape cs)"

definition escapeError :: error where
  "escapeError = Err ''invalid URL escape''"

fun QueryUnescape :: "string \<Rightarrow> string result" where
  "QueryUnescape [] = Inr []"
| "QueryUnescape (c # cs) =
     (if c = CHR ''%'' then
        (case cs of
           h # l # rest \<Rightarrow>
             (case (unhex h, unhex l) of
                (Some a, Some b) \<Rightarrow>
                  bindE (QueryUnescape rest) (\<lambda>s. Inr (char_of (16 * a + b) # s))
              | _ \<Rightarrow> Inl escapeError)
         | _ \<Rightarrow> Inl escapeError)
      else bindE (QueryUnescape cs) (\<lambda>s. Inr ((if c = CHR ''+'' then CHR '' '' else c) # s)))"

lemma unhex_upperhex [simp]: "n < 16 \<Longrightarrow> unhex (upperhex n) = Some n"
  by (auto simp: unhex_def upperhex_def Let_def)

lemma isAlnum_char_of: "(n::nat) < 256 \<Longrightarrow>
  isAlnum (char_of n) \<longleftrightarrow> 48 \<le> n \<and> n \<le> 57 \<or> 65 \<le> n \<and> n \<le> 90 \<or> 97 \<le> n \<and> n \<le> 122"
  by (simp add: isAlnum_def Let_def)

lemma isAlnum_upperhex [simp]: "n < 16 \<Longrightarrow> isAlnum (upperhex n)"
  by (auto simp: upperhex_def isAlnum_char_of)

lemma not_isAlnum_separators [simp]:
  "\<not> isAlnum CHR ''%''" "\<not> isAlnum CHR ''+''" "\<not> isAlnum CHR ''&''" "\<not> isAlnum CHR ''=''"
  "\<not> isAlnum CHR '';''" "\<not> isAlnum CHR ''#''" "\<not> isAlnum CHR '' ''" "\<not> isAlnum CHR ''?''"
  by (simp_all add: isAlnum_def byte_def)

lemma unreserved_not_special: "unreserved c \<Longrightarrow> c \<noteq> CHR ''%'' \<and> c \<noteq> CHR ''+''"
  by (auto simp: unreserved_def)

lemma byte_hex_bounds [simp]: "byte c div 16 < 16" "byte c mod 16 < 16"
  using byte_less [of c] by (auto simp: less_mult_imp_div_less)

lemma byte_hex_join [simp]: "char_of (16 * (byte c div 16) + byte c mod 16) = c"
  by (metis char_of_byte mult_div_mod_eq)

lemma QueryUnescape_QueryEscape: "QueryUnescape (QueryEscape s) = Inr s"
  by (induction s) (auto dest: unreserved_not_special)

lemma QueryEscape_chars:
  "c \<in> set (QueryEscape s) \<Longrightarrow> unreserved c \<or> c = CHR ''+'' \<or> c = CHR ''%''"
  by (induction s) (auto simp: unreserved_def split: if_splits)

definition querySeparators :: "char set" where
  "querySeparators = {CHR ''&'', CHR ''='', CHR '';'', CHR ''#'', CHR '' '', CHR ''?''}"

interpretation query: safe_codec QueryEscape QueryUnescape querySeparators
proof unfold_locales
  show "QueryUnescape (QueryEscape s) = Inr s" for s by (rule QueryUnescape_QueryEscape)
  show "set (QueryEscape s) \<inter> querySeparators = {}" for s
    by (auto simp: querySeparators_def unreserved_def dest!: QueryEscape_chars)
qed

lemma querySeparators_mem [simp]:
  "CHR ''&'' \<in> querySeparators" "CHR ''='' \<in> querySeparators" "CHR '';'' \<in> querySeparators"
  by (simp_all add: querySeparators_def)

section \<open>Parsed queries\<close>

text \<open>\<^verbatim>\<open>url.Values\<close> keeps the values of a key in the order they appear; an association list of all
  the pairs in order carries the same information. A pair that contains a semicolon, or whose key or
  value cannot be unescaped, is dropped.\<close>

definition parsePair :: "string \<Rightarrow> (string \<times> string) option" where
  "parsePair p =
     (if CHR '';'' \<in> set p \<or> p = [] then None
      else (case cutAt CHR ''='' p of (k, v, _) \<Rightarrow>
        (case (QueryUnescape k, QueryUnescape v) of
           (Inr k', Inr v') \<Rightarrow> Some (k', v') | _ \<Rightarrow> None)))"

definition ParseQuery :: "string \<Rightarrow> (string \<times> string) list" where
  "ParseQuery q = List.map_filter parsePair (splitOn CHR ''&'' q)"

definition valuesGet :: "(string \<times> string) list \<Rightarrow> string \<Rightarrow> string" where
  "valuesGet vs k = (case map_of vs k of None \<Rightarrow> [] | Some v \<Rightarrow> v)"

definition valuesHas :: "(string \<times> string) list \<Rightarrow> string \<Rightarrow> bool" where
  "valuesHas vs k \<longleftrightarrow> k \<in> fst ` set vs"

lemma map_filter_append [simp]:
  "List.map_filter f (xs @ ys) = List.map_filter f xs @ List.map_filter f ys"
  by (simp add: map_filter_def)

lemma ParseQuery_append:
  "ParseQuery (s @ CHR ''&'' # t) = ParseQuery s @ ParseQuery t"
  by (simp add: ParseQuery_def splitOn_append_gen)

lemma ParseQuery_pair:
  assumes "set k \<inter> querySeparators = {}" and "k \<noteq> []" and "QueryUnescape k = Inr k'"
  shows "ParseQuery (k @ CHR ''='' # QueryEscape v) = [(k', v)]"
proof -
  have sep: "CHR ''&'' \<notin> set k" "CHR ''='' \<notin> set k" "CHR '';'' \<notin> set k"
    using assms(1) by (auto simp: querySeparators_def)
  have "CHR ''&'' \<notin> set (k @ CHR ''='' # QueryEscape v)"
    using sep by simp
  then show ?thesis
    using assms sep
    by (simp add: ParseQuery_def splitOn_no_sep parsePair_def map_filter_simps)
qed

section \<open>Base 64\<close>

definition b64char :: "nat \<Rightarrow> char" where
  "b64char n = (if n < 26 then char_of (65 + n) else if n < 52 then char_of (71 + n)
     else if n < 62 then char_of (n - 4) else if n = 62 then CHR ''+'' else CHR ''/'')"

definition b64val :: "char \<Rightarrow> nat option" where
  "b64val c = (let b = byte c in
     if 65 \<le> b \<and> b \<le> 90 then Some (b - 65)
     else if 97 \<le> b \<and> b \<le> 122 then Some (b - 71)
     else if 48 \<le> b \<and> b \<le> 57 then Some (b + 4)
     else if c = CHR ''+'' then Some 62 else if c = CHR ''/'' then Some 63 else None)"

fun base64Encode :: "string \<Rightarrow> string" where
  "base64Encode [] = []"
| "base64Encode [a] =
     (let n = byte a * 16 in [b64char (n div 64), b64char (n mod 64), CHR ''='', CHR ''=''])"
| "base64Encode [a, b] =
     (let n = (byte a * 256 + byte b) * 4
      in [b64char (n div 4096), b64char (n div 64 mod 64), b64char (n mod 64), CHR ''=''])"
| "base64Encode (a # b # c # rest) =
     (let n = byte a * 65536 + byte b * 256 + byte c
      in b64char (n div 262144) # b64char (n div 4096 mod 64) # b64char (n div 64 mod 64)
         # b64char (n mod 64) # base64Encode rest)"

definition base64Error :: error where
  "base64Error = Err ''illegal base64 data''"

fun b64decodeQuanta :: "string \<Rightarrow> string result" where
  "b64decodeQuanta [] = Inr []"
| "b64decodeQuanta (c1 # c2 # c3 # c4 # rest) =
     (case (b64val c1, b64val c2) of
        (Some v1, Some v2) \<Rightarrow>
          (if c3 = CHR ''='' then
             (if c4 = CHR ''='' \<and> rest = [] then Inr [char_of ((v1 * 64 + v2) div 16)]
              else Inl base64Error)
           else (case b64val c3 of
              None \<Rightarrow> Inl base64Error
            | Some v3 \<Rightarrow>
                (if c4 = CHR ''='' then
                   (if rest = [] then
                      (let n = (v1 * 4096 + v2 * 64 + v3) div 4
                       in Inr [char_of (n div 256), char_of (n mod 256)])
                    else Inl base64Error)
                 else (case b64val c4 of
                    None \<Rightarrow> Inl base64Error
                  | Some v4 \<Rightarrow>
                      (let n = v1 * 262144 + v2 * 4096 + v3 * 64 + v4
                       in bindE (b64decodeQuanta rest) (\<lambda>s. Inr
                            (char_of (n div 65536) # char_of (n div 256 mod 256) # char_of (n mod 256) # s)))))))
      | _ \<Rightarrow> Inl base64Error)"
| "b64decodeQuanta _ = Inl base64Error"

text \<open>\<^verbatim>\<open>DecodeString\<close> skips carriage returns and newlines.\<close>

definition base64Decode :: "string \<Rightarrow> string result" where
  "base64Decode s = b64decodeQuanta (filter (\<lambda>c. c \<noteq> CHR 0x0A \<and> c \<noteq> CHR 0x0D) s)"

lemma b64val_b64char [simp]: "n < 64 \<Longrightarrow> b64val (b64char n) = Some n"
  by (auto simp: b64val_def b64char_def Let_def byte_def)

lemma b64char_not_special [simp]:
  "n < 64 \<Longrightarrow> b64char n \<noteq> CHR ''=''" "n < 64 \<Longrightarrow> b64char n \<noteq> CHR 0x0A" "n < 64 \<Longrightarrow> b64char n \<noteq> CHR 0x0D"
proof -
  have "b64val CHR ''='' = None" "b64val CHR 0x0A = None" "b64val CHR 0x0D = None"
    by (simp_all add: b64val_def byte_def)
  then show "n < 64 \<Longrightarrow> b64char n \<noteq> CHR ''=''" "n < 64 \<Longrightarrow> b64char n \<noteq> CHR 0x0A"
    "n < 64 \<Longrightarrow> b64char n \<noteq> CHR 0x0D"
    by (metis b64val_b64char option.distinct(1))+
qed

text \<open>Splitting a 24-bit value into sextets and joining them again.\<close>

lemma join3:
  fixes n :: nat
  shows "n = q1 * 64 + r1 \<Longrightarrow> q1 = q2 * 64 + r2 \<Longrightarrow> q2 = q3 * 64 + r3 \<Longrightarrow>
    q3 * 262144 + r3 * 4096 + r2 * 64 + r1 = n"
  by simp

lemma join2:
  fixes n :: nat
  shows "n = q1 * 64 + r1 \<Longrightarrow> q1 = q2 * 64 + r2 \<Longrightarrow> q2 * 4096 + r2 * 64 + r1 = n"
  by simp

lemma sextets_join:
  fixes n :: nat
  assumes "n < 16777216"
  shows "n div 262144 * 262144 + n div 4096 mod 64 * 4096 + n div 64 mod 64 * 64 + n mod 64 = n"
    and "n div 262144 < 64"
proof -
  have d: "n div 4096 = n div 64 div 64" "n div 262144 = n div 64 div 64 div 64"
    by (simp_all flip: div_mult2_eq)
  show "n div 262144 * 262144 + n div 4096 mod 64 * 4096 + n div 64 mod 64 * 64 + n mod 64 = n"
    unfolding d by (rule join3) (rule div_mult_mod_eq [symmetric])+
  show "n div 262144 < 64" using assms by (simp add: div_less_iff_less_mult)
qed

lemma octets_split:
  fixes a b c :: nat
  assumes "a < 256" "b < 256" "c < 256"
  shows "a * 65536 + b * 256 + c < 16777216"
    and "(a * 65536 + b * 256 + c) div 65536 = a"
    and "(a * 65536 + b * 256 + c) div 256 mod 256 = b"
    and "(a * 65536 + b * 256 + c) mod 256 = c"
proof -
  have 1: "a * 65536 + b * 256 + c = c + (b + a * 256) * 256" by simp
  have 2: "(a * 65536 + b * 256 + c) div 256 = b + a * 256"
    unfolding 1 using assms(3) by (subst div_mult_self1) auto
  show "a * 65536 + b * 256 + c < 16777216" using assms by simp
  show "(a * 65536 + b * 256 + c) mod 256 = c"
    unfolding 1 using assms(3) by (subst mod_mult_self1) auto
  show "(a * 65536 + b * 256 + c) div 256 mod 256 = b" unfolding 2 using assms(2) by simp
  have "(a * 65536 + b * 256 + c) div 65536 = (a * 65536 + b * 256 + c) div 256 div 256"
    by (simp flip: div_mult2_eq)
  then show "(a * 65536 + b * 256 + c) div 65536 = a" unfolding 2 using assms(2) by simp
qed

lemma quantum3:
  fixes a b c :: char
  defines "n \<equiv> byte a * 65536 + byte b * 256 + byte c"
  shows "b64decodeQuanta (b64char (n div 262144) # b64char (n div 4096 mod 64)
      # b64char (n div 64 mod 64) # b64char (n mod 64) # rest)
    = bindE (b64decodeQuanta rest) (\<lambda>s. Inr (a # b # c # s))"
proof -
  note o = octets_split [of "byte a" "byte b" "byte c", folded n_def]
  have n: "n < 16777216" by (rule o(1)) simp_all
  have "n div 262144 * 262144 + n div 4096 mod 64 * 4096 + n div 64 mod 64 * 64 + n mod 64 = n"
    by (rule sextets_join(1) [OF n])
  moreover have "char_of n = c" "char_of (n div 256) = b"
    using o(3,4) by (metis byte_less char_of_byte char_of_mod_256)+
  ultimately show ?thesis
    using sextets_join(2) [OF n] o(2) by (simp add: Let_def)
qed

lemma base64_quanta_round_trip: "b64decodeQuanta (base64Encode s) = Inr s"
proof (induction s rule: base64Encode.induct)
  case (2 a)
  have "byte a * 16 div 64 < 64" using byte_less [of a] by (simp add: div_less_iff_less_mult)
  moreover have "byte a * 16 div 64 * 64 + byte a * 16 mod 64 = byte a * 16"
    by (rule div_mult_mod_eq)
  ultimately show ?case
    unfolding base64Encode.simps Let_def by (simp del: div_mult_mult1_if div_mult_mult2 div_mult_mult1)
next
  case (3 a b)
  let ?m = "byte a * 256 + byte b"
  have m: "?m < 65536" using byte_less [of a] byte_less [of b] by linarith
  have s: "?m * 4 div 4096 < 64" using m by (simp add: div_less_iff_less_mult)
  have "?m * 4 div 4096 = ?m * 4 div 64 div 64" by (simp flip: div_mult2_eq)
  then have "?m * 4 div 4096 * 4096 + ?m * 4 div 64 mod 64 * 64 + ?m * 4 mod 64 = ?m * 4"
    by (simp only: join2 [OF div_mult_mod_eq [symmetric] div_mult_mod_eq [symmetric]])
  moreover have "?m div 256 = byte a" by simp
  moreover have "char_of (256 * byte a + byte b) = b"
    using char_of_mod_256 [of "256 * byte a + byte b"] by simp
  ultimately show ?case using s by (simp add: Let_def del: div_mult_mult1_if)
next
  case (4 a b c rest)
  show ?case
    unfolding base64Encode.simps Let_def quantum3 using 4 by simp
qed simp

lemma base64Encode_alphabet: "c \<in> set (base64Encode s) \<Longrightarrow> c = CHR ''='' \<or> b64val c \<noteq> None"
proof (induction s rule: base64Encode.induct)
  case (2 a)
  have "byte a * 16 div 64 < 64" using byte_less [of a] by (simp add: div_less_iff_less_mult)
  with 2 show ?case by (auto simp: Let_def simp del: div_mult_mult1_if)
next
  case (3 a b)
  have "byte a * 256 + byte b < 65536" using byte_less [of a] byte_less [of b] by linarith
  then have "(byte a * 256 + byte b) * 4 div 4096 < 64" by (simp add: div_less_iff_less_mult)
  with 3 show ?case by (auto simp: Let_def simp del: div_mult_mult1_if)
next
  case (4 a b d rest)
  have "(byte a * 65536 + byte b * 256 + byte d) div 262144 < 64"
    using octets_split(1) [of "byte a" "byte b" "byte d"] by (intro sextets_join(2)) simp
  with 4 show ?case by (auto simp: Let_def)
qed simp

lemma base64Encode_no_newline: "c \<in> set (base64Encode s) \<Longrightarrow> c \<noteq> CHR 0x0A \<and> c \<noteq> CHR 0x0D"
  by (drule base64Encode_alphabet) (auto simp: b64val_def byte_def)

text \<open>No byte of an encoding is one that a white space character can start or end with.\<close>

lemma base64Encode_printable: "c \<in> set (base64Encode s) \<Longrightarrow> 32 < byte c \<and> byte c < 128"
  by (drule base64Encode_alphabet) (auto simp: b64val_def byte_def Let_def split: if_splits)

interpretation base64: text_codec base64Encode base64Decode
proof unfold_locales
  fix s
  have "filter (\<lambda>c. c \<noteq> CHR 0x0A \<and> c \<noteq> CHR 0x0D) (base64Encode s) = base64Encode s"
    using base64Encode_no_newline by (intro filter_True) blast
  then show "base64Decode (base64Encode s) = Inr s"
    by (simp add: base64Decode_def base64_quanta_round_trip)
qed

interpretation query_base64: codec_pair QueryEscape QueryUnescape querySeparators base64Encode base64Decode
  by unfold_locales

end
