(* ===== verification/Dsig_Keys.thy ===== *)
theory Dsig_Keys
  imports Externals Go_Encoding
begin

text \<open>
  The keys of \<^verbatim>\<open>internal/dsig\<close>: the key stores (\<^verbatim>\<open>keystore.go\<close>, \<^verbatim>\<open>tls_keystore.go\<close>), the two
  forms of an ECDSA signature (\<^verbatim>\<open>ecdsa.go\<close>), and the part of \<^verbatim>\<open>SigningContext\<close> (\<^verbatim>\<open>sign.go\<close>)
  that selects an algorithm and signs a digest or a string. The interface
  \<open>signing_key_pair\<close> is what a verifier relies on: a certificate whose key verifies what the
  signing key signs.
\<close>

section \<open>Big-endian integers\<close>

text \<open>\<^verbatim>\<open>big.Int.SetBytes\<close> and \<^verbatim>\<open>big.Int.FillBytes\<close> on a buffer of the given size.\<close>

definition SetBytes :: "string \<Rightarrow> nat" where
  "SetBytes s = foldl (\<lambda>n c. n * 256 + byte c) 0 s"

fun FillBytes :: "nat \<Rightarrow> nat \<Rightarrow> string" where
  "FillBytes 0 n = []"
| "FillBytes (Suc k) n = FillBytes k (n div 256) @ [char_of (n mod 256)]"

lemma length_FillBytes [simp]: "length (FillBytes k n) = k"
  by (induction k n rule: FillBytes.induct) auto

lemma SetBytes_FillBytes: "n < 256 ^ k \<Longrightarrow> SetBytes (FillBytes k n) = n"
proof (induction k n rule: FillBytes.induct)
  case (2 k n)
  have "n div 256 < 256 ^ k" using "2.prems" by (simp add: less_mult_imp_div_less mult.commute)
  with "2.IH" have "SetBytes (FillBytes k (n div 256)) = n div 256" by simp
  moreover have "byte (char_of (n mod 256)) = n mod 256" by (rule byte_char_of) simp
  ultimately show ?case by (simp add: SetBytes_def del: char_of_mod_256)
qed (simp add: SetBytes_def)

section \<open>ECDSA signatures\<close>

definition ecdsaFieldSize :: "nat \<Rightarrow> nat" where
  "ecdsaFieldSize orderBits = (orderBits + 7) div 8"

text \<open>\<^verbatim>\<open>ecdsaDERToRaw\<close>; \<open>rawInRange\<close> is the check in its loop, where \<^verbatim>\<open>BitLen() > size*8\<close>
  says that the value needs more than \<open>sz\<close> bytes.\<close>

definition rawInRange :: "nat \<Rightarrow> int \<Rightarrow> bool" where
  "rawInRange sz v \<longleftrightarrow> \<not> (v \<le> 0 \<or> v \<ge> 2 ^ (sz * 8))"

definition ecdsaDERToRaw :: "externs \<Rightarrow> nat \<Rightarrow> string \<Rightarrow> string result" where
  "ecdsaDERToRaw X orderBits der =
     bindE (wrapE (Wrapf ''invalid ECDSA signature from signer: %w'' []) (x_Asn1UnmarshalEcdsa X der))
       (\<lambda>(r, s, rest).
         if rest \<noteq> [] then Inl (Err ''invalid ECDSA signature from signer: trailing data'')
         else let sz = ecdsaFieldSize orderBits in
           if \<not> rawInRange sz r \<or> \<not> rawInRange sz s
           then Inl (Err ''invalid ECDSA signature from signer: value out of range'')
           else Inr (FillBytes sz (nat r) @ FillBytes sz (nat s)))"

definition ecdsaRawToDER :: "externs \<Rightarrow> nat \<Rightarrow> string \<Rightarrow> string result" where
  "ecdsaRawToDER X orderBits raw =
     (let sz = ecdsaFieldSize orderBits in
        if length raw \<noteq> 2 * sz then Inl (Err ''invalid ECDSA signature length %d, expected %d'')
        else x_Asn1MarshalEcdsa X (SetBytes (take sz raw)) (SetBytes (drop sz raw)))"

definition isECDSAAlgorithm :: "signature_algorithm \<Rightarrow> bool" where
  "isECDSAAlgorithm alg \<longleftrightarrow> fst alg = AlgECDSA"

definition checkSignature :: "externs \<Rightarrow> certificate \<Rightarrow> signature_algorithm \<Rightarrow> string \<Rightarrow> string \<Rightarrow> unit result" where
  "checkSignature X cert alg signed signature =
     (case cert_PublicKey cert of
        ECDSA_Key _ orderBits _ \<Rightarrow>
          if isECDSAAlgorithm alg
          then bindE (ecdsaRawToDER X orderBits signature) (\<lambda>der. x_CheckSignature X cert alg signed der)
          else x_CheckSignature X cert alg signed signature
      | _ \<Rightarrow> x_CheckSignature X cert alg signed signature)"

definition DefaultECDSASignatureMethod :: "nat \<Rightarrow> string" where
  "DefaultECDSASignatureMethod orderBits =
     (if orderBits \<le> 256 then ECDSASHA256SignatureMethod
      else if orderBits \<le> 384 then ECDSASHA384SignatureMethod
      else ECDSASHA512SignatureMethod)"

lemma pow_256: "(2::int) ^ (k * 8) = 256 ^ k"
  using power_mult [of "2::int" 8 k] by (simp add: mult.commute)

lemma rawInRange_bound: "rawInRange k v \<Longrightarrow> nat v < 256 ^ k"
  unfolding rawInRange_def pow_256 by (simp add: nat_less_iff)

lemma rawInRange_round_trip: "rawInRange k v \<Longrightarrow> SetBytes (FillBytes k (nat v)) = nat v"
  by (rule SetBytes_FillBytes [OF rawInRange_bound])

text \<open>A raw signature has the length the verifier demands, and its halves read back as the values
  of the DER signature.\<close>

lemma ecdsaDERToRaw_shape:
  assumes "ecdsaDERToRaw X bits der = Inr raw"
  obtains r s where
    "x_Asn1UnmarshalEcdsa X der = Inr (r, s, [])" "0 < r" "0 < s"
    "length raw = 2 * ecdsaFieldSize bits"
    "SetBytes (take (ecdsaFieldSize bits) raw) = nat r"
    "SetBytes (drop (ecdsaFieldSize bits) raw) = nat s"
proof -
  from assms obtain r s where *: "x_Asn1UnmarshalEcdsa X der = Inr (r, s, [])"
      "rawInRange (ecdsaFieldSize bits) r" "rawInRange (ecdsaFieldSize bits) s"
      "raw = FillBytes (ecdsaFieldSize bits) (nat r) @ FillBytes (ecdsaFieldSize bits) (nat s)"
    by (auto simp: ecdsaDERToRaw_def Let_def split: if_splits)
  then have "0 < r" "0 < s" by (auto simp: rawInRange_def)
  with * show ?thesis
    by (intro that [of r s]) (auto simp: rawInRange_round_trip)
qed

text \<open>The validity period of a certificate, as every check of it tests it.\<close>

definition certValidAt :: "time \<Rightarrow> certificate \<Rightarrow> bool" where
  "certValidAt now cert \<longleftrightarrow> \<not> (now < cert_NotBefore cert \<or> now > cert_NotAfter cert)"

section \<open>Key stores\<close>

datatype private_key = RSA_Private string | Other_Private string

datatype keystore =
    MemoryX509KeyStore string string
  | TLSCertKeyStore private_key "string list"

definition GetKeyPair :: "keystore \<Rightarrow> (string \<times> string) result" where
  "GetKeyPair ks =
     (case ks of
        MemoryX509KeyStore key cert \<Rightarrow> Inr (key, cert)
      | TLSCertKeyStore pk certs \<Rightarrow>
          (case pk of
             Other_Private _ \<Rightarrow> Inl (Err ''Private key was not RSA'')
           | RSA_Private key \<Rightarrow>
               (case certs of [] \<Rightarrow> Inl (Err ''No public certificates provided'')
                | crt # _ \<Rightarrow> Inr (key, crt))))"

text \<open>\<^verbatim>\<open>GetChain\<close> of the stores that have one.\<close>

definition GetChain :: "keystore \<Rightarrow> string list result option" where
  "GetChain ks = (case ks of TLSCertKeyStore _ certs \<Rightarrow> Some (Inr certs) | _ \<Rightarrow> None)"

section \<open>Signing contexts\<close>

text \<open>The canonicalizers of \<^verbatim>\<open>canonicalize.go\<close>; the flag keeps comments.\<close>

datatype canonicalizer =
    NullCanonicalizer
  | C14N10Exclusive string bool
  | C14N11 bool
  | C14N10Rec bool

definition canonAlgorithm :: "canonicalizer \<Rightarrow> string" where
  "canonAlgorithm c =
     (case c of
        NullCanonicalizer \<Rightarrow> ''NULL''
      | C14N10Exclusive _ comments \<Rightarrow>
          if comments then ''http://www.w3.org/2001/10/xml-exc-c14n#WithComments''
          else ''http://www.w3.org/2001/10/xml-exc-c14n#''
      | C14N11 comments \<Rightarrow>
          if comments then ''http://www.w3.org/2006/12/xml-c14n11#WithComments''
          else ''http://www.w3.org/2006/12/xml-c14n11''
      | C14N10Rec comments \<Rightarrow>
          if comments then ''http://www.w3.org/TR/2001/REC-xml-c14n-20010315#WithComments''
          else ''http://www.w3.org/TR/2001/REC-xml-c14n-20010315'')"

text \<open>A \<^verbatim>\<open>crypto.Signer\<close>: its private key, its public key, and whether it is a private key of the
  standard library (\<^verbatim>\<open>*rsa.PrivateKey\<close> for an RSA key) rather than another type with a \<^verbatim>\<open>Sign\<close> method.\<close>

record signer =
  sg_Key :: string
  sg_Public :: public_key
  sg_Native :: bool

text \<open>A context signs either with a key store or with a signer and its certificates: the fields
  \<^verbatim>\<open>KeyStore\<close> and \<^verbatim>\<open>signer\<close>, \<^verbatim>\<open>certs\<close> are mutually exclusive.\<close>

datatype key_source = FromKeyStore keystore | FromSigner signer "string list"

record signing_context =
  ctx_Hash :: hash
  ctx_Source :: key_source
  ctx_IdAttribute :: string
  ctx_Prefix :: string
  ctx_Canonicalizer :: canonicalizer

definition DefaultIdAttr :: string where "DefaultIdAttr = ''ID''"
definition DefaultPrefix :: string where "DefaultPrefix = ''ds''"

definition NewDefaultSigningContext :: "keystore \<Rightarrow> signing_context" where
  "NewDefaultSigningContext ks =
     \<lparr>ctx_Hash = SHA256, ctx_Source = FromKeyStore ks, ctx_IdAttribute = DefaultIdAttr,
      ctx_Prefix = DefaultPrefix, ctx_Canonicalizer = C14N11 False\<rparr>"

definition NewSigningContext :: "signer option \<Rightarrow> string list \<Rightarrow> signing_context result" where
  "NewSigningContext sg certs =
     (case sg of
        None \<Rightarrow> Inl (Err ''signer cannot be nil for NewSigningContext'')
      | Some s \<Rightarrow> Inr \<lparr>ctx_Hash = SHA256, ctx_Source = FromSigner s certs, ctx_IdAttribute = DefaultIdAttr,
          ctx_Prefix = DefaultPrefix, ctx_Canonicalizer = C14N11 False\<rparr>)"

definition getPublicKeyAlgorithm :: "signing_context \<Rightarrow> key_algorithm" where
  "getPublicKeyAlgorithm ctx =
     (case ctx_Source ctx of
        FromKeyStore _ \<Rightarrow> AlgRSA | FromSigner s _ \<Rightarrow> keyAlgorithm (sg_Public s))"

definition SetSignatureMethod :: "signing_context \<Rightarrow> string \<Rightarrow> signing_context result" where
  "SetSignatureMethod ctx algorithmID =
     (case signatureMethodsByIdentifier algorithmID of
        None \<Rightarrow> Inl (Errorf ''unknown SignatureMethod: %s'' [algorithmID])
      | Some (alg, h) \<Rightarrow>
          if alg \<noteq> getPublicKeyAlgorithm ctx
          then Inl (Errorf ''SignatureMethod %s is incompatible with %s key'' [algorithmID])
          else Inr (ctx\<lparr>ctx_Hash := h\<rparr>))"

definition GetSignatureMethodIdentifier :: "signing_context \<Rightarrow> string" where
  "GetSignatureMethodIdentifier ctx = signatureMethodIdentifier (getPublicKeyAlgorithm ctx) (ctx_Hash ctx)"

definition GetDigestAlgorithmIdentifier :: "signing_context \<Rightarrow> string" where
  "GetDigestAlgorithmIdentifier ctx = digestAlgorithmIdentifier (ctx_Hash ctx)"

text \<open>\<^verbatim>\<open>signDigest\<close>: \<open>rnd\<close> is what the signer reads from \<^verbatim>\<open>rand.Reader\<close>. An RSA private key's
  \<^verbatim>\<open>Sign\<close> with a hash as its options is \<^verbatim>\<open>rsa.SignPKCS1v15\<close>.\<close>

definition signDigest :: "externs \<Rightarrow> string \<Rightarrow> signing_context \<Rightarrow> string \<Rightarrow> string result" where
  "signDigest X rnd ctx digest =
     (case ctx_Source ctx of
        FromKeyStore ks \<Rightarrow>
          bindE (GetKeyPair ks) (\<lambda>(key, _). x_Sign X rnd key digest (ctx_Hash ctx))
      | FromSigner s _ \<Rightarrow>
          bindE (x_Sign X rnd (sg_Key s) digest (ctx_Hash ctx)) (\<lambda>raw.
            case sg_Public s of ECDSA_Key _ orderBits _ \<Rightarrow> ecdsaDERToRaw X orderBits raw
            | _ \<Rightarrow> Inr raw))"

definition getCerts :: "signing_context \<Rightarrow> string list result" where
  "getCerts ctx =
     (case ctx_Source ctx of
        FromKeyStore ks \<Rightarrow>
          (case GetChain ks of Some chain \<Rightarrow> chain
           | None \<Rightarrow> bindE (GetKeyPair ks) (\<lambda>(_, cert). Inr [cert]))
      | FromSigner _ certs \<Rightarrow> Inr certs)"

definition SignString :: "externs \<Rightarrow> string \<Rightarrow> signing_context \<Rightarrow> string \<Rightarrow> string result" where
  "SignString X rnd ctx content =
     (if length content < 1 then Inl (Err ''zero length hash'')
      else signDigest X rnd ctx (x_Hash X (ctx_Hash ctx) content))"

lemma SetSignatureMethod_Inr:
  "SetSignatureMethod ctx m = Inr ctx' \<longleftrightarrow>
   (\<exists>h. signatureMethodsByIdentifier m = Some (getPublicKeyAlgorithm ctx, h) \<and> ctx' = ctx\<lparr>ctx_Hash := h\<rparr>)"
  by (auto simp: SetSignatureMethod_def split: option.splits if_splits)

text \<open>A context whose method has been set announces that method.\<close>

lemma SetSignatureMethod_announced:
  assumes "SetSignatureMethod ctx m = Inr ctx'"
  shows "GetSignatureMethodIdentifier ctx' = m" "ctx_Source ctx' = ctx_Source ctx"
    "getPublicKeyAlgorithm ctx' \<noteq> AlgUnknown"
  using assms signatureMethodsByIdentifier_Some
  by (auto simp: SetSignatureMethod_Inr GetSignatureMethodIdentifier_def getPublicKeyAlgorithm_def)

end
