(* ===== verification/Dsig_Tree.thy ===== *)
theory Dsig_Tree
  imports Dsig_Keys "HOL-Library.Multiset"
begin

text \<open>
  The tree operations of \<^verbatim>\<open>internal/dsig/etreeutils\<close> and \<^verbatim>\<open>internal/dsig/canonicalize.go\<close>: the
  canonical order of attributes (\<^verbatim>\<open>sort.go\<close>), detaching and searching with namespaces
  (\<^verbatim>\<open>namespace.go\<close>), exclusive canonicalization (\<^verbatim>\<open>etreeutils/canonicalize.go\<close>) and the
  canonicalizers. Operations that mutate an element return the changed element.
\<close>

section \<open>Elements as etree has them\<close>

definition setAttrs :: "element \<Rightarrow> attr list \<Rightarrow> element" where
  "setAttrs el as = Element (el_Space el) (el_Tag el) as (el_Child el)"

definition setChild :: "element \<Rightarrow> token list \<Rightarrow> element" where
  "setChild el ts = Element (el_Space el) (el_Tag el) (el_Attr el) ts"

lemma setAttrs_sel [simp]: "el_Space (setAttrs el as) = el_Space el" "el_Tag (setAttrs el as) = el_Tag el"
  "el_Attr (setAttrs el as) = as" "el_Child (setAttrs el as) = el_Child el"
  by (simp_all add: setAttrs_def)

lemma setChild_sel [simp]: "el_Space (setChild el ts) = el_Space el" "el_Tag (setChild el ts) = el_Tag el"
  "el_Attr (setChild el ts) = el_Attr el" "el_Child (setChild el ts) = ts"
  by (simp_all add: setChild_def)

lemma size_list_el_Child: "size_list size (el_Child el) < size el"
  by (cases el) simp

text \<open>\<^verbatim>\<open>SelectAttr\<close> with a key that has no prefix: the first attribute with that local name, in any
  namespace.\<close>

definition SelectAttr :: "element \<Rightarrow> string \<Rightarrow> attr option" where
  "SelectAttr el key = find (\<lambda>a. at_Key a = key) (el_Attr el)"

definition SelectAttrValue :: "element \<Rightarrow> string \<Rightarrow> string \<Rightarrow> string" where
  "SelectAttrValue el key dflt = (case SelectAttr el key of None \<Rightarrow> dflt | Some a \<Rightarrow> at_Value a)"

text \<open>\<^verbatim>\<open>CreateAttr\<close>: replaces the value of the first attribute of that name, or appends one.\<close>

fun createAttr :: "string \<Rightarrow> string \<Rightarrow> string \<Rightarrow> attr list \<Rightarrow> attr list" where
  "createAttr sp key val [] = [mkAttr sp key val]"
| "createAttr sp key val (a # as) =
     (if at_Space a = sp \<and> at_Key a = key then mkAttr sp key val # as else a # createAttr sp key val as)"

definition CreateAttr :: "string \<Rightarrow> string \<Rightarrow> string \<Rightarrow> element \<Rightarrow> element" where
  "CreateAttr sp key val el = setAttrs el (createAttr sp key val (el_Attr el))"

lemma createAttr_set: "set (createAttr sp k v as) \<subseteq> insert (mkAttr sp k v) (set as)"
  by (induction as) auto

lemma createAttr_kept:
  "a \<in> set as \<Longrightarrow> a \<in> set (createAttr sp k v as) \<or> at_Space a = sp \<and> at_Key a = k \<and> mkAttr sp k v \<in> set (createAttr sp k v as)"
  by (induction as) auto

definition AddChild :: "token \<Rightarrow> element \<Rightarrow> element" where
  "AddChild t el = setChild el (el_Child el @ [t])"

definition isComment :: "token \<Rightarrow> bool" where
  "isComment t \<longleftrightarrow> (case t of Comment _ \<Rightarrow> True | _ \<Rightarrow> False)"

section \<open>The canonical order of attributes\<close>

text \<open>\<^verbatim>\<open>SortedAttrs.Less\<close> of the attributes \<open>x\<close> and \<open>y\<close> of the slice \<open>a\<close>. The loop that looks a
  prefix up keeps the last match.\<close>

definition lastNamed :: "attr list \<Rightarrow> string \<Rightarrow> string" where
  "lastNamed a prefix = (case find (\<lambda>n. at_Key n = prefix) (rev a) of None \<Rightarrow> [] | Some n \<Rightarrow> at_Value n)"

definition attrLess :: "attr list \<Rightarrow> attr \<Rightarrow> attr \<Rightarrow> bool" where
  "attrLess a x y =
     (if at_Space y = defaultPrefix \<and> at_Key y = xmlnsPrefix then False
      else if at_Space x = defaultPrefix \<and> at_Key x = xmlnsPrefix then True
      else if at_Space x = xmlnsPrefix then (if at_Space y = xmlnsPrefix then at_Key x < at_Key y else True)
      else if at_Space y = xmlnsPrefix then False
      else if at_Space x = defaultPrefix then (if at_Space y = defaultPrefix then at_Key x < at_Key y else True)
      else if at_Space y = defaultPrefix then False
      else if at_Space x = at_Space y then at_Key x < at_Key y
      else if at_Key x = at_Key y then lastNamed a (at_Space x) < lastNamed a (at_Space y)
      else at_Key x < at_Key y)"

text \<open>\<^verbatim>\<open>sort.Sort\<close> is an insertion sort on up to twelve elements. \<open>sinkAttr\<close> moves \<open>x\<close> left past the
  elements it is less than: \<open>left\<close> holds those before it, nearest first, \<open>right\<close> those it has
  passed and \<open>rest\<close> those not sorted yet. On longer slices the result is the same whenever the
  order of the attributes is total, which it is unless two attributes have one name.\<close>

fun sinkAttr :: "attr list \<Rightarrow> attr \<Rightarrow> attr list \<Rightarrow> attr list \<Rightarrow> attr list" where
  "sinkAttr [] x right rest = x # right"
| "sinkAttr (y # left) x right rest =
     (if attrLess (rev (y # left) @ x # right @ rest) x y then sinkAttr left x (y # right) rest
      else rev (y # left) @ x # right)"

fun insertionSortAttrs :: "attr list \<Rightarrow> attr list \<Rightarrow> attr list" where
  "insertionSortAttrs acc [] = acc"
| "insertionSortAttrs acc (x # xs) = insertionSortAttrs (sinkAttr (rev acc) x [] xs) xs"

definition sortAttrs :: "attr list \<Rightarrow> attr list" where
  "sortAttrs as = insertionSortAttrs [] as"

lemma mset_sinkAttr: "mset (sinkAttr left x right rest) = mset left + {#x#} + mset right"
  by (induction left x right rest rule: sinkAttr.induct) auto

lemma mset_insertionSortAttrs: "mset (insertionSortAttrs acc xs) = mset acc + mset xs"
  by (induction acc xs rule: insertionSortAttrs.induct) (auto simp: mset_sinkAttr)

lemma mset_sortAttrs [simp]: "mset (sortAttrs as) = mset as"
  by (simp add: sortAttrs_def mset_insertionSortAttrs)

lemma set_sortAttrs [simp]: "set (sortAttrs as) = set as"
  by (metis mset_sortAttrs set_mset_mset)

section \<open>Detaching an element\<close>

text \<open>\<^verbatim>\<open>NSDetatch\<close>. The limit that the check uses up is returned with the element. The prefix map is
  enumerated in the order of its list; the attributes are sorted afterwards.\<close>

definition detachedAttrs :: "nscontext \<Rightarrow> element \<Rightarrow> attr list" where
  "detachedAttrs ctx el =
     sortAttrs
       (filter (\<lambda>a. \<not> isNSDecl a) (el_Attr el)
        @ map (\<lambda>(p, n). if p \<noteq> defaultPrefix then mkAttr xmlnsPrefix p n else mkAttr [] xmlnsPrefix n)
            (filter (\<lambda>(p, n). \<not> (p = xmlnsPrefix \<or> p = xmlPrefix) \<and> \<not> (p = defaultPrefix \<and> n = XMLNamespace))
               (ns_prefixes ctx)))"

definition NSDetatch :: "nscontext \<Rightarrow> nat \<Rightarrow> element \<Rightarrow> (nat \<times> element) result" where
  "NSDetatch ctx limit el =
     bindE (checkSubtreeLimit limit el) (\<lambda>limit.
       bindE (SubContext ctx el) (\<lambda>ctx. Inr (limit, setAttrs el (detachedAttrs ctx el))))"

section \<open>Searching\<close>

text \<open>What a handler of a traversal does with an element: it fails, it halts the traversal with a value,
  or it lets it go on. In each case it may have changed the element and used up some of the limit.\<close>

datatype 'r visit = VErr error | VHalt 'r nat element | VNext nat element

text \<open>The outcome of a traversal. A halted one gives the path, by child indices, to the element that the
  handler halted at.\<close>

datatype ('r, 't) walk = WErr error | WHalt 'r "nat list" nat 't | WDone nat 't

text \<open>\<^verbatim>\<open>NSTraverse\<close>. A handler never gives back more of the limit than it was given, so taking the
  smaller of the two changes nothing; it makes the limit a measure of the recursion.\<close>

function (sequential) NSTraverse ::
  "(nscontext \<Rightarrow> nat \<Rightarrow> element \<Rightarrow> 'r visit) \<Rightarrow> nscontext \<Rightarrow> nat \<Rightarrow> element \<Rightarrow> ('r, element) walk"
and NSTraverseChildren ::
  "(nscontext \<Rightarrow> nat \<Rightarrow> element \<Rightarrow> 'r visit) \<Rightarrow> nscontext \<Rightarrow> nat \<Rightarrow> nat \<Rightarrow> token list \<Rightarrow> ('r, token list) walk" where
  "NSTraverse handle ctx limit el =
     (case CheckLimit limit of Inl e \<Rightarrow> WErr e | Inr limit1 \<Rightarrow>
       (case SubContext ctx el of Inl e \<Rightarrow> WErr e | Inr ctx1 \<Rightarrow>
         (case handle ctx1 limit1 el of
            VErr e \<Rightarrow> WErr e
          | VHalt r limit2 el2 \<Rightarrow> WHalt r [] limit2 el2
          | VNext limit2 el2 \<Rightarrow>
              (case NSTraverseChildren handle ctx1 (min limit1 limit2) 0 (el_Child el2) of
                 WErr e \<Rightarrow> WErr e
               | WHalt r path limit3 ts \<Rightarrow> WHalt r path limit3 (setChild el2 ts)
               | WDone limit3 ts \<Rightarrow> WDone limit3 (setChild el2 ts)))))"
| "NSTraverseChildren handle ctx limit i [] = WDone limit []"
| "NSTraverseChildren handle ctx limit i (Elem c # ts) =
     (case NSTraverse handle ctx limit c of
        WErr e \<Rightarrow> WErr e
      | WHalt r path limit1 c1 \<Rightarrow> WHalt r (i # path) limit1 (Elem c1 # ts)
      | WDone limit1 c1 \<Rightarrow>
          (case NSTraverseChildren handle ctx (min limit limit1) (Suc i) ts of
             WErr e \<Rightarrow> WErr e
           | WHalt r path limit2 ts2 \<Rightarrow> WHalt r path limit2 (Elem c1 # ts2)
           | WDone limit2 ts2 \<Rightarrow> WDone limit2 (Elem c1 # ts2)))"
| "NSTraverseChildren handle ctx limit i (t # ts) =
     (case NSTraverseChildren handle ctx limit (Suc i) ts of
        WErr e \<Rightarrow> WErr e
      | WHalt r path limit2 ts2 \<Rightarrow> WHalt r path limit2 (t # ts2)
      | WDone limit2 ts2 \<Rightarrow> WDone limit2 (t # ts2))"
  by pat_completeness auto
termination
  by (relation "inv_image (less_than <*lex*> less_than)
      (case_sum (\<lambda>(_, _, l, _). (l, 0::nat)) (\<lambda>(_, _, l, _, ts). (l, Suc (length ts))))")
    (auto simp: CheckLimit_def split: if_splits)

declare NSTraverse.simps [simp del]

text \<open>The test of \<^verbatim>\<open>NSFindIterateCtx\<close> and \<^verbatim>\<open>NSFindChildrenIterateCtx\<close>.\<close>

definition nsMatches :: "nscontext \<Rightarrow> element \<Rightarrow> string \<Rightarrow> string \<Rightarrow> bool result" where
  "nsMatches ctx el namespace tag =
     bindE (SubContext ctx el) (\<lambda>c. bindE (LookupPrefix c (el_Space el)) (\<lambda>currentNS.
       Inr (currentNS = namespace \<and> el_Tag el = tag)))"

definition NSFindIterateCtx ::
  "nscontext \<Rightarrow> nat \<Rightarrow> element \<Rightarrow> string \<Rightarrow> string \<Rightarrow> (nscontext \<Rightarrow> nat \<Rightarrow> element \<Rightarrow> 'r visit) \<Rightarrow> ('r, element) walk" where
  "NSFindIterateCtx ctx limit el namespace tag handle =
     NSTraverse (\<lambda>ctx limit el.
       case nsMatches ctx el namespace tag of
         Inl e \<Rightarrow> VErr e
       | Inr found \<Rightarrow> if found then handle ctx limit el else VNext limit el) ctx limit el"

definition NSFindIterate ::
  "element \<Rightarrow> string \<Rightarrow> string \<Rightarrow> (nscontext \<Rightarrow> nat \<Rightarrow> element \<Rightarrow> 'r visit) \<Rightarrow> ('r, element) walk" where
  "NSFindIterate el namespace tag handle =
     NSFindIterateCtx NewDefaultNSContext defaultLimit el namespace tag handle"

text \<open>\<^verbatim>\<open>NSIterateChildren\<close>, its loop over the child tokens, of which \<open>i\<close> is the index of the first.
  The handler returns a value to halt with, if any, and the limit that is left.\<close>

fun iterateChildren ::
  "(nscontext \<Rightarrow> nat \<Rightarrow> nat \<Rightarrow> element \<Rightarrow> ('r option \<times> nat) result) \<Rightarrow> nscontext \<Rightarrow> nat \<Rightarrow> nat \<Rightarrow> token list \<Rightarrow>
   ('r option \<times> nat) result" where
  "iterateChildren handle ctx limit i [] = Inr (None, limit)"
| "iterateChildren handle ctx limit i (Elem c # ts) =
     bindE (CheckLimit limit) (\<lambda>limit1. bindE (handle ctx limit1 i c) (\<lambda>(r, limit2).
       case r of Some x \<Rightarrow> Inr (Some x, limit2) | None \<Rightarrow> iterateChildren handle ctx limit2 (Suc i) ts))"
| "iterateChildren handle ctx limit i (t # ts) = iterateChildren handle ctx limit (Suc i) ts"

definition NSIterateChildren ::
  "(nscontext \<Rightarrow> nat \<Rightarrow> nat \<Rightarrow> element \<Rightarrow> ('r option \<times> nat) result) \<Rightarrow> nscontext \<Rightarrow> nat \<Rightarrow> element \<Rightarrow>
   ('r option \<times> nat) result" where
  "NSIterateChildren handle ctx limit el =
     bindE (SubContext ctx el) (\<lambda>ctx. iterateChildren handle ctx limit 0 (el_Child el))"

definition NSFindChildrenIterateCtx ::
  "nscontext \<Rightarrow> nat \<Rightarrow> element \<Rightarrow> string \<Rightarrow> string \<Rightarrow>
   (nscontext \<Rightarrow> nat \<Rightarrow> nat \<Rightarrow> element \<Rightarrow> ('r option \<times> nat) result) \<Rightarrow> ('r option \<times> nat) result" where
  "NSFindChildrenIterateCtx ctx limit el namespace tag handle =
     NSIterateChildren (\<lambda>ctx limit i c.
       bindE (nsMatches ctx c namespace tag) (\<lambda>found.
         if found then handle ctx limit i c else Inr (None, limit))) ctx limit el"

definition NSFindOneChildCtx ::
  "nscontext \<Rightarrow> nat \<Rightarrow> element \<Rightarrow> string \<Rightarrow> string \<Rightarrow> (element option \<times> nat) result" where
  "NSFindOneChildCtx ctx limit el namespace tag =
     NSFindChildrenIterateCtx ctx limit el namespace tag (\<lambda>ctx limit i c. Inr (Some c, limit))"


section \<open>Exclusive canonicalization\<close>

text \<open>\<^verbatim>\<open>strings.Fields\<close>, on the white space of ASCII.\<close>

fun fieldsAux :: "string \<Rightarrow> string \<Rightarrow> string list" where
  "fieldsAux cur [] = (if cur = [] then [] else [rev cur])"
| "fieldsAux cur (c # cs) =
     (if isSpaceByte c \<or> c = CHR 0x0B then (if cur = [] then [] else [rev cur]) @ fieldsAux [] cs
      else fieldsAux (c # cur) cs)"

definition Fields :: "string \<Rightarrow> string list" where
  "Fields s = fieldsAux [] s"

text \<open>The first loop of \<^verbatim>\<open>transformExcC14n\<close>: the prefixes that the element visibly utilizes, and the
  attributes that are no namespace declarations.\<close>

definition utilizedBy :: "string list \<Rightarrow> attr \<Rightarrow> string list" where
  "utilizedBy inclusiveNamespaces a =
     (if at_Space a = xmlnsPrefix then (if at_Key a \<in> set inclusiveNamespaces then [at_Key a] else [])
      else if at_Space a = defaultPrefix \<and> at_Key a = xmlnsPrefix
        then (if defaultPrefix \<in> set inclusiveNamespaces then [defaultPrefix] else [])
      else if at_Space a \<noteq> defaultPrefix then [at_Space a] else [])"

definition visiblyUtilizedPrefixes :: "string list \<Rightarrow> element \<Rightarrow> string list" where
  "visiblyUtilizedPrefixes inclusiveNamespaces el =
     remdups (el_Space el # concat (map (utilizedBy inclusiveNamespaces) (el_Attr el)))"

text \<open>The second loop: the declarations that the canonical form needs, and the context of the prefixes it
  has declared.\<close>

fun declareUtilized :: "nscontext \<Rightarrow> nscontext \<Rightarrow> string list \<Rightarrow> (attr list \<times> nscontext) result" where
  "declareUtilized scope declared [] = Inr ([], declared)"
| "declareUtilized scope declared (p # ps) =
     (if map_of (ns_prefixes declared) p \<noteq> None \<and> map_of (ns_prefixes declared) p = map_of (ns_prefixes scope) p
      then declareUtilized scope declared ps
      else bindE (LookupPrefix scope p) (\<lambda>namespace.
        bindE (declareUtilized scope (declare_ns declared p namespace) ps) (\<lambda>(as, declared').
          Inr (ns_attr p namespace # as, declared'))))"

function (sequential) transformExcC14n ::
  "nscontext \<Rightarrow> nscontext \<Rightarrow> string list \<Rightarrow> bool \<Rightarrow> element \<Rightarrow> element result"
and transformTokens ::
  "nscontext \<Rightarrow> nscontext \<Rightarrow> string list \<Rightarrow> bool \<Rightarrow> token list \<Rightarrow> token list result" where
  "transformExcC14n ctx declared inclusiveNamespaces comments el =
     bindE (SubContext ctx el) (\<lambda>scope.
       bindE (declareUtilized scope declared (visiblyUtilizedPrefixes inclusiveNamespaces el)) (\<lambda>(decls, declared').
         bindE (transformTokens scope declared' inclusiveNamespaces comments (el_Child el)) (\<lambda>ts.
           Inr (Element (el_Space el) (el_Tag el)
                  (sortAttrs (filter (\<lambda>a. \<not> isNSDecl a) (el_Attr el) @ decls)) ts))))"
| "transformTokens scope declared inclusiveNamespaces comments [] = Inr []"
| "transformTokens scope declared inclusiveNamespaces comments (Elem c # ts) =
     bindE (transformExcC14n scope declared inclusiveNamespaces comments c) (\<lambda>c'.
       bindE (transformTokens scope declared inclusiveNamespaces comments ts) (\<lambda>ts'. Inr (Elem c' # ts')))"
| "transformTokens scope declared inclusiveNamespaces comments (t # ts) =
     bindE (transformTokens scope declared inclusiveNamespaces comments ts) (\<lambda>ts'.
       Inr (if \<not> comments \<and> isComment t then ts' else t # ts'))"
  by pat_completeness auto
termination
  by (relation "measure (case_sum (\<lambda>(_, _, _, _, el). size el) (\<lambda>(_, _, _, _, ts). size_list size ts))")
    (auto simp: size_list_el_Child)

declare transformExcC14n.simps [simp del]

definition TransformExcC14n :: "string \<Rightarrow> bool \<Rightarrow> element \<Rightarrow> element result" where
  "TransformExcC14n inclusiveNamespacesPrefixList comments el =
     transformExcC14n NewDefaultNSContext NewDefaultNSContext (Fields inclusiveNamespacesPrefixList) comments el"

section \<open>Inclusive canonicalization\<close>

text \<open>\<^verbatim>\<open>canonicalPrepInner\<close>: the attributes to keep, given what has been declared so far.\<close>

fun prepAttrs :: "(string \<times> string) list \<Rightarrow> attr list \<Rightarrow> attr list \<times> (string \<times> string) list" where
  "prepAttrs seen [] = ([], seen)"
| "prepAttrs seen (a # as) =
     (if at_Space a \<noteq> xmlnsPrefix \<and> \<not> (at_Space a = [] \<and> at_Key a = xmlnsPrefix)
      then (let (ks, seen') = prepAttrs seen as in (a # ks, seen'))
      else let key = (if at_Space a = xmlnsPrefix then at_Space a @ '':'' @ at_Key a else xmlnsPrefix);
               keep = (if at_Space a = xmlnsPrefix
                       then map_of seen key = None \<or> the_default [] (map_of seen key) \<noteq> at_Value a
                       else map_of seen key = None \<and> at_Value a \<noteq> [] \<or> at_Value a \<noteq> the_default [] (map_of seen key))
           in if keep then (let (ks, seen') = prepAttrs ((key, at_Value a) # seen) as in (a # ks, seen'))
              else prepAttrs seen as)"

function (sequential) canonicalPrepInner :: "(string \<times> string) list \<Rightarrow> bool \<Rightarrow> element \<Rightarrow> element"
and prepTokens :: "(string \<times> string) list \<Rightarrow> bool \<Rightarrow> token list \<Rightarrow> token list" where
  "canonicalPrepInner seenSoFar comments el =
     (let (as, seen) = prepAttrs seenSoFar (sortAttrs (el_Attr el))
      in Element (el_Space el) (el_Tag el) as (prepTokens seen comments (el_Child el)))"
| "prepTokens seen comments [] = []"
| "prepTokens seen comments (Elem c # ts) =
     Elem (canonicalPrepInner seen comments c) # prepTokens seen comments ts"
| "prepTokens seen comments (t # ts) =
     (if \<not> comments \<and> isComment t then prepTokens seen comments ts else t # prepTokens seen comments ts)"
  by pat_completeness auto
termination
  by (relation "measure (case_sum (\<lambda>(_, _, el). size el) (\<lambda>(_, _, ts). size_list size ts))")
    (auto simp: size_list_el_Child)

declare canonicalPrepInner.simps [simp del]

definition canonicalPrep :: "bool \<Rightarrow> element \<Rightarrow> element" where
  "canonicalPrep comments el = canonicalPrepInner [] comments el"

text \<open>\<^verbatim>\<open>getParentNamespaceAndXmlAttributes\<close>, on the ancestors of the element, nearest first: the
  declarations in scope and the inherited attributes of the xml namespace, the outermost first. An
  inner one replaces the value of an outer one.\<close>

definition mapUpdate :: "string \<Rightarrow> string \<Rightarrow> (string \<times> string) list \<Rightarrow> (string \<times> string) list" where
  "mapUpdate k v m =
     (if map_of m k = None then m @ [(k, v)] else map (\<lambda>(k', v'). (k', if k' = k then v else v')) m)"

definition parentAttribute ::
  "attr \<Rightarrow> (string \<times> string) list \<times> (string \<times> string) list \<Rightarrow> (string \<times> string) list \<times> (string \<times> string) list" where
  "parentAttribute a maps = (case maps of (namespaceMap, xmlMap) \<Rightarrow>
     if at_Space a = xmlnsPrefix \<and> (at_Key a \<noteq> xmlPrefix \<or> at_Value a \<noteq> XMLNamespace)
     then (mapUpdate (at_Key a) (at_Value a) namespaceMap, xmlMap)
     else if at_Space a = [] \<and> at_Key a = xmlnsPrefix
     then (mapUpdate (at_Key a) (at_Value a) namespaceMap, xmlMap)
     else if at_Space a = xmlPrefix then (namespaceMap, mapUpdate (at_Key a) (at_Value a) xmlMap)
     else (namespaceMap, xmlMap))"

definition getParentNamespaceAndXmlAttributes ::
  "element list \<Rightarrow> (string \<times> string) list \<times> (string \<times> string) list" where
  "getParentNamespaceAndXmlAttributes ancestors =
     fold parentAttribute (concat (map el_Attr (rev ancestors))) ([], [])"

definition enhanceNamespaceAttributes ::
  "(string \<times> string) list \<times> (string \<times> string) list \<Rightarrow> element \<Rightarrow> element" where
  "enhanceNamespaceAttributes maps el =
     fold (\<lambda>(k, v). CreateAttr xmlPrefix k v) (snd maps)
       (fold (\<lambda>(p, uri). if p = xmlnsPrefix then CreateAttr [] xmlnsPrefix uri else CreateAttr xmlnsPrefix p uri)
          (fst maps) el)"

section \<open>The canonicalizers\<close>

text \<open>\<^verbatim>\<open>Canonicalize\<close> of each canonicalizer, on an element and its ancestors: the element as it is left,
  which the exclusive canonicalizer transforms in place, and the canonical bytes.\<close>

definition Canonicalize :: "externs \<Rightarrow> canonicalizer \<Rightarrow> node \<Rightarrow> (element \<times> string) result" where
  "Canonicalize X c nd = (case nd of (ancestors, el) \<Rightarrow>
     (case c of
        NullCanonicalizer \<Rightarrow> Inr (el, x_CanonicalWrite X (canonicalPrep True el))
      | C14N10Exclusive prefixList comments \<Rightarrow>
          bindE (TransformExcC14n prefixList comments el) (\<lambda>el'. Inr (el', x_CanonicalWrite X el'))
      | C14N11 comments \<Rightarrow> Inr (el, x_CanonicalWrite X (canonicalPrep comments el))
      | C14N10Rec comments \<Rightarrow>
          Inr (el, x_CanonicalWrite X (canonicalPrep comments
            (enhanceNamespaceAttributes (getParentNamespaceAndXmlAttributes ancestors) el)))))"

end
