(* ===== verification/Dsig_Canon.thy ===== *)
theory Dsig_Canon
  imports Dsig_Tree
begin

text \<open>
  What exclusive canonicalization means. The names of an element and of its attributes are prefixes that
  a namespace context resolves; \<open>expand\<close> resolves them all. Canonicalization rewrites the
  declarations and the order of the attributes, and may drop comments, and nothing else: the expanded
  tree stays the same.
\<close>

section \<open>Expanded trees\<close>

datatype xnode = XElem string string "(string \<times> string \<times> string) multiset" "xnode list" | XToken token

text \<open>The expanded name of an attribute: one without a prefix is in no namespace.\<close>

definition expandAttr :: "nscontext \<Rightarrow> attr \<Rightarrow> (string \<times> string \<times> string) result" where
  "expandAttr ctx a =
     (if at_Space a = defaultPrefix then Inr ([], at_Key a, at_Value a)
      else bindE (LookupPrefix ctx (at_Space a)) (\<lambda>ns. Inr (ns, at_Key a, at_Value a)))"

function (sequential) expand :: "nscontext \<Rightarrow> bool \<Rightarrow> element \<Rightarrow> xnode result"
and expandTokens :: "nscontext \<Rightarrow> bool \<Rightarrow> token list \<Rightarrow> xnode list result" where
  "expand ctx comments el =
     bindE (SubContext ctx el) (\<lambda>scope.
       bindE (LookupPrefix scope (el_Space el)) (\<lambda>ns.
         bindE (mapE (expandAttr scope) (filter (\<lambda>a. \<not> isNSDecl a) (el_Attr el))) (\<lambda>as.
           bindE (expandTokens scope comments (el_Child el)) (\<lambda>ts.
             Inr (XElem ns (el_Tag el) (mset as) ts)))))"
| "expandTokens scope comments [] = Inr []"
| "expandTokens scope comments (Elem c # ts) =
     bindE (expand scope comments c) (\<lambda>x. bindE (expandTokens scope comments ts) (\<lambda>xs. Inr (x # xs)))"
| "expandTokens scope comments (t # ts) =
     bindE (expandTokens scope comments ts) (\<lambda>xs.
       Inr (if \<not> comments \<and> isComment t then xs else XToken t # xs))"
  by pat_completeness auto
termination
  by (relation "measure (case_sum (\<lambda>(_, _, el). size el) (\<lambda>(_, _, ts). size_list size ts))")
    (auto simp: size_list_el_Child)

declare expand.simps [simp del]

section \<open>Contexts as maps\<close>

definition ns_eq :: "nscontext \<Rightarrow> nscontext \<Rightarrow> bool" where
  "ns_eq c d \<longleftrightarrow> map_of (ns_prefixes c) = map_of (ns_prefixes d)"

text \<open>What an attribute declares, and whether a context accepts the declaration.\<close>

definition declaresNS :: "attr \<Rightarrow> (string \<times> string) option" where
  "declaresNS a = (if at_Space a = xmlnsPrefix then Some (at_Key a, at_Value a)
     else if isDefaultDecl a then Some (defaultPrefix, at_Value a) else None)"

definition declOK :: "attr \<Rightarrow> bool" where
  "declOK a \<longleftrightarrow> (at_Space a = xmlnsPrefix \<longrightarrow> at_Key a \<noteq> xmlnsPrefix \<and> (at_Key a = xmlPrefix \<longrightarrow> at_Value a = XMLNamespace)) \<and>
     (isDefaultDecl a \<longrightarrow> at_Value a \<noteq> XMLNSNamespace)"

lemma prefix_consts_distinct [simp]: "xmlnsPrefix \<noteq> defaultPrefix" "xmlPrefix \<noteq> defaultPrefix"
  "xmlnsPrefix \<noteq> xmlPrefix" "defaultPrefix \<noteq> xmlnsPrefix" "defaultPrefix \<noteq> xmlPrefix" "xmlPrefix \<noteq> xmlnsPrefix"
  "XMLNamespace \<noteq> XMLNSNamespace"
  by (simp_all add: ns_const_defs)

text \<open>\<^verbatim>\<open>SubContext\<close> succeeds exactly on acceptable declarations, and the last one of a prefix wins.\<close>

lemma subContextAttrs_map:
  "(\<exists>e. subContextAttrs ctx as = Inl e) \<and> (\<exists>a \<in> set as. \<not> declOK a) \<or>
   (\<exists>ctx'. subContextAttrs ctx as = Inr ctx' \<and> (\<forall>a \<in> set as. declOK a) \<and>
      map_of (ns_prefixes ctx') = map_of (ns_prefixes ctx) ++ map_of (rev (List.map_filter declaresNS as)))"
proof (induction ctx as rule: subContextAttrs.induct)
  case (1 ctx)
  then show ?case by (simp add: map_filter_simps)
next
  case (2 ctx a as)
  have m: "(\<lambda>b. if b = p then Some n else map_of (ns_prefixes ctx) b) = (map_of (ns_prefixes ctx))(p \<mapsto> n)" for p n
    by auto
  show ?case
  proof (cases "declOK a")
    case False
    then show ?thesis by (auto simp: declOK_def isDefaultDecl_def)
  next
    case ok: True
    show ?thesis
    proof (cases "declaresNS a")
      case None
      then have "at_Space a \<noteq> xmlnsPrefix" "\<not> (at_Space a = defaultPrefix \<and> at_Key a = xmlnsPrefix)"
        by (auto simp: declaresNS_def isDefaultDecl_def split: if_splits)
      then have step: "subContextAttrs ctx (a # as) = subContextAttrs ctx as"
        and ih: "(\<exists>e. subContextAttrs ctx as = Inl e) \<and> (\<exists>a \<in> set as. \<not> declOK a) \<or>
          (\<exists>ctx'. subContextAttrs ctx as = Inr ctx' \<and> (\<forall>a \<in> set as. declOK a) \<and>
            map_of (ns_prefixes ctx') = map_of (ns_prefixes ctx) ++ map_of (rev (List.map_filter declaresNS as)))"
        using 2(3) by auto
      show ?thesis unfolding step using ih ok None by (auto simp: map_filter_simps)
    next
      case (Some pn)
      obtain p n where pn: "pn = (p, n)" by (cases pn)
      consider (pre) "at_Space a = xmlnsPrefix" "\<not> (at_Key a = xmlPrefix \<and> at_Value a \<noteq> XMLNamespace)"
            "at_Key a \<noteq> xmlnsPrefix" "p = at_Key a" "n = at_Value a"
        | (dflt) "at_Space a \<noteq> xmlnsPrefix" "at_Space a = defaultPrefix \<and> at_Key a = xmlnsPrefix"
            "at_Value a \<noteq> XMLNSNamespace" "p = defaultPrefix" "n = at_Value a"
        using Some pn ok by (auto simp: declaresNS_def declOK_def isDefaultDecl_def split: if_splits)
      then show ?thesis
      proof cases
        case pre
        with 2(1) [OF pre(1-3)] ok Some pn show ?thesis
          by (auto simp: map_filter_simps m)
      next
        case dflt
        with 2(2) [OF dflt(1-3)] ok Some pn show ?thesis
          by (auto simp: map_filter_simps m)
      qed
    qed
  qed
qed

lemma subContextAttrs_Inr:
  "subContextAttrs ctx as = Inr ctx' \<Longrightarrow> (\<forall>a \<in> set as. declOK a) \<and>
     map_of (ns_prefixes ctx') = map_of (ns_prefixes ctx) ++ map_of (rev (List.map_filter declaresNS as))"
  using subContextAttrs_map [of ctx as] by auto

lemma subContextAttrs_ok:
  assumes "\<forall>a \<in> set as. declOK a"
  obtains ctx' where "subContextAttrs ctx as = Inr ctx'"
    "map_of (ns_prefixes ctx') = map_of (ns_prefixes ctx) ++ map_of (rev (List.map_filter declaresNS as))"
  using subContextAttrs_map [of ctx as] assms by auto


lemma ns_eq_refl [simp]: "ns_eq c c"
  by (simp add: ns_eq_def)

lemma LookupPrefix_cong: "ns_eq c d \<Longrightarrow> LookupPrefix c p = LookupPrefix d p"
  by (simp add: ns_eq_def LookupPrefix_def)

lemma expandAttr_cong: "ns_eq c d \<Longrightarrow> expandAttr c = expandAttr d"
  by (rule ext) (simp add: expandAttr_def LookupPrefix_cong)

lemma SubContext_cong:
  assumes "ns_eq c d" "SubContext c el = Inr c'"
  obtains d' where "SubContext d el = Inr d'" "ns_eq c' d'"
proof -
  note c = subContextAttrs_Inr [OF assms(2) [unfolded SubContext_def]]
  obtain d' where "subContextAttrs d (el_Attr el) = Inr d'"
    "map_of (ns_prefixes d') = map_of (ns_prefixes d) ++ map_of (rev (List.map_filter declaresNS (el_Attr el)))"
    using subContextAttrs_ok c by metis
  with c assms(1) show ?thesis by (intro that [of d']) (auto simp: SubContext_def ns_eq_def)
qed

lemma expand_cong:
  "ns_eq c d \<Longrightarrow> expand c com el = Inr x \<Longrightarrow> expand d com el = Inr x"
  "ns_eq c d \<Longrightarrow> expandTokens c com ts = Inr xs \<Longrightarrow> expandTokens d com ts = Inr xs"
proof (induction c com el and c com ts arbitrary: d x and d xs
    rule: expand_expandTokens.induct [case_names 1 2 3 chardata comment procinst directive])
  case (1 ctx com el)
  from 1(3) obtain scope ns as ts where s: "SubContext ctx el = Inr scope" "LookupPrefix scope (el_Space el) = Inr ns"
      "mapE (expandAttr scope) (filter (\<lambda>a. \<not> isNSDecl a) (el_Attr el)) = Inr as"
      "expandTokens scope com (el_Child el) = Inr ts" "x = XElem ns (el_Tag el) (mset as) ts"
    by (auto simp: expand.simps [of ctx])
  obtain d' where d: "SubContext d el = Inr d'" "ns_eq scope d'" using SubContext_cong [OF 1(2) s(1)] .
  have "expandTokens d' com (el_Child el) = Inr ts" using 1(1) [OF s(1-3) d(2) s(4)] .
  with s d show ?case
    unfolding expand.simps [of d]
    by (simp add: LookupPrefix_cong [OF d(2), symmetric] expandAttr_cong [OF d(2), symmetric])
next
  case (3 scope com c ts)
  from 3(4) obtain x ys where x: "expand scope com c = Inr x" and ys: "expandTokens scope com ts = Inr ys"
      and xs: "xs = x # ys" by auto
  have "expand d com c = Inr x" using 3(1) [OF 3(3) x] .
  moreover have "expandTokens d com ts = Inr ys" using 3(2) [OF x 3(3) ys] .
  ultimately show ?case by (simp add: xs)
next
  case (chardata scope com v ts)
  then show ?case by (cases "expandTokens scope com ts") auto
next
  case (comment scope com v ts)
  then show ?case by (cases "expandTokens scope com ts") auto
next
  case (procinst scope com v va ts)
  then show ?case by (cases "expandTokens scope com ts") auto
next
  case (directive scope com v ts)
  then show ?case by (cases "expandTokens scope com ts") auto
qed simp_all

section \<open>What a canonical form declares\<close>

text \<open>The contexts that occur: the reserved prefixes have their fixed values, and the default namespace
  is not that of declarations. A declaration of a prefix names the prefix.\<close>

definition ns_wf :: "nscontext \<Rightarrow> bool" where
  "ns_wf c \<longleftrightarrow> map_of (ns_prefixes c) xmlPrefix = Some XMLNamespace \<and>
     map_of (ns_prefixes c) xmlnsPrefix = Some XMLNSNamespace \<and>
     map_of (ns_prefixes c) defaultPrefix \<notin> {None, Some XMLNSNamespace}"

definition attrsNamed :: "attr list \<Rightarrow> bool" where
  "attrsNamed as \<longleftrightarrow> (\<forall>a \<in> set as. at_Space a = xmlnsPrefix \<longrightarrow> at_Key a \<noteq> defaultPrefix)"

lemma ns_wf_default [simp]: "ns_wf NewDefaultNSContext"
  by (simp add: ns_wf_def NewDefaultNSContext_def)

lemma subContextAttrs_wf:
  "subContextAttrs ctx as = Inr ctx' \<Longrightarrow> ns_wf ctx \<Longrightarrow> attrsNamed as \<Longrightarrow> ns_wf ctx'"
  by (induction ctx as rule: subContextAttrs.induct) (auto simp: ns_wf_def attrsNamed_def split: if_splits)


lemma SubContext_wf: "SubContext ctx el = Inr ctx' \<Longrightarrow> ns_wf ctx \<Longrightarrow> attrsNamed (el_Attr el) \<Longrightarrow> ns_wf ctx'"
  unfolding SubContext_def by (rule subContextAttrs_wf)

text \<open>The declarations that \<^verbatim>\<open>transformExcC14n\<close> adds: each of a prefix that may be declared, none twice,
  and after them every utilized prefix means what it means in the original scope.\<close>

definition addable :: "string \<times> string \<Rightarrow> bool" where
  "addable pn \<longleftrightarrow> fst pn \<notin> {xmlPrefix, xmlnsPrefix} \<and> (fst pn = defaultPrefix \<longrightarrow> snd pn \<noteq> XMLNSNamespace)"

lemma declareUtilized_spec:
  assumes "declareUtilized scope D ps = Inr (decls, D')" "distinct ps" "ns_wf scope" "ns_wf D"
  shows "\<exists>pairs. decls = map (\<lambda>(p, n). ns_attr p n) pairs \<and> distinct (map fst pairs) \<and>
    fst ` set pairs \<subseteq> set ps \<and> (\<forall>pn \<in> set pairs. addable pn) \<and> ns_wf D' \<and>
    map_of (ns_prefixes D') = map_of (ns_prefixes D) ++ map_of pairs \<and>
    (\<forall>p \<in> set ps. map_of (ns_prefixes scope) p \<noteq> None \<and> map_of (ns_prefixes D') p = map_of (ns_prefixes scope) p)"
  using assms
proof (induction scope D ps arbitrary: decls D' rule: declareUtilized.induct)
  case (1 scope D)
  then show ?case by simp
next
  case (2 scope D p ps)
  show ?case
  proof (cases "map_of (ns_prefixes D) p \<noteq> None \<and> map_of (ns_prefixes D) p = map_of (ns_prefixes scope) p")
    case True
    have "declareUtilized scope D ps = Inr (decls, D')"
      using 2(3) unfolding declareUtilized.simps if_P [OF True] .
    with 2(1) [OF True] 2(4-6)
    obtain pairs where pairs: "decls = map (\<lambda>(p, n). ns_attr p n) pairs" "distinct (map fst pairs)"
        "fst ` set pairs \<subseteq> set ps" "\<forall>pn \<in> set pairs. addable pn" "ns_wf D'"
        "map_of (ns_prefixes D') = map_of (ns_prefixes D) ++ map_of pairs"
        "\<forall>p \<in> set ps. map_of (ns_prefixes scope) p \<noteq> None \<and> map_of (ns_prefixes D') p = map_of (ns_prefixes scope) p"
      by (metis distinct.simps(2))
    have "map_of pairs p = None" using pairs(3) 2(4) by (auto simp: map_of_eq_None_iff)
    then have "map_of (ns_prefixes D') p = map_of (ns_prefixes D) p" by (simp add: pairs(6) map_add_def)
    with True have "map_of (ns_prefixes scope) p \<noteq> None \<and> map_of (ns_prefixes D') p = map_of (ns_prefixes scope) p"
      by metis
    with pairs have "\<forall>q \<in> set (p # ps). map_of (ns_prefixes scope) q \<noteq> None \<and> map_of (ns_prefixes D') q = map_of (ns_prefixes scope) q"
      by simp
    with pairs(1-6) show ?thesis by (intro exI [of _ pairs]) (simp add: subset_insertI2)
  next
    case False
    with 2(3) obtain n as where n: "map_of (ns_prefixes scope) p = Some n"
        "declareUtilized scope (declare_ns D p n) ps = Inr (as, D')" "decls = ns_attr p n # as"
      by (auto split: if_splits)
    have add: "addable (p, n)" using False n(1) 2(5,6) by (auto simp: addable_def ns_wf_def)
    then have wf: "ns_wf (declare_ns D p n)" using 2(6) n(1) by (auto simp: ns_wf_def addable_def)
    have lp: "LookupPrefix scope p = Inr n" and dps: "distinct ps" using n(1) 2(4) by simp_all
    from 2(2) [OF False lp n(2) dps 2(5) wf]
    obtain pairs where pairs: "as = map (\<lambda>(p, n). ns_attr p n) pairs" "distinct (map fst pairs)"
        "fst ` set pairs \<subseteq> set ps" "\<forall>pn \<in> set pairs. addable pn" "ns_wf D'"
        "map_of (ns_prefixes D') = map_of (ns_prefixes (declare_ns D p n)) ++ map_of pairs"
        "\<forall>p \<in> set ps. map_of (ns_prefixes scope) p \<noteq> None \<and> map_of (ns_prefixes D') p = map_of (ns_prefixes scope) p"
      by blast
    have none: "map_of pairs p = None" "p \<notin> fst ` set pairs"
      using pairs(3) 2(4) by (auto simp: map_of_eq_None_iff)
    have "map_of (ns_prefixes D') = map_of (ns_prefixes D) ++ map_of ((p, n) # pairs)"
      by (rule ext) (auto simp: pairs(6) map_add_def none split: option.split)
    moreover have "map_of (ns_prefixes D') p = Some n" by (simp add: pairs(6) map_add_def none)
    then have "\<forall>q \<in> set (p # ps). map_of (ns_prefixes scope) q \<noteq> None \<and> map_of (ns_prefixes D') q = map_of (ns_prefixes scope) q"
      using pairs(7) n(1) by simp
    moreover have "decls = map (\<lambda>(p, n). ns_attr p n) ((p, n) # pairs)" "distinct (map fst ((p, n) # pairs))"
      "fst ` set ((p, n) # pairs) \<subseteq> set (p # ps)" "\<forall>pn \<in> set ((p, n) # pairs). addable pn"
      using n(3) pairs(1-4) none(2) add by auto
    ultimately show ?thesis using pairs(5) by blast
  qed
qed

section \<open>The expanded tree is kept\<close>

fun wellNamed :: "element \<Rightarrow> bool" where
  "wellNamed el \<longleftrightarrow> attrsNamed (el_Attr el) \<and> (\<forall>c \<in> set (ChildElements el). wellNamed c)"

declare wellNamed.simps [simp del]

lemma mapE_total: "\<forall>x \<in> set xs. f x = Inr (g x) \<Longrightarrow> mapE f xs = Inr (map g xs)"
  by (induction xs) auto

lemma ns_attr_decl: "addable (p, n) \<Longrightarrow> isNSDecl (ns_attr p n) \<and> declOK (ns_attr p n) \<and> declaresNS (ns_attr p n) = Some (p, n)"
  by (auto simp: addable_def ns_attr_def isNSDecl_def declOK_def declaresNS_def isDefaultDecl_def mkAttr_def defaultPrefix_def
      simp flip: defaultPrefix_def)

lemma not_NSDecl: "\<not> isNSDecl a \<Longrightarrow> declOK a \<and> declaresNS a = None"
  by (auto simp: isNSDecl_def declOK_def declaresNS_def)

text \<open>The context of a canonical element, read back.\<close>

lemma SubContext_canonical:
  assumes pairs: "distinct (map fst pairs)" "\<forall>pn \<in> set pairs. addable pn"
    and attrs: "el_Attr el' = sortAttrs (filter (\<lambda>a. \<not> isNSDecl a) as @ map (\<lambda>(p, n). ns_attr p n) pairs)"
  obtains sc where "SubContext D el' = Inr sc" "map_of (ns_prefixes sc) = map_of (ns_prefixes D) ++ map_of pairs"
proof -
  let ?L = "List.map_filter declaresNS (el_Attr el')"
  have decl: "isNSDecl (ns_attr p n) \<and> declOK (ns_attr p n) \<and> declaresNS (ns_attr p n) = Some (p, n)"
    if "(p, n) \<in> set pairs" for p n using that pairs(2) ns_attr_decl by blast
  have "\<forall>a \<in> set (el_Attr el'). declOK a"
    using decl not_NSDecl by (auto simp: attrs)
  then obtain sc where sc: "subContextAttrs D (el_Attr el') = Inr sc"
    "map_of (ns_prefixes sc) = map_of (ns_prefixes D) ++ map_of (rev ?L)"
    using subContextAttrs_ok by blast
  have "mset ?L = image_mset (the \<circ> declaresNS) (filter_mset (\<lambda>a. declaresNS a \<noteq> None) (mset (el_Attr el')))"
    by (simp add: map_filter_def)
  also have "\<dots> = mset pairs"
    using decl not_NSDecl
    by (simp add: attrs filter_mset_False)
       (induction pairs, auto simp: not_NSDecl)
  finally have L: "mset ?L = mset pairs" .
  then have "mset (map fst ?L) = mset (map fst pairs)" by simp
  then have dist: "distinct (map fst (rev ?L))"
    using pairs(1) by (metis distinct_rev mset_eq_imp_distinct_iff rev_map)
  have "set (rev ?L) = set pairs" using L by (metis set_mset_mset set_rev)
  then have "map_of (rev ?L) = map_of pairs"
    using map_of_inject_set [OF dist pairs(1)] by simp
  with sc show ?thesis by (intro that [of sc]) (simp_all add: SubContext_def)
qed


definition expandedAttr :: "nscontext \<Rightarrow> attr \<Rightarrow> string \<times> string \<times> string" where
  "expandedAttr sc a =
     (if at_Space a = defaultPrefix then [] else the_default [] (map_of (ns_prefixes sc) (at_Space a)), at_Key a, at_Value a)"

lemma expandAttrs_total:
  assumes "\<forall>a \<in> set as. at_Space a \<noteq> defaultPrefix \<longrightarrow> map_of (ns_prefixes sc) (at_Space a) \<noteq> None"
  shows "mapE (expandAttr sc) as = Inr (map (expandedAttr sc) as)"
  using assms by (intro mapE_total) (auto simp: expandAttr_def expandedAttr_def LookupPrefix_def)

lemma utilized_attr: "a \<in> set (el_Attr el) \<Longrightarrow> \<not> isNSDecl a \<Longrightarrow> at_Space a \<noteq> defaultPrefix \<Longrightarrow>
    at_Space a \<in> set (visiblyUtilizedPrefixes inc el)"
  by (auto simp: visiblyUtilizedPrefixes_def utilizedBy_def isNSDecl_def isDefaultDecl_def)

lemma distinct_utilized: "distinct (visiblyUtilizedPrefixes inc el)"
  unfolding visiblyUtilizedPrefixes_def by (rule distinct_remdups)

lemma utilized_space: "el_Space el \<in> set (visiblyUtilizedPrefixes inc el)"
  by (simp add: visiblyUtilizedPrefixes_def)

lemma transform_expand:
  "transformExcC14n C D inc com el = Inr el' \<Longrightarrow> ns_wf C \<Longrightarrow> ns_wf D \<Longrightarrow> wellNamed el \<Longrightarrow>
     \<exists>x. expand C com el = Inr x \<and> expand D True el' = Inr x"
  "transformTokens C D inc com ts = Inr ts' \<Longrightarrow> ns_wf C \<Longrightarrow> ns_wf D \<Longrightarrow>
     \<forall>c. Elem c \<in> set ts \<longrightarrow> wellNamed c \<Longrightarrow>
     \<exists>xs. expandTokens C com ts = Inr xs \<and> expandTokens D True ts' = Inr xs"
proof (induction C D inc com el and C D inc com ts arbitrary: el' and ts'
    rule: transformExcC14n_transformTokens.induct [case_names 1 2 3 chardata comment procinst directive])
  case (1 C D inc com el)
  from 1(2) obtain scope decls D' ts where t: "SubContext C el = Inr scope"
      "declareUtilized scope D (visiblyUtilizedPrefixes inc el) = Inr (decls, D')"
      "transformTokens scope D' inc com (el_Child el) = Inr ts"
      "el' = Element (el_Space el) (el_Tag el) (sortAttrs (filter (\<lambda>a. \<not> isNSDecl a) (el_Attr el) @ decls)) ts"
    by (auto simp: transformExcC14n.simps [of C])
  have named: "attrsNamed (el_Attr el)" "\<forall>c. Elem c \<in> set (el_Child el) \<longrightarrow> wellNamed c"
    using 1(5) by (auto simp: wellNamed.simps [of el] child_elements_iff)
  have wf: "ns_wf scope" using SubContext_wf [OF t(1) 1(3) named(1)] .
  obtain pairs where pairs: "decls = map (\<lambda>(p, n). ns_attr p n) pairs" "distinct (map fst pairs)"
      "\<forall>pn \<in> set pairs. addable pn" "ns_wf D'" "map_of (ns_prefixes D') = map_of (ns_prefixes D) ++ map_of pairs"
      and util: "\<And>p. p \<in> set (visiblyUtilizedPrefixes inc el) \<Longrightarrow>
        map_of (ns_prefixes scope) p \<noteq> None \<and> map_of (ns_prefixes D') p = map_of (ns_prefixes scope) p"
    using declareUtilized_spec [OF t(2) distinct_utilized wf 1(4)] by metis
  obtain sc where sc: "SubContext D el' = Inr sc" "map_of (ns_prefixes sc) = map_of (ns_prefixes D) ++ map_of pairs"
    using SubContext_canonical [OF pairs(2,3), of el' "el_Attr el" D] by (auto simp: t(4) pairs(1))
  then have eq: "ns_eq D' sc" by (simp add: ns_eq_def pairs(5))
  obtain xs where xs: "expandTokens scope com (el_Child el) = Inr xs" "expandTokens D' True ts = Inr xs"
    using 1(1) [OF t(1,2) refl t(3) wf pairs(4) named(2)] by auto
  have xs': "expandTokens sc True ts = Inr xs" using expand_cong(2) [OF eq xs(2)] .
  have util': "map_of (ns_prefixes sc) p = map_of (ns_prefixes scope) p \<and> map_of (ns_prefixes scope) p \<noteq> None"
    if "p \<in> set (visiblyUtilizedPrefixes inc el)" for p
    using util [OF that] sc(2) pairs(5) by simp
  let ?A = "filter (\<lambda>a. \<not> isNSDecl a) (el_Attr el)" and ?B = "filter (\<lambda>a. \<not> isNSDecl a) (el_Attr el')"
  have B: "mset ?B = mset ?A"
  proof -
    have "filter (\<lambda>a. \<not> isNSDecl a) decls = []"
      using pairs(1,3) ns_attr_decl by (auto simp: filter_empty_conv)
    moreover have "mset ?B = filter_mset (\<lambda>a. \<not> isNSDecl a) (mset (?A @ decls))"
      unfolding t(4) by (simp only: element.sel mset_filter mset_sortAttrs)
    ultimately show ?thesis by (simp add: mset_filter [symmetric] del: mset_filter)
  qed
  have setB: "set ?B = set ?A" using B by (metis set_mset_mset)
  have A': "mapE (expandAttr scope) ?A = Inr (map (expandedAttr scope) ?A)"
    using util' utilized_attr by (intro expandAttrs_total) auto
  have B': "mapE (expandAttr sc) ?B = Inr (map (expandedAttr sc) ?B)"
    using util' utilized_attr setB by (intro expandAttrs_total) auto
  have "expandedAttr sc a = expandedAttr scope a" if "a \<in> set ?A" for a
    using util' utilized_attr that by (auto simp: expandedAttr_def)
  then have "mset (map (expandedAttr sc) ?B) = mset (map (expandedAttr scope) ?A)"
    using B setB by (metis (mono_tags, lifting) image_mset_cong mset_map set_mset_mset)
  moreover obtain ns where "LookupPrefix scope (el_Space el) = Inr ns" "LookupPrefix sc (el_Space el) = Inr ns"
    using util' [OF utilized_space] by (auto simp: LookupPrefix_def)
  ultimately show ?case
    using t(1) sc(1) A' B' xs(1) xs' by (simp add: expand.simps [of C] expand.simps [of D] t(4))
next
  case (3 C D inc com c ts)
  from 3(3) obtain c' us where c: "transformExcC14n C D inc com c = Inr c'"
      and us: "transformTokens C D inc com ts = Inr us" and ts': "ts' = Elem c' # us" by auto
  obtain x where x: "expand C com c = Inr x" "expand D True c' = Inr x"
    using 3(1) [OF c 3(4,5)] 3(6) by auto
  obtain xs where xs: "expandTokens C com ts = Inr xs" "expandTokens D True us = Inr xs"
    using 3(2) [OF c us 3(4,5)] 3(6) by auto
  with x show ?case by (simp add: ts')
next
  case (chardata C D inc com v ts)
  from chardata(2) obtain us where us: "transformTokens C D inc com ts = Inr us" "ts' = CharData v # us"
    by (auto simp: isComment_def)
  with chardata(1) [OF us(1)] chardata(3-5) show ?case by (auto simp: isComment_def)
next
  case (comment C D inc com v ts)
  from comment(2) obtain us where us: "transformTokens C D inc com ts = Inr us"
      "ts' = (if com then Comment v # us else us)"
    by (auto simp: isComment_def)
  with comment(1) [OF us(1)] comment(3-5) show ?case by (auto simp: isComment_def)
next
  case (procinst C D inc com v w ts)
  from procinst(2) obtain us where us: "transformTokens C D inc com ts = Inr us" "ts' = ProcInst v w # us"
    by (auto simp: isComment_def)
  with procinst(1) [OF us(1)] procinst(3-5) show ?case by (auto simp: isComment_def)
next
  case (directive C D inc com v ts)
  from directive(2) obtain us where us: "transformTokens C D inc com ts = Inr us" "ts' = Directive v # us"
    by (auto simp: isComment_def)
  with directive(1) [OF us(1)] directive(3-5) show ?case by (auto simp: isComment_def)
qed simp

section \<open>An example\<close>

definition exampleTree :: element where
  "exampleTree = Element ''p'' ''Root''
     [mkAttr ''xmlns'' ''q'' ''urn:b'', mkAttr [] ''ID'' ''1'', mkAttr ''xmlns'' ''p'' ''urn:a'']
     [Comment ''c'', Elem (Element ''q'' ''Child'' [] [CharData ''x''])]"

end
