(* ===== verification/Dsig_Validate.thy ===== *)
theory Dsig_Validate
  imports Dsig_Canon
begin

text \<open>
  Validation of enveloped signatures, \<^verbatim>\<open>internal/dsig/validate.go\<close>. A \<^verbatim>\<open>ValidationContext\<close> is the
  certificates of its store, the name of the ID attribute and the time its clock shows. The reference
  that Go keeps to the signature element is the path of the element in the tree.
\<close>

section \<open>Validation contexts\<close>

record validation_context =
  vc_Certificates :: "certificate list"
  vc_IdAttribute :: string
  vc_Now :: time

definition NewDefaultValidationContext :: "certificate list \<Rightarrow> time \<Rightarrow> validation_context" where
  "NewDefaultValidationContext roots now =
     \<lparr>vc_Certificates = roots, vc_IdAttribute = DefaultIdAttr, vc_Now = now\<rparr>"

definition dsNamespace :: string where
  "dsNamespace = ''http://www.w3.org/2000/09/xmldsig#''"

definition c14nExclusive :: string where "c14nExclusive = ''http://www.w3.org/2001/10/xml-exc-c14n#''"
definition c14nExclusiveComments :: string where
  "c14nExclusiveComments = ''http://www.w3.org/2001/10/xml-exc-c14n#WithComments''"
definition c14n11 :: string where "c14n11 = ''http://www.w3.org/2006/12/xml-c14n11''"
definition c14n11Comments :: string where "c14n11Comments = ''http://www.w3.org/2006/12/xml-c14n11#WithComments''"
definition c14n10Rec :: string where "c14n10Rec = ''http://www.w3.org/TR/2001/REC-xml-c14n-20010315''"
definition c14n10Comments :: string where
  "c14n10Comments = ''http://www.w3.org/TR/2001/REC-xml-c14n-20010315#WithComments''"
definition envelopedSignature :: string where
  "envelopedSignature = ''http://www.w3.org/2000/09/xmldsig#enveloped-signature''"

lemmas algorithm_id_defs = c14nExclusive_def c14nExclusiveComments_def c14n11_def c14n11Comments_def
  c14n10Rec_def c14n10Comments_def envelopedSignature_def

section \<open>Paths\<close>

text \<open>The element at a path with its ancestors, nearest first.\<close>

fun nodeAt :: "element list \<Rightarrow> element \<Rightarrow> nat list \<Rightarrow> node option" where
  "nodeAt anc el [] = Some (anc, el)"
| "nodeAt anc el (i # path) =
     (if i < length (el_Child el)
      then (case el_Child el ! i of Elem c \<Rightarrow> nodeAt (el # anc) c path | _ \<Rightarrow> None)
      else None)"

text \<open>\<^verbatim>\<open>removeElementAtPath\<close>: the changed tree, or nothing where Go returns false.\<close>

fun removeElementAtPath :: "element \<Rightarrow> nat list \<Rightarrow> element option" where
  "removeElementAtPath el [] = None"
| "removeElementAtPath el (i # path) =
     (if length (el_Child el) \<le> i then None
      else (case el_Child el ! i of
              Elem c \<Rightarrow>
                (if path = [] then Some (setChild el (take i (el_Child el) @ drop (Suc i) (el_Child el)))
                 else map_option (\<lambda>c'. setChild el ((el_Child el)[i := Elem c'])) (removeElementAtPath c path))
            | _ \<Rightarrow> None))"

section \<open>Finding the signature\<close>

definition countTag :: "string \<Rightarrow> element \<Rightarrow> nat" where
  "countTag tag el = length (filter (\<lambda>c. el_Tag c = tag) (ChildElements el))"

definition validateShape :: "element \<Rightarrow> unit result" where
  "validateShape signatureEl =
     checkE (countTag ''SignedInfo'' signatureEl = 1 \<and> countTag ''KeyInfo'' signatureEl \<le> 1 \<and>
             countTag ''SignatureValue'' signatureEl = 1) (Err ''Invalid Signature'')"

text \<open>The canonical form of a detached SignedInfo, by the algorithm that it names.\<close>

definition canonicalSignedInfo :: "string \<Rightarrow> element \<Rightarrow> element result" where
  "canonicalSignedInfo c14NAlgorithm detached =
     (if c14NAlgorithm = c14nExclusive \<or> c14NAlgorithm = c14nExclusiveComments
      then TransformExcC14n [] (c14NAlgorithm = c14nExclusiveComments) detached
      else if c14NAlgorithm = c14n11 \<or> c14NAlgorithm = c14n10Rec then Inr (canonicalPrep False detached)
      else if c14NAlgorithm = c14n11Comments \<or> c14NAlgorithm = c14n10Comments then Inr (canonicalPrep True detached)
      else Inl (Errorf ''invalid CanonicalizationMethod on Signature: %s'' [c14NAlgorithm]))"

text \<open>The inner handler of \<^verbatim>\<open>findSignature\<close>, on a SignedInfo: the index of the child and what replaces
  it.\<close>

definition signedInfoHandler :: "nscontext \<Rightarrow> nat \<Rightarrow> nat \<Rightarrow> element \<Rightarrow> ((nat \<times> element) option \<times> nat) result" where
  "signedInfoHandler ctx limit i signedInfo =
     bindE (NSDetatch ctx limit signedInfo) (\<lambda>(limit, detached).
       bindE (NSFindOneChildCtx ctx limit detached dsNamespace ''CanonicalizationMethod'') (\<lambda>(c14NMethod, limit).
         case c14NMethod of
           None \<Rightarrow> Inl (Err ''missing CanonicalizationMethod on Signature'')
         | Some m \<Rightarrow>
             bindE (canonicalSignedInfo (SelectAttrValue m ''Algorithm'' []) detached) (\<lambda>si.
               Inr (Some (i, si), limit))))"

text \<open>\<^verbatim>\<open>NSUnmarshalElement\<close> into a \<^verbatim>\<open>types.Signature\<close>.\<close>

definition NSUnmarshalSignature :: "externs \<Rightarrow> nscontext \<Rightarrow> nat \<Rightarrow> element \<Rightarrow> (Signature \<times> nat) result" where
  "NSUnmarshalSignature X ctx limit el =
     bindE (NSDetatch ctx limit el) (\<lambda>(limit, detached).
       bindE (x_UnmarshalSignature X (x_WriteToBytes X detached)) (\<lambda>sig. Inr (sig, limit)))"

text \<open>A reference to the top-level element: an empty URI, or one whose text after the first byte is the
  ID.\<close>

definition refersTo :: "string \<Rightarrow> Reference \<Rightarrow> bool" where
  "refersTo idAttr ref \<longleftrightarrow> ref_URI ref = [] \<or> tl (ref_URI ref) = idAttr"

text \<open>The outer handler, on a Signature. Its SignedInfo is replaced by its canonical form before it is
  unmarshalled. Go dereferences a nil pointer when that gives a Signature without a
  SignedInfo.\<close>

definition signatureHandler ::
  "externs \<Rightarrow> string \<Rightarrow> nscontext \<Rightarrow> nat \<Rightarrow> element \<Rightarrow> Signature visit" where
  "signatureHandler X idAttr ctx limit signatureEl =
     (case bindE (validateShape signatureEl) (\<lambda>_.
         bindE (NSFindChildrenIterateCtx ctx limit signatureEl dsNamespace ''SignedInfo'' signedInfoHandler)
           (\<lambda>(found, limit).
             case found of
               None \<Rightarrow> Inl (Err ''Missing SignedInfo'')
             | Some (i, si) \<Rightarrow>
                 let signatureEl' = setChild signatureEl ((el_Child signatureEl)[i := Elem si]) in
                 bindE (NSUnmarshalSignature X ctx limit signatureEl') (\<lambda>(sig, limit).
                   Inr (sig, limit, signatureEl')))) of
        Inl e \<Rightarrow> VErr e
      | Inr (sig, limit', signatureEl') \<Rightarrow>
          (case sig_SignedInfo sig of
             None \<Rightarrow> VErr (Panic ''nil SignedInfo'')
           | Some si \<Rightarrow>
               if \<exists>ref \<in> set (si_References si). refersTo idAttr ref
               then VHalt sig limit' signatureEl'
               else VNext limit' signatureEl'))"

definition idAttrOf :: "validation_context \<Rightarrow> element \<Rightarrow> string" where
  "idAttrOf vc el = SelectAttrValue el (vc_IdAttribute vc) []"

text \<open>\<^verbatim>\<open>findSignature\<close>: the signature, the path to its element and the tree as the search leaves it.\<close>

definition findSignature ::
  "externs \<Rightarrow> validation_context \<Rightarrow> element \<Rightarrow> (Signature \<times> nat list \<times> element) result" where
  "findSignature X vc root =
     (case NSFindIterate root dsNamespace ''Signature'' (signatureHandler X (idAttrOf vc root)) of
        WErr e \<Rightarrow> Inl e
      | WHalt sig path _ root' \<Rightarrow> Inr (sig, path, root')
      | WDone _ _ \<Rightarrow> Inl (Err ''Missing signature referencing the top-level element''))"

section \<open>Trust\<close>

text \<open>\<^verbatim>\<open>verifyCertificate\<close>. Certificates are equal when their DER encodings are.\<close>

definition certEqual :: "certificate \<Rightarrow> certificate \<Rightarrow> bool" where
  "certEqual a b \<longleftrightarrow> cert_Raw a = cert_Raw b"

definition untrustedCertificate :: "externs \<Rightarrow> certificate list \<Rightarrow> Signature \<Rightarrow> certificate result" where
  "untrustedCertificate X roots sig =
     (case sig_KeyInfo sig of
        Some certs \<Rightarrow>
          (case certs of
             [] \<Rightarrow> Inl (Err ''missing X509Certificate within KeyInfo'')
           | c # _ \<Rightarrow>
               if c = [] then Inl (Err ''missing X509Certificate within KeyInfo'')
               else bindE (wrapE (\<lambda>_. Err ''Failed to parse certificate'') (base64Decode (removeWhitespace c)))
                 (x_ParseCertificate X))
      | None \<Rightarrow> (case roots of [r] \<Rightarrow> Inr r | _ \<Rightarrow> Inl (Err ''Missing x509 Element'')))"

definition verifyCertificate :: "externs \<Rightarrow> validation_context \<Rightarrow> Signature \<Rightarrow> certificate result" where
  "verifyCertificate X vc sig =
     bindE (untrustedCertificate X (vc_Certificates vc) sig) (\<lambda>untrusted.
       case find (\<lambda>root. certEqual root untrusted) (rev (vc_Certificates vc)) of
         None \<Rightarrow> Inl (Err ''Could not verify certificate against trusted certs'')
       | Some trusted \<Rightarrow>
           if vc_Now vc < cert_NotBefore trusted \<or> vc_Now vc > cert_NotAfter trusted
           then Inl (Err ''Cert is not valid at this time'')
           else Inr trusted)"

section \<open>Transforms\<close>

definition transformStep ::
  "nat list \<Rightarrow> Transform \<Rightarrow> element \<times> canonicalizer option \<Rightarrow> (element \<times> canonicalizer option) result" where
  "transformStep signaturePath tr st = (case st of (el, canon) \<Rightarrow>
     let algo = tr_Algorithm tr; prefixList = the_default [] (tr_InclusiveNamespaces tr) in
     if algo = envelopedSignature then
       (case removeElementAtPath el signaturePath of
          None \<Rightarrow> Inl (Err ''Error applying canonicalization transform: Signature not found'')
        | Some el' \<Rightarrow> Inr (el', canon))
     else if algo = c14nExclusive then Inr (el, Some (C14N10Exclusive prefixList False))
     else if algo = c14nExclusiveComments then Inr (el, Some (C14N10Exclusive prefixList True))
     else if algo = c14n11 then Inr (el, Some (C14N11 False))
     else if algo = c14n11Comments then Inr (el, Some (C14N11 True))
     else if algo = c14n10Rec then Inr (el, Some (C14N10Rec False))
     else if algo = c14n10Comments then Inr (el, Some (C14N10Rec True))
     else Inl (Errorf ''Unknown Transform Algorithm: %s'' [algo]))"

fun transformLoop ::
  "nat list \<Rightarrow> Transform list \<Rightarrow> element \<times> canonicalizer option \<Rightarrow> (element \<times> canonicalizer option) result" where
  "transformLoop path [] st = Inr st"
| "transformLoop path (t # ts) st = bindE (transformStep path t st) (transformLoop path ts)"

definition transform :: "element \<Rightarrow> nat list \<Rightarrow> Reference \<Rightarrow> (element \<times> canonicalizer) result" where
  "transform el signaturePath ref =
     bindE (transformLoop signaturePath (ref_Transforms ref) (el, None)) (\<lambda>(el', canon).
       Inr (el', the_default NullCanonicalizer canon))"

section \<open>Validation\<close>

text \<open>\<^verbatim>\<open>getCanonicalSignedInfo\<close> of the signature element at the path.\<close>

definition getCanonicalSignedInfo :: "externs \<Rightarrow> node \<Rightarrow> string result" where
  "getCanonicalSignedInfo X nd = (case nd of (anc, signatureElement) \<Rightarrow>
     bindE (NSBuildParentContext anc) (\<lambda>nsCtx.
       bindE (NSFindOneChildCtx nsCtx defaultLimit signatureElement dsNamespace ''SignedInfo'') (\<lambda>(si, _).
         case si of None \<Rightarrow> Inl (Err ''Missing SignedInfo'') | Some signedInfo \<Rightarrow> Inr (x_CanonicalWrite X signedInfo))))"

definition x509SignatureAlgorithmByIdentifier :: "string \<Rightarrow> signature_algorithm option" where
  "x509SignatureAlgorithmByIdentifier m =
     map_of (map (\<lambda>(i, h). (i, (AlgRSA, h))) rsaMethods @ map (\<lambda>(i, h). (i, (AlgECDSA, h))) ecdsaMethods) m"

text \<open>\<^verbatim>\<open>validateSignature\<close>. The path always leads to the signature element in the tree it was found in.\<close>

definition validateSignature ::
  "externs \<Rightarrow> validation_context \<Rightarrow> element \<Rightarrow> Signature \<Rightarrow> nat list \<Rightarrow> certificate \<Rightarrow> element option result" where
  "validateSignature X vc el sig path cert =
     (case nodeAt [] el path of
        None \<Rightarrow> Inl (Err ''Could not obtain canonical signed info bytes'')
      | Some nd \<Rightarrow>
        bindE (wrapE (\<lambda>_. Err ''Could not obtain canonical signed info bytes'') (getCanonicalSignedInfo X nd))
          (\<lambda>canonicalSignedInfoBytes.
        let signatureMethod = (case sig_SignedInfo sig of Some si \<Rightarrow> si_SignatureMethod si | None \<Rightarrow> []) in
        case x509SignatureAlgorithmByIdentifier signatureMethod of
          None \<Rightarrow> Inl (Errorf ''Unknown signature method: %s'' [signatureMethod])
        | Some algo \<Rightarrow>
        case sig_SignatureValue sig of
          None \<Rightarrow> Inl (Err ''Signature could not be verified'')
        | Some value \<Rightarrow>
        bindE (wrapE (\<lambda>_. Err ''Could not decode signature'') (base64Decode value)) (\<lambda>decodedSignature.
        bindE (checkSignature X cert algo canonicalSignedInfoBytes decodedSignature) (\<lambda>_.
        bindE (x_UnmarshalSignedInfo X canonicalSignedInfoBytes) (\<lambda>signedInfo.
        case find (refersTo (idAttrOf vc el)) (si_References signedInfo) of
          None \<Rightarrow> Inl (Err ''Missing reference'')
        | Some ref \<Rightarrow>
        bindE (base64Decode (ref_DigestValue ref)) (\<lambda>signedDigestValue.
        bindE (transform el path ref) (\<lambda>(transformed, canon).
        bindE (Canonicalize X canon ([], transformed)) (\<lambda>(_, referencedBytes).
        case digestAlgorithmsByIdentifier (ref_DigestAlgo ref) of
          None \<Rightarrow> Inl (Errorf ''Unknown digest algorithm: %s'' [ref_DigestAlgo ref])
        | Some hashAlgorithm \<Rightarrow>
        let computedDigest = x_Hash X hashAlgorithm referencedBytes in
        if computedDigest \<noteq> signedDigestValue then Inl (Err ''Signature could not be verified'')
        else if \<not> length computedDigest \<ge> 20 then
          Inl (Err ''Computed digest is less than 20 something went wrong'')
        else x_ReadFromBytes X referencedBytes))))))))"

text \<open>\<^verbatim>\<open>Validate\<close>; no root is what Go returns as a nil element.\<close>

definition Validate :: "externs \<Rightarrow> validation_context \<Rightarrow> element \<Rightarrow> element option result" where
  "Validate X vc el =
     bindE (findSignature X vc el) (\<lambda>(sig, path, el').
       bindE (verifyCertificate X vc sig) (\<lambda>cert.
         validateSignature X vc el' sig path cert))"


section \<open>What validation establishes\<close>

lemma verifyCertificate_trusted:
  "verifyCertificate X vc sig = Inr cert \<Longrightarrow> cert \<in> set (vc_Certificates vc) \<and> certValidAt (vc_Now vc) cert"
  by (auto simp: verifyCertificate_def certValidAt_def split: option.splits if_splits dest!: find_Some_in)

text \<open>The evidence for a validated element: SignedInfo bytes that the certificate's key signed, a reference
  in them to the element, and bytes with the digest of the reference, from which the element is parsed.\<close>

definition signedContent ::
  "externs \<Rightarrow> certificate \<Rightarrow> string \<Rightarrow> element \<Rightarrow> bool" where
  "signedContent X cert idAttr v \<longleftrightarrow>
     (\<exists>algo siBytes val si ref h bytes.
        fst algo \<in> {AlgRSA, AlgECDSA} \<and>
        checkSignature X cert algo siBytes val = Inr () \<and>
        x_UnmarshalSignedInfo X siBytes = Inr si \<and>
        ref \<in> set (si_References si) \<and> refersTo idAttr ref \<and>
        digestAlgorithmsByIdentifier (ref_DigestAlgo ref) = Some h \<and>
        base64Decode (ref_DigestValue ref) = Inr (x_Hash X h bytes) \<and> 20 \<le> length (x_Hash X h bytes) \<and>
        x_ReadFromBytes X bytes = Inr (Some v))"

lemma x509SignatureAlgorithm_key:
  "x509SignatureAlgorithmByIdentifier m = Some algo \<Longrightarrow> fst algo \<in> {AlgRSA, AlgECDSA}"
  by (auto simp: x509SignatureAlgorithmByIdentifier_def rsaMethods_def ecdsaMethods_def split: if_splits)

lemma validateSignature_content:
  assumes "validateSignature X vc el sig path cert = Inr (Some v)"
  shows "signedContent X cert (idAttrOf vc el) v"
proof -
  obtain nd where nd1: "nodeAt [] el path = Some nd"
    using assms by (cases "nodeAt [] el path") (auto simp: validateSignature_def)
  obtain siBytes where nd: "nodeAt [] el path = Some nd" "getCanonicalSignedInfo X nd = Inr siBytes"
    using assms nd1 by (cases "getCanonicalSignedInfo X nd") (auto simp: validateSignature_def)
  let ?m = "case sig_SignedInfo sig of Some si \<Rightarrow> si_SignatureMethod si | None \<Rightarrow> []"
  obtain algo where algo: "x509SignatureAlgorithmByIdentifier ?m = Some algo"
    using assms nd by (cases "x509SignatureAlgorithmByIdentifier ?m") (auto simp: validateSignature_def Let_def)
  obtain enc where enc: "sig_SignatureValue sig = Some enc"
    using assms nd algo by (cases "sig_SignatureValue sig") (auto simp: validateSignature_def Let_def)
  obtain val si where si: "base64Decode enc = Inr val" "checkSignature X cert algo siBytes val = Inr ()"
      "x_UnmarshalSignedInfo X siBytes = Inr si"
    using assms nd algo enc by (auto simp: validateSignature_def Let_def)
  obtain ref where ref: "find (refersTo (idAttrOf vc el)) (si_References si) = Some ref"
    using assms nd algo enc si
    by (cases "find (refersTo (idAttrOf vc el)) (si_References si)") (auto simp: validateSignature_def Let_def)
  obtain digest el' canon el'' bytes where b: "base64Decode (ref_DigestValue ref) = Inr digest"
      "transform el path ref = Inr (el', canon)" "Canonicalize X canon ([], el') = Inr (el'', bytes)"
    using assms nd algo enc si ref by (auto simp: validateSignature_def Let_def)
  obtain h where h: "digestAlgorithmsByIdentifier (ref_DigestAlgo ref) = Some h"
    using assms nd algo enc si ref b
    by (cases "digestAlgorithmsByIdentifier (ref_DigestAlgo ref)") (auto simp: validateSignature_def Let_def)
  have "x_Hash X h bytes = digest" "20 \<le> length (x_Hash X h bytes)" "x_ReadFromBytes X bytes = Inr (Some v)"
    using assms nd algo enc si ref b h by (auto simp: validateSignature_def Let_def split: if_splits)
  with si ref b h find_Some_in [OF ref] x509SignatureAlgorithm_key [OF algo] show ?thesis
    unfolding signedContent_def by blast
qed

text \<open>The search for the signature keeps the attributes of every element it does not halt at, so the ID
  of the root stays what it was.\<close>

lemma signatureHandler_attrs:
  "signatureHandler X i ctx l el = VHalt r l' el' \<Longrightarrow> el_Attr el' = el_Attr el"
  "signatureHandler X i ctx l el = VNext l' el' \<Longrightarrow> el_Attr el' = el_Attr el"
  by (auto simp: signatureHandler_def Let_def split: sum.splits option.splits if_splits prod.splits)

lemma NSTraverse_attrs:
  assumes "NSTraverse handle ctx l el = WHalt r path l' el'"
    and "\<And>c l r l' el'. handle c l el = VHalt r l' el' \<Longrightarrow> el_Attr el' = el_Attr el"
    and "\<And>c l l' el'. handle c l el = VNext l' el' \<Longrightarrow> el_Attr el' = el_Attr el"
  shows "el_Attr el' = el_Attr el"
  using assms(1)
  by (auto simp: NSTraverse.simps [of handle ctx l] split: sum.splits visit.splits walk.splits dest: assms(2,3))

lemma findSignature_attrs:
  assumes "findSignature X vc el = Inr (sig, path, el')"
  shows "el_Attr el' = el_Attr el"
proof -
  from assms obtain l where w: "NSFindIterate el dsNamespace ''Signature'' (signatureHandler X (idAttrOf vc el))
      = WHalt sig path l el'"
    by (auto simp: findSignature_def split: walk.splits)
  show ?thesis
    by (rule NSTraverse_attrs [OF w [unfolded NSFindIterate_def NSFindIterateCtx_def]])
      (auto split: sum.splits if_splits dest: signatureHandler_attrs)
qed

text \<open>
  C2. A validated signature covers what is returned. If \<^verbatim>\<open>Validate\<close> returns an element, then one of the
  trusted certificates, valid at the time of the check, verifies SignedInfo bytes which contain a
  reference to the validated element's ID (or to the whole document), and the element returned was
  parsed from bytes whose digest is the one in that signed reference. Nothing of the unsigned original
  is returned.
\<close>

theorem validate_returns_signed_content:
  assumes "Validate X vc el = Inr (Some v)"
  shows "\<exists>cert \<in> set (vc_Certificates vc). certValidAt (vc_Now vc) cert \<and>
    signedContent X cert (idAttrOf vc el) v"
proof -
  from assms obtain sig path el' cert where v: "findSignature X vc el = Inr (sig, path, el')"
      "verifyCertificate X vc sig = Inr cert" "validateSignature X vc el' sig path cert = Inr (Some v)"
    by (auto simp: Validate_def)
  from findSignature_attrs [OF v(1)] have "idAttrOf vc el' = idAttrOf vc el"
    by (simp add: idAttrOf_def SelectAttrValue_def SelectAttr_def)
  with validateSignature_content [OF v(3)] verifyCertificate_trusted [OF v(2)] show ?thesis by auto
qed


text \<open>A signed element, on the concrete external functions.\<close>

definition exampleSignedInfo :: SignedInfo where
  "exampleSignedInfo = \<lparr>si_CanonicalizationMethod = c14nExclusive, si_SignatureMethod = RSASHA256SignatureMethod,
     si_References = [\<lparr>ref_URI = ''#1'', ref_DigestValue = base64Encode (replicate 20 CHR ''#'' @ ''R''),
       ref_DigestAlgo = digestAlgorithmIdentifier SHA256,
       ref_Transforms = [\<lparr>tr_Algorithm = envelopedSignature, tr_InclusiveNamespaces = None\<rparr>,
         \<lparr>tr_Algorithm = c14nExclusive, tr_InclusiveNamespaces = None\<rparr>]\<rparr>]\<rparr>"

definition exampleSignature :: Signature where
  "exampleSignature = \<lparr>sig_SignedInfo = Some exampleSignedInfo,
     sig_SignatureValue = Some (base64Encode (''key'' @ replicate 20 CHR ''#'' @ ''SignedInfo'')),
     sig_KeyInfo = None\<rparr>"

definition exampleSignedX :: externs where
  "exampleSignedX = exampleX\<lparr>x_UnmarshalSignature := (\<lambda>_. Inr exampleSignature),
     x_UnmarshalSignedInfo := (\<lambda>_. Inr exampleSignedInfo)\<rparr>"

lemma exampleSignedX_sel [simp]:
  "x_UnmarshalSignature exampleSignedX d = Inr exampleSignature"
  "x_UnmarshalSignedInfo exampleSignedX d = Inr exampleSignedInfo"
  "x_Hash exampleSignedX = x_Hash exampleX"
  "x_CheckSignature exampleSignedX = x_CheckSignature exampleX"
  "x_WriteToBytes exampleSignedX = x_WriteToBytes exampleX"
  "x_CanonicalWrite exampleSignedX = x_CanonicalWrite exampleX"
  "x_ReadFromBytes exampleSignedX = x_ReadFromBytes exampleX"
  by (simp_all add: exampleSignedX_def)

definition exampleSignatureEl :: element where
  "exampleSignatureEl = Element ''ds'' ''Signature'' [mkAttr ''xmlns'' ''ds'' dsNamespace]
     [Elem (Element ''ds'' ''SignedInfo'' []
        [Elem (Element ''ds'' ''CanonicalizationMethod'' [mkAttr [] ''Algorithm'' c14nExclusive] [])]),
      Elem (Element ''ds'' ''SignatureValue'' [] [])]"

definition exampleSigned :: element where
  "exampleSigned = Element [] ''R'' [mkAttr [] ''ID'' ''1''] [Elem exampleSignatureEl]"

definition exampleVC :: validation_context where
  "exampleVC = NewDefaultValidationContext [exampleCert ''key''] 5"

text \<open>The example is validated with any external functions that agree with these on signatures.\<close>

definition signsExample :: "externs \<Rightarrow> bool" where
  "signsExample X \<longleftrightarrow>
     x_UnmarshalSignature X = (\<lambda>_. Inr exampleSignature) \<and>
     x_UnmarshalSignedInfo X = (\<lambda>_. Inr exampleSignedInfo) \<and>
     x_Hash X = x_Hash exampleX \<and> x_CheckSignature X = x_CheckSignature exampleX \<and>
     x_WriteToBytes X = el_Tag \<and> x_CanonicalWrite X = el_Tag"

lemma signsExample_sel:
  assumes "signsExample X"
  shows "x_UnmarshalSignature X d = Inr exampleSignature" "x_UnmarshalSignedInfo X d = Inr exampleSignedInfo"
    "x_Hash X = x_Hash exampleX" "x_CheckSignature X = x_CheckSignature exampleX"
    "x_WriteToBytes X = el_Tag" "x_CanonicalWrite X = el_Tag"
  using assms by (simp_all add: signsExample_def)

lemmas walk_defs = NSFindIterate_def NSFindIterateCtx_def NSTraverse.simps CheckLimit_def defaultLimit_def
  SubContext_def nsMatches_def NewDefaultNSContext_def ns_const_defs mkAttr_def declare_ns_def LookupPrefix_def
  NSFindChildrenIterateCtx_def NSIterateChildren_def NSFindOneChildCtx_def NSDetatch_def detachedAttrs_def
  isNSDecl_def isDefaultDecl_def setAttrs_def setChild_def SelectAttrValue_def SelectAttr_def

definition exampleNS :: nscontext where
  "exampleNS = \<lparr>ns_prefixes = [(''ds'', dsNamespace), ([], ''http://www.w3.org/XML/1998/namespace''),
     (''xml'', ''http://www.w3.org/XML/1998/namespace''), (''xmlns'', ''http://www.w3.org/2000/xmlns/'')]\<rparr>"

definition exampleSI :: "attr list \<Rightarrow> element" where
  "exampleSI as = Element ''ds'' ''SignedInfo'' as
     [Elem (Element ''ds'' ''CanonicalizationMethod'' [mkAttr [] ''Algorithm'' c14nExclusive] [])]"

definition exampleFound :: element where
  "exampleFound = Element ''ds'' ''Signature'' [mkAttr ''xmlns'' ''ds'' dsNamespace]
     [Elem (exampleSI [mkAttr ''xmlns'' ''ds'' dsNamespace]), Elem (Element ''ds'' ''SignatureValue'' [] [])]"

lemma sortAttrs_single [simp]: "sortAttrs [a] = [a]"
  by (simp add: sortAttrs_def)

lemma exampleSI_canonical:
  "canonicalSignedInfo c14nExclusive (exampleSI [mkAttr ''xmlns'' ''ds'' dsNamespace]) =
     Inr (exampleSI [mkAttr ''xmlns'' ''ds'' dsNamespace])"
  by code_simp

lemma exampleSI_handled:
  "signedInfoHandler exampleNS 997 0 (exampleSI []) = Inr (Some (0, exampleSI [mkAttr ''xmlns'' ''ds'' dsNamespace]), 994)"
  using exampleSI_canonical by (simp add: signedInfoHandler_def exampleSI_def walk_defs exampleNS_def)

lemma exampleFound_unmarshalled:
  "signsExample X \<Longrightarrow> NSUnmarshalSignature X exampleNS 994 exampleFound = Inr (exampleSignature, 990)"
  by (simp add: signsExample_sel NSUnmarshalSignature_def exampleFound_def exampleSI_def walk_defs exampleNS_def)

lemma exampleSignature_handled:
  assumes "signsExample X"
  shows "signatureHandler X ''1'' exampleNS 998 exampleSignatureEl = VHalt exampleSignature 990 exampleFound"
proof -
  have found: "NSFindChildrenIterateCtx exampleNS 998 exampleSignatureEl dsNamespace ''SignedInfo'' signedInfoHandler
    = Inr (Some (0, exampleSI [mkAttr ''xmlns'' ''ds'' dsNamespace]), 994)"
    using exampleSI_handled by (simp add: walk_defs exampleNS_def exampleSignatureEl_def exampleSI_def)
  have repl: "setChild exampleSignatureEl ((el_Child exampleSignatureEl)
      [0 := Elem (exampleSI [mkAttr ''xmlns'' ''ds'' dsNamespace])]) = exampleFound"
    by (simp add: exampleSignatureEl_def exampleFound_def setChild_def)
  have shape: "validateShape exampleSignatureEl = Inr ()"
    by (simp add: validateShape_def countTag_def exampleSignatureEl_def)
  show ?thesis
    unfolding signatureHandler_def shape found
    by (simp add: Let_def repl exampleFound_unmarshalled [OF assms])
      (simp add: exampleSignature_def exampleSignedInfo_def refersTo_def)
qed

lemma exampleSigned_found:
  assumes "signsExample X"
  shows "findSignature X exampleVC exampleSigned =
     Inr (exampleSignature, [0], Element [] ''R'' [mkAttr [] ''ID'' ''1''] [Elem exampleFound])"
proof -
  have "idAttrOf exampleVC exampleSigned = ''1''"
    by (simp add: idAttrOf_def exampleVC_def NewDefaultValidationContext_def DefaultIdAttr_def exampleSigned_def walk_defs)
  moreover have "SubContext NewDefaultNSContext exampleSignatureEl = Inr exampleNS"
      "SubContext exampleNS exampleSignatureEl = Inr exampleNS"
    by (simp_all add: exampleSignatureEl_def exampleNS_def walk_defs)
  moreover have "nsMatches exampleNS exampleSignatureEl dsNamespace ''Signature'' = Inr True"
    by (simp add: exampleSignatureEl_def exampleNS_def walk_defs)
  moreover have "SubContext NewDefaultNSContext exampleSigned = Inr NewDefaultNSContext"
      "nsMatches NewDefaultNSContext exampleSigned dsNamespace ''Signature'' = Inr False"
    by (simp_all add: exampleSigned_def walk_defs)
  moreover have "el_Child exampleSigned = [Elem exampleSignatureEl]"
      "setChild exampleSigned [Elem exampleFound] = Element [] ''R'' [mkAttr [] ''ID'' ''1''] [Elem exampleFound]"
    by (simp_all add: exampleSigned_def setChild_def)
  ultimately show ?thesis
    using exampleSignature_handled [OF assms]
    by (simp add: findSignature_def NSFindIterate_def NSFindIterateCtx_def NSTraverse.simps [of _ _ _ exampleSigned]
        NSTraverse.simps [of _ _ _ exampleSignatureEl] CheckLimit_def defaultLimit_def)
qed

lemma exampleSigned_valid:
  assumes "signsExample X" "x_ReadFromBytes X ''R'' = Inr (Some v)"
  shows "Validate X exampleVC exampleSigned = Inr (Some v)"
proof -
  let ?root = "Element [] ''R'' [mkAttr [] ''ID'' ''1''] [Elem exampleFound]"
  have c: "verifyCertificate X exampleVC exampleSignature = Inr (exampleCert ''key'')"
    by (simp add: verifyCertificate_def untrustedCertificate_def exampleSignature_def exampleVC_def
        NewDefaultValidationContext_def certEqual_def exampleCert_def ns_defs)
  have t: "transform ?root [0] \<lparr>ref_URI = ''#1'', ref_DigestValue = base64Encode (replicate 20 CHR ''#'' @ ''R''),
       ref_DigestAlgo = digestAlgorithmIdentifier SHA256,
       ref_Transforms = [\<lparr>tr_Algorithm = envelopedSignature, tr_InclusiveNamespaces = None\<rparr>,
         \<lparr>tr_Algorithm = c14nExclusive, tr_InclusiveNamespaces = None\<rparr>]\<rparr>
     = Inr (Element [] ''R'' [mkAttr [] ''ID'' ''1''] [], C14N10Exclusive [] False)"
    by (simp add: transform_def transformStep_def algorithm_id_defs setChild_def)
  have k: "Canonicalize X (C14N10Exclusive [] False) ([], Element [] ''R'' [mkAttr [] ''ID'' ''1''] [])
     = Inr (Element [] ''R'' [mkAttr [] ''ID'' ''1''] [], ''R'')"
    by (simp add: signsExample_sel [OF assms(1)] Canonicalize_def TransformExcC14n_def transformExcC14n.simps walk_defs visiblyUtilizedPrefixes_def
        utilizedBy_def)
  have id: "idAttrOf exampleVC ?root = ''1''"
    by (simp add: idAttrOf_def exampleVC_def NewDefaultValidationContext_def DefaultIdAttr_def walk_defs)
  have "getCanonicalSignedInfo X ([?root], exampleFound) = Inr ''SignedInfo''"
    by (simp add: signsExample_sel [OF assms(1)] getCanonicalSignedInfo_def exampleFound_def exampleSI_def walk_defs)
  then have "validateSignature X exampleVC ?root exampleSignature [0] (exampleCert ''key'')
      = Inr (Some v)"
    using t k id assms(2)
    by (simp add: signsExample_sel [OF assms(1)] validateSignature_def exampleSignature_def exampleSignedInfo_def checkSignature_def
        x509SignatureAlgorithmByIdentifier_def rsaMethods_def signature_method_defs refersTo_def exampleCert_def
        del: base64Encode.simps replicate.simps)
  with c exampleSigned_found [OF assms(1)] show ?thesis by (simp add: Validate_def)
qed

theorem validate_returns_signed_content_witness:
  "\<exists>cert \<in> set (vc_Certificates exampleVC). certValidAt (vc_Now exampleVC) cert \<and>
    signedContent exampleSignedX cert (idAttrOf exampleVC exampleSigned) (Element [] ''R'' [] [])"
  proof -
  have "signsExample exampleSignedX" by (simp add: signsExample_def exampleSignedX_def)
  moreover have "x_ReadFromBytes exampleSignedX ''R'' = Inr (Some (Element [] ''R'' [] []))" by simp
  ultimately show ?thesis by (intro validate_returns_signed_content exampleSigned_valid)
qed

end
