(* ===== verification/Dsig_Sign.thy ===== *)
theory Dsig_Sign
  imports Dsig_Validate
begin

text \<open>
  Making enveloped signatures, the rest of \<^verbatim>\<open>internal/dsig/sign.go\<close>. The element that is signed is
  given with its ancestors. The exclusive canonicalizer transforms it in place, so the signed element is
  the transformed one.
\<close>

section \<open>Constructing a signature\<close>

text \<open>\<^verbatim>\<open>createNamespacedElement\<close> with the attributes and children it is given afterwards.\<close>

definition createNamespacedElement :: "signing_context \<Rightarrow> string \<Rightarrow> attr list \<Rightarrow> token list \<Rightarrow> element" where
  "createNamespacedElement ctx tag as ts = Element (ctx_Prefix ctx) tag as ts"

definition algorithmAttr :: "string \<Rightarrow> attr list" where
  "algorithmAttr alg = [mkAttr [] ''Algorithm'' alg]"

text \<open>\<^verbatim>\<open>digest\<close>: the element as canonicalization leaves it, and the digest of its canonical form.\<close>

definition digestElement :: "externs \<Rightarrow> signing_context \<Rightarrow> node \<Rightarrow> (element \<times> string) result" where
  "digestElement X ctx nd =
     bindE (Canonicalize X (ctx_Canonicalizer ctx) nd) (\<lambda>(el, canonical). Inr (el, x_Hash X (ctx_Hash ctx) canonical))"

definition constructSignedInfo :: "externs \<Rightarrow> signing_context \<Rightarrow> node \<Rightarrow> bool \<Rightarrow> (element \<times> element) result" where
  "constructSignedInfo X ctx nd enveloped =
     (if GetDigestAlgorithmIdentifier ctx = [] then Inl (Err ''unsupported hash mechanism'')
      else if GetSignatureMethodIdentifier ctx = [] then Inl (Err ''unsupported signature method'')
      else bindE (digestElement X ctx nd) (\<lambda>(el, digest).
        let new = createNamespacedElement ctx;
            dataId = SelectAttrValue el (ctx_IdAttribute ctx) [];
            canonAlg = canonAlgorithm (ctx_Canonicalizer ctx);
            transforms = (if enveloped then [Elem (new ''Transform'' (algorithmAttr envelopedSignature) [])] else [])
              @ [Elem (new ''Transform'' (algorithmAttr canonAlg) [])];
            reference = new ''Reference'' [mkAttr [] ''URI'' (if dataId = [] then [] else CHR ''#'' # dataId)]
              [Elem (new ''Transforms'' [] transforms),
               Elem (new ''DigestMethod'' (algorithmAttr (GetDigestAlgorithmIdentifier ctx)) []),
               Elem (new ''DigestValue'' [] [CharData (base64Encode digest)])]
        in Inr (el, new ''SignedInfo'' []
             [Elem (new ''CanonicalizationMethod'' (algorithmAttr canonAlg) []),
              Elem (new ''SignatureMethod'' (algorithmAttr (GetSignatureMethodIdentifier ctx)) []),
              Elem reference])))"

definition ConstructSignature ::
  "externs \<Rightarrow> string \<Rightarrow> signing_context \<Rightarrow> node \<Rightarrow> bool \<Rightarrow> (element \<times> element) result" where
  "ConstructSignature X rnd ctx nd enveloped =
     bindE (constructSignedInfo X ctx nd enveloped) (\<lambda>(el, signedInfo).
       let new = createNamespacedElement ctx;
           xmlns = (if ctx_Prefix ctx \<noteq> [] then mkAttr ''xmlns'' (ctx_Prefix ctx) dsNamespace
                    else mkAttr [] ''xmlns'' dsNamespace);
           sig = new ''Signature'' [xmlns] [Elem signedInfo]
       in bindE (NSBuildParentContext (fst nd)) (\<lambda>rootNSCtx.
          bindE (SubContext rootNSCtx el) (\<lambda>elNSCtx.
          bindE (SubContext elNSCtx sig) (\<lambda>sigNSCtx.
          bindE (NSDetatch sigNSCtx defaultLimit signedInfo) (\<lambda>(_, detatchedSignedInfo).
          bindE (digestElement X ctx ([], detatchedSignedInfo)) (\<lambda>(_, digest).
          bindE (signDigest X rnd ctx digest) (\<lambda>rawSignature.
          bindE (getCerts ctx) (\<lambda>certs.
            Inr (el, new ''Signature'' [xmlns]
              [Elem signedInfo,
               Elem (new ''SignatureValue'' [] [CharData (base64Encode rawSignature)]),
               Elem (new ''KeyInfo'' [] [Elem (new ''X509Data'' []
                 (map (\<lambda>cert. Elem (new ''X509Certificate'' [] [CharData (base64Encode cert)])) certs))])])))))))))"

definition SignEnveloped :: "externs \<Rightarrow> string \<Rightarrow> signing_context \<Rightarrow> node \<Rightarrow> element result" where
  "SignEnveloped X rnd ctx nd =
     bindE (ConstructSignature X rnd ctx nd True) (\<lambda>(el, sig). Inr (AddChild (Elem sig) el))"

section \<open>The signed element\<close>

lemma SignEnveloped_children:
  assumes "SignEnveloped X rnd ctx nd = Inr ret"
  obtains el sig where "ConstructSignature X rnd ctx nd True = Inr (el, sig)"
    "el_Child ret = el_Child el @ [Elem sig]" "el_Attr ret = el_Attr el"
    "removeElementAtPath ret [length (el_Child el)] = Some el"
proof -
  from assms obtain el sig where "ConstructSignature X rnd ctx nd True = Inr (el, sig)" "ret = AddChild (Elem sig) el"
    by (auto simp: SignEnveloped_def)
  then show ?thesis by (intro that [of el sig]) (auto simp: AddChild_def setChild_def)
qed

end
