(* ===== verification/Xml_Access.thy ===== *)
theory Xml_Access
  imports Dsig_Sign
begin

text \<open>
  How the two providers read XML, the helpers at the end of \<^verbatim>\<open>service_provider.go\<close>: finding child
  elements by namespace, and unmarshalling an element after the namespace declarations that it does
  not use have been removed.
\<close>

section \<open>Searching children\<close>

text \<open>The loop of \<^verbatim>\<open>findChildren\<close>; \<open>anc\<close> is the parent and its ancestors, nearest first.\<close>

fun findChildrenIn :: "element list \<Rightarrow> string \<Rightarrow> string \<Rightarrow> element list \<Rightarrow> node list result" where
  "findChildrenIn anc childNS childTag [] = Inr []"
| "findChildrenIn anc childNS childTag (childEl # rest) =
     (if el_Tag childEl \<noteq> childTag then findChildrenIn anc childNS childTag rest
      else bindE (NSBuildParentContext anc) (\<lambda>ctx.
        bindE (SubContext ctx childEl) (\<lambda>ctx.
          bindE (wrapE (Wrapf ''[%s]:%s cannot find prefix %s: %v'' [childNS, childTag, el_Space childEl])
              (LookupPrefix ctx (el_Space childEl))) (\<lambda>ns.
            bindE (findChildrenIn anc childNS childTag rest) (\<lambda>rv.
              Inr (if ns \<noteq> childNS then rv else (anc, childEl) # rv))))))"

definition findChildren :: "node \<Rightarrow> string \<Rightarrow> string \<Rightarrow> node list result" where
  "findChildren parent childNS childTag =
     findChildrenIn (snd parent # fst parent) childNS childTag (ChildElements (snd parent))"

definition findOneChild :: "node \<Rightarrow> string \<Rightarrow> string \<Rightarrow> node result" where
  "findOneChild parent childNS childTag =
     bindE (findChildren parent childNS childTag) (\<lambda>children.
       case children of
         [] \<Rightarrow> Inl (Errorf ''cannot find %s:%s element'' [childNS, childTag])
       | [c] \<Rightarrow> Inr c
       | _ \<Rightarrow> Inl (Errorf ''expected exactly one %s:%s element'' [childNS, childTag]))"

definition findChild :: "node \<Rightarrow> string \<Rightarrow> string \<Rightarrow> node option result" where
  "findChild parent childNS childTag =
     bindE (findChildren parent childNS childTag) (\<lambda>children.
       case children of
         [] \<Rightarrow> Inr None
       | [c] \<Rightarrow> Inr (Some c)
       | _ \<Rightarrow> Inl (Errorf ''expected at most one %s:%s element'' [childNS, childTag]))"

lemma findChildrenIn_sound:
  "findChildrenIn anc ns tag cs = Inr rv \<Longrightarrow> (a, c) \<in> set rv \<Longrightarrow> a = anc \<and> c \<in> set cs \<and> el_Tag c = tag"
  by (induction cs arbitrary: rv) (auto split: if_splits)

lemma findChildren_sound:
  "findChildren nd ns tag = Inr rv \<Longrightarrow> (a, c) \<in> set rv \<Longrightarrow>
   a = snd nd # fst nd \<and> c \<in> set (ChildElements (snd nd)) \<and> el_Tag c = tag"
  unfolding findChildren_def by (drule (1) findChildrenIn_sound) simp

lemma findOneChild_Inr: "findOneChild nd ns tag = Inr c \<longleftrightarrow> findChildren nd ns tag = Inr [c]"
  by (cases "findChildren nd ns tag") (auto simp: findOneChild_def split: list.splits)

lemma findChild_Inr:
  "findChild nd ns tag = Inr r \<longleftrightarrow>
   (r = None \<and> findChildren nd ns tag = Inr []) \<or> (\<exists>c. r = Some c \<and> findChildren nd ns tag = Inr [c])"
  by (cases "findChildren nd ns tag") (auto simp: findChild_def split: list.splits)

text \<open>\<^verbatim>\<open>FindElement\<close> and \<^verbatim>\<open>FindElements\<close> with a path of child tags: a tag without a prefix matches in any
  namespace.\<close>

fun findPath :: "element \<Rightarrow> string list \<Rightarrow> element list" where
  "findPath el [] = [el]"
| "findPath el (tag # tags) = concat (map (\<lambda>c. findPath c tags) (filter (\<lambda>c. el_Tag c = tag) (ChildElements el)))"

definition FindElement :: "element \<Rightarrow> string list \<Rightarrow> element option" where
  "FindElement el tags = (case findPath el tags of [] \<Rightarrow> None | e # _ \<Rightarrow> Some e)"

text \<open>\<^verbatim>\<open>Element.NamespaceURI\<close>: the nearest declaration of the element's prefix, or no namespace.\<close>

definition declarationOf :: "string \<Rightarrow> attr \<Rightarrow> bool" where
  "declarationOf prefix a \<longleftrightarrow>
     (if prefix = [] then at_Space a = [] \<and> at_Key a = ''xmlns'' else at_Space a = ''xmlns'' \<and> at_Key a = prefix)"

definition NamespaceURI :: "node \<Rightarrow> string" where
  "NamespaceURI nd =
     (case find (declarationOf (el_Space (snd nd))) (concat (map el_Attr (snd nd # fst nd))) of
        None \<Rightarrow> [] | Some a \<Rightarrow> at_Value a)"

text \<open>The children of an element that \<^verbatim>\<open>SetText\<close> gives its text, and \<^verbatim>\<open>Element.Text\<close>: the character data
  that follows the opening tag.\<close>

definition textTokens :: "string \<Rightarrow> token list" where
  "textTokens s = (if s \<noteq> [] then [CharData s] else [])"

fun elementText :: "token list \<Rightarrow> string" where
  "elementText (CharData s # ts) = s @ elementText ts"
| "elementText _ = []"

lemma elementText_textTokens [simp]: "elementText (textTokens s) = s"
  by (simp add: textTokens_def)

lemma child_elements_textTokens [simp]: "child_elements (textTokens s) = []"
  by (simp add: textTokens_def)

section \<open>Serializing an element\<close>

text \<open>The descendants of an element, level by level, as \<^verbatim>\<open>FindElements(".//*")\<close> returns them.\<close>

lemma size_children_levels:
  "size_list size (concat (map ChildElements els)) \<le> size_list size els \<and>
   (els \<noteq> [] \<longrightarrow> size_list size (concat (map ChildElements els)) < size_list size els)"
proof (induction els)
  case (Cons el els)
  have "size_list size (xs @ ys) = size_list size xs + size_list size ys" for xs ys :: "element list"
    by (induction xs) auto
  with Cons size_list_child_elements [of el] show ?case by auto
qed simp

function levelOrder :: "element list \<Rightarrow> element list" where
  "levelOrder els = (if els = [] then [] else els @ levelOrder (concat (map ChildElements els)))"
  by pat_completeness auto
termination
  using size_children_levels by (relation "measure (size_list size)") auto

declare levelOrder.simps [simp del]

text \<open>\<^verbatim>\<open>SelectAttr\<close> with a declaration's full name.\<close>

definition hasDecl :: "string \<Rightarrow> element \<Rightarrow> bool" where
  "hasDecl prefix root \<longleftrightarrow>
     (\<exists>a \<in> set (el_Attr root). if prefix = [] then at_Key a = ''xmlns'' else at_Space a = ''xmlns'' \<and> at_Key a = prefix)"

definition copyDeclaration :: "nscontext \<Rightarrow> element \<Rightarrow> element \<Rightarrow> element" where
  "copyDeclaration ctx childEl root =
     (if el_Space childEl = ''xml'' then root
      else (case LookupPrefix ctx (el_Space childEl) of
              Inl _ \<Rightarrow> root
            | Inr uri \<Rightarrow>
                if el_Space childEl = [] \<and> uri = XMLNamespace then root
                else if hasDecl (el_Space childEl) root then root
                else if el_Space childEl = [] then CreateAttr [] ''xmlns'' uri root
                else CreateAttr ''xmlns'' (el_Space childEl) uri root))"

text \<open>\<^verbatim>\<open>elementToBytes\<close>. \<^verbatim>\<open>LookupPrefix\<close> fails only with the error that the loop continues on.\<close>

definition elementToBytes :: "externs \<Rightarrow> node \<Rightarrow> string result" where
  "elementToBytes X nd =
     bindE (NSBuildParentContext (fst nd)) (\<lambda>ctx.
       bindE (SubContext ctx (snd nd)) (\<lambda>ctx.
         Inr (x_WriteToBytes X
           (fold (copyDeclaration ctx) (levelOrder [snd nd]) (snd nd)))))"

definition elementToString :: "externs \<Rightarrow> node \<Rightarrow> string" where
  "elementToString X nd = (case elementToBytes X nd of Inl _ \<Rightarrow> [] | Inr buf \<Rightarrow> buf)"

section \<open>Removing unused declarations\<close>

text \<open>\<^verbatim>\<open>RemoveAttr\<close>: removes the first attribute of that name.\<close>

fun RemoveAttr :: "string \<Rightarrow> string \<Rightarrow> attr list \<Rightarrow> attr list" where
  "RemoveAttr sp key [] = []"
| "RemoveAttr sp key (a # as) = (if at_Space a = sp \<and> at_Key a = key then as else a # RemoveAttr sp key as)"

text \<open>The last loop of \<^verbatim>\<open>stripUnusedNamespaceDeclarations\<close>, over the declarations that the element had: the
  prefixes that are used and not declared, and the attributes that are left.\<close>

fun dropUnused :: "string list \<Rightarrow> attr list \<Rightarrow> attr list \<Rightarrow> string list \<times> attr list" where
  "dropUnused used [] as = (used, as)"
| "dropUnused used (d # ds) as =
     (if at_Space d \<noteq> ''xmlns'' then dropUnused used ds as
      else if at_Key d \<in> set used then dropUnused (filter (\<lambda>p. p \<noteq> at_Key d) used) ds as
      else dropUnused used ds (RemoveAttr ''xmlns'' (at_Key d) as))"

definition isSignatureNode :: "node \<Rightarrow> bool" where
  "isSignatureNode nd \<longleftrightarrow> el_Tag (snd nd) = ''Signature'' \<and> NamespaceURI nd = dsNamespace"

text \<open>The prefixes that an element and its attributes use themselves.\<close>

definition ownPrefixes :: "element \<Rightarrow> string list" where
  "ownPrefixes el =
     (if el_Space el \<noteq> [] then [el_Space el] else [])
     @ map at_Space (filter (\<lambda>a. at_Space a \<noteq> [] \<and> at_Space a \<noteq> ''xmlns'') (el_Attr el))"

function (sequential) stripUnused :: "element list \<Rightarrow> element \<Rightarrow> string list \<times> element"
and stripTokens :: "element list \<Rightarrow> token list \<Rightarrow> string list \<times> token list" where
  "stripUnused anc el =
     (case stripTokens (el # anc) (el_Child el) of (childUsed, ts) \<Rightarrow>
        (case dropUnused (ownPrefixes el @ childUsed) (el_Attr el) (el_Attr el) of (used, as) \<Rightarrow>
           (used, Element (el_Space el) (el_Tag el) as ts)))"
| "stripTokens anc [] = ([], [])"
| "stripTokens anc (Elem c # ts) =
     (case (stripUnused anc c, stripTokens anc ts) of ((cu, c'), (u, ts')) \<Rightarrow>
        ((if isSignatureNode (anc, c) then [] else cu) @ u, Elem c' # ts'))"
| "stripTokens anc (t # ts) = (case stripTokens anc ts of (u, ts') \<Rightarrow> (u, t # ts'))"
  by pat_completeness auto
termination
  by (relation "measure (case_sum (\<lambda>(_, el). size el) (\<lambda>(_, ts). size_list size ts))")
    (auto simp: size_list_el_Child)

declare stripUnused.simps [simp del]

definition removeUnusedNamespaceDeclarations :: "element \<Rightarrow> element" where
  "removeUnusedNamespaceDeclarations el = snd (stripUnused [] el)"

text \<open>\<^verbatim>\<open>unmarshalElement\<close>, over the unmarshaller of the type. The bytes of an element parse to a document
  with a root; Go would dereference a nil pointer if they did not.\<close>

definition unmarshalElement :: "externs \<Rightarrow> (string \<Rightarrow> 'a result) \<Rightarrow> node \<Rightarrow> 'a result" where
  "unmarshalElement X unmarshal nd =
     bindE (elementToBytes X nd) (\<lambda>buf.
       bindE (x_ReadFromBytes X buf) (\<lambda>root.
         case root of
           None \<Rightarrow> Inl (Panic ''nil root element'')
         | Some el \<Rightarrow> unmarshal (x_WriteToBytes X (removeUnusedNamespaceDeclarations el))))"


section \<open>What is left after removal\<close>

definition declaresPrefix :: "string \<Rightarrow> attr \<Rightarrow> bool" where
  "declaresPrefix k a \<longleftrightarrow> at_Space a = ''xmlns'' \<and> at_Key a = k"

definition declaredHere :: "element \<Rightarrow> string set" where
  "declaredHere el = {k. \<exists>a \<in> set (el_Attr el). declaresPrefix k a}"

text \<open>The prefixes that an element needs a declaration of: those that it uses in its name or in the name of an attribute,
  and those that a child which is not an enveloped signature needs and does not declare itself.\<close>

function (sequential) neededPrefixes :: "element list \<Rightarrow> element \<Rightarrow> string set"
and neededByTokens :: "element list \<Rightarrow> token list \<Rightarrow> string set" where
  "neededPrefixes anc el = set (ownPrefixes el) \<union> neededByTokens (el # anc) (el_Child el)"
| "neededByTokens anc [] = {}"
| "neededByTokens anc (Elem c # ts) =
     (if isSignatureNode (anc, c) then {} else neededPrefixes anc c - declaredHere c) \<union> neededByTokens anc ts"
| "neededByTokens anc (t # ts) = neededByTokens anc ts"
  by pat_completeness auto
termination
  by (relation "measure (case_sum (\<lambda>(_, el). size el) (\<lambda>(_, ts). size_list size ts))")
    (auto simp: size_list_el_Child)

text \<open>Attributes of which only the unneeded declarations are gone: of a prefix that is needed and declared there is one
  declaration, of any other none.\<close>

definition cleanedAttrs :: "string set \<Rightarrow> attr list \<Rightarrow> attr list \<Rightarrow> bool" where
  "cleanedAttrs needed as as' \<longleftrightarrow>
     filter (\<lambda>a. at_Space a \<noteq> ''xmlns'') as' = filter (\<lambda>a. at_Space a \<noteq> ''xmlns'') as \<and> set as' \<subseteq> set as \<and>
     (\<forall>p. length (filter (declaresPrefix p) as') =
        (if p \<in> needed \<and> (\<exists>a \<in> set as. declaresPrefix p a) then 1 else 0))"

text \<open>A tree of which only the unneeded declarations are gone, at every element.\<close>

function (sequential) cleaned :: "element list \<Rightarrow> element \<Rightarrow> element \<Rightarrow> bool"
and cleanedTokens :: "element list \<Rightarrow> token list \<Rightarrow> token list \<Rightarrow> bool" where
  "cleaned anc el el' \<longleftrightarrow> el_Space el' = el_Space el \<and> el_Tag el' = el_Tag el \<and>
     cleanedAttrs (neededPrefixes anc el) (el_Attr el) (el_Attr el') \<and>
     cleanedTokens (el # anc) (el_Child el) (el_Child el')"
| "cleanedTokens anc [] ts' \<longleftrightarrow> ts' = []"
| "cleanedTokens anc (Elem c # ts) (Elem c' # ts') \<longleftrightarrow> cleaned anc c c' \<and> cleanedTokens anc ts ts'"
| "cleanedTokens anc (t # ts) (t' # ts') \<longleftrightarrow> t' = t \<and> \<not> (\<exists>c. t = Elem c) \<and> cleanedTokens anc ts ts'"
| "cleanedTokens anc (t # ts) [] \<longleftrightarrow> False"
  by pat_completeness auto
termination
  by (relation "measure (case_sum (\<lambda>(_, el, _). size el) (\<lambda>(_, ts, _). size_list size ts))")
    (auto simp: size_list_el_Child)

declare neededPrefixes.simps [simp del] cleaned.simps [simp del]

lemma RemoveAttr_count:
  "length (filter (declaresPrefix k) (RemoveAttr ''xmlns'' k' as)) =
     (if k = k' then length (filter (declaresPrefix k) as) - 1 else length (filter (declaresPrefix k) as))"
  by (induction as) (auto simp: declaresPrefix_def [abs_def])

lemma dropUnused_count:
  "length (filter (declaresPrefix k) ds) \<le> length (filter (declaresPrefix k) as) \<Longrightarrow>
   length (filter (declaresPrefix k) (snd (dropUnused used ds as))) =
     length (filter (declaresPrefix k) as) -
       (if k \<in> set used then length (filter (declaresPrefix k) ds) - 1 else length (filter (declaresPrefix k) ds))"
proof (induction used ds as rule: dropUnused.induct)
  case (2 used d ds as)
  then show ?case
    by (cases "declaresPrefix k d") (auto simp: RemoveAttr_count declaresPrefix_def [of _ d] split: if_splits)
qed simp

lemma dropUnused_used:
  "set (fst (dropUnused used ds as)) = set used - {k. \<exists>d \<in> set ds. declaresPrefix k d}"
  by (induction used ds as rule: dropUnused.induct) (auto simp: declaresPrefix_def)

lemma RemoveAttr_other:
  "filter (\<lambda>a. at_Space a \<noteq> ''xmlns'') (RemoveAttr ''xmlns'' k as) = filter (\<lambda>a. at_Space a \<noteq> ''xmlns'') as"
  "set (RemoveAttr sp k as) \<subseteq> set as"
  by (induction as) auto

lemma dropUnused_other:
  "filter (\<lambda>a. at_Space a \<noteq> ''xmlns'') (snd (dropUnused used ds as)) = filter (\<lambda>a. at_Space a \<noteq> ''xmlns'') as"
  "set (snd (dropUnused used ds as)) \<subseteq> set as"
proof (induction used ds as rule: dropUnused.induct)
  case (2 used d ds as)
  show "filter (\<lambda>a. at_Space a \<noteq> ''xmlns'') (snd (dropUnused used (d # ds) as)) = filter (\<lambda>a. at_Space a \<noteq> ''xmlns'') as"
    using 2(1,3,5) RemoveAttr_other(1) by simp
  show "set (snd (dropUnused used (d # ds) as)) \<subseteq> set as"
    using 2 RemoveAttr_other(2) [of "''xmlns''" "at_Key d" as] by auto
qed simp_all

lemma dropUnused_cleaned: "cleanedAttrs (set used) as (snd (dropUnused used as as))"
proof -
  have "length (filter (declaresPrefix p) as) - (length (filter (declaresPrefix p) as) - 1) =
      (if \<exists>a \<in> set as. declaresPrefix p a then 1 else 0)" for p
    by (cases "filter (declaresPrefix p) as") (auto simp: filter_empty_conv dest: filter_eq_ConsD)
  then show ?thesis
    by (simp add: cleanedAttrs_def dropUnused_count dropUnused_other)
qed

lemma stripUnused_cleaned:
  "set (fst (stripUnused anc el)) = neededPrefixes anc el - declaredHere el \<and> cleaned anc el (snd (stripUnused anc el))"
  "set (fst (stripTokens anc ts)) = neededByTokens anc ts \<and> cleanedTokens anc ts (snd (stripTokens anc ts))"
proof (induction anc el and anc ts rule: stripUnused_stripTokens.induct)
  case (1 anc el)
  obtain cu ts where c: "stripTokens (el # anc) (el_Child el) = (cu, ts)"
    by (cases "stripTokens (el # anc) (el_Child el)")
  let ?used = "ownPrefixes el @ cu"
  have used: "set ?used = neededPrefixes anc el" and ts: "cleanedTokens (el # anc) (el_Child el) ts"
    using 1 c by (simp_all add: neededPrefixes.simps [of anc])
  have s: "stripUnused anc el = (fst (dropUnused ?used (el_Attr el) (el_Attr el)),
      Element (el_Space el) (el_Tag el) (snd (dropUnused ?used (el_Attr el) (el_Attr el))) ts)"
    by (simp add: stripUnused.simps [of anc] c split: prod.splits)
  show ?case
    using dropUnused_cleaned [of ?used "el_Attr el"] ts
    unfolding s used by (simp add: dropUnused_used declaredHere_def cleaned.simps [of anc] flip: used)
next
  case (3 anc c ts)
  then show ?case
    by (cases "stripUnused anc c"; cases "stripTokens anc ts") (simp add: Un_commute)
qed (simp_all add: case_prod_beta)

section \<open>Properties\<close>

text \<open>
  C9. A declaration that no signature covers is not read. The removal that precedes every unmarshalling changes
  nothing but declarations of prefixes, at every element of the tree: a prefix that the element itself uses in a name,
  or that a child outside the enveloped signature needs and does not declare, keeps one of the declarations it has on
  the element, and every other declaration xmlns:p is gone. Elements, all other attributes and all text stay in place.
\<close>

theorem unused_declarations_removed: "cleaned [] el (removeUnusedNamespaceDeclarations el)"
  using stripUnused_cleaned(1) [of "[]" el] by (simp add: removeUnusedNamespaceDeclarations_def)

end
