(* ===== verification/Go_Numbers.thy ===== *)
theory Go_Numbers
  imports Go_Encoding
begin

text \<open>
  Numbers of Go's standard library that the text formats use: decimal digits as \<^verbatim>\<open>fmt\<close> prints and
  \<^verbatim>\<open>strconv.Atoi\<close> reads them, and signed 64-bit arithmetic.
\<close>

section \<open>Decimal digits\<close>

definition isDigit :: "char \<Rightarrow> bool" where
  "isDigit c \<longleftrightarrow> 48 \<le> byte c \<and> byte c \<le> 57"

definition digit :: "nat \<Rightarrow> char" where
  "digit n = char_of (48 + n)"

text \<open>\<^verbatim>\<open>%d\<close> of a non-negative number, and \<^verbatim>\<open>%0kd\<close> of one with at most \<open>k\<close> digits.\<close>

fun decimal :: "nat \<Rightarrow> string" where
  "decimal n = (if n < 10 then [digit n] else decimal (n div 10) @ [digit (n mod 10)])"

declare decimal.simps [simp del]

fun fixedDigits :: "nat \<Rightarrow> nat \<Rightarrow> string" where
  "fixedDigits 0 n = []"
| "fixedDigits (Suc k) n = fixedDigits k (n div 10) @ [digit (n mod 10)]"

definition digitsValue :: "string \<Rightarrow> nat" where
  "digitsValue ds = foldl (\<lambda>n c. 10 * n + (byte c - 48)) 0 ds"

lemma digit_isDigit [simp]: "n < 10 \<Longrightarrow> isDigit (digit n)"
  by (simp add: isDigit_def digit_def byte_def of_char_of)

lemma digitsValue_snoc [simp]: "n < 10 \<Longrightarrow> digitsValue (ds @ [digit n]) = 10 * digitsValue ds + n"
  by (simp add: digitsValue_def digit_def byte_def of_char_of)

lemma digitsValue_Nil [simp]: "digitsValue [] = 0"
  by (simp add: digitsValue_def)

lemma decimal_digits [simp]: "c \<in> set (decimal n) \<Longrightarrow> isDigit c"
  by (induction n rule: decimal.induct) (subst (asm) (2) decimal.simps, auto split: if_splits)

lemma decimal_nonempty [simp]: "decimal n \<noteq> []"
  by (subst decimal.simps) simp

lemma digitsValue_decimal [simp]: "digitsValue (decimal n) = n"
proof (induction n rule: decimal.induct)
  case (1 n)
  then show ?case using digitsValue_snoc [of n "[]"] by (subst decimal.simps) auto
qed

lemma fixedDigits_digits: "c \<in> set (fixedDigits k n) \<Longrightarrow> isDigit c"
  by (induction k arbitrary: n) auto

lemma length_fixedDigits [simp]: "length (fixedDigits k n) = k"
  by (induction k arbitrary: n) auto

lemma digitsValue_fixedDigits: "n < 10 ^ k \<Longrightarrow> digitsValue (fixedDigits k n) = n"
  by (induction k arbitrary: n) (simp_all add: less_mult_imp_div_less mult.commute)

lemma span_digits:
  assumes "\<forall>c \<in> set ds. isDigit c" "\<not> isDigit c"
  shows "takeWhile isDigit (ds @ c # r) = ds" "dropWhile isDigit (ds @ c # r) = c # r"
  using assms by (simp_all add: takeWhile_append2 dropWhile_append2)

lemma span_all_digits:
  assumes "\<forall>c \<in> set ds. isDigit c"
  shows "takeWhile isDigit ds = ds" "dropWhile isDigit ds = []"
  using assms by (simp_all add: takeWhile_eq_all_conv dropWhile_eq_Nil_conv)

text \<open>\<^verbatim>\<open>strings.TrimRight\<close> of zeros.\<close>

definition trimZeros :: "string \<Rightarrow> string" where
  "trimZeros s = rev (dropWhile (\<lambda>c. c = CHR ''0'') (rev s))"

lemma trimZeros_simps [simp]:
  "trimZeros [] = []" "trimZeros (x @ [CHR ''0'']) = trimZeros x" "c \<noteq> CHR ''0'' \<Longrightarrow> trimZeros (x @ [c]) = x @ [c]"
  "c \<noteq> CHR ''0'' \<Longrightarrow> trimZeros (c # x) = c # trimZeros x"
  by (auto simp: trimZeros_def dropWhile_append dropWhile_eq_Nil_conv)

lemma trimZeros_subset: "set (trimZeros x) \<subseteq> set x"
  by (auto simp: trimZeros_def dest: set_dropWhileD)

lemma trimZeros_length: "length (trimZeros x) \<le> length x"
  using length_dropWhile_le [of _ "rev x"] by (simp add: trimZeros_def)

lemma trimZeros_value: "digitsValue (trimZeros x) * 10 ^ (length x - length (trimZeros x)) = digitsValue x"
proof (induction x rule: rev_induct)
  case (snoc c x)
  have "digitsValue (x @ [CHR ''0'']) = 10 * digitsValue x"
    by (simp add: digitsValue_def byte_def)
  with snoc trimZeros_length [of x] show ?case by (cases "c = CHR ''0''") (simp_all add: Suc_diff_le)
qed simp

section \<open>64-bit integers\<close>

definition wrap64 :: "int \<Rightarrow> int" where
  "wrap64 x = (x + 2 ^ 63) mod 2 ^ 64 - 2 ^ 63"

definition int64 :: "int \<Rightarrow> bool" where
  "int64 x \<longleftrightarrow> - (2 ^ 63) \<le> x \<and> x < 2 ^ 63"

lemma wrap64_int64 [simp]: "int64 x \<Longrightarrow> wrap64 x = x"
  by (simp add: wrap64_def int64_def)

lemma int64_wrap64 [simp]: "int64 (wrap64 x)"
  using pos_mod_bound [of "2 ^ 64" "x + 2 ^ 63"] pos_mod_sign [of "2 ^ 64" "x + 2 ^ 63"]
  by (simp add: wrap64_def int64_def)

text \<open>\<^verbatim>\<open>strconv.Atoi\<close> of a sequence of digits; \<^verbatim>\<open>int\<close> has 64 bits.\<close>

definition Atoi :: "string \<Rightarrow> int result" where
  "Atoi ds = (if digitsValue ds < 2 ^ 63 then Inr (int (digitsValue ds)) else Inl (Err ''value out of range''))"

end
