(* ===== verification/Time_Text.thy ===== *)
theory Time_Text
  imports Go_Numbers
begin

text \<open>
  Times in the text format of XML schema (\<^verbatim>\<open>time.go\<close>, and \<^verbatim>\<open>time.Format\<close> with its layout): the calendar of
  \<^verbatim>\<open>time.Time\<close>, printing in UTC with milliseconds, and the three layouts that are read.
\<close>

section \<open>Calendar\<close>

text \<open>A time counts from January 1 of year 1. Days are counted from 0, months and days of the month from 1.\<close>

definition leapYear :: "int \<Rightarrow> bool" where
  "leapYear y \<longleftrightarrow> 4 dvd y \<and> (\<not> 100 dvd y \<or> 400 dvd y)"

definition monthDays :: "int \<Rightarrow> nat list" where
  "monthDays y = [31, if leapYear y then 29 else 28, 31, 30, 31, 30, 31, 31, 30, 31, 30, 31]"

definition yearStart :: "int \<Rightarrow> int" where
  "yearStart y = 365 * (y - 1) + (y - 1) div 4 - (y - 1) div 100 + (y - 1) div 400"

definition dateDay :: "int \<Rightarrow> nat \<Rightarrow> nat \<Rightarrow> int" where
  "dateDay y m d = yearStart y + int (sum_list (take (m - 1) (monthDays y))) + int d - 1"

definition yearOf :: "int \<Rightarrow> int \<times> nat" where
  "yearOf day =
     (let n400 = day div 146097; d1 = day mod 146097; n100 = min 3 (d1 div 36524); d2 = d1 - 36524 * n100;
          n4 = d2 div 1461; d3 = d2 mod 1461; n1 = min 3 (d3 div 365) in
      (400 * n400 + 100 * n100 + 4 * n4 + n1 + 1, nat (d3 - 365 * n1)))"

fun monthOf :: "nat list \<Rightarrow> nat \<Rightarrow> nat \<times> nat" where
  "monthOf [] d = (1, d + 1)"
| "monthOf (n # ns) d = (if d < n then (1, d + 1) else let (m, d') = monthOf ns (d - n) in (m + 1, d'))"

definition civilDate :: "int \<Rightarrow> int \<times> nat \<times> nat" where
  "civilDate day = (let (y, yday) = yearOf day in (y, monthOf (monthDays y) yday))"

section \<open>Printing\<close>

text \<open>The layout \<^verbatim>\<open>timeFormat\<close> in UTC, for years from 0 on: the fraction is cut to milliseconds, without
  trailing zeros.\<close>

definition FormatTime :: "time \<Rightarrow> string" where
  "FormatTime t =
     (let sec = t div nsSecond; ms = nat (t mod nsSecond div 1000000); day = sec div 86400; s = nat (sec mod 86400);
          (y, m, d) = civilDate day in
      (if y < 10000 then fixedDigits 4 (nat y) else decimal (nat y)) @ ''-'' @ fixedDigits 2 m @ ''-'' @ fixedDigits 2 d @ ''T'' @
      fixedDigits 2 (s div 3600) @ '':'' @ fixedDigits 2 (s mod 3600 div 60) @ '':'' @ fixedDigits 2 (s mod 60) @
      (if ms = 0 then [] else ''.'' @ trimZeros (fixedDigits 3 ms)) @ ''Z'')"

text \<open>\<^verbatim>\<open>Round(time.Millisecond)\<close>: half values are rounded up.\<close>

definition roundMillisecond :: "time \<Rightarrow> time" where
  "roundMillisecond t = (let r = t mod 1000000 in if r + r < 1000000 then t - r else t + (1000000 - r))"

definition RelaxedTime_String :: "time \<Rightarrow> string" where
  "RelaxedTime_String t = FormatTime (roundMillisecond t)"

definition RelaxedTime_MarshalText :: "time \<Rightarrow> string result" where
  "RelaxedTime_MarshalText t = Inr (RelaxedTime_String t)"

section \<open>Reading\<close>

definition timeError :: "string \<Rightarrow> error" where
  "timeError s = Errorf ''parsing time %q'' [s]"

text \<open>\<^verbatim>\<open>getnum\<close>: one or two digits, or two when fixed.\<close>

definition getnum :: "bool \<Rightarrow> string \<Rightarrow> (nat \<times> string) option" where
  "getnum isFixed s =
     (case s of
        [] \<Rightarrow> None
      | c # r \<Rightarrow>
          if \<not> isDigit c then None
          else if r \<noteq> [] \<and> isDigit (hd r) then Some (digitsValue [c, hd r], tl r)
          else if isFixed then None else Some (digitsValue [c], r))"

definition expect :: "char \<Rightarrow> string \<Rightarrow> string option" where
  "expect c s = (if s \<noteq> [] \<and> hd s = c then Some (tl s) else None)"

definition getYear :: "string \<Rightarrow> (nat \<times> string) option" where
  "getYear s = (if 4 \<le> length s \<and> list_all isDigit (take 4 s) then Some (digitsValue (take 4 s), drop 4 s) else None)"

text \<open>A fraction after the seconds, whether or not the layout has one: nine digits count.\<close>

definition getFraction :: "string \<Rightarrow> nat \<times> string" where
  "getFraction s =
     (if s \<noteq> [] \<and> (hd s = CHR ''.'' \<or> hd s = CHR '','') \<and> tl s \<noteq> [] \<and> isDigit (hd (tl s)) then
        let fs = takeWhile isDigit (tl s) in
        (digitsValue (take 9 fs) * 10 ^ (9 - length (take 9 fs)), dropWhile isDigit (tl s))
      else (0, s))"

text \<open>\<^verbatim>\<open>Z07:00\<close>: the offset in seconds.\<close>

definition getZone :: "string \<Rightarrow> (int \<times> string) option" where
  "getZone s =
     (if s \<noteq> [] \<and> hd s = CHR ''Z'' then Some (0, tl s)
      else if length s < 6 \<or> s ! 3 \<noteq> CHR '':'' then None
      else
     (case (getnum True (take 2 (drop 1 s)), getnum True (take 2 (drop 4 s))) of
        (Some (hr, _), Some (mm, _)) \<Rightarrow>
          if hr > 24 \<or> mm > 60 then None
          else if hd s = CHR ''+'' then Some (int (hr * 60 + mm) * 60, drop 6 s)
          else if hd s = CHR ''-'' then Some (- (int (hr * 60 + mm) * 60), drop 6 s)
          else None
      | _ \<Rightarrow> None))"

text \<open>\<^verbatim>\<open>time.Parse\<close> with the layouts of RFC 3339, with or without the zone; \<open>None\<close> is an error.\<close>

definition parseTime :: "bool \<Rightarrow> string \<Rightarrow> time option" where
  "parseTime zoned s =
     Option.bind (getYear s) (\<lambda>(y, s).
     Option.bind (expect CHR ''-'' s) (\<lambda>s.
     Option.bind (getnum True s) (\<lambda>(m, s).
     if m < 1 \<or> 12 < m then None
     else
     Option.bind (expect CHR ''-'' s) (\<lambda>s.
     Option.bind (getnum True s) (\<lambda>(d, s).
     Option.bind (expect CHR ''T'' s) (\<lambda>s.
     Option.bind (getnum False s) (\<lambda>(hour, s).
     if hour > 23 then None
     else
     Option.bind (expect CHR '':'' s) (\<lambda>s.
     Option.bind (getnum True s) (\<lambda>(minute, s).
     if minute > 59 then None
     else
     Option.bind (expect CHR '':'' s) (\<lambda>s.
     Option.bind (getnum True s) (\<lambda>(second, s).
     if second > 59 then None
     else let (nsec, s) = getFraction s in
     Option.bind (if zoned then getZone s else Some (0, s)) (\<lambda>(offset, s).
     if s \<noteq> [] \<or> d < 1 \<or> monthDays (int y) ! (m - 1) < d then None
     else Some (((dateDay (int y) m d * 86400 + int (hour * 3600 + minute * 60 + second)) - offset) * nsSecond + int nsec)))))))))))))"

text \<open>The layout with a fraction reads the same as the one without, which is tried first.\<close>

definition RelaxedTime_UnmarshalText :: "string \<Rightarrow> time result" where
  "RelaxedTime_UnmarshalText s =
     (if s = [] then Inr 0
      else
     (case parseTime True s of
        Some t \<Rightarrow> Inr (roundMillisecond t)
      | None \<Rightarrow>
     (case parseTime True s of
        Some t \<Rightarrow> Inr (roundMillisecond t)
      | None \<Rightarrow>
     (case parseTime False s of
        Some t \<Rightarrow> Inr (roundMillisecond t)
      | None \<Rightarrow> Inl (timeError s)))))"


section \<open>The calendar is exact\<close>

text \<open>The last of the years of a period has the remaining days.\<close>

lemma min_div_remainder:
  fixes n d k :: int
  assumes "0 < n" "0 \<le> d" "0 \<le> k"
  shows "0 \<le> d - n * min k (d div n)" and "min k (d div n) < k \<Longrightarrow> d - n * min k (d div n) < n"
    and "d \<le> n * (k + 1) \<Longrightarrow> d - n * min k (d div n) \<le> n"
    and "d \<le> n * (k + 1) \<Longrightarrow> d - n * min k (d div n) = n \<Longrightarrow> min k (d div n) = k"
proof -
  have d: "d = n * (d div n) + d mod n" "0 \<le> d mod n" "d mod n < n" using assms by simp_all
  have "n * min k (d div n) \<le> n * (d div n)" using assms by (intro mult_left_mono) auto
  then show "0 \<le> d - n * min k (d div n)" using d by linarith
  show lt: "d - n * min k (d div n) < n" if "min k (d div n) < k"
  proof -
    have "min k (d div n) = d div n" using that by (simp add: min_def split: if_splits)
    then show ?thesis using d(3) by (simp only: minus_mult_div_eq_mod)
  qed
  have cases: "min k (d div n) < k \<or> min k (d div n) = k" by (simp add: min_def)
  show "d - n * min k (d div n) \<le> n" if "d \<le> n * (k + 1)"
  proof (cases "min k (d div n) = k")
    case True
    with that show ?thesis by (simp add: distrib_left)
  qed (use cases lt in fastforce)
  show "min k (d div n) = k" if "d - n * min k (d div n) = n"
  proof (rule ccontr)
    assume "min k (d div n) \<noteq> k"
    with cases have "min k (d div n) < k" by blast
    from lt [OF this] that show False by simp
  qed
qed

lemma yearOf_parts:
  assumes "yearOf day = (y, yday)"
  obtains a b c e where "0 \<le> b" "b \<le> 3" "0 \<le> c" "c \<le> 24" "0 \<le> e" "e \<le> 3" "y = 400 * a + 100 * b + 4 * c + e + 1"
    "day = 146097 * a + 36524 * b + 1461 * c + 365 * e + int yday" "yday \<le> 365"
    "yday = 365 \<longrightarrow> e = 3 \<and> (c = 24 \<longrightarrow> b = 3)"
proof -
  define a where "a = day div 146097"
  define d1 where "d1 = day mod 146097"
  define b where "b = min 3 (d1 div 36524)"
  define d2 where "d2 = d1 - 36524 * b"
  define c where "c = d2 div 1461"
  define d3 where "d3 = d2 mod 1461"
  define e where "e = min 3 (d3 div 365)"
  have y: "y = 400 * a + 100 * b + 4 * c + e + 1" and yday: "yday = nat (d3 - 365 * e)"
    using assms unfolding yearOf_def Let_def a_def [symmetric] d1_def [symmetric] b_def [symmetric] d2_def [symmetric]
      c_def [symmetric] d3_def [symmetric] e_def [symmetric] by simp_all
  have d1: "0 \<le> d1" "d1 < 146097" "day = 146097 * a + d1" by (simp_all add: d1_def a_def)
  have b: "0 \<le> b" "b \<le> 3" using d1 by (simp_all add: b_def pos_imp_zdiv_nonneg_iff)
  have d2: "0 \<le> d2" "d2 \<le> 36524" "b < 3 \<longrightarrow> d2 < 36524"
  proof -
    have "0 \<le> d2 \<and> d2 \<le> 36524 \<and> (b < 3 \<longrightarrow> d2 < 36524)"
      using min_div_remainder [of 36524 d1 3] d1 by (auto simp: d2_def b_def)
    then show "0 \<le> d2" "d2 \<le> 36524" "b < 3 \<longrightarrow> d2 < 36524" by simp_all
  qed
  have d3: "0 \<le> d3" "d3 < 1461" "d2 = 1461 * c + d3" by (simp_all add: d3_def c_def)
  have c: "0 \<le> c" "c \<le> 24" using d2 by (simp_all add: c_def pos_imp_zdiv_nonneg_iff)
  have e: "0 \<le> e" "e \<le> 3" using d3 by (simp_all add: e_def pos_imp_zdiv_nonneg_iff)
  have r: "0 \<le> d3 - 365 * e" "d3 - 365 * e \<le> 365" "d3 - 365 * e = 365 \<longrightarrow> e = 3 \<and> d3 = 1460"
    using min_div_remainder [of 365 d3 3] d3 by (auto simp: e_def)
  show ?thesis
  proof (rule that [OF b c e y])
    show "day = 146097 * a + 36524 * b + 1461 * c + 365 * e + int yday" using d1 d3 r d2_def yday by simp
    show "yday \<le> 365" using r yday by simp
    show "yday = 365 \<longrightarrow> e = 3 \<and> (c = 24 \<longrightarrow> b = 3)" using r yday d2 d3 b by auto
  qed
qed

lemma yearOf_start:
  assumes "yearOf day = (y, yday)"
  shows "yearStart y + int yday = day" and "yday < sum_list (monthDays y)"
proof -
  obtain a b c e where p: "0 \<le> b" "b \<le> 3" "0 \<le> c" "c \<le> 24" "0 \<le> e" "e \<le> 3" "y = 400 * a + 100 * b + 4 * c + e + 1"
    and day: "day = 146097 * a + 36524 * b + 1461 * c + 365 * e + int yday" and yday: "yday \<le> 365"
    and last: "yday = 365 \<longrightarrow> e = 3 \<and> (c = 24 \<longrightarrow> b = 3)" by (rule yearOf_parts [OF assms])
  have "(y - 1) div 4 = 100 * a + 25 * b + c" "(y - 1) div 100 = 4 * a + b" "(y - 1) div 400 = a"
    using p by (auto intro!: int_div_pos_eq [of _ 4 _ e] int_div_pos_eq [of _ 100 _ "4 * c + e"]
        int_div_pos_eq [of _ 400 _ "100 * b + 4 * c + e"])
  then show "yearStart y + int yday = day" using p(7) day by (simp add: yearStart_def)
  show "yday < sum_list (monthDays y)"
  proof (cases "yday = 365")
    case True
    then have e: "e = 3" "c = 24 \<longrightarrow> b = 3" using last by auto
    have "leapYear y"
    proof (cases "c = 24")
      case True
      then have "y = 400 * (a + 1)" using e p(7) by simp
      then show ?thesis by (simp add: leapYear_def)
    next
      case False
      have "y mod 4 = 0" "y mod 100 = 4 * (c + 1)" using False e(1) p
        by (auto intro!: int_mod_pos_eq [of _ 4 "100 * a + 25 * b + c + 1"] int_mod_pos_eq [of _ 100 "4 * a + b"])
      then show ?thesis using p(3) by (simp add: leapYear_def dvd_eq_mod_eq_0)
    qed
    then show ?thesis using True by (simp add: monthDays_def)
  qed (use yday in \<open>simp add: monthDays_def\<close>)
qed

lemma monthOf_sum:
  assumes "d < sum_list ns" "monthOf ns d = (m, d')"
  shows "1 \<le> m \<and> m \<le> length ns \<and> 1 \<le> d' \<and> d' \<le> ns ! (m - 1) \<and> sum_list (take (m - 1) ns) + d' = d + 1"
  using assms
proof (induction ns d arbitrary: m d' rule: monthOf.induct)
  case (2 n ns d)
  show ?case
  proof (cases "d < n")
    case False
    then obtain m' where m': "monthOf ns (d - n) = (m', d')" "m = m' + 1" using 2(3) by (auto split: prod.splits)
    then have "1 \<le> m' \<and> m' \<le> length ns \<and> 1 \<le> d' \<and> d' \<le> ns ! (m' - 1) \<and> sum_list (take (m' - 1) ns) + d' = d - n + 1"
      using 2(1) [OF False _ m'(1)] 2(2) False by simp
    with m'(2) False show ?thesis by (cases m') auto
  qed (use 2 in auto)
qed simp

lemma civilDate_day:
  assumes "civilDate day = (y, m, d)"
  shows "dateDay y m d = day" and "1 \<le> m" and "m \<le> 12" and "1 \<le> d" and "d \<le> monthDays y ! (m - 1)"
proof -
  obtain yday where y: "yearOf day = (y, yday)" and m: "monthOf (monthDays y) yday = (m, d)"
    using assms by (auto simp: civilDate_def split: prod.splits)
  note month = monthOf_sum [OF yearOf_start(2) [OF y] m]
  then show "1 \<le> m" "m \<le> 12" "1 \<le> d" "d \<le> monthDays y ! (m - 1)" by (simp_all add: monthDays_def)
  have "int (sum_list (take (m - 1) (monthDays y))) + int d = int yday + 1" using month by linarith
  then show "dateDay y m d = day" using yearOf_start(1) [OF y] by (simp add: dateDay_def)
qed


section \<open>What is printed reads back\<close>

lemma civilDate_year:
  assumes "civilDate day = (y, m, d)" "0 \<le> day" "day < 3652059"
  shows "1 \<le> y" and "y \<le> 9999"
proof -
  obtain yday where "yearOf day = (y, yday)" using assms(1) by (auto simp: civilDate_def split: prod.splits)
  then obtain a b c e where p: "0 \<le> b" "b \<le> 3" "0 \<le> c" "c \<le> 24" "0 \<le> e" "e \<le> 3" "y = 400 * a + 100 * b + 4 * c + e + 1"
    and day: "day = 146097 * a + 36524 * b + 1461 * c + 365 * e + int yday" "yday \<le> 365" by (rule yearOf_parts)
  have a: "0 \<le> a" "a \<le> 24" using assms(2,3) p day by linarith+
  then show "1 \<le> y" using p by linarith
  show "y \<le> 9999"
  proof (rule ccontr)
    assume "\<not> y \<le> 9999"
    then have "a = 24" "b = 3" "c = 24" "e = 3" using a p by linarith+
    with day assms(3) show False by simp
  qed
qed

lemma fixedDigits_two: "fixedDigits 2 n = [digit (n div 10 mod 10), digit (n mod 10)]"
  by (simp add: numeral_2_eq_2)

lemma getnum_fixedDigits [simp]:
  assumes "n < 100"
  shows "getnum f (fixedDigits 2 n @ r) = Some (n, r)"
proof -
  have "digitsValue (fixedDigits 2 n) = n" using assms by (intro digitsValue_fixedDigits) simp
  then show ?thesis by (simp add: getnum_def fixedDigits_two)
qed

lemma getYear_fixedDigits [simp]: "n < 10000 \<Longrightarrow> getYear (fixedDigits 4 n @ r) = Some (n, r)"
  using digitsValue_fixedDigits [of n 4] fixedDigits_digits by (fastforce simp: getYear_def list_all_iff)

lemma expect_Cons [simp]: "expect c (c # s) = Some s"
  by (simp add: expect_def)

definition millisecondText :: "nat \<Rightarrow> string" where
  "millisecondText ms = (if ms = 0 then [] else CHR ''.'' # trimZeros (fixedDigits 3 ms))"

lemma getFraction_text:
  assumes "ms < 1000"
  shows "getFraction (millisecondText ms @ ''Z'') = (ms * 1000000, ''Z'')"
proof (cases "ms = 0")
  case False
  let ?f = "trimZeros (fixedDigits 3 ms)"
  have v: "digitsValue ?f * 10 ^ (3 - length ?f) = ms"
    using trimZeros_value [of "fixedDigits 3 ms"] digitsValue_fixedDigits [of ms 3] assms by simp
  have nonempty: "?f \<noteq> []" using v False by auto
  have digits: "\<forall>c \<in> set ?f. isDigit c" using trimZeros_subset [of "fixedDigits 3 ms"] fixedDigits_digits by blast
  have len: "length ?f \<le> 3" using trimZeros_length [of "fixedDigits 3 ms"] by simp
  then have "9 - length ?f = (3 - length ?f) + 6" by simp
  then have "(10::nat) ^ (9 - length ?f) = 10 ^ (3 - length ?f) * 10 ^ 6" by (simp only: power_add)
  with v have "digitsValue ?f * 10 ^ (9 - length ?f) = ms * 1000000" by (simp flip: mult.assoc)
  moreover have "\<not> isDigit CHR ''Z''" by (simp add: isDigit_def byte_def)
  ultimately show ?thesis using False nonempty digits len
    by (simp add: millisecondText_def getFraction_def span_digits)
qed (simp add: getFraction_def millisecondText_def)

lemma monthDays_less: "m \<le> 12 \<Longrightarrow> 1 \<le> m \<Longrightarrow> d \<le> monthDays y ! (m - 1) \<Longrightarrow> d < 100"
proof -
  assume "m \<le> 12" "1 \<le> m" and d: "d \<le> monthDays y ! (m - 1)"
  then have "monthDays y ! (m - 1) \<in> set (monthDays y)" by (intro nth_mem) (simp add: monthDays_def)
  then have "monthDays y ! (m - 1) \<le> 31" by (auto simp: monthDays_def split: if_splits)
  with d show "d < 100" by simp
qed

lemma parse_FormatTime:
  assumes "0 \<le> t" "t < 315537897600 * nsSecond" "1000000 dvd t"
  shows "parseTime True (FormatTime t) = Some t"
proof -
  define sec where "sec = t div nsSecond"
  define ms where "ms = nat (t mod nsSecond div 1000000)"
  define s where "s = nat (sec mod 86400)"
  obtain y m d where date: "civilDate (sec div 86400) = (y, m, d)" by (metis prod_cases3)
  have sec: "0 \<le> sec" "sec < 315537897600" using assms(1,2) by (simp_all add: sec_def nsSecond_def)
  have y: "1 \<le> y" "y \<le> 9999" using civilDate_year [OF date] sec by simp_all
  note md = civilDate_day [OF date]
  have d: "d < 100" using monthDays_less [OF md(3,2,5)] .
  have s: "s < 86400" "int s = sec mod 86400" by (simp_all add: s_def nat_less_iff)
  have ms: "ms < 1000" "int ms * 1000000 = t mod nsSecond"
    using assms(1,3) by (simp_all add: ms_def nsSecond_def nat_less_iff dvd_div_mult_self dvd_mod_iff)
  have hms: "s div 3600 * 3600 + s mod 3600 div 60 * 60 + s mod 60 = s"
  proof -
    have "s mod 3600 mod 60 = s mod 60" by (simp add: mod_mod_cancel)
    then show ?thesis using div_mult_mod_eq [of s 3600] div_mult_mod_eq [of "s mod 3600" 60] by linarith
  qed
  have zone: "getZone ''Z'' = Some (0, [])" by (simp add: getZone_def)
  have printed: "FormatTime t = fixedDigits 4 (nat y) @ CHR ''-'' # fixedDigits 2 m @ CHR ''-'' # fixedDigits 2 d @ CHR ''T'' #
      fixedDigits 2 (s div 3600) @ CHR '':'' # fixedDigits 2 (s mod 3600 div 60) @ CHR '':'' # fixedDigits 2 (s mod 60) @ millisecondText ms @ ''Z''"
    unfolding FormatTime_def Let_def sec_def [symmetric] ms_def [symmetric] s_def [symmetric] date millisecondText_def
    using y by simp
  have bounds: "nat y < 10000" "m < 100" "s div 3600 \<le> 23" "s mod 3600 div 60 \<le> 59" "s mod 60 \<le> 59"
    using y md(3) s(1) by (simp_all add: less_mult_imp_div_less)
  have "parseTime True (FormatTime t) = Some ((dateDay y m d * 86400 + int (s div 3600 * 3600 + s mod 3600 div 60 * 60 + s mod 60) - 0) * nsSecond + int (ms * 1000000))"
    unfolding printed parseTime_def using bounds d md y by (simp add: getFraction_text [OF ms(1)] zone)
  also have "\<dots> = Some ((sec div 86400 * 86400 + sec mod 86400) * nsSecond + t mod nsSecond)"
    unfolding md(1) hms s(2) using ms(2) by simp
  finally show ?thesis by (simp add: sec_def)
qed


lemma roundMillisecond_dvd: "1000000 dvd roundMillisecond t"
proof -
  have "t + (1000000 - t mod 1000000) = (t - t mod 1000000) + 1000000" by simp
  moreover have "1000000 dvd t - t mod 1000000" by (rule dvd_minus_mod)
  ultimately have "1000000 dvd t - t mod 1000000" "1000000 dvd t + (1000000 - t mod 1000000)" by (simp_all only: dvd_add_triv_right_iff)
  then show ?thesis unfolding roundMillisecond_def Let_def by (simp only: if_split) simp
qed

lemma roundMillisecond_id: "1000000 dvd t \<Longrightarrow> roundMillisecond t = t"
  by (simp add: roundMillisecond_def dvd_eq_mod_eq_0)

text \<open>A time in the years 1 to 9999 that was printed by a relaxed time is read as the time rounded to milliseconds;
  the printers of the messages cut it instead, also below the zero of the fraction.\<close>

lemma RelaxedTime_round_trip:
  assumes "0 \<le> roundMillisecond t" "roundMillisecond t < 315537897600 * nsSecond"
  shows "RelaxedTime_UnmarshalText (RelaxedTime_String t) = Inr (roundMillisecond t)"
proof -
  have parsed: "parseTime True (RelaxedTime_String t) = Some (roundMillisecond t)"
    unfolding RelaxedTime_String_def by (rule parse_FormatTime [OF assms roundMillisecond_dvd])
  have "RelaxedTime_String t \<noteq> []" by (simp add: RelaxedTime_String_def FormatTime_def Let_def split: prod.splits)
  then show ?thesis by (simp add: RelaxedTime_UnmarshalText_def parsed roundMillisecond_id roundMillisecond_dvd)
qed

lemma FormatTime_cut: "FormatTime t = FormatTime (t - t mod 1000000)"
proof -
  have t: "t = 1000000 * (t div 1000000) + t mod 1000000" "0 \<le> t mod 1000000" "t mod 1000000 < 1000000" by simp_all
  have cut: "t - t mod 1000000 = 1000000 * (t div 1000000)" by (simp add: minus_mod_eq_mult_div)
  have "t div nsSecond = t div 1000000 div 1000" "(t - t mod 1000000) div nsSecond = t div 1000000 div 1000"
    unfolding cut nsSecond_def using zdiv_zmult2_eq [of 1000 t 1000000] by simp_all
  moreover have "t mod nsSecond div 1000000 = t div 1000000 mod 1000" "(t - t mod 1000000) mod nsSecond div 1000000 = t div 1000000 mod 1000"
    unfolding cut nsSecond_def using t zmod_zmult2_eq [of 1000 t 1000000] mod_mult_mult1 [of 1000000 "t div 1000000" 1000] by simp_all
  ultimately show ?thesis by (simp only: FormatTime_def)
qed

lemma message_time_round_trip:
  assumes "0 \<le> t" "t < 315537897600 * nsSecond"
  shows "RelaxedTime_UnmarshalText (FormatTime t) = Inr (t - t mod 1000000)"
proof -
  let ?t = "t - t mod 1000000"
  have t: "0 \<le> ?t" "?t < 315537897600 * nsSecond" "1000000 dvd ?t"
    using assms pos_mod_sign [of 1000000 t] zmod_le_nonneg_dividend [of t 1000000] by (simp_all add: dvd_minus_mod)
  have "RelaxedTime_String ?t = FormatTime t" unfolding RelaxedTime_String_def roundMillisecond_id [OF t(3)] by (simp only: FormatTime_cut [of t])
  with RelaxedTime_round_trip [of ?t] t show ?thesis by (simp add: roundMillisecond_id)
qed

end
