(* ===== verification/Saml_Messages.thy ===== *)
theory Saml_Messages
  imports Xml_Access Time_Text
begin

text \<open>
  The XML form of the messages: the \<^verbatim>\<open>Element\<close> methods of \<^verbatim>\<open>schema.go\<close>, one definition per method
  in the order of the file. \<^verbatim>\<open>CreateAttr\<close> on a key that the element does not have appends an
  attribute, and every method creates each of its keys once, so an element is written with its list of
  attributes; \<^verbatim>\<open>AddChild\<close> appends a child. \<^verbatim>\<open>SetText\<close> puts its text before the other children and
  adds nothing for the empty text.
\<close>

section \<open>Building elements\<close>

definition SAMLAssertionNS :: string where
  "SAMLAssertionNS = ''urn:oasis:names:tc:SAML:2.0:assertion''"
definition SAMLProtocolNS :: string where
  "SAMLProtocolNS = ''urn:oasis:names:tc:SAML:2.0:protocol''"
definition XMLSchemaNS :: string where
  "XMLSchemaNS = ''http://www.w3.org/2001/XMLSchema''"
definition XMLSchemaInstanceNS :: string where
  "XMLSchemaInstanceNS = ''http://www.w3.org/2001/XMLSchema-instance''"

definition samlDecl :: attr where "samlDecl = mkAttr ''xmlns'' ''saml'' SAMLAssertionNS"
definition samlpDecl :: attr where "samlpDecl = mkAttr ''xmlns'' ''samlp'' SAMLProtocolNS"
definition xsDecl :: attr where "xsDecl = mkAttr ''xmlns'' ''xs'' XMLSchemaNS"

definition at :: "string \<Rightarrow> string \<Rightarrow> attr" where
  "at key val = mkAttr [] key val"

text \<open>An attribute that is created only for a string that is not empty, or a pointer that is not nil.\<close>

definition atSet :: "string \<Rightarrow> string \<Rightarrow> attr list" where
  "atSet key val = (if val \<noteq> [] then [at key val] else [])"

definition atSome :: "string \<Rightarrow> ('a \<Rightarrow> string) \<Rightarrow> 'a option \<Rightarrow> attr list" where
  "atSome key f x = (case x of None \<Rightarrow> [] | Some v \<Rightarrow> [at key (f v)])"

text \<open>An attribute for a time that \<^verbatim>\<open>IsZero\<close> does not hold of.\<close>

definition atTime :: "string \<Rightarrow> time \<Rightarrow> attr list" where
  "atTime key t = (if t \<noteq> 0 then [at key (FormatTime t)] else [])"

definition elSome :: "('a \<Rightarrow> element) \<Rightarrow> 'a option \<Rightarrow> token list" where
  "elSome f x = (case x of None \<Rightarrow> [] | Some v \<Rightarrow> [Elem (f v)])"

definition FormatBool :: "bool \<Rightarrow> string" where
  "FormatBool b = (if b then ''true'' else ''false'')"

text \<open>\<^verbatim>\<open>strconv.Itoa\<close>.\<close>

definition Itoa :: "int \<Rightarrow> string" where
  "Itoa i = (if i < 0 then CHR ''-'' # decimal (nat (- i)) else decimal (nat i))"

section \<open>Requests\<close>

definition RequestedAuthnContext_Element :: "RequestedAuthnContext \<Rightarrow> element" where
  "RequestedAuthnContext_Element r =
     Element ''samlp'' ''RequestedAuthnContext'' (atSet ''Comparison'' (rac_Comparison r))
       (map (\<lambda>ref. Elem (Element ''saml'' ''AuthnContextClassRef'' [] (textTokens ref))) (rac_ClassRefs r)
        @ map (\<lambda>ref. Elem (Element ''saml'' ''AuthnContextDeclRef'' [] (textTokens ref))) (rac_DeclRefs r))"

definition Issuer_Element :: "Issuer \<Rightarrow> element" where
  "Issuer_Element a =
     Element ''saml'' ''Issuer''
       (atSet ''NameQualifier'' (iss_NameQualifier a) @ atSet ''SPNameQualifier'' (iss_SPNameQualifier a)
        @ atSet ''Format'' (iss_Format a) @ atSet ''SPProvidedID'' (iss_SPProvidedID a))
       (textTokens (iss_Value a))"

definition NameID_Element :: "NameID \<Rightarrow> element" where
  "NameID_Element a =
     Element ''saml'' ''NameID''
       (atSet ''NameQualifier'' (nid_NameQualifier a) @ atSet ''SPNameQualifier'' (nid_SPNameQualifier a)
        @ atSet ''Format'' (nid_Format a) @ atSet ''SPProvidedID'' (nid_SPProvidedID a))
       (textTokens (nid_Value a))"

definition SessionIndex_Element :: "string \<Rightarrow> element" where
  "SessionIndex_Element s = Element ''samlp'' ''SessionIndex'' [samlpDecl] (textTokens s)"

definition LogoutRequest_Element :: "LogoutRequest \<Rightarrow> element" where
  "LogoutRequest_Element r =
     Element ''samlp'' ''LogoutRequest''
       ([samlDecl, samlpDecl, at ''ID'' (lreq_ID r), at ''Version'' (lreq_Version r),
         at ''IssueInstant'' (FormatTime (lreq_IssueInstant r))]
        @ atSome ''NotOnOrAfter'' FormatTime (lreq_NotOnOrAfter r)
        @ atSet ''Destination'' (lreq_Destination r))
       (elSome Issuer_Element (lreq_Issuer r) @ elSome id (lreq_Signature r)
        @ elSome NameID_Element (lreq_NameID r)
        @ map (\<lambda>s. Elem (SessionIndex_Element s)) (lreq_SessionIndexes r))"

definition NameIDPolicy_Element :: "NameIDPolicy \<Rightarrow> element" where
  "NameIDPolicy_Element a =
     Element ''samlp'' ''NameIDPolicy''
       (atSet ''Format'' (the_default [] (np_Format a)) @ atSome ''SPNameQualifier'' id (np_SPNameQualifier a)
        @ atSome ''AllowCreate'' FormatBool (np_AllowCreate a)) []"

section \<open>Parts of an assertion\<close>

definition SubjectConfirmationData_Element :: "SubjectConfirmationData \<Rightarrow> element" where
  "SubjectConfirmationData_Element s =
     Element ''saml'' ''SubjectConfirmationData''
       (atTime ''NotBefore'' (scd_NotBefore s) @ atTime ''NotOnOrAfter'' (scd_NotOnOrAfter s)
        @ atSet ''Recipient'' (scd_Recipient s) @ atSet ''InResponseTo'' (scd_InResponseTo s)
        @ atSet ''Address'' (scd_Address s)) []"

definition SubjectConfirmation_Element :: "SubjectConfirmation \<Rightarrow> element" where
  "SubjectConfirmation_Element a =
     Element ''saml'' ''SubjectConfirmation'' [at ''Method'' (scf_Method a)]
       (elSome NameID_Element (scf_NameID a) @ elSome (SubjectConfirmationData_Element) (scf_Data a))"

definition Subject_Element :: "Subject \<Rightarrow> element" where
  "Subject_Element a =
     Element ''saml'' ''Subject'' []
       (elSome NameID_Element (subj_NameID a)
        @ map (\<lambda>v. Elem (SubjectConfirmation_Element v)) (subj_Confirmations a))"

definition Audience_Element :: "Audience \<Rightarrow> element" where
  "Audience_Element a = Element ''saml'' ''Audience'' [] (textTokens (aud_Value a))"

definition AudienceRestriction_Element :: "AudienceRestriction \<Rightarrow> element" where
  "AudienceRestriction_Element a =
     Element ''saml'' ''AudienceRestriction'' [] (map (\<lambda>v. Elem (Audience_Element v)) (ar_Audiences a))"

definition OneTimeUse_Element :: "unit \<Rightarrow> element" where
  "OneTimeUse_Element a = Element ''saml'' ''OneTimeUse'' [] []"

definition ProxyRestriction_Element :: "ProxyRestriction \<Rightarrow> element" where
  "ProxyRestriction_Element a =
     Element ''saml'' ''ProxyRestriction'' (atSome ''Count'' Itoa (pr_Count a))
       (map (\<lambda>v. Elem (Audience_Element v)) (pr_Audiences a))"

definition Conditions_Element :: "Conditions \<Rightarrow> element" where
  "Conditions_Element c =
     Element ''saml'' ''Conditions''
       (atTime ''NotBefore'' (cond_NotBefore c) @ atTime ''NotOnOrAfter'' (cond_NotOnOrAfter c))
       (map (\<lambda>v. Elem (AudienceRestriction_Element v)) (cond_AudienceRestrictions c)
        @ elSome OneTimeUse_Element (cond_OneTimeUse c)
        @ elSome ProxyRestriction_Element (cond_ProxyRestriction c))"

definition AuthnRequest_Element :: "AuthnRequest \<Rightarrow> element" where
  "AuthnRequest_Element r =
     Element ''samlp'' ''AuthnRequest''
       ([samlDecl, samlpDecl, at ''ID'' (areq_ID r), at ''Version'' (areq_Version r),
         at ''IssueInstant'' (FormatTime (areq_IssueInstant r))]
        @ atSet ''Destination'' (areq_Destination r) @ atSet ''Consent'' (areq_Consent r)
        @ atSome ''ForceAuthn'' FormatBool (areq_ForceAuthn r)
        @ atSome ''IsPassive'' FormatBool (areq_IsPassive r)
        @ atSet ''AssertionConsumerServiceIndex'' (areq_ACSIndex r)
        @ atSet ''AssertionConsumerServiceURL'' (areq_ACSURL r)
        @ atSet ''ProtocolBinding'' (areq_ProtocolBinding r)
        @ atSet ''AttributeConsumingServiceIndex'' (areq_AttributeConsumingServiceIndex r)
        @ atSet ''ProviderName'' (areq_ProviderName r))
       (elSome Issuer_Element (areq_Issuer r) @ elSome id (areq_Signature r)
        @ elSome (Subject_Element) (areq_Subject r) @ elSome NameIDPolicy_Element (areq_NameIDPolicy r)
        @ elSome (Conditions_Element) (areq_Conditions r)
        @ elSome RequestedAuthnContext_Element (areq_RequestedAuthnContext r))"

definition ArtifactResolve_Element :: "ArtifactResolve \<Rightarrow> element" where
  "ArtifactResolve_Element r =
     Element ''samlp'' ''ArtifactResolve''
       [samlDecl, samlpDecl, xsDecl, at ''ID'' (ares_ID r), at ''Version'' (ares_Version r),
        at ''IssueInstant'' (FormatTime (ares_IssueInstant r))]
       (elSome Issuer_Element (ares_Issuer r) @ elSome id (ares_Signature r)
        @ [Elem (Element ''samlp'' ''Artifact'' [] (textTokens (ares_Artifact r)))])"

definition SoapRequest :: "ArtifactResolve \<Rightarrow> element" where
  "SoapRequest r =
     Element ''soapenv'' ''Envelope''
       [mkAttr ''xmlns'' ''soapenv'' ''http://schemas.xmlsoap.org/soap/envelope/'',
        mkAttr ''xmlns'' ''xsi'' XMLSchemaInstanceNS]
       [Elem (Element ''soapenv'' ''Body'' [] [Elem (ArtifactResolve_Element r)])]"

section \<open>Assertions\<close>

definition SubjectLocality_Element :: "SubjectLocality \<Rightarrow> element" where
  "SubjectLocality_Element a =
     Element ''saml'' ''SubjectLocality''
       (atSet ''Address'' (sl_Address a) @ atSet ''DNSName'' (sl_DNSName a)) []"

definition AuthnContextClassRef_Element :: "string \<Rightarrow> element" where
  "AuthnContextClassRef_Element v = Element ''saml'' ''AuthnContextClassRef'' [] (textTokens v)"

definition AuthnContext_Element :: "AuthnContext \<Rightarrow> element" where
  "AuthnContext_Element a =
     Element ''saml'' ''AuthnContext'' [] (elSome AuthnContextClassRef_Element (ac_ClassRef a))"

definition AuthnStatement_Element :: "AuthnStatement \<Rightarrow> element" where
  "AuthnStatement_Element a =
     Element ''saml'' ''AuthnStatement''
       ([at ''AuthnInstant'' (FormatTime (as_AuthnInstant a))]
        @ atSet ''SessionIndex'' (as_SessionIndex a)
        @ atSome ''SessionNotOnOrAfter'' FormatTime (as_SessionNotOnOrAfter a))
       (elSome SubjectLocality_Element (as_SubjectLocality a)
        @ [Elem (AuthnContext_Element (as_AuthnContext a))])"

definition AttributeValue_Element :: "AttributeValue \<Rightarrow> element" where
  "AttributeValue_Element a =
     Element ''saml'' ''AttributeValue''
       ([mkAttr ''xmlns'' ''xsi'' XMLSchemaInstanceNS, xsDecl]
        @ (if av_Type a \<noteq> [] then [mkAttr ''xsi'' ''type'' (av_Type a)] else []))
       (textTokens (av_Value a) @ elSome NameID_Element (av_NameID a))"

definition Attribute_Element :: "Attribute \<Rightarrow> element" where
  "Attribute_Element a =
     Element ''saml'' ''Attribute''
       (atSet ''FriendlyName'' (att_FriendlyName a) @ atSet ''Name'' (att_Name a)
        @ atSet ''NameFormat'' (att_NameFormat a))
       (map (\<lambda>v. Elem (AttributeValue_Element v)) (att_Values a))"

definition AttributeStatement_Element :: "AttributeStatement \<Rightarrow> element" where
  "AttributeStatement_Element a =
     Element ''saml'' ''AttributeStatement'' [] (map (\<lambda>v. Elem (Attribute_Element v)) (ats_Attributes a))"

text \<open>\<^verbatim>\<open>canonicalizerPrefixList\<close>.\<close>

definition canonicalizerPrefixList :: string where "canonicalizerPrefixList = ''''"

text \<open>\<^verbatim>\<open>Assertion.Element\<close> up to its canonicalization, and the whole. An error of the canonicalization
  is a panic.\<close>

definition assertionTree :: "Assertion \<Rightarrow> element" where
  "assertionTree a =
     Element ''saml'' ''Assertion''
       [samlDecl, at ''Version'' ''2.0'', at ''ID'' (asr_ID a),
        at ''IssueInstant'' (FormatTime (asr_IssueInstant a))]
       ([Elem (Issuer_Element (asr_Issuer a))] @ elSome id (asr_Signature a)
        @ elSome (Subject_Element) (asr_Subject a) @ elSome (Conditions_Element) (asr_Conditions a)
        @ map (\<lambda>s. Elem (AuthnStatement_Element s)) (asr_AuthnStatements a)
        @ map (\<lambda>s. Elem (AttributeStatement_Element s)) (asr_AttributeStatements a))"

definition Assertion_Element :: "Assertion \<Rightarrow> element result" where
  "Assertion_Element a =
     (case TransformExcC14n canonicalizerPrefixList False (assertionTree a) of
        Inl e \<Rightarrow> Inl (Panic ''TransformExcC14n'')
      | Inr el \<Rightarrow> Inr (if asr_AttributeStatements a \<noteq> [] then CreateAttr ''xmlns'' ''xs'' XMLSchemaNS el else el))"

section \<open>Responses\<close>

fun StatusCode_Element :: "StatusCode \<Rightarrow> element" where
  "StatusCode_Element (StatusCode v sub) =
     Element ''samlp'' ''StatusCode'' [at ''Value'' v]
       (case sub of None \<Rightarrow> [] | Some c \<Rightarrow> [Elem (StatusCode_Element c)])"

definition StatusMessage_Element :: "string \<Rightarrow> element" where
  "StatusMessage_Element v = Element ''samlp'' ''StatusMessage'' [] (textTokens v)"

definition StatusDetail_Element :: "element list \<Rightarrow> element" where
  "StatusDetail_Element els = Element ''samlp'' ''StatusDetail'' [] (map Elem els)"

definition Status_Element :: "Status \<Rightarrow> element" where
  "Status_Element s =
     Element ''samlp'' ''Status'' []
       ([Elem (StatusCode_Element (st_StatusCode s))] @ elSome StatusMessage_Element (st_StatusMessage s)
        @ elSome StatusDetail_Element (st_StatusDetail s))"

definition Response_Element :: "Response \<Rightarrow> element result" where
  "Response_Element r =
     bindE (case resp_Assertion r of None \<Rightarrow> Inr [] | Some a \<Rightarrow> bindE (Assertion_Element a) (\<lambda>el. Inr [Elem el]))
       (\<lambda>assertion. Inr
         (Element ''samlp'' ''Response''
           ([samlDecl, samlpDecl, xsDecl, at ''ID'' (resp_ID r)]
            @ atSet ''InResponseTo'' (resp_InResponseTo r)
            @ [at ''Version'' (resp_Version r), at ''IssueInstant'' (FormatTime (resp_IssueInstant r))]
            @ atSet ''Destination'' (resp_Destination r) @ atSet ''Consent'' (resp_Consent r))
           (elSome Issuer_Element (resp_Issuer r) @ elSome id (resp_Signature r)
            @ [Elem (Status_Element (resp_Status r))] @ elSome id (resp_EncryptedAssertion r) @ assertion)))"

definition ArtifactResponse_Element :: "ArtifactResponse \<Rightarrow> element result" where
  "ArtifactResponse_Element r =
     bindE (Response_Element (arsp_Response r)) (\<lambda>response. Inr
       (Element ''samlp'' ''ArtifactResponse''
         ([samlDecl, samlpDecl, xsDecl, at ''ID'' (arsp_ID r)]
          @ atSet ''InResponseTo'' (arsp_InResponseTo r)
          @ [at ''Version'' (arsp_Version r), at ''IssueInstant'' (FormatTime (arsp_IssueInstant r))])
         (elSome Issuer_Element (arsp_Issuer r) @ elSome id (arsp_Signature r)
          @ [Elem (Status_Element (arsp_Status r)), Elem response])))"

definition LogoutResponse_Element :: "LogoutResponse \<Rightarrow> element" where
  "LogoutResponse_Element r =
     Element ''samlp'' ''LogoutResponse''
       ([samlDecl, samlpDecl, at ''ID'' (lrsp_ID r)]
        @ atSet ''InResponseTo'' (lrsp_InResponseTo r)
        @ [at ''Version'' (lrsp_Version r), at ''IssueInstant'' (FormatTime (lrsp_IssueInstant r))]
        @ atSet ''Destination'' (lrsp_Destination r) @ atSet ''Consent'' (lrsp_Consent r))
       (elSome Issuer_Element (lrsp_Issuer r) @ elSome id (lrsp_Signature r)
        @ [Elem (Status_Element (lrsp_Status r))])"

end
