(* ===== verification/Redirect_Binding.thy ===== *)
theory Redirect_Binding
  imports Dsig_Keys
begin

text \<open>
  The HTTP-Redirect binding: reading a compressed request within its limits (\<^verbatim>\<open>flate.go\<close>,
  \<^verbatim>\<open>readRedirectRequest\<close> and \<^verbatim>\<open>checkAuthnRequestSize\<close> of \<^verbatim>\<open>identity_provider.go\<close>), checking the
  signature of a query string (\<^verbatim>\<open>redirectParameters\<close>, \<^verbatim>\<open>verifyRedirectSignature\<close> and
  \<^verbatim>\<open>verifyDigest\<close> of \<^verbatim>\<open>identity_provider_signature.go\<close>), and building a redirect
  (\<^verbatim>\<open>redirectURLWithContext\<close> of \<^verbatim>\<open>service_provider.go\<close>).
\<close>

section \<open>Reading compressed data\<close>

definition flateUncompressLimit :: nat where
  "flateUncompressLimit = 10 * 1024 * 1024"

text \<open>How a \<^verbatim>\<open>Read\<close> ends: with no error, with \<^verbatim>\<open>io.EOF\<close>, or with another error.\<close>

datatype read_status = More | EOF | Failed error

text \<open>A \<^verbatim>\<open>saferFlateReader\<close> over a decompressor, possibly behind an \<^verbatim>\<open>io.LimitReader\<close>: the bytes
  the decompressor has still to deliver and the error that follows them (\<^verbatim>\<open>io.EOF\<close> if there is
  none), the count of the safer reader, and the \<^verbatim>\<open>N\<close> of the limited one.\<close>

record flate_reader =
  fr_rest :: string
  fr_err :: "error option"
  fr_count :: nat
  fr_N :: "nat option"

text \<open>A decompressor may deliver fewer bytes than the buffer \<open>p\<close> has room for, here at most
  \<open>Suc k\<close>, and may report the end of its data with the last bytes or, if \<open>late\<close>, with the read
  after them.\<close>

definition flateRead :: "nat \<Rightarrow> bool \<Rightarrow> nat \<Rightarrow> flate_reader \<Rightarrow> flate_reader \<times> string \<times> read_status" where
  "flateRead k late p r =
     (let n = min (Suc k) p; rest = drop n (fr_rest r);
          final = (case fr_err r of None \<Rightarrow> EOF | Some e \<Rightarrow> Failed e)
      in (r\<lparr>fr_rest := rest\<rparr>, take n (fr_rest r),
          if fr_rest r = [] \<or> rest = [] \<and> \<not> late then final else More))"

definition limitExceeded :: error where
  "limitExceeded = Err ''flate: uncompress limit exceeded (%d bytes)''"

text \<open>\<^verbatim>\<open>(*saferFlateReader).Read\<close>.\<close>

definition saferRead :: "nat \<Rightarrow> bool \<Rightarrow> nat \<Rightarrow> flate_reader \<Rightarrow> flate_reader \<times> string \<times> read_status" where
  "saferRead k late p r =
     (if fr_count r + p > flateUncompressLimit then (r, [], Failed limitExceeded)
      else case flateRead k late p r of
        (r', bs, st) \<Rightarrow> (r'\<lparr>fr_count := fr_count r + length bs\<rparr>, bs, st))"

text \<open>\<^verbatim>\<open>(*io.LimitedReader).Read\<close>.\<close>

definition limitRead :: "nat \<Rightarrow> bool \<Rightarrow> nat \<Rightarrow> flate_reader \<Rightarrow> flate_reader \<times> string \<times> read_status" where
  "limitRead k late p r =
     (case fr_N r of
        None \<Rightarrow> saferRead k late p r
      | Some n \<Rightarrow>
          if n = 0 then (r, [], EOF)
          else case saferRead k late (min p n) r of
            (r', bs, st) \<Rightarrow> (r'\<lparr>fr_N := Some (n - length bs)\<rparr>, bs, st))"

text \<open>\<^verbatim>\<open>io.ReadAll\<close>. The schedule gives, for each read, the free capacity of the buffer less one
  (it is never zero), and the two choices of the decompressor.\<close>

type_synonym schedule = "nat \<Rightarrow> nat \<times> nat \<times> bool"

lemma saferRead_rest: "saferRead k late p r = (r', bs, More) \<Longrightarrow> fr_rest r \<noteq> [] \<and>
    bs = take (min (Suc k) p) (fr_rest r) \<and> fr_rest r' = drop (min (Suc k) p) (fr_rest r)"
  by (auto simp: saferRead_def flateRead_def Let_def split: if_splits option.splits)

lemma limitRead_progress: "limitRead k late (Suc p) r = (r', bs, More) \<Longrightarrow>
    length (fr_rest r') < length (fr_rest r)"
  by (cases "fr_N r")
    (auto simp: limitRead_def min_def split: if_splits prod.splits dest!: saferRead_rest)

function readAll :: "schedule \<Rightarrow> nat \<Rightarrow> flate_reader \<Rightarrow> string \<Rightarrow> string result" where
  "readAll sched i r buf =
     (case sched i of (p, k, late) \<Rightarrow>
        (case limitRead k late (Suc p) r of (r', bs, st) \<Rightarrow>
           (case st of
              More \<Rightarrow> readAll sched (Suc i) r' (buf @ bs)
            | EOF \<Rightarrow> Inr (buf @ bs)
            | Failed e \<Rightarrow> Inl e)))"
  by pat_completeness auto
termination
  by (relation "measure (\<lambda>(_, _, r, _). length (fr_rest r))") (auto dest: limitRead_progress [OF sym])

declare readAll.simps [simp del]

text \<open>\<^verbatim>\<open>newSaferFlateReader\<close>, \<^verbatim>\<open>io.LimitReader\<close> and reading some compressed data to its end.\<close>

definition newSaferFlateReader :: "externs \<Rightarrow> string \<Rightarrow> flate_reader" where
  "newSaferFlateReader X data =
     \<lparr>fr_rest = fst (x_Inflate X data), fr_err = snd (x_Inflate X data), fr_count = 0, fr_N = None\<rparr>"

definition LimitReader :: "flate_reader \<Rightarrow> nat \<Rightarrow> flate_reader" where
  "LimitReader r n = r\<lparr>fr_N := Some n\<rparr>"

subsection \<open>What a read delivers\<close>

lemma flateRead_step:
  assumes "flateRead k late p r = (r', bs, st)"
  shows "fr_rest r = bs @ fr_rest r'" "fr_err r' = fr_err r" "fr_N r' = fr_N r" "length bs \<le> p"
    and "st = EOF \<Longrightarrow> fr_rest r' = [] \<and> fr_err r = None"
    and "st = Failed e \<Longrightarrow> fr_rest r' = [] \<and> fr_err r = Some e"
  using assms by (auto simp: flateRead_def Let_def split: if_splits option.splits)

lemma saferRead_step:
  assumes "saferRead k late p r = (r', bs, st)" and "fr_count r \<le> flateUncompressLimit"
  shows "fr_rest r = bs @ fr_rest r'" "fr_err r' = fr_err r" "fr_N r' = fr_N r" "length bs \<le> p"
    and "fr_count r' = fr_count r + length bs" "fr_count r' \<le> flateUncompressLimit"
    and "st = EOF \<Longrightarrow> fr_rest r' = [] \<and> fr_err r = None"
    and "st = Failed e \<Longrightarrow> fr_rest r' = [] \<and> fr_err r = Some e
      \<or> e = limitExceeded \<and> fr_count r + p > flateUncompressLimit"
proof -
  have "(if fr_count r + p > flateUncompressLimit then (r, [], Failed limitExceeded) else
    case flateRead k late p r of (r', bs, st) \<Rightarrow> (r'\<lparr>fr_count := fr_count r + length bs\<rparr>, bs, st))
    = (r', bs, st)" using assms(1) by (simp add: saferRead_def)
  moreover obtain q cs t where f: "flateRead k late p r = (q, cs, t)" by (cases "flateRead k late p r") auto
  ultimately have *: "fr_count r + p > flateUncompressLimit \<and> r' = r \<and> bs = [] \<and> st = Failed limitExceeded \<or>
      fr_count r + p \<le> flateUncompressLimit \<and> r' = q\<lparr>fr_count := fr_count r + length cs\<rparr> \<and> bs = cs \<and> st = t"
    by (auto split: if_splits)
  note fl = flateRead_step [OF f]
  show "fr_rest r = bs @ fr_rest r'" "fr_err r' = fr_err r" "fr_N r' = fr_N r" "length bs \<le> p"
    "fr_count r' = fr_count r + length bs" "fr_count r' \<le> flateUncompressLimit"
    "st = EOF \<Longrightarrow> fr_rest r' = [] \<and> fr_err r = None"
    "st = Failed e \<Longrightarrow> fr_rest r' = [] \<and> fr_err r = Some e
      \<or> e = limitExceeded \<and> fr_count r + p > flateUncompressLimit"
    using * fl assms(2) by auto
qed

lemma limitRead_step:
  assumes "limitRead k late (Suc p) r = (r', bs, st)" and "fr_count r \<le> flateUncompressLimit"
  shows "fr_rest r = bs @ fr_rest r'" "fr_err r' = fr_err r"
    "fr_N r' = map_option (\<lambda>n. n - length bs) (fr_N r)" "fr_N r = Some n \<Longrightarrow> length bs \<le> n"
    and "fr_count r' = fr_count r + length bs" "fr_count r' \<le> flateUncompressLimit"
    and "st = EOF \<Longrightarrow> fr_rest r' = [] \<and> fr_err r = None \<or> fr_N r = Some 0 \<and> bs = []"
    and "st = Failed e \<Longrightarrow> fr_rest r' = [] \<and> fr_err r = Some e
      \<or> e = limitExceeded \<and> (\<forall>n. fr_N r = Some n \<longrightarrow> fr_count r + n > flateUncompressLimit)"
proof -
  have "fr_rest r = bs @ fr_rest r' \<and> fr_err r' = fr_err r \<and>
    fr_N r' = map_option (\<lambda>n. n - length bs) (fr_N r) \<and> (fr_N r = Some n \<longrightarrow> length bs \<le> n) \<and>
    fr_count r' = fr_count r + length bs \<and> fr_count r' \<le> flateUncompressLimit \<and>
    (st = EOF \<longrightarrow> fr_rest r' = [] \<and> fr_err r = None \<or> fr_N r = Some 0 \<and> bs = []) \<and>
    (st = Failed e \<longrightarrow> fr_rest r' = [] \<and> fr_err r = Some e
      \<or> e = limitExceeded \<and> (\<forall>n. fr_N r = Some n \<longrightarrow> fr_count r + n > flateUncompressLimit))"
  proof (cases "fr_N r")
    case None
    then have "saferRead k late (Suc p) r = (r', bs, st)" using assms(1) by (simp add: limitRead_def)
    from saferRead_step [OF this assms(2)] None show ?thesis by auto
  next
    case (Some j)
    show ?thesis
    proof (cases "j = 0")
      case True
      then have "r' = r \<and> bs = [] \<and> st = EOF" using assms(1) Some by (simp add: limitRead_def)
      with Some True assms(2) show ?thesis by simp
    next
      case False
      obtain q cs t where q: "saferRead k late (min (Suc p) j) r = (q, cs, t)"
        by (cases "saferRead k late (min (Suc p) j) r")
      then have eq: "r' = q\<lparr>fr_N := Some (j - length bs)\<rparr>" "cs = bs" "t = st"
        using assms(1) Some False by (auto simp: limitRead_def)
      note safer = saferRead_step [OF q [unfolded eq] assms(2)]
      have "e = limitExceeded \<and> fr_count r + j > flateUncompressLimit \<or> fr_rest q = [] \<and> fr_err r = Some e"
        if "st = Failed e" using safer(8) [OF that] by linarith
      then show ?thesis
        using safer(1-7) Some False unfolding eq by simp blast
    qed
  qed
  then show "fr_rest r = bs @ fr_rest r'" "fr_err r' = fr_err r"
    "fr_N r' = map_option (\<lambda>n. n - length bs) (fr_N r)" "fr_N r = Some n \<Longrightarrow> length bs \<le> n"
    "fr_count r' = fr_count r + length bs" "fr_count r' \<le> flateUncompressLimit"
    "st = EOF \<Longrightarrow> fr_rest r' = [] \<and> fr_err r = None \<or> fr_N r = Some 0 \<and> bs = []"
    "st = Failed e \<Longrightarrow> fr_rest r' = [] \<and> fr_err r = Some e
      \<or> e = limitExceeded \<and> (\<forall>n. fr_N r = Some n \<longrightarrow> fr_count r + n > flateUncompressLimit)"
    by blast+
qed


text \<open>Whatever the schedule, \<^verbatim>\<open>io.ReadAll\<close> returns a prefix of the data that stays within the limit of
  the safer reader: all of the data when it ends without an error, or as much as a limited reader
  lets through. It fails only with the error of the data, or because of the limit.\<close>

lemma readAll_Inr:
  "readAll sched i r buf = Inr out \<Longrightarrow> fr_count r \<le> flateUncompressLimit \<Longrightarrow>
   \<exists>bs rest. out = buf @ bs \<and> fr_rest r = bs @ rest \<and> fr_count r + length bs \<le> flateUncompressLimit \<and>
     (rest = [] \<and> fr_err r = None \<and> (\<forall>n. fr_N r = Some n \<longrightarrow> length bs \<le> n)
      \<or> fr_N r = Some (length bs))"
proof (induction sched i r buf rule: readAll.induct)
  case (1 sched i r buf)
  obtain p k late where s: "sched i = (p, k, late)" by (cases "sched i") auto
  obtain r' bs st where l: "limitRead k late (Suc p) r = (r', bs, st)"
    by (cases "limitRead k late (Suc p) r") auto
  note step = limitRead_step [OF l 1(3)]
  show ?case
  proof (cases st)
    case More
    with 1(2) s l have "readAll sched (Suc i) r' (buf @ bs) = Inr out"
      by (simp add: readAll.simps [of sched i r])
    from 1(1) [OF s [symmetric] refl l [symmetric] refl More this step(6)]
    obtain cs rest where cs: "out = (buf @ bs) @ cs" "fr_rest r' = cs @ rest"
        "fr_count r' + length cs \<le> flateUncompressLimit"
        "rest = [] \<and> fr_err r' = None \<and> (\<forall>n. fr_N r' = Some n \<longrightarrow> length cs \<le> n) \<or> fr_N r' = Some (length cs)"
      by blast
    show ?thesis
      by (rule exI [of _ "bs @ cs"], rule exI [of _ rest]) (use cs step(1-6) in \<open>auto; fastforce\<close>)
  next
    case EOF
    with 1(2) s l have "out = buf @ bs" by (simp add: readAll.simps [of sched i r])
    with step EOF show ?thesis by auto
  next
    case (Failed e)
    with 1(2) s l show ?thesis by (simp add: readAll.simps [of sched i r])
  qed
qed

lemma readAll_Inl:
  "readAll sched i r buf = Inl e \<Longrightarrow> fr_count r \<le> flateUncompressLimit \<Longrightarrow>
   fr_err r = Some e \<and> (\<forall>n. fr_N r = Some n \<longrightarrow> length (fr_rest r) \<le> n)
   \<or> e = limitExceeded \<and> (\<forall>n. fr_N r = Some n \<longrightarrow> fr_count r + n > flateUncompressLimit)"
proof (induction sched i r buf rule: readAll.induct)
  case (1 sched i r buf)
  obtain p k late where s: "sched i = (p, k, late)" by (cases "sched i") auto
  obtain r' bs st where l: "limitRead k late (Suc p) r = (r', bs, st)"
    by (cases "limitRead k late (Suc p) r") auto
  note step = limitRead_step [OF l 1(3)]
  show ?case
  proof (cases st)
    case More
    with 1(2) s l have "readAll sched (Suc i) r' (buf @ bs) = Inl e"
      by (simp add: readAll.simps [of sched i r])
    from 1(1) [OF s [symmetric] refl l [symmetric] refl More this step(6)] step(1-6)
    show ?thesis by fastforce
  next
    case EOF
    with 1(2) s l show ?thesis by (simp add: readAll.simps [of sched i r])
  next
    case (Failed e')
    with 1(2) s l have "e' = e" by (simp add: readAll.simps [of sched i r])
    with step Failed show ?thesis by fastforce
  qed
qed


section \<open>Reading a request\<close>

definition maxAuthnRequestSize :: nat where
  "maxAuthnRequestSize = 16 * 1024"

definition checkAuthnRequestSize :: "string \<Rightarrow> unit result" where
  "checkAuthnRequestSize buf =
     checkE (\<not> length buf > maxAuthnRequestSize) (Err ''request exceeds the limit of %d bytes'')"

text \<open>\<^verbatim>\<open>readRedirectRequest\<close> returns the decoded request, the RelayState and the signed query.\<close>

definition readRedirectRequest :: "externs \<Rightarrow> string \<Rightarrow> (string \<times> string \<times> string) result" where
  "readRedirectRequest X rawQuery =
     (let values = ParseQuery rawQuery in
      bindE (wrapE (Wrapf ''cannot decode request: %s'' []) (base64Decode (valuesGet values ''SAMLRequest'')))
        (\<lambda>compressedRequest.
          bindE (wrapE (Wrapf ''cannot decompress request: %s'' [])
              (readAll (x_ReadSchedule X compressedRequest) 0
                 (LimitReader (newSaferFlateReader X compressedRequest) (maxAuthnRequestSize + 1)) []))
            (\<lambda>buf. bindE (checkAuthnRequestSize buf) (\<lambda>_.
              Inr (buf, valuesGet values ''RelayState'',
                   if valuesHas values ''Signature'' \<or> valuesHas values ''SigAlg'' then rawQuery else [])))))"

text \<open>The request read is all of the inflated data, which ended without an error, and is no longer than
  the limit; and any such data is read, whatever the schedule of the reads.\<close>

lemma limited_inflate_Inr:
  "readAll sched 0 (LimitReader (newSaferFlateReader X c) (maxAuthnRequestSize + 1)) [] = Inr buf \<and>
     length buf \<le> maxAuthnRequestSize \<longleftrightarrow>
   x_Inflate X c = (buf, None) \<and> length buf \<le> maxAuthnRequestSize"
proof -
  let ?r = "LimitReader (newSaferFlateReader X c) (maxAuthnRequestSize + 1)"
  have r: "fr_rest ?r = fst (x_Inflate X c)" "fr_err ?r = snd (x_Inflate X c)"
    "fr_N ?r = Some (maxAuthnRequestSize + 1)" "fr_count ?r = 0"
    by (simp_all add: LimitReader_def newSaferFlateReader_def)
  have lim: "maxAuthnRequestSize + 1 \<le> flateUncompressLimit"
    by (simp add: maxAuthnRequestSize_def flateUncompressLimit_def)
  have "x_Inflate X c = (b, None)" if "readAll sched 0 ?r [] = Inr b" "length b \<le> maxAuthnRequestSize" for b
    using readAll_Inr [OF that(1)] that(2) unfolding r by (auto simp: prod_eq_iff)
  moreover have "readAll sched 0 ?r [] = Inr buf"
    if "x_Inflate X c = (buf, None)" "length buf \<le> maxAuthnRequestSize"
  proof (cases "readAll sched 0 ?r []")
    case (Inl e)
    from readAll_Inl [OF this] that lim show ?thesis unfolding r by simp
  next
    case (Inr b)
    from readAll_Inr [OF Inr] that have "b = buf" unfolding r by auto
    with Inr show ?thesis by simp
  qed
  ultimately show ?thesis by blast
qed

lemmas limited_inflate_D = conjunct1 [OF limited_inflate_Inr [THEN iffD1, OF conjI], simplified]
lemmas limited_inflate_I = conjunct1 [OF limited_inflate_Inr [THEN iffD2, OF conjI], simplified]

lemma readRedirectRequest_Inr:
  "readRedirectRequest X q = Inr (buf, rs, signed) \<longleftrightarrow>
   (\<exists>c. base64Decode (valuesGet (ParseQuery q) ''SAMLRequest'') = Inr c \<and> x_Inflate X c = (buf, None)) \<and>
   length buf \<le> maxAuthnRequestSize \<and> rs = valuesGet (ParseQuery q) ''RelayState'' \<and>
   signed = (if valuesHas (ParseQuery q) ''Signature'' \<or> valuesHas (ParseQuery q) ''SigAlg'' then q else [])"
  unfolding readRedirectRequest_def checkAuthnRequestSize_def Let_def bindE_Inr_iff wrapE_Inr_iff
    checkE_Inr_iff not_less
  by (auto dest: limited_inflate_D intro: limited_inflate_I)

section \<open>Signed query strings\<close>

definition signatureParameterNames :: "string list" where
  "signatureParameterNames = [''SAMLRequest'', ''SAMLResponse'', ''RelayState'', ''SigAlg'', ''Signature'']"

text \<open>The loop of \<^verbatim>\<open>redirectParameters\<close> over the pairs of the query.\<close>

fun collectParameters :: "(string \<times> string) list \<Rightarrow> string list \<Rightarrow> (string \<times> string) list result" where
  "collectParameters parameters [] = Inr parameters"
| "collectParameters parameters (pair # pairs) =
     (case cutAt CHR ''='' pair of (rawKey, value, _) \<Rightarrow>
        (case QueryUnescape rawKey of
           Inl _ \<Rightarrow> Inl (Err ''malformed query parameter'')
         | Inr key \<Rightarrow>
             if key \<in> set signatureParameterNames then
               if map_of parameters key \<noteq> None then Inl (Errorf ''repeated %s parameter'' [key])
               else collectParameters ((key, value) # parameters) pairs
             else collectParameters parameters pairs))"

definition redirectParameters :: "string \<Rightarrow> (string \<times> string) list result" where
  "redirectParameters rawQuery = collectParameters [] (splitOn CHR ''&'' rawQuery)"

text \<open>One parameter of a query, and the octets that the signature covers: the parameters as they were
  received.\<close>

definition queryParam :: "string \<Rightarrow> string \<Rightarrow> string" where
  "queryParam key value = key @ CHR ''='' # value"

definition signedOctets :: "string \<Rightarrow> (string \<times> string) list \<Rightarrow> string" where
  "signedOctets messageParameter parameters =
     queryParam messageParameter (the_default [] (map_of parameters messageParameter))
     @ (case map_of parameters ''RelayState'' of None \<Rightarrow> []
        | Some rs \<Rightarrow> CHR ''&'' # queryParam ''RelayState'' rs)
     @ CHR ''&'' # queryParam ''SigAlg'' (the_default [] (map_of parameters ''SigAlg''))"

definition verifyDigest :: "externs \<Rightarrow> certificate \<Rightarrow> string \<Rightarrow> hash \<Rightarrow> string \<Rightarrow> string \<Rightarrow> bool" where
  "verifyDigest X certificate algorithm hash digest signature =
     (case cert_PublicKey certificate of
        RSA_Key key \<Rightarrow>
          algorithm \<in> set (map fst rsaMethods) \<and> x_VerifyPKCS1v15 X key hash digest signature
      | ECDSA_Key bitSize _ key \<Rightarrow>
          algorithm \<in> set (map fst ecdsaMethods) \<and>
          (let sz = (bitSize + 7) div 8 in
             length signature = 2 * sz \<and>
             x_EcdsaVerify X key digest (SetBytes (take sz signature)) (SetBytes (drop sz signature)))
      | Other_Key _ \<Rightarrow> False)"



definition verifyRedirectSignature :: "externs \<Rightarrow> time \<Rightarrow> string \<Rightarrow> string \<Rightarrow> certificate list \<Rightarrow> unit result" where
  "verifyRedirectSignature X now rawQuery messageParameter certificates =
     bindE (redirectParameters rawQuery) (\<lambda>parameters.
       case find (\<lambda>key. map_of parameters key = None) [messageParameter, ''SigAlg'', ''Signature''] of
         Some key \<Rightarrow> Inl (Errorf ''missing %s parameter'' [key])
       | None \<Rightarrow>
         let signed = signedOctets messageParameter parameters in
         bindE (wrapE (\<lambda>_. Err ''malformed SigAlg parameter'')
             (QueryUnescape (the_default [] (map_of parameters ''SigAlg'')))) (\<lambda>algorithm.
           case map_of redirectSignatureHashes algorithm of
             None \<Rightarrow> Inl (Err ''unsupported signature algorithm'')
           | Some hash \<Rightarrow>
             bindE (wrapE (\<lambda>_. Err ''malformed Signature parameter'')
                 (QueryUnescape (the_default [] (map_of parameters ''Signature'')))) (\<lambda>encodedSignature.
               bindE (wrapE (\<lambda>_. Err ''malformed Signature parameter'') (base64Decode encodedSignature))
                 (\<lambda>signature.
                   let digest = x_Hash X hash signed in
                   if \<exists>cert \<in> set certificates. certValidAt now cert \<and>
                        verifyDigest X cert algorithm hash digest signature
                   then Inr ()
                   else Inl (Err ''no currently valid certificate verifies the signature'')))))"


section \<open>Building a redirect\<close>

text \<open>\<^verbatim>\<open>redirectURLWithContext\<close>. Writing to a \<^verbatim>\<open>strings.Builder\<close> does not fail.\<close>

definition redirectURLWithContext ::
  "externs \<Rightarrow> string \<Rightarrow> string \<Rightarrow> string \<Rightarrow> element \<Rightarrow> string \<Rightarrow> signing_context option \<Rightarrow> url result" where
  "redirectURLWithContext X rnd destination parameter message relayState signingContext =
     (let encoded = base64Encode (x_Deflate X (x_WriteToBytes X message)) in
      bindE (x_ParseURL X destination) (\<lambda>rv.
        let query = queryParam parameter (QueryEscape encoded)
              @ (if relayState \<noteq> [] then CHR ''&'' # queryParam ''RelayState'' (QueryEscape relayState) else [])
        in bindE
          (case signingContext of
             None \<Rightarrow> Inr query
           | Some ctx \<Rightarrow>
               let query = query @ CHR ''&'' # queryParam ''SigAlg'' (QueryEscape (GetSignatureMethodIdentifier ctx))
               in bindE (SignString X rnd ctx query) (\<lambda>sig.
                    Inr (query @ CHR ''&'' # queryParam ''Signature'' (QueryEscape (base64Encode sig)))))
          (\<lambda>query. Inr (rv\<lparr>u_RawQuery :=
             (if u_RawQuery rv \<noteq> [] then u_RawQuery rv @ CHR ''&'' # query else query)\<rparr>))))"

section \<open>What a query string means to its two readers\<close>

text \<open>\<^verbatim>\<open>redirectParameters\<close> keeps the first value of each key and accepts no second one.\<close>

lemma collectParameters_keeps:
  "collectParameters ps pairs = Inr out \<Longrightarrow> map_of ps k = Some v \<Longrightarrow> map_of out k = Some v"
proof (induction ps pairs rule: collectParameters.induct)
  case (2 ps pair pairs)
  obtain rk v' b where c: "cutAt CHR ''='' pair = (rk, v', b)" by (cases "cutAt CHR ''='' pair") auto
  with "2.prems" obtain key where key: "QueryUnescape rk = Inr key"
    by (cases "QueryUnescape rk") auto
  show ?case
  proof (cases "key \<in> set signatureParameterNames")
    case True
    with 2(3) c key have none: "map_of ps key = None"
      and rest: "collectParameters ((key, v') # ps) pairs = Inr out"
      by (auto split: if_splits)
    from none 2(4) have "map_of ((key, v') # ps) k = Some v" by auto
    with 2(1) [OF c [symmetric] refl key True] none rest show ?thesis by simp
  next
    case False
    with 2(2) [OF c [symmetric] refl key False] 2(3,4) c key show ?thesis by simp
  qed
qed simp

lemma collectParameters_pair:
  assumes "collectParameters ps pairs = Inr out" "pair \<in> set pairs" "cutAt CHR ''='' pair = (rk, v, b)"
    "QueryUnescape rk = Inr k" "k \<in> set signatureParameterNames"
  shows "map_of out k = Some v"
  using assms
proof (induction ps pairs rule: collectParameters.induct)
  case (2 ps p pairs)
  show ?case
  proof (cases "p = pair")
    case True
    with 2 have "collectParameters ((k, v) # ps) pairs = Inr out" by (auto split: if_splits)
    then show ?thesis by (rule collectParameters_keeps) simp
  next
    case False
    with 2 show ?thesis by (auto split: prod.splits sum.splits if_splits)
  qed
qed simp

lemma collectParameters_append:
  "collectParameters ps (xs @ ys) = bindE (collectParameters ps xs) (\<lambda>ps'. collectParameters ps' ys)"
  by (induction ps xs rule: collectParameters.induct) (auto split: prod.splits sum.splits)

lemma ParseQuery_mem:
  assumes "(k, v) \<in> set (ParseQuery q)"
  obtains pair rk rv b where "pair \<in> set (splitOn CHR ''&'' q)" "cutAt CHR ''='' pair = (rk, rv, b)"
    "QueryUnescape rk = Inr k" "QueryUnescape rv = Inr v" "CHR '';'' \<notin> set pair"
proof -
  from assms obtain pair where p: "pair \<in> set (splitOn CHR ''&'' q)" "parsePair pair = Some (k, v)"
    by (auto simp: ParseQuery_def map_filter_def)
  then show ?thesis
    by (cases "cutAt CHR ''='' pair")
      (auto simp: parsePair_def split: if_splits sum.splits intro: that [OF p(1)])
qed

lemma cutAt_set: "cutAt c s = (k, v, b) \<Longrightarrow> set k \<subseteq> set s \<and> set v \<subseteq> set s \<and> set s \<subseteq> insert c (set k \<union> set v)"
proof -
  have "set (tl xs) \<subseteq> set xs" for xs :: string by (cases xs) auto
  then have "set (tl (dropWhile (\<lambda>x. x \<noteq> c) s)) \<subseteq> set s" by (meson order_trans set_dropWhileD subsetI)
  moreover have "set s \<subseteq> insert c (set (takeWhile (\<lambda>x. x \<noteq> c) s) \<union> set (tl (dropWhile (\<lambda>x. x \<noteq> c) s)))"
    by (induction s) auto
  ultimately show "cutAt c s = (k, v, b) \<Longrightarrow> set k \<subseteq> set s \<and> set v \<subseteq> set s \<and> set s \<subseteq> insert c (set k \<union> set v)"
    by (auto simp: cutAt_def dest: set_takeWhileD)
qed

lemma QueryUnescape_semicolon: "QueryUnescape s = Inr t \<Longrightarrow> CHR '';'' \<in> set s \<Longrightarrow> CHR '';'' \<in> set t"
proof (induction s arbitrary: t rule: QueryUnescape.induct)
  case (2 c cs)
  have none: "unhex CHR '';'' = None" by (simp add: unhex_def byte_def)
  show ?case
  proof (cases "c = CHR ''%''")
    case True
    with 2(3) obtain h l rest a b u where cs: "cs = h # l # rest" and hex: "unhex h = Some a" "unhex l = Some b"
      and u: "QueryUnescape rest = Inr u" "t = char_of (16 * a + b) # u"
      by (auto split: list.splits option.splits)
    have "CHR '';'' \<in> set rest" using 2(4) True cs hex none by auto
    from 2(1) [OF True cs refl _ hex u(1) this] u(2) cs hex show ?thesis by simp
  next
    case False
    with 2(3) obtain u where "QueryUnescape cs = Inr u" "t = (if c = CHR ''+'' then CHR '' '' else c) # u" by auto
    with 2(2) [OF False] 2(4) show ?thesis by auto
  qed
qed simp

lemma collectParameters_origin:
  "collectParameters ps pairs = Inr out \<Longrightarrow> map_of out k = Some v \<Longrightarrow> map_of ps k = None \<Longrightarrow>
   \<exists>pair \<in> set pairs. \<exists>rk b. cutAt CHR ''='' pair = (rk, v, b) \<and> QueryUnescape rk = Inr k"
proof (induction pairs arbitrary: ps)
  case (Cons pair pairs)
  obtain rk v' b where c: "cutAt CHR ''='' pair = (rk, v', b)" by (cases "cutAt CHR ''='' pair")
  with Cons(2) obtain key where key: "QueryUnescape rk = Inr key" by (auto split: sum.splits)
  show ?case
  proof (cases "key \<in> set signatureParameterNames")
    case True
    with Cons(2) c key have rest: "collectParameters ((key, v') # ps) pairs = Inr out" by (simp split: if_splits)
    show ?thesis
    proof (cases "key = k")
      case True
      with collectParameters_keeps [OF rest, of k v'] Cons(3) have "v' = v" by simp
      with True c key show ?thesis by simp
    next
      case False
      with Cons(1) [OF rest Cons(3)] Cons(4) show ?thesis by simp
    qed
  next
    case False
    with Cons(2) c key have rest: "collectParameters ps pairs = Inr out" by simp
    from Cons(1) [OF this Cons(3,4)] show ?thesis by simp
  qed
qed simp

text \<open>So a key that the parsed query has is one that the signature check saw, with the same value.\<close>

lemma redirectParameters_agree:
  assumes "redirectParameters q = Inr ps" "valuesHas (ParseQuery q) k" "k \<in> set signatureParameterNames"
  obtains raw where "map_of ps k = Some raw" "QueryUnescape raw = Inr (valuesGet (ParseQuery q) k)"
proof -
  from assms(2) have "map_of (ParseQuery q) k \<noteq> None"
    by (simp add: valuesHas_def map_of_eq_None_iff)
  then obtain v where v: "map_of (ParseQuery q) k = Some v" by auto
  then obtain pair rk rv b where "pair \<in> set (splitOn CHR ''&'' q)" "cutAt CHR ''='' pair = (rk, rv, b)"
    "QueryUnescape rk = Inr k" "QueryUnescape rv = Inr v"
    by (metis ParseQuery_mem map_of_SomeD)
  with assms v show ?thesis
    by (intro that [of rv]) (auto simp: redirectParameters_def valuesGet_def intro: collectParameters_pair)
qed

lemma valuesGet_absent: "\<not> valuesHas vs k \<Longrightarrow> valuesGet vs k = []"
  by (simp add: valuesHas_def valuesGet_def flip: map_of_eq_None_iff)



text \<open>What \<^verbatim>\<open>url.ParseQuery\<close> makes of a raw value: a pair with a semicolon or a malformed escape is dropped.\<close>

definition decodedParameter :: "string option \<Rightarrow> string" where
  "decodedParameter raw =
     (case raw of
        None \<Rightarrow> []
      | Some s \<Rightarrow> if CHR '';'' \<in> set s then [] else (case QueryUnescape s of Inl _ \<Rightarrow> [] | Inr v \<Rightarrow> v))"

lemma redirectParameters_decoded:
  assumes "redirectParameters q = Inr ps" "k \<in> set signatureParameterNames"
  shows "valuesGet (ParseQuery q) k = decodedParameter (map_of ps k)"
proof (cases "valuesHas (ParseQuery q) k")
  case True
  then obtain v where v: "map_of (ParseQuery q) k = Some v"
    using map_of_eq_None_iff [of "ParseQuery q" k] by (auto simp: valuesHas_def)
  then obtain pair rk rv b where p: "pair \<in> set (splitOn CHR ''&'' q)" "cutAt CHR ''='' pair = (rk, rv, b)"
    "QueryUnescape rk = Inr k" "QueryUnescape rv = Inr v" "CHR '';'' \<notin> set pair"
    by (metis ParseQuery_mem map_of_SomeD)
  then have "map_of ps k = Some rv" using assms by (auto simp: redirectParameters_def intro: collectParameters_pair)
  with p cutAt_set [OF p(2)] v show ?thesis by (auto simp: decodedParameter_def valuesGet_def)
next
  case False
  have "decodedParameter (map_of ps k) = []"
  proof (rule ccontr)
    assume "decodedParameter (map_of ps k) \<noteq> []"
    then obtain raw v where raw: "map_of ps k = Some raw" "CHR '';'' \<notin> set raw" "QueryUnescape raw = Inr v"
      by (auto simp: decodedParameter_def split: option.splits if_splits sum.splits)
    then obtain pair rk b where p: "pair \<in> set (splitOn CHR ''&'' q)" "cutAt CHR ''='' pair = (rk, raw, b)" "QueryUnescape rk = Inr k"
      using collectParameters_origin [OF assms(1) [unfolded redirectParameters_def], of k raw] by auto
    have "CHR '';'' \<notin> set k" "k \<noteq> []" using assms(2) by (auto simp: signatureParameterNames_def)
    then have "CHR '';'' \<notin> set rk" "pair \<noteq> []" using p(2,3) QueryUnescape_semicolon [of rk k] by (auto simp: cutAt_def)
    with raw(2) cutAt_set [OF p(2)] have "CHR '';'' \<notin> set pair" by auto
    with p raw(3) \<open>pair \<noteq> []\<close> have "(k, v) \<in> set (ParseQuery q)"
      by (force simp: ParseQuery_def map_filter_def parsePair_def)
    with False show False by (force simp: valuesHas_def)
  qed
  with False show ?thesis by (simp add: valuesGet_absent)
qed

lemma verifyDigest_algorithm:
  assumes "map_of redirectSignatureHashes alg = Some h" "verifyDigest X cert alg h d sig"
  shows "signatureMethodsByIdentifier alg = Some (keyAlgorithm (cert_PublicKey cert), h)"
  using assms
  by (cases "cert_PublicKey cert")
    (auto simp: verifyDigest_def redirectSignatureHashes_def signatureMethodsByIdentifier_def rsaMethods_def
      ecdsaMethods_def signature_method_defs keyAlgorithm_def split: if_splits)

lemma verifyRedirectSignature_Inr:
  "verifyRedirectSignature X now q mp certs = Inr () \<longleftrightarrow>
   (\<exists>ps rawAlg alg h rawSig enc sig cert. redirectParameters q = Inr ps \<and> map_of ps mp \<noteq> None \<and>
      map_of ps ''SigAlg'' = Some rawAlg \<and> map_of ps ''Signature'' = Some rawSig \<and>
      QueryUnescape rawAlg = Inr alg \<and> map_of redirectSignatureHashes alg = Some h \<and>
      QueryUnescape rawSig = Inr enc \<and> base64Decode enc = Inr sig \<and>
      cert \<in> set certs \<and> certValidAt now cert \<and>
      verifyDigest X cert alg h (x_Hash X h (signedOctets mp ps)) sig)"
proof (cases "redirectParameters q")
  case (Inr ps)
  let ?check = "\<lambda>alg h sig. \<exists>cert \<in> set certs. certValidAt now cert \<and>
    verifyDigest X cert alg h (x_Hash X h (signedOctets mp ps)) sig"
  have "verifyRedirectSignature X now q mp certs = Inr () \<longleftrightarrow>
    (\<exists>rawAlg alg h rawSig enc sig. map_of ps mp \<noteq> None \<and>
      map_of ps ''SigAlg'' = Some rawAlg \<and> map_of ps ''Signature'' = Some rawSig \<and>
      QueryUnescape rawAlg = Inr alg \<and> map_of redirectSignatureHashes alg = Some h \<and>
      QueryUnescape rawSig = Inr enc \<and> base64Decode enc = Inr sig \<and> ?check alg h sig)"
    unfolding verifyRedirectSignature_def Inr bindE_simps Let_def
    apply (cases "map_of ps mp"; cases "map_of ps ''SigAlg''"; cases "map_of ps ''Signature''"; simp)
    subgoal for _ rawAlg rawSig
      apply (cases "QueryUnescape rawAlg"; simp)
      subgoal for alg
        by (cases "map_of redirectSignatureHashes alg"; simp; blast)
      done
    done
  with Inr show ?thesis by auto
qed (simp add: verifyRedirectSignature_def)


section \<open>What a built redirect says\<close>

text \<open>The signer of a context and a certificate belong together: they have the same public key, and the
  cryptography verifies with that key what the signer's private key signs. For an ECDSA key the two
  sizes of its curve need the same number of bytes, as they do on every NIST curve.\<close>

definition signerMatches :: "externs \<Rightarrow> signer \<Rightarrow> certificate \<Rightarrow> bool" where
  "signerMatches X s cert \<longleftrightarrow> cert_PublicKey cert = sg_Public s \<and>
     (\<forall>rnd d h sig. x_Sign X rnd (sg_Key s) d h = Inr sig \<longrightarrow>
        (case sg_Public s of
           RSA_Key k \<Rightarrow> x_VerifyPKCS1v15 X k h d sig
         | ECDSA_Key b n k \<Rightarrow> (b + 7) div 8 = (n + 7) div 8 \<and>
             (\<forall>r s rest. x_Asn1UnmarshalEcdsa X sig = Inr (r, s, rest) \<longrightarrow>
                x_EcdsaVerify X k d (nat r) (nat s))
         | Other_Key _ \<Rightarrow> False))"

lemma signDigest_verifies:
  assumes "signerMatches X s cert" "ctx_Source ctx = FromSigner s chain" "signDigest X rnd ctx d = Inr sig"
  shows "verifyDigest X cert (GetSignatureMethodIdentifier ctx) (ctx_Hash ctx) d sig"
    and "map_of redirectSignatureHashes (GetSignatureMethodIdentifier ctx) = Some (ctx_Hash ctx)"
proof -
  have cert: "cert_PublicKey cert = sg_Public s" using assms(1) by (simp add: signerMatches_def)
  obtain raw where raw: "x_Sign X rnd (sg_Key s) d (ctx_Hash ctx) = Inr raw"
      "(case sg_Public s of ECDSA_Key _ n _ \<Rightarrow> ecdsaDERToRaw X n raw | _ \<Rightarrow> Inr raw) = Inr sig"
    using assms(2,3) by (auto simp: signDigest_def)
  have law: "case sg_Public s of
      RSA_Key k \<Rightarrow> x_VerifyPKCS1v15 X k (ctx_Hash ctx) d raw
    | ECDSA_Key b n k \<Rightarrow> (b + 7) div 8 = (n + 7) div 8 \<and>
        (\<forall>r s rest. x_Asn1UnmarshalEcdsa X raw = Inr (r, s, rest) \<longrightarrow> x_EcdsaVerify X k d (nat r) (nat s))
    | Other_Key _ \<Rightarrow> False"
    using assms(1) raw(1) unfolding signerMatches_def by blast
  note algs = GetSignatureMethodIdentifier_def getPublicKeyAlgorithm_def keyAlgorithm_def
    signatureMethodIdentifier_def rsaMethods_def ecdsaMethods_def
  have "verifyDigest X cert (GetSignatureMethodIdentifier ctx) (ctx_Hash ctx) d sig \<and>
    map_of redirectSignatureHashes (GetSignatureMethodIdentifier ctx) = Some (ctx_Hash ctx)"
  proof (cases "sg_Public s")
    case (RSA_Key k)
    with raw law assms(2) show ?thesis
      by (cases "ctx_Hash ctx")
        (simp_all add: verifyDigest_def cert algs redirectSignatureHashes_def signature_method_defs)
  next
    case (ECDSA_Key b n k)
    with raw(2) obtain r t where rt: "x_Asn1UnmarshalEcdsa X raw = Inr (r, t, [])"
        "length sig = 2 * ecdsaFieldSize n" "SetBytes (take (ecdsaFieldSize n) sig) = nat r"
        "SetBytes (drop (ecdsaFieldSize n) sig) = nat t"
      by (auto elim: ecdsaDERToRaw_shape)
    with ECDSA_Key law assms(2) show ?thesis
      by (cases "ctx_Hash ctx")
        (simp_all add: verifyDigest_def cert algs redirectSignatureHashes_def signature_method_defs
          ecdsaFieldSize_def Let_def)
  next
    case (Other_Key k)
    with law show ?thesis by simp
  qed
  then show "verifyDigest X cert (GetSignatureMethodIdentifier ctx) (ctx_Hash ctx) d sig"
    "map_of redirectSignatureHashes (GetSignatureMethodIdentifier ctx) = Some (ctx_Hash ctx)" by simp_all
qed

text \<open>One escaped parameter, as each of the two readers of a query sees it. A plain key is one that
  escaping leaves alone.\<close>

definition plainKey :: "string \<Rightarrow> bool" where
  "plainKey k \<longleftrightarrow> k \<noteq> [] \<and> list_all isAlnum k"

lemma plainKey_unescape: "list_all isAlnum k \<Longrightarrow> QueryUnescape k = Inr k"
proof (induction k)
  case (Cons c k)
  then have "c \<noteq> CHR ''%''" "c \<noteq> CHR ''+''" by auto
  with Cons show ?case by simp
qed simp

lemma plainKey_separators: "plainKey k \<Longrightarrow> set k \<inter> querySeparators = {}"
  by (auto simp: plainKey_def querySeparators_def list_all_iff)

lemma plainKey_names [simp]:
  "plainKey ''SAMLRequest''" "plainKey ''SAMLResponse''" "plainKey ''RelayState''" "plainKey ''SigAlg''"
  "plainKey ''Signature''"
  by (simp_all add: plainKey_def isAlnum_def byte_def)

lemma queryParam_ParseQuery: "plainKey k \<Longrightarrow> ParseQuery (queryParam k (QueryEscape v)) = [(k, v)]"
  using ParseQuery_pair [of k k v] plainKey_separators [of k]
  by (simp add: queryParam_def plainKey_def plainKey_unescape)

lemma queryParam_split:
  "plainKey k \<Longrightarrow> splitOn CHR ''&'' (queryParam k (QueryEscape v)) = [queryParam k (QueryEscape v)]"
  using plainKey_separators [of k]
  by (intro splitOn_no_sep) (auto simp: queryParam_def querySeparators_def)

lemma queryParam_collect:
  "plainKey k \<Longrightarrow> k \<in> set signatureParameterNames \<Longrightarrow> map_of ps k = None \<Longrightarrow>
   collectParameters ps (queryParam k v # pairs) = collectParameters ((k, v) # ps) pairs"
  using plainKey_separators [of k]
  by (simp add: queryParam_def plainKey_def plainKey_unescape querySeparators_def)

lemmas queryParam_simps = queryParam_ParseQuery queryParam_split queryParam_collect ParseQuery_append
  splitOn_append_gen collectParameters_append

text \<open>The parameters of a built redirect, in the order they are signed, and the query they make.\<close>

definition redirectFields :: "externs \<Rightarrow> string \<Rightarrow> element \<Rightarrow> string \<Rightarrow> signing_context \<Rightarrow> string \<Rightarrow> (string \<times> string) list" where
  "redirectFields X parameter message relayState ctx sig =
     [(parameter, base64Encode (x_Deflate X (x_WriteToBytes X message)))]
     @ (if relayState \<noteq> [] then [(''RelayState'', relayState)] else [])
     @ [(''SigAlg'', GetSignatureMethodIdentifier ctx), (''Signature'', base64Encode sig)]"

definition fieldsQuery :: "(string \<times> string) list \<Rightarrow> string" where
  "fieldsQuery fs = joinWith CHR ''&'' (map (\<lambda>(k, v). queryParam k (QueryEscape v)) fs)"

lemma fieldsQuery_ParseQuery:
  "\<forall>(k, v) \<in> set fs. plainKey k \<Longrightarrow> fs \<noteq> [] \<Longrightarrow> ParseQuery (fieldsQuery fs) = fs"
proof (induction fs)
  case (Cons kv fs)
  then show ?case
    by (cases fs; cases kv) (auto simp: fieldsQuery_def queryParam_simps)
qed simp

lemma fieldsQuery_collect:
  "\<forall>(k, v) \<in> set fs. plainKey k \<and> k \<in> set signatureParameterNames \<Longrightarrow> fs \<noteq> [] \<Longrightarrow>
   distinct (map fst (ps @ fs)) \<Longrightarrow>
   collectParameters ps (splitOn CHR ''&'' (fieldsQuery fs)) =
     Inr (rev (map (\<lambda>(k, v). (k, QueryEscape v)) fs) @ ps)"
proof (induction fs arbitrary: ps)
  case (Cons kv fs)
  obtain k v where kv: "kv = (k, v)" by (cases kv)
  then have none: "map_of ps k = None" using Cons.prems(3) by (auto simp: map_of_eq_None_iff)
  show ?case
  proof (cases fs)
    case Nil
    with Cons.prems none kv show ?thesis by (simp add: fieldsQuery_def queryParam_simps del: collectParameters.simps(2))
  next
    case (Cons kv' fs')
    have "collectParameters ps (splitOn CHR ''&'' (fieldsQuery (kv # fs)))
        = collectParameters ((k, QueryEscape v) # ps) (splitOn CHR ''&'' (fieldsQuery fs))"
      using Cons.prems none kv Cons
      by (simp add: fieldsQuery_def queryParam_simps del: collectParameters.simps(2))
    also have "\<dots> = Inr (rev (map (\<lambda>(k, v). (k, QueryEscape v)) fs) @ (k, QueryEscape v) # ps)"
      by (rule Cons.IH) (use Cons.prems Cons kv in auto)
    finally show ?thesis using kv by simp
  qed
qed simp

lemma redirectFields_query:
  "redirectURLWithContext X rnd dest mp msg rs (Some ctx) =
     bindE (x_ParseURL X dest) (\<lambda>d.
       bindE (SignString X rnd ctx (fieldsQuery (butlast (redirectFields X mp msg rs ctx [])))) (\<lambda>sig.
         Inr (d\<lparr>u_RawQuery := (if u_RawQuery d \<noteq> [] then u_RawQuery d @ [CHR ''&''] else [])
                @ fieldsQuery (redirectFields X mp msg rs ctx sig)\<rparr>)))"
  by (cases "rs = []")
    (simp_all add: redirectURLWithContext_def Let_def redirectFields_def fieldsQuery_def bindE_assoc
      if_distrib [of "\<lambda>x. x @ _"] cong: if_cong)

text \<open>A destination that carries none of the parameters of the binding adds nothing to what either
  reader of the query sees.\<close>

lemma redirectParameters_none:
  assumes "redirectParameters q = Inr []" "k \<in> set signatureParameterNames"
  shows "\<not> valuesHas (ParseQuery q) k"
  using redirectParameters_agree [OF assms(1) _ assms(2)] by fastforce

lemma valuesGet_append: "\<not> valuesHas xs k \<Longrightarrow> valuesGet (xs @ ys) k = valuesGet ys k"
  by (simp add: valuesHas_def valuesGet_def map_add_def map_of_eq_None_iff [symmetric] split: option.split)

lemma valuesHas_append [simp]: "valuesHas (xs @ ys) k \<longleftrightarrow> valuesHas xs k \<or> valuesHas ys k"
  by (auto simp: valuesHas_def)

lemma built_query:
  assumes "redirectURLWithContext X rnd dest mp msg rs (Some ctx) = Inr u" "x_ParseURL X dest = Inr d"
    "redirectParameters (u_RawQuery d) = Inr []" "mp \<in> {''SAMLRequest'', ''SAMLResponse''}"
  obtains sig fs where "fs = redirectFields X mp msg rs ctx sig"
    "SignString X rnd ctx (fieldsQuery (butlast fs)) = Inr sig"
    "redirectParameters (u_RawQuery u) = Inr (rev (map (\<lambda>(k, v). (k, QueryEscape v)) fs))"
    "\<And>k. k \<in> set signatureParameterNames \<Longrightarrow> valuesGet (ParseQuery (u_RawQuery u)) k = valuesGet fs k"
    "valuesHas (ParseQuery (u_RawQuery u)) ''Signature''"
proof -
  from assms(1,2) obtain sig where
    sig: "SignString X rnd ctx (fieldsQuery (butlast (redirectFields X mp msg rs ctx []))) = Inr sig" and
    u: "u_RawQuery u = (if u_RawQuery d \<noteq> [] then u_RawQuery d @ [CHR ''&''] else [])
          @ fieldsQuery (redirectFields X mp msg rs ctx sig)"
    by (auto simp: redirectFields_query)
  let ?fs = "redirectFields X mp msg rs ctx sig"
  have fs: "\<forall>(k, v) \<in> set ?fs. plainKey k \<and> k \<in> set signatureParameterNames" "?fs \<noteq> []"
      "distinct (map fst ?fs)"
    using assms(4) by (auto simp: redirectFields_def signatureParameterNames_def)
  from fs have plain: "\<forall>(k, v) \<in> set ?fs. plainKey k" by auto
  have parsed: "ParseQuery (u_RawQuery u) = (if u_RawQuery d \<noteq> [] then ParseQuery (u_RawQuery d) else []) @ ?fs"
    using fieldsQuery_ParseQuery [OF plain fs(2)] by (simp add: u ParseQuery_append)
  have "redirectParameters (u_RawQuery u) = Inr (rev (map (\<lambda>(k, v). (k, QueryEscape v)) ?fs))"
    using assms(3) fieldsQuery_collect [OF fs(1,2), of "[]"] fs(3)
    by (simp add: u redirectParameters_def splitOn_append_gen collectParameters_append)
  moreover have "valuesGet (ParseQuery (u_RawQuery u)) k = valuesGet ?fs k"
    if "k \<in> set signatureParameterNames" for k
    using redirectParameters_none [OF assms(3) that] by (simp add: parsed valuesGet_append)
  moreover have "valuesHas (ParseQuery (u_RawQuery u)) ''Signature''"
    by (simp add: parsed) (simp add: valuesHas_def redirectFields_def)
  moreover have "butlast ?fs = butlast (redirectFields X mp msg rs ctx [])"
    by (simp add: redirectFields_def butlast_append)
  ultimately show ?thesis using sig by (intro that [of ?fs sig]) simp_all
qed

lemma built_query_verifies:
  assumes built: "redirectURLWithContext X rnd dest mp msg rs (Some ctx) = Inr u"
    and dest: "x_ParseURL X dest = Inr d" "redirectParameters (u_RawQuery d) = Inr []"
    and mp: "mp \<in> {''SAMLRequest'', ''SAMLResponse''}"
    and key: "ctx_Source ctx = FromSigner s chain" "signerMatches X s cert"
    and cert: "cert \<in> set certs" "certValidAt now cert"
  shows "verifyRedirectSignature X now (u_RawQuery u) mp certs = Inr ()"
proof -
  obtain sig fs where fs: "fs = redirectFields X mp msg rs ctx sig"
    and sig: "SignString X rnd ctx (fieldsQuery (butlast fs)) = Inr sig"
    and ps: "redirectParameters (u_RawQuery u) = Inr (rev (map (\<lambda>(k, v). (k, QueryEscape v)) fs))"
    using built_query [OF built dest mp] by metis
  let ?ps = "rev (map (\<lambda>(k, v). (k, QueryEscape v)) fs)"
  have octets: "signedOctets mp ?ps = fieldsQuery (butlast fs)"
    using mp by (auto simp: fs redirectFields_def signedOctets_def fieldsQuery_def)
  have "signDigest X rnd ctx (x_Hash X (ctx_Hash ctx) (signedOctets mp ?ps)) = Inr sig"
    using sig by (simp add: octets SignString_def split: if_splits)
  note v = signDigest_verifies [OF key(2,1) this]
  have "map_of ?ps mp \<noteq> None"
    "map_of ?ps ''SigAlg'' = Some (QueryEscape (GetSignatureMethodIdentifier ctx))"
    "map_of ?ps ''Signature'' = Some (QueryEscape (base64Encode sig))"
    using mp by (auto simp: fs redirectFields_def)
  then show ?thesis
    unfolding verifyRedirectSignature_Inr using ps v cert by fastforce
qed

lemma built_query_reads:
  assumes "redirectURLWithContext X rnd dest ''SAMLRequest'' msg rs (Some ctx) = Inr u"
    and "x_ParseURL X dest = Inr d" "redirectParameters (u_RawQuery d) = Inr []"
    and "x_Inflate X (x_Deflate X (x_WriteToBytes X msg)) = (x_WriteToBytes X msg, None)"
    and "length (x_WriteToBytes X msg) \<le> maxAuthnRequestSize"
  shows "readRedirectRequest X (u_RawQuery u) = Inr (x_WriteToBytes X msg, rs, u_RawQuery u)"
proof -
  obtain sig fs where fs: "fs = redirectFields X ''SAMLRequest'' msg rs ctx sig"
      "\<And>k. k \<in> set signatureParameterNames \<Longrightarrow> valuesGet (ParseQuery (u_RawQuery u)) k = valuesGet fs k"
      "valuesHas (ParseQuery (u_RawQuery u)) ''Signature''"
    using built_query [OF assms(1-3)] by (metis insertCI)
  have "valuesGet (ParseQuery (u_RawQuery u)) ''SAMLRequest'' = base64Encode (x_Deflate X (x_WriteToBytes X msg))"
    "valuesGet (ParseQuery (u_RawQuery u)) ''RelayState'' = rs"
    by (simp_all add: fs(2) signatureParameterNames_def) (simp_all add: fs(1) redirectFields_def valuesGet_def)
  then show ?thesis
    unfolding readRedirectRequest_Inr using assms(4,5) fs(3) by simp
qed

text \<open>A concrete signer and context.\<close>

definition exampleSigner :: signer where
  "exampleSigner = \<lparr>sg_Key = ''key'', sg_Public = RSA_Key ''key'', sg_Native = True\<rparr>"

definition exampleContext :: signing_context where
  "exampleContext = \<lparr>ctx_Hash = SHA256, ctx_Source = FromSigner exampleSigner [''key''],
     ctx_IdAttribute = DefaultIdAttr, ctx_Prefix = DefaultPrefix, ctx_Canonicalizer = C14N11 False\<rparr>"

definition exampleRedirect :: url where
  "exampleRedirect = (case redirectURLWithContext exampleX [] ''https://idp'' ''SAMLRequest''
       (Element [] ''AuthnRequest'' [] []) ''state'' (Some exampleContext) of
     Inr u \<Rightarrow> u | Inl _ \<Rightarrow> undefined)"

lemma exampleSigner_matches: "signerMatches exampleX exampleSigner (exampleCert ''key'')"
  by (simp add: signerMatches_def exampleSigner_def exampleCert_def exampleX_def)

lemma exampleCert_valid: "certValidAt 5 (exampleCert raw)"
  by (simp add: certValidAt_def exampleCert_def ns_defs)

lemma exampleRedirect_dest:
  "x_ParseURL exampleX ''https://idp'' =
     Inr \<lparr>u_Scheme = [], u_HasUser = False, u_Host = [], u_Base = ''https://idp'', u_Path = [], u_ForceQuery = False, u_RawQuery = [], u_Fragment = []\<rparr>"
  "redirectParameters [] = Inr []"
  by (simp_all add: exampleX_def redirectParameters_def cutAt_def signatureParameterNames_def)

lemma fieldsQuery_nonempty: "fieldsQuery (butlast (redirectFields X mp msg rs ctx sig)) \<noteq> []"
  by (simp add: fieldsQuery_def redirectFields_def queryParam_def)

lemma exampleRedirect_built:
  "redirectURLWithContext exampleX [] ''https://idp'' ''SAMLRequest'' (Element [] ''AuthnRequest'' [] [])
     ''state'' (Some exampleContext) = Inr exampleRedirect"
proof -
  have "SignString exampleX rnd exampleContext q = Inr (''key'' @ x_Hash exampleX SHA256 q)" if "q \<noteq> []" for rnd q
    using that by (simp add: SignString_def signDigest_def exampleContext_def exampleSigner_def exampleX_def)
  then show ?thesis
    unfolding exampleRedirect_def redirectFields_query exampleRedirect_dest(1) by (simp add: fieldsQuery_nonempty)
qed



lemma exampleRedirect_read:
  "readRedirectRequest exampleX (u_RawQuery exampleRedirect) =
     Inr (''AuthnRequest'', ''state'', u_RawQuery exampleRedirect)"
  using built_query_reads [OF exampleRedirect_built exampleRedirect_dest(1)] exampleRedirect_dest(2)
  by (simp add: exampleX_def maxAuthnRequestSize_def)

lemma exampleRedirect_verified:
  "verifyRedirectSignature exampleX 5 (u_RawQuery exampleRedirect) ''SAMLRequest'' [exampleCert ''key''] = Inr ()"
  using built_query_verifies [OF exampleRedirect_built exampleRedirect_dest(1) _ _ _ exampleSigner_matches,
      of "[''key'']" "[exampleCert ''key'']" 5] exampleRedirect_dest(2) exampleCert_valid
  by (simp add: exampleContext_def)

section \<open>Properties\<close>

lemma verified_query_covers:
  assumes empty: "snd (x_Inflate X []) \<noteq> None"
    and read: "readRedirectRequest X q = Inr (buf, rs, sq)"
    and verified: "verifyRedirectSignature X now q ''SAMLRequest'' certs = Inr ()"
  shows "\<exists>cert \<in> set certs. \<exists>ps alg h sig raw m c.
    certValidAt now cert \<and>
    signatureMethodsByIdentifier alg = Some (keyAlgorithm (cert_PublicKey cert), h) \<and>
    verifyDigest X cert alg h (x_Hash X h (signedOctets ''SAMLRequest'' ps)) sig \<and>
    map_of ps ''SAMLRequest'' = Some raw \<and> QueryUnescape raw = Inr m \<and> base64Decode m = Inr c \<and>
    x_Inflate X c = (buf, None) \<and>
    rs = decodedParameter (map_of ps ''RelayState'')"
proof -
  from verified obtain ps alg h sig cert where v: "redirectParameters q = Inr ps"
      "map_of redirectSignatureHashes alg = Some h" "cert \<in> set certs" "certValidAt now cert"
      "verifyDigest X cert alg h (x_Hash X h (signedOctets ''SAMLRequest'' ps)) sig"
    unfolding verifyRedirectSignature_Inr by blast
  from read obtain c where r: "base64Decode (valuesGet (ParseQuery q) ''SAMLRequest'') = Inr c"
      "x_Inflate X c = (buf, None)" "rs = valuesGet (ParseQuery q) ''RelayState''"
    unfolding readRedirectRequest_Inr by blast
  have has: "valuesHas (ParseQuery q) ''SAMLRequest''"
  proof (rule ccontr)
    assume "\<not> valuesHas (ParseQuery q) ''SAMLRequest''"
    with r(1) have "c = []" by (simp add: valuesGet_absent base64Decode_def)
    with r(2) empty show False by simp
  qed
  obtain raw where raw: "map_of ps ''SAMLRequest'' = Some raw"
      "QueryUnescape raw = Inr (valuesGet (ParseQuery q) ''SAMLRequest'')"
    using redirectParameters_agree [OF v(1) has] by (auto simp: signatureParameterNames_def)
  have rel: "rs = decodedParameter (map_of ps ''RelayState'')"
    using redirectParameters_decoded [OF v(1), of "''RelayState''"] r(3) by (simp add: signatureParameterNames_def)
  from v(3-5) verifyDigest_algorithm [OF v(2,5)] raw r(1,2) rel show ?thesis by blast
qed

text \<open>
  C4. What the identity provider processes is what was signed. When a redirect request is read from a
  query whose signature verifies, there is a currently valid certificate among those given which
  verifies, under an algorithm of its key's type, octets that contain the undecoded SAMLRequest
  parameter; and the request and the RelayState that are processed are the decoded values of the very
  parameters in those octets. A second parameter of the same name, whatever its escaping, cannot
  replace them. The RelayState is empty exactly where the octets have none, or one that decodes to nothing or that
  ParseQuery drops for a semicolon or a malformed escape. (Inflating no data ends with an error.)
\<close>

theorem redirect_signature_covers_request:
  assumes empty: "snd (x_Inflate X []) \<noteq> None"
    and read: "readRedirectRequest X q = Inr (buf, rs, sq)"
    and verified: "verifyRedirectSignature X now q ''SAMLRequest'' certs = Inr ()"
  shows "\<exists>cert \<in> set certs. \<exists>ps alg h sig raw m c.
    certValidAt now cert \<and>
    signatureMethodsByIdentifier alg = Some (keyAlgorithm (cert_PublicKey cert), h) \<and>
    verifyDigest X cert alg h (x_Hash X h (signedOctets ''SAMLRequest'' ps)) sig \<and>
    map_of ps ''SAMLRequest'' = Some raw \<and> QueryUnescape raw = Inr m \<and> base64Decode m = Inr c \<and>
    x_Inflate X c = (buf, None) \<and>
    rs = decodedParameter (map_of ps ''RelayState'')"
  by (rule verified_query_covers [OF assms])

theorem redirect_signature_covers_request_witness:
  "\<exists>cert \<in> set [exampleCert ''key'']. \<exists>ps alg h sig raw m c.
    certValidAt 5 cert \<and>
    signatureMethodsByIdentifier alg = Some (keyAlgorithm (cert_PublicKey cert), h) \<and>
    verifyDigest exampleX cert alg h (x_Hash exampleX h (signedOctets ''SAMLRequest'' ps)) sig \<and>
    map_of ps ''SAMLRequest'' = Some raw \<and> QueryUnescape raw = Inr m \<and> base64Decode m = Inr c \<and>
    x_Inflate exampleX c = (''AuthnRequest'', None) \<and>
    ''state'' = decodedParameter (map_of ps ''RelayState'')"
  by (rule redirect_signature_covers_request [OF _ exampleRedirect_read exampleRedirect_verified])
    (simp add: exampleX_def)

text \<open>
  C8. A redirect that the code builds is one that the code accepts. If a message and a RelayState are
  turned into a signed redirect to a destination whose own query has none of the parameters of the
  binding, then every holder of a currently valid certificate of the signing key verifies the query,
  and the identity provider reads back exactly the message's bytes, when they are within its limit,
  and the RelayState, and treats the query as signed.
\<close>

theorem redirect_round_trip:
  assumes "redirectURLWithContext X rnd dest ''SAMLRequest'' msg rs (Some ctx) = Inr u"
    and "x_ParseURL X dest = Inr d" "redirectParameters (u_RawQuery d) = Inr []"
    and "ctx_Source ctx = FromSigner s chain" "signerMatches X s cert"
    and "cert \<in> set certs" "certValidAt now cert"
    and inflate: "x_Inflate X (x_Deflate X (x_WriteToBytes X msg)) = (x_WriteToBytes X msg, None)"
    and "length (x_WriteToBytes X msg) \<le> maxAuthnRequestSize"
  shows "verifyRedirectSignature X now (u_RawQuery u) ''SAMLRequest'' certs = Inr () \<and>
    readRedirectRequest X (u_RawQuery u) = Inr (x_WriteToBytes X msg, rs, u_RawQuery u)"
proof
  show "verifyRedirectSignature X now (u_RawQuery u) ''SAMLRequest'' certs = Inr ()"
    using built_query_verifies assms(1-7) by blast
  show "readRedirectRequest X (u_RawQuery u) = Inr (x_WriteToBytes X msg, rs, u_RawQuery u)"
    using built_query_reads [OF assms(1-3) inflate assms(9)] .
qed

theorem redirect_round_trip_witness:
  "verifyRedirectSignature exampleX 5 (u_RawQuery exampleRedirect) ''SAMLRequest'' [exampleCert ''key''] = Inr () \<and>
   readRedirectRequest exampleX (u_RawQuery exampleRedirect) =
     Inr (''AuthnRequest'', ''state'', u_RawQuery exampleRedirect)"
  using redirect_round_trip [OF exampleRedirect_built exampleRedirect_dest(1) _ _ exampleSigner_matches,
      of "[''key'']" "[exampleCert ''key'']" 5] exampleRedirect_dest(2) exampleCert_valid
  by (simp add: exampleContext_def exampleX_def maxAuthnRequestSize_def)

text \<open>
  C11. Reading is bounded. Whatever the compressed data and however the reads are scheduled, the request
  that is read has at most 16384 bytes and is the whole of the inflated data; data that inflates to more
  is refused. Read to the end without the limited reader, inflated data is still cut off at 10 MiB.
\<close>

theorem redirect_read_bounded:
  "(readRedirectRequest X q = Inr (buf, rs, sq) \<longrightarrow> length buf \<le> 16384 \<and>
     (\<exists>c. base64Decode (valuesGet (ParseQuery q) ''SAMLRequest'') = Inr c \<and> x_Inflate X c = (buf, None))) \<and>
   (readAll sched 0 (newSaferFlateReader X data) [] = Inr out \<longrightarrow>
     x_Inflate X data = (out, None) \<and> length out \<le> 10485760)"
proof
  show "readRedirectRequest X q = Inr (buf, rs, sq) \<longrightarrow> length buf \<le> 16384 \<and>
     (\<exists>c. base64Decode (valuesGet (ParseQuery q) ''SAMLRequest'') = Inr c \<and> x_Inflate X c = (buf, None))"
    unfolding readRedirectRequest_Inr by (auto simp: maxAuthnRequestSize_def)
  show "readAll sched 0 (newSaferFlateReader X data) [] = Inr out \<longrightarrow>
     x_Inflate X data = (out, None) \<and> length out \<le> 10485760"
    using readAll_Inr [of sched 0 "newSaferFlateReader X data" "[]" out]
    by (auto simp: newSaferFlateReader_def prod_eq_iff flateUncompressLimit_def)
qed


theorem redirect_read_bounded_witness:
  "length ''AuthnRequest'' \<le> 16384 \<and>
   (\<exists>c. base64Decode (valuesGet (ParseQuery (u_RawQuery exampleRedirect)) ''SAMLRequest'') = Inr c \<and>
     x_Inflate exampleX c = (''AuthnRequest'', None)) \<and>
   x_Inflate exampleX ''Dabc'' = (''abc'', None) \<and> length ''abc'' \<le> 10485760"
proof -
  have "readAll (\<lambda>_. (511, 99, False)) 0 (newSaferFlateReader exampleX ''Dabc'') [] = Inr ''abc''"
    by (subst readAll.simps) (simp add: limitRead_def saferRead_def flateRead_def newSaferFlateReader_def
        exampleX_def flateUncompressLimit_def)
  with redirect_read_bounded [of exampleX "u_RawQuery exampleRedirect" "''AuthnRequest''" "''state''"
      "u_RawQuery exampleRedirect" "\<lambda>_. (511, 99, False)" "''Dabc''" "''abc''"] exampleRedirect_read
  show ?thesis by blast
qed

end
