(* ===== verification/Xml_Enc.thy ===== *)
theory Xml_Enc
  imports Xml_Access
begin

text \<open>
  The package \<^verbatim>\<open>xmlenc\<close>: encryption of an element's content with a block cipher in CBC or GCM mode under
  a key that is itself encrypted with RSA, and the decryption that the elements themselves select. The block
  ciphers, GCM and RSA are external; CBC chaining, padding, the XML and the choice of algorithms are modelled. The
  bytes read from \<^verbatim>\<open>RandReader\<close> are arguments.
\<close>

section \<open>Text of an element\<close>

text \<open>\<^verbatim>\<open>strings.TrimSpace\<close>: the UTF-8 encodings of the space characters.\<close>

definition spaceEncodings :: "string list" where
  "spaceEncodings = map (map char_of)
     [[9::nat], [10], [11], [12], [13], [32], [0xC2, 0x85], [0xC2, 0xA0], [0xE1, 0x9A, 0x80],
      [0xE2, 0x80, 0x80], [0xE2, 0x80, 0x81], [0xE2, 0x80, 0x82], [0xE2, 0x80, 0x83], [0xE2, 0x80, 0x84],
      [0xE2, 0x80, 0x85], [0xE2, 0x80, 0x86], [0xE2, 0x80, 0x87], [0xE2, 0x80, 0x88], [0xE2, 0x80, 0x89],
      [0xE2, 0x80, 0x8A], [0xE2, 0x80, 0xA8], [0xE2, 0x80, 0xA9], [0xE2, 0x80, 0xAF], [0xE2, 0x81, 0x9F],
      [0xE3, 0x80, 0x80]]"

function trimLeading :: "string list \<Rightarrow> string \<Rightarrow> string" where
  "trimLeading encs s =
     (case find (\<lambda>e. e \<noteq> [] \<and> take (length e) s = e) encs of
        None \<Rightarrow> s | Some e \<Rightarrow> trimLeading encs (drop (length e) s))"
  by pat_completeness auto
termination
proof (relation "measure (\<lambda>(_, s). length s)")
  fix encs :: "string list" and s e
  assume "find (\<lambda>e. e \<noteq> [] \<and> take (length e) s = e) encs = Some e"
  then have "e \<noteq> []" "take (length e) s = e" by (auto dest: find_Some_in)
  then show "((encs, drop (length e) s), (encs, s)) \<in> measure (\<lambda>(_, s). length s)" by (cases s) auto
qed simp

declare trimLeading.simps [simp del]

definition TrimSpace :: "string \<Rightarrow> string" where
  "TrimSpace s = rev (trimLeading (map rev spaceEncodings) (rev (trimLeading spaceEncodings s)))"

section \<open>Keys and methods\<close>

text \<open>A key, \<^verbatim>\<open>interface{}\<close>: bytes, a private key of the library, or anything else.\<close>

datatype enc_key = KeyBytes string | KeyRSA string public_key | KeyOther

definition signerKey :: "signer option \<Rightarrow> enc_key" where
  "signerKey sg =
     (case sg of
        Some s \<Rightarrow> if sg_Native s \<and> isRSA (sg_Public s) then KeyRSA (sg_Key s) (sg_Public s) else KeyOther
      | None \<Rightarrow> KeyOther)"

text \<open>The types \<^verbatim>\<open>CBC\<close> and \<^verbatim>\<open>GCM\<close>, which implement \<^verbatim>\<open>BlockCipher\<close>.\<close>

datatype BlockCipher =
    CBC (bc_keySize: nat) (bc_algorithm: string) (bc_cipher: block_cipher)
  | GCM (bc_keySize: nat) (bc_algorithm: string) (bc_cipher: block_cipher)

definition AES128CBC :: BlockCipher where
  "AES128CBC = CBC 16 ''http://www.w3.org/2001/04/xmlenc#aes128-cbc'' AES"
definition AES192CBC :: BlockCipher where
  "AES192CBC = CBC 24 ''http://www.w3.org/2001/04/xmlenc#aes192-cbc'' AES"
definition AES256CBC :: BlockCipher where
  "AES256CBC = CBC 32 ''http://www.w3.org/2001/04/xmlenc#aes256-cbc'' AES"
definition TripleDESCBC :: BlockCipher where
  "TripleDESCBC = CBC 24 ''http://www.w3.org/2001/04/xmlenc#tripledes-cbc'' TripleDES"
definition AES128GCM :: BlockCipher where
  "AES128GCM = GCM 16 ''http://www.w3.org/2009/xmlenc11#aes128-gcm'' AES"

lemmas block_cipher_defs = AES128CBC_def AES192CBC_def AES256CBC_def TripleDESCBC_def AES128GCM_def

definition BlockSize :: "block_cipher \<Rightarrow> nat" where
  "BlockSize c = (case c of AES \<Rightarrow> 16 | TripleDES \<Rightarrow> 8)"

record digestMethod =
  dm_algorithm :: string
  dm_hash :: oaep_hash

definition dmSHA1 :: digestMethod where
  "dmSHA1 = \<lparr>dm_algorithm = ''http://www.w3.org/2000/09/xmldsig#sha1'', dm_hash = OaepSHA1\<rparr>"
definition dmSHA256 :: digestMethod where
  "dmSHA256 = \<lparr>dm_algorithm = ''http://www.w3.org/2001/04/xmlenc#sha256'', dm_hash = OaepSHA256\<rparr>"
definition dmSHA512 :: digestMethod where
  "dmSHA512 = \<lparr>dm_algorithm = ''http://www.w3.org/2001/04/xmlenc#sha512'', dm_hash = OaepSHA512\<rparr>"
definition dmRIPEMD160 :: digestMethod where
  "dmRIPEMD160 = \<lparr>dm_algorithm = ''http://www.w3.org/2001/04/xmlenc#ripemd160'', dm_hash = OaepRIPEMD160\<rparr>"
definition dmLegacySHA256 :: digestMethod where
  "dmLegacySHA256 = \<lparr>dm_algorithm = ''http://www.w3.org/2000/09/xmldsig#sha256'', dm_hash = OaepSHA256\<rparr>"
definition dmLegacySHA512 :: digestMethod where
  "dmLegacySHA512 = \<lparr>dm_algorithm = ''http://www.w3.org/2000/09/xmldsig#sha512'', dm_hash = OaepSHA512\<rparr>"

lemmas digest_method_defs =
  dmSHA1_def dmSHA256_def dmSHA512_def dmRIPEMD160_def dmLegacySHA256_def dmLegacySHA512_def

text \<open>The type \<^verbatim>\<open>RSA\<close>; its two functions are those of OAEP or of PKCS #1 v1.5.\<close>

datatype rsa_padding = PadOAEP | PadPKCS1v15

record RSA =
  rsa_BlockCipher :: BlockCipher
  rsa_DigestMethod :: "digestMethod option"
  rsa_algorithm :: string
  rsa_padding :: rsa_padding

definition OAEP :: RSA where
  "OAEP = \<lparr>rsa_BlockCipher = AES256CBC, rsa_DigestMethod = Some dmSHA256,
     rsa_algorithm = ''http://www.w3.org/2001/04/xmlenc#rsa-oaep-mgf1p'', rsa_padding = PadOAEP\<rparr>"
definition OAEP_SHA256 :: RSA where
  "OAEP_SHA256 = \<lparr>rsa_BlockCipher = AES256CBC, rsa_DigestMethod = Some dmSHA256,
     rsa_algorithm = ''http://www.w3.org/2009/xmlenc11#rsa-oaep'', rsa_padding = PadOAEP\<rparr>"
definition OAEP_SHA512 :: RSA where
  "OAEP_SHA512 = \<lparr>rsa_BlockCipher = AES256CBC, rsa_DigestMethod = Some dmSHA512,
     rsa_algorithm = ''http://www.w3.org/2009/xmlenc11#rsa-oaep'', rsa_padding = PadOAEP\<rparr>"
definition PKCS1v15 :: RSA where
  "PKCS1v15 = \<lparr>rsa_BlockCipher = AES256CBC, rsa_DigestMethod = None,
     rsa_algorithm = ''http://www.w3.org/2001/04/xmlenc#rsa-1_5'', rsa_padding = PadPKCS1v15\<rparr>"

text \<open>The registries: the decrypters and digest methods by algorithm, and what the \<^verbatim>\<open>init\<close> functions put in
  them.\<close>

datatype Decrypter = DecBlock BlockCipher | DecRSA RSA

definition decrypterAlgorithm :: "Decrypter \<Rightarrow> string" where
  "decrypterAlgorithm d = (case d of DecBlock b \<Rightarrow> bc_algorithm b | DecRSA r \<Rightarrow> rsa_algorithm r)"

record registry =
  reg_decrypters :: "(string \<times> Decrypter) list"
  reg_digestMethods :: "(string \<times> digestMethod) list"

definition RegisterDecrypter :: "Decrypter \<Rightarrow> registry \<Rightarrow> registry" where
  "RegisterDecrypter d r = r\<lparr>reg_decrypters := (decrypterAlgorithm d, d) # reg_decrypters r\<rparr>"

definition RegisterDigestMethod :: "digestMethod \<Rightarrow> registry \<Rightarrow> registry" where
  "RegisterDigestMethod dm r = r\<lparr>reg_digestMethods := (dm_algorithm dm, dm) # reg_digestMethods r\<rparr>"

definition defaultRegistry :: registry where
  "defaultRegistry =
     fold RegisterDecrypter
       [DecBlock AES128CBC, DecBlock AES192CBC, DecBlock AES256CBC, DecBlock TripleDESCBC,
        DecBlock AES128GCM, DecRSA OAEP]
       (fold RegisterDigestMethod
         [dmSHA1, dmSHA256, dmSHA512, dmRIPEMD160, dmLegacySHA256, dmLegacySHA512]
         \<lparr>reg_decrypters = [], reg_digestMethods = []\<rparr>)"

section \<open>CBC mode\<close>

text \<open>\<^verbatim>\<open>appendPadding\<close> and \<^verbatim>\<open>stripPadding\<close>.\<close>

definition appendPadding :: "string \<Rightarrow> nat \<Rightarrow> string" where
  "appendPadding buf blockSize =
     (let paddingBytes = blockSize - length buf mod blockSize
      in buf @ (replicate paddingBytes (char_of (0::nat)))[paddingBytes - 1 := char_of paddingBytes])"

definition stripPadding :: "string \<Rightarrow> string result" where
  "stripPadding buf =
     (if length buf < 1 then Inl (Err ''buffer is too short for padding'')
      else let paddingBytes = byte (last buf) in
        if paddingBytes > length buf - 1 then Inl (Err ''buffer is too short for padding'')
        else if paddingBytes < 1 then Inl (Err ''padding must be at least one byte'')
        else Inr (take (length buf - paddingBytes) buf))"

fun xorChar :: "char \<Rightarrow> char \<Rightarrow> char" where
  "xorChar (Char a0 a1 a2 a3 a4 a5 a6 a7) (Char b0 b1 b2 b3 b4 b5 b6 b7) =
     Char (a0 \<noteq> b0) (a1 \<noteq> b1) (a2 \<noteq> b2) (a3 \<noteq> b3) (a4 \<noteq> b4) (a5 \<noteq> b5) (a6 \<noteq> b6) (a7 \<noteq> b7)"

definition xorBytes :: "string \<Rightarrow> string \<Rightarrow> string" where
  "xorBytes xs ys = map2 xorChar xs ys"

text \<open>\<^verbatim>\<open>cipher.NewCBCEncrypter\<close> and \<^verbatim>\<open>cipher.NewCBCDecrypter\<close> with \<^verbatim>\<open>CryptBlocks\<close>, on whole blocks.\<close>

function cbcEncrypt :: "(string \<Rightarrow> string) \<Rightarrow> nat \<Rightarrow> string \<Rightarrow> string \<Rightarrow> string" where
  "cbcEncrypt enc bs iv s =
     (if s = [] \<or> bs = 0 then []
      else let c = enc (xorBytes (take bs s) iv) in c @ cbcEncrypt enc bs c (drop bs s))"
  by pat_completeness auto
termination by (relation "measure (\<lambda>(_, _, _, s). length s)") auto

function cbcDecrypt :: "(string \<Rightarrow> string) \<Rightarrow> nat \<Rightarrow> string \<Rightarrow> string \<Rightarrow> string" where
  "cbcDecrypt dec bs iv s =
     (if s = [] \<or> bs = 0 then []
      else xorBytes (dec (take bs s)) iv @ cbcDecrypt dec bs (take bs s) (drop bs s))"
  by pat_completeness auto
termination by (relation "measure (\<lambda>(_, _, _, s). length s)") auto

declare cbcEncrypt.simps [simp del] cbcDecrypt.simps [simp del]

section \<open>Encryption\<close>

definition xencNS :: string where "xencNS = ''http://www.w3.org/2001/04/xmlenc#''"
definition xencDecl :: attr where "xencDecl = mkAttr ''xmlns'' ''xenc'' xencNS"
definition dsDecl :: attr where "dsDecl = mkAttr ''xmlns'' ''ds'' dsNamespace"

text \<open>\<^verbatim>\<open>fmt.Sprintf("_%x", randBuf)\<close>.\<close>

definition lowerhexDigit :: "nat \<Rightarrow> char" where
  "lowerhexDigit n = (if n < 10 then char_of (48 + n) else char_of (87 + n))"

definition hexLower :: "string \<Rightarrow> string" where
  "hexLower s = concat (map (\<lambda>c. [lowerhexDigit (byte c div 16), lowerhexDigit (byte c mod 16)]) s)"

definition cipherDataEl :: "string \<Rightarrow> element" where
  "cipherDataEl ciphertext =
     Element ''xenc'' ''CipherData'' [xencDecl]
       [Elem (Element ''xenc'' ''CipherValue'' [] (textTokens (base64Encode ciphertext)))]"

definition encryptionMethodEl :: "string \<Rightarrow> token list \<Rightarrow> element" where
  "encryptionMethodEl algorithm children =
     Element ''xenc'' ''EncryptionMethod'' [mkAttr [] ''Algorithm'' algorithm, xencDecl] children"

definition gcmNonceSize :: nat where "gcmNonceSize = 12"
definition gcmOverhead :: nat where "gcmOverhead = 16"

text \<open>\<^verbatim>\<open>CBC.Encrypt\<close> and \<^verbatim>\<open>GCM.Encrypt\<close>: \<open>idRnd\<close> and \<open>ivRnd\<close> are the random bytes of the identifier and of
  the initialization vector or nonce; \<open>nonce\<close> is the caller's, nil for none. The constructors of the ciphers
  fail only on a key of another length, and that of GCM only on a cipher whose blocks are not 16 bytes.\<close>

definition cipherText :: "externs \<Rightarrow> BlockCipher \<Rightarrow> string \<Rightarrow> string \<Rightarrow> string \<Rightarrow> string option \<Rightarrow> string result" where
  "cipherText X b key plaintext ivRnd nonce =
     (case b of
        CBC _ _ c \<Rightarrow>
          Inr (ivRnd @ cbcEncrypt (x_BlockEncrypt X c key) (BlockSize c) ivRnd (appendPadding plaintext (BlockSize c)))
      | GCM _ _ c \<Rightarrow>
          if BlockSize c \<noteq> 16 then Inl (Err ''cipher: NewGCM requires 128-bit block cipher'')
          else let n = the_default ivRnd nonce in
            if length n \<noteq> gcmNonceSize then Inl (Err ''nonce must be %d bytes'')
            else Inr (n @ x_GcmSeal X key n plaintext))"

definition BlockCipher_Encrypt ::
  "externs \<Rightarrow> BlockCipher \<Rightarrow> enc_key \<Rightarrow> string \<Rightarrow> string option \<Rightarrow> string \<Rightarrow> string \<Rightarrow> element result" where
  "BlockCipher_Encrypt X b key plaintext nonce idRnd ivRnd =
     (case key of
        KeyBytes keyBuf \<Rightarrow>
          if length keyBuf \<noteq> bc_keySize b then Inl (Err ''expected key to be %d bytes'')
          else bindE (cipherText X b keyBuf plaintext ivRnd nonce) (\<lambda>ciphertext. Inr
            (Element ''xenc'' ''EncryptedData'' [xencDecl, mkAttr [] ''Id'' (CHR ''_'' # hexLower idRnd)]
              [Elem (encryptionMethodEl (bc_algorithm b) []), Elem (cipherDataEl ciphertext)]))
      | _ \<Rightarrow> Inl (Errorf ''expected key to be %s'' [''[]byte'']))"

text \<open>The random bytes that \<^verbatim>\<open>RSA.Encrypt\<close> reads, in order: the content key, the identifier of the
  EncryptedKey, those of the key encryption, the identifier of the EncryptedData, and the initialization vector.\<close>

record enc_random =
  er_Key :: string
  er_KeyId :: string
  er_Padding :: string
  er_Id :: string
  er_IV :: string

definition keyEncrypter :: "externs \<Rightarrow> RSA \<Rightarrow> string \<Rightarrow> string \<Rightarrow> string \<Rightarrow> string result" where
  "keyEncrypter X e rnd pub plaintext =
     (case rsa_padding e of
        PadPKCS1v15 \<Rightarrow> x_EncryptPKCS1v15 X rnd pub plaintext
      | PadOAEP \<Rightarrow>
          bindE (nonNil (rsa_DigestMethod e)) (\<lambda>dm. x_EncryptOAEP X (dm_hash dm) rnd pub plaintext))"

definition encryptedKeyEl :: "RSA \<Rightarrow> certificate \<Rightarrow> string \<Rightarrow> string \<Rightarrow> element" where
  "encryptedKeyEl e cert keyId buf =
     Element ''xenc'' ''EncryptedKey'' [mkAttr [] ''Id'' (CHR ''_'' # hexLower keyId), xencDecl]
       [Elem (encryptionMethodEl (rsa_algorithm e)
          (case rsa_DigestMethod e of
             None \<Rightarrow> []
           | Some dm \<Rightarrow> [Elem (Element ''ds'' ''DigestMethod'' [mkAttr [] ''Algorithm'' (dm_algorithm dm), dsDecl] [])])),
        Elem (Element ''ds'' ''KeyInfo'' [] [Elem (Element ''ds'' ''X509Data'' []
          [Elem (Element ''ds'' ''X509Certificate'' [] (textTokens (base64Encode (cert_Raw cert))))])]),
        Elem (cipherDataEl buf)]"

text \<open>\<^verbatim>\<open>RSA.Encrypt\<close>. The \<^verbatim>\<open>KeyInfo\<close> goes before the \<^verbatim>\<open>CipherData\<close>, the last child.\<close>

definition RSA_Encrypt ::
  "externs \<Rightarrow> RSA \<Rightarrow> certificate \<Rightarrow> string \<Rightarrow> string option \<Rightarrow> enc_random \<Rightarrow> element result" where
  "RSA_Encrypt X e cert plaintext nonce rnd =
     (case cert_PublicKey cert of
        RSA_Key pub \<Rightarrow>
          bindE (keyEncrypter X e (er_Padding rnd) pub (er_Key rnd)) (\<lambda>buf.
          bindE (BlockCipher_Encrypt X (rsa_BlockCipher e) (KeyBytes (er_Key rnd)) plaintext nonce (er_Id rnd) (er_IV rnd))
            (\<lambda>dataEl. Inr (setChild dataEl
              (butlast (el_Child dataEl)
               @ [Elem (Element ''ds'' ''KeyInfo'' [dsDecl] [Elem (encryptedKeyEl e cert (er_KeyId rnd) buf)]),
                  last (el_Child dataEl)]))))
      | _ \<Rightarrow> Inl (Errorf ''expected key to be %s'' [''x.509 certificate with an RSA public key'']))"

section \<open>Decryption\<close>

definition getCiphertext :: "element \<Rightarrow> string result" where
  "getCiphertext encryptedKey =
     (case FindElement encryptedKey [''CipherData'', ''CipherValue''] of
        None \<Rightarrow> Inl (Err ''cannot find CipherData element containing a CipherValue element'')
      | Some el \<Rightarrow> base64Decode (TrimSpace (elementText (el_Child el))))"

definition validateRSAKeyIfPresent :: "externs \<Rightarrow> enc_key \<Rightarrow> element \<Rightarrow> string result" where
  "validateRSAKeyIfPresent X key encryptedKey =
     (case key of
        KeyRSA priv pub \<Rightarrow>
          (case FindElement encryptedKey [''KeyInfo'', ''X509Data'', ''X509Certificate''] of
             None \<Rightarrow> Inr priv
           | Some el \<Rightarrow>
               (case x_PemCertificate X (elementText (el_Child el)) of
                  None \<Rightarrow> Inl (Err ''invalid certificate'')
                | Some der \<Rightarrow>
                    bindE (x_ParseCertificate X der) (\<lambda>cert.
                      if \<not> isRSA (cert_PublicKey cert) then Inl (Err ''expected certificate to be an *rsa.PublicKey'')
                      else if pub \<noteq> cert_PublicKey cert then Inl (Err ''certificate does not match provided key'')
                      else Inr priv)))
      | _ \<Rightarrow> Inl (Err ''expected key to be a *rsa.PrivateKey''))"

definition notImplemented :: "string \<Rightarrow> error" where
  "notImplemented algorithm = Errorf ''algorithm is not implemented: %s'' [algorithm]"

definition RSA_Decrypt :: "externs \<Rightarrow> registry \<Rightarrow> RSA \<Rightarrow> enc_key \<Rightarrow> element \<Rightarrow> string result" where
  "RSA_Decrypt X reg e key ciphertextEl =
     bindE (validateRSAKeyIfPresent X key ciphertextEl) (\<lambda>priv.
     bindE (getCiphertext ciphertextEl) (\<lambda>ciphertext.
     bindE
       (case FindElement ciphertextEl [''EncryptionMethod'', ''DigestMethod''] of
          None \<Rightarrow> Inr dmSHA1
        | Some el \<Rightarrow>
            let algorithm = SelectAttrValue el ''Algorithm'' [] in
            (case map_of (reg_digestMethods reg) algorithm of
               None \<Rightarrow> Inl (notImplemented algorithm) | Some dm \<Rightarrow> Inr dm))
       (\<lambda>dm. case rsa_padding e of
          PadOAEP \<Rightarrow> x_DecryptOAEP X (dm_hash dm) priv ciphertext
        | PadPKCS1v15 \<Rightarrow> x_DecryptPKCS1v15 X priv ciphertext)))"

text \<open>The part of \<^verbatim>\<open>CBC.Decrypt\<close> and \<^verbatim>\<open>GCM.Decrypt\<close> after the key has been decrypted.\<close>

definition openCiphertext :: "externs \<Rightarrow> BlockCipher \<Rightarrow> string \<Rightarrow> string \<Rightarrow> string result" where
  "openCiphertext X b key ciphertext =
     (case b of
        CBC _ _ c \<Rightarrow>
          let bs = BlockSize c in
          if length ciphertext < bs then Inl (Err ''ciphertext too short'')
          else if length ciphertext mod bs \<noteq> 0 then Inl (Err ''ciphertext is not a whole number of blocks'')
          else stripPadding (cbcDecrypt (x_BlockDecrypt X c key) bs (take bs ciphertext) (drop bs ciphertext))
      | GCM _ _ c \<Rightarrow>
          if length ciphertext < gcmNonceSize + gcmOverhead then Inl (Err ''ciphertext too short'')
          else x_GcmOpen X key (take gcmNonceSize ciphertext) (drop gcmNonceSize ciphertext))"

definition BlockCipher_Open :: "externs \<Rightarrow> BlockCipher \<Rightarrow> enc_key \<Rightarrow> element \<Rightarrow> string result" where
  "BlockCipher_Open X b key ciphertextEl =
     (case key of
        KeyBytes keyBuf \<Rightarrow>
          if length keyBuf \<noteq> bc_keySize b then Inl (Err ''expected key to be %d bytes'')
          else if (case b of CBC _ _ _ \<Rightarrow> False | GCM _ _ c \<Rightarrow> BlockSize c \<noteq> 16)
          then Inl (Err ''cipher: NewGCM requires 128-bit block cipher'')
          else bindE (getCiphertext ciphertextEl) (openCiphertext X b keyBuf)
      | _ \<Rightarrow> Inl (Errorf ''expected key to be %s'' [''[]byte'']))"

lemma findPath_smaller: "c \<in> set (findPath el tags) \<Longrightarrow> size c \<le> size el"
proof (induction el tags arbitrary: c rule: findPath.induct)
  case (2 el tag tags)
  then obtain d where d: "d \<in> set (ChildElements el)" "el_Tag d = tag" "c \<in> set (findPath d tags)" by auto
  with "2.IH" [of d c] size_child_elements [of d el] show ?case by auto
qed simp

lemma FindElement_in: "FindElement el tags = Some c \<Longrightarrow> c \<in> set (findPath el tags)"
  by (cases "findPath el tags") (auto simp: FindElement_def)

lemma FindElement_smaller:
  assumes "FindElement el (tag # tags) = Some c"
  shows "size c < size el"
proof -
  from FindElement_in [OF assms] have "c \<in> set (findPath el (tag # tags))" .
  then obtain d where d: "d \<in> set (ChildElements el)" "c \<in> set (findPath d tags)" by auto
  with findPath_smaller [OF d(2)] size_child_elements [OF d(1)] show ?thesis by simp
qed

text \<open>\<^verbatim>\<open>Decrypt\<close>: the decrypter that the element names. A block cipher first decrypts the key, if the element has an
  encrypted one.\<close>

function Decrypt :: "externs \<Rightarrow> registry \<Rightarrow> enc_key \<Rightarrow> element \<Rightarrow> string result" where
  "Decrypt X reg key ciphertextEl =
     (case FindElement ciphertextEl [''EncryptionMethod''] of
        None \<Rightarrow> Inl (Errorf ''cannot find required element: %s'' [''EncryptionMethod''])
      | Some em \<Rightarrow>
          let algorithm = SelectAttrValue em ''Algorithm'' [] in
          (case map_of (reg_decrypters reg) algorithm of
             None \<Rightarrow> Inl (notImplemented algorithm)
           | Some (DecRSA e) \<Rightarrow> RSA_Decrypt X reg e key ciphertextEl
           | Some (DecBlock b) \<Rightarrow>
               (case FindElement ciphertextEl [''KeyInfo'', ''EncryptedKey''] of
                  None \<Rightarrow> BlockCipher_Open X b key ciphertextEl
                | Some keyEl \<Rightarrow>
                    bindE (Decrypt X reg key keyEl) (\<lambda>k. BlockCipher_Open X b (KeyBytes k) ciphertextEl))))"
  by pat_completeness auto
termination
  by (relation "measure (\<lambda>(_, _, _, el). size el)") (auto intro: FindElement_smaller)

declare Decrypt.simps [simp del]

section \<open>Round trips\<close>

lemma xorChar_cancel [simp]: "xorChar (xorChar a b) b = a"
  by (cases a; cases b) auto

lemma length_xorBytes [simp]: "length (xorBytes xs ys) = min (length xs) (length ys)"
  by (simp add: xorBytes_def)

lemma xorBytes_cancel: "length xs = length ys \<Longrightarrow> xorBytes (xorBytes xs ys) ys = xs"
  unfolding xorBytes_def by (induction xs ys rule: list_induct2) auto

lemma length_appendPadding:
  "0 < bs \<Longrightarrow> bs dvd length (appendPadding buf bs) \<and> length buf < length (appendPadding buf bs)"
proof -
  assume bs: "0 < bs"
  have "length buf mod bs < bs" using bs by simp
  moreover have "length (appendPadding buf bs) = length buf + (bs - length buf mod bs)"
    by (simp add: appendPadding_def Let_def)
  ultimately have "length (appendPadding buf bs) = length buf div bs * bs + bs"
    using div_mult_mod_eq [of "length buf" bs] by linarith
  moreover have "length buf < length buf div bs * bs + bs"
    using \<open>length buf mod bs < bs\<close> div_mult_mod_eq [of "length buf" bs] by linarith
  ultimately show ?thesis by simp
qed

text \<open>\<^verbatim>\<open>stripPadding\<close> takes back the padding of any content but the empty one, whose padding is the whole
  buffer.\<close>

lemma stripPadding_appendPadding:
  assumes "0 < bs" "bs < 256" "buf \<noteq> []"
  shows "stripPadding (appendPadding buf bs) = Inr buf"
proof -
  define k where "k = bs - length buf mod bs"
  have k: "0 < k" "k < 256" using assms by (auto simp: k_def less_imp_diff_less)
  let ?pad = "(replicate k (char_of (0::nat)))[k - 1 := char_of k]"
  have app: "appendPadding buf bs = buf @ ?pad" by (simp add: appendPadding_def k_def Let_def)
  have "?pad \<noteq> []" using k by simp
  moreover have "last ?pad = char_of k" using k by (simp add: last_list_update)
  ultimately have "last (buf @ ?pad) = char_of k" by (simp only: last_append if_False)
  moreover have "0 < length buf" using assms(3) by simp
  ultimately show ?thesis unfolding app using k by (simp add: stripPadding_def Let_def del: length_greater_0_conv)
qed

lemma cbc_round_trip:
  assumes enc: "\<And>b. length b = bs \<Longrightarrow> length (enc b) = bs \<and> dec (enc b) = b"
  shows "length iv = bs \<Longrightarrow> bs dvd length s \<Longrightarrow>
    cbcDecrypt dec bs iv (cbcEncrypt enc bs iv s) = s \<and> length (cbcEncrypt enc bs iv s) = length s"
proof (induction "length s" arbitrary: iv s rule: less_induct)
  case less
  show ?case
  proof (cases "s = [] \<or> bs = 0")
    case True
    with less.prems show ?thesis by (auto simp: cbcEncrypt.simps cbcDecrypt.simps)
  next
    case False
    then have "bs \<le> length s" using less.prems(2) by (auto intro: dvd_imp_le)
    then have len: "length (xorBytes (take bs s) iv) = bs" using less.prems by simp
    let ?c = "enc (xorBytes (take bs s) iv)" and ?r = "drop bs s"
    have c: "length ?c = bs" "dec ?c = xorBytes (take bs s) iv" using enc [OF len] by auto
    have "bs dvd length ?r" using less.prems(2) \<open>bs \<le> length s\<close> by (simp add: dvd_diff_nat)
    then have ih: "cbcDecrypt dec bs ?c (cbcEncrypt enc bs ?c ?r) = ?r"
        "length (cbcEncrypt enc bs ?c ?r) = length ?r"
      using less.hyps [of ?r ?c] c False by auto
    have e: "cbcEncrypt enc bs iv s = ?c @ cbcEncrypt enc bs ?c ?r"
      using False by (simp add: cbcEncrypt.simps [of enc bs iv s] Let_def)
    have ne: "?c @ cbcEncrypt enc bs ?c ?r \<noteq> []" "bs \<noteq> 0" using c False by auto
    have "cbcDecrypt dec bs iv (?c @ cbcEncrypt enc bs ?c ?r)
        = xorBytes (dec ?c) iv @ cbcDecrypt dec bs ?c (cbcEncrypt enc bs ?c ?r)"
      using ne c(1) by (subst cbcDecrypt.simps) (simp del: append_is_Nil_conv)
    also have "\<dots> = s" using c(2) ih(1) less.prems(1) \<open>bs \<le> length s\<close> by (simp add: xorBytes_cancel)
    finally show ?thesis using ih(2) c(1) \<open>bs \<le> length s\<close> unfolding e by simp
  qed
qed

text \<open>Space is not trimmed from base 64 text, which has none.\<close>

lemma trimLeading_none:
  assumes "\<And>e. e \<in> set encs \<Longrightarrow> e \<noteq> [] \<and> hd e \<notin> set s"
  shows "trimLeading encs s = s"
proof -
  have "find (\<lambda>e. e \<noteq> [] \<and> take (length e) s = e) encs = None"
  proof (unfold find_None_all, intro ballI notI, elim conjE)
    fix e assume e: "e \<in> set encs" "e \<noteq> []" "take (length e) s = e"
    then have "hd e \<in> set s" by (metis hd_in_set in_set_takeD)
    with assms [OF e(1)] show False by simp
  qed
  then show ?thesis by (simp add: trimLeading.simps)
qed

lemma spaceEncodings_bytes:
  "e \<in> set spaceEncodings \<Longrightarrow> e \<noteq> [] \<and> \<not> (32 < byte (hd e) \<and> byte (hd e) < 128) \<and> \<not> (32 < byte (last e) \<and> byte (last e) < 128)"
  by (auto simp: spaceEncodings_def)

lemma TrimSpace_base64 [simp]: "TrimSpace (base64Encode s) = base64Encode s"
proof -
  have "trimLeading spaceEncodings (base64Encode s) = base64Encode s"
    using spaceEncodings_bytes base64Encode_printable by (intro trimLeading_none) blast
  moreover have "trimLeading (map rev spaceEncodings) (rev (base64Encode s)) = rev (base64Encode s)"
    using spaceEncodings_bytes base64Encode_printable by (intro trimLeading_none) (fastforce simp: hd_rev)
  ultimately show ?thesis by (simp add: TrimSpace_def)
qed

section \<open>Content ciphers\<close>

text \<open>What the RSA methods rely on of a block cipher: decrypting what it has encrypted under a key gives the
  content back. \<open>lawful\<close> is what has to hold of the external functions for that, \<open>content\<close> the content it
  holds for and \<open>ivSize\<close> the number of random bytes it reads.\<close>

locale content_cipher =
  fixes b :: BlockCipher
    and lawful :: "externs \<Rightarrow> bool"
    and content :: "string \<Rightarrow> bool"
    and ivSize :: nat
  assumes seal_open: "lawful X \<Longrightarrow> content plaintext \<Longrightarrow> length iv = ivSize \<Longrightarrow> length key = bc_keySize b \<Longrightarrow>
      \<exists>c. cipherText X b key plaintext iv None = Inr c \<and> openCiphertext X b key c = Inr plaintext"
    and gcm_block: "lawful X \<Longrightarrow> \<not> (case b of CBC _ _ _ \<Rightarrow> False | GCM _ _ c \<Rightarrow> BlockSize c \<noteq> 16)"
begin

lemma seal_element:
  assumes "lawful X" "content plaintext" "length iv = ivSize" "length key = bc_keySize b"
  shows "\<exists>c. BlockCipher_Encrypt X b (KeyBytes key) plaintext None idRnd iv =
      Inr (Element ''xenc'' ''EncryptedData'' [xencDecl, mkAttr [] ''Id'' (CHR ''_'' # hexLower idRnd)]
        [Elem (encryptionMethodEl (bc_algorithm b) []), Elem (cipherDataEl c)])
    \<and> openCiphertext X b key c = Inr plaintext"
  using seal_open [OF assms] assms(4) by (auto simp: BlockCipher_Encrypt_def)

lemma open_element:
  assumes "lawful X" "length key = bc_keySize b" "openCiphertext X b key c = Inr plaintext"
    "FindElement el [''CipherData'', ''CipherValue''] = FindElement (cipherDataEl c) [''CipherValue'']"
  shows "BlockCipher_Open X b (KeyBytes key) el = Inr plaintext"
  using assms gcm_block [OF assms(1)]
  by (auto simp: BlockCipher_Open_def getCiphertext_def FindElement_def cipherDataEl_def)

end

text \<open>The key sizes that the constructors of the ciphers accept, and the longest content that GCM seals.\<close>

definition cipherKeySizes :: "block_cipher \<Rightarrow> nat set" where
  "cipherKeySizes c = (case c of AES \<Rightarrow> {16, 24, 32} | TripleDES \<Rightarrow> {24})"

definition gcmMaxPlaintext :: nat where "gcmMaxPlaintext = (2 ^ 32 - 2) * 16"

definition lawfulBlocks :: "block_cipher \<Rightarrow> externs \<Rightarrow> bool" where
  "lawfulBlocks c X \<longleftrightarrow>
     (\<forall>key blk. length key \<in> cipherKeySizes c \<longrightarrow> length blk = BlockSize c \<longrightarrow>
        length (x_BlockEncrypt X c key blk) = BlockSize c \<and>
        x_BlockDecrypt X c key (x_BlockEncrypt X c key blk) = blk)"

definition lawfulGCM :: "externs \<Rightarrow> bool" where
  "lawfulGCM X \<longleftrightarrow>
     (\<forall>key n p. length key \<in> cipherKeySizes AES \<longrightarrow> length n = gcmNonceSize \<longrightarrow> length p \<le> gcmMaxPlaintext \<longrightarrow>
        length (x_GcmSeal X key n p) = length p + gcmOverhead \<and>
        x_GcmOpen X key n (x_GcmSeal X key n p) = Inr p)"

lemma BlockSize_bounds: "0 < BlockSize c \<and> BlockSize c < 256"
  by (cases c) (simp_all add: BlockSize_def)

interpretation cbc: content_cipher "CBC n alg c" "\<lambda>X. lawfulBlocks c X \<and> n \<in> cipherKeySizes c" "\<lambda>p. p \<noteq> []"
    "BlockSize c" for n alg c
proof (unfold_locales, goal_cases)
  case (1 X plaintext iv key)
  let ?bs = "BlockSize c" and ?enc = "x_BlockEncrypt X c key" and ?p = "appendPadding plaintext (BlockSize c)"
  have rt: "cbcDecrypt (x_BlockDecrypt X c key) ?bs iv (cbcEncrypt ?enc ?bs iv ?p) = ?p
      \<and> length (cbcEncrypt ?enc ?bs iv ?p) = length ?p"
    using 1 length_appendPadding [of ?bs plaintext] BlockSize_bounds [of c]
    by (intro cbc_round_trip) (auto simp: lawfulBlocks_def)
  have "?bs dvd length (iv @ cbcEncrypt ?enc ?bs iv ?p)"
    using rt 1 length_appendPadding [of ?bs plaintext] BlockSize_bounds [of c] by simp
  with rt 1 stripPadding_appendPadding [of ?bs plaintext] BlockSize_bounds [of c] show ?case
    by (auto simp: cipherText_def openCiphertext_def Let_def dvd_eq_mod_eq_0)
qed simp

interpretation gcm: content_cipher "GCM n alg AES" "\<lambda>X. lawfulGCM X \<and> n \<in> cipherKeySizes AES"
    "\<lambda>p. length p \<le> gcmMaxPlaintext" gcmNonceSize for n alg
  by unfold_locales
    (auto simp: cipherText_def openCiphertext_def lawfulGCM_def Let_def BlockSize_def)

section \<open>Encrypted keys\<close>

lemma defaultRegistry_decrypters:
  "map_of (reg_decrypters defaultRegistry) =
     map_of [(rsa_algorithm OAEP, DecRSA OAEP), (bc_algorithm AES128GCM, DecBlock AES128GCM),
       (bc_algorithm TripleDESCBC, DecBlock TripleDESCBC), (bc_algorithm AES256CBC, DecBlock AES256CBC),
       (bc_algorithm AES192CBC, DecBlock AES192CBC), (bc_algorithm AES128CBC, DecBlock AES128CBC)]"
  by (simp add: defaultRegistry_def RegisterDecrypter_def RegisterDigestMethod_def decrypterAlgorithm_def)

lemma OAEP_algorithm:
  "rsa_algorithm OAEP = ''http://www.w3.org/2001/04/xmlenc#rsa-oaep-mgf1p''" "rsa_padding OAEP = PadOAEP"
  by (simp_all add: OAEP_def)

lemma registered_ciphers:
  "map_of (reg_decrypters defaultRegistry) (bc_algorithm AES128CBC) = Some (DecBlock AES128CBC)"
  "map_of (reg_decrypters defaultRegistry) (bc_algorithm AES192CBC) = Some (DecBlock AES192CBC)"
  "map_of (reg_decrypters defaultRegistry) (bc_algorithm AES256CBC) = Some (DecBlock AES256CBC)"
  "map_of (reg_decrypters defaultRegistry) (bc_algorithm TripleDESCBC) = Some (DecBlock TripleDESCBC)"
  "map_of (reg_decrypters defaultRegistry) (bc_algorithm AES128GCM) = Some (DecBlock AES128GCM)"
  by (simp_all add: defaultRegistry_decrypters block_cipher_defs OAEP_algorithm)

text \<open>An RSA method whose keys the default registry can decrypt.\<close>

definition oaepMethod :: "RSA \<Rightarrow> bool" where
  "oaepMethod e \<longleftrightarrow> rsa_algorithm e = rsa_algorithm OAEP \<and> rsa_padding e = PadOAEP \<and>
     (\<exists>dm. rsa_DigestMethod e = Some dm \<and> map_of (reg_digestMethods defaultRegistry) (dm_algorithm dm) = Some dm)"

text \<open>The size of a digest, and the longest message that OAEP encrypts with a modulus of \<open>n\<close> bytes: two digests and
  two bytes less.\<close>

definition oaepDigestSize :: "oaep_hash \<Rightarrow> nat" where
  "oaepDigestSize h = (case h of OaepSHA1 \<Rightarrow> 20 | OaepSHA256 \<Rightarrow> 32 | OaepSHA512 \<Rightarrow> 64 | OaepRIPEMD160 \<Rightarrow> 20)"

definition fitsOAEP :: "nat \<Rightarrow> oaep_hash \<Rightarrow> nat \<Rightarrow> bool" where
  "fitsOAEP n h len \<longleftrightarrow> len + 2 * oaepDigestSize h + 2 \<le> n"

text \<open>A private key, with a modulus of \<open>n\<close> bytes, that decrypts what was encrypted to the certificate, whose DER bytes
  parse and whose base 64 form is a PEM body. Encryption reads one digest's length of random bytes.\<close>

definition decryptionPair :: "externs \<Rightarrow> nat \<Rightarrow> certificate \<Rightarrow> string \<Rightarrow> bool" where
  "decryptionPair X n cert priv \<longleftrightarrow>
     (\<exists>pub. cert_PublicKey cert = RSA_Key pub \<and>
        x_ParseCertificate X (cert_Raw cert) = Inr cert \<and>
        x_PemCertificate X (base64Encode (cert_Raw cert)) = Some (cert_Raw cert) \<and>
        (\<forall>h rnd m. fitsOAEP n h (length m) \<longrightarrow> length rnd = oaepDigestSize h \<longrightarrow>
           (\<exists>c. x_EncryptOAEP X h rnd pub m = Inr c \<and> x_DecryptOAEP X h priv c = Inr m)))"

lemma encryptionMethodEl_algorithm [simp]: "SelectAttrValue (encryptionMethodEl alg cs) ''Algorithm'' d = alg"
  by (simp add: encryptionMethodEl_def SelectAttrValue_def SelectAttr_def mkAttr_def)

lemma encryptedKey_decrypts:
  assumes e: "oaepMethod e" "rsa_DigestMethod e = Some dm"
    and cert: "decryptionPair X n cert priv"
    and dec: "x_DecryptOAEP X (dm_hash dm) priv buf = Inr key"
  shows "Decrypt X defaultRegistry (KeyRSA priv (cert_PublicKey cert)) (encryptedKeyEl e cert keyId buf) = Inr key"
proof -
  let ?el = "encryptedKeyEl e cert keyId buf" and ?k = "KeyRSA priv (cert_PublicKey cert)"
  have dm: "map_of (reg_digestMethods defaultRegistry) (dm_algorithm dm) = Some dm"
    and alg: "rsa_algorithm e = rsa_algorithm OAEP" using e by (auto simp: oaepMethod_def)
  have "FindElement ?el [''CipherData'', ''CipherValue''] = Some (Element ''xenc'' ''CipherValue'' [] (textTokens (base64Encode buf)))"
    by (simp add: FindElement_def encryptedKeyEl_def encryptionMethodEl_def cipherDataEl_def)
  then have ct: "getCiphertext ?el = Inr buf" by (simp add: getCiphertext_def)
  have "FindElement ?el [''KeyInfo'', ''X509Data'', ''X509Certificate'']
      = Some (Element ''ds'' ''X509Certificate'' [] (textTokens (base64Encode (cert_Raw cert))))"
    by (simp add: FindElement_def encryptedKeyEl_def encryptionMethodEl_def cipherDataEl_def)
  with cert have priv: "validateRSAKeyIfPresent X ?k ?el = Inr priv"
    by (auto simp: validateRSAKeyIfPresent_def decryptionPair_def isRSA_def)
  have dmEl: "FindElement ?el [''EncryptionMethod'', ''DigestMethod'']
      = Some (Element ''ds'' ''DigestMethod'' [mkAttr [] ''Algorithm'' (dm_algorithm dm), dsDecl] [])"
    by (simp add: FindElement_def encryptedKeyEl_def encryptionMethodEl_def cipherDataEl_def e(2))
  have rsa: "RSA_Decrypt X defaultRegistry OAEP ?k ?el = Inr key"
    using ct priv dec dm
    by (simp add: RSA_Decrypt_def dmEl SelectAttrValue_def SelectAttr_def mkAttr_def OAEP_algorithm)
  have "FindElement ?el [''EncryptionMethod''] = Some (encryptionMethodEl (rsa_algorithm OAEP)
      [Elem (Element ''ds'' ''DigestMethod'' [mkAttr [] ''Algorithm'' (dm_algorithm dm), dsDecl] [])])"
    by (simp add: FindElement_def encryptedKeyEl_def encryptionMethodEl_def cipherDataEl_def alg e(2))
  moreover have "map_of (reg_decrypters defaultRegistry) (rsa_algorithm OAEP) = Some (DecRSA OAEP)"
    by (simp add: defaultRegistry_decrypters)
  ultimately show ?thesis
    using rsa by (simp add: Decrypt.simps [of X defaultRegistry ?k ?el])
qed

context content_cipher
begin

text \<open>Content encrypted under a fresh key that is encrypted to a certificate.\<close>

lemma hybrid_round_trip:
  assumes "lawful X" "content plaintext" "oaepMethod e" "rsa_BlockCipher e = b"
    and reg: "map_of (reg_decrypters defaultRegistry) (bc_algorithm b) = Some (DecBlock b)"
    and cert: "decryptionPair X n cert priv" "rsa_DigestMethod e = Some dm" "fitsOAEP n (dm_hash dm) (bc_keySize b)"
    and rnd: "length (er_Key rnd) = bc_keySize b" "length (er_IV rnd) = ivSize"
      "length (er_Padding rnd) = oaepDigestSize (dm_hash dm)"
  shows "\<exists>el. RSA_Encrypt X e cert plaintext None rnd = Inr el \<and>
    Decrypt X defaultRegistry (KeyRSA priv (cert_PublicKey cert)) el = Inr plaintext"
proof -
  note dm = cert(2)
  obtain pub buf where pub: "cert_PublicKey cert = RSA_Key pub"
    and buf: "x_EncryptOAEP X (dm_hash dm) (er_Padding rnd) pub (er_Key rnd) = Inr buf"
      "x_DecryptOAEP X (dm_hash dm) priv buf = Inr (er_Key rnd)"
    using cert(1,3) rnd(1,3) unfolding decryptionPair_def by metis
  obtain c where c: "BlockCipher_Encrypt X b (KeyBytes (er_Key rnd)) plaintext None (er_Id rnd) (er_IV rnd) =
      Inr (Element ''xenc'' ''EncryptedData'' [xencDecl, mkAttr [] ''Id'' (CHR ''_'' # hexLower (er_Id rnd))]
        [Elem (encryptionMethodEl (bc_algorithm b) []), Elem (cipherDataEl c)])"
      "openCiphertext X b (er_Key rnd) c = Inr plaintext"
    using seal_element [OF assms(1,2) rnd(2,1)] by blast
  let ?ek = "encryptedKeyEl e cert (er_KeyId rnd) buf"
  let ?el = "Element ''xenc'' ''EncryptedData'' [xencDecl, mkAttr [] ''Id'' (CHR ''_'' # hexLower (er_Id rnd))]
        [Elem (encryptionMethodEl (bc_algorithm b) []), Elem (Element ''ds'' ''KeyInfo'' [dsDecl] [Elem ?ek]),
         Elem (cipherDataEl c)]"
  have enc: "RSA_Encrypt X e cert plaintext None rnd = Inr ?el"
    using assms(3) pub buf(1) c(1) dm assms(4)
    by (simp add: RSA_Encrypt_def keyEncrypter_def oaepMethod_def nonNil_def setChild_def)
  have ek: "FindElement ?el [''KeyInfo'', ''EncryptedKey''] = Some ?ek"
    by (simp add: FindElement_def encryptedKeyEl_def encryptionMethodEl_def cipherDataEl_def)
  have "BlockCipher_Open X b (KeyBytes (er_Key rnd)) ?el = Inr plaintext"
    by (rule open_element [OF assms(1) rnd(1) c(2)])
      (simp add: FindElement_def encryptionMethodEl_def cipherDataEl_def)
  moreover have "FindElement ?el [''EncryptionMethod''] = Some (encryptionMethodEl (bc_algorithm b) [])"
    by (simp add: FindElement_def encryptionMethodEl_def cipherDataEl_def)
  ultimately have "Decrypt X defaultRegistry (KeyRSA priv (cert_PublicKey cert)) ?el = Inr plaintext"
    using reg ek encryptedKey_decrypts [OF assms(3) dm cert(1) buf(2), of "er_KeyId rnd"]
    by (simp add: Decrypt.simps [of X defaultRegistry _ ?el])
  with enc show ?thesis by blast
qed

end

section \<open>Properties\<close>

text \<open>The number of random bytes that a block cipher reads for its initialization vector or nonce.\<close>

definition ivLength :: "BlockCipher \<Rightarrow> nat" where
  "ivLength b = (case b of CBC _ _ c \<Rightarrow> BlockSize c | GCM _ _ _ \<Rightarrow> gcmNonceSize)"

text \<open>
  C6. Encryption round trip. For each of the five block ciphers, content that is not empty and not longer than GCM
  allows, encrypted with an RSA-OAEP method to a certificate, is returned by Decrypt, with the decrypters that are
  registered by default and the private key of the certificate: the elements written name the algorithms that read
  them back. The modulus of the key is large enough for OAEP with the digest and the cipher's key.
\<close>

theorem encryption_round_trip:
  assumes "b \<in> {AES128CBC, AES192CBC, AES256CBC, TripleDESCBC, AES128GCM}"
    and "lawfulBlocks (bc_cipher b) X" "lawfulGCM X" "plaintext \<noteq> []" "length plaintext \<le> gcmMaxPlaintext"
    and "oaepMethod e" "rsa_BlockCipher e = b" "decryptionPair X n cert priv"
    and "rsa_DigestMethod e = Some dm" "fitsOAEP n (dm_hash dm) (bc_keySize b)"
    and "length (er_Key rnd) = bc_keySize b" "length (er_IV rnd) = ivLength b"
    and "length (er_Padding rnd) = oaepDigestSize (dm_hash dm)"
  shows "\<exists>el. RSA_Encrypt X e cert plaintext None rnd = Inr el \<and>
    Decrypt X defaultRegistry (KeyRSA priv (cert_PublicKey cert)) el = Inr plaintext"
proof -
  have reg: "map_of (reg_decrypters defaultRegistry) (bc_algorithm b) = Some (DecBlock b)"
    using assms(1) registered_ciphers by blast
  have keys: "bc_keySize b \<in> cipherKeySizes (bc_cipher b)"
    using assms(1) by (auto simp: block_cipher_defs cipherKeySizes_def)
  show ?thesis
  proof (cases b)
    case (CBC k alg c)
    with assms reg keys show ?thesis
      by (intro cbc.hybrid_round_trip [where n = n and dm = dm]) (auto simp: ivLength_def)
  next
    case (GCM k alg c)
    then have "c = AES" using assms(1) by (auto simp: block_cipher_defs)
    with GCM assms reg keys show ?thesis
      by (intro gcm.hybrid_round_trip [where n = n and dm = dm]) (auto simp: ivLength_def)
  qed
qed

theorem encryption_round_trip_witness:
  "\<exists>el. RSA_Encrypt exampleX (OAEP\<lparr>rsa_BlockCipher := AES128CBC, rsa_DigestMethod := Some dmSHA1\<rparr>)
       (exampleCert ''cert'') ''<a/>'' None
       \<lparr>er_Key = replicate 16 CHR ''k'', er_KeyId = [], er_Padding = replicate 20 CHR ''p'', er_Id = [],
        er_IV = replicate 16 CHR ''i''\<rparr> = Inr el
     \<and> Decrypt exampleX defaultRegistry (KeyRSA ''priv'' (cert_PublicKey (exampleCert ''cert''))) el = Inr ''<a/>''"
proof -
  have "oaepMethod (OAEP\<lparr>rsa_BlockCipher := AES128CBC, rsa_DigestMethod := Some dmSHA1\<rparr>)"
    by (simp add: oaepMethod_def OAEP_def defaultRegistry_def RegisterDecrypter_def RegisterDigestMethod_def
        digest_method_defs)
  moreover have "decryptionPair exampleX 256 (exampleCert ''cert'') ''priv''"
    by (simp add: decryptionPair_def exampleCert_def)
  moreover have "lawfulBlocks AES exampleX" "lawfulGCM exampleX"
    by (simp_all add: lawfulBlocks_def lawfulGCM_def gcmOverhead_def)
  moreover have "bc_cipher AES128CBC = AES" "bc_keySize AES128CBC = 16" "ivLength AES128CBC = 16"
    by (simp_all add: AES128CBC_def ivLength_def BlockSize_def)
  ultimately show ?thesis
    by (intro encryption_round_trip [where b = AES128CBC and n = 256 and dm = dmSHA1])
      (simp_all add: gcmMaxPlaintext_def fitsOAEP_def oaepDigestSize_def digest_method_defs)
qed

lemma BlockCipher_Open_PKCS1v15 [simp]:
  "BlockCipher_Open (X\<lparr>x_DecryptPKCS1v15 := f\<rparr>) b key el = BlockCipher_Open X b key el"
proof -
  have "openCiphertext (X\<lparr>x_DecryptPKCS1v15 := f\<rparr>) b k = openCiphertext X b k" for k
    by (rule ext) (simp add: openCiphertext_def Let_def split: BlockCipher.split)
  then show ?thesis by (simp add: BlockCipher_Open_def split: enc_key.split)
qed

lemma RSA_Decrypt_OAEP_PKCS1v15 [simp]:
  "RSA_Decrypt (X\<lparr>x_DecryptPKCS1v15 := f\<rparr>) reg OAEP key el = RSA_Decrypt X reg OAEP key el"
proof -
  have "validateRSAKeyIfPresent (X\<lparr>x_DecryptPKCS1v15 := f\<rparr>) key el = validateRSAKeyIfPresent X key el"
    by (simp add: validateRSAKeyIfPresent_def split: enc_key.split option.split)
  then show ?thesis by (simp add: RSA_Decrypt_def OAEP_algorithm)
qed

lemma defaultRegistry_range:
  "map_of (reg_decrypters defaultRegistry) alg = Some (DecRSA e) \<Longrightarrow> e = OAEP"
  by (auto simp: defaultRegistry_decrypters split: if_splits)

text \<open>
  C7. No PKCS #1 v1.5 oracle by default. With the decrypters that are registered by default, what Decrypt
  returns does not depend on RSA decryption with PKCS #1 v1.5 padding, for any key and any element, however the
  element is nested: nothing about a key encrypted that way can be learnt from it.
\<close>

theorem decrypt_ignores_pkcs1v15:
  "Decrypt (X\<lparr>x_DecryptPKCS1v15 := f\<rparr>) defaultRegistry key el = Decrypt X defaultRegistry key el"
proof (induction "size el" arbitrary: el rule: less_induct)
  case less
  let ?X = "X\<lparr>x_DecryptPKCS1v15 := f\<rparr>"
  have "Decrypt ?X defaultRegistry key k = Decrypt X defaultRegistry key k"
    if "FindElement el [''KeyInfo'', ''EncryptedKey''] = Some k" for k
    using less.hyps FindElement_smaller [OF that] by blast
  then show ?case
    by (auto simp: Decrypt.simps [of ?X _ _ el] Decrypt.simps [of X _ _ el] Let_def
        split: option.splits Decrypter.splits dest!: defaultRegistry_range)
qed

text \<open>
  C10. Padding. With the block size of each of the ciphers, what appendPadding adds is what stripPadding takes
  away, for all content but the empty one: the padding of empty content is the whole buffer, which stripPadding
  refuses.
\<close>

theorem padding_round_trip:
  "stripPadding (appendPadding buf (BlockSize c)) =
   (if buf = [] then Inl (Err ''buffer is too short for padding'') else Inr buf)"
proof (cases "buf = []")
  case True
  then show ?thesis
    by (cases c) (simp_all add: stripPadding_def appendPadding_def BlockSize_def Let_def byte_def last_list_update)
next
  case False
  moreover have "0 < BlockSize c" "BlockSize c < 256" by (cases c; simp add: BlockSize_def)+
  ultimately show ?thesis by (simp add: stripPadding_appendPadding)
qed

end
