(* ===== verification/Sp_Config.thy ===== *)
theory Sp_Config
  imports Saml_Messages Redirect_Binding Xml_Enc
begin

text \<open>
  The service provider's configuration, its metadata, the certificates it trusts, and the requests and
  responses it makes: the first half of \<^verbatim>\<open>service_provider.go\<close>. A configured callback
  (\<^verbatim>\<open>SignatureVerifier\<close>, \<^verbatim>\<open>ValidateAudienceRestriction\<close>, \<^verbatim>\<open>ValidateRequestID\<close>) is a function in the
  record. \<open>now\<close> is what \<^verbatim>\<open>TimeNow\<close> returns; \<open>idRnd\<close> is what \<^verbatim>\<open>randomBytes\<close> returns and \<open>rnd\<close>
  what signing reads from the random source. Using a nil pointer is a panic.
\<close>

section \<open>The service provider\<close>

record ServiceProvider =
  sp_EntityID :: string
  sp_Key :: "signer option"
  sp_Certificate :: "certificate option"
  sp_Intermediates :: "certificate list"
  sp_MetadataURL :: url
  sp_AcsURL :: url
  sp_SloURL :: url
  sp_IDPMetadata :: "EntityDescriptor option"
  sp_IDPCertificateFingerprint :: "string option"
  sp_IDPCertificateFingerprintAlgorithm :: "string option"
  sp_IDPCertificate :: "string option"
  sp_AuthnNameIDFormat :: string
  sp_MetadataValidDuration :: duration
  sp_ForceAuthn :: "bool option"
  sp_RequestedAuthnContext :: "RequestedAuthnContext option"
  sp_AllowIDPInitiated :: bool
  sp_DefaultRedirectURI :: string
  sp_SignatureVerifier :: "(validation_context \<Rightarrow> element \<Rightarrow> unit result) option"
  sp_SignatureMethod :: string
  sp_LogoutBindings :: "string list"
  sp_ValidateAudienceRestriction :: "(Assertion \<Rightarrow> unit result) option"
  sp_ValidateRequestID :: "(Response \<Rightarrow> string list \<Rightarrow> unit result) option"

text \<open>The expression \<^verbatim>\<open>firstSet(sp.EntityID, sp.MetadataURL.String())\<close>, and the use of a field of
  \<^verbatim>\<open>sp.IDPMetadata\<close>.\<close>

definition spEntityID :: "ServiceProvider \<Rightarrow> string" where
  "spEntityID sp = firstSet (sp_EntityID sp) (urlString (sp_MetadataURL sp))"

definition idpMetadata :: "ServiceProvider \<Rightarrow> EntityDescriptor result" where
  "idpMetadata sp = (case sp_IDPMetadata sp of None \<Rightarrow> Inl (Panic ''nil IDPMetadata'') | Some md \<Rightarrow> Inr md)"

lemma idpMetadata_Inr [simp]: "idpMetadata sp = Inr md \<longleftrightarrow> sp_IDPMetadata sp = Some md"
  by (auto simp: idpMetadata_def split: option.splits)

section \<open>Metadata\<close>

text \<open>The algorithms that \<^verbatim>\<open>Metadata\<close> advertises for encryption.\<close>

definition spEncryptionMethods :: "string list" where
  "spEncryptionMethods =
     [''http://www.w3.org/2009/xmlenc11#aes128-gcm'',
      ''http://www.w3.org/2001/04/xmlenc#aes128-cbc'',
      ''http://www.w3.org/2001/04/xmlenc#aes192-cbc'',
      ''http://www.w3.org/2001/04/xmlenc#aes256-cbc'',
      ''http://www.w3.org/2001/04/xmlenc#rsa-oaep-mgf1p'']"

definition spKeyDescriptors :: "ServiceProvider \<Rightarrow> KeyDescriptor list" where
  "spKeyDescriptors sp =
     (case sp_Certificate sp of
        None \<Rightarrow> []
      | Some cert \<Rightarrow>
          let certData = base64Encode (cert_Raw cert @ concat (map cert_Raw (sp_Intermediates sp))) in
          (if isRSA (cert_PublicKey cert)
           then [\<lparr>kd_Use = ''encryption'', kd_X509Certificates = [certData],
                  kd_EncryptionMethods = spEncryptionMethods\<rparr>] else [])
          @ (if sp_SignatureMethod sp \<noteq> []
             then [\<lparr>kd_Use = ''signing'', kd_X509Certificates = [certData], kd_EncryptionMethods = []\<rparr>] else []))"

definition Metadata :: "ServiceProvider \<Rightarrow> time \<Rightarrow> EntityDescriptor" where
  "Metadata sp now =
     (let validDuration = (if sp_MetadataValidDuration sp > 0 then sp_MetadataValidDuration sp else DefaultValidDuration);
          validUntil = now + validDuration;
          slo = urlString (sp_SloURL sp);
          acs = urlString (sp_AcsURL sp)
      in \<lparr>ed_EntityID = spEntityID sp, ed_ID = [], ed_ValidUntil = validUntil, ed_CacheDuration = 0,
          ed_Signature = None, ed_RoleDescriptors = [], ed_IDPSSODescriptors = [],
          ed_SPSSODescriptors =
            [\<lparr>rd_ID = [], rd_ValidUntil = Some validUntil, rd_CacheDuration = [],
              rd_ProtocolSupportEnumeration = SAMLProtocolNS, rd_ErrorURL = [], rd_Signature = None,
              rd_KeyDescriptors = spKeyDescriptors sp, rd_Organization = None, rd_ContactPeople = [],
              sso_ArtifactResolutionServices = [],
              sso_SingleLogoutServices =
                map (\<lambda>binding. \<lparr>ep_Binding = binding, ep_Location = slo, ep_ResponseLocation = slo\<rparr>)
                  (sp_LogoutBindings sp),
              sso_ManageNameIDServices = [], sso_NameIDFormats = [sp_AuthnNameIDFormat sp],
              sps_AuthnRequestsSigned = Some (sp_SignatureMethod sp \<noteq> []),
              sps_WantAssertionsSigned = Some True,
              sps_AssertionConsumerServices =
                [\<lparr>iep_Binding = HTTPPostBinding, iep_Location = acs, iep_ResponseLocation = None,
                  iep_Index = 1, iep_IsDefault = None\<rparr>,
                 \<lparr>iep_Binding = HTTPArtifactBinding, iep_Location = acs, iep_ResponseLocation = None,
                  iep_Index = 2, iep_IsDefault = None\<rparr>],
              sps_AttributeConsumingServices = []\<rparr>],
          ed_AuthnAuthorityDescriptors = [], ed_AttributeAuthorityDescriptors = [], ed_PDPDescriptors = [], ed_AffiliationDescriptor = None,
          ed_Organization = None, ed_ContactPerson = None, ed_AdditionalMetadataLocations = []\<rparr>)"

text \<open>The loops over the endpoints of the identity provider return the first with the binding.\<close>

definition endpointLocation :: "Endpoint list \<Rightarrow> string \<Rightarrow> string" where
  "endpointLocation eps binding =
     (case find (\<lambda>e. ep_Binding e = binding) eps of None \<Rightarrow> [] | Some e \<Rightarrow> ep_Location e)"

definition GetSSOBindingLocation :: "ServiceProvider \<Rightarrow> string \<Rightarrow> string result" where
  "GetSSOBindingLocation sp binding =
     bindE (idpMetadata sp) (\<lambda>md.
       Inr (endpointLocation (concat (map idps_SingleSignOnServices (ed_IDPSSODescriptors md))) binding))"

text \<open>\<^verbatim>\<open>IDPSSODescriptor\<close> has a field \<^verbatim>\<open>ArtifactResolutionServices\<close> of its own, which hides the one of
  the struct it embeds.\<close>

definition GetArtifactBindingLocation :: "ServiceProvider \<Rightarrow> string \<Rightarrow> string result" where
  "GetArtifactBindingLocation sp binding =
     bindE (idpMetadata sp) (\<lambda>md.
       Inr (endpointLocation (concat (map idps_ArtifactResolutionServices (ed_IDPSSODescriptors md))) binding))"

definition GetSLOBindingLocation :: "ServiceProvider \<Rightarrow> string \<Rightarrow> string result" where
  "GetSLOBindingLocation sp binding =
     bindE (idpMetadata sp) (\<lambda>md.
       Inr (endpointLocation (concat (map sso_SingleLogoutServices (ed_IDPSSODescriptors md))) binding))"

section \<open>Trusted certificates\<close>

definition metadataSigningCerts :: "EntityDescriptor \<Rightarrow> string list" where
  "metadataSigningCerts md =
     concat (map (\<lambda>d. concat (map kd_X509Certificates
         (filter (\<lambda>kd. kd_Use kd = [] \<or> kd_Use kd = ''signing'') (rd_KeyDescriptors d))))
       (ed_IDPSSODescriptors md))"

definition getIDPSigningCerts :: "externs \<Rightarrow> ServiceProvider \<Rightarrow> certificate list result" where
  "getIDPSigningCerts X sp =
     bindE (idpMetadata sp) (\<lambda>md.
       let certStrs = metadataSigningCerts md in
       if certStrs = [] then Inl (Err ''cannot find any signing certificate in the IDP SSO descriptor'')
       else mapE (\<lambda>certStr.
         bindE (wrapE (Wrapf ''cannot parse certificate: %s'' []) (base64Decode (removeWhitespace certStr)))
           (x_ParseCertificate X)) certStrs)"

definition parseCert :: "externs \<Rightarrow> string \<Rightarrow> certificate result" where
  "parseCert X x509Data =
     bindE (wrapE (Wrapf ''parse cert, cannot base64 decode cert string: %w'' [])
         (base64Decode (removeWhitespace x509Data)))
       (\<lambda>certBytes. wrapE (Wrapf ''parse cert, cannot parse certificate: %w'' []) (x_ParseCertificate X certBytes))"

text \<open>\<^verbatim>\<open>%02X\<close> of a byte.\<close>

definition hexByte :: "char \<Rightarrow> string" where
  "hexByte c = [upperhex (byte c div 16), upperhex (byte c mod 16)]"

definition fingerprintFormat :: "string \<Rightarrow> string" where
  "fingerprintFormat fp = joinWith CHR '':'' (map hexByte fp)"

definition fingerprint :: "externs \<Rightarrow> certificate \<Rightarrow> string \<Rightarrow> string result" where
  "fingerprint X cert algorithm =
     (if algorithm = ''http://www.w3.org/2001/04/xmlenc#sha256''
      then Inr (fingerprintFormat (x_Hash X SHA256 (cert_Raw cert)))
      else if algorithm = ''http://www.w3.org/2001/04/xmlenc#sha512''
      then Inr (fingerprintFormat (x_Hash X SHA512 (cert_Raw cert)))
      else Inl (Errorf ''fingerprint, unknown algorithm: %s'' [algorithm]))"

definition certificatePath :: "string list" where
  "certificatePath = [''Signature'', ''KeyInfo'', ''X509Data'', ''X509Certificate'']"

text \<open>The caller has checked that the two fingerprint fields are set.\<close>

definition getCertBasedOnFingerprint ::
  "externs \<Rightarrow> string \<Rightarrow> string \<Rightarrow> element \<Rightarrow> certificate list result" where
  "getCertBasedOnFingerprint X algorithm expected el =
     (case FindElement el certificatePath of
        None \<Rightarrow> Inl (Errorf ''cannot validate signature on %s: no certificate present'' [el_Tag el])
      | Some certEl \<Rightarrow>
          (case el_Child certEl of
             [CharData d] \<Rightarrow>
               bindE (wrapE (Wrapf ''cannot validate signature on %s: %w'' [el_Tag el]) (parseCert X d)) (\<lambda>cert.
               bindE (wrapE (Wrapf ''cannot validate signature on %s: %w'' [el_Tag el]) (fingerprint X cert algorithm))
                 (\<lambda>finP.
                   if expected \<noteq> finP
                   then Inl (Errorf ''cannot validate signature on %s: fingerprint mismatch'' [el_Tag el])
                   else Inr [cert]))
           | [_] \<Rightarrow> Inl (Errorf ''cannot validate signature on %s: x509 cert el first child not char data: %T'' [el_Tag el])
           | _ \<Rightarrow> Inl (Errorf ''cannot validate signature on %s: x509 cert el child len != 1: %d'' [el_Tag el])))"

text \<open>\<^verbatim>\<open>redirectSigningCertificates\<close>; \<open>matchFingerprint\<close> is its loop.\<close>

fun matchFingerprint :: "externs \<Rightarrow> string \<Rightarrow> string \<Rightarrow> certificate list \<Rightarrow> certificate list result" where
  "matchFingerprint X algorithm expected [] = Inr []"
| "matchFingerprint X algorithm expected (c # cs) =
     bindE (wrapE (Wrapf ''cannot validate signature: %w'' []) (fingerprint X c algorithm)) (\<lambda>v.
       bindE (matchFingerprint X algorithm expected cs) (\<lambda>rest. Inr (if v = expected then c # rest else rest)))"

definition redirectSigningCertificates :: "externs \<Rightarrow> ServiceProvider \<Rightarrow> certificate list result" where
  "redirectSigningCertificates X sp =
     (if sp_IDPMetadata sp = None
      then Inl (Err ''cannot validate signature: identity provider metadata is not set'')
      else (case (sp_IDPCertificate sp, sp_IDPCertificateFingerprint sp, sp_IDPCertificateFingerprintAlgorithm sp) of
          (Some c, None, None) \<Rightarrow>
            bindE (wrapE (Wrapf ''cannot validate signature: %w'' []) (parseCert X c)) (\<lambda>cert. Inr [cert])
        | (None, None, None) \<Rightarrow> getIDPSigningCerts X sp
        | (None, Some expected, Some algorithm) \<Rightarrow>
            bindE (getIDPSigningCerts X sp) (\<lambda>certs.
              bindE (matchFingerprint X algorithm expected certs) (\<lambda>matching.
                if matching = [] then Inl (Err ''cannot validate signature: fingerprint mismatch'')
                else Inr matching))
        | _ \<Rightarrow> Inl (Err ''cannot validate signature: saml config not set up properly, specify either idp metadata url, fingerprints or actual certificate'')))"

section \<open>Signing\<close>

definition GetSigningContext :: "ServiceProvider \<Rightarrow> signing_context result" where
  "GetSigningContext sp =
     (case sp_Certificate sp of
        None \<Rightarrow> Inl (Panic ''nil Certificate'')
      | Some cert \<Rightarrow>
        let isKey = (\<lambda>p. case sp_Key sp of None \<Rightarrow> False | Some k \<Rightarrow> p (sg_Public k)); m = sp_SignatureMethod sp in
        bindE
          (if m \<in> set (map fst rsaMethods)
           then checkE (isKey isRSA) (Errorf ''signature method %s requires an RSA key, not %T'' [m])
           else if m \<in> set (map fst ecdsaMethods)
           then checkE (isKey isECDSA) (Errorf ''signature method %s requires an ECDSA key, not %T'' [m])
           else Inl (Errorf ''invalid signing method %s'' [m]))
          (\<lambda>_. bindE (NewSigningContext (sp_Key sp) [cert_Raw cert]) (\<lambda>ctx.
            SetSignatureMethod (ctx\<lparr>ctx_Canonicalizer := C14N10Exclusive canonicalizerPrefixList False\<rparr>) m)))"

text \<open>The common part of the \<^verbatim>\<open>Sign\<close> methods: the last child of the signed element.\<close>

definition spSignature :: "externs \<Rightarrow> string \<Rightarrow> ServiceProvider \<Rightarrow> element \<Rightarrow> element result" where
  "spSignature X rnd sp el =
     bindE (GetSigningContext sp) (\<lambda>ctx.
       bindE (SignEnveloped X rnd ctx ([], el)) (\<lambda>signed.
         case last (el_Child signed) of Elem sig \<Rightarrow> Inr sig | _ \<Rightarrow> Inl (Panic ''interface conversion'')))"

definition SignArtifactResolve :: "externs \<Rightarrow> string \<Rightarrow> ServiceProvider \<Rightarrow> ArtifactResolve \<Rightarrow> ArtifactResolve result" where
  "SignArtifactResolve X rnd sp req =
     bindE (spSignature X rnd sp (ArtifactResolve_Element req)) (\<lambda>sig. Inr (req\<lparr>ares_Signature := Some sig\<rparr>))"

definition SignAuthnRequest :: "externs \<Rightarrow> string \<Rightarrow> ServiceProvider \<Rightarrow> AuthnRequest \<Rightarrow> AuthnRequest result" where
  "SignAuthnRequest X rnd sp req =
     bindE (spSignature X rnd sp (AuthnRequest_Element req)) (\<lambda>sig. Inr (req\<lparr>areq_Signature := Some sig\<rparr>))"

definition SignLogoutRequest :: "externs \<Rightarrow> string \<Rightarrow> ServiceProvider \<Rightarrow> LogoutRequest \<Rightarrow> LogoutRequest result" where
  "SignLogoutRequest X rnd sp req =
     bindE (spSignature X rnd sp (LogoutRequest_Element req)) (\<lambda>sig. Inr (req\<lparr>lreq_Signature := Some sig\<rparr>))"

definition SignLogoutResponse :: "externs \<Rightarrow> string \<Rightarrow> ServiceProvider \<Rightarrow> LogoutResponse \<Rightarrow> LogoutResponse result" where
  "SignLogoutResponse X rnd sp resp =
     bindE (spSignature X rnd sp (LogoutResponse_Element resp)) (\<lambda>sig. Inr (resp\<lparr>lrsp_Signature := Some sig\<rparr>))"

section \<open>Making messages\<close>

text \<open>\<^verbatim>\<open>fmt.Sprintf("id-%x", randomBytes(20))\<close>.\<close>

definition randomID :: "string \<Rightarrow> string" where
  "randomID idRnd = ''id-'' @ hexLower idRnd"

text \<open>The issuer of the messages of an entity.\<close>

definition entityIssuer :: "string \<Rightarrow> Issuer" where
  "entityIssuer v = \<lparr>iss_NameQualifier = [], iss_SPNameQualifier = [], iss_Format = entityNameIDFormat,
     iss_SPProvidedID = [], iss_Value = v\<rparr>"

definition nameIDFormat :: "ServiceProvider \<Rightarrow> string" where
  "nameIDFormat sp =
     (if sp_AuthnNameIDFormat sp = [] then TransientNameIDFormat
      else if sp_AuthnNameIDFormat sp = UnspecifiedNameIDFormat then []
      else sp_AuthnNameIDFormat sp)"

definition MakeArtifactResolveRequest ::
  "externs \<Rightarrow> string \<Rightarrow> string \<Rightarrow> time \<Rightarrow> ServiceProvider \<Rightarrow> string \<Rightarrow> ArtifactResolve result" where
  "MakeArtifactResolveRequest X idRnd rnd now sp artifactID =
     (let req = \<lparr>ares_ID = randomID idRnd, ares_Version = ''2.0'', ares_IssueInstant = now,
                 ares_Issuer = Some (entityIssuer (spEntityID sp)), ares_Signature = None,
                 ares_Artifact = artifactID\<rparr>
      in if sp_SignatureMethod sp \<noteq> [] then SignArtifactResolve X rnd sp req else Inr req)"

definition MakeAuthenticationRequest ::
  "externs \<Rightarrow> string \<Rightarrow> string \<Rightarrow> time \<Rightarrow> ServiceProvider \<Rightarrow> string \<Rightarrow> string \<Rightarrow> string \<Rightarrow> AuthnRequest result" where
  "MakeAuthenticationRequest X idRnd rnd now sp idpURL binding resultBinding =
     (let req = zeroAuthnRequest\<lparr>areq_ACSURL := urlString (sp_AcsURL sp), areq_Destination := idpURL,
                  areq_ProtocolBinding := resultBinding, areq_ID := randomID idRnd, areq_IssueInstant := now,
                  areq_Version := ''2.0'', areq_Issuer := Some (entityIssuer (spEntityID sp)),
                  areq_NameIDPolicy := Some \<lparr>np_Format = Some (nameIDFormat sp), np_SPNameQualifier = None,
                    np_AllowCreate = Some True\<rparr>,
                  areq_ForceAuthn := sp_ForceAuthn sp,
                  areq_RequestedAuthnContext := sp_RequestedAuthnContext sp\<rparr>
      in if sp_SignatureMethod sp \<noteq> [] \<and> binding = HTTPPostBinding then SignAuthnRequest X rnd sp req else Inr req)"

definition MakeLogoutRequest ::
  "externs \<Rightarrow> string \<Rightarrow> string \<Rightarrow> time \<Rightarrow> ServiceProvider \<Rightarrow> string \<Rightarrow> string \<Rightarrow> LogoutRequest result" where
  "MakeLogoutRequest X idRnd rnd now sp idpURL nameID =
     bindE (idpMetadata sp) (\<lambda>md.
       let req = \<lparr>lreq_ID = randomID idRnd, lreq_Version = ''2.0'', lreq_IssueInstant = now,
                  lreq_NotOnOrAfter = None, lreq_Destination = idpURL,
                  lreq_Issuer = Some (entityIssuer (spEntityID sp)),
                  lreq_NameID = Some \<lparr>nid_NameQualifier = ed_EntityID md,
                    nid_SPNameQualifier = ed_EntityID (Metadata sp now), nid_Format = nameIDFormat sp,
                    nid_SPProvidedID = [], nid_Value = nameID\<rparr>,
                  lreq_Signature = None, lreq_SessionIndexes = []\<rparr>
       in if sp_SignatureMethod sp \<noteq> [] then SignLogoutRequest X rnd sp req else Inr req)"

definition MakeLogoutResponse ::
  "externs \<Rightarrow> string \<Rightarrow> string \<Rightarrow> time \<Rightarrow> ServiceProvider \<Rightarrow> string \<Rightarrow> string \<Rightarrow> LogoutResponse result" where
  "MakeLogoutResponse X idRnd rnd now sp idpURL logoutRequestID =
     (let resp = \<lparr>lrsp_ID = randomID idRnd, lrsp_InResponseTo = logoutRequestID, lrsp_Version = ''2.0'',
                  lrsp_IssueInstant = now, lrsp_Destination = idpURL, lrsp_Consent = [],
                  lrsp_Issuer = Some (entityIssuer (spEntityID sp)), lrsp_Signature = None,
                  lrsp_Status = \<lparr>st_StatusCode = StatusCode StatusSuccess None, st_StatusMessage = None,
                    st_StatusDetail = None\<rparr>\<rparr>
      in if sp_SignatureMethod sp \<noteq> [] then SignLogoutResponse X rnd sp resp else Inr resp)"

section \<open>The redirect binding\<close>

text \<open>\<^verbatim>\<open>redirectURL\<close>; the service provider is a pointer that may be nil.\<close>

definition redirectURL ::
  "externs \<Rightarrow> string \<Rightarrow> string \<Rightarrow> string \<Rightarrow> element \<Rightarrow> string \<Rightarrow> ServiceProvider option \<Rightarrow> url result" where
  "redirectURL X rnd destination parameter message relayState spOpt =
     bindE (case spOpt of
              Some sp \<Rightarrow> if sp_SignatureMethod sp \<noteq> [] then bindE (GetSigningContext sp) (\<lambda>ctx. Inr (Some ctx)) else Inr None
            | None \<Rightarrow> Inr None)
       (redirectURLWithContext X rnd destination parameter message relayState)"

definition AuthnRequest_Redirect ::
  "externs \<Rightarrow> string \<Rightarrow> AuthnRequest \<Rightarrow> string \<Rightarrow> ServiceProvider option \<Rightarrow> url result" where
  "AuthnRequest_Redirect X rnd r relayState sp =
     redirectURL X rnd (areq_Destination r) ''SAMLRequest'' (AuthnRequest_Element r) relayState sp"

definition LogoutRequest_Redirect ::
  "externs \<Rightarrow> string \<Rightarrow> LogoutRequest \<Rightarrow> string \<Rightarrow> ServiceProvider option \<Rightarrow> url result" where
  "LogoutRequest_Redirect X rnd r relayState sp =
     redirectURL X rnd (lreq_Destination r) ''SAMLRequest''
       (LogoutRequest_Element (r\<lparr>lreq_Signature := None\<rparr>)) relayState sp"

definition LogoutResponse_Redirect ::
  "externs \<Rightarrow> string \<Rightarrow> LogoutResponse \<Rightarrow> string \<Rightarrow> ServiceProvider option \<Rightarrow> url result" where
  "LogoutResponse_Redirect X rnd r relayState sp =
     redirectURL X rnd (lrsp_Destination r) ''SAMLResponse''
       (LogoutResponse_Element (r\<lparr>lrsp_Signature := None\<rparr>)) relayState sp"

definition MakeRedirectAuthenticationRequest ::
  "externs \<Rightarrow> string \<Rightarrow> string \<Rightarrow> time \<Rightarrow> ServiceProvider \<Rightarrow> string \<Rightarrow> url result" where
  "MakeRedirectAuthenticationRequest X idRnd rnd now sp relayState =
     bindE (GetSSOBindingLocation sp HTTPRedirectBinding) (\<lambda>loc.
       bindE (MakeAuthenticationRequest X idRnd rnd now sp loc HTTPRedirectBinding HTTPPostBinding) (\<lambda>req.
         AuthnRequest_Redirect X rnd req relayState (Some sp)))"

definition MakeRedirectLogoutRequest ::
  "externs \<Rightarrow> string \<Rightarrow> string \<Rightarrow> time \<Rightarrow> ServiceProvider \<Rightarrow> string \<Rightarrow> string \<Rightarrow> url result" where
  "MakeRedirectLogoutRequest X idRnd rnd now sp nameID relayState =
     bindE (GetSLOBindingLocation sp HTTPRedirectBinding) (\<lambda>loc.
       bindE (MakeLogoutRequest X idRnd rnd now sp loc nameID) (\<lambda>req.
         LogoutRequest_Redirect X rnd req relayState (Some sp)))"

definition MakeRedirectLogoutResponse ::
  "externs \<Rightarrow> string \<Rightarrow> string \<Rightarrow> time \<Rightarrow> ServiceProvider \<Rightarrow> string \<Rightarrow> string \<Rightarrow> url result" where
  "MakeRedirectLogoutResponse X idRnd rnd now sp logoutRequestID relayState =
     bindE (GetSLOBindingLocation sp HTTPRedirectBinding) (\<lambda>loc.
       bindE (MakeLogoutResponse X idRnd rnd now sp loc logoutRequestID) (\<lambda>resp.
         LogoutResponse_Redirect X rnd resp relayState (Some sp)))"

text \<open>\<^verbatim>\<open>AssertionAttributes.Get\<close>.\<close>

record AssertionAttribute =
  aa_FriendlyName :: string
  aa_Name :: string
  aa_Value :: string

fun AssertionAttributes_Get :: "AssertionAttribute list \<Rightarrow> string \<Rightarrow> AssertionAttribute option" where
  "AssertionAttributes_Get [] name = None"
| "AssertionAttributes_Get (attr # aa) name =
     (if aa_Name attr = name then Some attr
      else if aa_FriendlyName attr = name then Some attr
      else AssertionAttributes_Get aa name)"

text \<open>A name is looked up among the names and the friendly names at once: an earlier attribute with that friendly name
  hides a later one with that name.\<close>

lemma AssertionAttributes_Get_find:
  "AssertionAttributes_Get aa name = find (\<lambda>a. aa_Name a = name \<or> aa_FriendlyName a = name) aa"
  by (induction aa) auto

section \<open>The POST binding\<close>

text \<open>The HTML form that the \<^verbatim>\<open>Post\<close> methods render: where it is sent, the name and value of the field
  with the message, and the RelayState field. How \<^verbatim>\<open>html/template\<close> renders it is not modelled.\<close>

record PostForm =
  pf_URL :: string
  pf_Parameter :: string
  pf_Message :: string
  pf_RelayState :: string

definition postForm :: "externs \<Rightarrow> string \<Rightarrow> string \<Rightarrow> element \<Rightarrow> string \<Rightarrow> PostForm" where
  "postForm X destination parameter el relayState =
     \<lparr>pf_URL = destination, pf_Parameter = parameter, pf_Message = base64Encode (x_WriteToBytes X el),
      pf_RelayState = relayState\<rparr>"

definition AuthnRequest_Post :: "externs \<Rightarrow> AuthnRequest \<Rightarrow> string \<Rightarrow> PostForm" where
  "AuthnRequest_Post X r relayState = postForm X (areq_Destination r) ''SAMLRequest'' (AuthnRequest_Element r) relayState"

definition LogoutRequest_Post :: "externs \<Rightarrow> LogoutRequest \<Rightarrow> string \<Rightarrow> PostForm" where
  "LogoutRequest_Post X r relayState = postForm X (lreq_Destination r) ''SAMLRequest'' (LogoutRequest_Element r) relayState"

definition LogoutResponse_Post :: "externs \<Rightarrow> LogoutResponse \<Rightarrow> string \<Rightarrow> PostForm" where
  "LogoutResponse_Post X r relayState = postForm X (lrsp_Destination r) ''SAMLResponse'' (LogoutResponse_Element r) relayState"

definition MakePostAuthenticationRequest ::
  "externs \<Rightarrow> string \<Rightarrow> string \<Rightarrow> time \<Rightarrow> ServiceProvider \<Rightarrow> string \<Rightarrow> PostForm result" where
  "MakePostAuthenticationRequest X idRnd rnd now sp relayState =
     bindE (GetSSOBindingLocation sp HTTPPostBinding) (\<lambda>loc.
       bindE (MakeAuthenticationRequest X idRnd rnd now sp loc HTTPPostBinding HTTPPostBinding) (\<lambda>req.
         Inr (AuthnRequest_Post X req relayState)))"

definition MakePostLogoutRequest ::
  "externs \<Rightarrow> string \<Rightarrow> string \<Rightarrow> time \<Rightarrow> ServiceProvider \<Rightarrow> string \<Rightarrow> string \<Rightarrow> PostForm result" where
  "MakePostLogoutRequest X idRnd rnd now sp nameID relayState =
     bindE (GetSLOBindingLocation sp HTTPPostBinding) (\<lambda>loc.
       bindE (MakeLogoutRequest X idRnd rnd now sp loc nameID) (\<lambda>req.
         Inr (LogoutRequest_Post X req relayState)))"

definition MakePostLogoutResponse ::
  "externs \<Rightarrow> string \<Rightarrow> string \<Rightarrow> time \<Rightarrow> ServiceProvider \<Rightarrow> string \<Rightarrow> string \<Rightarrow> PostForm result" where
  "MakePostLogoutResponse X idRnd rnd now sp logoutRequestID relayState =
     bindE (GetSLOBindingLocation sp HTTPPostBinding) (\<lambda>loc.
       bindE (MakeLogoutResponse X idRnd rnd now sp loc logoutRequestID) (\<lambda>resp.
         Inr (LogoutResponse_Post X resp relayState)))"

end
