(* ===== verification/Sp_Validation.thy ===== *)
theory Sp_Validation
  imports Sp_Config
begin

text \<open>
  How the service provider accepts a response: the second half of \<^verbatim>\<open>service_provider.go\<close>.
  \<open>now\<close> is what \<^verbatim>\<open>TimeNow\<close> returns and \<open>clk\<close> the time that the clock of the validation context
  shows. The root of a parsed document is given without ancestors: its parent, the document, has no
  attributes and so adds nothing to a namespace context.
\<close>

section \<open>Conditions of an assertion\<close>

definition validateRequestID :: "ServiceProvider \<Rightarrow> Response \<Rightarrow> string list \<Rightarrow> unit result" where
  "validateRequestID sp response possibleRequestIDs =
     (case sp_ValidateRequestID sp of
        Some f \<Rightarrow> f response possibleRequestIDs
      | None \<Rightarrow>
          let requestIDvalid =
                (if sp_AllowIDPInitiated sp \<and> resp_InResponseTo response = [] then True
                 else (\<exists>i \<in> set possibleRequestIDs. resp_InResponseTo response = i))
          in checkE requestIDvalid
               (Errorf ''`InResponseTo` does not match any of the possible request IDs (expected %v)'' possibleRequestIDs))"

definition validateBearerSubjectConfirmation ::
  "ServiceProvider \<Rightarrow> SubjectConfirmation \<Rightarrow> string list \<Rightarrow> time \<Rightarrow> unit result" where
  "validateBearerSubjectConfirmation sp confirmation possibleRequestIDs now =
     (case scf_Data confirmation of
        None \<Rightarrow> Inl (Err ''assertion SubjectConfirmation does not contain SubjectConfirmationData'')
      | Some d \<Rightarrow>
          if (\<not> sp_AllowIDPInitiated sp \<or> scd_InResponseTo d \<noteq> []) \<and> scd_InResponseTo d \<notin> set possibleRequestIDs
          then Inl (Errorf ''assertion SubjectConfirmation one of the possible request IDs (%v)'' possibleRequestIDs)
          else if scd_Recipient d \<noteq> urlString (sp_AcsURL sp)
          then Inl (Errorf ''assertion SubjectConfirmation Recipient is not %s'' [urlString (sp_AcsURL sp)])
          else if scd_NotOnOrAfter d + MaxClockSkew < now
          then Inl (Err ''assertion SubjectConfirmationData is expired'')
          else Inr ())"

text \<open>The loop of \<^verbatim>\<open>validateSubjectConfirmations\<close>, with the failures so far. Two errors have the same
  text if they are the same.\<close>

fun bearerLoop ::
  "ServiceProvider \<Rightarrow> string list \<Rightarrow> time \<Rightarrow> error list \<Rightarrow> SubjectConfirmation list \<Rightarrow> error list option" where
  "bearerLoop sp ids now failures [] = Some failures"
| "bearerLoop sp ids now failures (c # cs) =
     (if scf_Method c \<noteq> bearerSubjectConfirmationMethod then bearerLoop sp ids now failures cs
      else (case validateBearerSubjectConfirmation sp c ids now of
              Inr _ \<Rightarrow> None
            | Inl e \<Rightarrow> bearerLoop sp ids now (if e \<in> set failures then failures else failures @ [e]) cs))"

definition noBearer :: error where
  "noBearer = Err ''assertion Subject does not contain a bearer SubjectConfirmation''"

definition validateSubjectConfirmations ::
  "ServiceProvider \<Rightarrow> Assertion \<Rightarrow> string list \<Rightarrow> time \<Rightarrow> unit result" where
  "validateSubjectConfirmations sp assertion possibleRequestIDs now =
     (case asr_Subject assertion of
        None \<Rightarrow> Inl noBearer
      | Some subject \<Rightarrow>
          (case bearerLoop sp possibleRequestIDs now [] (subj_Confirmations subject) of
             None \<Rightarrow> Inr ()
           | Some failures \<Rightarrow> Inl (if failures = [] then noBearer else JoinedErrors failures)))"

definition validateAudienceRestriction :: "ServiceProvider \<Rightarrow> Assertion \<Rightarrow> unit result" where
  "validateAudienceRestriction sp assertion =
     (case sp_ValidateAudienceRestriction sp of
        Some f \<Rightarrow> wrapE (Wrapf ''audience restriction validation failed: %w'' []) (f assertion)
      | None \<Rightarrow>
          let restrictions = (case asr_Conditions assertion of None \<Rightarrow> [] | Some c \<Rightarrow> cond_AudienceRestrictions c);
              audience = spEntityID sp
          in if restrictions = [] then Inl (Err ''assertion Conditions does not contain an AudienceRestriction'')
             else checkE (\<forall>r \<in> set restrictions. \<exists>a \<in> set (ar_Audiences r). aud_Value a = audience)
                    (Errorf ''assertion Conditions AudienceRestriction does not contain %q'' [audience]))"

definition validateAssertion :: "ServiceProvider \<Rightarrow> Assertion \<Rightarrow> string list \<Rightarrow> time \<Rightarrow> unit result" where
  "validateAssertion sp assertion possibleRequestIDs now =
     (if asr_IssueInstant assertion + MaxIssueDelay < now then Inl (Err ''expired on %s'')
      else bindE (idpMetadata sp) (\<lambda>md.
        if iss_Value (asr_Issuer assertion) \<noteq> ed_EntityID md then Inl (Errorf ''issuer is not %q'' [ed_EntityID md])
        else bindE (validateSubjectConfirmations sp assertion possibleRequestIDs now) (\<lambda>_.
          bindE (case asr_Conditions assertion of
                   None \<Rightarrow> Inr ()
                 | Some c \<Rightarrow>
                     if cond_NotBefore c - MaxClockSkew > now then Inl (Err ''assertion Conditions is not yet valid'')
                     else if cond_NotOnOrAfter c + MaxClockSkew < now then Inl (Err ''assertion Conditions is expired'')
                     else Inr ()) (\<lambda>_.
            validateAudienceRestriction sp assertion))))"

section \<open>Signatures\<close>

text \<open>Removing the \<^verbatim>\<open>KeyInfo\<close> of the first signature: \<^verbatim>\<open>RemoveChild\<close> on the elements that
  \<^verbatim>\<open>FindElement\<close> finds, which changes the tree it is given.\<close>

fun removeFirstTag :: "string \<Rightarrow> token list \<Rightarrow> token list" where
  "removeFirstTag tag [] = []"
| "removeFirstTag tag (Elem c # ts) = (if el_Tag c = tag then ts else Elem c # removeFirstTag tag ts)"
| "removeFirstTag tag (t # ts) = t # removeFirstTag tag ts"

fun updateFirstTag :: "string \<Rightarrow> (element \<Rightarrow> element) \<Rightarrow> token list \<Rightarrow> token list" where
  "updateFirstTag tag f [] = []"
| "updateFirstTag tag f (Elem c # ts) = (if el_Tag c = tag then Elem (f c) # ts else Elem c # updateFirstTag tag f ts)"
| "updateFirstTag tag f (t # ts) = t # updateFirstTag tag f ts"

definition dropKeyInfo :: "element \<Rightarrow> element" where
  "dropKeyInfo el =
     (if FindElement el certificatePath = None
      then setChild el (updateFirstTag ''Signature''
        (\<lambda>sig. setChild sig (removeFirstTag ''KeyInfo'' (el_Child sig))) (el_Child el))
      else el)"

text \<open>\<^verbatim>\<open>signatureValidationContext\<close>, on the element as \<open>dropKeyInfo\<close> leaves it. \<open>clk\<close> is the time that
  the clock of the context shows.\<close>

definition signatureValidationContext ::
  "time \<Rightarrow> certificate list \<Rightarrow> node \<Rightarrow> (validation_context \<times> element) result" where
  "signatureValidationContext clk certs nd =
     (let el = dropKeyInfo (snd nd) in
      wrapE (Wrapf ''cannot validate signature on %s: %v'' [el_Tag el])
        (bindE (NSBuildParentContext (fst nd)) (\<lambda>ctx.
         bindE (SubContext ctx el) (\<lambda>ctx.
         bindE (NSDetatch ctx defaultLimit el) (\<lambda>(_, detached).
           Inr ((NewDefaultValidationContext certs clk)\<lparr>vc_IdAttribute := ''ID''\<rparr>, detached))))))"

text \<open>The certificates that \<^verbatim>\<open>verifySignature\<close> trusts.\<close>

definition trustedCertificates :: "externs \<Rightarrow> ServiceProvider \<Rightarrow> element \<Rightarrow> certificate list result" where
  "trustedCertificates X sp el =
     bindE
       (case (sp_IDPMetadata sp, sp_IDPCertificateFingerprint sp, sp_IDPCertificateFingerprintAlgorithm sp,
              sp_IDPCertificate sp) of
          (Some _, None, None, None) \<Rightarrow>
            wrapE (Wrapf ''cannot validate signature on %s: %v'' [el_Tag el]) (getIDPSigningCerts X sp)
        | (Some _, Some expected, Some algorithm, None) \<Rightarrow>
            wrapE (Wrapf ''cannot validate signature on %s: %v'' [el_Tag el])
              (getCertBasedOnFingerprint X algorithm expected el)
        | (Some _, None, None, Some c) \<Rightarrow>
            bindE (wrapE (Wrapf ''cannot validate signature on %s: %w'' [el_Tag el]) (parseCert X c)) (\<lambda>cert. Inr [cert])
        | _ \<Rightarrow> Inr [])
       (\<lambda>certs. if certs = []
          then Inl (Errorf ''cannot validate signature on %s: saml config not set up properly, specify either idp metadata url, fingerprints or actual certificate'' [el_Tag el])
          else Inr certs)"

text \<open>\<^verbatim>\<open>verifySignature\<close>: the element as the call leaves it, and the content to use, which is nil if the
  validation returned nil.\<close>

definition verifySignature ::
  "externs \<Rightarrow> time \<Rightarrow> ServiceProvider \<Rightarrow> node \<Rightarrow> element \<times> node option result" where
  "verifySignature X clk sp nd =
     (let el = snd nd;
          before = bindE (findChild nd dsNamespace ''Signature'') (\<lambda>sigEl.
            if sigEl = None then Inl ErrSignatureElementNotPresent
            else trustedCertificates X sp el)
      in case before of
           Inl e \<Rightarrow> (el, Inl e)
         | Inr certs \<Rightarrow>
             (dropKeyInfo el,
              bindE (signatureValidationContext clk certs nd) (\<lambda>(vc, detached).
                case sp_SignatureVerifier sp of
                  Some verify \<Rightarrow> bindE (verify vc detached) (\<lambda>_. Inr (Some (fst nd, dropKeyInfo el)))
                | None \<Rightarrow>
                    bindE (wrapE (Wrapf ''cannot validate signature on %s: %v'' [el_Tag el]) (Validate X vc detached))
                      (\<lambda>v. Inr (map_option (\<lambda>verified. ([], verified)) v)))))"

section \<open>Decryption\<close>

definition decryptElement :: "externs \<Rightarrow> registry \<Rightarrow> ServiceProvider \<Rightarrow> node \<Rightarrow> element option result" where
  "decryptElement X reg sp encrypted =
     bindE (findOneChild encrypted xencNS ''EncryptedData'') (\<lambda>encryptedData.
     bindE
       (case FindElement (snd encrypted) [''EncryptedKey''] of
          None \<Rightarrow> Inr (signerKey (sp_Key sp))
        | Some keyEl \<Rightarrow>
            bindE (wrapE (Wrapf ''failed to decrypt key from response: %s'' [])
              (Decrypt X reg (signerKey (sp_Key sp)) keyEl)) (\<lambda>k. Inr (KeyBytes k)))
       (\<lambda>key.
     bindE (Decrypt X reg key (snd encryptedData)) (\<lambda>plaintext.
     bindE (wrapE (Wrapf ''plaintext response contains invalid XML: %s'' []) (x_XrvValidate X plaintext)) (\<lambda>_.
       wrapE (Wrapf ''cannot parse plaintext response %v'' []) (x_ReadFromBytes X plaintext)))))"

section \<open>Assertions and responses\<close>

datatype signatureRequirement = SignatureRequired | SignatureNotRequired

definition parseAssertion ::
  "externs \<Rightarrow> time \<Rightarrow> ServiceProvider \<Rightarrow> node \<Rightarrow> string list \<Rightarrow> time \<Rightarrow> signatureRequirement \<Rightarrow> Assertion result" where
  "parseAssertion X clk sp assertionNd possibleRequestIDs now required =
     bindE
       (case required of
          SignatureNotRequired \<Rightarrow> Inr assertionNd
        | SignatureRequired \<Rightarrow> bindE (snd (verifySignature X clk sp assertionNd)) nonNil)
       (\<lambda>nd. bindE (unmarshalElement X (x_UnmarshalAssertion X) nd) (\<lambda>assertion.
         bindE (validateAssertion sp assertion possibleRequestIDs now) (\<lambda>_. Inr assertion)))"

definition parseEncryptedAssertion ::
  "externs \<Rightarrow> registry \<Rightarrow> time \<Rightarrow> ServiceProvider \<Rightarrow> node \<Rightarrow> string list \<Rightarrow> time \<Rightarrow> signatureRequirement \<Rightarrow>
   Assertion result" where
  "parseEncryptedAssertion X reg clk sp encrypted possibleRequestIDs now required =
     bindE (wrapE (Wrapf ''failed to decrypt EncryptedAssertion: %v'' []) (decryptElement X reg sp encrypted)) (\<lambda>root.
     bindE (nonNil root) (\<lambda>el.
       parseAssertion X clk sp ([], el) possibleRequestIDs now required))"

text \<open>A loop of \<^verbatim>\<open>parseResponse\<close>: the errors and the assertions, each in order.\<close>

fun collectAssertions :: "(node \<Rightarrow> Assertion result) \<Rightarrow> node list \<Rightarrow> (error list \<times> Assertion list) result" where
  "collectAssertions parse [] = Inr ([], [])"
| "collectAssertions parse (nd # nds) =
     bindE (tryE (parse nd)) (\<lambda>r. bindE (collectAssertions parse nds) (\<lambda>(errs, asrs).
       Inr (case r of Inl e \<Rightarrow> (e # errs, asrs) | Inr a \<Rightarrow> (errs, a # asrs))))"

text \<open>The block of \<^verbatim>\<open>parseResponse\<close> that validates the attributes of the response.\<close>

definition validateResponseAttributes ::
  "ServiceProvider \<Rightarrow> Response \<Rightarrow> bool \<Rightarrow> string list \<Rightarrow> time \<Rightarrow> url \<Rightarrow> unit result" where
  "validateResponseAttributes sp response responseHasSignature possibleRequestIDs now currentURL =
     (if (responseHasSignature \<or> resp_Destination response \<noteq> []) \<and>
         resp_Destination response \<noteq> urlString currentURL \<and> resp_Destination response \<noteq> urlString (sp_AcsURL sp)
      then Inl (Errorf ''`Destination` does not match requested URL or AcsURL (destination %q, requested %q, acs %q)''
        [resp_Destination response, urlString currentURL, urlString (sp_AcsURL sp)])
      else bindE (validateRequestID sp response possibleRequestIDs) (\<lambda>_.
        if resp_IssueInstant response + MaxIssueDelay < now then Inl (Err ''response IssueInstant expired at %s'')
        else bindE
          (case resp_Issuer response of
             None \<Rightarrow> Inr ()
           | Some issuer \<Rightarrow> bindE (idpMetadata sp) (\<lambda>md.
               checkE (iss_Value issuer = ed_EntityID md)
                 (Errorf ''response Issuer does not match the IDP metadata (expected %q)'' [ed_EntityID md])))
          (\<lambda>_. let status = sc_Value (st_StatusCode (resp_Status response)) in
             checkE (status = StatusSuccess) (ErrBadStatus status))))"

definition parseResponse ::
  "externs \<Rightarrow> registry \<Rightarrow> time \<Rightarrow> ServiceProvider \<Rightarrow> node \<Rightarrow> string list \<Rightarrow> time \<Rightarrow> signatureRequirement \<Rightarrow> url \<Rightarrow>
   Assertion result" where
  "parseResponse X reg clk sp responseNd possibleRequestIDs now required currentURL =
     (case (case required of
              SignatureRequired \<Rightarrow> verifySignature X clk sp responseNd
            | SignatureNotRequired \<Rightarrow> (snd responseNd, Inr (Some responseNd))) of
        (el, verified) \<Rightarrow>
     bindE (tryE verified) (\<lambda>verified.
     let responseHasSignature = (required = SignatureRequired \<and> verified \<noteq> Inl ErrSignatureElementNotPresent) in
     bindE (case verified of Inr v \<Rightarrow> nonNil v | Inl _ \<Rightarrow> Inr (fst responseNd, el)) (\<lambda>nd.
     bindE (wrapE (Wrapf ''cannot unmarshal response: %v'' []) (unmarshalElement X (x_UnmarshalResponse X) nd)) (\<lambda>response.
     bindE (validateResponseAttributes sp response responseHasSignature possibleRequestIDs now currentURL) (\<lambda>_.
     bindE (case verified of
              Inr _ \<Rightarrow> Inr SignatureNotRequired
            | Inl e \<Rightarrow> if e = ErrSignatureElementNotPresent then Inr SignatureRequired else Inl e) (\<lambda>required.
     bindE (findChildren nd SAMLAssertionNS ''EncryptedAssertion'') (\<lambda>encryptedEls.
     bindE (collectAssertions (\<lambda>n. parseEncryptedAssertion X reg clk sp n possibleRequestIDs now required) encryptedEls)
       (\<lambda>(errs1, asrs1).
     bindE (findChildren nd SAMLAssertionNS ''Assertion'') (\<lambda>assertionEls.
     bindE (collectAssertions (\<lambda>n. parseAssertion X clk sp n possibleRequestIDs now required) assertionEls)
       (\<lambda>(errs2, asrs2).
         case asrs1 @ asrs2 of
           a # _ \<Rightarrow> Inr a
         | [] \<Rightarrow> (case errs1 @ errs2 of
                     e # _ \<Rightarrow> Inl e
                   | [] \<Rightarrow> Inl (Err ''expected at least one valid Assertion, none found''))))))))))))"

section \<open>Entry points\<close>

text \<open>The part that the entry points share: the bytes are validated and parsed to a document with a root.\<close>

definition ParseXMLResponse ::
  "externs \<Rightarrow> registry \<Rightarrow> time \<Rightarrow> ServiceProvider \<Rightarrow> string \<Rightarrow> string list \<Rightarrow> time \<Rightarrow> url \<Rightarrow> Assertion result" where
  "ParseXMLResponse X reg clk sp xml possibleRequestIDs now currentURL =
     wrapE (\<lambda>e. InvalidResponseError e xml now)
       (bindE (wrapE (Wrapf ''invalid xml: %s'' []) (x_XrvValidate X xml)) (\<lambda>_.
        bindE (x_ReadFromBytes X xml) (\<lambda>root.
          case root of
            None \<Rightarrow> Inl (Err ''invalid xml: no root'')
          | Some el \<Rightarrow> parseResponse X reg clk sp ([], el) possibleRequestIDs now SignatureRequired currentURL)))"

text \<open>\<^verbatim>\<open>parseResponseHTTP\<close>, on the form field \<^verbatim>\<open>SAMLResponse\<close>.\<close>

definition parseResponseHTTP ::
  "externs \<Rightarrow> registry \<Rightarrow> time \<Rightarrow> ServiceProvider \<Rightarrow> string \<Rightarrow> string list \<Rightarrow> time \<Rightarrow> url \<Rightarrow> Assertion result" where
  "parseResponseHTTP X reg clk sp field possibleRequestIDs now currentURL =
     bindE (wrapE (\<lambda>e. InvalidResponseError (Wrapf ''cannot parse base64: %s'' [] e) [] now) (base64Decode field))
       (\<lambda>raw. ParseXMLResponse X reg clk sp raw possibleRequestIDs now currentURL)"

definition soapNS :: string where "soapNS = ''http://schemas.xmlsoap.org/soap/envelope/''"

definition parseArtifactResponse ::
  "externs \<Rightarrow> registry \<Rightarrow> time \<Rightarrow> ServiceProvider \<Rightarrow> node \<Rightarrow> string list \<Rightarrow> string \<Rightarrow> time \<Rightarrow> url \<Rightarrow> Assertion result" where
  "parseArtifactResponse X reg clk sp artifactNd possibleRequestIDs artifactRequestID now currentURL =
     wrapE (\<lambda>e. InvalidResponseError e (elementToString X artifactNd) now)
       (case verifySignature X clk sp artifactNd of (el, verified) \<Rightarrow>
        bindE (tryE verified) (\<lambda>verified.
        bindE (case verified of Inr v \<Rightarrow> nonNil v | Inl _ \<Rightarrow> Inr (fst artifactNd, el)) (\<lambda>nd.
        bindE (unmarshalElement X (x_UnmarshalArtifactResponse X) nd) (\<lambda>response.
        bindE (checkE (arsp_InResponseTo response = artifactRequestID)
          (Errorf ''`InResponseTo` does not match the artifact request ID (expected %s)'' [artifactRequestID])) (\<lambda>_.
        if arsp_IssueInstant response + MaxIssueDelay < now then Inl (Err ''response IssueInstant expired at %s'')
        else bindE
          (case arsp_Issuer response of
             None \<Rightarrow> Inr ()
           | Some issuer \<Rightarrow> bindE (idpMetadata sp) (\<lambda>md.
               checkE (iss_Value issuer = ed_EntityID md)
                 (Errorf ''response Issuer does not match the IDP metadata (expected %q)'' [ed_EntityID md]))) (\<lambda>_.
        let status = sc_Value (st_StatusCode (arsp_Status response)) in
        bindE (checkE (status = StatusSuccess) (ErrBadStatus status)) (\<lambda>_.
        bindE (case verified of
                 Inr _ \<Rightarrow> Inr SignatureNotRequired
               | Inl e \<Rightarrow> if e = ErrSignatureElementNotPresent then Inr SignatureRequired else Inl e) (\<lambda>required.
        bindE (findOneChild nd SAMLProtocolNS ''Response'') (\<lambda>responseNd.
          parseResponse X reg clk sp responseNd possibleRequestIDs now required currentURL)))))))))"

definition ParseXMLArtifactResponse ::
  "externs \<Rightarrow> registry \<Rightarrow> time \<Rightarrow> ServiceProvider \<Rightarrow> string \<Rightarrow> string list \<Rightarrow> string \<Rightarrow> time \<Rightarrow> url \<Rightarrow> Assertion result" where
  "ParseXMLArtifactResponse X reg clk sp xml possibleRequestIDs artifactRequestID now currentURL =
     bindE
       (wrapE (\<lambda>e. InvalidResponseError e xml now)
         (bindE (wrapE (Wrapf ''invalid xml: %s'' []) (x_XrvValidate X xml)) (\<lambda>_.
          bindE (wrapE (Wrapf ''cannot unmarshal response: %s'' []) (x_ReadFromBytes X xml)) (\<lambda>root.
            case root of
              None \<Rightarrow> Inl (Err ''invalid xml: no root'')
            | Some el \<Rightarrow>
                if NamespaceURI ([], el) \<noteq> soapNS \<or> el_Tag el \<noteq> ''Envelope'' then Inl (Err ''expected a SOAP Envelope'')
                else bindE (findOneChild ([], el) soapNS ''Body'') (\<lambda>body.
                  findOneChild body SAMLProtocolNS ''ArtifactResponse'')))))
       (\<lambda>artifactNd. parseArtifactResponse X reg clk sp artifactNd possibleRequestIDs artifactRequestID now currentURL)"

section \<open>What an accepted assertion satisfies\<close>

text \<open>The contract of \<^verbatim>\<open>validateAssertion\<close>, without its order of checks and its errors.\<close>

definition confirmedBy :: "ServiceProvider \<Rightarrow> string list \<Rightarrow> time \<Rightarrow> SubjectConfirmation \<Rightarrow> bool" where
  "confirmedBy sp ids now c \<longleftrightarrow>
     scf_Method c = bearerSubjectConfirmationMethod \<and>
     (\<exists>d. scf_Data c = Some d \<and>
        (scd_InResponseTo d \<in> set ids \<or> sp_AllowIDPInitiated sp \<and> scd_InResponseTo d = []) \<and>
        scd_Recipient d = urlString (sp_AcsURL sp) \<and> now \<le> scd_NotOnOrAfter d + MaxClockSkew)"

definition audienceAccepted :: "ServiceProvider \<Rightarrow> Assertion \<Rightarrow> bool" where
  "audienceAccepted sp a \<longleftrightarrow>
     (case sp_ValidateAudienceRestriction sp of
        Some f \<Rightarrow> f a = Inr ()
      | None \<Rightarrow> (\<exists>c. asr_Conditions a = Some c \<and> cond_AudienceRestrictions c \<noteq> [] \<and>
          (\<forall>r \<in> set (cond_AudienceRestrictions c). spEntityID sp \<in> aud_Value ` set (ar_Audiences r))))"

definition acceptable :: "ServiceProvider \<Rightarrow> string list \<Rightarrow> time \<Rightarrow> Assertion \<Rightarrow> bool" where
  "acceptable sp ids now a \<longleftrightarrow>
     now \<le> asr_IssueInstant a + MaxIssueDelay \<and>
     (\<exists>md. sp_IDPMetadata sp = Some md \<and> iss_Value (asr_Issuer a) = ed_EntityID md) \<and>
     (\<exists>s. asr_Subject a = Some s \<and> (\<exists>c \<in> set (subj_Confirmations s). confirmedBy sp ids now c)) \<and>
     (\<forall>c. asr_Conditions a = Some c \<longrightarrow>
        cond_NotBefore c \<le> now + MaxClockSkew \<and> now \<le> cond_NotOnOrAfter c + MaxClockSkew) \<and>
     audienceAccepted sp a"

lemma validateBearer_Inr:
  "scf_Method c = bearerSubjectConfirmationMethod \<Longrightarrow>
   validateBearerSubjectConfirmation sp c ids now = Inr u \<longleftrightarrow> confirmedBy sp ids now c"
  by (cases "scf_Data c") (auto simp: validateBearerSubjectConfirmation_def confirmedBy_def)

lemma bearerLoop_None:
  "bearerLoop sp ids now failures cs = None \<longleftrightarrow> (\<exists>c \<in> set cs. confirmedBy sp ids now c)"
proof (induction cs arbitrary: failures)
  case (Cons c cs)
  show ?case
  proof (cases "scf_Method c = bearerSubjectConfirmationMethod")
    case True
    then show ?thesis
      using Cons validateBearer_Inr [OF True, of sp ids now]
      by (cases "validateBearerSubjectConfirmation sp c ids now") auto
  qed (auto simp: Cons confirmedBy_def)
qed simp

lemma validateSubjectConfirmations_Inr:
  "validateSubjectConfirmations sp a ids now = Inr u \<longleftrightarrow>
   (\<exists>s. asr_Subject a = Some s \<and> (\<exists>c \<in> set (subj_Confirmations s). confirmedBy sp ids now c))"
proof (cases "asr_Subject a")
  case (Some s)
  then show ?thesis
    using bearerLoop_None [of sp ids now "[]" "subj_Confirmations s"]
    by (cases "bearerLoop sp ids now [] (subj_Confirmations s)") (auto simp: validateSubjectConfirmations_def)
qed (simp add: validateSubjectConfirmations_def)

lemma validateAudienceRestriction_Inr:
  "validateAudienceRestriction sp a = Inr u \<longleftrightarrow> audienceAccepted sp a"
proof -
  have eq: "e \<in> aud_Value ` A \<longleftrightarrow> (\<exists>x \<in> A. aud_Value x = e)" for e A by auto
  show ?thesis
    by (cases "sp_ValidateAudienceRestriction sp"; cases "asr_Conditions a")
      (auto simp: validateAudienceRestriction_def audienceAccepted_def Let_def eq)
qed

lemma validateAssertion_Inr: "validateAssertion sp a ids now = Inr u \<longleftrightarrow> acceptable sp ids now a"
proof -
  have "(case asr_Conditions a of None \<Rightarrow> Inr ()
      | Some c \<Rightarrow> if cond_NotBefore c - MaxClockSkew > now then Inl (Err ''assertion Conditions is not yet valid'')
          else if cond_NotOnOrAfter c + MaxClockSkew < now then Inl (Err ''assertion Conditions is expired'')
          else Inr ()) = Inr u \<longleftrightarrow>
    (\<forall>c. asr_Conditions a = Some c \<longrightarrow>
        cond_NotBefore c \<le> now + MaxClockSkew \<and> now \<le> cond_NotOnOrAfter c + MaxClockSkew)" for u
    by (cases "asr_Conditions a") auto
  then show ?thesis
    by (auto simp: validateAssertion_def acceptable_def validateSubjectConfirmations_Inr
        validateAudienceRestriction_Inr)
qed

text \<open>Where the content of an assertion comes from: a node that holds it, possibly encrypted.\<close>

definition assertionOf :: "externs \<Rightarrow> node \<Rightarrow> Assertion \<Rightarrow> bool" where
  "assertionOf X nd a \<longleftrightarrow> unmarshalElement X (x_UnmarshalAssertion X) nd = Inr a"

definition responseHolds :: "externs \<Rightarrow> registry \<Rightarrow> ServiceProvider \<Rightarrow> node \<Rightarrow> (node \<Rightarrow> bool) \<Rightarrow> bool" where
  "responseHolds X reg sp nd P \<longleftrightarrow>
     (\<exists>c nds. findChildren nd SAMLAssertionNS ''Assertion'' = Inr nds \<and> c \<in> set nds \<and> P c) \<or>
     (\<exists>c nds el. findChildren nd SAMLAssertionNS ''EncryptedAssertion'' = Inr nds \<and> c \<in> set nds \<and>
        decryptElement X reg sp c = Inr (Some el) \<and> P ([], el))"

text \<open>An element that a trusted and currently valid certificate signs.\<close>

definition trustedContent :: "externs \<Rightarrow> time \<Rightarrow> ServiceProvider \<Rightarrow> element \<Rightarrow> bool" where
  "trustedContent X clk sp v \<longleftrightarrow>
     (\<exists>el certs cert idAttr. trustedCertificates X sp el = Inr certs \<and> cert \<in> set certs \<and>
        certValidAt clk cert \<and> signedContent X cert idAttr v)"

lemma Validate_trusted:
  "Validate X vc el = Inr (Some v) \<Longrightarrow>
   \<exists>cert \<in> set (vc_Certificates vc). certValidAt (vc_Now vc) cert \<and> (\<exists>i. signedContent X cert i v)"
proof -
  assume "Validate X vc el = Inr (Some v)"
  then obtain sig path el' cert where v: "verifyCertificate X vc sig = Inr cert"
      "validateSignature X vc el' sig path cert = Inr (Some v)"
    by (auto simp: Validate_def)
  with validateSignature_content [OF v(2)] verifyCertificate_trusted [OF v(1)] show ?thesis by auto
qed

lemma verifySignature_trusted:
  assumes "snd (verifySignature X clk sp nd) = Inr (Some n)" "sp_SignatureVerifier sp = None"
  shows "\<exists>v. n = ([], v) \<and> trustedContent X clk sp v"
proof -
  let ?before = "bindE (findChild nd dsNamespace ''Signature'') (\<lambda>sigEl.
            if sigEl = None then Inl ErrSignatureElementNotPresent else trustedCertificates X sp (snd nd))"
  obtain certs where certs: "?before = Inr certs"
    using assms(1) by (cases ?before) (auto simp: verifySignature_def Let_def)
  then have tc: "trustedCertificates X sp (snd nd) = Inr certs" by (auto split: if_splits)
  from assms certs obtain vc detached v where
      vc: "signatureValidationContext clk certs nd = Inr (vc, detached)"
      "Validate X vc detached = Inr (Some v)" "n = ([], v)"
    by (auto simp: verifySignature_def Let_def)
  from vc(1) have "vc_Certificates vc = certs" "vc_Now vc = clk"
    by (auto simp: signatureValidationContext_def Let_def NewDefaultValidationContext_def)
  with Validate_trusted [OF vc(2)] tc vc(3) show ?thesis unfolding trustedContent_def by blast
qed

lemma parseAssertion_Inr:
  assumes "parseAssertion X clk sp nd ids now req = Inr a" "sp_SignatureVerifier sp = None"
  shows "acceptable sp ids now a \<and>
    (case req of SignatureNotRequired \<Rightarrow> assertionOf X nd a
     | SignatureRequired \<Rightarrow> \<exists>v. trustedContent X clk sp v \<and> assertionOf X ([], v) a)"
  using assms verifySignature_trusted [of X clk sp nd]
  by (cases req) (auto simp: parseAssertion_def validateAssertion_Inr assertionOf_def)

lemma collectAssertions_sound:
  "collectAssertions f nds = Inr (errs, asrs) \<Longrightarrow> a \<in> set asrs \<Longrightarrow> \<exists>nd \<in> set nds. f nd = Inr a"
proof (induction nds arbitrary: errs asrs)
  case (Cons nd nds)
  from Cons.prems(1) obtain r errs' asrs' where r: "f nd = r" "collectAssertions f nds = Inr (errs', asrs')"
      "(errs, asrs) = (case r of Inl e \<Rightarrow> (e # errs', asrs') | Inr a \<Rightarrow> (errs', a # asrs'))"
    by auto
  with Cons show ?case by (cases r) auto
qed simp

text \<open>What \<^verbatim>\<open>parseResponse\<close> has done when it returns an assertion: \<open>n\<close> is the node whose content it used and
  \<open>req'\<close> whether the assertion itself had to be signed.\<close>

lemma parseResponse_Inr:
  assumes "parseResponse X reg clk sp nd ids now req u = Inr a"
  obtains n req' response nds where
    "req = SignatureNotRequired \<and> n = nd \<and> req' = SignatureNotRequired
     \<or> req = SignatureRequired \<and> snd (verifySignature X clk sp nd) = Inr (Some n) \<and> req' = SignatureNotRequired
     \<or> req = SignatureRequired \<and> req' = SignatureRequired"
    "unmarshalElement X (x_UnmarshalResponse X) n = Inr response"
    "validateResponseAttributes sp response (req = SignatureRequired \<and> req' = SignatureNotRequired) ids now u = Inr ()"
    "findChildren n SAMLAssertionNS ''EncryptedAssertion'' = Inr nds \<and>
       (\<exists>c \<in> set nds. parseEncryptedAssertion X reg clk sp c ids now req' = Inr a)
     \<or> findChildren n SAMLAssertionNS ''Assertion'' = Inr nds \<and>
       (\<exists>c \<in> set nds. parseAssertion X clk sp c ids now req' = Inr a)"
proof -
  obtain el v where ev: "(case req of SignatureRequired \<Rightarrow> verifySignature X clk sp nd
      | SignatureNotRequired \<Rightarrow> (snd nd, Inr (Some nd))) = (el, v)" by (metis surj_pair)
  from assms ev obtain n response req' encs errs1 asrs1 plain errs2 asrs2 where
      n: "(case v of Inr v \<Rightarrow> nonNil v | Inl _ \<Rightarrow> Inr (fst nd, el)) = Inr n"
    and resp: "unmarshalElement X (x_UnmarshalResponse X) n = Inr response"
    and chk: "validateResponseAttributes sp response (req = SignatureRequired \<and> v \<noteq> Inl ErrSignatureElementNotPresent)
        ids now u = Inr ()"
    and req': "(case v of Inr _ \<Rightarrow> Inr SignatureNotRequired
            | Inl e \<Rightarrow> if e = ErrSignatureElementNotPresent then Inr SignatureRequired else Inl e) = Inr req'"
    and encs: "findChildren n SAMLAssertionNS ''EncryptedAssertion'' = Inr encs"
      "collectAssertions (\<lambda>n. parseEncryptedAssertion X reg clk sp n ids now req') encs = Inr (errs1, asrs1)"
    and plain: "findChildren n SAMLAssertionNS ''Assertion'' = Inr plain"
      "collectAssertions (\<lambda>n. parseAssertion X clk sp n ids now req') plain = Inr (errs2, asrs2)"
    and res: "(case asrs1 @ asrs2 of a # _ \<Rightarrow> Inr a
         | [] \<Rightarrow> (case errs1 @ errs2 of e # _ \<Rightarrow> Inl e
                   | [] \<Rightarrow> Inl (Err ''expected at least one valid Assertion, none found''))) = Inr a"
    by (auto simp: parseResponse_def Let_def)
  have signed: "req' = SignatureRequired \<longleftrightarrow> v = Inl ErrSignatureElementNotPresent"
    using req' by (auto split: sum.splits if_splits)
  have "\<exists>rest. asrs1 @ asrs2 = a # rest" using res by (auto split: list.splits)
  then have "a \<in> set (asrs1 @ asrs2)" by (metis list.set_intros(1))
  then have "a \<in> set asrs1 \<or> a \<in> set asrs2" by simp
  then have last: "\<exists>nds. findChildren n SAMLAssertionNS ''EncryptedAssertion'' = Inr nds \<and>
       (\<exists>c \<in> set nds. parseEncryptedAssertion X reg clk sp c ids now req' = Inr a)
     \<or> findChildren n SAMLAssertionNS ''Assertion'' = Inr nds \<and>
       (\<exists>c \<in> set nds. parseAssertion X clk sp c ids now req' = Inr a)"
    using collectAssertions_sound [OF encs(2)] collectAssertions_sound [OF plain(2)] encs(1) plain(1) by blast
  have flag: "(req = SignatureRequired \<and> v \<noteq> Inl ErrSignatureElementNotPresent) =
      (req = SignatureRequired \<and> req' = SignatureNotRequired)"
    using signed by (cases req') auto
  have first: "req = SignatureNotRequired \<and> n = nd \<and> req' = SignatureNotRequired
     \<or> req = SignatureRequired \<and> snd (verifySignature X clk sp nd) = Inr (Some n) \<and> req' = SignatureNotRequired
     \<or> req = SignatureRequired \<and> req' = SignatureRequired"
    using ev n req' by (cases req; cases v) (auto split: if_splits)
  from last obtain nds where "findChildren n SAMLAssertionNS ''EncryptedAssertion'' = Inr nds \<and>
       (\<exists>c \<in> set nds. parseEncryptedAssertion X reg clk sp c ids now req' = Inr a)
     \<or> findChildren n SAMLAssertionNS ''Assertion'' = Inr nds \<and>
       (\<exists>c \<in> set nds. parseAssertion X clk sp c ids now req' = Inr a)" by blast
  from that [OF first resp chk [unfolded flag] this] show ?thesis .
qed

lemma parseEncryptedAssertion_Inr:
  "parseEncryptedAssertion X reg clk sp c ids now req = Inr a \<longleftrightarrow>
   (\<exists>el. decryptElement X reg sp c = Inr (Some el) \<and> parseAssertion X clk sp ([], el) ids now req = Inr a)"
  by (auto simp: parseEncryptedAssertion_def)

lemma parseResponse_sound:
  assumes "parseResponse X reg clk sp nd ids now req u = Inr a" "sp_SignatureVerifier sp = None"
  shows "acceptable sp ids now a \<and>
    (case req of
       SignatureNotRequired \<Rightarrow> responseHolds X reg sp nd (\<lambda>c. assertionOf X c a)
     | SignatureRequired \<Rightarrow>
         (\<exists>v. trustedContent X clk sp v \<and>
            (assertionOf X ([], v) a \<or> responseHolds X reg sp ([], v) (\<lambda>c. assertionOf X c a))))"
proof (rule parseResponse_Inr [OF assms(1)])
  fix n req' response nds
  assume cases: "req = SignatureNotRequired \<and> n = nd \<and> req' = SignatureNotRequired
     \<or> req = SignatureRequired \<and> snd (verifySignature X clk sp nd) = Inr (Some n) \<and> req' = SignatureNotRequired
     \<or> req = SignatureRequired \<and> req' = SignatureRequired"
    and "findChildren n SAMLAssertionNS ''EncryptedAssertion'' = Inr nds \<and>
       (\<exists>c \<in> set nds. parseEncryptedAssertion X reg clk sp c ids now req' = Inr a)
     \<or> findChildren n SAMLAssertionNS ''Assertion'' = Inr nds \<and>
       (\<exists>c \<in> set nds. parseAssertion X clk sp c ids now req' = Inr a)"
  then have holds: "responseHolds X reg sp n (\<lambda>c. parseAssertion X clk sp c ids now req' = Inr a)"
    unfolding responseHolds_def parseEncryptedAssertion_Inr by blast
  then obtain c where c: "parseAssertion X clk sp c ids now req' = Inr a"
    unfolding responseHolds_def by blast
  note pa = parseAssertion_Inr [OF _ assms(2)]
  have acc: "acceptable sp ids now a" using pa [OF c] by blast
  have imp: "req' = SignatureNotRequired \<Longrightarrow> responseHolds X reg sp n (\<lambda>c. assertionOf X c a)"
    using holds pa unfolding responseHolds_def by fastforce
  show ?thesis
    using cases acc imp verifySignature_trusted [OF _ assms(2), of X clk nd n] pa [OF c]
    by (elim disjE conjE) auto
qed

section \<open>Properties\<close>

text \<open>
  C3. Acceptance of an assertion. The service provider accepts an assertion exactly when it was issued no
  longer ago than the issue delay by the configured identity provider, the subject has a bearer confirmation for
  a request that was made (or for none, where that is allowed), to this consumer service and not expired, the
  time is within the conditions with the clock skew, and every audience restriction, of which there is at least
  one, names this service provider (or the configured check accepts the assertion).
\<close>

theorem assertion_acceptance:
  "validateAssertion sp a ids now = Inr () \<longleftrightarrow> acceptable sp ids now a"
  by (rule validateAssertion_Inr)

text \<open>
  C1. No assertion without a trusted signature. If ParseXMLResponse returns an assertion, and signatures are
  verified by this library, then the assertion is acceptable and was unmarshalled from content that a trusted
  certificate, valid at the time, signs: from the signed element itself, or from an Assertion or decrypted
  EncryptedAssertion that is a child of the signed element. What stands in the response outside the signed
  content is never used.
\<close>

theorem accepted_assertion_signed:
  assumes "ParseXMLResponse X reg clk sp xml ids now u = Inr a" "sp_SignatureVerifier sp = None"
  shows "acceptable sp ids now a \<and>
    (\<exists>v. trustedContent X clk sp v \<and>
       (assertionOf X ([], v) a \<or> responseHolds X reg sp ([], v) (\<lambda>c. assertionOf X c a)))"
proof -
  from assms(1) obtain el where "parseResponse X reg clk sp ([], el) ids now SignatureRequired u = Inr a"
    by (auto simp: ParseXMLResponse_def split: option.splits)
  from parseResponse_sound [OF this assms(2)] show ?thesis by simp
qed

text \<open>A service provider and a signed response, on concrete external functions.\<close>

definition exampleURL :: "string \<Rightarrow> url" where
  "exampleURL s = \<lparr>u_Scheme = [], u_HasUser = False, u_Host = [], u_Base = s, u_Path = [], u_ForceQuery = False, u_RawQuery = [], u_Fragment = []\<rparr>"

lemma urlString_exampleURL [simp]: "urlString (exampleURL s) = s"
  by (simp add: urlString_def exampleURL_def)

definition exampleIdpMetadata :: EntityDescriptor where
  "exampleIdpMetadata = \<lparr>ed_EntityID = ''idp'', ed_ID = [], ed_ValidUntil = 0, ed_CacheDuration = 0,
     ed_Signature = None, ed_RoleDescriptors = [], ed_IDPSSODescriptors = [], ed_SPSSODescriptors = [],
     ed_AuthnAuthorityDescriptors = [], ed_AttributeAuthorityDescriptors = [], ed_PDPDescriptors = [], ed_AffiliationDescriptor = None,
     ed_Organization = None,
     ed_ContactPerson = None, ed_AdditionalMetadataLocations = []\<rparr>"

definition exampleSP :: ServiceProvider where
  "exampleSP = \<lparr>sp_EntityID = ''sp'', sp_Key = None, sp_Certificate = None, sp_Intermediates = [],
     sp_MetadataURL = exampleURL ''metadata'', sp_AcsURL = exampleURL ''acs'', sp_SloURL = exampleURL ''slo'',
     sp_IDPMetadata = Some exampleIdpMetadata, sp_IDPCertificateFingerprint = None,
     sp_IDPCertificateFingerprintAlgorithm = None, sp_IDPCertificate = Some (base64Encode ''key''),
     sp_AuthnNameIDFormat = [], sp_MetadataValidDuration = 0, sp_ForceAuthn = None,
     sp_RequestedAuthnContext = None, sp_AllowIDPInitiated = False, sp_DefaultRedirectURI = [],
     sp_SignatureVerifier = None, sp_SignatureMethod = [], sp_LogoutBindings = [],
     sp_ValidateAudienceRestriction = None, sp_ValidateRequestID = None\<rparr>"

definition exampleAssertion :: Assertion where
  "exampleAssertion = \<lparr>asr_ID = ''a'', asr_IssueInstant = 5, asr_Version = ''2.0'', asr_Issuer = entityIssuer ''idp'',
     asr_Signature = None,
     asr_Subject = Some \<lparr>subj_NameID = None, subj_Confirmations =
       [\<lparr>scf_Method = bearerSubjectConfirmationMethod, scf_NameID = None,
         scf_Data = Some \<lparr>scd_NotBefore = 0, scd_NotOnOrAfter = 5, scd_Recipient = ''acs'',
           scd_InResponseTo = ''id'', scd_Address = []\<rparr>\<rparr>]\<rparr>,
     asr_Conditions = Some \<lparr>cond_NotBefore = 5, cond_NotOnOrAfter = 5,
       cond_AudienceRestrictions = [\<lparr>ar_Audiences = [\<lparr>aud_Value = ''sp''\<rparr>]\<rparr>],
       cond_OneTimeUse = None, cond_ProxyRestriction = None\<rparr>,
     asr_AuthnStatements = [], asr_AttributeStatements = []\<rparr>"

definition exampleResponse :: Response where
  "exampleResponse = \<lparr>resp_ID = ''r'', resp_InResponseTo = ''id'', resp_Version = ''2.0'', resp_IssueInstant = 5,
     resp_Destination = ''acs'', resp_Consent = [], resp_Issuer = Some (entityIssuer ''idp''), resp_Signature = None,
     resp_Status = \<lparr>st_StatusCode = StatusCode StatusSuccess None, st_StatusMessage = None, st_StatusDetail = None\<rparr>,
     resp_EncryptedAssertion = None, resp_Assertion = None\<rparr>"

definition exampleLogoutResponse :: LogoutResponse where
  "exampleLogoutResponse = \<lparr>lrsp_ID = ''l'', lrsp_InResponseTo = ''id'', lrsp_Version = ''2.0'', lrsp_IssueInstant = 5,
     lrsp_Destination = ''slo'', lrsp_Consent = [], lrsp_Issuer = Some (entityIssuer ''idp''), lrsp_Signature = None,
     lrsp_Status = \<lparr>st_StatusCode = StatusCode StatusSuccess None, st_StatusMessage = None, st_StatusDetail = None\<rparr>\<rparr>"

definition exampleContent :: element where
  "exampleContent = Element ''saml'' ''R'' [samlDecl] [Elem (Element ''saml'' ''Assertion'' [] [])]"

definition exampleSpX :: externs where
  "exampleSpX = exampleSignedX
     \<lparr>x_ReadFromBytes := (\<lambda>d. Inr (Some (if d = ''X'' then exampleSigned
        else if d = ''R'' then exampleContent else Element [] d [] []))),
      x_UnmarshalResponse := (\<lambda>_. Inr exampleResponse),
      x_UnmarshalLogoutResponse := (\<lambda>_. Inr exampleLogoutResponse),
      x_UnmarshalAssertion := (\<lambda>_. Inr exampleAssertion)\<rparr>"

lemma exampleSpX_sel [simp]:
  "x_ReadFromBytes exampleSpX d = Inr (Some (if d = ''X'' then exampleSigned
        else if d = ''R'' then exampleContent else Element [] d [] []))"
  "x_UnmarshalResponse exampleSpX d = Inr exampleResponse"
  "x_UnmarshalLogoutResponse exampleSpX d = Inr exampleLogoutResponse"
  "x_UnmarshalAssertion exampleSpX d = Inr exampleAssertion"
  "x_WriteToBytes exampleSpX = el_Tag"
  "x_XrvValidate exampleSpX d = Inr ()"
  "x_ParseCertificate exampleSpX d = Inr (exampleCert d)"
  by (simp_all add: exampleSpX_def exampleSignedX_def)

lemma exampleSpX_signs: "signsExample exampleSpX"
  by (simp add: signsExample_def exampleSpX_def exampleSignedX_def)

lemma exampleSP_sel [simp]:
  "spEntityID exampleSP = ''sp''" "sp_IDPMetadata exampleSP = Some exampleIdpMetadata"
  "sp_AcsURL exampleSP = exampleURL ''acs''" "sp_SloURL exampleSP = exampleURL ''slo''"
  "sp_AllowIDPInitiated exampleSP = False"
  "sp_ValidateAudienceRestriction exampleSP = None" "sp_ValidateRequestID exampleSP = None"
  "sp_SignatureVerifier exampleSP = None" "ed_EntityID exampleIdpMetadata = ''idp''"
  "sp_IDPCertificate exampleSP = Some (base64Encode ''key'')"
  "sp_IDPCertificateFingerprint exampleSP = None" "sp_IDPCertificateFingerprintAlgorithm exampleSP = None"
  by (simp_all add: exampleSP_def spEntityID_def firstSet_def exampleIdpMetadata_def)

lemma removeWhitespace_base64 [simp]: "removeWhitespace (base64Encode s) = base64Encode s"
  using base64Encode_printable by (fastforce simp: removeWhitespace_def isSpaceByte_def byte_def intro!: filter_True)

lemma exampleSP_trusts: "trustedCertificates exampleSpX exampleSP el = Inr [exampleCert ''key'']"
  by (simp add: trustedCertificates_def parseCert_def del: base64Encode.simps)

lemma exampleSigned_signature: "\<exists>c. findChild ([], exampleSigned) dsNamespace ''Signature'' = Inr (Some c)"
  by (simp add: findChild_def findChildren_def exampleSigned_def exampleSignatureEl_def walk_defs)

lemma exampleSigned_context:
  "signatureValidationContext 5 [exampleCert ''key''] ([], exampleSigned) = Inr (exampleVC, exampleSigned)"
proof -
  have k: "dropKeyInfo exampleSigned = exampleSigned"
    by (simp add: dropKeyInfo_def exampleSigned_def exampleSignatureEl_def setChild_def)
  have "(NewDefaultValidationContext [exampleCert ''key''] 5)\<lparr>vc_IdAttribute := ''ID''\<rparr> = exampleVC"
    by (simp add: exampleVC_def NewDefaultValidationContext_def DefaultIdAttr_def)
  moreover have "SubContext NewDefaultNSContext exampleSigned = Inr NewDefaultNSContext"
    by (simp add: exampleSigned_def walk_defs)
  moreover have "\<exists>n. NSDetatch NewDefaultNSContext defaultLimit exampleSigned = Inr (n, exampleSigned)"
    by (simp add: exampleSigned_def exampleSignatureEl_def walk_defs)
  ultimately show ?thesis by (auto simp: signatureValidationContext_def k Let_def)
qed

lemma exampleSigned_verified:
  "verifySignature exampleSpX 5 exampleSP ([], exampleSigned) = (dropKeyInfo exampleSigned, Inr (Some ([], exampleContent)))"
proof -
  obtain c where "findChild ([], exampleSigned) dsNamespace ''Signature'' = Inr (Some c)"
    using exampleSigned_signature by blast
  moreover have "Validate exampleSpX exampleVC exampleSigned = Inr (Some exampleContent)"
    by (rule exampleSigned_valid [OF exampleSpX_signs]) simp
  ultimately show ?thesis
    by (simp add: verifySignature_def exampleSP_trusts exampleSigned_context)
qed

lemma exampleContent_children:
  "findChildren ([], exampleContent) SAMLAssertionNS ''EncryptedAssertion'' = Inr []"
  "findChildren ([], exampleContent) SAMLAssertionNS ''Assertion''
     = Inr [([exampleContent], Element ''saml'' ''Assertion'' [] [])]"
  by (simp_all add: findChildren_def exampleContent_def samlDecl_def walk_defs)

lemma exampleContent_unmarshals:
  "unmarshalElement exampleSpX (x_UnmarshalResponse exampleSpX) ([], exampleContent) = Inr exampleResponse"
  "unmarshalElement exampleSpX (x_UnmarshalAssertion exampleSpX) ([exampleContent], Element ''saml'' ''Assertion'' [] [])
     = Inr exampleAssertion"
  "unmarshalElement exampleSpX (x_UnmarshalLogoutResponse exampleSpX) ([], exampleContent) = Inr exampleLogoutResponse"
  by (simp_all add: unmarshalElement_def elementToBytes_def exampleContent_def samlDecl_def walk_defs)

lemma exampleAssertion_acceptable: "acceptable exampleSP [''id''] 5 exampleAssertion"
  by (simp add: acceptable_def confirmedBy_def audienceAccepted_def exampleAssertion_def entityIssuer_def
      MaxIssueDelay_def MaxClockSkew_def ns_defs)

lemma exampleResponse_attributes:
  "validateResponseAttributes exampleSP exampleResponse True [''id''] 5 u = Inr ()"
  by (simp add: validateResponseAttributes_def validateRequestID_def exampleResponse_def entityIssuer_def
      MaxIssueDelay_def ns_defs)

lemma example_parsed:
  "ParseXMLResponse exampleSpX reg 5 exampleSP ''X'' [''id''] 5 u = Inr exampleAssertion"
proof -
  have "validateAssertion exampleSP exampleAssertion [''id''] 5 = Inr ()"
    using exampleAssertion_acceptable by (simp add: validateAssertion_Inr)
  then have "parseAssertion exampleSpX 5 exampleSP ([exampleContent], Element ''saml'' ''Assertion'' [] [])
      [''id''] 5 SignatureNotRequired = Inr exampleAssertion"
    using exampleContent_unmarshals(2) by (simp add: parseAssertion_def)
  then show ?thesis
    using exampleContent_unmarshals(1) exampleResponse_attributes [of u]
    by (simp add: ParseXMLResponse_def parseResponse_def exampleSigned_verified exampleContent_children tryE_def
        nonNil_def)
qed

theorem accepted_assertion_signed_witness:
  "acceptable exampleSP [''id''] 5 exampleAssertion \<and>
    (\<exists>v. trustedContent exampleSpX 5 exampleSP v \<and>
       (assertionOf exampleSpX ([], v) exampleAssertion \<or>
        responseHolds exampleSpX defaultRegistry exampleSP ([], v) (\<lambda>c. assertionOf exampleSpX c exampleAssertion)))"
  by (rule accepted_assertion_signed [OF example_parsed [of defaultRegistry "exampleURL ''acs''"]]) simp

end
