(* ===== verification/Http_Model.thy ===== *)
theory Http_Model
  imports Go_Encoding Schema_Types
begin

text \<open>
  What the handlers use of \<^verbatim>\<open>net/http\<close>: the request they read, the form that \<^verbatim>\<open>ParseForm\<close> gives
  them, and the list of what they write to the response.
\<close>

section \<open>Requests\<close>

record http_request =
  rq_Method :: string
  rq_Path :: string
  rq_RawQuery :: string
  rq_FormType :: bool
  rq_Body :: "string option"
  rq_RemoteAddr :: string
  rq_Cookies :: "(string \<times> string) list"
  rq_Header :: "(string \<times> string) list"
  rq_TLS :: bool
  rq_Scheme :: string
  rq_URL :: string
  rq_PathValues :: "(string \<times> string) list"

text \<open>\<^verbatim>\<open>ParseForm\<close> and the resulting \<^verbatim>\<open>PostForm\<close>. \<open>limit\<close> is the number of bytes of the body that it
  reads at most: that of \<^verbatim>\<open>http.MaxBytesReader\<close>, or else 10 MB. \<open>rq_FormType\<close> says that the content type is
  \<^verbatim>\<open>application/x-www-form-urlencoded\<close>; the body of any other type is not parsed. A pair that cannot be
  parsed, in the body or in the query, is an error.\<close>

definition queryError :: "string \<Rightarrow> bool" where
  "queryError q \<longleftrightarrow> (\<exists>p \<in> set (splitOn CHR ''&'' q). p \<noteq> [] \<and> parsePair p = None)"

definition ParseForm :: "nat \<Rightarrow> http_request \<Rightarrow> (string \<times> string) list result" where
  "ParseForm limit r =
     bindE
       (case rq_Body r of
          Some body \<Rightarrow>
            if rq_Method r \<in> {''POST'', ''PUT'', ''PATCH''} \<and> rq_FormType r then
              if length body > limit then Inl (Err ''http: request body too large'')
              else if queryError body then Inl (Err ''invalid form'')
              else Inr (ParseQuery body)
            else Inr []
        | None \<Rightarrow> Inr [])
       (\<lambda>form. if queryError (rq_RawQuery r) then Inl (Err ''invalid query'') else Inr form)"

definition maxFormSize :: nat where "maxFormSize = 10485760"

text \<open>\<^verbatim>\<open>r.Cookie\<close>.\<close>

definition requestCookie :: "http_request \<Rightarrow> string \<Rightarrow> string result" where
  "requestCookie r name = (case map_of (rq_Cookies r) name of None \<Rightarrow> Inl ErrNoCookie | Some v \<Rightarrow> Inr v)"

section \<open>Responses\<close>

text \<open>The form with a message that a page submits, \<^verbatim>\<open>IdpAuthnRequestForm\<close>.\<close>

record IdpAuthnRequestForm =
  form_URL :: string
  form_SAMLResponse :: string
  form_RelayState :: string

text \<open>A cookie of \<^verbatim>\<open>http.SetCookie\<close>; \<open>ck_Expired\<close> says that its \<^verbatim>\<open>Expires\<close> is set to a time in the
  past. \<^verbatim>\<open>MaxAge\<close> below zero deletes the cookie.\<close>

record http_cookie =
  ck_Name :: string
  ck_Value :: string
  ck_Domain :: string
  ck_Path :: string
  ck_MaxAge :: int
  ck_Expired :: bool
  ck_HttpOnly :: bool
  ck_Secure :: bool
  ck_SameSite :: nat

text \<open>The data of the login form of \<^verbatim>\<open>samlidp\<close>.\<close>

record login_form =
  lf_Toast :: string
  lf_URL :: string
  lf_SAMLRequest :: string
  lf_RelayState :: string
  lf_RedirectQuery :: string

text \<open>What a handler writes, in order: \<^verbatim>\<open>http.Error\<close> with a status, the headers of
  \<^verbatim>\<open>setNoCacheHeaders\<close>, a page with a form, a redirect, metadata, a cookie, a body, a login form, or what a
  configured provider writes itself. \<open>HandlerPanic\<close> stands for a panic of the handler, which ends the response.\<close>

datatype http_write =
    WriteError nat
  | WriteStatus nat
  | SetNoCacheHeaders
  | WriteForm IdpAuthnRequestForm
  | WriteRedirect string
  | WriteMetadata EntityDescriptor
  | SetCookie http_cookie
  | WriteBody string
  | WriteLoginForm login_form
  | HandlerPanic string
  | ProviderWrite string

definition StatusBadRequest :: nat where "StatusBadRequest = 400"
definition StatusNoContent :: nat where "StatusNoContent = 204"
definition StatusFound :: nat where "StatusFound = 302"
definition StatusConflict :: nat where "StatusConflict = 409"
definition StatusForbidden :: nat where "StatusForbidden = 403"
definition StatusNotFound :: nat where "StatusNotFound = 404"
definition StatusInternalServerError :: nat where "StatusInternalServerError = 500"

lemmas http_status_defs =
  StatusBadRequest_def StatusNoContent_def StatusFound_def StatusConflict_def StatusForbidden_def StatusNotFound_def StatusInternalServerError_def

end
