(* ===== verification/Sp_Logout.thy ===== *)
theory Sp_Logout
  imports Sp_Validation Http_Model
begin

text \<open>
  Logout responses at the service provider, and the resolution of artifacts: the remaining entry points of
  \<^verbatim>\<open>service_provider.go\<close>.
\<close>

section \<open>Logout responses\<close>

definition validateLogoutResponse :: "ServiceProvider \<Rightarrow> LogoutResponse \<Rightarrow> string list \<Rightarrow> time \<Rightarrow> unit result" where
  "validateLogoutResponse sp resp possibleRequestIDs now =
     (if lrsp_Destination resp \<noteq> urlString (sp_SloURL sp)
      then Inl (Errorf ''`Destination` does not match SloURL (expected %q)'' [urlString (sp_SloURL sp)])
      else if lrsp_IssueInstant resp + MaxIssueDelay < now then Inl (Err ''issueInstant expired at %s'')
      else bindE (idpMetadata sp) (\<lambda>md.
        if (case lrsp_Issuer resp of None \<Rightarrow> True | Some i \<Rightarrow> iss_Value i \<noteq> ed_EntityID md)
        then Inl (Errorf ''issuer does not match the IDP metadata (expected %q)'' [ed_EntityID md])
        else if lrsp_InResponseTo resp = [] \<or> lrsp_InResponseTo resp \<notin> set possibleRequestIDs
        then Inl (Errorf ''`InResponseTo` does not match any of the possible request IDs (expected %v)'' possibleRequestIDs)
        else checkE (sc_Value (st_StatusCode (lrsp_Status resp)) = StatusSuccess)
          (Errorf ''status code was not %s'' [StatusSuccess])))"

definition ValidateLogoutResponseForm ::
  "externs \<Rightarrow> time \<Rightarrow> ServiceProvider \<Rightarrow> string \<Rightarrow> string list \<Rightarrow> time \<Rightarrow> unit result" where
  "ValidateLogoutResponseForm X clk sp postFormData possibleRequestIDs now =
     bindE (wrapE (\<lambda>e. InvalidResponseError (Wrapf ''unable to parse base64: %s'' [] e) [] now) (base64Decode postFormData))
       (\<lambda>raw.
     bindE (wrapE (Wrapf ''response contains invalid XML: %s'' []) (x_XrvValidate X raw)) (\<lambda>_.
     bindE (wrapE (\<lambda>e. InvalidResponseError e raw now)
        (bindE (x_ReadFromBytes X raw) (\<lambda>root.
         bindE (nonNil root) (\<lambda>el.
         bindE (snd (verifySignature X clk sp ([], el))) (\<lambda>verified.
         bindE (nonNil verified) (unmarshalElement X (x_UnmarshalLogoutResponse X)))))))
       (\<lambda>resp. validateLogoutResponse sp resp possibleRequestIDs now)))"

text \<open>\<^verbatim>\<open>ValidateLogoutResponseRedirect\<close>, on the raw query of the URL.\<close>

definition ValidateLogoutResponseRedirect ::
  "externs \<Rightarrow> time \<Rightarrow> ServiceProvider \<Rightarrow> string \<Rightarrow> string list \<Rightarrow> time \<Rightarrow> unit result" where
  "ValidateLogoutResponseRedirect X clk sp rawQuery possibleRequestIDs now =
     (let fail = (\<lambda>resp e. InvalidResponseError e resp now) in
      bindE (wrapE (fail []) (redirectParameters rawQuery)) (\<lambda>parameters.
      let signedInQuery = (map_of parameters ''Signature'' \<noteq> None \<or> map_of parameters ''SigAlg'' \<noteq> None) in
      bindE
        (if signedInQuery
         then wrapE (fail []) (bindE (redirectSigningCertificates X sp)
                (verifyRedirectSignature X clk rawQuery ''SAMLResponse''))
         else Inr ())
        (\<lambda>_.
      bindE (wrapE (\<lambda>e. fail [] (Wrapf ''unable to parse SAMLResponse: %s'' [] e))
          (QueryUnescape (the_default [] (map_of parameters ''SAMLResponse''))))
        (\<lambda>field.
      bindE (wrapE (\<lambda>e. fail [] (Wrapf ''unable to parse base64: %s'' [] e)) (base64Decode field)) (\<lambda>raw.
      bindE (wrapE (fail raw) (readAll (x_ReadSchedule X raw) 0 (newSaferFlateReader X raw) [])) (\<lambda>gr.
      bindE (x_XrvValidate X gr) (\<lambda>_.
      bindE (wrapE (fail raw)
          (bindE (x_ReadFromBytes X gr) (\<lambda>root.
           bindE (nonNil root) (\<lambda>el.
           bindE (if signedInQuery then Inr (Some ([], el)) else snd (verifySignature X clk sp ([], el))) (\<lambda>verified.
           bindE (nonNil verified) (unmarshalElement X (x_UnmarshalLogoutResponse X)))))))
        (\<lambda>resp. validateLogoutResponse sp resp possibleRequestIDs now))))))))"

definition ValidateLogoutResponseRequest ::
  "externs \<Rightarrow> time \<Rightarrow> ServiceProvider \<Rightarrow> http_request \<Rightarrow> string list \<Rightarrow> time \<Rightarrow> unit result" where
  "ValidateLogoutResponseRequest X clk sp r possibleRequestIDs now =
     bindE (wrapE (\<lambda>e. InvalidResponseError e [] now) (redirectParameters (rq_RawQuery r))) (\<lambda>parameters.
       if the_default [] (map_of parameters ''SAMLResponse'') \<noteq> []
       then ValidateLogoutResponseRedirect X clk sp (rq_RawQuery r) possibleRequestIDs now
       else bindE (wrapE (Wrapf ''unable to parse form: %v'' []) (ParseForm maxFormSize r)) (\<lambda>form.
         ValidateLogoutResponseForm X clk sp (valuesGet form ''SAMLResponse'') possibleRequestIDs now))"

section \<open>Artifact resolution\<close>

text \<open>The HTTP exchange of \<^verbatim>\<open>handleArtifactRequest\<close>, external: for the URL and the body of a request, an error, or
  the status and the body of the response, whose reading may end with an error, and the URL of the request as
  parsed. Redirects are not followed, so there is one exchange.\<close>

record http_exchange =
  hx_Status :: nat
  hx_Body :: string
  hx_ReadError :: "error option"
  hx_URL :: url

definition maxArtifactResponseSize :: nat where "maxArtifactResponseSize = 10 * 1024 * 1024"

text \<open>\<^verbatim>\<open>io.ReadAll\<close> of an \<^verbatim>\<open>io.LimitReader\<close>: an error after the limit is not seen.\<close>

definition readLimited :: "nat \<Rightarrow> http_exchange \<Rightarrow> string result" where
  "readLimited n hx =
     (if n \<le> length (hx_Body hx) then Inr (take n (hx_Body hx))
      else (case hx_ReadError hx of None \<Rightarrow> Inr (hx_Body hx) | Some e \<Rightarrow> Inl e))"

definition handleArtifactRequest ::
  "externs \<Rightarrow> registry \<Rightarrow> time \<Rightarrow> ServiceProvider \<Rightarrow> (string \<Rightarrow> string \<Rightarrow> http_exchange result) \<Rightarrow> string \<Rightarrow> string \<Rightarrow>
   string \<Rightarrow> string list \<Rightarrow> time \<Rightarrow> Assertion result" where
  "handleArtifactRequest X reg clk sp post idRnd rnd artifactID possibleRequestIDs now =
     bindE
       (wrapE (\<lambda>e. InvalidResponseError e [] now)
         (bindE (wrapE (Wrapf ''cannot generate artifact resolution request: %s'' [])
             (MakeArtifactResolveRequest X idRnd rnd now sp artifactID)) (\<lambda>resolve.
          bindE (elementToBytes X ([], SoapRequest resolve)) (\<lambda>requestBody.
          bindE (GetArtifactBindingLocation sp SOAPBinding) (\<lambda>location.
          bindE (wrapE (Wrapf ''cannot resolve artifact: %s'' []) (post location requestBody)) (\<lambda>response.
          if hx_Status response \<noteq> 200 then Inl (Err ''Error during artifact resolution: HTTP status %d (%s)'')
          else bindE (wrapE (Wrapf ''Error during artifact resolution: %s'' [])
              (readLimited (maxArtifactResponseSize + 1) response)) (\<lambda>responseBody.
            if length responseBody > maxArtifactResponseSize
            then Inl (Err ''Error during artifact resolution: response too large, the limit is %d bytes'')
            else Inr (responseBody, ares_ID resolve, hx_URL response))))))))
       (\<lambda>(responseBody, requestID, u).
         ParseXMLArtifactResponse X reg clk sp responseBody possibleRequestIDs requestID now u)"

text \<open>\<^verbatim>\<open>ParseResponse\<close>, on the form fields \<^verbatim>\<open>SAMLart\<close> and \<^verbatim>\<open>SAMLResponse\<close>.\<close>

definition ParseResponse ::
  "externs \<Rightarrow> registry \<Rightarrow> time \<Rightarrow> ServiceProvider \<Rightarrow> (string \<Rightarrow> string \<Rightarrow> http_exchange result) \<Rightarrow> string \<Rightarrow> string \<Rightarrow>
   (string \<times> string) list \<Rightarrow> (string \<times> string) list \<Rightarrow> string list \<Rightarrow> time \<Rightarrow> url \<Rightarrow> Assertion result" where
  "ParseResponse X reg clk sp post idRnd rnd form posted possibleRequestIDs now currentURL =
     (if valuesGet form ''SAMLart'' \<noteq> []
      then handleArtifactRequest X reg clk sp post idRnd rnd (valuesGet form ''SAMLart'') possibleRequestIDs now
      else parseResponseHTTP X reg clk sp (valuesGet posted ''SAMLResponse'') possibleRequestIDs now currentURL)"

section \<open>Accepted assertions\<close>

text \<open>An assertion that a trusted certificate signs: by itself, with the response that holds it, or with the artifact
  response that holds the response.\<close>

definition authenticAssertion :: "externs \<Rightarrow> registry \<Rightarrow> time \<Rightarrow> ServiceProvider \<Rightarrow> Assertion \<Rightarrow> bool" where
  "authenticAssertion X reg clk sp a \<longleftrightarrow>
     (\<exists>v. trustedContent X clk sp v \<and>
        (assertionOf X ([], v) a \<or> responseHolds X reg sp ([], v) (\<lambda>c. assertionOf X c a) \<or>
         (\<exists>nd. findOneChild ([], v) SAMLProtocolNS ''Response'' = Inr nd \<and> responseHolds X reg sp nd (\<lambda>c. assertionOf X c a))))"

lemma parseArtifactResponse_sound:
  assumes "parseArtifactResponse X reg clk sp nd ids requestID now u = Inr a" "sp_SignatureVerifier sp = None"
  shows "acceptable sp ids now a \<and> authenticAssertion X reg clk sp a"
proof -
  obtain el verified where v: "verifySignature X clk sp nd = (el, verified)" by (cases "verifySignature X clk sp nd")
  show ?thesis
  proof (cases verified)
    case (Inl e)
    then obtain responseNd where "parseResponse X reg clk sp responseNd ids now SignatureRequired u = Inr a"
      using assms(1) v by (auto simp: parseArtifactResponse_def tryE_def Let_def split: if_splits)
    from parseResponse_sound [OF this assms(2)] show ?thesis by (auto simp: authenticAssertion_def)
  next
    case (Inr r)
    then obtain n responseNd where n: "r = Some n" "findOneChild n SAMLProtocolNS ''Response'' = Inr responseNd"
      "parseResponse X reg clk sp responseNd ids now SignatureNotRequired u = Inr a"
      using assms(1) v by (cases r) (auto simp: parseArtifactResponse_def tryE_def nonNil_def Let_def split: if_splits)
    obtain t where "n = ([], t)" "trustedContent X clk sp t"
      using verifySignature_trusted [OF _ assms(2), of X clk nd n] v Inr n(1) by auto
    with n(2) parseResponse_sound [OF n(3) assms(2)] show ?thesis
      by (simp add: authenticAssertion_def del: split_paired_Ex) blast
  qed
qed

lemma ParseResponse_sound:
  assumes "ParseResponse X reg clk sp post idRnd rnd form posted ids now u = Inr a" "sp_SignatureVerifier sp = None"
  shows "acceptable sp ids now a \<and> authenticAssertion X reg clk sp a"
proof (cases "valuesGet form ''SAMLart'' = []")
  case True
  then obtain el where "parseResponse X reg clk sp ([], el) ids now SignatureRequired u = Inr a"
    using assms(1) by (auto simp: ParseResponse_def parseResponseHTTP_def ParseXMLResponse_def split: option.splits)
  from parseResponse_sound [OF this assms(2)] show ?thesis by (auto simp: authenticAssertion_def)
next
  case False
  then obtain nd requestID u' where "parseArtifactResponse X reg clk sp nd ids requestID now u' = Inr a"
    using assms(1) by (auto simp: ParseResponse_def handleArtifactRequest_def ParseXMLArtifactResponse_def)
  from parseArtifactResponse_sound [OF this assms(2)] show ?thesis .
qed

section \<open>Accepted logout responses\<close>

definition logoutAcceptable :: "ServiceProvider \<Rightarrow> string list \<Rightarrow> time \<Rightarrow> LogoutResponse \<Rightarrow> bool" where
  "logoutAcceptable sp ids now resp \<longleftrightarrow>
     lrsp_Destination resp = urlString (sp_SloURL sp) \<and> now \<le> lrsp_IssueInstant resp + MaxIssueDelay \<and>
     (\<exists>md i. sp_IDPMetadata sp = Some md \<and> lrsp_Issuer resp = Some i \<and> iss_Value i = ed_EntityID md) \<and>
     lrsp_InResponseTo resp \<noteq> [] \<and> lrsp_InResponseTo resp \<in> set ids \<and>
     sc_Value (st_StatusCode (lrsp_Status resp)) = StatusSuccess"

lemma validateLogoutResponse_Inr:
  "validateLogoutResponse sp resp ids now = Inr () \<longleftrightarrow> logoutAcceptable sp ids now resp"
  by (cases "lrsp_Issuer resp"; cases "sp_IDPMetadata sp")
    (auto simp: validateLogoutResponse_def logoutAcceptable_def not_less)

text \<open>A root element that the query carries under a signature of a trusted certificate.\<close>

definition queryContent :: "externs \<Rightarrow> time \<Rightarrow> ServiceProvider \<Rightarrow> string \<Rightarrow> element \<Rightarrow> bool" where
  "queryContent X clk sp q v \<longleftrightarrow>
     (\<exists>certs cert ps alg h sig raw m c gr. redirectSigningCertificates X sp = Inr certs \<and> cert \<in> set certs \<and>
        certValidAt clk cert \<and> redirectParameters q = Inr ps \<and>
        verifyDigest X cert alg h (x_Hash X h (signedOctets ''SAMLResponse'' ps)) sig \<and>
        map_of ps ''SAMLResponse'' = Some raw \<and> QueryUnescape raw = Inr m \<and> base64Decode m = Inr c \<and>
        x_Inflate X c = (gr, None) \<and> x_ReadFromBytes X gr = Inr (Some v))"

lemma inflate_all:
  assumes "readAll sched 0 (newSaferFlateReader X raw) [] = Inr gr"
  shows "x_Inflate X raw = (gr, None)"
  using readAll_Inr [OF assms] by (auto simp: newSaferFlateReader_def prod_eq_iff flateUncompressLimit_def)

lemma ValidateLogoutResponseForm_sound:
  assumes "ValidateLogoutResponseForm X clk sp data ids now = Inr ()" "sp_SignatureVerifier sp = None"
  shows "\<exists>resp v. logoutAcceptable sp ids now resp \<and> trustedContent X clk sp v \<and>
    unmarshalElement X (x_UnmarshalLogoutResponse X) ([], v) = Inr resp"
proof -
  from assms(1) obtain el n resp where
    "snd (verifySignature X clk sp ([], el)) = Inr (Some n)"
    "unmarshalElement X (x_UnmarshalLogoutResponse X) n = Inr resp" "validateLogoutResponse sp resp ids now = Inr ()"
    by (auto simp: ValidateLogoutResponseForm_def)
  with verifySignature_trusted [OF _ assms(2)] validateLogoutResponse_Inr show ?thesis by blast
qed

lemma ValidateLogoutResponseRedirect_sound:
  assumes "ValidateLogoutResponseRedirect X clk sp q ids now = Inr ()" "sp_SignatureVerifier sp = None"
  shows "\<exists>resp v. logoutAcceptable sp ids now resp \<and> (trustedContent X clk sp v \<or> queryContent X clk sp q v) \<and>
    unmarshalElement X (x_UnmarshalLogoutResponse X) ([], v) = Inr resp"
proof -
  from assms(1) obtain ps where ps: "redirectParameters q = Inr ps"
    by (auto simp: ValidateLogoutResponseRedirect_def Let_def)
  let ?signed = "map_of ps ''Signature'' \<noteq> None \<or> map_of ps ''SigAlg'' \<noteq> None"
  show ?thesis
  proof (cases ?signed)
    case False
    with assms(1) ps obtain el n resp where "snd (verifySignature X clk sp ([], el)) = Inr (Some n)"
      "unmarshalElement X (x_UnmarshalLogoutResponse X) n = Inr resp" "validateLogoutResponse sp resp ids now = Inr ()"
      by (auto simp: ValidateLogoutResponseRedirect_def Let_def)
    with verifySignature_trusted [OF _ assms(2)] validateLogoutResponse_Inr show ?thesis by blast
  next
    case True
    with assms(1) ps obtain m c gr el resp where
      q: "QueryUnescape (the_default [] (map_of ps ''SAMLResponse'')) = Inr m" "base64Decode m = Inr c"
        "readAll (x_ReadSchedule X c) 0 (newSaferFlateReader X c) [] = Inr gr"
        "x_ReadFromBytes X gr = Inr (Some el)" and
      resp: "unmarshalElement X (x_UnmarshalLogoutResponse X) ([], el) = Inr resp"
        "validateLogoutResponse sp resp ids now = Inr ()" and
      sig: "\<exists>certs. redirectSigningCertificates X sp = Inr certs \<and>
         verifyRedirectSignature X clk q ''SAMLResponse'' certs = Inr ()"
      by (simp add: ValidateLogoutResponseRedirect_def Let_def) blast
    from sig obtain certs cert alg h s where
      v: "redirectSigningCertificates X sp = Inr certs" "map_of ps ''SAMLResponse'' \<noteq> None" "cert \<in> set certs"
        "certValidAt clk cert" "verifyDigest X cert alg h (x_Hash X h (signedOctets ''SAMLResponse'' ps)) s"
      unfolding verifyRedirectSignature_Inr using ps by auto
    then have "queryContent X clk sp q el"
      using ps q inflate_all [OF q(3)] unfolding queryContent_def by (auto intro!: exI [of _ cert])
    with resp show ?thesis by (auto simp: validateLogoutResponse_Inr)
  qed
qed

text \<open>
  C12. No logout without a trusted response. If the service provider accepts a logout response, by either binding,
  then the response is addressed to its logout URL, recent, from the configured identity provider, successful and an
  answer to a request that was made; and it was unmarshalled from content that a trusted certificate, valid at the
  time, signs, or from the message in a query whose signature such a certificate verifies.
\<close>

theorem accepted_logout_response_signed:
  assumes "ValidateLogoutResponseRequest X clk sp r ids now = Inr ()" "sp_SignatureVerifier sp = None"
  shows "\<exists>resp v. logoutAcceptable sp ids now resp \<and>
    (trustedContent X clk sp v \<or> queryContent X clk sp (rq_RawQuery r) v) \<and>
    unmarshalElement X (x_UnmarshalLogoutResponse X) ([], v) = Inr resp"
proof -
  from assms(1) consider "ValidateLogoutResponseRedirect X clk sp (rq_RawQuery r) ids now = Inr ()"
    | data where "ValidateLogoutResponseForm X clk sp data ids now = Inr ()"
    by (auto simp: ValidateLogoutResponseRequest_def split: if_splits)
  then show ?thesis
    using ValidateLogoutResponseRedirect_sound [OF _ assms(2)] ValidateLogoutResponseForm_sound [OF _ assms(2)]
    by cases blast+
qed

definition exampleLogoutRequest :: http_request where
  "exampleLogoutRequest = \<lparr>rq_Method = ''POST'', rq_Path = ''/slo'', rq_RawQuery = [], rq_FormType = True,
     rq_Body = Some ''SAMLResponse=WA%3D%3D'', rq_RemoteAddr = [], rq_Cookies = [],
     rq_Header = [], rq_TLS = True, rq_Scheme = [], rq_URL = ''/slo'', rq_PathValues = []\<rparr>"

lemma exampleLogout_form: "ParseForm maxFormSize exampleLogoutRequest = Inr [(''SAMLResponse'', ''WA=='')]"
  by (simp add: ParseForm_def exampleLogoutRequest_def maxFormSize_def queryError_def parsePair_def cutAt_def
      ParseQuery_def map_filter_simps unhex_def byte_def char_of_def bit_0)

lemma exampleLogout_valid: "ValidateLogoutResponseRequest exampleSpX 5 exampleSP exampleLogoutRequest [''id''] 5 = Inr ()"
proof -
  have "base64Decode ''WA=='' = Inr ''X''" by code_simp
  moreover have "validateLogoutResponse exampleSP exampleLogoutResponse [''id''] 5 = Inr ()"
    by (simp add: validateLogoutResponse_def exampleLogoutResponse_def entityIssuer_def MaxIssueDelay_def ns_defs)
  ultimately have "ValidateLogoutResponseForm exampleSpX 5 exampleSP ''WA=='' [''id''] 5 = Inr ()"
    using exampleContent_unmarshals(3)
    by (simp add: ValidateLogoutResponseForm_def exampleSigned_verified nonNil_def)
  moreover have "redirectParameters (rq_RawQuery exampleLogoutRequest) = Inr []"
    by (simp add: exampleLogoutRequest_def redirectParameters_def cutAt_def signatureParameterNames_def)
  ultimately show ?thesis
    by (simp add: ValidateLogoutResponseRequest_def exampleLogout_form valuesGet_def)
qed

theorem accepted_logout_response_signed_witness:
  "\<exists>resp v. logoutAcceptable exampleSP [''id''] 5 resp \<and>
    (trustedContent exampleSpX 5 exampleSP v \<or> queryContent exampleSpX 5 exampleSP (rq_RawQuery exampleLogoutRequest) v) \<and>
    unmarshalElement exampleSpX (x_UnmarshalLogoutResponse exampleSpX) ([], v) = Inr resp"
  by (rule accepted_logout_response_signed [OF exampleLogout_valid]) simp

end
