(* ===== verification/Idp_Types.thy ===== *)
theory Idp_Types
  imports Sp_Logout
begin

text \<open>
  The data of the identity provider: sessions, the state of an authentication request and of a logout request,
  the configured providers, and the metadata (\<^verbatim>\<open>identity_provider.go\<close>, \<^verbatim>\<open>identity_provider_logout.go\<close>).
  A configured interface is a function, or a record of functions, in the \<open>IdentityProvider\<close>; an interface that
  may be left out is an option, and so is an optional interface of the session provider. A provider that may
  complete the HTTP request itself returns what it writes. The pointer \<^verbatim>\<open>IDP\<close> of a request is an argument of
  the operations on it.
\<close>

section \<open>Sessions and requests\<close>

record Session =
  ses_ID :: string
  ses_CreateTime :: time
  ses_ExpireTime :: time
  ses_Index :: string
  ses_NameID :: string
  ses_NameIDFormat :: string
  ses_SubjectID :: string
  ses_Groups :: "string list"
  ses_UserName :: string
  ses_UserEmail :: string
  ses_UserCommonName :: string
  ses_UserSurname :: string
  ses_UserGivenName :: string
  ses_UserScopedAffiliation :: string
  ses_EduPersonPrincipalName :: string
  ses_CustomAttributes :: "Attribute list"
  ses_AuthnContextClassRef :: string
  ses_ClientAddress :: string

record IdpAuthnRequest =
  iar_HTTPRequest :: http_request
  iar_RelayState :: string
  iar_RequestBuffer :: string
  iar_Request :: AuthnRequest
  iar_ServiceProviderMetadata :: "EntityDescriptor option"
  iar_SPSSODescriptor :: "SPSSODescriptor option"
  iar_ACSEndpoint :: "IndexedEndpoint option"
  iar_Assertion :: "Assertion option"
  iar_AssertionEl :: "element option"
  iar_ResponseEl :: "element option"
  iar_Now :: time
  iar_RedirectQuery :: string

text \<open>The request as the handlers first make it: only the HTTP request and the time are set.\<close>

definition newRequest :: "http_request \<Rightarrow> time \<Rightarrow> IdpAuthnRequest" where
  "newRequest r now = \<lparr>iar_HTTPRequest = r, iar_RelayState = [], iar_RequestBuffer = [],
     iar_Request = zeroAuthnRequest, iar_ServiceProviderMetadata = None, iar_SPSSODescriptor = None,
     iar_ACSEndpoint = None, iar_Assertion = None, iar_AssertionEl = None, iar_ResponseEl = None,
     iar_Now = now, iar_RedirectQuery = []\<rparr>"

text \<open>The zero value \<^verbatim>\<open>LogoutRequest{}\<close>.\<close>

definition zeroLogoutRequest :: LogoutRequest where
  "zeroLogoutRequest = \<lparr>lreq_ID = [], lreq_Version = [], lreq_IssueInstant = 0, lreq_NotOnOrAfter = None,
     lreq_Destination = [], lreq_Issuer = None, lreq_NameID = None, lreq_Signature = None, lreq_SessionIndexes = []\<rparr>"

record IdpLogoutRequest =
  ilr_HTTPRequest :: http_request
  ilr_RelayState :: string
  ilr_RequestBuffer :: string
  ilr_Request :: LogoutRequest
  ilr_ServiceProviderMetadata :: "EntityDescriptor option"
  ilr_SLOEndpoint :: "Endpoint option"
  ilr_Now :: time
  ilr_RedirectQuery :: string
  ilr_binding :: string

section \<open>The identity provider\<close>

text \<open>A \<^verbatim>\<open>SessionProvider\<close> with its optional interfaces \<^verbatim>\<open>PassiveSessionProvider\<close>,
  \<^verbatim>\<open>ForceAuthnSessionProvider\<close> and \<^verbatim>\<open>LogoutSessionProvider\<close>.\<close>

record SessionProvider =
  spr_GetSession :: "http_request \<Rightarrow> IdpAuthnRequest \<Rightarrow> http_write list \<times> Session option"
  spr_GetPassiveSession :: "(http_request \<Rightarrow> IdpAuthnRequest \<Rightarrow> Session option) option"
  spr_GetForcedSession :: "(http_request \<Rightarrow> IdpAuthnRequest \<Rightarrow> http_write list \<times> Session option) option"
  spr_TerminateSession :: "(http_request \<Rightarrow> IdpLogoutRequest \<Rightarrow> http_write list \<times> unit result) option"

text \<open>\<open>idp_Key\<close> is the key as a \<^verbatim>\<open>crypto.Signer\<close>, if it is one. Of the response form template only whether its
  execution succeeds is part of the model.\<close>

record IdentityProvider =
  idp_Key :: "signer option"
  idp_Signer :: "signer option"
  idp_Certificate :: "certificate option"
  idp_Intermediates :: "certificate list"
  idp_MaxAuthnRequestAge :: duration
  idp_MetadataURL :: url
  idp_SSOURL :: url
  idp_LoginURL :: url
  idp_LogoutURL :: url
  idp_GetServiceProvider :: "http_request \<Rightarrow> string \<Rightarrow> EntityDescriptor result"
  idp_SessionProvider :: SessionProvider
  idp_AssertionMaker :: "(IdpAuthnRequest \<Rightarrow> Session \<Rightarrow> IdpAuthnRequest result) option"
  idp_SignatureMethod :: string
  idp_ValidDuration :: "duration option"
  idp_ResponseFormTemplate :: "(IdpAuthnRequestForm \<Rightarrow> unit result) option"
  idp_WantAuthnRequestsSigned :: bool
  idp_NameIDPolicyEnforcer :: "(IdpAuthnRequest \<Rightarrow> Session \<Rightarrow> unit result) option"
  idp_AuthnContextEnforcer :: "(IdpAuthnRequest \<Rightarrow> Session \<Rightarrow> unit result) option"
  idp_SubjectEnforcer :: "(IdpAuthnRequest \<Rightarrow> Session \<Rightarrow> unit result) option"

text \<open>What a handler reads from its surroundings: what \<^verbatim>\<open>TimeNow\<close> returns when the request is made and when
  the assertion is made, what the clock of the signature validation shows, and the random bytes of the assertion's ID,
  the response's ID, the two signatures and the encryption.\<close>

record idp_env =
  env_Now :: time
  env_AssertionNow :: time
  env_Clock :: time
  env_AssertionID :: string
  env_ResponseID :: string
  env_AssertionSignature :: string
  env_ResponseSignature :: string
  env_Encryption :: enc_random

section \<open>Metadata\<close>

definition idpEncryptionMethods :: "string list" where
  "idpEncryptionMethods =
     [''http://www.w3.org/2001/04/xmlenc#aes128-cbc'', ''http://www.w3.org/2001/04/xmlenc#aes192-cbc'',
      ''http://www.w3.org/2001/04/xmlenc#aes256-cbc'', ''http://www.w3.org/2001/04/xmlenc#rsa-oaep-mgf1p'']"

definition idpKeyDescriptors :: "certificate \<Rightarrow> KeyDescriptor list" where
  "idpKeyDescriptors cert =
     (let certStr = base64Encode (cert_Raw cert) in
      \<lparr>kd_Use = ''signing'', kd_X509Certificates = [certStr], kd_EncryptionMethods = []\<rparr>
      # (if isRSA (cert_PublicKey cert)
         then [\<lparr>kd_Use = ''encryption'', kd_X509Certificates = [certStr], kd_EncryptionMethods = idpEncryptionMethods\<rparr>]
         else []))"

definition idpEndpoints :: "url \<Rightarrow> Endpoint list" where
  "idpEndpoints u =
     [\<lparr>ep_Binding = HTTPRedirectBinding, ep_Location = urlString u, ep_ResponseLocation = []\<rparr>,
      \<lparr>ep_Binding = HTTPPostBinding, ep_Location = urlString u, ep_ResponseLocation = []\<rparr>]"

text \<open>\<^verbatim>\<open>IdentityProvider.Metadata\<close>.\<close>

definition Idp_Metadata :: "IdentityProvider \<Rightarrow> time \<Rightarrow> EntityDescriptor result" where
  "Idp_Metadata idp now =
     bindE (nonNil (idp_Certificate idp)) (\<lambda>cert.
       let validDuration = the_default DefaultValidDuration (idp_ValidDuration idp) in
       Inr \<lparr>ed_EntityID = urlString (idp_MetadataURL idp), ed_ID = [], ed_ValidUntil = now + validDuration,
            ed_CacheDuration = validDuration, ed_Signature = None, ed_RoleDescriptors = [],
            ed_IDPSSODescriptors =
              [\<lparr>rd_ID = [], rd_ValidUntil = None, rd_CacheDuration = [],
                rd_ProtocolSupportEnumeration = SAMLProtocolNS, rd_ErrorURL = [], rd_Signature = None,
                rd_KeyDescriptors = idpKeyDescriptors cert, rd_Organization = None, rd_ContactPeople = [],
                sso_ArtifactResolutionServices = [],
                sso_SingleLogoutServices =
                  (if urlString (idp_LogoutURL idp) \<noteq> [] then idpEndpoints (idp_LogoutURL idp) else []),
                sso_ManageNameIDServices = [], sso_NameIDFormats = [TransientNameIDFormat],
                idps_WantAuthnRequestsSigned = (if idp_WantAuthnRequestsSigned idp then Some True else None),
                idps_SingleSignOnServices = idpEndpoints (idp_SSOURL idp),
                idps_ArtifactResolutionServices = [], idps_NameIDMappingServices = [],
                idps_AssertionIDRequestServices = [], idps_AttributeProfiles = [], idps_Attributes = []\<rparr>],
            ed_SPSSODescriptors = [],
            ed_AuthnAuthorityDescriptors = [], ed_AttributeAuthorityDescriptors = [], ed_PDPDescriptors = [], ed_AffiliationDescriptor = None,
            ed_Organization = None, ed_ContactPerson = None,
            ed_AdditionalMetadataLocations = []\<rparr>)"

text \<open>\<^verbatim>\<open>ServeMetadata\<close>.\<close>

definition ServeMetadata :: "IdentityProvider \<Rightarrow> time \<Rightarrow> http_write list result" where
  "ServeMetadata idp now = bindE (Idp_Metadata idp now) (\<lambda>ed. Inr [WriteMetadata ed])"

section \<open>Signing\<close>

text \<open>\<^verbatim>\<open>IdentityProvider.signingContext\<close>.\<close>

definition idpSignatureMethod :: "IdentityProvider \<Rightarrow> signer \<Rightarrow> string" where
  "idpSignatureMethod idp sg =
     (if idp_SignatureMethod idp \<noteq> [] then idp_SignatureMethod idp
      else (case sg_Public sg of ECDSA_Key _ orderBits _ \<Rightarrow> DefaultECDSASignatureMethod orderBits | _ \<Rightarrow> RSASHA256SignatureMethod))"

definition signingContext :: "IdentityProvider \<Rightarrow> signing_context result" where
  "signingContext idp =
     bindE (nonNil (idp_Certificate idp)) (\<lambda>cert.
       let certificates = cert_Raw cert # map cert_Raw (idp_Intermediates idp);
           sgOpt = (case idp_Signer idp of Some s \<Rightarrow> Some s | None \<Rightarrow> idp_Key idp)
       in case sgOpt of
            None \<Rightarrow> Inl (Err ''identity provider key of type %T does not implement crypto.Signer'')
          | Some sg \<Rightarrow>
              bindE (NewSigningContext (Some sg) certificates) (\<lambda>ctx.
                SetSignatureMethod (ctx\<lparr>ctx_Canonicalizer := C14N10Exclusive canonicalizerPrefixList False\<rparr>)
                  (idpSignatureMethod idp sg)))"

end
