(* ===== verification/Idp_Request.thy ===== *)
theory Idp_Request
  imports Idp_Types
begin

text \<open>
  Reading and validating an AuthnRequest at the identity provider: \<^verbatim>\<open>NewIdpAuthnRequest\<close>, \<^verbatim>\<open>Validate\<close>,
  the signature checks of \<^verbatim>\<open>identity_provider_signature.go\<close>, and the choice of the assertion consumer service.
\<close>

section \<open>Reading the request\<close>

definition maxAuthnRequestBodySize :: nat where "maxAuthnRequestBodySize = 128 * 1024"
definition maxAuthnRequestIDLength :: nat where "maxAuthnRequestIDLength = 256"

definition RedirectQueryFormField :: string where "RedirectQueryFormField = ''SAMLRedirectQuery''"

definition readRedirectQuery :: "externs \<Rightarrow> IdpAuthnRequest \<Rightarrow> string \<Rightarrow> IdpAuthnRequest result" where
  "readRedirectQuery X req rawQuery =
     bindE (readRedirectRequest X rawQuery) (\<lambda>(buf, relayState, signedQuery).
       Inr (req\<lparr>iar_RequestBuffer := buf, iar_RelayState := relayState, iar_RedirectQuery := signedQuery\<rparr>))"

definition NewIdpAuthnRequest :: "externs \<Rightarrow> http_request \<Rightarrow> time \<Rightarrow> IdpAuthnRequest result" where
  "NewIdpAuthnRequest X r now =
     (let req = newRequest r now in
      if rq_Method r = ''GET'' then readRedirectQuery X req (rq_RawQuery r)
      else if rq_Method r = ''POST'' then
        bindE (ParseForm maxAuthnRequestBodySize r) (\<lambda>form.
          let rawQuery = valuesGet form RedirectQueryFormField in
          if rawQuery \<noteq> [] then readRedirectQuery X req rawQuery
          else bindE (base64Decode (valuesGet form ''SAMLRequest'')) (\<lambda>buf.
            Inr (req\<lparr>iar_RequestBuffer := buf, iar_RelayState := valuesGet form ''RelayState''\<rparr>)))
      else Inl (Err ''method not allowed''))"

section \<open>Checks on the content\<close>

definition isValidAuthnRequestID :: "string \<Rightarrow> bool" where
  "isValidAuthnRequestID rid \<longleftrightarrow>
     rid \<noteq> [] \<and> length rid \<le> maxAuthnRequestIDLength \<and>
     list_all (\<lambda>c. isAlnum c \<or> c = CHR ''_'' \<or> c = CHR ''-'' \<or> c = CHR ''.'') rid"

definition checkRequest :: "IdentityProvider \<Rightarrow> IdpAuthnRequest \<Rightarrow> unit result" where
  "checkRequest idp req =
     (let request = iar_Request req;
          sso = urlString (idp_SSOURL idp);
          maxAge = (if idp_MaxAuthnRequestAge idp = 0 then MaxIssueDelay else idp_MaxAuthnRequestAge idp)
      in if (idp_WantAuthnRequestsSigned idp \<or> areq_Destination request \<noteq> []) \<and> areq_Destination request \<noteq> sso
         then Inl (Errorf ''expected destination to be %q, not %q'' [sso, areq_Destination request])
         else if areq_IssueInstant request + maxAge < iar_Now req then Inl (Err ''request expired at %s'')
         else if areq_IssueInstant request > iar_Now req + MaxClockSkew
         then Inl (Err ''request issued in the future at %s'')
         else if areq_Version request \<noteq> ''2.0''
         then Inl (Errorf ''expected SAML request version 2.0 got %v'' [areq_Version request])
         else if \<not> isValidAuthnRequestID (areq_ID request) then Inl (Err ''invalid request ID'')
         else if (case areq_Issuer request of None \<Rightarrow> True | Some i \<Rightarrow> iss_Value i = [])
         then Inl (Err ''request has no issuer'')
         else Inr ())"

text \<open>The expression \<^verbatim>\<open>req.Request.Issuer.Value\<close>.\<close>

definition requestIssuer :: "AuthnRequest \<Rightarrow> string result" where
  "requestIssuer request = bindE (nonNil (areq_Issuer request)) (\<lambda>i. Inr (iss_Value i))"

section \<open>Signatures\<close>

definition serviceProviderSignsAuthnRequests :: "EntityDescriptor \<Rightarrow> bool" where
  "serviceProviderSignsAuthnRequests md \<longleftrightarrow>
     list_ex (\<lambda>d. sps_AuthnRequestsSigned d = Some True) (ed_SPSSODescriptors md)"

text \<open>\<^verbatim>\<open>whitespaceRemover\<close>: space, tab, carriage return and newline.\<close>

definition whitespaceRemover :: "string \<Rightarrow> string" where
  "whitespaceRemover s = filter (\<lambda>c. c \<notin> set [CHR '' '', CHR 0x09, CHR 0x0D, CHR 0x0A]) s"

definition spCertificateData :: "EntityDescriptor \<Rightarrow> string list" where
  "spCertificateData md =
     concat (map (\<lambda>d. concat (map kd_X509Certificates
         (filter (\<lambda>kd. kd_Use kd = ''signing'' \<or> kd_Use kd = []) (rd_KeyDescriptors d))))
       (ed_SPSSODescriptors md))"

definition serviceProviderSigningCertificates :: "externs \<Rightarrow> EntityDescriptor \<Rightarrow> certificate list result" where
  "serviceProviderSigningCertificates X md =
     bindE (mapE (\<lambda>certData.
         bindE (wrapE (Wrapf ''cannot decode service provider certificate: %w'' [])
             (base64Decode (whitespaceRemover certData))) (\<lambda>der.
           wrapE (Wrapf ''cannot parse service provider certificate: %w'' []) (x_ParseCertificates X der)))
         (spCertificateData md))
       (\<lambda>parsed. Inr (concat (map (take 1) parsed)))"

text \<open>\<^verbatim>\<open>verifyEnvelopedSignature\<close>; the last argument is the variable \<^verbatim>\<open>err\<close>, at first nil. Each attempt leaves
  the element as \<open>dropKeyInfo\<close> does.\<close>

fun verifyEnvelopedSignature ::
  "externs \<Rightarrow> time \<Rightarrow> element \<Rightarrow> certificate list \<Rightarrow> element option result \<Rightarrow> element option result" where
  "verifyEnvelopedSignature X clk el [] err = err"
| "verifyEnvelopedSignature X clk el (c # cs) err =
     bindE (signatureValidationContext clk [c] ([], el)) (\<lambda>(vc, detached).
       bindE (tryE (Validate X vc detached)) (\<lambda>r. case r of
           Inr verified \<Rightarrow> Inr verified
         | Inl e \<Rightarrow> verifyEnvelopedSignature X clk (dropKeyInfo el) cs (Inl e)))"

definition useVerifiedRequest ::
  "externs \<Rightarrow> IdentityProvider \<Rightarrow> IdpAuthnRequest \<Rightarrow> element \<Rightarrow> IdpAuthnRequest result" where
  "useVerifiedRequest X idp req verified =
     bindE (requestIssuer (iar_Request req)) (\<lambda>serviceProviderID.
     bindE (unmarshalElement X (x_UnmarshalAuthnRequest X) ([], verified)) (\<lambda>request.
     let req' = req\<lparr>iar_Request := request\<rparr> in
     bindE (checkRequest idp req') (\<lambda>_.
     bindE (requestIssuer request) (\<lambda>issuer.
       if issuer \<noteq> serviceProviderID then Inl (Err ''signed request has a different issuer'') else Inr req'))))"

definition verifyAuthnRequestSignature ::
  "externs \<Rightarrow> time \<Rightarrow> IdentityProvider \<Rightarrow> IdpAuthnRequest \<Rightarrow> IdpAuthnRequest result" where
  "verifyAuthnRequestSignature X clk idp req =
     bindE (x_ReadFromBytes X (iar_RequestBuffer req)) (\<lambda>root.
     case root of
       None \<Rightarrow> Inl (Err ''request has no root element'')
     | Some el \<Rightarrow>
     bindE (findChild ([], el) dsNamespace ''Signature'') (\<lambda>signatureEl.
     bindE (nonNil (iar_ServiceProviderMetadata req)) (\<lambda>md.
     if iar_RedirectQuery req = [] \<and> signatureEl = None
     then (if idp_WantAuthnRequestsSigned idp \<or> serviceProviderSignsAuthnRequests md
           then Inl (Err ''request is not signed'') else Inr req)
     else
       bindE (serviceProviderSigningCertificates X md) (\<lambda>certificates.
       if certificates = []
       then Inl (Err ''request is signed but the service provider has no signing certificate'')
       else
       bindE (if iar_RedirectQuery req \<noteq> []
              then wrapE (Wrapf ''invalid request signature: %w'' [])
                (verifyRedirectSignature X clk (iar_RedirectQuery req) ''SAMLRequest'' certificates)
              else Inr ()) (\<lambda>_.
       bindE (if signatureEl \<noteq> None
              then bindE (wrapE (Wrapf ''invalid request signature: %w'' [])
                  (verifyEnvelopedSignature X clk el certificates (Inr None))) (\<lambda>verified.
                bindE (nonNil verified) (useVerifiedRequest X idp req))
              else Inr req) (\<lambda>req.
         if areq_Destination (iar_Request req) = [] then Inl (Err ''signed request has no destination'')
         else Inr req))))))"

section \<open>The assertion consumer service\<close>

text \<open>The endpoints with their descriptors, in the order in which the nested loops visit them.\<close>

definition acsPairs :: "EntityDescriptor \<Rightarrow> (SPSSODescriptor \<times> IndexedEndpoint) list" where
  "acsPairs md = concat (map (\<lambda>d. map (Pair d) (sps_AssertionConsumerServices d)) (ed_SPSSODescriptors md))"

definition preference :: "IndexedEndpoint \<Rightarrow> nat" where
  "preference endpoint =
     (case iep_IsDefault endpoint of None \<Rightarrow> 2 | Some b \<Rightarrow> if b then 3 else 1)"

text \<open>The loops of \<^verbatim>\<open>useDefaultACSEndpoint\<close>, with the variable \<^verbatim>\<open>best\<close> and the selection so far.\<close>

fun selectBest ::
  "nat \<Rightarrow> (SPSSODescriptor \<times> IndexedEndpoint) option \<Rightarrow> (SPSSODescriptor \<times> IndexedEndpoint) list \<Rightarrow>
   nat \<times> (SPSSODescriptor \<times> IndexedEndpoint) option" where
  "selectBest best sel [] = (best, sel)"
| "selectBest best sel (p # ps) =
     (if iep_Binding (snd p) = HTTPPostBinding \<and> preference (snd p) > best
      then selectBest (preference (snd p)) (Some p) ps
      else selectBest best sel ps)"

definition selectEndpoint ::
  "IdpAuthnRequest \<Rightarrow> (SPSSODescriptor \<times> IndexedEndpoint) option \<Rightarrow> IdpAuthnRequest result" where
  "selectEndpoint req sel =
     (case sel of
        None \<Rightarrow> Inl ErrNotExist
      | Some (d, e) \<Rightarrow> Inr (req\<lparr>iar_SPSSODescriptor := Some d, iar_ACSEndpoint := Some e\<rparr>))"

definition useDefaultACSEndpoint :: "IdpAuthnRequest \<Rightarrow> IdpAuthnRequest result" where
  "useDefaultACSEndpoint req =
     bindE (nonNil (iar_ServiceProviderMetadata req)) (\<lambda>md.
       case selectBest 0 None (acsPairs md) of
         (best, sel) \<Rightarrow> if best = 0 then Inl ErrNotExist else selectEndpoint req sel)"

definition getACSEndpoint :: "IdpAuthnRequest \<Rightarrow> IdpAuthnRequest result" where
  "getACSEndpoint req =
     (let index = areq_ACSIndex (iar_Request req); location = areq_ACSURL (iar_Request req) in
      if index \<noteq> [] \<or> location \<noteq> [] then
        bindE (nonNil (iar_ServiceProviderMetadata req)) (\<lambda>md.
          let search = (\<lambda>match. find (\<lambda>p. iep_Binding (snd p) = HTTPPostBinding \<and> match (snd p)) (acsPairs md)) in
          case search (\<lambda>e. index \<noteq> [] \<and> Itoa (iep_Index e) = index) of
            Some p \<Rightarrow> selectEndpoint req (Some p)
          | None \<Rightarrow> selectEndpoint req (search (\<lambda>e. location \<noteq> [] \<and> iep_Location e = location)))
      else useDefaultACSEndpoint req)"

section \<open>Validation\<close>

text \<open>\<^verbatim>\<open>IdpAuthnRequest.Validate\<close>.\<close>

definition Idp_Validate :: "externs \<Rightarrow> time \<Rightarrow> IdentityProvider \<Rightarrow> IdpAuthnRequest \<Rightarrow> IdpAuthnRequest result" where
  "Idp_Validate X clk idp req =
     bindE (checkAuthnRequestSize (iar_RequestBuffer req)) (\<lambda>_.
     bindE (x_XrvValidate X (iar_RequestBuffer req)) (\<lambda>_.
     bindE (x_UnmarshalAuthnRequest X (iar_RequestBuffer req)) (\<lambda>request.
     let req = req\<lparr>iar_Request := request\<rparr> in
     bindE (checkRequest idp req) (\<lambda>_.
     bindE (requestIssuer request) (\<lambda>serviceProviderID.
     bindE (wrapE (\<lambda>e. if e = ErrNotExist
                     then Errorf ''cannot handle request from unknown service provider %s'' [serviceProviderID]
                     else Wrapf ''cannot find service provider %s: %v'' [serviceProviderID] e)
         (idp_GetServiceProvider idp (iar_HTTPRequest req) serviceProviderID)) (\<lambda>serviceProvider.
     bindE (verifyAuthnRequestSignature X clk idp (req\<lparr>iar_ServiceProviderMetadata := Some serviceProvider\<rparr>)) (\<lambda>req.
       wrapE (Wrapf ''cannot find assertion consumer service: %v'' []) (getACSEndpoint req))))))))"

section \<open>The default endpoint\<close>

text \<open>The rule of SAMLMetadata 2.2.3: among the HTTP-POST endpoints, the first with \<^verbatim>\<open>isDefault\<close> set to true,
  otherwise the first without \<^verbatim>\<open>isDefault\<close> set to false, otherwise the first.\<close>

definition defaultACS :: "EntityDescriptor \<Rightarrow> (SPSSODescriptor \<times> IndexedEndpoint) option" where
  "defaultACS md =
     (let post = filter (\<lambda>p. iep_Binding (snd p) = HTTPPostBinding) (acsPairs md);
          first = (\<lambda>ok. find (\<lambda>p. ok (iep_IsDefault (snd p))) post)
      in case first (\<lambda>d. d = Some True) of Some p \<Rightarrow> Some p
         | None \<Rightarrow> (case first (\<lambda>d. d \<noteq> Some False) of Some p \<Rightarrow> Some p | None \<Rightarrow> first (\<lambda>_. True)))"

definition postPreferred :: "nat \<Rightarrow> SPSSODescriptor \<times> IndexedEndpoint \<Rightarrow> bool" where
  "postPreferred n p \<longleftrightarrow> iep_Binding (snd p) = HTTPPostBinding \<and> preference (snd p) = n"

lemma preference_range: "preference e = 1 \<or> preference e = 2 \<or> preference e = 3"
  by (auto simp: preference_def split: option.splits)

lemma selectBest_find:
  "selectBest best sel ps =
     (case find (postPreferred 3) ps of Some p \<Rightarrow> if best < 3 then (3, Some p) else (best, sel)
      | None \<Rightarrow> (case find (postPreferred 2) ps of Some p \<Rightarrow> if best < 2 then (2, Some p) else (best, sel)
      | None \<Rightarrow> (case find (postPreferred 1) ps of Some p \<Rightarrow> if best < 1 then (1, Some p) else (best, sel)
      | None \<Rightarrow> (best, sel))))"
proof (induction ps arbitrary: best sel)
  case (Cons p ps)
  from preference_range [of "snd p"] Cons show ?case
    by (cases "iep_Binding (snd p) = HTTPPostBinding"; elim disjE)
      (simp_all add: postPreferred_def [of _ p] split: option.split)
qed simp

lemma find_filter: "find P (filter Q xs) = find (\<lambda>x. Q x \<and> P x) xs"
  by (induction xs) auto

lemma find_weaken: "find P xs = None \<Longrightarrow> find (\<lambda>x. P x \<or> Q x) xs = find Q xs"
  by (induction xs) (auto split: if_splits)

text \<open>
  C14. The default assertion consumer service. The single pass of useDefaultACSEndpoint over the endpoints of the
  metadata selects exactly the endpoint that the SAML metadata specification defines as the default, and fails
  exactly when there is no HTTP-POST endpoint.
\<close>

theorem default_acs_selection:
  "useDefaultACSEndpoint req =
     bindE (nonNil (iar_ServiceProviderMetadata req)) (\<lambda>md. selectEndpoint req (defaultACS md))"
proof (cases "iar_ServiceProviderMetadata req")
  case (Some md)
  let ?ps = "acsPairs md" and ?post = "\<lambda>p. iep_Binding (snd p) = HTTPPostBinding"
  have p3: "find (\<lambda>p. ?post p \<and> iep_IsDefault (snd p) = Some True) ?ps = find (postPreferred 3) ?ps"
    by (intro arg_cong [where f = "\<lambda>P. find P ?ps"] ext)
      (auto simp: postPreferred_def preference_def split: option.splits)
  have p2: "find (\<lambda>p. ?post p \<and> iep_IsDefault (snd p) \<noteq> Some False) ?ps
      = find (\<lambda>p. postPreferred 3 p \<or> postPreferred 2 p) ?ps"
    by (intro arg_cong [where f = "\<lambda>P. find P ?ps"] ext)
      (auto simp: postPreferred_def preference_def split: option.splits)
  have p1: "find ?post ?ps = find (\<lambda>p. postPreferred 3 p \<or> postPreferred 2 p \<or> postPreferred 1 p) ?ps"
    by (intro arg_cong [where f = "\<lambda>P. find P ?ps"] ext)
      (auto simp: postPreferred_def preference_def split: option.splits)
  show ?thesis
    by (auto simp: Some useDefaultACSEndpoint_def nonNil_def defaultACS_def Let_def find_filter p3 p2 p1
        selectBest_find find_weaken selectEndpoint_def split: option.splits)
qed (simp add: useDefaultACSEndpoint_def nonNil_def)

section \<open>Validated requests\<close>

lemma selectEndpoint_Inr:
  "selectEndpoint req sel = Inr req' \<longleftrightarrow>
   (\<exists>d e. sel = Some (d, e) \<and> req' = req\<lparr>iar_SPSSODescriptor := Some d, iar_ACSEndpoint := Some e\<rparr>)"
  by (auto simp: selectEndpoint_def split: option.splits)

lemma acsPairs_iff:
  "(d, e) \<in> set (acsPairs md) \<longleftrightarrow> d \<in> set (ed_SPSSODescriptors md) \<and> e \<in> set (sps_AssertionConsumerServices d)"
  by (auto simp: acsPairs_def)

lemma selectBest_mem:
  "selectBest best sel ps = (n, Some p) \<Longrightarrow> p \<in> set ps \<and> iep_Binding (snd p) = HTTPPostBinding \<or> sel = Some p"
  by (induction ps arbitrary: best sel) (fastforce split: if_splits)+

text \<open>What the choice of an endpoint leaves: the request is the same up to the selection, which is an HTTP-POST
  endpoint of the metadata and, where the request names an index or a location, one of that index or location.\<close>

definition endpointSelected :: "EntityDescriptor \<Rightarrow> IdpAuthnRequest \<Rightarrow> bool" where
  "endpointSelected md req \<longleftrightarrow>
     (\<exists>d e. iar_SPSSODescriptor req = Some d \<and> iar_ACSEndpoint req = Some e \<and>
        d \<in> set (ed_SPSSODescriptors md) \<and> e \<in> set (sps_AssertionConsumerServices d) \<and>
        iep_Binding e = HTTPPostBinding \<and>
        (areq_ACSIndex (iar_Request req) = [] \<and> areq_ACSURL (iar_Request req) = [] \<or>
         Itoa (iep_Index e) = areq_ACSIndex (iar_Request req) \<or> iep_Location e = areq_ACSURL (iar_Request req)))"

lemma getACSEndpoint_Inr:
  assumes "getACSEndpoint req = Inr req'"
  obtains md d e where "iar_ServiceProviderMetadata req = Some md" "endpointSelected md req'"
    "req' = req\<lparr>iar_SPSSODescriptor := Some d, iar_ACSEndpoint := Some e\<rparr>"
proof -
  let ?index = "areq_ACSIndex (iar_Request req)" and ?location = "areq_ACSURL (iar_Request req)"
  from assms obtain md where md: "iar_ServiceProviderMetadata req = Some md"
    by (auto simp: getACSEndpoint_def useDefaultACSEndpoint_def Let_def split: if_splits)
  let ?ok = "\<lambda>e. ?index = [] \<and> ?location = [] \<or> Itoa (iep_Index e) = ?index \<or> iep_Location e = ?location"
  have "\<exists>d e. (d, e) \<in> set (acsPairs md) \<and> iep_Binding e = HTTPPostBinding \<and> ?ok e \<and>
      req' = req\<lparr>iar_SPSSODescriptor := Some d, iar_ACSEndpoint := Some e\<rparr>"
  proof (cases "?index = [] \<and> ?location = []")
    case True
    with assms md have "useDefaultACSEndpoint req = Inr req'" by (simp add: getACSEndpoint_def)
    with md True show ?thesis
      by (auto simp: useDefaultACSEndpoint_def selectEndpoint_Inr split: prod.splits if_splits dest!: selectBest_mem) blast
  next
    case False
    let ?search = "\<lambda>match. find (\<lambda>p. iep_Binding (snd p) = HTTPPostBinding \<and> match (snd p)) (acsPairs md)"
    let ?byIndex = "\<lambda>e. ?index \<noteq> [] \<and> Itoa (iep_Index e) = ?index"
    let ?byLocation = "\<lambda>e. ?location \<noteq> [] \<and> iep_Location e = ?location"
    from False assms md have "(case ?search ?byIndex of
        Some p \<Rightarrow> selectEndpoint req (Some p) | None \<Rightarrow> selectEndpoint req (?search ?byLocation)) = Inr req'"
      by (simp add: getACSEndpoint_def nonNil_def Let_def)
    then obtain p where "?search ?byIndex = Some p \<or> ?search ?byLocation = Some p" "selectEndpoint req (Some p) = Inr req'"
      by (cases "?search ?byIndex"; cases "?search ?byLocation") (auto simp: selectEndpoint_def)
    then show ?thesis by (auto simp: selectEndpoint_Inr dest!: find_Some_in) blast+
  qed
  then show ?thesis using md that by (fastforce simp: acsPairs_iff endpointSelected_def)
qed

text \<open>A request that a service provider signed: read from content that one of its signing certificates, valid at
  the time, signs, or from a query whose signature such a certificate verifies.\<close>

definition coveredByQuery :: "externs \<Rightarrow> time \<Rightarrow> certificate \<Rightarrow> string \<Rightarrow> string \<Rightarrow> bool" where
  "coveredByQuery X clk cert buf relayState \<longleftrightarrow>
     (\<exists>ps alg h sig raw m c. verifyDigest X cert alg h (x_Hash X h (signedOctets ''SAMLRequest'' ps)) sig \<and>
        map_of ps ''SAMLRequest'' = Some raw \<and> QueryUnescape raw = Inr m \<and> base64Decode m = Inr c \<and>
        x_Inflate X c = (buf, None) \<and>
        relayState = decodedParameter (map_of ps ''RelayState''))"

definition signedByProvider :: "externs \<Rightarrow> time \<Rightarrow> EntityDescriptor \<Rightarrow> (certificate \<Rightarrow> bool) \<Rightarrow> bool" where
  "signedByProvider X clk md signs \<longleftrightarrow>
     (\<exists>certs. serviceProviderSigningCertificates X md = Inr certs \<and> (\<exists>cert \<in> set certs. certValidAt clk cert \<and> signs cert))"

definition authnRequestSigned :: "externs \<Rightarrow> time \<Rightarrow> EntityDescriptor \<Rightarrow> IdpAuthnRequest \<Rightarrow> bool" where
  "authnRequestSigned X clk md req \<longleftrightarrow>
     signedByProvider X clk md (\<lambda>cert.
       (\<exists>v i. signedContent X cert i v \<and> unmarshalElement X (x_UnmarshalAuthnRequest X) ([], v) = Inr (iar_Request req)) \<or>
       (coveredByQuery X clk cert (iar_RequestBuffer req) (iar_RelayState req) \<and>
        x_UnmarshalAuthnRequest X (iar_RequestBuffer req) = Inr (iar_Request req)))"

lemma signatureValidationContext_vc:
  "signatureValidationContext clk certs nd = Inr (vc, detached) \<Longrightarrow> vc_Certificates vc = certs \<and> vc_Now vc = clk"
  by (auto simp: signatureValidationContext_def NewDefaultValidationContext_def Let_def)

lemma verifyEnvelopedSignature_Inr:
  "verifyEnvelopedSignature X clk el certs err = Inr (Some v) \<Longrightarrow>
   err = Inr (Some v) \<or> (\<exists>cert \<in> set certs. certValidAt clk cert \<and> (\<exists>i. signedContent X cert i v))"
proof (induction certs arbitrary: el err)
  case (Cons c cs)
  from Cons.prems obtain vc detached r where vc: "signatureValidationContext clk [c] ([], el) = Inr (vc, detached)"
      "Validate X vc detached = r"
      "(case r of Inr verified \<Rightarrow> Inr verified | Inl e \<Rightarrow> verifyEnvelopedSignature X clk (dropKeyInfo el) cs (Inl e)) = Inr (Some v)"
    by auto
  show ?case
  proof (cases r)
    case (Inl e)
    with vc Cons.IH [of "dropKeyInfo el" "Inl e"] show ?thesis by auto
  next
    case (Inr w)
    with vc Validate_trusted [of X vc detached v] signatureValidationContext_vc [OF vc(1)] show ?thesis by auto
  qed
qed simp

lemma NewIdpAuthnRequest_redirect:
  assumes "NewIdpAuthnRequest X r now = Inr req" "iar_RedirectQuery req \<noteq> []"
  shows "readRedirectRequest X (iar_RedirectQuery req)
    = Inr (iar_RequestBuffer req, iar_RelayState req, iar_RedirectQuery req)"
proof -
  have sq: "readRedirectRequest X q = Inr (b, rs, sq) \<Longrightarrow> sq \<noteq> [] \<Longrightarrow> readRedirectRequest X sq = Inr (b, rs, sq)"
    for q b rs sq by (auto simp: readRedirectRequest_def Let_def split: if_splits)
  from assms show ?thesis
    by (auto simp: NewIdpAuthnRequest_def readRedirectQuery_def newRequest_def Let_def intro: sq split: if_splits)
qed

lemma NewIdpAuthnRequest_fields:
  "NewIdpAuthnRequest X r now = Inr req \<Longrightarrow> iar_HTTPRequest req = r \<and> iar_Now req = now"
  by (auto simp: NewIdpAuthnRequest_def readRedirectQuery_def newRequest_def Let_def split: if_splits)

lemma requestIssuer_Inr: "requestIssuer a = Inr v \<longleftrightarrow> (\<exists>i. areq_Issuer a = Some i \<and> iss_Value i = v)"
  by (auto simp: requestIssuer_def)


lemma useVerifiedRequest_Inr:
  "useVerifiedRequest X idp req v = Inr req' \<longleftrightarrow>
   (\<exists>request p. unmarshalElement X (x_UnmarshalAuthnRequest X) ([], v) = Inr request \<and>
      req' = req\<lparr>iar_Request := request\<rparr> \<and> checkRequest idp req' = Inr () \<and>
      requestIssuer (iar_Request req) = Inr p \<and> requestIssuer request = Inr p)"
  by (auto simp: useVerifiedRequest_def Let_def)

lemma verifyAuthnRequestSignature_cases:
  assumes "verifyAuthnRequestSignature X clk idp req = Inr req'" "iar_ServiceProviderMetadata req = Some md"
  obtains (unsigned) "req' = req" "\<not> idp_WantAuthnRequestsSigned idp" "\<not> serviceProviderSignsAuthnRequests md"
      "iar_RedirectQuery req = []"
  | (enveloped) certs el v where "serviceProviderSigningCertificates X md = Inr certs"
      "verifyEnvelopedSignature X clk el certs (Inr None) = Inr (Some v)"
      "useVerifiedRequest X idp req v = Inr req'" "areq_Destination (iar_Request req') \<noteq> []"
  | (query) certs where "serviceProviderSigningCertificates X md = Inr certs" "req' = req" "iar_RedirectQuery req \<noteq> []"
      "verifyRedirectSignature X clk (iar_RedirectQuery req) ''SAMLRequest'' certs = Inr ()"
      "areq_Destination (iar_Request req') \<noteq> []"
proof -
  from assms obtain el s where el: "findChild ([], el) dsNamespace ''Signature'' = Inr s"
    "x_ReadFromBytes X (iar_RequestBuffer req) = Inr (Some el)"
    by (auto simp: verifyAuthnRequestSignature_def split: option.splits)
  show ?thesis
  proof (cases "iar_RedirectQuery req = [] \<and> s = None")
    case True
    with assms el show ?thesis
      by (intro unsigned) (auto simp: verifyAuthnRequestSignature_def split: if_splits)
  next
    case False
    with assms el obtain certs where c: "serviceProviderSigningCertificates X md = Inr certs"
        "areq_Destination (iar_Request req') \<noteq> []"
      and q: "iar_RedirectQuery req \<noteq> [] \<Longrightarrow> verifyRedirectSignature X clk (iar_RedirectQuery req) ''SAMLRequest'' certs = Inr ()"
      and v: "(if s \<noteq> None
              then bindE (wrapE (Wrapf ''invalid request signature: %w'' [])
                  (verifyEnvelopedSignature X clk el certs (Inr None))) (\<lambda>verified.
                bindE (nonNil verified) (useVerifiedRequest X idp req))
              else Inr req) = Inr req'"
      by (simp add: verifyAuthnRequestSignature_def nonNil_def split: if_split_asm) auto
    show ?thesis
    proof (cases s)
      case None
      with False c q v show ?thesis by (intro query) auto
    next
      case (Some x)
      with v enveloped [OF c(1) _ _ c(2)] show ?thesis by auto
    qed
  qed
qed


lemma checkRequest_fields:
  "checkRequest idp (req\<lparr>iar_SPSSODescriptor := d, iar_ACSEndpoint := e\<rparr>) = checkRequest idp req"
  "checkRequest idp (req\<lparr>iar_ServiceProviderMetadata := m\<rparr>) = checkRequest idp req"
  "authnRequestSigned X clk md (req\<lparr>iar_SPSSODescriptor := d, iar_ACSEndpoint := e\<rparr>) = authnRequestSigned X clk md req"
  by (simp_all add: checkRequest_def authnRequestSigned_def Let_def)

lemma verified_request:
  assumes empty: "snd (x_Inflate X []) \<noteq> None"
    and ver: "verifyAuthnRequestSignature X clk idp req = Inr req'" "iar_ServiceProviderMetadata req = Some md"
    and check: "checkRequest idp req = Inr ()" "requestIssuer (iar_Request req) = Inr p"
    and buf: "x_UnmarshalAuthnRequest X (iar_RequestBuffer req) = Inr (iar_Request req)"
    and query: "iar_RedirectQuery req \<noteq> [] \<Longrightarrow> readRedirectRequest X (iar_RedirectQuery req)
      = Inr (iar_RequestBuffer req, iar_RelayState req, iar_RedirectQuery req)"
  shows "req' = req\<lparr>iar_Request := iar_Request req'\<rparr> \<and> checkRequest idp req' = Inr () \<and>
    requestIssuer (iar_Request req') = Inr p \<and>
    (authnRequestSigned X clk md req' \<or> \<not> (idp_WantAuthnRequestsSigned idp \<or> serviceProviderSignsAuthnRequests md))"
  using ver
proof (cases rule: verifyAuthnRequestSignature_cases)
  case unsigned
  with check show ?thesis by simp
next
  case (enveloped certs el v)
  with check(2) verifyEnvelopedSignature_Inr [OF enveloped(2)] show ?thesis
    by (auto simp: useVerifiedRequest_Inr authnRequestSigned_def signedByProvider_def) blast+
next
  case (query certs)
  from verified_query_covers [OF empty assms(7) [OF query(3)] query(4)] obtain cert where
    "cert \<in> set certs" "certValidAt clk cert" "coveredByQuery X clk cert (iar_RequestBuffer req) (iar_RelayState req)"
    unfolding coveredByQuery_def by blast
  with query check buf show ?thesis by (auto simp: authnRequestSigned_def signedByProvider_def)
qed

text \<open>
  C13. Validated authentication requests are authenticated and answered at a known address. If a request is read and
  validated, then its issuer is a service provider that the identity provider knows, its content passes the checks of
  destination, age, version and ID, and the endpoint for the response is an HTTP-POST assertion consumer service in
  that service provider's metadata, with the index or the location that the request asks for, if it asks for any. If
  the identity provider or any role of the service provider requires signed requests, then the request in use is read
  from content that a signing certificate of the service provider signs, or from the query that such a certificate's
  signature covers. (Inflating no data ends with an error.)
\<close>

theorem authn_request_authenticated:
  assumes "snd (x_Inflate X []) \<noteq> None" "NewIdpAuthnRequest X r now = Inr req0" "Idp_Validate X clk idp req0 = Inr req"
  shows "\<exists>md i. areq_Issuer (iar_Request req) = Some i \<and> idp_GetServiceProvider idp r (iss_Value i) = Inr md \<and>
    checkRequest idp req = Inr () \<and> endpointSelected md req \<and>
    (authnRequestSigned X clk md req \<or> \<not> (idp_WantAuthnRequestsSigned idp \<or> serviceProviderSignsAuthnRequests md))"
proof -
  note req0 = NewIdpAuthnRequest_fields [OF assms(2)]
  from assms(3) obtain request p md req1 where v:
      "x_UnmarshalAuthnRequest X (iar_RequestBuffer req0) = Inr request"
      "checkRequest idp (req0\<lparr>iar_Request := request\<rparr>) = Inr ()" "requestIssuer request = Inr p"
      "idp_GetServiceProvider idp r p = Inr md"
      "verifyAuthnRequestSignature X clk idp (req0\<lparr>iar_Request := request, iar_ServiceProviderMetadata := Some md\<rparr>) = Inr req1"
      "getACSEndpoint req1 = Inr req"
    using req0 by (auto simp: Idp_Validate_def Let_def)
  let ?req = "req0\<lparr>iar_Request := request, iar_ServiceProviderMetadata := Some md\<rparr>"
  have q: "readRedirectRequest X (iar_RedirectQuery ?req) = Inr (iar_RequestBuffer ?req, iar_RelayState ?req, iar_RedirectQuery ?req)"
    if "iar_RedirectQuery ?req \<noteq> []" using NewIdpAuthnRequest_redirect [OF assms(2)] that by simp
  have r1: "req1 = ?req\<lparr>iar_Request := iar_Request req1\<rparr>" "checkRequest idp req1 = Inr ()"
      "requestIssuer (iar_Request req1) = Inr p"
      "authnRequestSigned X clk md req1 \<or> \<not> (idp_WantAuthnRequestsSigned idp \<or> serviceProviderSignsAuthnRequests md)"
    using verified_request [OF assms(1) v(5) _ _ _ _ q, of md p] v(1-3) by (simp_all add: checkRequest_fields)
  obtain md' d e where e: "iar_ServiceProviderMetadata req1 = Some md'" "endpointSelected md' req"
      "req = req1\<lparr>iar_SPSSODescriptor := Some d, iar_ACSEndpoint := Some e\<rparr>"
    using getACSEndpoint_Inr [OF v(6)] .
  from r1(1) have "iar_ServiceProviderMetadata req1 = Some md"
    by (metis IdpAuthnRequest.select_convs(5) IdpAuthnRequest.surjective IdpAuthnRequest.update_convs(4,5))
  with e r1 v(4) show ?thesis by (auto simp: checkRequest_fields requestIssuer_Inr)
qed


text \<open>An identity provider, the metadata of a service provider that signs its requests, and a signed request.\<close>

definition exampleACS :: IndexedEndpoint where
  "exampleACS = \<lparr>iep_Binding = HTTPPostBinding, iep_Location = ''acs'', iep_ResponseLocation = None, iep_Index = 1,
     iep_IsDefault = None\<rparr>"

definition exampleSPSSO :: SPSSODescriptor where
  "exampleSPSSO = \<lparr>rd_ID = [], rd_ValidUntil = None, rd_CacheDuration = [],
     rd_ProtocolSupportEnumeration = SAMLProtocolNS, rd_ErrorURL = [], rd_Signature = None,
     rd_KeyDescriptors = [\<lparr>kd_Use = ''signing'', kd_X509Certificates = [base64Encode ''key''], kd_EncryptionMethods = []\<rparr>],
     rd_Organization = None, rd_ContactPeople = [], sso_ArtifactResolutionServices = [],
     sso_SingleLogoutServices = [\<lparr>ep_Binding = HTTPPostBinding, ep_Location = ''slo'', ep_ResponseLocation = []\<rparr>],
     sso_ManageNameIDServices = [], sso_NameIDFormats = [], sps_AuthnRequestsSigned = Some True,
     sps_WantAssertionsSigned = Some True, sps_AssertionConsumerServices = [exampleACS],
     sps_AttributeConsumingServices = []\<rparr>"

definition exampleSpMetadata :: EntityDescriptor where
  "exampleSpMetadata = exampleIdpMetadata\<lparr>ed_EntityID := ''sp'', ed_SPSSODescriptors := [exampleSPSSO]\<rparr>"

definition exampleAuthnRequest :: AuthnRequest where
  "exampleAuthnRequest = zeroAuthnRequest\<lparr>areq_ID := ''id'', areq_Version := ''2.0'', areq_IssueInstant := 5,
     areq_Destination := ''sso'', areq_Issuer := Some (entityIssuer ''sp'')\<rparr>"

definition exampleSession :: Session where
  "exampleSession = \<lparr>ses_ID = ''s'', ses_CreateTime = 5, ses_ExpireTime = 6, ses_Index = ''i'', ses_NameID = ''alice'',
     ses_NameIDFormat = [], ses_SubjectID = [], ses_Groups = [], ses_UserName = ''alice'', ses_UserEmail = [],
     ses_UserCommonName = [], ses_UserSurname = [], ses_UserGivenName = [], ses_UserScopedAffiliation = [],
     ses_EduPersonPrincipalName = [], ses_CustomAttributes = [], ses_AuthnContextClassRef = [], ses_ClientAddress = []\<rparr>"

definition exampleIdp :: IdentityProvider where
  "exampleIdp = \<lparr>idp_Key = Some exampleSigner, idp_Signer = None, idp_Certificate = Some (exampleCert ''key''),
     idp_Intermediates = [], idp_MaxAuthnRequestAge = 0, idp_MetadataURL = exampleURL ''idp'',
     idp_SSOURL = exampleURL ''sso'', idp_LoginURL = exampleURL ''login'', idp_LogoutURL = exampleURL ''idpslo'',
     idp_GetServiceProvider = (\<lambda>_ p. if p = ''sp'' then Inr exampleSpMetadata else Inl ErrNotExist),
     idp_SessionProvider = \<lparr>spr_GetSession = (\<lambda>_ _. ([], Some exampleSession)), spr_GetPassiveSession = None,
       spr_GetForcedSession = None, spr_TerminateSession = Some (\<lambda>_ _. ([], Inr ()))\<rparr>,
     idp_AssertionMaker = None, idp_SignatureMethod = [], idp_ValidDuration = None, idp_ResponseFormTemplate = None,
     idp_WantAuthnRequestsSigned = True, idp_NameIDPolicyEnforcer = None, idp_AuthnContextEnforcer = None,
     idp_SubjectEnforcer = None\<rparr>"

definition exampleIdpX :: externs where
  "exampleIdpX = exampleSpX\<lparr>x_UnmarshalAuthnRequest := (\<lambda>_. Inr exampleAuthnRequest),
     x_ParseCertificates := (\<lambda>d. Inr [exampleCert d])\<rparr>"

lemma exampleIdpX_sel [simp]:
  "x_UnmarshalAuthnRequest exampleIdpX d = Inr exampleAuthnRequest"
  "x_ParseCertificates exampleIdpX d = Inr [exampleCert d]"
  "x_ReadFromBytes exampleIdpX = x_ReadFromBytes exampleSpX" "x_XrvValidate exampleIdpX d = Inr ()"
  "x_WriteToBytes exampleIdpX = el_Tag" "x_Inflate exampleIdpX = x_Inflate exampleSpX"
  by (simp_all add: exampleIdpX_def)

lemma exampleIdpX_signs: "signsExample exampleIdpX"
  using exampleSpX_signs by (simp add: exampleIdpX_def signsExample_def)

definition exampleAuthnHTTP :: http_request where
  "exampleAuthnHTTP = \<lparr>rq_Method = ''POST'', rq_Path = ''/sso'', rq_RawQuery = [], rq_FormType = True,
     rq_Body = Some ''SAMLRequest=WA%3D%3D'', rq_RemoteAddr = ''192.0.2.1:1000'', rq_Cookies = [],
     rq_Header = [], rq_TLS = True, rq_Scheme = [], rq_URL = ''/sso'', rq_PathValues = []\<rparr>"

definition exampleReq0 :: IdpAuthnRequest where
  "exampleReq0 = (newRequest exampleAuthnHTTP 5)\<lparr>iar_RequestBuffer := ''X''\<rparr>"

definition exampleReq :: IdpAuthnRequest where
  "exampleReq = exampleReq0\<lparr>iar_Request := exampleAuthnRequest, iar_ServiceProviderMetadata := Some exampleSpMetadata,
     iar_SPSSODescriptor := Some exampleSPSSO, iar_ACSEndpoint := Some exampleACS\<rparr>"

lemma exampleReq0_read: "NewIdpAuthnRequest exampleIdpX exampleAuthnHTTP 5 = Inr exampleReq0"
proof -
  have "ParseForm maxAuthnRequestBodySize exampleAuthnHTTP = Inr [(''SAMLRequest'', ''WA=='')]"
    by (simp add: ParseForm_def exampleAuthnHTTP_def maxAuthnRequestBodySize_def queryError_def parsePair_def cutAt_def
        ParseQuery_def map_filter_simps unhex_def byte_def char_of_def bit_0)
  moreover have "base64Decode ''WA=='' = Inr ''X''" by code_simp
  moreover have "rq_Method exampleAuthnHTTP = ''POST''" by (simp add: exampleAuthnHTTP_def)
  ultimately show ?thesis
    by (simp add: NewIdpAuthnRequest_def RedirectQueryFormField_def valuesGet_def exampleReq0_def newRequest_def)
qed

lemma exampleReq_check: "checkRequest exampleIdp (exampleReq0\<lparr>iar_Request := exampleAuthnRequest\<rparr>) = Inr ()"
  by (simp add: checkRequest_def exampleIdp_def exampleAuthnRequest_def zeroAuthnRequest_def exampleReq0_def newRequest_def
      MaxIssueDelay_def MaxClockSkew_def ns_defs entityIssuer_def isValidAuthnRequestID_def maxAuthnRequestIDLength_def
      isAlnum_def byte_def)

lemma whitespaceRemover_base64 [simp]: "whitespaceRemover (base64Encode s) = base64Encode s"
proof -
  have "c \<notin> set [CHR '' '', CHR 0x09, CHR 0x0D, CHR 0x0A]" if "c \<in> set (base64Encode s)" for c
    using base64Encode_printable [OF that] by (auto simp: byte_def)
  then show ?thesis unfolding whitespaceRemover_def by (rule filter_True [OF ballI])
qed

lemma exampleSpMetadata_certificates:
  "serviceProviderSigningCertificates exampleIdpX exampleSpMetadata = Inr [exampleCert ''key'']"
  by (simp add: serviceProviderSigningCertificates_def spCertificateData_def exampleSpMetadata_def exampleSPSSO_def
      del: base64Encode.simps)

lemma exampleReq_validated: "Idp_Validate exampleIdpX 5 exampleIdp exampleReq0 = Inr exampleReq"
proof -
  let ?r = "exampleReq0\<lparr>iar_Request := exampleAuthnRequest, iar_ServiceProviderMetadata := Some exampleSpMetadata\<rparr>"
  have sel: "iar_RequestBuffer exampleReq0 = ''X''" "iar_RedirectQuery exampleReq0 = []"
    by (simp_all add: exampleReq0_def newRequest_def)
  have env: "verifyEnvelopedSignature exampleIdpX 5 exampleSigned [exampleCert ''key''] (Inr None) = Inr (Some exampleContent)"
    using exampleSigned_valid [OF exampleIdpX_signs, of exampleContent] by (simp add: exampleSigned_context tryE_def)
  have "unmarshalElement exampleIdpX (x_UnmarshalAuthnRequest exampleIdpX) ([], exampleContent) = Inr exampleAuthnRequest"
    by (simp add: unmarshalElement_def elementToBytes_def exampleContent_def samlDecl_def walk_defs)
  moreover have issuer: "requestIssuer exampleAuthnRequest = Inr ''sp''"
    by (simp add: exampleAuthnRequest_def requestIssuer_def nonNil_def entityIssuer_def)
  ultimately have use: "useVerifiedRequest exampleIdpX exampleIdp ?r exampleContent = Inr ?r"
    using exampleReq_check by (simp add: useVerifiedRequest_Inr checkRequest_fields)
  obtain c where c: "findChild ([], exampleSigned) dsNamespace ''Signature'' = Inr (Some c)"
    using exampleSigned_signature by blast
  have dest: "areq_Destination exampleAuthnRequest = ''sso''" by (simp add: exampleAuthnRequest_def)
  have "verifyAuthnRequestSignature exampleIdpX 5 exampleIdp ?r = Inr ?r"
    by (simp add: verifyAuthnRequestSignature_def sel nonNil_def exampleSpMetadata_certificates c env use dest
        del: verifyEnvelopedSignature.simps)
  moreover have "getACSEndpoint ?r = Inr exampleReq"
    by (simp add: getACSEndpoint_def exampleAuthnRequest_def zeroAuthnRequest_def useDefaultACSEndpoint_def nonNil_def
        acsPairs_def exampleSpMetadata_def exampleSPSSO_def exampleACS_def preference_def selectEndpoint_def exampleReq_def)
  moreover have "checkAuthnRequestSize ''X'' = Inr ()"
    by (simp add: checkAuthnRequestSize_def maxAuthnRequestSize_def)
  ultimately show ?thesis using exampleReq_check issuer
    by (simp add: Idp_Validate_def sel exampleIdp_def)
qed

theorem authn_request_authenticated_witness:
  "\<exists>md i. areq_Issuer (iar_Request exampleReq) = Some i \<and>
    idp_GetServiceProvider exampleIdp exampleAuthnHTTP (iss_Value i) = Inr md \<and>
    checkRequest exampleIdp exampleReq = Inr () \<and> endpointSelected md exampleReq \<and>
    (authnRequestSigned exampleIdpX 5 md exampleReq \<or>
     \<not> (idp_WantAuthnRequestsSigned exampleIdp \<or> serviceProviderSignsAuthnRequests md))"
  by (rule authn_request_authenticated [OF _ exampleReq0_read exampleReq_validated])
    (simp add: exampleSpX_def exampleSignedX_def exampleX_def)

end
