(* ===== verification/Idp_Assertion.thy ===== *)
theory Idp_Assertion
  imports Idp_Request
begin

text \<open>
  Making an assertion and deciding whether it may be sent: the default assertion maker and the default enforcers of
  the authentication context, the subject and the name identifier policy (\<^verbatim>\<open>identity_provider.go\<close>).
\<close>

section \<open>The authentication context\<close>

definition AuthnContextComparisonExact :: string where "AuthnContextComparisonExact = ''exact''"
definition AuthnContextComparisonMinimum :: string where "AuthnContextComparisonMinimum = ''minimum''"
definition AuthnContextComparisonMaximum :: string where "AuthnContextComparisonMaximum = ''maximum''"
definition AuthnContextComparisonBetter :: string where "AuthnContextComparisonBetter = ''better''"

lemmas comparison_defs = AuthnContextComparisonExact_def AuthnContextComparisonMinimum_def
  AuthnContextComparisonMaximum_def AuthnContextComparisonBetter_def

text \<open>The method \<^verbatim>\<open>compare\<close> of a \<^verbatim>\<open>DefaultAuthnContextEnforcer\<close>, on its field \<^verbatim>\<open>Strength\<close>.\<close>

definition compareStrength :: "(string \<times> int) list \<Rightarrow> string \<Rightarrow> string \<Rightarrow> int" where
  "compareStrength strength a b =
     (case (map_of strength a, map_of strength b) of (Some x, Some y) \<Rightarrow> sgn (x - y) | _ \<Rightarrow> 0)"

text \<open>The function that the switch on the comparison selects.\<close>

definition satisfiesComparison :: "(string \<times> int) list \<Rightarrow> string \<Rightarrow> (string \<Rightarrow> string \<Rightarrow> bool) option" where
  "satisfiesComparison strength comparison =
     (if comparison = [] \<or> comparison = AuthnContextComparisonExact then Some (\<lambda>asserted cls. asserted = cls)
      else if comparison = AuthnContextComparisonMinimum
      then Some (\<lambda>asserted cls. asserted = cls \<or> compareStrength strength asserted cls > 0)
      else if comparison = AuthnContextComparisonMaximum
      then Some (\<lambda>asserted cls. asserted = cls \<or> compareStrength strength asserted cls < 0)
      else if comparison = AuthnContextComparisonBetter
      then Some (\<lambda>asserted cls. compareStrength strength asserted cls > 0)
      else None)"

text \<open>The loop over the authentication statements.\<close>

fun enforceStatements :: "(string \<Rightarrow> string \<Rightarrow> bool) \<Rightarrow> RequestedAuthnContext \<Rightarrow> AuthnStatement list \<Rightarrow> unit result" where
  "enforceStatements sat requested [] = Inr ()"
| "enforceStatements sat requested (st # sts) =
     (case ac_ClassRef (as_AuthnContext st) of
        None \<Rightarrow> Inl (Err ''an AuthnStatement has no AuthnContextClassRef'')
      | Some asserted \<Rightarrow>
          if list_ex (sat asserted) (rac_ClassRefs requested) then enforceStatements sat requested sts
          else Inl (Errorf ''the asserted class %q doesn't satisfy the %q comparison'' [asserted, rac_Comparison requested]))"

definition EnforceAuthnContext :: "(string \<times> int) list \<Rightarrow> IdpAuthnRequest \<Rightarrow> unit result" where
  "EnforceAuthnContext strength req =
     bindE (nonNil (areq_RequestedAuthnContext (iar_Request req))) (\<lambda>requested.
       if rac_DeclRefs requested \<noteq> []
       then Inl (Err ''the request requires an AuthnContextDeclRef, which is not supported'')
       else (case satisfiesComparison strength (rac_Comparison requested) of
          None \<Rightarrow> Inl (Errorf ''unknown comparison %q'' [rac_Comparison requested])
        | Some sat \<Rightarrow>
            (case iar_Assertion req of
               None \<Rightarrow> Inl (Err ''assertion has no AuthnStatement'')
             | Some a \<Rightarrow>
                 if asr_AuthnStatements a = [] then Inl (Err ''assertion has no AuthnStatement'')
                 else enforceStatements sat requested (asr_AuthnStatements a))))"

section \<open>The subject\<close>

definition sameNameID :: "NameID option \<Rightarrow> NameID option \<Rightarrow> bool" where
  "sameNameID requested asserted \<longleftrightarrow> requested = None \<or> requested = asserted"

definition sameAddress :: "externs \<Rightarrow> string \<Rightarrow> string \<Rightarrow> bool" where
  "sameAddress X a b =
     (case x_ParseAddr X a of None \<Rightarrow> False | Some x \<Rightarrow> x_ParseAddr X b = Some x)"

definition satisfiesConfirmationData ::
  "externs \<Rightarrow> SubjectConfirmationData option \<Rightarrow> SubjectConfirmationData option \<Rightarrow> bool" where
  "satisfiesConfirmationData X requested asserted =
     (case requested of
        None \<Rightarrow> True
      | Some want \<Rightarrow>
          (case asserted of
             None \<Rightarrow> False
           | Some have_ \<Rightarrow>
               \<not> (scd_Recipient want \<noteq> [] \<and> scd_Recipient want \<noteq> scd_Recipient have_) \<and>
               \<not> (scd_InResponseTo want \<noteq> [] \<and> scd_InResponseTo want \<noteq> scd_InResponseTo have_) \<and>
               \<not> (scd_Address want \<noteq> [] \<and> \<not> sameAddress X (scd_Address want) (scd_Address have_)) \<and>
               \<not> (scd_NotBefore want \<noteq> 0 \<and> scd_NotBefore have_ < scd_NotBefore want) \<and>
               \<not> (scd_NotOnOrAfter want \<noteq> 0 \<and>
                  (scd_NotOnOrAfter have_ = 0 \<or> scd_NotOnOrAfter have_ > scd_NotOnOrAfter want))))"

definition confirmsSubject :: "externs \<Rightarrow> SubjectConfirmation list \<Rightarrow> SubjectConfirmation list \<Rightarrow> bool" where
  "confirmsSubject X requested asserted \<longleftrightarrow>
     requested = [] \<or>
     list_ex (\<lambda>want. scf_Method want = bearerSubjectConfirmationMethod \<and>
       list_ex (\<lambda>h. scf_Method h = scf_Method want \<and> sameNameID (scf_NameID want) (scf_NameID h) \<and>
         satisfiesConfirmationData X (scf_Data want) (scf_Data h)) asserted) requested"

text \<open>The NameID of the assertion, where the two enforcers test for one.\<close>

definition assertedSubject :: "IdpAuthnRequest \<Rightarrow> (Subject \<times> NameID) result" where
  "assertedSubject req =
     (case iar_Assertion req of
        None \<Rightarrow> Inl (Err ''assertion has no NameID'')
      | Some a \<Rightarrow>
          (case asr_Subject a of
             None \<Rightarrow> Inl (Err ''assertion has no NameID'')
           | Some s \<Rightarrow>
               (case subj_NameID s of None \<Rightarrow> Inl (Err ''assertion has no NameID'') | Some n \<Rightarrow> Inr (s, n))))"

definition formatOpen :: "string \<Rightarrow> bool" where
  "formatOpen f \<longleftrightarrow> f = [] \<or> f = UnspecifiedNameIDFormat \<or> f = unspecifiedNameIDFormat"

definition EnforceSubject :: "externs \<Rightarrow> IdpAuthnRequest \<Rightarrow> unit result" where
  "EnforceSubject X req =
     bindE (nonNil (areq_Subject (iar_Request req))) (\<lambda>subject.
     case subj_NameID subject of
       None \<Rightarrow> Inl (Err ''the request Subject has no NameID'')
     | Some requested \<Rightarrow>
       if nid_Value requested = [] then Inl (Err ''the request Subject has no NameID'')
       else bindE (assertedSubject req) (\<lambda>(assertedSubj, asserted).
         if nid_Value asserted \<noteq> nid_Value requested
         then Inl (Err ''the assertion is for another principal than the request names'')
         else if \<not> formatOpen (nid_Format requested) \<and> nid_Format asserted \<noteq> nid_Format requested
         then Inl (Errorf ''the NameID format is %q and the request names %q'' [nid_Format asserted, nid_Format requested])
         else (case find (\<lambda>(_, want, got). want \<noteq> [] \<and> want \<noteq> got)
                 [(''NameQualifier'', nid_NameQualifier requested, nid_NameQualifier asserted),
                  (''SPNameQualifier'', nid_SPNameQualifier requested, nid_SPNameQualifier asserted),
                  (''SPProvidedID'', nid_SPProvidedID requested, nid_SPProvidedID asserted)] of
             Some (name, want, got) \<Rightarrow> Inl (Errorf ''the NameID %s is %q and the request names %q'' [name, got, want])
           | None \<Rightarrow>
               checkE (confirmsSubject X (subj_Confirmations subject) (subj_Confirmations assertedSubj))
                 (Err ''the assertion can't be confirmed in a manner the request accepts''))))"

section \<open>The name identifier policy\<close>

definition EnforceNameIDPolicy :: "IdpAuthnRequest \<Rightarrow> unit result" where
  "EnforceNameIDPolicy req =
     bindE (assertedSubject req) (\<lambda>(_, nameID).
     bindE (nonNil (areq_NameIDPolicy (iar_Request req))) (\<lambda>policy.
     bindE
       (case np_Format policy of
          None \<Rightarrow> Inr ()
        | Some f \<Rightarrow>
            if formatOpen f then Inr ()
            else if f = encryptedNameIDFormat
            then Inl (Err ''the request requires an EncryptedID, which is not supported'')
            else checkE (nid_Format nameID = f)
              (Errorf ''the NameID format is %q and the request requires %q'' [nid_Format nameID, f]))
       (\<lambda>_. case np_SPNameQualifier policy of
          None \<Rightarrow> Inr ()
        | Some q \<Rightarrow> checkE (nid_SPNameQualifier nameID = q)
            (Errorf ''the NameID SPNameQualifier is %q and the request requires %q'' [nid_SPNameQualifier nameID, q]))))"

section \<open>Attributes\<close>

definition xsString :: "string \<Rightarrow> AttributeValue" where
  "xsString v = \<lparr>av_Type = ''xs:string'', av_Value = v, av_NameID = None\<rparr>"

definition uriAttribute :: "string \<Rightarrow> string \<Rightarrow> string list \<Rightarrow> Attribute" where
  "uriAttribute friendlyName name values = \<lparr>att_FriendlyName = friendlyName, att_Name = name,
     att_NameFormat = ''urn:oasis:names:tc:SAML:2.0:attrname-format:uri'', att_Values = map xsString values\<rparr>"

text \<open>The service whose attributes are asserted: the first with \<^verbatim>\<open>IsDefault\<close>, or else the first.\<close>

definition requestedAttributes :: "AttributeConsumingService list \<Rightarrow> RequestedAttribute list" where
  "requestedAttributes services =
     (case find (\<lambda>s. acs_IsDefault s = Some True) services of
        Some s \<Rightarrow> acs_RequestedAttributes s
      | None \<Rightarrow> (case services of [] \<Rightarrow> [] | s # _ \<Rightarrow> acs_RequestedAttributes s))"

text \<open>The value for the name of a requested attribute, less all characters but letters and digits.\<close>

definition attributeValue :: "Session \<Rightarrow> string \<Rightarrow> string option" where
  "attributeValue session attrName =
     (if attrName \<in> set [''email'', ''emailaddress''] then Some (ses_UserEmail session)
      else if attrName \<in> set [''name'', ''fullname'', ''cn'', ''commonname''] then Some (ses_UserCommonName session)
      else if attrName \<in> set [''givenname'', ''firstname''] then Some (ses_UserGivenName session)
      else if attrName \<in> set [''surname'', ''lastname'', ''familyname''] then Some (ses_UserSurname session)
      else if attrName \<in> set [''uid'', ''user'', ''userid''] then Some (ses_UserName session)
      else None)"

definition requestedAttribute :: "Session \<Rightarrow> RequestedAttribute \<Rightarrow> Attribute option" where
  "requestedAttribute session ra =
     (if att_NameFormat ra = ''urn:oasis:names:tc:SAML:2.0:attrname-format:basic'' \<or>
         att_NameFormat ra = ''urn:oasis:names:tc:SAML:2.0:attrname-format:unspecified''
      then map_option (\<lambda>v. \<lparr>att_FriendlyName = att_FriendlyName ra, att_Name = att_Name ra,
             att_NameFormat = att_NameFormat ra, att_Values = [xsString v]\<rparr>)
           (attributeValue session (filter isAlnum (att_Name ra)))
      else None)"

text \<open>The attributes that follow the requested ones. An attribute for a field is made when the field is set.\<close>

definition fieldAttribute :: "string \<Rightarrow> string \<Rightarrow> string \<Rightarrow> Attribute list" where
  "fieldAttribute friendlyName name v = (if v \<noteq> [] then [uriAttribute friendlyName name [v]] else [])"

definition sessionAttributes :: "Session \<Rightarrow> Attribute list" where
  "sessionAttributes session =
     fieldAttribute ''uid'' ''urn:oid:0.9.2342.19200300.100.1.1'' (ses_UserName session)
     @ fieldAttribute ''mail'' ''urn:oid:0.9.2342.19200300.100.1.3'' (ses_UserEmail session)
     @ fieldAttribute ''eduPersonPrincipalName'' ''urn:oid:1.3.6.1.4.1.5923.1.1.1.6''
         (if ses_EduPersonPrincipalName session = [] then ses_UserEmail session else ses_EduPersonPrincipalName session)
     @ fieldAttribute ''sn'' ''urn:oid:2.5.4.4'' (ses_UserSurname session)
     @ fieldAttribute ''givenName'' ''urn:oid:2.5.4.42'' (ses_UserGivenName session)
     @ fieldAttribute ''cn'' ''urn:oid:2.5.4.3'' (ses_UserCommonName session)
     @ fieldAttribute ''scopedAffiliation'' ''urn:oid:1.3.6.1.4.1.5923.1.1.1.9'' (ses_UserScopedAffiliation session)
     @ ses_CustomAttributes session
     @ (if ses_Groups session \<noteq> []
        then [uriAttribute ''eduPersonAffiliation'' ''urn:oid:1.3.6.1.4.1.5923.1.1.1.1'' (ses_Groups session)] else [])
     @ fieldAttribute [] ''urn:oasis:names:tc:SAML:attribute:subject-id'' (ses_SubjectID session)"

definition assertionAttributes :: "SPSSODescriptor \<Rightarrow> Session \<Rightarrow> Attribute list" where
  "assertionAttributes d session =
     List.map_filter (requestedAttribute session) (requestedAttributes (sps_AttributeConsumingServices d))
     @ sessionAttributes session"

section \<open>The default assertion\<close>

definition clientAddress :: "externs \<Rightarrow> http_request \<Rightarrow> Session \<Rightarrow> string" where
  "clientAddress X r session =
     (let address = (if ses_ClientAddress session = []
            then (case x_SplitHostPort X (rq_RemoteAddr r) of Inl _ \<Rightarrow> rq_RemoteAddr r | Inr host \<Rightarrow> host)
            else ses_ClientAddress session)
      in case x_ParseAddr X address of None \<Rightarrow> [] | Some ip \<Rightarrow> x_AddrString X (ip\<lparr>ip_Zone := []\<rparr>))"

text \<open>The assertion that \<^verbatim>\<open>MakeAssertion\<close> assigns: from the identifiers of the two providers, of the assertion and
  of the request, the location of the endpoint, the address of the client, the time of the request and of the
  assertion, the attributes and the session.\<close>

definition defaultAssertion ::
  "string \<Rightarrow> string \<Rightarrow> string \<Rightarrow> string \<Rightarrow> string \<Rightarrow> string \<Rightarrow> time \<Rightarrow> time \<Rightarrow> Attribute list \<Rightarrow> Session \<Rightarrow> Assertion" where
  "defaultAssertion idpID spID assertionID requestID recipient address now issued attributes session =
         \<lparr>asr_ID = assertionID, asr_IssueInstant = issued, asr_Version = ''2.0'',
          asr_Issuer = entityIssuer idpID, asr_Signature = None,
          asr_Subject = Some
            \<lparr>subj_NameID = Some
               \<lparr>nid_NameQualifier = idpID, nid_SPNameQualifier = spID,
                nid_Format = (if ses_NameIDFormat session \<noteq> [] then ses_NameIDFormat session else TransientNameIDFormat),
                nid_SPProvidedID = [], nid_Value = ses_NameID session\<rparr>,
             subj_Confirmations =
               [\<lparr>scf_Method = bearerSubjectConfirmationMethod, scf_NameID = None,
                 scf_Data = Some \<lparr>scd_NotBefore = 0, scd_NotOnOrAfter = now + MaxIssueDelay,
                   scd_Recipient = recipient, scd_InResponseTo = requestID,
                   scd_Address = address\<rparr>\<rparr>]\<rparr>,
          asr_Conditions = Some
            \<lparr>cond_NotBefore = now - MaxClockSkew, cond_NotOnOrAfter = now + MaxIssueDelay,
             cond_AudienceRestrictions = [\<lparr>ar_Audiences = [\<lparr>aud_Value = spID\<rparr>]\<rparr>],
             cond_OneTimeUse = None, cond_ProxyRestriction = None\<rparr>,
          asr_AuthnStatements =
            [\<lparr>as_AuthnInstant = ses_CreateTime session, as_SessionIndex = ses_Index session,
              as_SessionNotOnOrAfter = None,
              as_SubjectLocality = Some \<lparr>sl_Address = address, sl_DNSName = []\<rparr>,
              as_AuthnContext = \<lparr>ac_ClassRef = Some (if ses_AuthnContextClassRef session \<noteq> []
                then ses_AuthnContextClassRef session else defaultAuthnContextClassRef)\<rparr>\<rparr>],
          asr_AttributeStatements = (if attributes \<noteq> [] then [\<lparr>ats_Attributes = attributes\<rparr>] else [])\<rparr>"

definition MakeAssertion :: "externs \<Rightarrow> idp_env \<Rightarrow> IdentityProvider \<Rightarrow> IdpAuthnRequest \<Rightarrow> Session \<Rightarrow> IdpAuthnRequest result" where
  "MakeAssertion X env idp req session =
     (if ses_NameID session = [] then Inl (Err ''the session has no NameID'')
      else
      bindE (nonNil (iar_SPSSODescriptor req)) (\<lambda>descriptor.
      bindE (Idp_Metadata idp (env_AssertionNow env)) (\<lambda>idpMd.
      bindE (nonNil (iar_ServiceProviderMetadata req)) (\<lambda>spMd.
      bindE (nonNil (iar_ACSEndpoint req)) (\<lambda>endpoint.
        Inr (req\<lparr>iar_Assertion := Some
          (defaultAssertion (ed_EntityID idpMd) (ed_EntityID spMd) (randomID (env_AssertionID env))
             (areq_ID (iar_Request req)) (iep_Location endpoint) (clientAddress X (iar_HTTPRequest req) session)
             (iar_Now req) (env_AssertionNow env) (assertionAttributes descriptor session) session)\<rparr>))))))"

section \<open>What the enforcers accept\<close>

text \<open>The comparison rules of SAMLCore 3.3.2.2.1, with the strength of a class as the enforcer ranks it: a class that
  is not ranked is only equal to itself.\<close>

definition strongerThan :: "(string \<times> int) list \<Rightarrow> string \<Rightarrow> string \<Rightarrow> bool" where
  "strongerThan strength a b \<longleftrightarrow> (\<exists>x y. map_of strength a = Some x \<and> map_of strength b = Some y \<and> x > y)"

definition contextRelation :: "(string \<times> int) list \<Rightarrow> string \<Rightarrow> string \<Rightarrow> string \<Rightarrow> bool" where
  "contextRelation strength comparison asserted cls \<longleftrightarrow>
     comparison \<in> {[], AuthnContextComparisonExact} \<and> asserted = cls \<or>
     comparison = AuthnContextComparisonMinimum \<and> (asserted = cls \<or> strongerThan strength asserted cls) \<or>
     comparison = AuthnContextComparisonMaximum \<and> (asserted = cls \<or> strongerThan strength cls asserted) \<or>
     comparison = AuthnContextComparisonBetter \<and> strongerThan strength asserted cls"

definition authnContextSatisfied :: "(string \<times> int) list \<Rightarrow> RequestedAuthnContext \<Rightarrow> Assertion \<Rightarrow> bool" where
  "authnContextSatisfied strength requested a \<longleftrightarrow>
     rac_DeclRefs requested = [] \<and> asr_AuthnStatements a \<noteq> [] \<and>
     (\<forall>st \<in> set (asr_AuthnStatements a). \<exists>asserted. ac_ClassRef (as_AuthnContext st) = Some asserted \<and>
        (\<exists>cls \<in> set (rac_ClassRefs requested). contextRelation strength (rac_Comparison requested) asserted cls))"

lemma compareStrength_iff:
  "compareStrength strength a b > 0 \<longleftrightarrow> strongerThan strength a b"
  "compareStrength strength a b < 0 \<longleftrightarrow> strongerThan strength b a"
  by (auto simp: compareStrength_def strongerThan_def split: option.splits)

lemma satisfiesComparison_Some:
  "satisfiesComparison strength c = Some sat \<Longrightarrow> sat a b \<longleftrightarrow> contextRelation strength c a b"
  by (auto simp: satisfiesComparison_def contextRelation_def compareStrength_iff comparison_defs split: if_splits)

lemma satisfiesComparison_None: "satisfiesComparison strength c = None \<Longrightarrow> \<not> contextRelation strength c a b"
  by (auto simp: satisfiesComparison_def contextRelation_def comparison_defs split: if_splits)

lemma enforceStatements_Inr:
  "enforceStatements sat requested sts = Inr () \<longleftrightarrow>
   (\<forall>st \<in> set sts. \<exists>asserted. ac_ClassRef (as_AuthnContext st) = Some asserted \<and>
      (\<exists>cls \<in> set (rac_ClassRefs requested). sat asserted cls))"
  by (induction sts) (auto simp: list_ex_iff split: option.splits)

lemma EnforceAuthnContext_iff:
  "EnforceAuthnContext strength req = Inr () \<longleftrightarrow>
   (\<exists>requested a. areq_RequestedAuthnContext (iar_Request req) = Some requested \<and> iar_Assertion req = Some a \<and>
      authnContextSatisfied strength requested a)"
proof (cases "areq_RequestedAuthnContext (iar_Request req)")
  case (Some requested)
  show ?thesis
  proof (cases "satisfiesComparison strength (rac_Comparison requested)")
    case None
    with Some satisfiesComparison_None [OF None] show ?thesis
      by (auto simp: EnforceAuthnContext_def authnContextSatisfied_def nonNil_def neq_Nil_conv)
  next
    case (Some sat)
    with \<open>areq_RequestedAuthnContext (iar_Request req) = Some requested\<close> satisfiesComparison_Some [OF Some]
    show ?thesis
      by (cases "iar_Assertion req")
        (auto simp: EnforceAuthnContext_def authnContextSatisfied_def nonNil_def enforceStatements_Inr)
  qed
qed (simp add: EnforceAuthnContext_def nonNil_def)

text \<open>
  C15. The requested authentication context. The default enforcer accepts an assertion exactly when the request names
  no declaration, the assertion has an authentication statement, and the class of every statement stands in the
  requested comparison (exact, minimum, maximum or better) to one of the requested classes.
\<close>

theorem authn_context_enforcement:
  "EnforceAuthnContext strength req = Inr () \<longleftrightarrow>
   (\<exists>requested a. areq_RequestedAuthnContext (iar_Request req) = Some requested \<and> iar_Assertion req = Some a \<and>
      authnContextSatisfied strength requested a)"
  by (rule EnforceAuthnContext_iff)

text \<open>The strong matching rule of SAMLCore 3.3.4 on the NameIDs, and what a confirmation must be.\<close>

definition nameIDMatches :: "NameID \<Rightarrow> NameID \<Rightarrow> bool" where
  "nameIDMatches requested asserted \<longleftrightarrow>
     nid_Value requested \<noteq> [] \<and> nid_Value asserted = nid_Value requested \<and>
     (formatOpen (nid_Format requested) \<or> nid_Format asserted = nid_Format requested) \<and>
     nid_NameQualifier requested \<in> {[], nid_NameQualifier asserted} \<and>
     nid_SPNameQualifier requested \<in> {[], nid_SPNameQualifier asserted} \<and>
     nid_SPProvidedID requested \<in> {[], nid_SPProvidedID asserted}"

definition confirmationData :: "externs \<Rightarrow> SubjectConfirmationData \<Rightarrow> SubjectConfirmationData \<Rightarrow> bool" where
  "confirmationData X want got \<longleftrightarrow>
     scd_Recipient want \<in> {[], scd_Recipient got} \<and> scd_InResponseTo want \<in> {[], scd_InResponseTo got} \<and>
     (scd_Address want = [] \<or>
      (\<exists>ip. x_ParseAddr X (scd_Address want) = Some ip \<and> x_ParseAddr X (scd_Address got) = Some ip)) \<and>
     (scd_NotBefore want = 0 \<or> scd_NotBefore want \<le> scd_NotBefore got) \<and>
     (scd_NotOnOrAfter want = 0 \<or> scd_NotOnOrAfter got \<noteq> 0 \<and> scd_NotOnOrAfter got \<le> scd_NotOnOrAfter want)"

definition confirmationMatches :: "externs \<Rightarrow> SubjectConfirmation \<Rightarrow> SubjectConfirmation \<Rightarrow> bool" where
  "confirmationMatches X want got \<longleftrightarrow>
     scf_Method want = bearerSubjectConfirmationMethod \<and> scf_Method got = bearerSubjectConfirmationMethod \<and>
     scf_NameID want \<in> {None, scf_NameID got} \<and>
     (scf_Data want = None \<or>
      (\<exists>w g. scf_Data want = Some w \<and> scf_Data got = Some g \<and> confirmationData X w g))"

lemma satisfiesConfirmationData_iff:
  "satisfiesConfirmationData X w g \<longleftrightarrow> w = None \<or> (\<exists>w' g'. w = Some w' \<and> g = Some g' \<and> confirmationData X w' g')"
  by (auto simp: satisfiesConfirmationData_def confirmationData_def sameAddress_def not_less split: option.splits)

lemma confirmsSubject_iff:
  "confirmsSubject X requested asserted \<longleftrightarrow>
   requested = [] \<or> (\<exists>want \<in> set requested. \<exists>got \<in> set asserted. confirmationMatches X want got)"
proof -
  have "scf_Method want = bearerSubjectConfirmationMethod \<and> scf_Method h = scf_Method want \<and>
      sameNameID (scf_NameID want) (scf_NameID h) \<and> satisfiesConfirmationData X (scf_Data want) (scf_Data h) \<longleftrightarrow>
    confirmationMatches X want h" for want h
    by (auto simp: confirmationMatches_def satisfiesConfirmationData_iff sameNameID_def)
  then show ?thesis unfolding confirmsSubject_def list_ex_iff by blast
qed

lemma assertedSubject_Inr:
  "assertedSubject req = Inr (s, n) \<longleftrightarrow>
   (\<exists>a. iar_Assertion req = Some a \<and> asr_Subject a = Some s \<and> subj_NameID s = Some n)"
  by (auto simp: assertedSubject_def split: option.splits)

lemma EnforceSubject_iff:
  "EnforceSubject X req = Inr () \<longleftrightarrow>
   (\<exists>subject requested s asserted. areq_Subject (iar_Request req) = Some subject \<and>
      subj_NameID subject = Some requested \<and> assertedSubject req = Inr (s, asserted) \<and>
      nameIDMatches requested asserted \<and>
      (subj_Confirmations subject = [] \<or>
       (\<exists>want \<in> set (subj_Confirmations subject). \<exists>got \<in> set (subj_Confirmations s). confirmationMatches X want got)))"
proof (cases "areq_Subject (iar_Request req)")
  case (Some subject)
  let ?qualifiers = "\<lambda>requested asserted.
    [(''NameQualifier'', nid_NameQualifier requested, nid_NameQualifier asserted),
     (''SPNameQualifier'', nid_SPNameQualifier requested, nid_SPNameQualifier asserted),
     (''SPProvidedID'', nid_SPProvidedID requested, nid_SPProvidedID asserted)]"
  have "EnforceSubject X req = Inr () \<longleftrightarrow>
    (\<exists>requested s asserted. subj_NameID subject = Some requested \<and> nid_Value requested \<noteq> [] \<and>
      assertedSubject req = Inr (s, asserted) \<and> nid_Value asserted = nid_Value requested \<and>
      (formatOpen (nid_Format requested) \<or> nid_Format asserted = nid_Format requested) \<and>
      find (\<lambda>(_, want, got). want \<noteq> [] \<and> want \<noteq> got) (?qualifiers requested asserted) = None \<and>
      confirmsSubject X (subj_Confirmations subject) (subj_Confirmations s))"
    by (cases "subj_NameID subject"; cases "assertedSubject req")
      (auto simp: EnforceSubject_def Some nonNil_def split: option.splits if_splits prod.splits simp del: find.simps)
  also have "\<dots> \<longleftrightarrow> (\<exists>requested s asserted. subj_NameID subject = Some requested \<and>
      assertedSubject req = Inr (s, asserted) \<and> nameIDMatches requested asserted \<and>
      confirmsSubject X (subj_Confirmations subject) (subj_Confirmations s))"
    unfolding nameIDMatches_def find_None_all by fastforce
  finally show ?thesis unfolding confirmsSubject_iff Some by simp
qed (simp add: EnforceSubject_def nonNil_def)

text \<open>
  C16. The requested subject. The default enforcer accepts an assertion exactly when the request names a principal by a
  NameID, the assertion has a NameID with the same value, with the format unless that is left open, and with every
  qualifier that the request gives, and one of the bearer confirmations of the assertion meets all conditions of one of
  the bearer confirmations of the request, if the request has confirmations.
\<close>

theorem subject_enforcement:
  "EnforceSubject X req = Inr () \<longleftrightarrow>
   (\<exists>subject requested s asserted. areq_Subject (iar_Request req) = Some subject \<and>
      subj_NameID subject = Some requested \<and> assertedSubject req = Inr (s, asserted) \<and>
      nameIDMatches requested asserted \<and>
      (subj_Confirmations subject = [] \<or>
       (\<exists>want \<in> set (subj_Confirmations subject). \<exists>got \<in> set (subj_Confirmations s). confirmationMatches X want got)))"
  by (rule EnforceSubject_iff)

section \<open>The constraints of a request\<close>

text \<open>What a request asks of the assertion, read off the request and the assertion.\<close>

definition subjectSatisfied :: "externs \<Rightarrow> Subject \<Rightarrow> Assertion \<Rightarrow> bool" where
  "subjectSatisfied X subject a \<longleftrightarrow>
     (\<exists>requested s asserted. subj_NameID subject = Some requested \<and>
        asr_Subject a = Some s \<and> subj_NameID s = Some asserted \<and> nameIDMatches requested asserted \<and>
        (subj_Confirmations subject = [] \<or>
         (\<exists>want \<in> set (subj_Confirmations subject). \<exists>got \<in> set (subj_Confirmations s). confirmationMatches X want got)))"

definition policySatisfied :: "NameIDPolicy \<Rightarrow> Assertion \<Rightarrow> bool" where
  "policySatisfied policy a \<longleftrightarrow>
     (\<exists>s n. asr_Subject a = Some s \<and> subj_NameID s = Some n \<and>
        (\<forall>f. np_Format policy = Some f \<longrightarrow> formatOpen f \<or> f \<noteq> encryptedNameIDFormat \<and> nid_Format n = f) \<and>
        (\<forall>q. np_SPNameQualifier policy = Some q \<longrightarrow> nid_SPNameQualifier n = q))"

lemma EnforceSubject_satisfied:
  "areq_Subject (iar_Request req) = Some subject \<Longrightarrow> iar_Assertion req = Some a \<Longrightarrow>
   EnforceSubject X req = Inr () \<longleftrightarrow> subjectSatisfied X subject a"
  by (auto simp: EnforceSubject_iff subjectSatisfied_def assertedSubject_Inr)

lemma EnforceAuthnContext_satisfied:
  "areq_RequestedAuthnContext (iar_Request req) = Some requested \<Longrightarrow> iar_Assertion req = Some a \<Longrightarrow>
   EnforceAuthnContext strength req = Inr () \<longleftrightarrow> authnContextSatisfied strength requested a"
  by (simp add: EnforceAuthnContext_iff)

lemma EnforceNameIDPolicy_satisfied:
  assumes "areq_NameIDPolicy (iar_Request req) = Some policy" "iar_Assertion req = Some a"
  shows "EnforceNameIDPolicy req = Inr () \<longleftrightarrow> policySatisfied policy a"
proof -
  have "EnforceNameIDPolicy req = Inr () \<longleftrightarrow> (\<exists>s n. assertedSubject req = Inr (s, n) \<and>
     (\<forall>f. np_Format policy = Some f \<longrightarrow> formatOpen f \<or> f \<noteq> encryptedNameIDFormat \<and> nid_Format n = f) \<and>
     (\<forall>q. np_SPNameQualifier policy = Some q \<longrightarrow> nid_SPNameQualifier n = q))"
    using assms(1)
    by (cases "assertedSubject req"; cases "np_Format policy"; cases "np_SPNameQualifier policy")
      (auto simp: EnforceNameIDPolicy_def nonNil_def split: prod.splits)
  with assms(2) show ?thesis by (auto simp: policySatisfied_def assertedSubject_Inr)
qed

end
