(* ===== verification/Idp_Response.thy ===== *)
theory Idp_Response
  imports Idp_Assertion
begin

text \<open>
  Signing, encrypting and sending responses, and the handlers for single sign-on: the rest of
  \<^verbatim>\<open>identity_provider.go\<close>. A handler returns what it writes, in order; what ends a handler with an HTTP error is
  part of that list, and only a panic is an error of the handler. The logger is not modelled.
\<close>

section \<open>Encryption for the service provider\<close>

definition firstCertificateData :: "KeyDescriptor \<Rightarrow> string" where
  "firstCertificateData kd = (case find (\<lambda>d. d \<noteq> []) (kd_X509Certificates kd) of None \<Rightarrow> [] | Some d \<Rightarrow> d)"

definition contentEncryptionMethods :: "BlockCipher list" where
  "contentEncryptionMethods = [AES128GCM, AES128CBC, AES192CBC, AES256CBC]"

definition spEncryptionKeyDescriptor :: "SPSSODescriptor \<Rightarrow> KeyDescriptor option" where
  "spEncryptionKeyDescriptor d =
     (let search = (\<lambda>use. find (\<lambda>kd. kd_Use kd = use \<and> firstCertificateData kd \<noteq> []) (rd_KeyDescriptors d)) in
      case search ''encryption'' of Some kd \<Rightarrow> Some kd | None \<Rightarrow> search [])"

text \<open>The loops of \<^verbatim>\<open>contentEncryption\<close> over the methods of the key descriptor and the candidates.\<close>

fun firstUsable :: "string list \<Rightarrow> BlockCipher" where
  "firstUsable [] = AES128CBC"
| "firstUsable (m # ms) =
     (case find (\<lambda>candidate. bc_algorithm candidate = m) contentEncryptionMethods of
        Some candidate \<Rightarrow> candidate | None \<Rightarrow> firstUsable ms)"

definition contentEncryption :: "SPSSODescriptor \<Rightarrow> BlockCipher" where
  "contentEncryption d =
     (case spEncryptionKeyDescriptor d of Some kd \<Rightarrow> firstUsable (kd_EncryptionMethods kd) | None \<Rightarrow> AES128CBC)"

definition serviceProviderAcceptsEncryption :: "SPSSODescriptor \<Rightarrow> EntityDescriptor option \<Rightarrow> bool" where
  "serviceProviderAcceptsEncryption d md \<longleftrightarrow>
     list_ex (\<lambda>d. list_ex (\<lambda>kd. kd_Use kd \<noteq> ''signing'') (rd_KeyDescriptors d))
       (d # (case md of None \<Rightarrow> [] | Some m \<Rightarrow> ed_SPSSODescriptors m))"

definition getSPEncryptionCert :: "externs \<Rightarrow> SPSSODescriptor \<Rightarrow> EntityDescriptor option \<Rightarrow> certificate result" where
  "getSPEncryptionCert X d md =
     (let certStr = (case spEncryptionKeyDescriptor d of None \<Rightarrow> [] | Some kd \<Rightarrow> firstCertificateData kd) in
      if certStr = [] then
        (if serviceProviderAcceptsEncryption d md
         then Inl (Err ''service provider metadata allows encryption but has no usable certificate in the selected descriptor'')
         else Inl ErrNotExist)
      else bindE (wrapE (Wrapf ''cannot decode certificate base64: %v'' []) (base64Decode (removeWhitespace certStr)))
        (\<lambda>certBytes. wrapE (Wrapf ''cannot parse certificate: %v'' []) (x_ParseCertificate X certBytes)))"

section \<open>The assertion element\<close>

text \<open>The last child of a signed element.\<close>

definition lastElement :: "element \<Rightarrow> element result" where
  "lastElement el = (case last (el_Child el) of Elem sig \<Rightarrow> Inr sig | _ \<Rightarrow> Inl (Panic ''interface conversion''))"

definition assertionEncryptor :: "SPSSODescriptor \<Rightarrow> RSA" where
  "assertionEncryptor d = OAEP\<lparr>rsa_BlockCipher := contentEncryption d, rsa_DigestMethod := Some dmSHA1\<rparr>"

definition encryptedAssertion :: "element \<Rightarrow> element" where
  "encryptedAssertion encryptedData =
     Element ''saml'' ''EncryptedAssertion'' []
       [Elem (CreateAttr [] ''Type'' ''http://www.w3.org/2001/04/xmlenc#Element'' encryptedData)]"

definition MakeAssertionEl :: "externs \<Rightarrow> idp_env \<Rightarrow> IdentityProvider \<Rightarrow> IdpAuthnRequest \<Rightarrow> IdpAuthnRequest result" where
  "MakeAssertionEl X env idp req =
     bindE (signingContext idp) (\<lambda>ctx.
     bindE (nonNil (iar_Assertion req)) (\<lambda>assertion.
     bindE (Assertion_Element assertion) (\<lambda>assertionEl.
     bindE (SignEnveloped X (env_AssertionSignature env) ctx ([], assertionEl)) (\<lambda>signed.
     bindE (lastElement signed) (\<lambda>sigEl.
     let assertion = assertion\<lparr>asr_Signature := Some sigEl\<rparr>;
         req = req\<lparr>iar_Assertion := Some assertion\<rparr>
     in bindE (Assertion_Element assertion) (\<lambda>signedAssertionEl.
        bindE (nonNil (iar_SPSSODescriptor req)) (\<lambda>d.
        case getSPEncryptionCert X d (iar_ServiceProviderMetadata req) of
          Inl e \<Rightarrow> if e = ErrNotExist then Inr (req\<lparr>iar_AssertionEl := Some signedAssertionEl\<rparr>) else Inl e
        | Inr cert \<Rightarrow>
            bindE (RSA_Encrypt X (assertionEncryptor d) cert (x_WriteToBytes X signedAssertionEl) None (env_Encryption env))
              (\<lambda>encryptedData. Inr (req\<lparr>iar_AssertionEl := Some (encryptedAssertion encryptedData)\<rparr>)))))))))"

section \<open>Responses\<close>

definition newResponse :: "idp_env \<Rightarrow> IdentityProvider \<Rightarrow> IdpAuthnRequest \<Rightarrow> Status \<Rightarrow> Response result" where
  "newResponse env idp req status =
     bindE (nonNil (iar_ACSEndpoint req)) (\<lambda>endpoint.
       Inr \<lparr>resp_ID = randomID (env_ResponseID env), resp_InResponseTo = areq_ID (iar_Request req),
            resp_Version = ''2.0'', resp_IssueInstant = iar_Now req, resp_Destination = iep_Location endpoint,
            resp_Consent = [], resp_Issuer = Some (entityIssuer (urlString (idp_MetadataURL idp))), resp_Signature = None,
            resp_Status = status, resp_EncryptedAssertion = None, resp_Assertion = None\<rparr>)"

text \<open>\<^verbatim>\<open>signResponse\<close>. The assertion element is a child of the element that is signed, so that canonicalization
  changes it in place: what goes into the result is the child as signing leaves it, the last before the signature.\<close>

definition signResponse ::
  "externs \<Rightarrow> idp_env \<Rightarrow> IdentityProvider \<Rightarrow> Response \<Rightarrow> element option \<Rightarrow> element result" where
  "signResponse X env idp response assertionEl =
     bindE (Response_Element response) (\<lambda>responseEl.
     let toSign = (case assertionEl of None \<Rightarrow> responseEl | Some a \<Rightarrow> AddChild (Elem a) responseEl)
     in bindE (signingContext idp) (\<lambda>ctx.
        bindE (SignEnveloped X (env_ResponseSignature env) ctx ([], toSign)) (\<lambda>signed.
        bindE (lastElement signed) (\<lambda>sigEl.
        bindE (Response_Element (response\<lparr>resp_Signature := Some sigEl\<rparr>)) (\<lambda>responseEl.
          Inr (case assertionEl of
                 None \<Rightarrow> responseEl
               | Some _ \<Rightarrow> AddChild (last (butlast (el_Child signed))) responseEl))))))"

definition successStatus :: Status where
  "successStatus = \<lparr>st_StatusCode = StatusCode StatusSuccess None, st_StatusMessage = None, st_StatusDetail = None\<rparr>"

definition MakeResponse :: "externs \<Rightarrow> idp_env \<Rightarrow> IdentityProvider \<Rightarrow> IdpAuthnRequest \<Rightarrow> IdpAuthnRequest result" where
  "MakeResponse X env idp req =
     bindE (if iar_AssertionEl req = None then MakeAssertionEl X env idp req else Inr req) (\<lambda>req.
     bindE (newResponse env idp req successStatus) (\<lambda>response.
     bindE (signResponse X env idp response (iar_AssertionEl req)) (\<lambda>responseEl.
       Inr (req\<lparr>iar_ResponseEl := Some responseEl\<rparr>))))"

definition errorStatus :: "string \<Rightarrow> string \<Rightarrow> string \<Rightarrow> Status" where
  "errorStatus topLevel secondLevel message =
     \<lparr>st_StatusCode = StatusCode topLevel (if secondLevel \<noteq> [] then Some (StatusCode secondLevel None) else None),
      st_StatusMessage = (if message \<noteq> [] then Some message else None), st_StatusDetail = None\<rparr>"

definition MakeErrorResponse ::
  "externs \<Rightarrow> idp_env \<Rightarrow> IdentityProvider \<Rightarrow> IdpAuthnRequest \<Rightarrow> string \<Rightarrow> string \<Rightarrow> string \<Rightarrow> IdpAuthnRequest result" where
  "MakeErrorResponse X env idp req topLevel secondLevel message =
     (let req = req\<lparr>iar_ResponseEl := None\<rparr> in
      if iar_ACSEndpoint req = None
      then Inl (Err ''cannot make an error response without a validated assertion consumer service'')
      else if topLevel \<notin> set [StatusRequester, StatusResponder, StatusVersionMismatch]
      then Inl (Errorf ''invalid top-level status %q for an error response'' [topLevel])
      else bindE (newResponse env idp req (errorStatus topLevel secondLevel message)) (\<lambda>response.
        bindE (signResponse X env idp response None) (\<lambda>responseEl.
          Inr (req\<lparr>iar_ResponseEl := Some responseEl\<rparr>))))"

definition PostBinding :: "externs \<Rightarrow> idp_env \<Rightarrow> IdentityProvider \<Rightarrow> IdpAuthnRequest \<Rightarrow> IdpAuthnRequestForm result" where
  "PostBinding X env idp req =
     bindE (if iar_ResponseEl req = None then MakeResponse X env idp req else Inr req) (\<lambda>req.
     bindE (nonNil (iar_ResponseEl req)) (\<lambda>responseEl.
     bindE (nonNil (iar_ACSEndpoint req)) (\<lambda>endpoint.
       if iep_Binding endpoint \<noteq> HTTPPostBinding
       then Inl (Errorf ''%s: unsupported binding %s'' [iep_Binding endpoint])
       else Inr \<lparr>form_URL = iep_Location endpoint, form_SAMLResponse = base64Encode (x_WriteToBytes X responseEl),
                 form_RelayState = iar_RelayState req\<rparr>)))"

text \<open>The execution of the configured template, or of the default one, which does not fail.\<close>

definition renderForm :: "IdentityProvider \<Rightarrow> IdpAuthnRequestForm \<Rightarrow> unit result" where
  "renderForm idp form = (case idp_ResponseFormTemplate idp of None \<Rightarrow> Inr () | Some tmpl \<Rightarrow> tmpl form)"

definition WriteResponse :: "externs \<Rightarrow> idp_env \<Rightarrow> IdentityProvider \<Rightarrow> IdpAuthnRequest \<Rightarrow> http_write list result" where
  "WriteResponse X env idp req =
     bindE (PostBinding X env idp req) (\<lambda>form.
     bindE (renderForm idp form) (\<lambda>_. Inr [SetNoCacheHeaders, WriteForm form]))"

definition WriteErrorResponse ::
  "externs \<Rightarrow> idp_env \<Rightarrow> IdentityProvider \<Rightarrow> IdpAuthnRequest \<Rightarrow> string \<Rightarrow> string \<Rightarrow> string \<Rightarrow> http_write list result" where
  "WriteErrorResponse X env idp req topLevel secondLevel message =
     bindE (MakeErrorResponse X env idp req topLevel secondLevel message) (WriteResponse X env idp)"

section \<open>Handlers\<close>

text \<open>A call whose error the handler answers with an HTTP status.\<close>

definition orHttpError :: "nat \<Rightarrow> 'a result \<Rightarrow> ('a \<Rightarrow> http_write list result) \<Rightarrow> http_write list result" where
  "orHttpError status m k =
     bindE (tryE m) (\<lambda>r. case r of Inl _ \<Rightarrow> Inr [WriteError status] | Inr a \<Rightarrow> k a)"

definition writeErrorStatus ::
  "externs \<Rightarrow> idp_env \<Rightarrow> IdentityProvider \<Rightarrow> IdpAuthnRequest \<Rightarrow> string \<Rightarrow> string \<Rightarrow> http_write list result" where
  "writeErrorStatus X env idp req topLevel secondLevel =
     orHttpError StatusInternalServerError (WriteErrorResponse X env idp req topLevel secondLevel []) Inr"

definition getSession ::
  "externs \<Rightarrow> idp_env \<Rightarrow> IdentityProvider \<Rightarrow> http_request \<Rightarrow> IdpAuthnRequest \<Rightarrow> (http_write list \<times> Session option) result" where
  "getSession X env idp r req =
     (let provider = idp_SessionProvider idp in
      if areq_IsPassive (iar_Request req) = Some True then
        (case (case spr_GetPassiveSession provider of None \<Rightarrow> None | Some get \<Rightarrow> get r req) of
           None \<Rightarrow> bindE (writeErrorStatus X env idp req StatusResponder StatusNoPassive) (\<lambda>ws. Inr (ws, None))
         | Some session \<Rightarrow> Inr ([], Some session))
      else if areq_ForceAuthn (iar_Request req) = Some True then
        (case spr_GetForcedSession provider of
           None \<Rightarrow> bindE (writeErrorStatus X env idp req StatusResponder StatusAuthnFailed) (\<lambda>ws. Inr (ws, None))
         | Some get \<Rightarrow> Inr (get r req))
      else Inr (spr_GetSession provider r req))"

definition assertionMaker :: "externs \<Rightarrow> idp_env \<Rightarrow> IdentityProvider \<Rightarrow> IdpAuthnRequest \<Rightarrow> Session \<Rightarrow> IdpAuthnRequest result" where
  "assertionMaker X env idp =
     (case idp_AssertionMaker idp of None \<Rightarrow> MakeAssertion X env idp | Some maker \<Rightarrow> maker)"

text \<open>The three blocks of \<^verbatim>\<open>ServeSSO\<close> that enforce a constraint of the request: nothing if the request has no such
  constraint or the enforcer accepts, and otherwise the response with the status.\<close>

definition enforce ::
  "bool \<Rightarrow> unit result \<Rightarrow> http_write list result \<Rightarrow> http_write list option result" where
  "enforce present verdict refusal =
     (if \<not> present then Inr None
      else bindE (tryE verdict) (\<lambda>v. case v of Inr _ \<Rightarrow> Inr None | Inl _ \<Rightarrow> bindE refusal (\<lambda>ws. Inr (Some ws))))"

definition enforceConstraints ::
  "externs \<Rightarrow> idp_env \<Rightarrow> IdentityProvider \<Rightarrow> IdpAuthnRequest \<Rightarrow> Session \<Rightarrow> http_write list option result" where
  "enforceConstraints X env idp req session =
     (let request = iar_Request req;
          verdict = (\<lambda>enforcer dflt. case enforcer of None \<Rightarrow> dflt | Some e \<Rightarrow> e req session);
          refusal = writeErrorStatus X env idp req;
          orElse = (\<lambda>m k. bindE m (\<lambda>r. case r of Some ws \<Rightarrow> Inr (Some ws) | None \<Rightarrow> k))
      in orElse (enforce (areq_Subject request \<noteq> None) (verdict (idp_SubjectEnforcer idp) (EnforceSubject X req))
                   (refusal StatusResponder StatusAuthnFailed))
        (orElse (enforce (areq_NameIDPolicy request \<noteq> None) (verdict (idp_NameIDPolicyEnforcer idp) (EnforceNameIDPolicy req))
                   (refusal StatusRequester StatusInvalidNameIDPolicy))
          (enforce (areq_RequestedAuthnContext request \<noteq> None)
             (verdict (idp_AuthnContextEnforcer idp) (EnforceAuthnContext [] req))
             (refusal StatusResponder StatusNoAuthnContext))))"

definition ServeSSO :: "externs \<Rightarrow> idp_env \<Rightarrow> IdentityProvider \<Rightarrow> http_request \<Rightarrow> http_write list result" where
  "ServeSSO X env idp r =
     orHttpError StatusBadRequest (NewIdpAuthnRequest X r (env_Now env)) (\<lambda>req.
     orHttpError StatusBadRequest (Idp_Validate X (env_Clock env) idp req) (\<lambda>req.
     bindE (getSession X env idp r req) (\<lambda>(written, session).
     case session of
       None \<Rightarrow> Inr written
     | Some session \<Rightarrow>
         bindE (orHttpError StatusInternalServerError (assertionMaker X env idp req session) (\<lambda>req.
           bindE (enforceConstraints X env idp req session) (\<lambda>refused.
             case refused of
               Some ws \<Rightarrow> Inr ws
             | None \<Rightarrow> orHttpError StatusInternalServerError (WriteResponse X env idp req) Inr)))
           (\<lambda>ws. Inr (written @ ws)))))"

definition ServeIDPInitiated ::
  "externs \<Rightarrow> idp_env \<Rightarrow> IdentityProvider \<Rightarrow> http_request \<Rightarrow> string \<Rightarrow> string \<Rightarrow> http_write list result" where
  "ServeIDPInitiated X env idp r serviceProviderID relayState =
     (let req = (newRequest r (env_Now env))\<lparr>iar_RelayState := relayState\<rparr> in
      case spr_GetSession (idp_SessionProvider idp) r req of
        (written, None) \<Rightarrow> Inr written
      | (written, Some session) \<Rightarrow>
          bindE
            (case idp_GetServiceProvider idp r serviceProviderID of
               Inl e \<Rightarrow> if isPanic e then Inl e
                 else Inr [WriteError (if e = ErrNotExist then StatusNotFound else StatusInternalServerError)]
             | Inr md \<Rightarrow>
                 orHttpError StatusInternalServerError
                   (useDefaultACSEndpoint (req\<lparr>iar_ServiceProviderMetadata := Some md\<rparr>)) (\<lambda>req.
                 orHttpError StatusInternalServerError (assertionMaker X env idp req session) (\<lambda>req.
                 orHttpError StatusInternalServerError (WriteResponse X env idp req) Inr)))
            (\<lambda>ws. Inr (written @ ws)))"

end
