(* ===== verification/Message_Signing.thy ===== *)
theory Message_Signing
  imports Dsig_Sign Saml_Messages Xml_Enc Redirect_Binding
begin

text \<open>
  What the library builds it can sign. Exclusive canonicalization fails only on a prefix that is not in scope; the
  messages of \<^verbatim>\<open>schema.go\<close>, encrypted data and the signatures themselves declare every prefix they use, so signing
  them fails only where the key does.
\<close>

section \<open>Prefixes in scope\<close>

text \<open>All prefixes that the tree uses are declared in it or are among \<open>ps\<close>.\<close>

definition declaredPrefixes :: "attr list \<Rightarrow> string list" where
  "declaredPrefixes as = map fst (List.map_filter declaresNS as)"

fun inScope :: "string list \<Rightarrow> element \<Rightarrow> bool" where
  "inScope ps el \<longleftrightarrow>
     (let ps' = declaredPrefixes (el_Attr el) @ ps in
      list_all (\<lambda>a. declOK a \<and> (at_Space a = xmlnsPrefix \<longrightarrow> at_Key a \<noteq> defaultPrefix) \<and>
        (isNSDecl a \<or> at_Space a = defaultPrefix \<or> at_Space a \<in> set ps')) (el_Attr el) \<and>
      el_Space el \<in> set ps' \<and> (\<forall>c \<in> set (ChildElements el). inScope ps' c))"

declare inScope.simps [simp del]

lemma inScope_Element [simp]:
  "inScope ps (Element sp tag as ts) \<longleftrightarrow>
     list_all (\<lambda>a. declOK a \<and> (at_Space a = xmlnsPrefix \<longrightarrow> at_Key a \<noteq> defaultPrefix) \<and>
        (isNSDecl a \<or> at_Space a = defaultPrefix \<or> at_Space a \<in> set (declaredPrefixes as @ ps))) as \<and>
     sp \<in> set (declaredPrefixes as @ ps) \<and> (\<forall>c. Elem c \<in> set ts \<longrightarrow> inScope (declaredPrefixes as @ ps) c)"
  by (auto simp: inScope.simps [of ps] Let_def child_elements_iff)

lemma inScope_mono: "inScope ps el \<Longrightarrow> set ps \<subseteq> set qs \<Longrightarrow> inScope qs el"
proof (induction ps el arbitrary: qs rule: inScope.induct)
  case (1 ps el)
  let ?d = "declaredPrefixes (el_Attr el)"
  have sub: "set (?d @ ps) \<subseteq> set (?d @ qs)" using 1(3) by auto
  have "inScope (?d @ qs) c" if "c \<in> set (ChildElements el)" for c
    using 1(1) [OF refl that _ sub] 1(2) that by (simp add: inScope.simps [of ps] Let_def)
  moreover have "list_all (\<lambda>a. declOK a \<and> (at_Space a = xmlnsPrefix \<longrightarrow> at_Key a \<noteq> defaultPrefix) \<and>
      (isNSDecl a \<or> at_Space a = defaultPrefix \<or> at_Space a \<in> set (?d @ qs))) (el_Attr el)" "el_Space el \<in> set (?d @ qs)"
    using 1(2) sub by (auto simp: inScope.simps [of ps] Let_def list_all_iff)
  ultimately show ?case by (simp add: inScope.simps [of qs] Let_def)
qed

lemma inScope_wellNamed: "inScope ps el \<Longrightarrow> wellNamed el"
proof (induction ps el rule: inScope.induct)
  case (1 ps el)
  then show ?case
    by (auto simp: inScope.simps [of ps] wellNamed.simps [of el] attrsNamed_def Let_def list_all_iff)
qed

section \<open>Canonicalization succeeds\<close>

lemma declareUtilized_total:
  "\<forall>p \<in> set ps. map_of (ns_prefixes scope) p \<noteq> None \<Longrightarrow> \<exists>r. declareUtilized scope D ps = Inr r"
proof (induction ps arbitrary: D)
  case (Cons p ps)
  then obtain n where n: "LookupPrefix scope p = Inr n" by (auto simp: LookupPrefix_def)
  obtain r where "declareUtilized scope (declare_ns D p n) ps = Inr r" using Cons by fastforce
  moreover obtain r' where "declareUtilized scope D ps = Inr r'" using Cons by fastforce
  ultimately show ?case using n by (cases r; cases r') (auto simp del: LookupPrefix_Inr)
qed simp

lemma declaredPrefixes_dom: "dom (map_of (rev (List.map_filter declaresNS as))) = set (declaredPrefixes as)"
  by (simp add: declaredPrefixes_def dom_map_of_conv_image_fst)

lemma utilized_in_scope:
  assumes "inScope ps el" "p \<in> set (visiblyUtilizedPrefixes inc el)"
  shows "p \<in> set (declaredPrefixes (el_Attr el) @ ps)"
proof -
  have decl: "fst d \<in> set (declaredPrefixes (el_Attr el))" if "a \<in> set (el_Attr el)" "declaresNS a = Some d" for a d
    using that by (force simp: declaredPrefixes_def map_filter_def)
  have "p \<in> set (declaredPrefixes (el_Attr el) @ ps)" if "a \<in> set (el_Attr el)" "p \<in> set (utilizedBy inc a)" for a
  proof (cases "isNSDecl a")
    case True
    with that(2) obtain v where "declaresNS a = Some (p, v)"
      by (auto simp: utilizedBy_def isNSDecl_def declaresNS_def isDefaultDecl_def split: if_splits)
    from decl [OF that(1) this] show ?thesis by simp
  next
    case False
    then have "p = at_Space a" "at_Space a \<noteq> defaultPrefix"
      using that(2) by (auto simp: utilizedBy_def isNSDecl_def isDefaultDecl_def split: if_splits)
    with assms(1) that(1) False show ?thesis by (auto simp: inScope.simps [of ps] Let_def list_all_iff)
  qed
  with assms show ?thesis
    by (auto simp: visiblyUtilizedPrefixes_def inScope.simps [of ps] Let_def split: if_splits)
qed

lemma transform_total:
  "inScope ps el \<Longrightarrow> set ps \<subseteq> dom (map_of (ns_prefixes C)) \<Longrightarrow> \<exists>el'. transformExcC14n C D inc com el = Inr el'"
  "\<forall>c. Elem c \<in> set ts \<longrightarrow> inScope ps c \<Longrightarrow> set ps \<subseteq> dom (map_of (ns_prefixes C)) \<Longrightarrow>
     \<exists>ts'. transformTokens C D inc com ts = Inr ts'"
proof (induction C D inc com el and C D inc com ts arbitrary: ps and ps
    rule: transformExcC14n_transformTokens.induct [case_names 1 2 3 chardata comment procinst directive])
  case (1 C D inc com el)
  let ?ps = "declaredPrefixes (el_Attr el) @ ps"
  have "\<forall>a \<in> set (el_Attr el). declOK a" using 1(2) by (auto simp: inScope.simps [of ps] Let_def list_all_iff)
  then obtain scope where s: "SubContext C el = Inr scope"
      "map_of (ns_prefixes scope) = map_of (ns_prefixes C) ++ map_of (rev (List.map_filter declaresNS (el_Attr el)))"
    unfolding SubContext_def by (rule subContextAttrs_ok)
  then have dom: "set ?ps \<subseteq> dom (map_of (ns_prefixes scope))"
    using 1(3) declaredPrefixes_dom [of "el_Attr el"] by auto
  then have "\<forall>p \<in> set (visiblyUtilizedPrefixes inc el). map_of (ns_prefixes scope) p \<noteq> None"
    using utilized_in_scope [OF 1(2)] by blast
  then obtain decls D' where d: "declareUtilized scope D (visiblyUtilizedPrefixes inc el) = Inr (decls, D')"
    using declareUtilized_total by force
  have "\<forall>c. Elem c \<in> set (el_Child el) \<longrightarrow> inScope ?ps c"
    using 1(2) by (auto simp: inScope.simps [of ps] Let_def child_elements_iff)
  from 1(1) [OF s(1) d refl this dom] show ?case using s(1) d by (auto simp: transformExcC14n.simps [of C])
next
  case (3 C D inc com c ts)
  obtain c' where c: "transformExcC14n C D inc com c = Inr c'" using 3(1) [of ps] 3(3,4) by auto
  moreover obtain ts' where "transformTokens C D inc com ts = Inr ts'" using 3(2) [OF c, of ps] 3(3,4) by auto
  ultimately show ?case by simp
next
  case (chardata C D inc com v ts)
  then show ?case by fastforce
next
  case (comment C D inc com v ts)
  then show ?case by fastforce
next
  case (procinst C D inc com v w ts)
  then show ?case by fastforce
next
  case (directive C D inc com v ts)
  then show ?case by fastforce
qed simp_all


text \<open>A canonical form declares what it uses.\<close>

lemma set_declaredPrefixes: "set (declaredPrefixes as) = {p. \<exists>a \<in> set as. \<exists>n. declaresNS a = Some (p, n)}"
  by (force simp: declaredPrefixes_def map_filter_def)

lemma ns_attr_space: "at_Space (ns_attr p n) = xmlnsPrefix \<Longrightarrow> at_Key (ns_attr p n) \<noteq> defaultPrefix"
  by (auto simp: ns_attr_def mkAttr_def ns_const_defs split: if_splits)

lemma transform_inScope:
  "transformExcC14n C D inc com el = Inr el' \<Longrightarrow> ns_wf C \<Longrightarrow> ns_wf D \<Longrightarrow> wellNamed el \<Longrightarrow>
     dom (map_of (ns_prefixes D)) \<subseteq> set ps \<Longrightarrow> inScope ps el'"
  "transformTokens C D inc com ts = Inr ts' \<Longrightarrow> ns_wf C \<Longrightarrow> ns_wf D \<Longrightarrow>
     \<forall>c. Elem c \<in> set ts \<longrightarrow> wellNamed c \<Longrightarrow> dom (map_of (ns_prefixes D)) \<subseteq> set ps \<Longrightarrow>
     \<forall>c. Elem c \<in> set ts' \<longrightarrow> inScope ps c"
proof (induction C D inc com el and C D inc com ts arbitrary: el' ps and ts' ps
    rule: transformExcC14n_transformTokens.induct [case_names 1 2 3 chardata comment procinst directive])
  case (1 C D inc com el)
  from 1(2) obtain scope decls D' ts where t: "SubContext C el = Inr scope"
      "declareUtilized scope D (visiblyUtilizedPrefixes inc el) = Inr (decls, D')"
      "transformTokens scope D' inc com (el_Child el) = Inr ts"
      "el' = Element (el_Space el) (el_Tag el) (sortAttrs (filter (\<lambda>a. \<not> isNSDecl a) (el_Attr el) @ decls)) ts"
    by (auto simp: transformExcC14n.simps [of C])
  let ?as = "sortAttrs (filter (\<lambda>a. \<not> isNSDecl a) (el_Attr el) @ decls)"
  have named: "attrsNamed (el_Attr el)" "\<forall>c. Elem c \<in> set (el_Child el) \<longrightarrow> wellNamed c"
    using 1(5) by (auto simp: wellNamed.simps [of el] child_elements_iff)
  have wf: "ns_wf scope" using SubContext_wf [OF t(1) 1(3) named(1)] .
  obtain pairs where pairs: "decls = map (\<lambda>(p, n). ns_attr p n) pairs"
      "\<forall>pn \<in> set pairs. addable pn" "ns_wf D'" "map_of (ns_prefixes D') = map_of (ns_prefixes D) ++ map_of pairs"
      and util: "\<And>p. p \<in> set (visiblyUtilizedPrefixes inc el) \<Longrightarrow>
        map_of (ns_prefixes scope) p \<noteq> None \<and> map_of (ns_prefixes D') p = map_of (ns_prefixes scope) p"
    using declareUtilized_spec [OF t(2) distinct_utilized wf 1(4)] by metis
  have decl: "isNSDecl a \<and> declOK a \<and> (\<exists>n. declaresNS a = Some (p, n)) \<and>
      (at_Space a = xmlnsPrefix \<longrightarrow> at_Key a \<noteq> defaultPrefix)" if "(p, n) \<in> set pairs" "a = ns_attr p n" for a p n
    using pairs(2) that ns_attr_decl [of p n] ns_attr_space [of p n] by auto
  have "fst ` set pairs \<subseteq> set (declaredPrefixes ?as)"
    using decl by (fastforce simp: set_declaredPrefixes pairs(1))
  then have dom: "dom (map_of (ns_prefixes D')) \<subseteq> set (declaredPrefixes ?as @ ps)"
    using 1(6) unfolding pairs(4) by (auto simp: dom_map_of_conv_image_fst)
  then have u: "p \<in> set (declaredPrefixes ?as @ ps)" if "p \<in> set (visiblyUtilizedPrefixes inc el)" for p
    using util [OF that] by (metis domIff subset_iff)
  have "declOK a \<and> (at_Space a = xmlnsPrefix \<longrightarrow> at_Key a \<noteq> defaultPrefix) \<and>
      (isNSDecl a \<or> at_Space a = defaultPrefix \<or> at_Space a \<in> set (declaredPrefixes ?as @ ps))" if a: "a \<in> set ?as" for a
  proof (cases "a \<in> set decls")
    case True
    then show ?thesis using decl by (auto simp: pairs(1))
  next
    case False
    with a have a': "a \<in> set (el_Attr el)" "\<not> isNSDecl a" by auto
    with named(1) not_NSDecl [OF a'(2)] u [OF utilized_attr [OF a']] show ?thesis by (auto simp: attrsNamed_def)
  qed
  moreover have "\<forall>c. Elem c \<in> set ts \<longrightarrow> inScope (declaredPrefixes ?as @ ps) c"
    using 1(1) [OF t(1,2) refl t(3) wf pairs(3) named(2) dom] .
  ultimately show ?case
    unfolding t(4) using u [OF utilized_space] by (simp only: inScope_Element list_all_iff) blast
next
  case (3 C D inc com c ts)
  from 3(3) obtain c' us where c: "transformExcC14n C D inc com c = Inr c'"
      and us: "transformTokens C D inc com ts = Inr us" and ts': "ts' = Elem c' # us" by auto
  have "inScope ps c'" using 3(1) [OF c 3(4,5) _ 3(7)] 3(6) by auto
  moreover have "\<forall>c. Elem c \<in> set us \<longrightarrow> inScope ps c" using 3(2) [OF c us 3(4,5) _ 3(7)] 3(6) by auto
  ultimately show ?case by (simp add: ts')
next
  case (chardata C D inc com v ts)
  from chardata(2) obtain us where "transformTokens C D inc com ts = Inr us" "ts' = CharData v # us"
    by (auto simp: isComment_def)
  with chardata(1) [of us ps] chardata(3-6) show ?case by auto
next
  case (comment C D inc com v ts)
  from comment(2) obtain us where "transformTokens C D inc com ts = Inr us" "ts' = (if com then Comment v # us else us)"
    by (auto simp: isComment_def)
  with comment(1) [of us ps] comment(3-6) show ?case by auto
next
  case (procinst C D inc com v w ts)
  from procinst(2) obtain us where "transformTokens C D inc com ts = Inr us" "ts' = ProcInst v w # us"
    by (auto simp: isComment_def)
  with procinst(1) [of us ps] procinst(3-6) show ?case by auto
next
  case (directive C D inc com v ts)
  from directive(2) obtain us where "transformTokens C D inc com ts = Inr us" "ts' = Directive v # us"
    by (auto simp: isComment_def)
  with directive(1) [of us ps] directive(3-6) show ?case by auto
qed simp_all

text \<open>A tree is closed when it needs no prefix from its surroundings, but for those that are always declared.\<close>

definition basePrefixes :: "string list" where
  "basePrefixes = [defaultPrefix, xmlPrefix, xmlnsPrefix]"

abbreviation closedTree :: "element \<Rightarrow> bool" where
  "closedTree el \<equiv> inScope basePrefixes el"

lemma TransformExcC14n_closed:
  assumes "closedTree el"
  obtains el' where "TransformExcC14n pl com el = Inr el'" "closedTree el'" "el_Space el' = el_Space el"
    "el_Tag el' = el_Tag el"
proof -
  have dom: "dom (map_of (ns_prefixes NewDefaultNSContext)) = set basePrefixes"
    by (auto simp: NewDefaultNSContext_def basePrefixes_def)
  then obtain el' where el': "transformExcC14n NewDefaultNSContext NewDefaultNSContext (Fields pl) com el = Inr el'"
    using transform_total(1) [OF assms] by blast
  moreover have "closedTree el'"
    using transform_inScope(1) [OF el' _ _ inScope_wellNamed [OF assms]] dom by simp
  ultimately show ?thesis
    by (intro that [of el']) (auto simp: TransformExcC14n_def transformExcC14n.simps [of NewDefaultNSContext])
qed


text \<open>Canonicalization fails exactly where a prefix is used that is not declared, or a reserved one is declared.\<close>

lemma transform_needs_scope:
  "transformExcC14n C D inc com el = Inr el' \<Longrightarrow> ns_wf C \<Longrightarrow> ns_wf D \<Longrightarrow> wellNamed el \<Longrightarrow>
     dom (map_of (ns_prefixes C)) \<subseteq> set ps \<Longrightarrow> inScope ps el"
  "transformTokens C D inc com ts = Inr ts' \<Longrightarrow> ns_wf C \<Longrightarrow> ns_wf D \<Longrightarrow>
     \<forall>c. Elem c \<in> set ts \<longrightarrow> wellNamed c \<Longrightarrow> dom (map_of (ns_prefixes C)) \<subseteq> set ps \<Longrightarrow>
     \<forall>c. Elem c \<in> set ts \<longrightarrow> inScope ps c"
proof (induction C D inc com el and C D inc com ts arbitrary: el' ps and ts' ps
    rule: transformExcC14n_transformTokens.induct [case_names 1 2 3 chardata comment procinst directive])
  case (1 C D inc com el)
  from 1(2) obtain scope decls D' ts where t: "SubContext C el = Inr scope"
      "declareUtilized scope D (visiblyUtilizedPrefixes inc el) = Inr (decls, D')"
      "transformTokens scope D' inc com (el_Child el) = Inr ts"
    by (auto simp: transformExcC14n.simps [of C])
  let ?ps = "declaredPrefixes (el_Attr el) @ ps"
  have named: "attrsNamed (el_Attr el)" "\<forall>c. Elem c \<in> set (el_Child el) \<longrightarrow> wellNamed c"
    using 1(5) by (auto simp: wellNamed.simps [of el] child_elements_iff)
  note s = subContextAttrs_Inr [OF t(1) [unfolded SubContext_def]]
  have dom: "dom (map_of (ns_prefixes scope)) \<subseteq> set ?ps"
    using s 1(6) declaredPrefixes_dom [of "el_Attr el"] by auto
  have wf: "ns_wf scope" using SubContext_wf [OF t(1) 1(3) named(1)] .
  note d = declareUtilized_spec [OF t(2) distinct_utilized wf 1(4)]
  then have wf': "ns_wf D'" by blast
  have util: "p \<in> set ?ps" if "p \<in> set (visiblyUtilizedPrefixes inc el)" for p
    using d that dom by (metis domIff subset_iff)
  have "\<forall>c. Elem c \<in> set (el_Child el) \<longrightarrow> inScope ?ps c" using 1(1) [OF t(1,2) refl t(3) wf wf' named(2) dom] .
  moreover have "declOK a \<and> (at_Space a = xmlnsPrefix \<longrightarrow> at_Key a \<noteq> defaultPrefix) \<and>
      (isNSDecl a \<or> at_Space a = defaultPrefix \<or> at_Space a \<in> set ?ps)" if "a \<in> set (el_Attr el)" for a
    using that s named(1) util utilized_attr [OF that] by (auto simp: attrsNamed_def)
  ultimately show ?case using util [OF utilized_space]
    by (simp add: inScope.simps [of ps] Let_def child_elements_iff list_all_iff)
next
  case (3 C D inc com c ts)
  from 3(3) obtain c' us where c: "transformExcC14n C D inc com c = Inr c'"
      and us: "transformTokens C D inc com ts = Inr us" by auto
  have "inScope ps c" using 3(1) [OF c 3(4,5) _ 3(7)] 3(6) by auto
  moreover have "\<forall>c. Elem c \<in> set ts \<longrightarrow> inScope ps c" using 3(2) [OF c us 3(4,5) _ 3(7)] 3(6) by auto
  ultimately show ?case by simp
next
  case (chardata C D inc com v ts)
  from chardata(2) obtain us where "transformTokens C D inc com ts = Inr us" by auto
  with chardata(1) [of us ps] chardata(3-6) show ?case by auto
next
  case (comment C D inc com v ts)
  from comment(2) obtain us where "transformTokens C D inc com ts = Inr us" by auto
  with comment(1) [of us ps] comment(3-6) show ?case by auto
next
  case (procinst C D inc com v w ts)
  from procinst(2) obtain us where "transformTokens C D inc com ts = Inr us" by auto
  with procinst(1) [of us ps] procinst(3-6) show ?case by auto
next
  case (directive C D inc com v ts)
  from directive(2) obtain us where "transformTokens C D inc com ts = Inr us" by auto
  with directive(1) [of us ps] directive(3-6) show ?case by auto
qed simp_all

section \<open>Detached elements\<close>

definition ns_distinct :: "nscontext \<Rightarrow> bool" where
  "ns_distinct ctx \<longleftrightarrow> distinct (map fst (ns_prefixes ctx))"

lemma ns_distinct_declare [simp]: "ns_distinct ctx \<Longrightarrow> ns_distinct (declare_ns ctx p n)"
  by (auto simp: ns_distinct_def declare_ns_def distinct_map_filter)

lemma subContextAttrs_distinct: "subContextAttrs ctx as = Inr ctx' \<Longrightarrow> ns_distinct ctx \<Longrightarrow> ns_distinct ctx'"
  by (induction ctx as rule: subContextAttrs.induct) (auto split: if_splits)

lemma ns_distinct_default: "ns_distinct NewDefaultNSContext"
  by (simp add: ns_distinct_def NewDefaultNSContext_def ns_const_defs)

text \<open>What is detached with the context of its surroundings is closed.\<close>

lemma detached_closed:
  assumes "SubContext C el = Inr C'" "ns_wf C" "ns_distinct C" "inScope ps el" "set ps \<subseteq> dom (map_of (ns_prefixes C))"
  shows "closedTree (setAttrs el (detachedAttrs C' el))"
proof -
  let ?as = "detachedAttrs C' el" and ?ps = "declaredPrefixes (el_Attr el) @ ps"
  have in_scope: "list_all (\<lambda>a. declOK a \<and> (at_Space a = xmlnsPrefix \<longrightarrow> at_Key a \<noteq> defaultPrefix) \<and>
        (isNSDecl a \<or> at_Space a = defaultPrefix \<or> at_Space a \<in> set ?ps)) (el_Attr el)" "el_Space el \<in> set ?ps"
      "\<forall>c \<in> set (ChildElements el). inScope ?ps c"
    using assms(4) by (auto simp: inScope.simps [of ps] Let_def)
  have wf: "ns_wf C'" using SubContext_wf [OF assms(1,2)] inScope_wellNamed [OF assms(4)] by (simp add: wellNamed.simps [of el])
  have dist: "distinct (map fst (ns_prefixes C'))"
    using subContextAttrs_distinct [OF assms(1) [unfolded SubContext_def] assms(3)] by (simp add: ns_distinct_def)
  have "set ?ps \<subseteq> dom (map_of (ns_prefixes C'))"
    using subContextAttrs_Inr [OF assms(1) [unfolded SubContext_def]] assms(5) declaredPrefixes_dom [of "el_Attr el"] by auto
  then have dom: "set ?ps \<subseteq> fst ` set (ns_prefixes C')" by (simp add: dom_map_of_conv_image_fst)
  have attr: "declOK a \<and> (\<exists>n. declaresNS a = Some (p, n)) \<and> isNSDecl a \<and> (at_Space a = xmlnsPrefix \<longrightarrow> at_Key a \<noteq> defaultPrefix)"
    if "(p, n) \<in> set (ns_prefixes C')" "p \<noteq> xmlnsPrefix" "p \<noteq> xmlPrefix"
      "a = (if p \<noteq> defaultPrefix then mkAttr xmlnsPrefix p n else mkAttr [] xmlnsPrefix n)" for a p n
  proof -
    have "map_of (ns_prefixes C') p = Some n" using dist that(1) by simp
    then have "p = defaultPrefix \<Longrightarrow> n \<noteq> XMLNSNamespace" using wf by (auto simp: ns_wf_def)
    with that(2-4) show ?thesis
      by (auto simp: declOK_def declaresNS_def isNSDecl_def isDefaultDecl_def mkAttr_def defaultPrefix_def simp flip: defaultPrefix_def)
  qed
  have sub: "set ?ps \<subseteq> set (declaredPrefixes ?as @ basePrefixes)"
  proof
    fix p assume "p \<in> set ?ps"
    then obtain n where n: "(p, n) \<in> set (ns_prefixes C')" using dom by force
    show "p \<in> set (declaredPrefixes ?as @ basePrefixes)"
    proof (cases "p \<in> set basePrefixes")
      case False
      then have "mkAttr xmlnsPrefix p n \<in> set ?as" "p \<noteq> xmlnsPrefix" "p \<noteq> xmlPrefix" "p \<noteq> defaultPrefix"
        using n by (auto simp: detachedAttrs_def basePrefixes_def image_iff intro!: bexI [of _ "(p, n)"])
      with attr [OF n, of "mkAttr xmlnsPrefix p n"] show ?thesis by (auto simp: set_declaredPrefixes)
    qed simp
  qed
  have "declOK a \<and> (at_Space a = xmlnsPrefix \<longrightarrow> at_Key a \<noteq> defaultPrefix) \<and>
      (isNSDecl a \<or> at_Space a = defaultPrefix \<or> at_Space a \<in> set (declaredPrefixes ?as @ basePrefixes))" if "a \<in> set ?as" for a
  proof -
    from that consider "a \<in> set (el_Attr el)"
      | p n where "(p, n) \<in> set (ns_prefixes C')" "p \<noteq> xmlnsPrefix" "p \<noteq> xmlPrefix"
          "a = (if p \<noteq> defaultPrefix then mkAttr xmlnsPrefix p n else mkAttr [] xmlnsPrefix n)"
      by (auto simp: detachedAttrs_def)
    then show ?thesis using in_scope(1) sub attr by cases (auto simp: list_all_iff)
  qed
  moreover have "\<forall>c \<in> set (ChildElements el). inScope (declaredPrefixes ?as @ basePrefixes) c"
    using in_scope(3) inScope_mono sub by blast
  ultimately show ?thesis using in_scope(2) sub
    by (auto simp: inScope.simps [of basePrefixes] Let_def list_all_iff)
qed


text \<open>Attributes without a prefix declare nothing and need nothing.\<close>

definition plainAttr :: "attr \<Rightarrow> bool" where
  "plainAttr a \<longleftrightarrow> at_Space a = [] \<and> at_Key a \<noteq> ''xmlns''"

definition attrScoped :: "string list \<Rightarrow> attr \<Rightarrow> bool" where
  "attrScoped ps a \<longleftrightarrow> declOK a \<and> (at_Space a = xmlnsPrefix \<longrightarrow> at_Key a \<noteq> defaultPrefix) \<and>
     (isNSDecl a \<or> at_Space a = defaultPrefix \<or> at_Space a \<in> set ps)"

lemma inScope_scoped:
  "inScope ps (Element sp tag as ts) \<longleftrightarrow>
     list_all (attrScoped (declaredPrefixes as @ ps)) as \<and> sp \<in> set (declaredPrefixes as @ ps) \<and>
     list_all (inScope (declaredPrefixes as @ ps)) (child_elements ts)"
  by (auto simp: attrScoped_def list_all_iff child_elements_iff)

lemma plainAttr_scoped: "plainAttr a \<Longrightarrow> attrScoped ps a \<and> declaresNS a = None"
  by (auto simp: plainAttr_def attrScoped_def declOK_def isDefaultDecl_def declaresNS_def ns_const_defs)

lemma declaredPrefixes_simps [simp]:
  "declaredPrefixes [] = []"
  "declaredPrefixes (as @ bs) = declaredPrefixes as @ declaredPrefixes bs"
  "p \<noteq> [] \<Longrightarrow> declaredPrefixes (mkAttr ''xmlns'' p n # as) = p # declaredPrefixes as"
  "plainAttr a \<Longrightarrow> declaredPrefixes (a # as) = declaredPrefixes as"
  by (auto simp: declaredPrefixes_def map_filter_def declaresNS_def mkAttr_def ns_const_defs plainAttr_def isDefaultDecl_def)

lemma plainAttrs [simp]:
  "list_all plainAttr as \<Longrightarrow> declaredPrefixes as = []"
  "list_all plainAttr as \<Longrightarrow> list_all (attrScoped ps) as"
  by (induction as) (auto simp: plainAttr_scoped)

lemma attrScoped_simps [simp]:
  "p \<notin> set [[], ''xmlns'', ''xml''] \<Longrightarrow> attrScoped ps (mkAttr ''xmlns'' p n)"
  "plainAttr a \<Longrightarrow> attrScoped ps a"
  "k \<noteq> ''xmlns'' \<Longrightarrow> plainAttr (mkAttr [] k v)"
  "attrScoped ps (mkAttr ''xsi'' k v) \<longleftrightarrow> ''xsi'' \<in> set ps"
  by (auto simp: attrScoped_def plainAttr_scoped declOK_def isNSDecl_def isDefaultDecl_def mkAttr_def ns_const_defs plainAttr_def)

lemma plainAttr_built [simp]:
  "k \<noteq> ''xmlns'' \<Longrightarrow> plainAttr (at k v)" "k \<noteq> ''xmlns'' \<Longrightarrow> list_all plainAttr (atSet k v)"
  "k \<noteq> ''xmlns'' \<Longrightarrow> list_all plainAttr (atSome k f x)" "k \<noteq> ''xmlns'' \<Longrightarrow> list_all plainAttr (atTime k t)"
  by (simp_all add: at_def atSet_def atSome_def atTime_def split: option.splits)

lemma child_elements_Elem: "child_elements (map (\<lambda>v. Elem (g v)) vs) = map g vs"
  by (induction vs) simp_all

lemma child_elements_built [simp]:
  "child_elements (textTokens s) = []"
  "child_elements (elSome f x) = (case x of None \<Rightarrow> [] | Some v \<Rightarrow> [f v])"
  by (simp_all add: textTokens_def elSome_def split: option.splits)

lemma list_all_built [simp]:
  "list_all P (case x of None \<Rightarrow> [] | Some v \<Rightarrow> [f v]) \<longleftrightarrow> (\<forall>v. x = Some v \<longrightarrow> P (f v))"
  "list_all P (map f vs) \<longleftrightarrow> list_all (\<lambda>v. P (f v)) vs"
  by (auto simp: list.pred_map o_def split: option.splits)

declare list.pred_True [simp] inScope_Element [simp del] inScope_scoped [simp] child_elements_Elem [simp]


section \<open>The messages are closed\<close>

text \<open>The parts of a message use the prefix \<^verbatim>\<open>saml\<close> or \<^verbatim>\<open>samlp\<close>, which the messages declare.\<close>

lemma NameID_in_scope [simp]: "inScope ps (NameID_Element n) \<longleftrightarrow> ''saml'' \<in> set ps"
  by (simp add: NameID_Element_def)

lemma saml_parts:
  assumes "''saml'' \<in> set ps"
  shows "inScope ps (Issuer_Element i)" "inScope ps (Subject_Element s)"
    "inScope ps (Conditions_Element c)" "inScope ps (AuthnStatement_Element st)"
    "inScope ps (AttributeStatement_Element ats)"
proof -
  show "inScope ps (Issuer_Element i)" using assms by (simp add: Issuer_Element_def)
  show "inScope ps (Subject_Element s)" using assms
    by (simp add: Subject_Element_def SubjectConfirmation_Element_def SubjectConfirmationData_Element_def)
  show "inScope ps (Conditions_Element c)" using assms
    by (simp add: Conditions_Element_def AudienceRestriction_Element_def Audience_Element_def OneTimeUse_Element_def
        ProxyRestriction_Element_def)
  show "inScope ps (AuthnStatement_Element st)" using assms
    by (simp add: AuthnStatement_Element_def SubjectLocality_Element_def AuthnContext_Element_def
        AuthnContextClassRef_Element_def)
  show "inScope ps (AttributeStatement_Element ats)" using assms
    by (simp add: AttributeStatement_Element_def Attribute_Element_def AttributeValue_Element_def xsDecl_def)
qed


lemma message_decls [simp]:
  "samlDecl = mkAttr ''xmlns'' ''saml'' SAMLAssertionNS" "samlpDecl = mkAttr ''xmlns'' ''samlp'' SAMLProtocolNS"
  "xsDecl = mkAttr ''xmlns'' ''xs'' XMLSchemaNS"
  by (simp_all add: samlDecl_def samlpDecl_def xsDecl_def)

text \<open>A status without details, which are any elements.\<close>

lemma StatusCode_in_scope: "''samlp'' \<in> set ps \<Longrightarrow> inScope ps (StatusCode_Element c)"
  by (induction c rule: StatusCode_Element.induct) (auto split: option.splits)

lemma Status_in_scope:
  "''samlp'' \<in> set ps \<Longrightarrow> st_StatusDetail s = None \<Longrightarrow> inScope ps (Status_Element s)"
  by (simp add: Status_Element_def StatusMessage_Element_def StatusCode_in_scope)

lemma assertionTree_closed:
  assumes "\<And>sig. asr_Signature a = Some sig \<Longrightarrow> closedTree sig"
  shows "closedTree (assertionTree a)"
proof -
  have "inScope (''saml'' # basePrefixes) sig" if "asr_Signature a = Some sig" for sig
    by (rule inScope_mono [OF assms [OF that]]) auto
  then show ?thesis by (simp add: assertionTree_def saml_parts)
qed

lemma CreateAttr_closed:
  assumes "closedTree el" and new': "\<And>qs. attrScoped qs (mkAttr sp k v)"
    and old: "\<And>a p n. at_Space a = sp \<Longrightarrow> at_Key a = k \<Longrightarrow> declaresNS a = Some (p, n) \<Longrightarrow> \<exists>n'. declaresNS (mkAttr sp k v) = Some (p, n')"
  shows "closedTree (CreateAttr sp k v el)"
proof -
  let ?new = "mkAttr sp k v" and ?el = "CreateAttr sp k v el"
  let ?ps = "declaredPrefixes (el_Attr el) @ basePrefixes" and ?ps' = "declaredPrefixes (el_Attr ?el) @ basePrefixes"
  have attrs: "set (el_Attr ?el) \<subseteq> insert ?new (set (el_Attr el))"
    and kept: "\<And>a. a \<in> set (el_Attr el) \<Longrightarrow> a \<in> set (el_Attr ?el) \<or> at_Space a = sp \<and> at_Key a = k \<and> ?new \<in> set (el_Attr ?el)"
    using createAttr_set [of sp k v "el_Attr el"] createAttr_kept [of _ "el_Attr el" sp k v] by (auto simp: CreateAttr_def)
  have sub: "set ?ps \<subseteq> set ?ps'"
    using kept old by (fastforce simp: set_declaredPrefixes)
  have el: "list_all (attrScoped ?ps) (el_Attr el)" "el_Space el \<in> set ?ps" "list_all (inScope ?ps) (ChildElements el)"
    using assms(1) inScope_scoped [of basePrefixes "el_Space el" "el_Tag el" "el_Attr el" "el_Child el"] by (simp_all del: inScope_scoped)
  have "list_all (attrScoped ?ps') (el_Attr ?el)"
    using el(1) attrs new' sub by (fastforce simp: list_all_iff attrScoped_def)
  moreover have "el_Space ?el = el_Space el" "el_Child ?el = el_Child el" by (simp_all add: CreateAttr_def)
  then have "el_Space ?el \<in> set ?ps'" "list_all (inScope ?ps') (ChildElements ?el)"
    using el(2,3) sub inScope_mono [OF _ sub] by (auto simp: list_all_iff simp del: set_append)
  ultimately show ?thesis
    using inScope_scoped [of basePrefixes "el_Space ?el" "el_Tag ?el" "el_Attr ?el" "el_Child ?el"]
    by (simp del: inScope_scoped)
qed

lemma CreateAttr_xs_closed: "closedTree el \<Longrightarrow> closedTree (CreateAttr ''xmlns'' ''xs'' n el)"
  by (rule CreateAttr_closed) (simp_all, auto simp: declaresNS_def mkAttr_def ns_const_defs isDefaultDecl_def split: if_splits)

lemma CreateAttr_plain_closed: "closedTree el \<Longrightarrow> k \<noteq> ''xmlns'' \<Longrightarrow> closedTree (CreateAttr [] k v el)"
  by (rule CreateAttr_closed) (auto simp: declaresNS_def ns_const_defs isDefaultDecl_def split: if_splits)

lemma Assertion_Element_total:
  assumes "\<And>sig. asr_Signature a = Some sig \<Longrightarrow> closedTree sig"
  obtains el where "Assertion_Element a = Inr el" "closedTree el"
proof -
  obtain el where el: "TransformExcC14n canonicalizerPrefixList False (assertionTree a) = Inr el" "closedTree el"
    using TransformExcC14n_closed [OF assertionTree_closed [OF assms]] by blast
  then show ?thesis
    using CreateAttr_xs_closed [OF el(2), of XMLSchemaNS]
    by (intro that [of "if asr_AttributeStatements a \<noteq> [] then CreateAttr ''xmlns'' ''xs'' XMLSchemaNS el else el"])
      (simp_all add: Assertion_Element_def)
qed


section \<open>Signing succeeds\<close>

text \<open>A context that can sign: its method is set, its canonicalizer is an exclusive one, and its key signs the
  digests that its own hash makes (an RSA key signs nothing else) and comes with certificates.\<close>

definition canSign :: "externs \<Rightarrow> string \<Rightarrow> signing_context \<Rightarrow> bool" where
  "canSign X rnd ctx \<longleftrightarrow> ctx_Prefix ctx = DefaultPrefix \<and>
     (\<exists>pl com. ctx_Canonicalizer ctx = C14N10Exclusive pl com) \<and>
     GetDigestAlgorithmIdentifier ctx \<noteq> [] \<and> GetSignatureMethodIdentifier ctx \<noteq> [] \<and>
     (\<forall>m. \<exists>s. signDigest X rnd ctx (x_Hash X (ctx_Hash ctx) m) = Inr s) \<and> (\<exists>certs. getCerts ctx = Inr certs)"

lemma digestElement_total:
  assumes "canSign X rnd ctx" "closedTree el"
  obtains el' d where "digestElement X ctx (anc, el) = Inr (el', d)" "closedTree el'"
    "d = x_Hash X (ctx_Hash ctx) (x_CanonicalWrite X el')"
    "\<exists>pl com. ctx_Canonicalizer ctx = C14N10Exclusive pl com \<and> TransformExcC14n pl com el = Inr el'"
proof -
  obtain pl com where c: "ctx_Canonicalizer ctx = C14N10Exclusive pl com" using assms(1) by (auto simp: canSign_def)
  obtain el' where "TransformExcC14n pl com el = Inr el'" "closedTree el'"
    using TransformExcC14n_closed [OF assms(2)] by blast
  then show ?thesis by (intro that) (auto simp: digestElement_def Canonicalize_def c)
qed

lemma algorithmAttr_plain [simp]: "list_all plainAttr (algorithmAttr a)"
  by (simp add: algorithmAttr_def)

lemma signature_prefix [simp]: "DefaultPrefix = ''ds''" by (simp add: DefaultPrefix_def)

lemma ConstructSignature_total:
  assumes sg: "canSign X rnd ctx" and el: "closedTree el"
  obtains el' sig where "ConstructSignature X rnd ctx ([], el) True = Inr (el', sig)" "closedTree el'" "closedTree sig"
proof -
  obtain certs where certs: "getCerts ctx = Inr certs" using sg by (auto simp: canSign_def)
  have pre: "ctx_Prefix ctx = ''ds''" using sg by (simp add: canSign_def)
  obtain el' d where d: "digestElement X ctx ([], el) = Inr (el', d)" "closedTree el'"
    using digestElement_total [OF sg el] by blast
  then obtain si where si: "constructSignedInfo X ctx ([], el) True = Inr (el', si)" "inScope [''ds''] si"
      "element_count si \<le> 100" "el_Attr si = []"
    using sg by (auto simp: constructSignedInfo_def canSign_def createNamespacedElement_def element_count.simps Let_def)
  let ?sig = "\<lambda>ts. Element ''ds'' ''Signature'' [mkAttr ''xmlns'' ''ds'' dsNamespace] ts"
  have "\<forall>a \<in> set (el_Attr el'). declOK a" using d(2) by (auto simp: inScope.simps [of basePrefixes] Let_def list_all_iff)
  then obtain C where C: "SubContext NewDefaultNSContext el' = Inr C" unfolding SubContext_def by (rule subContextAttrs_ok)
  then have wf: "ns_wf C" "ns_distinct C"
    using SubContext_wf inScope_wellNamed [OF d(2)] subContextAttrs_distinct ns_distinct_default ns_wf_default
    by (auto simp: SubContext_def wellNamed.simps [of el'])
  let ?D = "declare_ns C ''ds'' dsNamespace"
  have D: "SubContext C (?sig ts) = Inr ?D" for ts by (simp add: SubContext_def mkAttr_def ns_const_defs)
  have wfD: "ns_wf ?D" "ns_distinct ?D" using wf by (auto simp: ns_wf_def ns_const_defs)
  have si': "SubContext ?D si = Inr ?D" by (simp add: SubContext_def si(4))
  obtain l where l: "checkSubtreeLimit defaultLimit si = Inr l"
    using si(3) checkSubtreeLimit_iff(1) [of defaultLimit si "defaultLimit - element_count si"]
    by (auto simp: defaultLimit_def)
  have "closedTree (setAttrs si (detachedAttrs ?D si))"
    by (rule detached_closed [OF si' wfD si(2)]) simp
  from digestElement_total [OF sg this] obtain e2 d2
    where d2: "digestElement X ctx ([], setAttrs si (detachedAttrs ?D si)) = Inr (e2, d2)"
      "d2 = x_Hash X (ctx_Hash ctx) (x_CanonicalWrite X e2)" by blast
  obtain raw where raw: "signDigest X rnd ctx d2 = Inr raw" using sg by (auto simp: canSign_def d2(2))
  let ?cert = "\<lambda>cert. Elem (Element ''ds'' ''X509Certificate'' [] [CharData (base64Encode cert)])"
  let ?full = "?sig [Elem si, Elem (Element ''ds'' ''SignatureValue'' [] [CharData (base64Encode raw)]),
    Elem (Element ''ds'' ''KeyInfo'' [] [Elem (Element ''ds'' ''X509Data'' [] (map ?cert certs))])]"
  have "ConstructSignature X rnd ctx ([], el) True = Inr (el', ?full)"
    by (simp add: ConstructSignature_def si(1) Let_def pre createNamespacedElement_def C D NSDetatch_def l si' d2(1) raw certs
        del: checkSubtreeLimit.simps)
  moreover have "closedTree ?full"
    using inScope_mono [OF si(2), of "''ds'' # basePrefixes"] by simp
  ultimately show ?thesis using that d(2) by blast
qed

lemma SignEnveloped_total:
  assumes "canSign X rnd ctx" "closedTree el"
  obtains el' sig where "SignEnveloped X rnd ctx ([], el) = Inr (AddChild (Elem sig) el')" "closedTree el'" "closedTree sig"
proof -
  from ConstructSignature_total [OF assms] obtain el' sig
    where "ConstructSignature X rnd ctx ([], el) True = Inr (el', sig)" "closedTree el'" "closedTree sig" .
  then show ?thesis by (intro that [of sig el']) (simp_all add: SignEnveloped_def)
qed


section \<open>Encrypted data and responses\<close>

lemma RSA_Encrypt_closed: "RSA_Encrypt X e cert pt nonce rnd = Inr el \<Longrightarrow> closedTree el"
  by (auto simp: RSA_Encrypt_def BlockCipher_Encrypt_def encryptionMethodEl_def cipherDataEl_def xencDecl_def dsDecl_def
      encryptedKeyEl_def setChild_def split: public_key.splits if_splits option.splits)

text \<open>The prefixes that a response declares for what it contains.\<close>

definition responsePrefixes :: "string list" where
  "responsePrefixes = [''saml'', ''samlp'', ''xs''] @ basePrefixes"

lemma Response_Element_total:
  assumes "st_StatusDetail (resp_Status r) = None" "resp_Assertion r = None" "resp_EncryptedAssertion r = None"
    "\<And>sig. resp_Signature r = Some sig \<Longrightarrow> closedTree sig"
  obtains el where "Response_Element r = Inr el" "closedTree el"
    "\<And>a. inScope responsePrefixes a \<Longrightarrow> closedTree (AddChild (Elem a) el)"
proof -
  have "inScope responsePrefixes sig" if "resp_Signature r = Some sig" for sig
    by (rule inScope_mono [OF assms(4) [OF that]]) (auto simp: responsePrefixes_def)
  then show ?thesis using assms(1-3)
    by (intro that [of "projr (Response_Element r)"])
      (simp_all add: Response_Element_def saml_parts Status_in_scope AddChild_def setChild_def responsePrefixes_def)
qed

text \<open>
  C5. Exclusive canonicalization succeeds on every closed tree and keeps its meaning. If every prefix of a tree is
  declared in it, \<^verbatim>\<open>TransformExcC14n\<close> returns a tree whose names, resolved from nothing but its own declarations,
  give the same expanded tree as those of the original: the same namespaces, local names, attribute values, text and
  structure, less the comments when they are dropped. The result is closed again.
\<close>

theorem exclusive_canonicalization_keeps_meaning:
  assumes "closedTree el"
  shows "\<exists>el' x. TransformExcC14n prefixList comments el = Inr el' \<and> closedTree el' \<and>
    expand NewDefaultNSContext comments el = Inr x \<and> expand NewDefaultNSContext True el' = Inr x"
proof -
  obtain el' where el': "TransformExcC14n prefixList comments el = Inr el'" "closedTree el'"
    using TransformExcC14n_closed [OF assms] by metis
  with transform_expand(1) [OF el'(1) [unfolded TransformExcC14n_def] ns_wf_default ns_wf_default inScope_wellNamed [OF assms]]
  show ?thesis by blast
qed

theorem exclusive_canonicalization_keeps_meaning_witness:
  "\<exists>el' x. TransformExcC14n [] False exampleTree = Inr el' \<and> closedTree el' \<and>
    expand NewDefaultNSContext False exampleTree = Inr x \<and> expand NewDefaultNSContext True el' = Inr x"
  by (rule exclusive_canonicalization_keeps_meaning) code_simp

text \<open>
  C17. Canonicalization succeeds exactly on closed trees. On a tree whose prefix declarations all name a prefix,
  exclusive canonicalization succeeds if and only if every declaration is an allowed one and every prefix of an element
  or attribute is declared on it or around it; it never fails for another reason, whatever the prefix list.
\<close>

theorem canonicalization_succeeds_iff_closed:
  assumes "wellNamed el"
  shows "(\<exists>el'. TransformExcC14n prefixList comments el = Inr el') \<longleftrightarrow> closedTree el"
proof
  assume "\<exists>el'. TransformExcC14n prefixList comments el = Inr el'"
  then obtain el' where
    t: "transformExcC14n NewDefaultNSContext NewDefaultNSContext (Fields prefixList) comments el = Inr el'"
    by (auto simp: TransformExcC14n_def)
  show "closedTree el"
    by (rule transform_needs_scope(1) [OF t _ _ assms])
      (simp_all add: basePrefixes_def, simp add: NewDefaultNSContext_def)
qed (use TransformExcC14n_closed in blast)

theorem canonicalization_succeeds_iff_closed_witness:
  "(\<exists>el'. TransformExcC14n [] False (Element ''p'' ''Root'' [] []) = Inr el') \<longleftrightarrow>
     closedTree (Element ''p'' ''Root'' [] [])"
  by (rule canonicalization_succeeds_iff_closed) code_simp

definition exampleLogoutReq :: LogoutRequest where
  "exampleLogoutReq = \<lparr>lreq_ID = ''id'', lreq_Version = ''2.0'', lreq_IssueInstant = 5, lreq_NotOnOrAfter = None,
     lreq_Destination = ''slo'', lreq_Issuer = None, lreq_NameID = None, lreq_Signature = None, lreq_SessionIndexes = [''i'']\<rparr>"

definition exampleLogoutResp :: LogoutResponse where
  "exampleLogoutResp = \<lparr>lrsp_ID = ''id'', lrsp_InResponseTo = ''req'', lrsp_Version = ''2.0'', lrsp_IssueInstant = 5,
     lrsp_Destination = ''slo'', lrsp_Consent = [], lrsp_Issuer = None, lrsp_Signature = None,
     lrsp_Status = \<lparr>st_StatusCode = StatusCode ''ok'' None, st_StatusMessage = None, st_StatusDetail = None\<rparr>\<rparr>"

text \<open>
  C18. Logout messages can be signed. A context whose key signs the digests of its hash and whose method is set makes an
  enveloped signature
  on every logout request, and on every logout response whose status has no details of its own: building the message,
  canonicalizing it and building the signature never fail, whatever the values of the fields.
\<close>

theorem logout_messages_can_be_signed:
  assumes "canSign X rnd ctx" "lreq_Signature req = None" "lrsp_Signature resp = None"
    "st_StatusDetail (lrsp_Status resp) = None"
  shows "(\<exists>signed. SignEnveloped X rnd ctx ([], LogoutRequest_Element req) = Inr signed) \<and>
    (\<exists>signed. SignEnveloped X rnd ctx ([], LogoutResponse_Element resp) = Inr signed)"
proof -
  have "closedTree (LogoutRequest_Element req)" "closedTree (LogoutResponse_Element resp)"
    using assms(2-4)
    by (simp_all add: LogoutRequest_Element_def LogoutResponse_Element_def SessionIndex_Element_def saml_parts
        Status_in_scope)
  then show ?thesis using SignEnveloped_total [OF assms(1)] by metis
qed


theorem logout_messages_can_be_signed_witness:
  "(\<exists>signed. SignEnveloped exampleX [] (exampleContext\<lparr>ctx_Canonicalizer := C14N10Exclusive [] False\<rparr>)
      ([], LogoutRequest_Element exampleLogoutReq) = Inr signed) \<and>
   (\<exists>signed. SignEnveloped exampleX [] (exampleContext\<lparr>ctx_Canonicalizer := C14N10Exclusive [] False\<rparr>)
      ([], LogoutResponse_Element exampleLogoutResp) = Inr signed)"
  by (rule logout_messages_can_be_signed)
    (auto simp: canSign_def keyAlgorithm_def digestAlgorithmIdentifier_def signatureMethodIdentifier_def algorithm_id_defs RSASHA256SignatureMethod_def exampleContext_def GetDigestAlgorithmIdentifier_def GetSignatureMethodIdentifier_def
      getPublicKeyAlgorithm_def signDigest_def getCerts_def exampleLogoutReq_def exampleLogoutResp_def exampleSigner_def)

end
