(* ===== verification/Idp_Sso.thy ===== *)
theory Idp_Sso
  imports Idp_Response Message_Signing
begin

text \<open>
  Single sign-on at the identity provider: to whom a response goes and for what session, that assertions are encrypted
  for a service provider that accepts encryption, what a passive request can cause, and that a request which passes
  validation is answered.
\<close>

section \<open>Validated requests\<close>

lemma IdpAuthnRequest_keeps_request:
  assumes "verifyAuthnRequestSignature X clk idp req = Inr req'" "iar_ServiceProviderMetadata req = Some md"
  shows "req' = req\<lparr>iar_Request := iar_Request req'\<rparr>"
  using assms by (cases rule: verifyAuthnRequestSignature_cases) (auto simp: useVerifiedRequest_Inr)

text \<open>What validation sets: the request, the metadata, and the endpoint with its descriptor.\<close>

lemma Idp_Validate_sets:
  assumes "Idp_Validate X clk idp req = Inr req'"
  obtains md d e where
    "req' = req\<lparr>iar_Request := iar_Request req', iar_ServiceProviderMetadata := Some md,
       iar_SPSSODescriptor := Some d, iar_ACSEndpoint := Some e\<rparr>"
    "endpointSelected md req'" "iep_Binding e = HTTPPostBinding"
proof -
  from assms obtain request md req1 where v:
      "verifyAuthnRequestSignature X clk idp (req\<lparr>iar_Request := request, iar_ServiceProviderMetadata := Some md\<rparr>) = Inr req1"
      "getACSEndpoint req1 = Inr req'"
    by (auto simp: Idp_Validate_def Let_def)
  have r1: "req1 = req\<lparr>iar_ServiceProviderMetadata := Some md, iar_Request := iar_Request req1\<rparr>"
    using IdpAuthnRequest_keeps_request [OF v(1), of md] by simp
  obtain md' d e where e: "iar_ServiceProviderMetadata req1 = Some md'" "endpointSelected md' req'"
      "req' = req1\<lparr>iar_SPSSODescriptor := Some d, iar_ACSEndpoint := Some e\<rparr>"
    using getACSEndpoint_Inr [OF v(2)] .
  have md: "md' = md" using e(1) by (subst (asm) r1) simp
  show ?thesis
  proof (rule that)
    show "req' = req\<lparr>iar_Request := iar_Request req', iar_ServiceProviderMetadata := Some md,
       iar_SPSSODescriptor := Some d, iar_ACSEndpoint := Some e\<rparr>"
      using r1 e(3) by (cases req1, cases req, cases req') simp
    show "endpointSelected md req'" using e(2) md by simp
    then show "iep_Binding e = HTTPPostBinding" by (auto simp: endpointSelected_def e(3))
  qed
qed

lemma Idp_Validate_selects:
  assumes "Idp_Validate X clk idp req = Inr req'"
  obtains md where "iar_ServiceProviderMetadata req' = Some md" "endpointSelected md req'"
proof -
  from Idp_Validate_sets [OF assms] obtain md d e where
    eq: "req' = req\<lparr>iar_Request := iar_Request req', iar_ServiceProviderMetadata := Some md,
       iar_SPSSODescriptor := Some d, iar_ACSEndpoint := Some e\<rparr>" and "endpointSelected md req'" .
  moreover have "iar_ServiceProviderMetadata req' = Some md" by (subst eq) simp
  ultimately show ?thesis using that by blast
qed

lemma Idp_Validate_keeps:
  assumes "Idp_Validate X clk idp req = Inr req'"
  shows "iar_AssertionEl req' = iar_AssertionEl req" "iar_ResponseEl req' = iar_ResponseEl req"
    "iar_Now req' = iar_Now req" "iar_RelayState req' = iar_RelayState req" "iar_HTTPRequest req' = iar_HTTPRequest req"
proof -
  obtain md d e where eq: "req' = req\<lparr>iar_Request := iar_Request req', iar_ServiceProviderMetadata := Some md,
       iar_SPSSODescriptor := Some d, iar_ACSEndpoint := Some e\<rparr>" using Idp_Validate_sets [OF assms] .
  show "iar_AssertionEl req' = iar_AssertionEl req" "iar_ResponseEl req' = iar_ResponseEl req"
    "iar_Now req' = iar_Now req" "iar_RelayState req' = iar_RelayState req" "iar_HTTPRequest req' = iar_HTTPRequest req"
    by (subst eq, simp)+
qed

lemma NewIdpAuthnRequest_fresh:
  "NewIdpAuthnRequest X r now = Inr req \<Longrightarrow>
   iar_Assertion req = None \<and> iar_AssertionEl req = None \<and> iar_ResponseEl req = None"
  by (auto simp: NewIdpAuthnRequest_def readRedirectQuery_def newRequest_def Let_def split: if_splits)

section \<open>Encryption\<close>

text \<open>The certificate that an assertion is encrypted for: of a key descriptor of the role that is not only for
  signing.\<close>

lemma getSPEncryptionCert_published:
  assumes "getSPEncryptionCert X d md = Inr cert"
  obtains kd s der where "kd \<in> set (rd_KeyDescriptors d)" "kd_Use kd \<noteq> ''signing''" "s \<in> set (kd_X509Certificates kd)"
    "base64Decode (removeWhitespace s) = Inr der" "x_ParseCertificate X der = Inr cert"
proof -
  from assms obtain kd der where kd: "spEncryptionKeyDescriptor d = Some kd" "firstCertificateData kd \<noteq> []"
      "base64Decode (removeWhitespace (firstCertificateData kd)) = Inr der" "x_ParseCertificate X der = Inr cert"
    by (auto simp: getSPEncryptionCert_def Let_def split: if_splits option.splits)
  from kd(1) have "kd \<in> set (rd_KeyDescriptors d)" "kd_Use kd \<noteq> ''signing''"
    by (auto simp: spEncryptionKeyDescriptor_def Let_def split: option.splits dest!: find_Some_in)
  moreover from kd(2) have "firstCertificateData kd \<in> set (kd_X509Certificates kd)"
    by (auto simp: firstCertificateData_def split: option.splits dest!: find_Some_in)
  ultimately show ?thesis using that kd(3,4) by blast
qed

lemma getSPEncryptionCert_NotExist:
  "getSPEncryptionCert X d md = Inl ErrNotExist \<Longrightarrow> \<not> serviceProviderAcceptsEncryption d md"
  by (auto simp: getSPEncryptionCert_def wrapE_def Let_def isPanic_def split: if_splits sum.splits)

text \<open>The last step of \<^verbatim>\<open>MakeAssertionEl\<close>, on the signed assertion and its element.\<close>

definition chooseEncryption ::
  "externs \<Rightarrow> idp_env \<Rightarrow> IdpAuthnRequest \<Rightarrow> SPSSODescriptor \<Rightarrow> Assertion \<Rightarrow> element \<Rightarrow> IdpAuthnRequest result" where
  "chooseEncryption X env req d a plain =
     (case getSPEncryptionCert X d (iar_ServiceProviderMetadata req) of
        Inl e \<Rightarrow> if e = ErrNotExist then Inr (req\<lparr>iar_Assertion := Some a, iar_AssertionEl := Some plain\<rparr>) else Inl e
      | Inr cert \<Rightarrow>
          bindE (RSA_Encrypt X (assertionEncryptor d) cert (x_WriteToBytes X plain) None (env_Encryption env))
            (\<lambda>encryptedData. Inr (req\<lparr>iar_Assertion := Some a, iar_AssertionEl := Some (encryptedAssertion encryptedData)\<rparr>)))"

lemma MakeAssertionEl_parts:
  assumes "MakeAssertionEl X env idp req = Inr req'"
  obtains d assertion sigEl plain where "iar_SPSSODescriptor req = Some d"
    "Assertion_Element (assertion\<lparr>asr_Signature := Some sigEl\<rparr>) = Inr plain"
    "chooseEncryption X env req d (assertion\<lparr>asr_Signature := Some sigEl\<rparr>) plain = Inr req'"
  using assms by (auto simp: MakeAssertionEl_def chooseEncryption_def Let_def)

text \<open>
  C19. Encryption is not downgraded. If the role of the service provider that the response is for, or any other role
  in its metadata, publishes a key that is not only for signing, then an assertion element is only ever made by
  encrypting the signed assertion, with the cipher chosen from that role's key descriptor, for a certificate that the
  role publishes for encryption; there is no way to the plain assertion.
\<close>

theorem encryption_not_downgraded:
  assumes "MakeAssertionEl X env idp req = Inr req'" "iar_SPSSODescriptor req = Some d"
    "serviceProviderAcceptsEncryption d (iar_ServiceProviderMetadata req)"
  shows "\<exists>kd s der cert a plain encryptedData.
    kd \<in> set (rd_KeyDescriptors d) \<and> kd_Use kd \<noteq> ''signing'' \<and> s \<in> set (kd_X509Certificates kd) \<and>
    base64Decode (removeWhitespace s) = Inr der \<and> x_ParseCertificate X der = Inr cert \<and>
    iar_Assertion req' = Some a \<and> asr_Signature a \<noteq> None \<and> Assertion_Element a = Inr plain \<and>
    RSA_Encrypt X (assertionEncryptor d) cert (x_WriteToBytes X plain) None (env_Encryption env) = Inr encryptedData \<and>
    iar_AssertionEl req' = Some (encryptedAssertion encryptedData)"
proof -
  from MakeAssertionEl_parts [OF assms(1)] obtain d' assertion sigEl plain where d': "iar_SPSSODescriptor req = Some d'"
      and p': "Assertion_Element (assertion\<lparr>asr_Signature := Some sigEl\<rparr>) = Inr plain"
        "chooseEncryption X env req d' (assertion\<lparr>asr_Signature := Some sigEl\<rparr>) plain = Inr req'" .
  have "d' = d" using d' assms(2) by simp
  note p = p' [unfolded this]
  from p(2) obtain cert where cert: "getSPEncryptionCert X d (iar_ServiceProviderMetadata req) = Inr cert"
    using getSPEncryptionCert_NotExist assms(3) by (auto simp: chooseEncryption_def split: sum.splits if_splits)
  from getSPEncryptionCert_published [OF cert] obtain kd s der where
    "kd \<in> set (rd_KeyDescriptors d)" "kd_Use kd \<noteq> ''signing''" "s \<in> set (kd_X509Certificates kd)"
    "base64Decode (removeWhitespace s) = Inr der" "x_ParseCertificate X der = Inr cert" .
  moreover from p(2) cert obtain encryptedData where
    "RSA_Encrypt X (assertionEncryptor d) cert (x_WriteToBytes X plain) None (env_Encryption env) = Inr encryptedData"
    "req' = req\<lparr>iar_Assertion := Some (assertion\<lparr>asr_Signature := Some sigEl\<rparr>),
       iar_AssertionEl := Some (encryptedAssertion encryptedData)\<rparr>"
    by (auto simp: chooseEncryption_def)
  ultimately show ?thesis using p(1) by - (rule exI [of _ kd], rule exI [of _ s], rule exI [of _ der], auto)
qed


section \<open>What is sent\<close>

text \<open>A form that carries a signed response with this status and assertion element to the endpoint of the request:
  the response answers the request, comes from the identity provider and is signed with its key over the canonical form
  of the response with the assertion element as its last child, and that child is what the form carries.\<close>

definition withChild :: "element option \<Rightarrow> element \<Rightarrow> element" where
  "withChild c el = (case c of None \<Rightarrow> el | Some a \<Rightarrow> AddChild (Elem a) el)"

definition responseForm ::
  "externs \<Rightarrow> idp_env \<Rightarrow> IdentityProvider \<Rightarrow> IdpAuthnRequest \<Rightarrow> Status \<Rightarrow> element option \<Rightarrow> IdpAuthnRequestForm \<Rightarrow> bool" where
  "responseForm X env idp req status carried f \<longleftrightarrow>
     (\<exists>e resp ctx unsigned canonical sig final. iar_ACSEndpoint req = Some e \<and>
        resp_Destination resp = iep_Location e \<and> resp_InResponseTo resp = areq_ID (iar_Request req) \<and>
        resp_Issuer resp = Some (entityIssuer (urlString (idp_MetadataURL idp))) \<and> resp_Status resp = status \<and>
        resp_ID resp = randomID (env_ResponseID env) \<and> resp_IssueInstant resp = iar_Now req \<and>
        resp_Version resp = ''2.0'' \<and> resp_Signature resp = None \<and>
        resp_Assertion resp = None \<and> resp_EncryptedAssertion resp = None \<and>
        signingContext idp = Inr ctx \<and> Response_Element resp = Inr unsigned \<and>
        SignEnveloped X (env_ResponseSignature env) ctx ([], withChild carried unsigned) = Inr (AddChild (Elem sig) canonical) \<and>
        TransformExcC14n canonicalizerPrefixList False (withChild carried unsigned) = Inr canonical \<and>
        Response_Element (resp\<lparr>resp_Signature := Some sig\<rparr>) = Inr final \<and>
        form_URL f = iep_Location e \<and> form_RelayState f = iar_RelayState req \<and>
        form_SAMLResponse f = base64Encode (x_WriteToBytes X
          (if carried = None then final else AddChild (last (el_Child canonical)) final)))"

lemma signingContext_exclusive:
  "signingContext idp = Inr ctx \<Longrightarrow> ctx_Canonicalizer ctx = C14N10Exclusive canonicalizerPrefixList False"
  by (auto simp: signingContext_def NewSigningContext_def SetSignatureMethod_Inr Let_def split: option.splits)

lemma SignEnveloped_canonical:
  assumes "SignEnveloped X rnd ctx ([], el) = Inr signed" "ctx_Canonicalizer ctx = C14N10Exclusive pl com"
  obtains canonical sig where "signed = AddChild (Elem sig) canonical" "TransformExcC14n pl com el = Inr canonical"
  using assms that
  by (auto simp: SignEnveloped_def ConstructSignature_def constructSignedInfo_def digestElement_def Canonicalize_def Let_def
      split: if_splits)

lemma responseFormI:
  assumes "iar_ACSEndpoint req = Some e" "newResponse env idp req status = Inr resp"
    "signResponse X env idp resp carried = Inr el"
  shows "responseForm X env idp req status carried \<lparr>form_URL = iep_Location e,
    form_SAMLResponse = base64Encode (x_WriteToBytes X el), form_RelayState = iar_RelayState req\<rparr>"
proof -
  from assms(3) obtain unsigned ctx signed sig final where s: "Response_Element resp = Inr unsigned"
      "signingContext idp = Inr ctx"
      "SignEnveloped X (env_ResponseSignature env) ctx ([], withChild carried unsigned) = Inr signed"
      "lastElement signed = Inr sig" "Response_Element (resp\<lparr>resp_Signature := Some sig\<rparr>) = Inr final"
      "el = (if carried = None then final else AddChild (last (butlast (el_Child signed))) final)"
    by (cases carried) (auto simp: signResponse_def withChild_def Let_def)
  obtain canonical sig' where c: "signed = AddChild (Elem sig') canonical"
      "TransformExcC14n canonicalizerPrefixList False (withChild carried unsigned) = Inr canonical"
    using SignEnveloped_canonical [OF s(3) signingContext_exclusive [OF s(2)]] .
  have "sig' = sig" using s(4) c(1) by (simp add: lastElement_def AddChild_def)
  with s c assms(1,2) show ?thesis
    unfolding responseForm_def
    by (intro exI [of _ e] exI [of _ resp] exI [of _ ctx] exI [of _ unsigned] exI [of _ canonical] exI [of _ sig]
        exI [of _ final]) (auto simp: newResponse_def AddChild_def)
qed

definition formPage :: "IdpAuthnRequestForm \<Rightarrow> http_write list" where
  "formPage f = [SetNoCacheHeaders, WriteForm f]"

lemma newResponse_cong:
  "iar_ACSEndpoint req = iar_ACSEndpoint req' \<Longrightarrow> iar_Request req = iar_Request req' \<Longrightarrow> iar_Now req = iar_Now req' \<Longrightarrow>
   newResponse env idp req = newResponse env idp req'"
  by (rule ext) (simp add: newResponse_def)

lemma MakeAssertionEl_Inr:
  assumes "MakeAssertionEl X env idp req = Inr req'"
  obtains a el where "req' = req\<lparr>iar_Assertion := Some a, iar_AssertionEl := Some el\<rparr>"
proof -
  from MakeAssertionEl_parts [OF assms] obtain d assertion plain where "chooseEncryption X env req d assertion plain = Inr req'" .
  then show ?thesis using that by (auto simp: chooseEncryption_def split: sum.splits if_splits)
qed

lemma WriteResponse_made:
  assumes "WriteResponse X env idp req = Inr ws" "iar_ResponseEl req = Some el"
  obtains e where "iar_ACSEndpoint req = Some e"
    "ws = formPage \<lparr>form_URL = iep_Location e, form_SAMLResponse = base64Encode (x_WriteToBytes X el),
       form_RelayState = iar_RelayState req\<rparr>"
  using assms by (auto simp: WriteResponse_def PostBinding_def formPage_def split: if_splits)

lemma MakeErrorResponse_Inr:
  assumes "MakeErrorResponse X env idp req t s m = Inr req'"
  obtains resp el where "newResponse env idp req (errorStatus t s m) = Inr resp"
    "signResponse X env idp resp None = Inr el" "req' = req\<lparr>iar_ResponseEl := Some el\<rparr>" "t \<noteq> StatusSuccess"
proof -
  have "newResponse env idp (req\<lparr>iar_ResponseEl := None\<rparr>) = newResponse env idp req"
    by (rule newResponse_cong) simp_all
  moreover have "t \<noteq> StatusSuccess" if "t \<in> set [StatusRequester, StatusResponder, StatusVersionMismatch]"
    using that by (auto simp: status_defs)
  ultimately show ?thesis using assms that by (auto simp: MakeErrorResponse_def Let_def split: if_splits)
qed

lemma WriteErrorResponse_Inr:
  assumes "WriteErrorResponse X env idp req t s m = Inr ws"
  shows "\<exists>f. ws = formPage f \<and> t \<noteq> StatusSuccess \<and> responseForm X env idp req (errorStatus t s m) None f"
proof -
  from assms obtain req' where r: "MakeErrorResponse X env idp req t s m = Inr req'" "WriteResponse X env idp req' = Inr ws"
    by (auto simp: WriteErrorResponse_def)
  from MakeErrorResponse_Inr [OF r(1)] obtain resp el where e: "newResponse env idp req (errorStatus t s m) = Inr resp"
    "signResponse X env idp resp None = Inr el" "req' = req\<lparr>iar_ResponseEl := Some el\<rparr>" "t \<noteq> StatusSuccess" .
  from WriteResponse_made [OF r(2), of el] e(3) obtain d where "iar_ACSEndpoint req = Some d"
    "ws = formPage \<lparr>form_URL = iep_Location d, form_SAMLResponse = base64Encode (x_WriteToBytes X el),
       form_RelayState = iar_RelayState req\<rparr>" by force
  with e responseFormI [OF this(1) e(1,2)] show ?thesis by blast
qed

lemma WriteResponse_Inr:
  assumes "WriteResponse X env idp req = Inr ws" "iar_ResponseEl req = None" "iar_AssertionEl req = None"
  shows "\<exists>f req' a. ws = formPage f \<and> MakeAssertionEl X env idp req = Inr req' \<and> iar_AssertionEl req' = Some a \<and>
    responseForm X env idp req successStatus (Some a) f"
proof -
  have "WriteResponse X env idp req = bindE (MakeResponse X env idp req) (WriteResponse X env idp)"
    using assms(2) by (auto simp: WriteResponse_def PostBinding_def MakeResponse_def bindE_assoc intro!: bindE_cong)
  with assms(1,3) obtain req1 req2 resp el where q: "MakeAssertionEl X env idp req = Inr req1"
      "newResponse env idp req1 successStatus = Inr resp" "signResponse X env idp resp (iar_AssertionEl req1) = Inr el"
      "req2 = req1\<lparr>iar_ResponseEl := Some el\<rparr>" "WriteResponse X env idp req2 = Inr ws"
    by (auto simp: MakeResponse_def)
  obtain b a where b: "req1 = req\<lparr>iar_Assertion := Some b, iar_AssertionEl := Some a\<rparr>"
    using MakeAssertionEl_Inr [OF q(1)] .
  have "newResponse env idp req1 = newResponse env idp req" by (rule newResponse_cong) (simp_all add: b)
  moreover from WriteResponse_made [OF q(5), of el] q(4) b obtain d where "iar_ACSEndpoint req = Some d"
    "ws = formPage \<lparr>form_URL = iep_Location d, form_SAMLResponse = base64Encode (x_WriteToBytes X el),
       form_RelayState = iar_RelayState req\<rparr>" by force
  ultimately show ?thesis using q b responseFormI [of req d env idp successStatus resp X "Some a" el] by auto
qed

lemma writeErrorStatus_Inr:
  assumes "writeErrorStatus X env idp req t s = Inr ws"
  shows "ws = [WriteError StatusInternalServerError] \<or>
    (\<exists>f. ws = formPage f \<and> t \<noteq> StatusSuccess \<and> responseForm X env idp req (errorStatus t s []) None f)"
  using assms WriteErrorResponse_Inr [of X env idp req t s "[]"]
  by (auto simp: writeErrorStatus_def orHttpError_def split: sum.splits)

lemma responseForm_cong:
  "iar_ACSEndpoint req = iar_ACSEndpoint req' \<Longrightarrow> iar_Request req = iar_Request req' \<Longrightarrow> iar_Now req = iar_Now req' \<Longrightarrow>
   iar_RelayState req = iar_RelayState req' \<Longrightarrow> responseForm X env idp req = responseForm X env idp req'"
  using newResponse_cong [of req req' env idp] by (intro ext) (simp add: responseForm_def)

lemma defaultAssertion_unsigned [simp]: "asr_Signature (defaultAssertion i s a r l c n t ats ses) = None"
  by (simp add: defaultAssertion_def)

text \<open>The assertion that the default maker makes: issued by the identity provider for the service provider, about the
  principal of the session, with the session's attributes and authentication, and usable only at the endpoint, in
  response to the request and for a limited time.\<close>

definition assertionAbout :: "IdentityProvider \<Rightarrow> IdpAuthnRequest \<Rightarrow> Session \<Rightarrow> Assertion \<Rightarrow> bool" where
  "assertionAbout idp req session a \<longleftrightarrow>
     asr_Issuer a = entityIssuer (urlString (idp_MetadataURL idp)) \<and> asr_Signature a = None \<and>
     map as_AuthnInstant (asr_AuthnStatements a) = [ses_CreateTime session] \<and>
     map as_SessionIndex (asr_AuthnStatements a) = [ses_Index session] \<and>
     (\<exists>md d e s n cond. iar_ServiceProviderMetadata req = Some md \<and> iar_SPSSODescriptor req = Some d \<and>
        iar_ACSEndpoint req = Some e \<and> asr_Subject a = Some s \<and> asr_Conditions a = Some cond \<and>
        subj_NameID s = Some n \<and> nid_Value n = ses_NameID session \<and> nid_Value n \<noteq> [] \<and>
        subj_Confirmations s \<noteq> [] \<and>
        (\<forall>c \<in> set (subj_Confirmations s). scf_Method c = bearerSubjectConfirmationMethod \<and>
           (\<exists>data. scf_Data c = Some data \<and> scd_Recipient data = iep_Location e \<and>
              scd_InResponseTo data = areq_ID (iar_Request req) \<and> scd_NotOnOrAfter data = iar_Now req + MaxIssueDelay)) \<and>
        cond_AudienceRestrictions cond = [\<lparr>ar_Audiences = [\<lparr>aud_Value = ed_EntityID md\<rparr>]\<rparr>] \<and>
        cond_NotOnOrAfter cond = iar_Now req + MaxIssueDelay \<and>
        concat (map ats_Attributes (asr_AttributeStatements a)) = assertionAttributes d session)"

lemma Idp_Metadata_entity: "Idp_Metadata idp now = Inr md \<Longrightarrow> ed_EntityID md = urlString (idp_MetadataURL idp)"
  by (auto simp: Idp_Metadata_def Let_def)

lemma MakeAssertion_Inr:
  assumes "MakeAssertion X env idp req session = Inr req'"
  obtains a where "req' = req\<lparr>iar_Assertion := Some a\<rparr>" "assertionAbout idp req session a"
proof -
  from assms obtain d idpMd md e where "iar_SPSSODescriptor req = Some d" "iar_ServiceProviderMetadata req = Some md"
      "iar_ACSEndpoint req = Some e" "ses_NameID session \<noteq> []" "Idp_Metadata idp (env_AssertionNow env) = Inr idpMd"
      "req' = req\<lparr>iar_Assertion := Some (defaultAssertion (ed_EntityID idpMd) (ed_EntityID md) (randomID (env_AssertionID env))
        (areq_ID (iar_Request req)) (iep_Location e) (clientAddress X (iar_HTTPRequest req) session) (iar_Now req)
        (env_AssertionNow env) (assertionAttributes d session) session)\<rparr>"
    by (auto simp: MakeAssertion_def split: if_splits)
  then show ?thesis
    by (intro that) (auto simp: assertionAbout_def defaultAssertion_def Idp_Metadata_entity)
qed

text \<open>The element that carries an assertion: of the signed assertion, or of its encryption for the service provider.\<close>

definition assertionElement :: "externs \<Rightarrow> idp_env \<Rightarrow> IdentityProvider \<Rightarrow> IdpAuthnRequest \<Rightarrow> Assertion \<Rightarrow> element \<Rightarrow> bool" where
  "assertionElement X env idp req a el \<longleftrightarrow>
     (\<exists>d ctx unsigned canonical sig plain. iar_SPSSODescriptor req = Some d \<and> signingContext idp = Inr ctx \<and>
        Assertion_Element a = Inr unsigned \<and>
        SignEnveloped X (env_AssertionSignature env) ctx ([], unsigned) = Inr (AddChild (Elem sig) canonical) \<and>
        Assertion_Element (a\<lparr>asr_Signature := Some sig\<rparr>) = Inr plain \<and>
        (el = plain \<and> \<not> serviceProviderAcceptsEncryption d (iar_ServiceProviderMetadata req) \<or>
         (\<exists>cert encrypted. getSPEncryptionCert X d (iar_ServiceProviderMetadata req) = Inr cert \<and>
            RSA_Encrypt X (assertionEncryptor d) cert (x_WriteToBytes X plain) None (env_Encryption env) = Inr encrypted \<and>
            el = encryptedAssertion encrypted)))"

lemma MakeAssertionEl_element:
  assumes "MakeAssertionEl X env idp req = Inr req'" "iar_Assertion req = Some a" "iar_AssertionEl req' = Some el"
  shows "assertionElement X env idp req a el"
proof -
  from assms(1,2) obtain ctx d unsigned signed sig plain where m: "signingContext idp = Inr ctx" "iar_SPSSODescriptor req = Some d"
      "Assertion_Element a = Inr unsigned" "SignEnveloped X (env_AssertionSignature env) ctx ([], unsigned) = Inr signed"
      "lastElement signed = Inr sig" "Assertion_Element (a\<lparr>asr_Signature := Some sig\<rparr>) = Inr plain"
      and c: "chooseEncryption X env req d (a\<lparr>asr_Signature := Some sig\<rparr>) plain = Inr req'"
    by (auto simp: MakeAssertionEl_def chooseEncryption_def Let_def)
  obtain canonical sig' where s: "signed = AddChild (Elem sig') canonical"
    using SignEnveloped_canonical [OF m(4) signingContext_exclusive [OF m(1)]] by metis
  have "sig' = sig" using m(5) s by (simp add: lastElement_def AddChild_def)
  moreover have "el = plain \<and> \<not> serviceProviderAcceptsEncryption d (iar_ServiceProviderMetadata req) \<or>
      (\<exists>cert encrypted. getSPEncryptionCert X d (iar_ServiceProviderMetadata req) = Inr cert \<and>
         RSA_Encrypt X (assertionEncryptor d) cert (x_WriteToBytes X plain) None (env_Encryption env) = Inr encrypted \<and>
         el = encryptedAssertion encrypted)"
    using c assms(3) getSPEncryptionCert_NotExist
    by (cases "getSPEncryptionCert X d (iar_ServiceProviderMetadata req)") (auto simp: chooseEncryption_def split: if_splits)
  ultimately show ?thesis using m s unfolding assertionElement_def by blast
qed

section \<open>What a response depends on\<close>

text \<open>The session that the provider returns: the passive lookup for a passive request, a forced authentication where
  that is asked for, and otherwise whatever session there is or can be made; with what the provider writes.\<close>

definition providedSession ::
  "IdentityProvider \<Rightarrow> http_request \<Rightarrow> IdpAuthnRequest \<Rightarrow> http_write list \<Rightarrow> Session \<Rightarrow> bool" where
  "providedSession idp r req written session \<longleftrightarrow>
     (let p = idp_SessionProvider idp in
      if areq_IsPassive (iar_Request req) = Some True
      then written = [] \<and> (\<exists>get. spr_GetPassiveSession p = Some get \<and> get r req = Some session)
      else if areq_ForceAuthn (iar_Request req) = Some True
      then (\<exists>get. spr_GetForcedSession p = Some get \<and> get r req = (written, Some session))
      else spr_GetSession p r req = (written, Some session))"

text \<open>Where the provider cannot give a session of the kind that the request asks for, and the status that says so.\<close>

definition sessionRefused :: "IdentityProvider \<Rightarrow> http_request \<Rightarrow> IdpAuthnRequest \<Rightarrow> string \<Rightarrow> string \<Rightarrow> bool" where
  "sessionRefused idp r req t s \<longleftrightarrow>
     (let p = idp_SessionProvider idp in
      areq_IsPassive (iar_Request req) = Some True \<and>
        (\<forall>get. spr_GetPassiveSession p = Some get \<longrightarrow> get r req = None) \<and> t = StatusResponder \<and> s = StatusNoPassive \<or>
      areq_IsPassive (iar_Request req) \<noteq> Some True \<and> areq_ForceAuthn (iar_Request req) = Some True \<and>
        spr_GetForcedSession p = None \<and> t = StatusResponder \<and> s = StatusAuthnFailed)"

text \<open>The constraints of the request on the assertion: an enforcer that is configured decides, and without one the
  assertion has to satisfy what the request asks for.\<close>

definition subjectMet :: "externs \<Rightarrow> IdentityProvider \<Rightarrow> IdpAuthnRequest \<Rightarrow> Session \<Rightarrow> Assertion \<Rightarrow> bool" where
  "subjectMet X idp req session a \<longleftrightarrow>
     (\<forall>subject. areq_Subject (iar_Request req) = Some subject \<longrightarrow>
        (case idp_SubjectEnforcer idp of
           None \<Rightarrow> subjectSatisfied X subject a
         | Some enforcer \<Rightarrow> enforcer (req\<lparr>iar_Assertion := Some a\<rparr>) session = Inr ()))"

definition policyMet :: "IdentityProvider \<Rightarrow> IdpAuthnRequest \<Rightarrow> Session \<Rightarrow> Assertion \<Rightarrow> bool" where
  "policyMet idp req session a \<longleftrightarrow>
     (\<forall>policy. areq_NameIDPolicy (iar_Request req) = Some policy \<longrightarrow>
        (case idp_NameIDPolicyEnforcer idp of
           None \<Rightarrow> policySatisfied policy a
         | Some enforcer \<Rightarrow> enforcer (req\<lparr>iar_Assertion := Some a\<rparr>) session = Inr ()))"

definition contextMet :: "IdentityProvider \<Rightarrow> IdpAuthnRequest \<Rightarrow> Session \<Rightarrow> Assertion \<Rightarrow> bool" where
  "contextMet idp req session a \<longleftrightarrow>
     (\<forall>requested. areq_RequestedAuthnContext (iar_Request req) = Some requested \<longrightarrow>
        (case idp_AuthnContextEnforcer idp of
           None \<Rightarrow> authnContextSatisfied [] requested a
         | Some enforcer \<Rightarrow> enforcer (req\<lparr>iar_Assertion := Some a\<rparr>) session = Inr ()))"

definition constraintsMet :: "externs \<Rightarrow> IdentityProvider \<Rightarrow> IdpAuthnRequest \<Rightarrow> Session \<Rightarrow> Assertion \<Rightarrow> bool" where
  "constraintsMet X idp req session a \<longleftrightarrow>
     subjectMet X idp req session a \<and> policyMet idp req session a \<and> contextMet idp req session a"

text \<open>The first constraint that is not met, in the order subject, policy, context, and the status for it.\<close>

definition constraintRefused ::
  "externs \<Rightarrow> IdentityProvider \<Rightarrow> IdpAuthnRequest \<Rightarrow> Session \<Rightarrow> Assertion \<Rightarrow> string \<Rightarrow> string \<Rightarrow> bool" where
  "constraintRefused X idp req session a t s \<longleftrightarrow>
     \<not> subjectMet X idp req session a \<and> t = StatusResponder \<and> s = StatusAuthnFailed \<or>
     subjectMet X idp req session a \<and> \<not> policyMet idp req session a \<and> t = StatusRequester \<and> s = StatusInvalidNameIDPolicy \<or>
     subjectMet X idp req session a \<and> policyMet idp req session a \<and> \<not> contextMet idp req session a \<and>
       t = StatusResponder \<and> s = StatusNoAuthnContext"

lemma getSession_provided:
  "getSession X env idp r req = Inr (written, Some session) \<longleftrightarrow> providedSession idp r req written session"
  by (auto simp: getSession_def providedSession_def Let_def split: option.splits)

lemma enforce_accepts: "enforce present verdict refusal = Inr None \<longleftrightarrow> (present \<longrightarrow> verdict = Inr ())"
  by (cases verdict) (auto simp: enforce_def tryE_def)

lemma enforce_refuses:
  "enforce present verdict refusal = Inr (Some ws) \<longleftrightarrow>
   present \<and> (\<exists>e. verdict = Inl e \<and> \<not> isPanic e) \<and> refusal = Inr ws"
  by (cases verdict) (auto simp: enforce_def tryE_def)

lemma verdicts:
  fixes req a
  defines "made \<equiv> req\<lparr>iar_Assertion := Some a\<rparr>"
  shows "(areq_Subject (iar_Request made) \<noteq> None \<longrightarrow>
      (case idp_SubjectEnforcer idp of None \<Rightarrow> EnforceSubject X made | Some e \<Rightarrow> e made session) = Inr ())
      \<longleftrightarrow> subjectMet X idp req session a"
    "(areq_NameIDPolicy (iar_Request made) \<noteq> None \<longrightarrow>
      (case idp_NameIDPolicyEnforcer idp of None \<Rightarrow> EnforceNameIDPolicy made | Some e \<Rightarrow> e made session) = Inr ())
      \<longleftrightarrow> policyMet idp req session a"
    "(areq_RequestedAuthnContext (iar_Request made) \<noteq> None \<longrightarrow>
      (case idp_AuthnContextEnforcer idp of None \<Rightarrow> EnforceAuthnContext [] made | Some e \<Rightarrow> e made session) = Inr ())
      \<longleftrightarrow> contextMet idp req session a"
  using EnforceSubject_satisfied [of made _ a X] EnforceNameIDPolicy_satisfied [of made _ a]
    EnforceAuthnContext_satisfied [of made _ a "[]"]
  by (auto simp: subjectMet_def policyMet_def contextMet_def made_def split: option.splits)

lemma enforceConstraints_accepts:
  "enforceConstraints X env idp (req\<lparr>iar_Assertion := Some a\<rparr>) session = Inr None \<longleftrightarrow> constraintsMet X idp req session a"
proof -
  have orElse: "bindE m (\<lambda>r. case r of Some ws \<Rightarrow> Inr (Some ws) | None \<Rightarrow> k) = Inr None \<longleftrightarrow> m = Inr None \<and> k = Inr None"
    for m k :: "http_write list option result"
    by (cases m) (auto split: option.splits)
  show ?thesis
    unfolding enforceConstraints_def Let_def orElse enforce_accepts verdicts constraintsMet_def by simp
qed

lemma enforceConstraints_refused:
  assumes "enforceConstraints X env idp (req\<lparr>iar_Assertion := Some a\<rparr>) session = Inr (Some ws)"
  shows "\<exists>t s. constraintRefused X idp req session a t s \<and>
    writeErrorStatus X env idp (req\<lparr>iar_Assertion := Some a\<rparr>) t s = Inr ws"
proof -
  have orElse: "bindE m (\<lambda>r. case r of Some ws \<Rightarrow> Inr (Some ws) | None \<Rightarrow> k) = Inr (Some ws) \<longleftrightarrow>
      m = Inr (Some ws) \<or> m = Inr None \<and> k = Inr (Some ws)" for m k :: "http_write list option result"
    by (cases m) (auto split: option.splits)
  have refused: "\<not> (present \<longrightarrow> verdict = Inr ()) \<and> refusal = Inr ws" if "enforce present verdict refusal = Inr (Some ws)"
    for present verdict refusal
    using that by (auto simp: enforce_refuses)
  note a = assms [unfolded enforceConstraints_def Let_def orElse enforce_accepts verdicts]
  show ?thesis unfolding constraintRefused_def
    using a by (elim disjE conjE) (drule refused, unfold verdicts, blast)+
qed

text \<open>The forms that a session provider writes itself are its own affair.\<close>

definition writesNoForm :: "SessionProvider \<Rightarrow> IdpAuthnRequestForm \<Rightarrow> bool" where
  "writesNoForm p f \<longleftrightarrow>
     (\<forall>r req. WriteForm f \<notin> set (fst (spr_GetSession p r req))) \<and>
     (\<forall>get r req. spr_GetForcedSession p = Some get \<longrightarrow> WriteForm f \<notin> set (fst (get r req)))"

lemma getSession_forms:
  assumes "getSession X env idp r req = Inr (ws, s)" "WriteForm f \<in> set ws" "writesNoForm (idp_SessionProvider idp) f"
  shows "\<exists>t u. sessionRefused idp r req t u \<and> responseForm X env idp req (errorStatus t u []) None f"
proof -
  let ?p = "idp_SessionProvider idp"
  have no: "WriteForm f \<notin> set (fst (spr_GetSession ?p r req))"
    "\<And>get. spr_GetForcedSession ?p = Some get \<Longrightarrow> WriteForm f \<notin> set (fst (get r req))"
    using assms(3) by (auto simp: writesNoForm_def)
  have "\<exists>t u. sessionRefused idp r req t u \<and> writeErrorStatus X env idp req t u = Inr ws"
  proof (cases "areq_IsPassive (iar_Request req) = Some True")
    case True
    with assms(1,2) show ?thesis by (auto simp: getSession_def sessionRefused_def Let_def split: option.splits)
  next
    case False
    with assms(1,2) no show ?thesis
      by (auto simp: getSession_def sessionRefused_def Let_def split: option.splits if_splits)
  qed
  then obtain t u where "sessionRefused idp r req t u" "writeErrorStatus X env idp req t u = Inr ws" by blast
  moreover have "responseForm X env idp req (errorStatus t u []) None f"
    using assms(2) writeErrorStatus_Inr [OF calculation(2)] by (auto simp: formPage_def)
  ultimately show ?thesis by blast
qed

lemma orHttpError_Inr:
  "orHttpError n m k = Inr ws \<longleftrightarrow> (\<exists>a. m = Inr a \<and> k a = Inr ws) \<or> (\<exists>e. m = Inl e \<and> \<not> isPanic e \<and> ws = [WriteError n])"
  by (cases m) (auto simp: orHttpError_def tryE_def)

text \<open>The forms of single sign-on: a refusal, because there is no session of the kind that is asked for or because the
  assertion for the session does not meet a constraint of the request; or the assertion for the session.\<close>

definition refusalSent ::
  "externs \<Rightarrow> idp_env \<Rightarrow> IdentityProvider \<Rightarrow> http_request \<Rightarrow> IdpAuthnRequest \<Rightarrow> IdpAuthnRequestForm \<Rightarrow> bool" where
  "refusalSent X env idp r req f \<longleftrightarrow>
     (\<exists>t s. (sessionRefused idp r req t s \<or>
              (\<exists>written session a. providedSession idp r req written session \<and> assertionAbout idp req session a \<and>
                 constraintRefused X idp req session a t s)) \<and>
        responseForm X env idp req (errorStatus t s []) None f)"

definition assertionSent ::
  "externs \<Rightarrow> idp_env \<Rightarrow> IdentityProvider \<Rightarrow> http_request \<Rightarrow> IdpAuthnRequest \<Rightarrow> IdpAuthnRequestForm \<Rightarrow> bool" where
  "assertionSent X env idp r req f \<longleftrightarrow>
     (\<exists>written session a el. providedSession idp r req written session \<and> assertionAbout idp req session a \<and>
        constraintsMet X idp req session a \<and> assertionElement X env idp req a el \<and>
        responseForm X env idp req successStatus (Some el) f)"

text \<open>What follows the assertion maker in \<^verbatim>\<open>ServeSSO\<close>: a refusal or the response.\<close>

lemma answer_forms:
  assumes "bindE (enforceConstraints X env idp req1 session) (\<lambda>refused.
      case refused of
        Some ws \<Rightarrow> Inr ws
      | None \<Rightarrow> orHttpError StatusInternalServerError (WriteResponse X env idp req1) Inr) = Inr ws" "WriteForm f \<in> set ws"
    "req1 = req\<lparr>iar_Assertion := Some a\<rparr>" "iar_ResponseEl req = None" "iar_AssertionEl req = None"
  shows "(\<exists>t s. constraintRefused X idp req session a t s \<and> responseForm X env idp req (errorStatus t s []) None f) \<or>
    constraintsMet X idp req session a \<and>
      (\<exists>el. assertionElement X env idp req a el \<and> responseForm X env idp req successStatus (Some el) f)"
proof -
  have same: "responseForm X env idp (req\<lparr>iar_Assertion := Some a\<rparr>) = responseForm X env idp req"
    by (rule responseForm_cong) simp_all
  from assms(1) obtain refused where c: "enforceConstraints X env idp req1 session = Inr refused"
    and k: "(case refused of Some ws \<Rightarrow> Inr ws
       | None \<Rightarrow> orHttpError StatusInternalServerError (WriteResponse X env idp req1) Inr) = Inr ws" by auto
  show ?thesis
  proof (cases refused)
    case (Some ws')
    with c k assms(3) obtain t s where t: "constraintRefused X idp req session a t s" "writeErrorStatus X env idp req1 t s = Inr ws"
      using enforceConstraints_refused by force
    from writeErrorStatus_Inr [OF t(2)] assms(2) have "responseForm X env idp req (errorStatus t s []) None f"
      by (auto simp: formPage_def same assms(3))
    with t(1) show ?thesis by blast
  next
    case None
    with k assms(2) have w: "WriteResponse X env idp req1 = Inr ws" by (auto simp: orHttpError_Inr)
    from WriteResponse_Inr [OF w] assms(2-5) obtain req' el where r: "MakeAssertionEl X env idp req1 = Inr req'"
        "iar_AssertionEl req' = Some el" "responseForm X env idp req successStatus (Some el) f"
      by (auto simp: formPage_def same)
    have "assertionElement X env idp req1 a el" by (rule MakeAssertionEl_element [OF r(1) _ r(2)]) (simp add: assms(3))
    then have "assertionElement X env idp req a el" by (simp add: assertionElement_def assms(3))
    moreover have "constraintsMet X idp req session a"
      using c None assms(3) by (simp add: enforceConstraints_accepts)
    ultimately show ?thesis using r(3) by blast
  qed
qed

text \<open>
  C20. Responses only for authenticated sessions and to validated endpoints. With the default assertion maker, every
  form with a response that single sign-on writes belongs to a request that passed validation. The response in it is
  signed by the identity provider, answers that request, and goes to an endpoint of the service provider's metadata that
  the request selects, with the RelayState of the request. It either reports a failure and carries no assertion: then the
  provider has no session of the kind that the request asks for, or the assertion for the session violates the
  constraint that the status names. Or it carries an assertion about the principal of the session which the session
  provider returned for this request, for this service provider, endpoint and request, and that assertion meets the
  subject, the name identifier policy and the authentication context that the request asks for.
\<close>

theorem sso_responses:
  assumes "ServeSSO X env idp r = Inr ws" "WriteForm f \<in> set ws" "idp_AssertionMaker idp = None"
    "writesNoForm (idp_SessionProvider idp) f"
  shows "\<exists>req0 req md. NewIdpAuthnRequest X r (env_Now env) = Inr req0 \<and> Idp_Validate X (env_Clock env) idp req0 = Inr req \<and>
    iar_ServiceProviderMetadata req = Some md \<and> endpointSelected md req \<and>
    (refusalSent X env idp r req f \<or> assertionSent X env idp r req f)"
proof -
  from assms(1,2) obtain req0 req written s where v: "NewIdpAuthnRequest X r (env_Now env) = Inr req0"
      "Idp_Validate X (env_Clock env) idp req0 = Inr req" "getSession X env idp r req = Inr (written, s)"
      and ws: "(case s of None \<Rightarrow> Inr written | Some session \<Rightarrow>
         bindE (orHttpError StatusInternalServerError (assertionMaker X env idp req session) (\<lambda>req.
           bindE (enforceConstraints X env idp req session) (\<lambda>refused.
             case refused of
               Some ws \<Rightarrow> Inr ws
             | None \<Rightarrow> orHttpError StatusInternalServerError (WriteResponse X env idp req) Inr)))
           (\<lambda>ws. Inr (written @ ws))) = Inr ws"
    by (auto simp: ServeSSO_def orHttpError_Inr)
  obtain md where md: "iar_ServiceProviderMetadata req = Some md" "endpointSelected md req"
    using Idp_Validate_selects [OF v(2)] .
  have "refusalSent X env idp r req f \<or> assertionSent X env idp r req f"
  proof (cases "WriteForm f \<in> set written")
    case True
    from getSession_forms [OF v(3) True assms(4)] show ?thesis by (auto simp: refusalSent_def)
  next
    case False
    with ws assms(2) obtain session ws' where s: "s = Some session" "WriteForm f \<in> set ws'"
      and o: "orHttpError StatusInternalServerError (MakeAssertion X env idp req session) (\<lambda>req.
           bindE (enforceConstraints X env idp req session) (\<lambda>refused.
             case refused of
               Some ws \<Rightarrow> Inr ws
             | None \<Rightarrow> orHttpError StatusInternalServerError (WriteResponse X env idp req) Inr)) = Inr ws'"
      by (auto simp: assertionMaker_def assms(3) split: option.splits)
    then obtain req1 where r1: "MakeAssertion X env idp req session = Inr req1"
      and e: "bindE (enforceConstraints X env idp req1 session) (\<lambda>refused.
             case refused of
               Some ws \<Rightarrow> Inr ws
             | None \<Rightarrow> orHttpError StatusInternalServerError (WriteResponse X env idp req1) Inr) = Inr ws'"
      unfolding orHttpError_Inr by auto
    obtain a where a: "req1 = req\<lparr>iar_Assertion := Some a\<rparr>" "assertionAbout idp req session a" using MakeAssertion_Inr [OF r1] .
    have "iar_ResponseEl req = None" "iar_AssertionEl req = None"
      using NewIdpAuthnRequest_fresh [OF v(1)] Idp_Validate_keeps [OF v(2)] by simp_all
    moreover have "providedSession idp r req written session" using v(3) s(1) by (simp add: getSession_provided)
    ultimately show ?thesis using answer_forms [OF e s(2) a(1)] a(2) unfolding refusalSent_def assertionSent_def by blast
  qed
  with v md show ?thesis by blast
qed


section \<open>Passive requests\<close>

text \<open>Of the identity provider, validation, making assertions and sending responses do not use the session provider.\<close>

lemma session_provider_unused [simp]:
  "checkRequest (idp\<lparr>idp_SessionProvider := p\<rparr>) = checkRequest idp"
  "useVerifiedRequest X (idp\<lparr>idp_SessionProvider := p\<rparr>) = useVerifiedRequest X idp"
  "verifyAuthnRequestSignature X clk (idp\<lparr>idp_SessionProvider := p\<rparr>) = verifyAuthnRequestSignature X clk idp"
  "Idp_Validate X clk (idp\<lparr>idp_SessionProvider := p\<rparr>) = Idp_Validate X clk idp"
  "signingContext (idp\<lparr>idp_SessionProvider := p\<rparr>) = signingContext idp"
  "newResponse env (idp\<lparr>idp_SessionProvider := p\<rparr>) = newResponse env idp"
  "signResponse X env (idp\<lparr>idp_SessionProvider := p\<rparr>) = signResponse X env idp"
  "renderForm (idp\<lparr>idp_SessionProvider := p\<rparr>) = renderForm idp"
  "Idp_Metadata (idp\<lparr>idp_SessionProvider := p\<rparr>) = Idp_Metadata idp"
proof -
  show c: "checkRequest (idp\<lparr>idp_SessionProvider := p\<rparr>) = checkRequest idp"
    by (rule ext) (simp add: checkRequest_def Let_def cong: if_cong)
  show u: "useVerifiedRequest X (idp\<lparr>idp_SessionProvider := p\<rparr>) = useVerifiedRequest X idp"
    by (intro ext) (simp add: useVerifiedRequest_def c)
  show v: "verifyAuthnRequestSignature X clk (idp\<lparr>idp_SessionProvider := p\<rparr>) = verifyAuthnRequestSignature X clk idp"
    by (intro ext) (simp add: verifyAuthnRequestSignature_def u cong: option.case_cong if_cong)
  show "Idp_Validate X clk (idp\<lparr>idp_SessionProvider := p\<rparr>) = Idp_Validate X clk idp"
    by (intro ext) (simp add: Idp_Validate_def c v)
  show s: "signingContext (idp\<lparr>idp_SessionProvider := p\<rparr>) = signingContext idp"
    by (simp add: signingContext_def idpSignatureMethod_def Let_def cong: option.case_cong if_cong)
  show "newResponse env (idp\<lparr>idp_SessionProvider := p\<rparr>) = newResponse env idp" by (intro ext) (simp add: newResponse_def)
  show "signResponse X env (idp\<lparr>idp_SessionProvider := p\<rparr>) = signResponse X env idp"
    by (intro ext) (simp add: signResponse_def s)
  show "renderForm (idp\<lparr>idp_SessionProvider := p\<rparr>) = renderForm idp" by (rule ext) (simp add: renderForm_def)
  show "Idp_Metadata (idp\<lparr>idp_SessionProvider := p\<rparr>) = Idp_Metadata idp" by (rule ext) (simp add: Idp_Metadata_def)
qed

lemma session_provider_unused_later [simp]:
  "writeErrorStatus X env (idp\<lparr>idp_SessionProvider := p\<rparr>) = writeErrorStatus X env idp"
  "WriteResponse X env (idp\<lparr>idp_SessionProvider := p\<rparr>) = WriteResponse X env idp"
  "assertionMaker X env (idp\<lparr>idp_SessionProvider := p\<rparr>) = assertionMaker X env idp"
  "enforceConstraints X env (idp\<lparr>idp_SessionProvider := p\<rparr>) = enforceConstraints X env idp"
proof -
  have a: "MakeAssertionEl X env (idp\<lparr>idp_SessionProvider := p\<rparr>) = MakeAssertionEl X env idp"
    by (rule ext) (simp add: MakeAssertionEl_def)
  show w: "WriteResponse X env (idp\<lparr>idp_SessionProvider := p\<rparr>) = WriteResponse X env idp"
    by (rule ext) (simp add: WriteResponse_def PostBinding_def MakeResponse_def a cong: if_cong)
  show e: "writeErrorStatus X env (idp\<lparr>idp_SessionProvider := p\<rparr>) = writeErrorStatus X env idp"
    by (intro ext) (simp add: writeErrorStatus_def WriteErrorResponse_def MakeErrorResponse_def w Let_def cong: if_cong)
  have "MakeAssertion X env (idp\<lparr>idp_SessionProvider := p\<rparr>) = MakeAssertion X env idp"
    by (intro ext) (simp add: MakeAssertion_def)
  then show "assertionMaker X env (idp\<lparr>idp_SessionProvider := p\<rparr>) = assertionMaker X env idp"
    by (simp add: assertionMaker_def cong: option.case_cong)
  show "enforceConstraints X env (idp\<lparr>idp_SessionProvider := p\<rparr>) = enforceConstraints X env idp"
    by (intro ext) (simp add: enforceConstraints_def e Let_def cong: option.case_cong)
qed

lemma orHttpError_cong:
  "(\<And>a. m = Inr a \<Longrightarrow> k a = k' a) \<Longrightarrow> orHttpError n m k = orHttpError n m k'"
  by (cases m) (auto simp: orHttpError_def tryE_def)

text \<open>
  C21. A passive request causes no authentication. If the request that a client sends is passive, what the identity
  provider answers does not depend on how the session provider authenticates a user or forces an authentication: only
  the passive lookup of a session, if the provider has one, is ever used. This also holds where the request asks for
  a forced authentication at the same time.
\<close>

theorem passive_requests_do_not_authenticate:
  assumes "\<And>req0 req. NewIdpAuthnRequest X r (env_Now env) = Inr req0 \<Longrightarrow>
    Idp_Validate X (env_Clock env) idp req0 = Inr req \<Longrightarrow> areq_IsPassive (iar_Request req) = Some True"
  shows "ServeSSO X env (idp\<lparr>idp_SessionProvider := (idp_SessionProvider idp)
      \<lparr>spr_GetSession := getSession', spr_GetForcedSession := getForced'\<rparr>\<rparr>) r = ServeSSO X env idp r"
proof -
  let ?idp = "idp\<lparr>idp_SessionProvider := (idp_SessionProvider idp)
      \<lparr>spr_GetSession := getSession', spr_GetForcedSession := getForced'\<rparr>\<rparr>"
  have "getSession X env ?idp r req = getSession X env idp r req"
    if "NewIdpAuthnRequest X r (env_Now env) = Inr req0" "Idp_Validate X (env_Clock env) idp req0 = Inr req" for req0 req
    using assms [OF that] by (simp add: getSession_def Let_def cong: option.case_cong)
  then show ?thesis
    unfolding ServeSSO_def session_provider_unused session_provider_unused_later
    by (intro orHttpError_cong) simp
qed


section \<open>Valid requests are answered\<close>

text \<open>The key of the identity provider signs, with the random bytes drawn for its two signatures, the digests that
  the configured signature method makes.\<close>

definition idpCanSign :: "externs \<Rightarrow> idp_env \<Rightarrow> IdentityProvider \<Rightarrow> bool" where
  "idpCanSign X env idp \<longleftrightarrow>
     (\<exists>ctx. signingContext idp = Inr ctx \<and>
        (\<forall>rnd \<in> {env_AssertionSignature env, env_ResponseSignature env}. \<forall>m. \<exists>s.
           signDigest X rnd ctx (x_Hash X (ctx_Hash ctx) m) = Inr s))"

lemma signatureMethods_digest: "signatureMethodsByIdentifier m = Some (alg, h) \<Longrightarrow> digestAlgorithmIdentifier h \<noteq> []"
  by (cases h) (auto simp: digestAlgorithmIdentifier_def algorithm_id_defs)

lemma idpCanSign_context:
  assumes "idpCanSign X env idp"
  obtains ctx where "signingContext idp = Inr ctx" "canSign X (env_AssertionSignature env) ctx"
    "canSign X (env_ResponseSignature env) ctx"
proof -
  from assms obtain ctx where c: "signingContext idp = Inr ctx"
      "\<And>rnd m. rnd \<in> {env_AssertionSignature env, env_ResponseSignature env} \<Longrightarrow>
        \<exists>s. signDigest X rnd ctx (x_Hash X (ctx_Hash ctx) m) = Inr s"
    unfolding idpCanSign_def by blast
  from c(1) obtain sg certs m where m: "SetSignatureMethod \<lparr>ctx_Hash = SHA256, ctx_Source = FromSigner sg certs, ctx_IdAttribute = DefaultIdAttr,
       ctx_Prefix = DefaultPrefix, ctx_Canonicalizer = C14N10Exclusive canonicalizerPrefixList False\<rparr> m = Inr ctx"
    by (auto simp: signingContext_def NewSigningContext_def Let_def split: option.splits)
  then obtain h where h: "signatureMethodsByIdentifier m = Some (getPublicKeyAlgorithm ctx, h)" "ctx_Hash ctx = h"
    "ctx_Prefix ctx = DefaultPrefix" "ctx_Canonicalizer ctx = C14N10Exclusive canonicalizerPrefixList False"
    "ctx_Source ctx = FromSigner sg certs"
    by (auto simp: SetSignatureMethod_Inr getPublicKeyAlgorithm_def)
  have "m \<noteq> []" using h(1) by (auto simp: signatureMethodsByIdentifier_def rsaMethods_def ecdsaMethods_def signature_method_defs)
  then have "canSign X rnd ctx" if "rnd \<in> {env_AssertionSignature env, env_ResponseSignature env}" for rnd
    using c(2) [OF that] h signatureMethods_digest [OF h(1)] SetSignatureMethod_announced(1) [OF m]
    by (auto simp: canSign_def GetDigestAlgorithmIdentifier_def getCerts_def)
  with that c(1) show ?thesis by blast
qed

definition canEncrypt :: "externs \<Rightarrow> idp_env \<Rightarrow> IdpAuthnRequest \<Rightarrow> bool" where
  "canEncrypt X env req \<longleftrightarrow>
     (\<forall>d. iar_SPSSODescriptor req = Some d \<longrightarrow>
        (case getSPEncryptionCert X d (iar_ServiceProviderMetadata req) of
           Inl e \<Rightarrow> e = ErrNotExist
         | Inr cert \<Rightarrow> (\<forall>pt. \<exists>el. RSA_Encrypt X (assertionEncryptor d) cert pt None (env_Encryption env) = Inr el)))"

lemma lastElement_AddChild [simp]: "lastElement (AddChild (Elem sig) el) = Inr sig"
  by (simp add: lastElement_def AddChild_def)

lemma encryptedAssertion_in_scope: "closedTree el \<Longrightarrow> inScope responsePrefixes (encryptedAssertion el)"
  using CreateAttr_plain_closed [of el "''Type''"] inScope_mono [of basePrefixes _ responsePrefixes]
  by (auto simp: encryptedAssertion_def responsePrefixes_def)

lemma MakeAssertionEl_total:
  assumes "idpCanSign X env idp" "iar_Assertion req = Some a" "asr_Signature a = None" "iar_SPSSODescriptor req = Some d"
    "canEncrypt X env req"
  obtains req' b el where "MakeAssertionEl X env idp req = Inr req'"
    "req' = req\<lparr>iar_Assertion := Some b, iar_AssertionEl := Some el\<rparr>" "inScope responsePrefixes el"
proof -
  obtain ctx where ctx: "signingContext idp = Inr ctx" "canSign X (env_AssertionSignature env) ctx"
    using idpCanSign_context [OF assms(1)] by metis
  obtain el where el: "Assertion_Element a = Inr el" "closedTree el" using Assertion_Element_total [of a] assms(3) by auto
  obtain el' sig where s: "SignEnveloped X (env_AssertionSignature env) ctx ([], el) = Inr (AddChild (Elem sig) el')" "closedTree sig"
    using SignEnveloped_total [OF ctx(2) el(2)] by metis
  let ?b = "a\<lparr>asr_Signature := Some sig\<rparr>"
  obtain plain where p: "Assertion_Element ?b = Inr plain" "closedTree plain"
    using Assertion_Element_total [of ?b] s(2) by auto
  have base: "set basePrefixes \<subseteq> set responsePrefixes" by (auto simp: responsePrefixes_def)
  have eq: "MakeAssertionEl X env idp req = chooseEncryption X env req d ?b plain"
    using assms(2,4) ctx(1) el(1) s(1) p(1) by (simp add: MakeAssertionEl_def nonNil_def chooseEncryption_def Let_def)
  show ?thesis
  proof (cases "getSPEncryptionCert X d (iar_ServiceProviderMetadata req)")
    case (Inl e)
    then have "e = ErrNotExist" using assms(4,5) by (auto simp: canEncrypt_def)
    with Inl that [of _ plain ?b] inScope_mono [OF p(2) base] show ?thesis by (simp add: eq chooseEncryption_def)
  next
    case (Inr cert)
    with assms(4,5) obtain c where
      c: "RSA_Encrypt X (assertionEncryptor d) cert (x_WriteToBytes X plain) None (env_Encryption env) = Inr c"
      by (auto simp: canEncrypt_def)
    from encryptedAssertion_in_scope [OF RSA_Encrypt_closed [OF c]] that [of _ "encryptedAssertion c" ?b] c Inr
    show ?thesis by (simp add: eq chooseEncryption_def)
  qed
qed

lemma signResponse_total:
  assumes "idpCanSign X env idp" "newResponse env idp req status = Inr resp" "st_StatusDetail status = None"
    "\<And>a. assertionEl = Some a \<Longrightarrow> inScope responsePrefixes a"
  shows "\<exists>el. signResponse X env idp resp assertionEl = Inr el"
proof -
  obtain ctx where ctx: "signingContext idp = Inr ctx" "canSign X (env_ResponseSignature env) ctx"
    using idpCanSign_context [OF assms(1)] by metis
  have resp: "st_StatusDetail (resp_Status resp) = None" "resp_Assertion resp = None" "resp_EncryptedAssertion resp = None"
    "resp_Signature resp = None" using assms(2,3) by (auto simp: newResponse_def)
  obtain el where el: "Response_Element resp = Inr el" "closedTree el"
      "\<And>a. inScope responsePrefixes a \<Longrightarrow> closedTree (AddChild (Elem a) el)"
    using Response_Element_total [of resp] resp by auto
  have "closedTree (case assertionEl of None \<Rightarrow> el | Some a \<Rightarrow> AddChild (Elem a) el)"
    using el(2,3) assms(4) by (auto split: option.split)
  then obtain el' sig where s: "SignEnveloped X (env_ResponseSignature env) ctx
      ([], case assertionEl of None \<Rightarrow> el | Some a \<Rightarrow> AddChild (Elem a) el) = Inr (AddChild (Elem sig) el')" "closedTree sig"
    using SignEnveloped_total [OF ctx(2)] by metis
  obtain el2 where "Response_Element (resp\<lparr>resp_Signature := Some sig\<rparr>) = Inr el2"
    using Response_Element_total [of "resp\<lparr>resp_Signature := Some sig\<rparr>"] resp s(2) by auto
  with el(1) ctx(1) s(1) show ?thesis by (simp add: signResponse_def Let_def)
qed


lemma newResponse_total: "iar_ACSEndpoint req = Some e \<Longrightarrow> \<exists>resp. newResponse env idp req status = Inr resp"
  by (simp add: newResponse_def nonNil_def)

lemma WriteResponse_form:
  assumes "iar_ResponseEl req = Some el" "iar_ACSEndpoint req = Some e" "iep_Binding e = HTTPPostBinding"
    "idp_ResponseFormTemplate idp = None"
  shows "\<exists>f. WriteResponse X env idp req = Inr (formPage f)"
  using assms by (simp add: WriteResponse_def PostBinding_def nonNil_def renderForm_def formPage_def)

lemma WriteResponse_total:
  assumes "idpCanSign X env idp" "canEncrypt X env req" "iar_Assertion req = Some a" "asr_Signature a = None"
    "iar_SPSSODescriptor req = Some d" "iar_ACSEndpoint req = Some e" "iep_Binding e = HTTPPostBinding"
    "iar_ResponseEl req = None" "iar_AssertionEl req = None" "idp_ResponseFormTemplate idp = None"
  shows "\<exists>f. WriteResponse X env idp req = Inr (formPage f)"
proof -
  obtain req1 b el where r1: "MakeAssertionEl X env idp req = Inr req1"
      "req1 = req\<lparr>iar_Assertion := Some b, iar_AssertionEl := Some el\<rparr>" "inScope responsePrefixes el"
    using MakeAssertionEl_total [OF assms(1,3-5,2)] .
  obtain resp where resp: "newResponse env idp req1 successStatus = Inr resp"
    using newResponse_total [of req1 e env idp successStatus] r1(2) assms(6) by auto
  obtain el2 where el2: "signResponse X env idp resp (Some el) = Inr el2"
    using signResponse_total [OF assms(1) resp] r1(3) by (auto simp: successStatus_def)
  have "WriteResponse X env idp req = WriteResponse X env idp (req1\<lparr>iar_ResponseEl := Some el2\<rparr>)"
    using assms(8,9) r1(1,2) resp el2 by (simp add: WriteResponse_def PostBinding_def MakeResponse_def)
  with WriteResponse_form [of "req1\<lparr>iar_ResponseEl := Some el2\<rparr>" el2 e idp] r1(2) assms(6,7,10) show ?thesis by simp
qed

lemma writeErrorStatus_total:
  assumes "idpCanSign X env idp" "iar_ACSEndpoint req = Some e" "iep_Binding e = HTTPPostBinding"
    "idp_ResponseFormTemplate idp = None" "t \<in> {StatusRequester, StatusResponder}"
  shows "\<exists>f. writeErrorStatus X env idp req t s = Inr (formPage f)"
proof -
  obtain resp where resp: "newResponse env idp (req\<lparr>iar_ResponseEl := None\<rparr>) (errorStatus t s []) = Inr resp"
    using newResponse_total [of "req\<lparr>iar_ResponseEl := None\<rparr>" e env idp "errorStatus t s []"] assms(2) by auto
  obtain el where el: "signResponse X env idp resp None = Inr el"
    using signResponse_total [OF assms(1) resp] by (auto simp: errorStatus_def)
  have "MakeErrorResponse X env idp req t s [] = Inr (req\<lparr>iar_ResponseEl := Some el\<rparr>)"
    using assms(2,5) resp el by (auto simp: MakeErrorResponse_def Let_def)
  moreover obtain f where "WriteResponse X env idp (req\<lparr>iar_ResponseEl := Some el\<rparr>) = Inr (formPage f)"
    using WriteResponse_form [of "req\<lparr>iar_ResponseEl := Some el\<rparr>" el e idp X env] assms(2-4) by auto
  ultimately show ?thesis
    by (auto simp: writeErrorStatus_def WriteErrorResponse_def orHttpError_def)
qed

text \<open>The default enforcers do not panic on a constraint that is there.\<close>

lemma enforcers_no_panic:
  "areq_Subject (iar_Request req) \<noteq> None \<Longrightarrow> EnforceSubject X req = Inl e \<Longrightarrow> \<not> isPanic e"
  "areq_NameIDPolicy (iar_Request req) \<noteq> None \<Longrightarrow> EnforceNameIDPolicy req = Inl e \<Longrightarrow> \<not> isPanic e"
  "areq_RequestedAuthnContext (iar_Request req) \<noteq> None \<Longrightarrow> EnforceAuthnContext str req = Inl e \<Longrightarrow> \<not> isPanic e"
proof -
  show "\<not> isPanic e" if "areq_Subject (iar_Request req) \<noteq> None" "EnforceSubject X req = Inl e"
    using that
    by (auto simp: EnforceSubject_def assertedSubject_def nonNil_def isPanic_def checkE_def bindE_Inl_iff
        split: option.splits if_splits prod.splits)
  show "\<not> isPanic e" if "areq_NameIDPolicy (iar_Request req) \<noteq> None" "EnforceNameIDPolicy req = Inl e"
    using that
    by (auto simp: EnforceNameIDPolicy_def assertedSubject_def nonNil_def isPanic_def checkE_def bindE_Inl_iff
        split: option.splits if_splits prod.splits)
  have st: "\<not> isPanic e" if "enforceStatements sat requested sts = Inl e" for sat requested sts
    using that by (induction sts) (auto simp: isPanic_def split: option.splits if_splits)
  show "\<not> isPanic e" if "areq_RequestedAuthnContext (iar_Request req) \<noteq> None" "EnforceAuthnContext str req = Inl e"
    using that st
    by (auto simp: EnforceAuthnContext_def nonNil_def bindE_Inl_iff split: option.splits if_splits)
      (auto simp: isPanic_def)
qed

lemma enforce_total:
  assumes "\<And>e. present \<Longrightarrow> verdict = Inl e \<Longrightarrow> \<not> isPanic e" "\<exists>f. refusal = Inr (formPage f)"
  shows "enforce present verdict refusal = Inr None \<or> (\<exists>f. enforce present verdict refusal = Inr (Some (formPage f)))"
  using assms by (cases verdict) (auto simp: enforce_def tryE_def)

lemma enforceConstraints_total:
  assumes "idpCanSign X env idp" "iar_ACSEndpoint req = Some e" "iep_Binding e = HTTPPostBinding"
    "idp_ResponseFormTemplate idp = None" "idp_SubjectEnforcer idp = None" "idp_NameIDPolicyEnforcer idp = None"
    "idp_AuthnContextEnforcer idp = None"
  shows "enforceConstraints X env idp req session = Inr None \<or>
    (\<exists>f. enforceConstraints X env idp req session = Inr (Some (formPage f)))"
proof -
  note w = writeErrorStatus_total [OF assms(1-4)]
  have orElse: "bindE m (\<lambda>r. case r of Some ws \<Rightarrow> Inr (Some ws) | None \<Rightarrow> k) = Inr None \<or>
      (\<exists>f. bindE m (\<lambda>r. case r of Some ws \<Rightarrow> Inr (Some ws) | None \<Rightarrow> k) = Inr (Some (formPage f)))"
    if "m = Inr None \<or> (\<exists>f. m = Inr (Some (formPage f)))" "k = Inr None \<or> (\<exists>f. k = Inr (Some (formPage f)))"
    for m k :: "http_write list option result"
    using that by auto
  show ?thesis
    unfolding enforceConstraints_def Let_def assms(5-7) option.case
    by (intro orElse enforce_total w enforcers_no_panic) simp_all
qed


lemma MakeAssertion_total:
  assumes "idpCanSign X env idp" "ses_NameID session \<noteq> []" "iar_SPSSODescriptor req = Some d"
    "iar_ServiceProviderMetadata req = Some md" "iar_ACSEndpoint req = Some e"
  obtains a where "MakeAssertion X env idp req session = Inr (req\<lparr>iar_Assertion := Some a\<rparr>)" "asr_Signature a = None"
    "assertionAbout idp req session a"
proof -
  obtain cert where "idp_Certificate idp = Some cert"
    using assms(1) by (auto simp: idpCanSign_def signingContext_def)
  then have "\<exists>idpMd. Idp_Metadata idp (env_AssertionNow env) = Inr idpMd" by (simp add: Idp_Metadata_def nonNil_def Let_def)
  then obtain idpMd where "Idp_Metadata idp (env_AssertionNow env) = Inr idpMd" ..
  with assms(2-5) have "\<exists>req'. MakeAssertion X env idp req session = Inr req'" by (simp add: MakeAssertion_def nonNil_def)
  then obtain req' where m: "MakeAssertion X env idp req session = Inr req'" ..
  then obtain a where "req' = req\<lparr>iar_Assertion := Some a\<rparr>" "assertionAbout idp req session a" by (rule MakeAssertion_Inr)
  with m that [of a] show ?thesis by (simp add: assertionAbout_def)
qed

text \<open>The answer to a request that passed validation, for a session: the assertion for it, or the refusal for the first
  constraint that it does not meet.\<close>

definition answered ::
  "externs \<Rightarrow> idp_env \<Rightarrow> IdentityProvider \<Rightarrow> IdpAuthnRequest \<Rightarrow> Session \<Rightarrow> IdpAuthnRequestForm \<Rightarrow> bool" where
  "answered X env idp req session f \<longleftrightarrow>
     (\<exists>a. assertionAbout idp req session a \<and>
        (if constraintsMet X idp req session a
         then \<exists>el. assertionElement X env idp req a el \<and> responseForm X env idp req successStatus (Some el) f
         else \<exists>t s. constraintRefused X idp req session a t s \<and> responseForm X env idp req (errorStatus t s []) None f))"

lemma constraintRefused_unmet: "constraintRefused X idp req session a t s \<Longrightarrow> \<not> constraintsMet X idp req session a"
  by (auto simp: constraintRefused_def constraintsMet_def)

lemma ServeSSO_total:
  assumes "NewIdpAuthnRequest X r (env_Now env) = Inr req0" "Idp_Validate X (env_Clock env) idp req0 = Inr req"
    "providedSession idp r req written session" "ses_NameID session \<noteq> []"
    "idpCanSign X env idp" "canEncrypt X env req"
    "idp_AssertionMaker idp = None" "idp_ResponseFormTemplate idp = None" "idp_SubjectEnforcer idp = None"
    "idp_NameIDPolicyEnforcer idp = None" "idp_AuthnContextEnforcer idp = None"
  shows "\<exists>f. ServeSSO X env idp r = Inr (written @ [SetNoCacheHeaders, WriteForm f]) \<and> answered X env idp req session f"
proof -
  obtain md d e where eq: "req = req0\<lparr>iar_Request := iar_Request req, iar_ServiceProviderMetadata := Some md,
       iar_SPSSODescriptor := Some d, iar_ACSEndpoint := Some e\<rparr>" "iep_Binding e = HTTPPostBinding"
    using Idp_Validate_sets [OF assms(2)] .
  have sel: "iar_ServiceProviderMetadata req = Some md" "iar_SPSSODescriptor req = Some d" "iar_ACSEndpoint req = Some e"
    by (subst eq(1), simp)+
  have fresh: "iar_ResponseEl req = None" "iar_AssertionEl req = None"
    using NewIdpAuthnRequest_fresh [OF assms(1)] Idp_Validate_keeps [OF assms(2)] by simp_all
  obtain a where a: "MakeAssertion X env idp req session = Inr (req\<lparr>iar_Assertion := Some a\<rparr>)" "asr_Signature a = None"
      "assertionAbout idp req session a"
    using MakeAssertion_total [OF assms(5,4) sel(2,1,3)] .
  let ?req = "req\<lparr>iar_Assertion := Some a\<rparr>"
  have enc: "canEncrypt X env ?req" using assms(6) by (simp add: canEncrypt_def)
  obtain f where f: "WriteResponse X env idp ?req = Inr (formPage f)"
    using WriteResponse_total [OF assms(5) enc _ a(2) _ _ eq(2) _ _ assms(8)] sel fresh by auto
  have "\<exists>g. bindE (enforceConstraints X env idp ?req session) (\<lambda>refused. case refused of Some ws \<Rightarrow> Inr ws
        | None \<Rightarrow> orHttpError StatusInternalServerError (WriteResponse X env idp ?req) Inr) = Inr (formPage g)"
    using enforceConstraints_total [OF assms(5) _ eq(2) assms(8-11), of ?req session] sel(3) f
    by (auto simp: orHttpError_Inr)
  then obtain g where g: "bindE (enforceConstraints X env idp ?req session) (\<lambda>refused. case refused of Some ws \<Rightarrow> Inr ws
        | None \<Rightarrow> orHttpError StatusInternalServerError (WriteResponse X env idp ?req) Inr) = Inr (formPage g)" ..
  have "getSession X env idp r req = Inr (written, Some session)" using assms(3) by (simp add: getSession_provided)
  with g have "ServeSSO X env idp r = Inr (written @ formPage g)"
    using assms(1,2,7) a(1) by (auto simp: ServeSSO_def orHttpError_Inr assertionMaker_def)
  moreover have "answered X env idp req session g"
    using answer_forms [OF g _ refl fresh] a(3) constraintRefused_unmet unfolding answered_def formPage_def
    by (intro exI [of _ a]) fastforce
  ultimately show ?thesis by (auto simp: formPage_def)
qed


section \<open>An example\<close>

definition exampleEnv :: idp_env where
  "exampleEnv = \<lparr>env_Now = 5, env_AssertionNow = 5, env_Clock = 5, env_AssertionID = ''a'', env_ResponseID = ''r'',
     env_AssertionSignature = [], env_ResponseSignature = [],
     env_Encryption = \<lparr>er_Key = replicate 16 CHR ''k'', er_KeyId = [], er_Padding = [], er_Id = [], er_IV = replicate 16 CHR ''i''\<rparr>\<rparr>"

lemma exampleEnv_times [simp]: "env_Now exampleEnv = 5" "env_Clock exampleEnv = 5"
  by (simp_all add: exampleEnv_def)

lemma exampleIdp_canSign: "idpCanSign exampleIdpX exampleEnv exampleIdp"
  by (simp add: idpCanSign_def signingContext_def exampleIdp_def nonNil_def NewSigningContext_def idpSignatureMethod_def
      exampleSigner_def SetSignatureMethod_def signatureMethodsByIdentifier_def rsaMethods_def signature_method_defs
      getPublicKeyAlgorithm_def keyAlgorithm_def signDigest_def exampleIdpX_def exampleSpX_def exampleSignedX_def)

lemma exampleReq_canEncrypt: "canEncrypt X env exampleReq"
  by (simp add: canEncrypt_def exampleReq_def exampleSPSSO_def getSPEncryptionCert_def spEncryptionKeyDescriptor_def
      serviceProviderAcceptsEncryption_def exampleSpMetadata_def)

lemma exampleReq_session: "providedSession exampleIdp exampleAuthnHTTP exampleReq [] exampleSession"
  by (simp add: providedSession_def exampleReq_def exampleAuthnRequest_def zeroAuthnRequest_def exampleIdp_def)

lemma exampleReq_read:
  "NewIdpAuthnRequest exampleIdpX exampleAuthnHTTP (env_Now exampleEnv) = Inr exampleReq0"
  "Idp_Validate exampleIdpX (env_Clock exampleEnv) exampleIdp exampleReq0 = Inr exampleReq"
  by (simp_all add: exampleReq0_read exampleReq_validated)



theorem sso_responses_witness:
  "\<exists>f req0 req md. NewIdpAuthnRequest exampleIdpX exampleAuthnHTTP (env_Now exampleEnv) = Inr req0 \<and>
    Idp_Validate exampleIdpX (env_Clock exampleEnv) exampleIdp req0 = Inr req \<and>
    iar_ServiceProviderMetadata req = Some md \<and> endpointSelected md req \<and>
    (refusalSent exampleIdpX exampleEnv exampleIdp exampleAuthnHTTP req f \<or> assertionSent exampleIdpX exampleEnv exampleIdp exampleAuthnHTTP req f)"
proof -
  have "\<exists>f. ServeSSO exampleIdpX exampleEnv exampleIdp exampleAuthnHTTP = Inr ([] @ [SetNoCacheHeaders, WriteForm f]) \<and>
      answered exampleIdpX exampleEnv exampleIdp exampleReq exampleSession f"
    by (rule ServeSSO_total [OF exampleReq_read exampleReq_session _ exampleIdp_canSign exampleReq_canEncrypt])
      (simp_all add: exampleSession_def exampleIdp_def)
  then obtain f where f: "ServeSSO exampleIdpX exampleEnv exampleIdp exampleAuthnHTTP = Inr [SetNoCacheHeaders, WriteForm f]"
    by auto
  show ?thesis
    by (rule exI [of _ f], rule sso_responses [OF f]) (simp_all add: exampleIdp_def writesNoForm_def)
qed

definition passiveX :: externs where
  "passiveX = exampleIdpX\<lparr>x_UnmarshalAuthnRequest := (\<lambda>_. Inr (exampleAuthnRequest\<lparr>areq_IsPassive := Some True\<rparr>))\<rparr>"

lemma verified_is_read:
  assumes "verifyAuthnRequestSignature X clk idp req = Inr req'" "iar_ServiceProviderMetadata req = Some md"
    "\<And>d. x_UnmarshalAuthnRequest X d = Inr a" "iar_Request req = a"
  shows "iar_Request req' = a"
  using assms(1,2)
  by (cases rule: verifyAuthnRequestSignature_cases) (use assms(3,4) in \<open>auto simp: useVerifiedRequest_Inr unmarshalElement_def split: option.splits\<close>)

theorem passive_requests_do_not_authenticate_witness:
  "ServeSSO passiveX exampleEnv (exampleIdp\<lparr>idp_SessionProvider := (idp_SessionProvider exampleIdp)
      \<lparr>spr_GetSession := \<lambda>_ _. ([ProviderWrite ''login''], None), spr_GetForcedSession := None\<rparr>\<rparr>) exampleAuthnHTTP
   = ServeSSO passiveX exampleEnv exampleIdp exampleAuthnHTTP"
proof (rule passive_requests_do_not_authenticate)
  fix req0 req
  assume "Idp_Validate passiveX (env_Clock exampleEnv) exampleIdp req0 = Inr req"
  then obtain md req1 where v: "verifyAuthnRequestSignature passiveX (env_Clock exampleEnv) exampleIdp
        (req0\<lparr>iar_Request := exampleAuthnRequest\<lparr>areq_IsPassive := Some True\<rparr>, iar_ServiceProviderMetadata := Some md\<rparr>) = Inr req1"
      "getACSEndpoint req1 = Inr req"
    by (auto simp: Idp_Validate_def Let_def passiveX_def)
  have "iar_Request req1 = exampleAuthnRequest\<lparr>areq_IsPassive := Some True\<rparr>"
    by (rule verified_is_read [OF v(1)]) (simp_all add: passiveX_def)
  with getACSEndpoint_Inr [OF v(2)] show "areq_IsPassive (iar_Request req) = Some True" by force
qed

definition encryptingSPSSO :: SPSSODescriptor where
  "encryptingSPSSO = exampleSPSSO\<lparr>rd_KeyDescriptors :=
     [\<lparr>kd_Use = ''encryption'', kd_X509Certificates = [base64Encode ''key''], kd_EncryptionMethods = []\<rparr>]\<rparr>"

definition encryptingReq :: IdpAuthnRequest where
  "encryptingReq = exampleReq\<lparr>iar_SPSSODescriptor := Some encryptingSPSSO,
     iar_Assertion := Some (defaultAssertion ''idp'' ''sp'' ''a'' ''id'' ''acs'' [] 5 5 [] exampleSession)\<rparr>"

lemma encryptingSPSSO_cert:
  "spEncryptionKeyDescriptor encryptingSPSSO =
     Some \<lparr>kd_Use = ''encryption'', kd_X509Certificates = [base64Encode ''key''], kd_EncryptionMethods = []\<rparr>"
  "getSPEncryptionCert exampleIdpX encryptingSPSSO md = Inr (exampleCert ''key'')"
proof -
  have ne: "base64Encode ''key'' \<noteq> []" by (simp add: Let_def)
  then show kd: "spEncryptionKeyDescriptor encryptingSPSSO =
     Some \<lparr>kd_Use = ''encryption'', kd_X509Certificates = [base64Encode ''key''], kd_EncryptionMethods = []\<rparr>"
    by (simp add: spEncryptionKeyDescriptor_def encryptingSPSSO_def firstCertificateData_def del: base64Encode.simps)
  show "getSPEncryptionCert exampleIdpX encryptingSPSSO md = Inr (exampleCert ''key'')"
    using ne by (simp add: getSPEncryptionCert_def kd firstCertificateData_def exampleIdpX_def exampleSpX_def exampleSignedX_def
        del: base64Encode.simps)
qed

lemma encryptingReq_canEncrypt: "canEncrypt exampleIdpX exampleEnv encryptingReq"
proof -
  have oaep: "x_EncryptOAEP exampleIdpX h r k m = Inr (rev m)" for h r k m
    by (simp add: exampleIdpX_def exampleSpX_def exampleSignedX_def)
  have "\<exists>el. RSA_Encrypt exampleIdpX (assertionEncryptor encryptingSPSSO) (exampleCert ''key'') pt None
      (env_Encryption exampleEnv) = Inr el" for pt
    by (simp add: RSA_Encrypt_def exampleCert_def assertionEncryptor_def OAEP_def keyEncrypter_def nonNil_def oaep
        BlockCipher_Encrypt_def contentEncryption_def encryptingSPSSO_cert(1) AES128CBC_def exampleEnv_def cipherText_def)
  then show ?thesis by (simp add: canEncrypt_def encryptingReq_def encryptingSPSSO_cert(2))
qed

theorem encryption_not_downgraded_witness:
  "\<exists>(req' :: IdpAuthnRequest) kd s der cert (a :: Assertion) plain encryptedData.
    kd \<in> set (rd_KeyDescriptors encryptingSPSSO) \<and> kd_Use kd \<noteq> ''signing'' \<and> s \<in> set (kd_X509Certificates kd) \<and>
    base64Decode (removeWhitespace s) = Inr der \<and> x_ParseCertificate exampleIdpX der = Inr cert \<and>
    iar_Assertion req' = Some a \<and> asr_Signature a \<noteq> None \<and> Assertion_Element a = Inr plain \<and>
    RSA_Encrypt exampleIdpX (assertionEncryptor encryptingSPSSO) cert (x_WriteToBytes exampleIdpX plain) None
      (env_Encryption exampleEnv) = Inr encryptedData \<and>
    iar_AssertionEl req' = Some (encryptedAssertion encryptedData)"
proof -
  have sel: "iar_SPSSODescriptor encryptingReq = Some encryptingSPSSO"
    "\<exists>a. iar_Assertion encryptingReq = Some a \<and> asr_Signature a = None"
    by (simp_all add: encryptingReq_def)
  from sel(2) obtain a where a: "iar_Assertion encryptingReq = Some a" "asr_Signature a = None" by blast
  obtain req' where r: "MakeAssertionEl exampleIdpX exampleEnv exampleIdp encryptingReq = Inr req'"
    using MakeAssertionEl_total [OF exampleIdp_canSign a sel(1) encryptingReq_canEncrypt] by blast
  have "serviceProviderAcceptsEncryption encryptingSPSSO (iar_ServiceProviderMetadata encryptingReq)"
    by (simp add: serviceProviderAcceptsEncryption_def encryptingSPSSO_def)
  from encryption_not_downgraded [OF r sel(1) this] show ?thesis by blast
qed

end
