(* ===== verification/Http_Redirect.thy ===== *)
theory Http_Redirect
  imports Http_Model Xml_Enc "HOL-Library.Sublist"
begin

text \<open>
  The header \<^verbatim>\<open>Location\<close> that \<^verbatim>\<open>http.Redirect\<close> sends for a URL. A URL without scheme and host is made
  absolute with the directory of the request and cleaned like a path of files before it is sent, so that the location
  is in general not the string that the caller checked.
\<close>

section \<open>Paths\<close>

text \<open>\<^verbatim>\<open>path.Clean\<close>: the elements in turn, the last one first, where an empty element and a dot are dropped and
  two dots take back the element before them. \<open>pathDir\<close> is the directory that \<^verbatim>\<open>path.Split\<close> returns.\<close>

fun cleanStep :: "bool \<Rightarrow> string list \<Rightarrow> string \<Rightarrow> string list" where
  "cleanStep rooted out seg =
     (if seg = [] \<or> seg = ''.'' then out
      else if seg = ''..'' then
        (case out of
           [] \<Rightarrow> if rooted then [] else [seg]
         | s # rest \<Rightarrow> if s = ''..'' then seg # out else rest)
      else seg # out)"

definition pathClean :: "string \<Rightarrow> string" where
  "pathClean p =
     (let rooted = prefix ''/'' p;
          cleaned = joinWith CHR ''/'' (rev (foldl (cleanStep rooted) [] (splitOn CHR ''/'' p)))
      in if rooted then CHR ''/'' # cleaned else if cleaned = [] then ''.'' else cleaned)"

definition pathDir :: "string \<Rightarrow> string" where
  "pathDir p = rev (dropWhile (\<lambda>c. c \<noteq> CHR ''/'') (rev p))"

section \<open>Redirects\<close>

definition hexEscapeNonASCII :: "string \<Rightarrow> string" where
  "hexEscapeNonASCII s =
     concat (map (\<lambda>c. if byte c < 128 then [c]
       else [CHR ''%'', lowerhexDigit (byte c div 16), lowerhexDigit (byte c mod 16)]) s)"

definition cleanedURL :: "string \<Rightarrow> string" where
  "cleanedURL uri =
     (let path = takeWhile (\<lambda>c. c \<noteq> CHR ''?'') uri; query = dropWhile (\<lambda>c. c \<noteq> CHR ''?'') uri; cleaned = pathClean path
      in (if suffix ''/'' path \<and> \<not> suffix ''/'' cleaned then cleaned @ ''/'' else cleaned) @ query)"

definition redirectLocation :: "externs \<Rightarrow> http_request \<Rightarrow> string \<Rightarrow> string" where
  "redirectLocation X r uri =
     hexEscapeNonASCII
       (case x_ParseURL X uri of
          Inl _ \<Rightarrow> uri
        | Inr u \<Rightarrow>
            if u_Scheme u = [] \<and> u_Host u = [] then
              cleanedURL (if prefix ''/'' uri then uri
                else pathDir (if rq_Path r = [] then ''/'' else rq_Path r) @ uri)
            else uri)"

section \<open>What cleaning keeps of a path\<close>

lemma splitOn_hd_prefix: "prefix (hd (splitOn c p)) p"
proof (induction p)
  case (Cons x xs)
  then show ?case by (cases "splitOn c xs") auto
qed simp

text \<open>Every element but the first follows a separator.\<close>

lemma splitOn_tl_sublist: "s \<in> set (tl (splitOn c p)) \<Longrightarrow> sublist (c # s) p"
proof (induction p)
  case (Cons x xs)
  obtain q qs where q: "splitOn c xs = q # qs" by (cases "splitOn c xs") auto
  show ?case
  proof (cases "x = c")
    case True
    with Cons.prems q consider "s = q" | "s \<in> set (tl (splitOn c xs))" by auto
    then show ?thesis
    proof cases
      case 1
      with splitOn_hd_prefix [of c xs] q True show ?thesis by (simp add: prefix_imp_sublist)
    next
      case 2
      with Cons.IH show ?thesis by (simp add: sublist_Cons_right)
    qed
  next
    case False
    with Cons.prems q have "s \<in> set (tl (splitOn c xs))" by simp
    with Cons.IH show ?thesis by (simp add: sublist_Cons_right)
  qed
qed simp

lemma cleanStep_elements: "set (foldl (cleanStep rooted) out segs) \<subseteq> set out \<union> (set segs - {[]})"
proof (induction segs arbitrary: out)
  case (Cons s segs)
  have "set (cleanStep rooted out s) \<subseteq> set out \<union> ({s} - {[]})" by (auto split: list.splits)
  with Cons.IH [of "cleanStep rooted out s"] show ?case by (auto simp del: cleanStep.simps)
qed simp

text \<open>The location for a path stays a path: one slash, and a backslash after it only where the path itself has an
  element that begins with a backslash.\<close>

lemma pathClean_rooted:
  assumes "prefix ''/'' p"
  shows "pathClean p = ''/'' \<or>
    (\<exists>x rest. pathClean p = CHR ''/'' # x # rest \<and> x \<noteq> CHR ''/'' \<and> sublist [CHR ''/'', x] p)"
proof -
  let ?segs = "splitOn CHR ''/'' p"
  define out where "out = foldl (cleanStep True) [] ?segs"
  have c: "pathClean p = CHR ''/'' # joinWith CHR ''/'' (rev out)" using assms by (simp add: pathClean_def out_def)
  from assms obtain p' where p: "p = CHR ''/'' # p'" by (auto simp: prefix_def)
  have elems: "s \<in> set ?segs" "s \<noteq> []" if "s \<in> set out" for s
    using cleanStep_elements [of True "[]" ?segs] that by (auto simp: out_def)
  show ?thesis
  proof (cases "rev out")
    case Nil
    with c show ?thesis by simp
  next
    case (Cons s ss)
    then have "s \<in> set out" by (metis in_set_conv_decomp_first list.set_intros(1) set_rev)
    note s = elems [OF this]
    obtain x s' where x: "s = x # s'" using s(2) by (cases s) auto
    have "sublist (CHR ''/'' # s) p" using s p by (intro splitOn_tl_sublist) auto
    moreover have "sublist [CHR ''/'', x] (CHR ''/'' # s)" by (simp add: x prefix_imp_sublist)
    ultimately have "sublist [CHR ''/'', x] p" using sublist_order.order_trans by blast
    moreover have "x \<noteq> CHR ''/''" using splitOn_pieces [OF s(1)] x by auto
    moreover have "\<exists>rest. joinWith CHR ''/'' (rev out) = x # rest" by (cases ss) (simp_all add: Cons x)
    ultimately show ?thesis using c by auto
  qed
qed

lemma cleanedURL_rooted:
  assumes "prefix ''/'' uri"
  shows "\<exists>rest. cleanedURL uri = CHR ''/'' # rest \<and> \<not> prefix ''/'' rest \<and>
    (prefix [CHR 0x5C] rest \<longrightarrow> sublist [CHR ''/'', CHR 0x5C] uri)"
proof -
  let ?p = "takeWhile (\<lambda>c. c \<noteq> CHR ''?'') uri"
  let ?q = "dropWhile (\<lambda>c. c \<noteq> CHR ''?'') uri"
  have p: "prefix ''/'' ?p" using assms by (auto simp: prefix_def)
  have q: "?q = [] \<or> hd ?q = CHR ''?''" using hd_dropWhile [of "\<lambda>c. c \<noteq> CHR ''?''" uri] by auto
  have sub: "sublist s uri" if "sublist s ?p" for s
    using that takeWhile_is_prefix [of "\<lambda>c. c \<noteq> CHR ''?''" uri] prefix_imp_sublist sublist_order.order_trans by blast
  from pathClean_rooted [OF p] show ?thesis
  proof (elim disjE exE conjE)
    assume "pathClean ?p = ''/''"
    then have "cleanedURL uri = CHR ''/'' # ?q" by (simp add: cleanedURL_def)
    with q show ?thesis by (cases ?q) auto
  next
    fix x rest
    assume x: "pathClean ?p = CHR ''/'' # x # rest" "x \<noteq> CHR ''/''" "sublist [CHR ''/'', x] ?p"
    then have "\<exists>t. cleanedURL uri = CHR ''/'' # x # t" by (simp add: cleanedURL_def Let_def)
    then show ?thesis using x(2) sub [OF x(3)] by auto
  qed
qed

lemma hexEscapeNonASCII_Cons [simp]: "byte c < 128 \<Longrightarrow> hexEscapeNonASCII (c # s) = c # hexEscapeNonASCII s"
  by (simp add: hexEscapeNonASCII_def)

lemma hexEscapeNonASCII_begins:
  "byte c < 128 \<Longrightarrow> c \<noteq> CHR ''%'' \<Longrightarrow> prefix [c] (hexEscapeNonASCII s) \<longleftrightarrow> prefix [c] s"
  by (cases s) (auto simp: hexEscapeNonASCII_def)

lemma redirectLocation_path:
  assumes "prefix ''/'' uri" "\<not> prefix ''//'' uri" "\<not> prefix [CHR ''/'', CHR 0x5C] uri"
  shows "prefix ''/'' (redirectLocation X r uri)" "\<not> prefix ''//'' (redirectLocation X r uri)"
    "prefix [CHR ''/'', CHR 0x5C] (redirectLocation X r uri) \<Longrightarrow> sublist [CHR ''/'', CHR 0x5C] uri"
proof -
  from assms obtain t where t: "uri = CHR ''/'' # t" "\<not> prefix ''/'' t" "\<not> prefix [CHR 0x5C] t"
    by (auto simp: prefix_def)
  have "\<exists>sent rest. redirectLocation X r uri = hexEscapeNonASCII sent \<and> sent = CHR ''/'' # rest \<and> \<not> prefix ''/'' rest \<and>
      (prefix [CHR 0x5C] rest \<longrightarrow> sublist [CHR ''/'', CHR 0x5C] uri)"
  proof (cases "\<exists>u. x_ParseURL X uri = Inr u \<and> u_Scheme u = [] \<and> u_Host u = []")
    case True
    with assms(1) have "redirectLocation X r uri = hexEscapeNonASCII (cleanedURL uri)"
      by (auto simp: redirectLocation_def)
    with cleanedURL_rooted [OF assms(1)] show ?thesis by blast
  next
    case False
    then have "redirectLocation X r uri = hexEscapeNonASCII uri" by (auto simp: redirectLocation_def split: sum.splits)
    with t show ?thesis by blast
  qed
  then obtain rest where rest: "redirectLocation X r uri = CHR ''/'' # hexEscapeNonASCII rest" "\<not> prefix ''/'' rest"
      "prefix [CHR 0x5C] rest \<longrightarrow> sublist [CHR ''/'', CHR 0x5C] uri"
    by (auto simp: byte_def)
  note begins = hexEscapeNonASCII_begins [of "CHR ''/''" rest] hexEscapeNonASCII_begins [of "CHR 0x5C" rest]
  show "prefix ''/'' (redirectLocation X r uri)" by (simp add: rest(1))
  show "\<not> prefix ''//'' (redirectLocation X r uri)" using rest(2) begins by (simp add: rest(1) byte_def)
  show "sublist [CHR ''/'', CHR 0x5C] uri" if "prefix [CHR ''/'', CHR 0x5C] (redirectLocation X r uri)"
    using that rest(3) begins by (simp add: rest(1) byte_def)
qed

lemma redirectLocation_absolute:
  "x_ParseURL X uri = Inr u \<Longrightarrow> u_Scheme u \<noteq> [] \<or> u_Host u \<noteq> [] \<Longrightarrow> redirectLocation X r uri = hexEscapeNonASCII uri"
  by (auto simp: redirectLocation_def)

end
