(* ===== verification/Idp_Logout.thy ===== *)
theory Idp_Logout
  imports Idp_Sso Http_Redirect
begin

text \<open>
  Single logout at the identity provider (\<^verbatim>\<open>identity_provider_logout.go\<close>). The methods of
  \<^verbatim>\<open>IdpLogoutRequest\<close> that have the name of a method of an authentication request are prefixed with
  \<open>Logout_\<close>.
\<close>

section \<open>Reading the request\<close>

definition newLogoutRequest :: "http_request \<Rightarrow> time \<Rightarrow> IdpLogoutRequest" where
  "newLogoutRequest r now = \<lparr>ilr_HTTPRequest = r, ilr_RelayState = [], ilr_RequestBuffer = [],
     ilr_Request = zeroLogoutRequest, ilr_ServiceProviderMetadata = None, ilr_SLOEndpoint = None, ilr_Now = now,
     ilr_RedirectQuery = [], ilr_binding = []\<rparr>"

definition NewIdpLogoutRequest :: "externs \<Rightarrow> http_request \<Rightarrow> time \<Rightarrow> IdpLogoutRequest result" where
  "NewIdpLogoutRequest X r now =
     (let req = newLogoutRequest r now in
      if rq_Method r = ''GET'' then
        bindE (readRedirectRequest X (rq_RawQuery r)) (\<lambda>(buf, relayState, signedQuery).
          Inr (req\<lparr>ilr_binding := HTTPRedirectBinding, ilr_RequestBuffer := buf, ilr_RelayState := relayState,
                   ilr_RedirectQuery := signedQuery\<rparr>))
      else if rq_Method r = ''POST'' then
        bindE (ParseForm maxAuthnRequestBodySize r) (\<lambda>form.
        bindE (base64Decode (valuesGet form ''SAMLRequest'')) (\<lambda>buf.
          Inr (req\<lparr>ilr_binding := HTTPPostBinding, ilr_RequestBuffer := buf,
                   ilr_RelayState := valuesGet form ''RelayState''\<rparr>)))
      else Inl (Err ''method not allowed''))"

section \<open>Validation\<close>

definition Logout_checkRequest :: "IdentityProvider \<Rightarrow> IdpLogoutRequest \<Rightarrow> unit result" where
  "Logout_checkRequest idp req =
     (let request = ilr_Request req; logoutURL = urlString (idp_LogoutURL idp) in
      if lreq_Destination request \<noteq> logoutURL
      then Inl (Errorf ''expected destination to be %q, not %q'' [logoutURL, lreq_Destination request])
      else if lreq_IssueInstant request + MaxIssueDelay < ilr_Now req then Inl (Err ''request expired at %s'')
      else if lreq_IssueInstant request > ilr_Now req + MaxClockSkew then Inl (Err ''request issued in the future at %s'')
      else if (case lreq_NotOnOrAfter request of None \<Rightarrow> False | Some t \<Rightarrow> \<not> ilr_Now req < t)
      then Inl (Err ''request expired at %s'')
      else if lreq_Version request \<noteq> ''2.0''
      then Inl (Errorf ''expected SAML request version 2.0 got %v'' [lreq_Version request])
      else if \<not> isValidAuthnRequestID (lreq_ID request) then Inl (Err ''invalid request ID'')
      else if (case lreq_Issuer request of None \<Rightarrow> True | Some i \<Rightarrow> iss_Value i = [])
      then Inl (Err ''request has no issuer'')
      else Inr ())"

text \<open>The expression \<^verbatim>\<open>req.Request.Issuer.Value\<close>.\<close>

definition logoutIssuer :: "LogoutRequest \<Rightarrow> string result" where
  "logoutIssuer request = bindE (nonNil (lreq_Issuer request)) (\<lambda>i. Inr (iss_Value i))"

definition Logout_verifySignature ::
  "externs \<Rightarrow> time \<Rightarrow> IdentityProvider \<Rightarrow> IdpLogoutRequest \<Rightarrow> IdpLogoutRequest result" where
  "Logout_verifySignature X clk idp req =
     bindE (x_ReadFromBytes X (ilr_RequestBuffer req)) (\<lambda>root.
     case root of
       None \<Rightarrow> Inl (Err ''request has no root element'')
     | Some el \<Rightarrow>
     bindE (findChild ([], el) dsNamespace ''Signature'') (\<lambda>signatureEl.
     if ilr_RedirectQuery req = [] \<and> signatureEl = None then Inl (Err ''request is not signed'')
     else
       bindE (nonNil (ilr_ServiceProviderMetadata req)) (\<lambda>md.
       bindE (serviceProviderSigningCertificates X md) (\<lambda>certificates.
       if certificates = []
       then Inl (Err ''request is signed but the service provider has no signing certificate'')
       else
       bindE (if ilr_RedirectQuery req \<noteq> []
              then wrapE (Wrapf ''invalid request signature: %w'' [])
                (verifyRedirectSignature X clk (ilr_RedirectQuery req) ''SAMLRequest'' certificates)
              else Inr ()) (\<lambda>_.
       if signatureEl \<noteq> None
       then bindE (wrapE (Wrapf ''invalid request signature: %w'' [])
                (verifyEnvelopedSignature X clk el certificates (Inr None))) (\<lambda>verified.
            bindE (logoutIssuer (ilr_Request req)) (\<lambda>serviceProviderID.
            bindE (nonNil verified) (\<lambda>verified.
            bindE (unmarshalElement X (x_UnmarshalLogoutRequest X) ([], verified)) (\<lambda>request.
            let req = req\<lparr>ilr_Request := request\<rparr> in
            bindE (Logout_checkRequest idp req) (\<lambda>_.
            bindE (logoutIssuer request) (\<lambda>issuer.
              if issuer \<noteq> serviceProviderID then Inl (Err ''signed request has a different issuer'')
              else Inr req))))))
       else Inr req)))))"

text \<open>The endpoints in the order of the two inner loops of \<^verbatim>\<open>getSLOEndpoint\<close>, and the outer loop over the
  bindings.\<close>

definition sloEndpoints :: "EntityDescriptor \<Rightarrow> Endpoint list" where
  "sloEndpoints md = concat (map sso_SingleLogoutServices (ed_SPSSODescriptors md))"

fun findSLOEndpoint :: "Endpoint list \<Rightarrow> string list \<Rightarrow> Endpoint option" where
  "findSLOEndpoint endpoints [] = None"
| "findSLOEndpoint endpoints (binding # bindings) =
     (case find (\<lambda>e. ep_Binding e = binding) endpoints of
        Some e \<Rightarrow> Some e | None \<Rightarrow> findSLOEndpoint endpoints bindings)"

definition getSLOEndpoint :: "IdpLogoutRequest \<Rightarrow> IdpLogoutRequest result" where
  "getSLOEndpoint req =
     bindE (nonNil (ilr_ServiceProviderMetadata req)) (\<lambda>md.
       case findSLOEndpoint (sloEndpoints md) [ilr_binding req, HTTPRedirectBinding, HTTPPostBinding] of
         Some e \<Rightarrow> Inr (req\<lparr>ilr_SLOEndpoint := Some e\<rparr>)
       | None \<Rightarrow> Inl (Errorf ''service provider %s has no SingleLogoutService with a supported binding'' [ed_EntityID md]))"

definition Logout_Validate :: "externs \<Rightarrow> time \<Rightarrow> IdentityProvider \<Rightarrow> IdpLogoutRequest \<Rightarrow> IdpLogoutRequest result" where
  "Logout_Validate X clk idp req =
     bindE (checkAuthnRequestSize (ilr_RequestBuffer req)) (\<lambda>_.
     bindE (x_XrvValidate X (ilr_RequestBuffer req)) (\<lambda>_.
     bindE (x_UnmarshalLogoutRequest X (ilr_RequestBuffer req)) (\<lambda>request.
     let req = req\<lparr>ilr_Request := request\<rparr> in
     bindE (Logout_checkRequest idp req) (\<lambda>_.
     bindE (logoutIssuer request) (\<lambda>serviceProviderID.
     bindE (wrapE (\<lambda>e. if errorsIs e ErrNotExist
                     then Errorf ''cannot handle request from unknown service provider %s'' [serviceProviderID]
                     else Wrapf ''cannot find service provider %s: %v'' [serviceProviderID] e)
         (idp_GetServiceProvider idp (ilr_HTTPRequest req) serviceProviderID)) (\<lambda>serviceProvider.
     bindE (Logout_verifySignature X clk idp (req\<lparr>ilr_ServiceProviderMetadata := Some serviceProvider\<rparr>)) (\<lambda>req.
     if (case lreq_NameID (ilr_Request req) of None \<Rightarrow> True | Some n \<Rightarrow> nid_Value n = [])
     then Inl (Err ''request has no NameID'')
     else getSLOEndpoint req)))))))"

section \<open>The response\<close>

definition responseLocation :: "Endpoint \<Rightarrow> string" where
  "responseLocation e = (if ep_ResponseLocation e \<noteq> [] then ep_ResponseLocation e else ep_Location e)"

definition Logout_MakeResponse :: "idp_env \<Rightarrow> IdentityProvider \<Rightarrow> IdpLogoutRequest \<Rightarrow> Status \<Rightarrow> LogoutResponse result" where
  "Logout_MakeResponse env idp req status =
     bindE (nonNil (ilr_SLOEndpoint req)) (\<lambda>e. Inr
       \<lparr>lrsp_ID = randomID (env_ResponseID env), lrsp_InResponseTo = lreq_ID (ilr_Request req), lrsp_Version = ''2.0'',
        lrsp_IssueInstant = ilr_Now req, lrsp_Destination = responseLocation e, lrsp_Consent = [],
        lrsp_Issuer = Some (entityIssuer (urlString (idp_MetadataURL idp))), lrsp_Signature = None,
        lrsp_Status = status\<rparr>)"

text \<open>What the bindings of \<^verbatim>\<open>WriteResponse\<close> send.\<close>

definition redirectLogout ::
  "externs \<Rightarrow> idp_env \<Rightarrow> http_request \<Rightarrow> signing_context \<Rightarrow> LogoutResponse \<Rightarrow> string \<Rightarrow> http_write result" where
  "redirectLogout X env r ctx response relayState =
     bindE (redirectURLWithContext X (env_ResponseSignature env) (lrsp_Destination response) ''SAMLResponse''
         (LogoutResponse_Element response) relayState (Some ctx))
       (\<lambda>u. Inr (WriteRedirect (redirectLocation X r (urlString u))))"

definition postLogout ::
  "externs \<Rightarrow> idp_env \<Rightarrow> IdentityProvider \<Rightarrow> signing_context \<Rightarrow> LogoutResponse \<Rightarrow> string \<Rightarrow> http_write result" where
  "postLogout X env idp ctx response relayState =
     bindE (SignEnveloped X (env_ResponseSignature env) ctx ([], LogoutResponse_Element response)) (\<lambda>signedEl.
     bindE (case ChildElements signedEl of [] \<Rightarrow> Inl (Panic ''index out of range'') | cs \<Rightarrow> Inr (last cs)) (\<lambda>sig.
     let form = \<lparr>form_URL = lrsp_Destination response,
           form_SAMLResponse = base64Encode (x_WriteToBytes X (LogoutResponse_Element (response\<lparr>lrsp_Signature := Some sig\<rparr>))),
           form_RelayState = relayState\<rparr>
     in bindE (renderForm idp form) (\<lambda>_. Inr (WriteForm form))))"

text \<open>\<^verbatim>\<open>WriteResponse\<close>: what it writes, and its error. The headers are written before the rest can fail.\<close>

definition Logout_WriteResponse ::
  "externs \<Rightarrow> idp_env \<Rightarrow> IdentityProvider \<Rightarrow> IdpLogoutRequest \<Rightarrow> Status \<Rightarrow> http_write list \<times> unit result" where
  "Logout_WriteResponse X env idp req status =
     (case bindE (Logout_MakeResponse env idp req status) (\<lambda>response.
           bindE (signingContext idp) (\<lambda>ctx. bindE (nonNil (ilr_SLOEndpoint req)) (\<lambda>e. Inr (response, ctx, e)))) of
        Inl err \<Rightarrow> ([], Inl err)
      | Inr (response, ctx, e) \<Rightarrow>
          (case (if ep_Binding e = HTTPRedirectBinding
                 then redirectLogout X env (ilr_HTTPRequest req) ctx response (ilr_RelayState req)
                 else if ep_Binding e = HTTPPostBinding then postLogout X env idp ctx response (ilr_RelayState req)
                 else Inl (Errorf ''unsupported binding %s'' [ep_Binding e])) of
             Inl err \<Rightarrow> ([SetNoCacheHeaders], Inl err)
           | Inr w \<Rightarrow> ([SetNoCacheHeaders, w], Inr ())))"

section \<open>The handler\<close>

definition logoutStatus :: "string \<Rightarrow> string option \<Rightarrow> Status" where
  "logoutStatus v sub = \<lparr>st_StatusCode = StatusCode v (map_option (\<lambda>s. StatusCode s None) sub),
     st_StatusMessage = None, st_StatusDetail = None\<rparr>"

text \<open>The status that the outcome of \<^verbatim>\<open>TerminateSession\<close> gives, and what the provider writes.\<close>

definition terminate ::
  "IdentityProvider \<Rightarrow> http_request \<Rightarrow> IdpLogoutRequest \<Rightarrow> (http_write list \<times> Status) result" where
  "terminate idp r req =
     (case spr_TerminateSession (idp_SessionProvider idp) of
        None \<Rightarrow> Inr ([], logoutStatus StatusResponder None)
      | Some term \<Rightarrow>
          (case term r req of
             (ws, Inr _) \<Rightarrow> Inr (ws, logoutStatus StatusSuccess None)
           | (ws, Inl e) \<Rightarrow>
               if isPanic e then Inl e
               else if errorsIs e ErrPartialLogout then Inr (ws, logoutStatus StatusSuccess (Some StatusPartialLogout))
               else Inr (ws, logoutStatus StatusResponder None)))"

definition ServeSLO :: "externs \<Rightarrow> idp_env \<Rightarrow> IdentityProvider \<Rightarrow> http_request \<Rightarrow> http_write list result" where
  "ServeSLO X env idp r =
     orHttpError StatusBadRequest (NewIdpLogoutRequest X r (env_Now env)) (\<lambda>req.
     orHttpError StatusBadRequest (Logout_Validate X (env_Clock env) idp req) (\<lambda>req.
     bindE (terminate idp r req) (\<lambda>(written, status).
       case Logout_WriteResponse X env idp req status of
         (ws, Inr _) \<Rightarrow> Inr (written @ ws)
       | (ws, Inl e) \<Rightarrow>
           if isPanic e then Inl e else Inr (written @ ws @ [WriteError StatusInternalServerError]))))"


section \<open>Logout requests are signed\<close>

lemma NewIdpLogoutRequest_redirect:
  assumes "NewIdpLogoutRequest X r now = Inr req" "ilr_RedirectQuery req \<noteq> []"
  shows "readRedirectRequest X (ilr_RedirectQuery req)
    = Inr (ilr_RequestBuffer req, ilr_RelayState req, ilr_RedirectQuery req)"
proof -
  have "readRedirectRequest X q = Inr (b, rs, sq) \<Longrightarrow> sq \<noteq> [] \<Longrightarrow> readRedirectRequest X sq = Inr (b, rs, sq)"
    for q b rs sq by (auto simp: readRedirectRequest_def Let_def split: if_splits)
  with assms show ?thesis by (auto simp: NewIdpLogoutRequest_def newLogoutRequest_def Let_def split: if_splits)
qed

lemma NewIdpLogoutRequest_fields:
  "NewIdpLogoutRequest X r now = Inr req \<Longrightarrow> ilr_HTTPRequest req = r \<and> ilr_Now req = now"
  by (auto simp: NewIdpLogoutRequest_def newLogoutRequest_def Let_def split: if_splits)

lemma logoutIssuer_Inr: "logoutIssuer a = Inr v \<longleftrightarrow> (\<exists>i. lreq_Issuer a = Some i \<and> iss_Value i = v)"
  by (auto simp: logoutIssuer_def)

text \<open>A logout request that a certificate of the service provider signs, in the message or in the query.\<close>

definition logoutRequestSigned :: "externs \<Rightarrow> time \<Rightarrow> EntityDescriptor \<Rightarrow> IdpLogoutRequest \<Rightarrow> bool" where
  "logoutRequestSigned X clk md req \<longleftrightarrow>
     signedByProvider X clk md (\<lambda>cert.
       (\<exists>v i. signedContent X cert i v \<and> unmarshalElement X (x_UnmarshalLogoutRequest X) ([], v) = Inr (ilr_Request req)) \<or>
       (coveredByQuery X clk cert (ilr_RequestBuffer req) (ilr_RelayState req) \<and>
        x_UnmarshalLogoutRequest X (ilr_RequestBuffer req) = Inr (ilr_Request req)))"

lemma Logout_verifySignature_cases:
  assumes "Logout_verifySignature X clk idp req = Inr req'" "ilr_ServiceProviderMetadata req = Some md"
  obtains (enveloped) certs el v request p where "serviceProviderSigningCertificates X md = Inr certs"
      "verifyEnvelopedSignature X clk el certs (Inr None) = Inr (Some v)"
      "unmarshalElement X (x_UnmarshalLogoutRequest X) ([], v) = Inr request" "req' = req\<lparr>ilr_Request := request\<rparr>"
      "Logout_checkRequest idp req' = Inr ()" "logoutIssuer (ilr_Request req) = Inr p" "logoutIssuer request = Inr p"
  | (query) certs where "serviceProviderSigningCertificates X md = Inr certs" "req' = req" "ilr_RedirectQuery req \<noteq> []"
      "verifyRedirectSignature X clk (ilr_RedirectQuery req) ''SAMLRequest'' certs = Inr ()"
proof -
  from assms obtain el s where el: "findChild ([], el) dsNamespace ''Signature'' = Inr s"
    "x_ReadFromBytes X (ilr_RequestBuffer req) = Inr (Some el)" "\<not> (ilr_RedirectQuery req = [] \<and> s = None)"
    by (auto simp: Logout_verifySignature_def split: option.splits if_splits)
  show ?thesis
  proof (cases s)
    case None
    with assms el show ?thesis
      by (auto simp: Logout_verifySignature_def split: if_splits intro!: query)
  next
    case (Some x)
    with assms el show ?thesis
      by (auto simp: Logout_verifySignature_def Let_def split: if_splits intro!: enveloped)
  qed
qed

lemma Logout_verified_request:
  assumes "snd (x_Inflate X []) \<noteq> None"
    and ver: "Logout_verifySignature X clk idp req = Inr req'" "ilr_ServiceProviderMetadata req = Some md"
    and check: "Logout_checkRequest idp req = Inr ()" "logoutIssuer (ilr_Request req) = Inr p"
    and buf: "x_UnmarshalLogoutRequest X (ilr_RequestBuffer req) = Inr (ilr_Request req)"
    and read: "ilr_RedirectQuery req \<noteq> [] \<Longrightarrow> readRedirectRequest X (ilr_RedirectQuery req)
      = Inr (ilr_RequestBuffer req, ilr_RelayState req, ilr_RedirectQuery req)"
  shows "\<exists>request. req' = req\<lparr>ilr_Request := request\<rparr> \<and> Logout_checkRequest idp req' = Inr () \<and>
    logoutIssuer request = Inr p \<and> logoutRequestSigned X clk md req'"
  using ver
proof (cases rule: Logout_verifySignature_cases)
  case (enveloped certs el v request q)
  with check(2) verifyEnvelopedSignature_Inr [OF enveloped(2)] show ?thesis
    by (auto simp: logoutRequestSigned_def signedByProvider_def intro!: exI [of _ request])
next
  case (query certs)
  from verified_query_covers [OF assms(1) read [OF query(3)] query(4)] obtain cert where
    "cert \<in> set certs" "certValidAt clk cert" "coveredByQuery X clk cert (ilr_RequestBuffer req) (ilr_RelayState req)"
    unfolding coveredByQuery_def by blast
  with query check buf show ?thesis
    by (auto simp: logoutRequestSigned_def signedByProvider_def intro!: exI [of _ "ilr_Request req"])
qed

text \<open>The endpoint that is chosen: of the first of the bindings for which the service provider has one.\<close>

lemma findSLOEndpoint_Some: "findSLOEndpoint es bs = Some e \<Longrightarrow> e \<in> set es \<and> ep_Binding e \<in> set bs"
  by (induction bs) (auto split: option.splits dest!: find_Some_in)

lemma findSLOEndpoint_first:
  "findSLOEndpoint es (b # bs) = Some e \<Longrightarrow> e' \<in> set es \<Longrightarrow> ep_Binding e' = b \<Longrightarrow> ep_Binding e = b"
  by (auto simp: find_None_iff split: option.splits dest!: find_Some_in)

definition logoutEndpointChosen :: "EntityDescriptor \<Rightarrow> IdpLogoutRequest \<Rightarrow> bool" where
  "logoutEndpointChosen md req \<longleftrightarrow>
     (\<exists>e. ilr_SLOEndpoint req = Some e \<and> e \<in> set (sloEndpoints md) \<and>
        ((\<exists>e' \<in> set (sloEndpoints md). ep_Binding e' = ilr_binding req) \<longrightarrow> ep_Binding e = ilr_binding req) \<and>
        ep_Binding e \<in> {ilr_binding req, HTTPRedirectBinding, HTTPPostBinding})"

lemma getSLOEndpoint_Inr:
  assumes "getSLOEndpoint req = Inr req'"
  obtains md e where "ilr_ServiceProviderMetadata req = Some md" "req' = req\<lparr>ilr_SLOEndpoint := Some e\<rparr>"
    "logoutEndpointChosen md req'"
proof -
  from assms obtain md e where md: "ilr_ServiceProviderMetadata req = Some md"
    "findSLOEndpoint (sloEndpoints md) [ilr_binding req, HTTPRedirectBinding, HTTPPostBinding] = Some e"
    "req' = req\<lparr>ilr_SLOEndpoint := Some e\<rparr>"
    by (auto simp: getSLOEndpoint_def split: option.splits)
  from findSLOEndpoint_Some [OF md(2)] findSLOEndpoint_first [OF md(2)] have "logoutEndpointChosen md req'"
    by (auto simp: logoutEndpointChosen_def md(3) simp del: findSLOEndpoint.simps)
  with md that show ?thesis by blast
qed


lemma Logout_fields:
  "Logout_checkRequest idp (q\<lparr>ilr_ServiceProviderMetadata := m\<rparr>) = Logout_checkRequest idp q"
  "Logout_checkRequest idp (q\<lparr>ilr_SLOEndpoint := e\<rparr>) = Logout_checkRequest idp q"
  "logoutRequestSigned X clk md (q\<lparr>ilr_SLOEndpoint := e\<rparr>) = logoutRequestSigned X clk md q"
  by (simp_all add: Logout_checkRequest_def logoutRequestSigned_def Let_def cong: option.case_cong)

lemma Logout_Validate_sound:
  assumes "snd (x_Inflate X []) \<noteq> None" "NewIdpLogoutRequest X r now = Inr req0" "Logout_Validate X clk idp req0 = Inr req"
  shows "\<exists>md i n. lreq_Issuer (ilr_Request req) = Some i \<and> idp_GetServiceProvider idp r (iss_Value i) = Inr md \<and>
    Logout_checkRequest idp req = Inr () \<and> logoutRequestSigned X clk md req \<and>
    lreq_NameID (ilr_Request req) = Some n \<and> nid_Value n \<noteq> [] \<and> logoutEndpointChosen md req"
proof -
  note req0 = NewIdpLogoutRequest_fields [OF assms(2)]
  from assms(3) obtain request p md req1 where v:
      "x_UnmarshalLogoutRequest X (ilr_RequestBuffer req0) = Inr request"
      "Logout_checkRequest idp (req0\<lparr>ilr_Request := request\<rparr>) = Inr ()" "logoutIssuer request = Inr p"
      "idp_GetServiceProvider idp r p = Inr md"
      "Logout_verifySignature X clk idp (req0\<lparr>ilr_Request := request, ilr_ServiceProviderMetadata := Some md\<rparr>) = Inr req1"
      "\<not> (case lreq_NameID (ilr_Request req1) of None \<Rightarrow> True | Some n \<Rightarrow> nid_Value n = [])" "getSLOEndpoint req1 = Inr req"
    using req0 by (auto simp: Logout_Validate_def Let_def split: if_splits)
  let ?req = "req0\<lparr>ilr_Request := request, ilr_ServiceProviderMetadata := Some md\<rparr>"
  have "\<exists>rq. req1 = ?req\<lparr>ilr_Request := rq\<rparr> \<and> Logout_checkRequest idp req1 = Inr () \<and>
      logoutIssuer rq = Inr p \<and> logoutRequestSigned X clk md req1"
    by (rule Logout_verified_request [OF assms(1) v(5)])
      (use v(1-3) NewIdpLogoutRequest_redirect [OF assms(2)] in \<open>simp_all add: Logout_fields\<close>)
  then obtain rq where r1: "req1 = ?req\<lparr>ilr_Request := rq\<rparr>" "Logout_checkRequest idp req1 = Inr ()"
      "logoutIssuer rq = Inr p" "logoutRequestSigned X clk md req1" by blast
  obtain md' e where e: "ilr_ServiceProviderMetadata req1 = Some md'" "req = req1\<lparr>ilr_SLOEndpoint := Some e\<rparr>"
      "logoutEndpointChosen md' req"
    using getSLOEndpoint_Inr [OF v(7)] .
  have "md' = md" using e(1) r1(1) by simp
  moreover from v(6) obtain n where "lreq_NameID (ilr_Request req1) = Some n" "nid_Value n \<noteq> []" by (auto split: option.splits)
  moreover from r1(1,3) obtain i where "lreq_Issuer (ilr_Request req1) = Some i" "iss_Value i = p"
    by (auto simp: logoutIssuer_Inr)
  ultimately show ?thesis using e r1(2,4) v(4) by (auto simp: Logout_fields)
qed

text \<open>
  C23. No session is ended by an unauthenticated request. Unless single logout answers with the status Bad Request and
  nothing else, so that the session provider has not been called, the request is from a registered service provider,
  addressed to the logout URL and neither expired nor from the future, and it is read from content that a signing
  certificate of that service provider signs, or from the query that such a certificate's signature covers. It names a
  principal, and the endpoint for the response is one of the service provider's metadata, with the binding of the
  request if there is one. (Inflating no data ends with an error.)
\<close>

theorem logout_request_authenticated:
  assumes "snd (x_Inflate X []) \<noteq> None" "ServeSLO X env idp r = Inr ws" "ws \<noteq> [WriteError StatusBadRequest]"
  shows "\<exists>req0 req md i n. NewIdpLogoutRequest X r (env_Now env) = Inr req0 \<and>
    Logout_Validate X (env_Clock env) idp req0 = Inr req \<and>
    lreq_Issuer (ilr_Request req) = Some i \<and> idp_GetServiceProvider idp r (iss_Value i) = Inr md \<and>
    Logout_checkRequest idp req = Inr () \<and> logoutRequestSigned X (env_Clock env) md req \<and>
    lreq_NameID (ilr_Request req) = Some n \<and> nid_Value n \<noteq> [] \<and> logoutEndpointChosen md req"
proof -
  from assms(2,3) obtain req0 req where "NewIdpLogoutRequest X r (env_Now env) = Inr req0"
    "Logout_Validate X (env_Clock env) idp req0 = Inr req"
    unfolding ServeSLO_def orHttpError_Inr by auto
  with Logout_Validate_sound [OF assms(1)] show ?thesis by blast
qed

text \<open>What a logout answer consists of: the response that is made for the endpoint, by the endpoint's binding.\<close>

text \<open>How the session provider ended the session, with what it wrote, and the status that reports it: it has no way to
  end sessions, it ended all, it ended some of them, or it failed.\<close>

definition terminationReported ::
  "IdentityProvider \<Rightarrow> http_request \<Rightarrow> IdpLogoutRequest \<Rightarrow> http_write list \<Rightarrow> Status \<Rightarrow> bool" where
  "terminationReported idp r req written status \<longleftrightarrow>
     st_StatusMessage status = None \<and> st_StatusDetail status = None \<and>
     (case spr_TerminateSession (idp_SessionProvider idp) of
        None \<Rightarrow> written = [] \<and> st_StatusCode status = StatusCode StatusResponder None
      | Some term \<Rightarrow>
          term r req = (written, Inr ()) \<and> st_StatusCode status = StatusCode StatusSuccess None \<or>
          (\<exists>e. term r req = (written, Inl e) \<and> \<not> isPanic e \<and>
             (if errorsIs e ErrPartialLogout
              then st_StatusCode status = StatusCode StatusSuccess (Some (StatusCode StatusPartialLogout None))
              else st_StatusCode status = StatusCode StatusResponder None)))"

lemma terminate_iff: "terminate idp r req = Inr (written, status) \<longleftrightarrow> terminationReported idp r req written status"
proof -
  have status: "logoutStatus v sub = status \<longleftrightarrow> st_StatusMessage status = None \<and> st_StatusDetail status = None \<and>
      st_StatusCode status = StatusCode v (map_option (\<lambda>s. StatusCode s None) sub)" for v sub
    by (cases status) (auto simp: logoutStatus_def)
  show ?thesis
  proof (cases "spr_TerminateSession (idp_SessionProvider idp)")
    case (Some endSession)
    obtain ws outcome where "endSession r req = (ws, outcome)" by (cases "endSession r req")
    with Some show ?thesis
      by (cases outcome) (auto simp: terminate_def terminationReported_def status)
  qed (auto simp: terminate_def terminationReported_def status)
qed

text \<open>The answer to a logout request: a response to the request, from the identity provider and with this status, to
  an endpoint of the service provider's metadata. By POST the message is signed and its signature is in it; by redirect
  the signature is in the query.\<close>

definition logoutAnswer ::
  "externs \<Rightarrow> idp_env \<Rightarrow> IdentityProvider \<Rightarrow> IdpLogoutRequest \<Rightarrow> Status \<Rightarrow> http_write \<Rightarrow> bool" where
  "logoutAnswer X env idp req status w \<longleftrightarrow>
     (\<exists>md e ctx response. ilr_ServiceProviderMetadata req = Some md \<and> logoutEndpointChosen md req \<and>
        ilr_SLOEndpoint req = Some e \<and> signingContext idp = Inr ctx \<and>
        lrsp_InResponseTo response = lreq_ID (ilr_Request req) \<and>
        lrsp_Destination response = (if ep_ResponseLocation e \<noteq> [] then ep_ResponseLocation e else ep_Location e) \<and>
        lrsp_Issuer response = Some (entityIssuer (urlString (idp_MetadataURL idp))) \<and>
        lrsp_Status response = status \<and> lrsp_ID response = randomID (env_ResponseID env) \<and>
        lrsp_IssueInstant response = ilr_Now req \<and> lrsp_Version response = ''2.0'' \<and> lrsp_Signature response = None \<and>
        (ep_Binding e = HTTPRedirectBinding \<and>
           (\<exists>u. redirectURLWithContext X (env_ResponseSignature env) (lrsp_Destination response) ''SAMLResponse''
                  (LogoutResponse_Element response) (ilr_RelayState req) (Some ctx) = Inr u \<and>
              w = WriteRedirect (redirectLocation X (ilr_HTTPRequest req) (urlString u))) \<or>
         ep_Binding e = HTTPPostBinding \<and>
           (\<exists>sig canonical f. SignEnveloped X (env_ResponseSignature env) ctx ([], LogoutResponse_Element response)
                = Inr (AddChild (Elem sig) canonical) \<and>
              TransformExcC14n canonicalizerPrefixList False (LogoutResponse_Element response) = Inr canonical \<and>
              w = WriteForm f \<and> form_URL f = lrsp_Destination response \<and> form_RelayState f = ilr_RelayState req \<and>
              form_SAMLResponse f = base64Encode (x_WriteToBytes X (LogoutResponse_Element (response\<lparr>lrsp_Signature := Some sig\<rparr>))))))"

lemma postLogout_total:
  assumes "canSign X (env_ResponseSignature env) ctx" "lrsp_Signature response = None"
    "st_StatusDetail (lrsp_Status response) = None" "idp_ResponseFormTemplate idp = None"
  obtains el' sig where "SignEnveloped X (env_ResponseSignature env) ctx ([], LogoutResponse_Element response)
      = Inr (AddChild (Elem sig) el')"
    "postLogout X env idp ctx response relayState = Inr (WriteForm \<lparr>form_URL = lrsp_Destination response,
       form_SAMLResponse = base64Encode (x_WriteToBytes X (LogoutResponse_Element (response\<lparr>lrsp_Signature := Some sig\<rparr>))),
       form_RelayState = relayState\<rparr>)"
proof -
  have "closedTree (LogoutResponse_Element response)"
    using assms(2,3) by (simp add: LogoutResponse_Element_def saml_parts Status_in_scope)
  then obtain el' sig where s: "SignEnveloped X (env_ResponseSignature env) ctx ([], LogoutResponse_Element response)
      = Inr (AddChild (Elem sig) el')"
    using SignEnveloped_total [OF assms(1)] by metis
  with assms(4) show ?thesis
    by (intro that [OF s]) (cases "ChildElements el'"; simp add: postLogout_def AddChild_def renderForm_def Let_def)
qed

lemma redirectLogout_total:
  assumes "canSign X (env_ResponseSignature env) ctx" "x_ParseURL X (lrsp_Destination response) = Inr u"
  obtains u' where "redirectURLWithContext X (env_ResponseSignature env) (lrsp_Destination response) ''SAMLResponse''
      (LogoutResponse_Element response) relayState (Some ctx) = Inr u'"
    "redirectLogout X env r ctx response relayState = Inr (WriteRedirect (redirectLocation X r (urlString u')))"
proof -
  have "\<exists>sig. SignString X (env_ResponseSignature env) ctx (a # s) = Inr sig" for a s
    using assms(1) by (auto simp: canSign_def SignString_def)
  then have "\<exists>sig. SignString X (env_ResponseSignature env) ctx (s @ a # t) = Inr sig" for a s t
    by (cases s) auto
  then have "\<exists>u'. redirectURLWithContext X (env_ResponseSignature env) (lrsp_Destination response) ''SAMLResponse''
      (LogoutResponse_Element response) relayState (Some ctx) = Inr u'"
    using assms(2) by (auto simp: redirectURLWithContext_def Let_def)
  with that show ?thesis by (auto simp: redirectLogout_def)
qed

lemma Logout_Validate_endpoint:
  assumes "NewIdpLogoutRequest X r now = Inr req0" "Logout_Validate X clk idp req0 = Inr req"
  obtains md e where "ilr_ServiceProviderMetadata req = Some md" "logoutEndpointChosen md req"
    "ilr_SLOEndpoint req = Some e" "ep_Binding e \<in> {HTTPRedirectBinding, HTTPPostBinding}"
proof -
  from assms(2) obtain request md req1 where
    v: "Logout_verifySignature X clk idp (req0\<lparr>ilr_Request := request, ilr_ServiceProviderMetadata := Some md\<rparr>) = Inr req1"
      "getSLOEndpoint req1 = Inr req"
    by (auto simp: Logout_Validate_def Let_def split: if_splits)
  from v(1) have "ilr_binding req1 = ilr_binding req0"
    by (rule Logout_verifySignature_cases [where md = md]) auto
  moreover have "ilr_binding req0 \<in> {HTTPRedirectBinding, HTTPPostBinding}"
    using assms(1) by (auto simp: NewIdpLogoutRequest_def Let_def split: if_splits)
  moreover obtain md' e where "ilr_ServiceProviderMetadata req1 = Some md'" "req = req1\<lparr>ilr_SLOEndpoint := Some e\<rparr>"
      "logoutEndpointChosen md' req"
    using getSLOEndpoint_Inr [OF v(2)] .
  ultimately show ?thesis using that by (auto simp: logoutEndpointChosen_def)
qed

lemma bindings_differ: "HTTPRedirectBinding \<noteq> HTTPPostBinding"
  by (simp add: HTTPRedirectBinding_def HTTPPostBinding_def)

lemma Logout_WriteResponse_total:
  assumes ctx: "signingContext idp = Inr ctx" "canSign X (env_ResponseSignature env) ctx"
    and md: "ilr_ServiceProviderMetadata req = Some md" "logoutEndpointChosen md req"
    and e: "ilr_SLOEndpoint req = Some e" "ep_Binding e \<in> {HTTPRedirectBinding, HTTPPostBinding}"
    and dflt: "st_StatusDetail status = None" "idp_ResponseFormTemplate idp = None"
    and u: "ep_Binding e = HTTPRedirectBinding \<Longrightarrow> x_ParseURL X (responseLocation e) = Inr u"
  shows "\<exists>w. Logout_WriteResponse X env idp req status = ([SetNoCacheHeaders, w], Inr ()) \<and> logoutAnswer X env idp req status w"
proof -
  obtain response where response: "Logout_MakeResponse env idp req status = Inr response"
      "lrsp_Destination response = responseLocation e" "lrsp_Signature response = None" "lrsp_Status response = status"
      "lrsp_InResponseTo response = lreq_ID (ilr_Request req)" "lrsp_ID response = randomID (env_ResponseID env)"
      "lrsp_Issuer response = Some (entityIssuer (urlString (idp_MetadataURL idp)))" "lrsp_IssueInstant response = ilr_Now req"
      "lrsp_Version response = ''2.0''"
    using e(1) by (simp add: Logout_MakeResponse_def nonNil_def)
  note answer = logoutAnswer_def [THEN iffD2, OF exI [of _ md], OF exI [of _ e], OF exI [of _ ctx], OF exI [of _ response]]
  show ?thesis
  proof (cases "ep_Binding e = HTTPRedirectBinding")
    case True
    obtain u' where "redirectURLWithContext X (env_ResponseSignature env) (lrsp_Destination response) ''SAMLResponse''
        (LogoutResponse_Element response) (ilr_RelayState req) (Some ctx) = Inr u'"
      and w: "redirectLogout X env (ilr_HTTPRequest req) ctx response (ilr_RelayState req) =
        Inr (WriteRedirect (redirectLocation X (ilr_HTTPRequest req) (urlString u')))"
      using redirectLogout_total [OF ctx(2), of response u] u [OF True] response(2) by metis
    moreover from this(1) have "logoutAnswer X env idp req status (WriteRedirect (redirectLocation X (ilr_HTTPRequest req) (urlString u')))"
      using True md e(1) ctx(1) response(2-) by (intro answer) (simp add: responseLocation_def)
    ultimately show ?thesis using True e(1) ctx(1) response(1) by (simp add: Logout_WriteResponse_def nonNil_def)
  next
    case False
    then have post: "ep_Binding e = HTTPPostBinding" using e(2) by blast
    have detail: "st_StatusDetail (lrsp_Status response) = None" using dflt(1) response(4) by simp
    obtain el' sig where s: "SignEnveloped X (env_ResponseSignature env) ctx ([], LogoutResponse_Element response)
        = Inr (AddChild (Elem sig) el')"
      and w: "postLogout X env idp ctx response (ilr_RelayState req) = Inr (WriteForm \<lparr>form_URL = lrsp_Destination response,
       form_SAMLResponse = base64Encode (x_WriteToBytes X (LogoutResponse_Element (response\<lparr>lrsp_Signature := Some sig\<rparr>))),
       form_RelayState = ilr_RelayState req\<rparr>)"
      using postLogout_total [OF ctx(2) response(3) detail dflt(2)] by metis
    obtain canonical sig' where c: "AddChild (Elem sig) el' = AddChild (Elem sig') canonical"
        "TransformExcC14n canonicalizerPrefixList False (LogoutResponse_Element response) = Inr canonical"
      using SignEnveloped_canonical [OF s signingContext_exclusive [OF ctx(1)]] .
    have "sig' = sig" using lastElement_AddChild [of sig el'] lastElement_AddChild [of sig' canonical] c(1) by simp
    with s c have "logoutAnswer X env idp req status (WriteForm \<lparr>form_URL = lrsp_Destination response,
       form_SAMLResponse = base64Encode (x_WriteToBytes X (LogoutResponse_Element (response\<lparr>lrsp_Signature := Some sig\<rparr>))),
       form_RelayState = ilr_RelayState req\<rparr>)"
      using post md e(1) ctx(1) response(2-) by (intro answer) (auto simp: responseLocation_def)
    with w show ?thesis using post bindings_differ e(1) ctx(1) response(1) by (simp add: Logout_WriteResponse_def nonNil_def)
  qed
qed

lemma ServeSLO_total:
  assumes "NewIdpLogoutRequest X r (env_Now env) = Inr req0" "Logout_Validate X (env_Clock env) idp req0 = Inr req"
    "terminationReported idp r req written status" "idpCanSign X env idp" "idp_ResponseFormTemplate idp = None"
    "\<And>e. ilr_SLOEndpoint req = Some e \<Longrightarrow> ep_Binding e = HTTPRedirectBinding \<Longrightarrow> \<exists>u. x_ParseURL X (responseLocation e) = Inr u"
  shows "\<exists>w. ServeSLO X env idp r = Inr (written @ [SetNoCacheHeaders, w]) \<and> logoutAnswer X env idp req status w"
proof -
  obtain ctx where ctx: "signingContext idp = Inr ctx" "canSign X (env_ResponseSignature env) ctx"
    using idpCanSign_context [OF assms(4)] by metis
  obtain md e where e: "ilr_ServiceProviderMetadata req = Some md" "logoutEndpointChosen md req"
      "ilr_SLOEndpoint req = Some e" "ep_Binding e \<in> {HTTPRedirectBinding, HTTPPostBinding}"
    using Logout_Validate_endpoint [OF assms(1,2)] .
  obtain u where u: "ep_Binding e = HTTPRedirectBinding \<Longrightarrow> x_ParseURL X (responseLocation e) = Inr u"
    using assms(6) [OF e(3)] by blast
  have detail: "st_StatusDetail status = None" using assms(3) by (simp add: terminationReported_def)
  from Logout_WriteResponse_total [OF ctx e detail assms(5) u] obtain w where
    w: "Logout_WriteResponse X env idp req status = ([SetNoCacheHeaders, w], Inr ())" "logoutAnswer X env idp req status w"
    by blast
  have "terminate idp r req = Inr (written, status)" using assms(3) by (simp add: terminate_iff)
  with assms(1,2) w show ?thesis by (auto simp: ServeSLO_def orHttpError_Inr)
qed


text \<open>
  C24. A valid logout request is answered. Once a logout request has passed validation and the session provider has
  returned, with whatever outcome but a panic, single logout writes one signed response: to an endpoint of the service
  provider's metadata, by the binding of the request if the metadata has one for it, addressed to the location for
  responses, in response to the request, with the request's RelayState, and with the status of the outcome (success,
  partial logout, or a failure of the responder where the provider failed or cannot end sessions). This holds as long
  as the key signs the digests of the messages and, for a redirect, the endpoint's location is a URL. The default
  template is assumed.
\<close>

theorem logout_answers:
  assumes "NewIdpLogoutRequest X r (env_Now env) = Inr req0" "Logout_Validate X (env_Clock env) idp req0 = Inr req"
    "terminationReported idp r req written status" "idpCanSign X env idp" "idp_ResponseFormTemplate idp = None"
    "\<And>e. ilr_SLOEndpoint req = Some e \<Longrightarrow> ep_Binding e = HTTPRedirectBinding \<Longrightarrow> \<exists>u. x_ParseURL X (responseLocation e) = Inr u"
  shows "\<exists>w. ServeSLO X env idp r = Inr (written @ [SetNoCacheHeaders, w]) \<and> logoutAnswer X env idp req status w"
  by (rule ServeSLO_total [OF assms])

section \<open>An example\<close>

definition exampleLogoutMessage :: LogoutRequest where
  "exampleLogoutMessage = zeroLogoutRequest\<lparr>lreq_ID := ''id'', lreq_Version := ''2.0'', lreq_IssueInstant := 5,
     lreq_Destination := ''idpslo'', lreq_Issuer := Some (entityIssuer ''sp''),
     lreq_NameID := Some \<lparr>nid_NameQualifier = [], nid_SPNameQualifier = [], nid_Format = [], nid_SPProvidedID = [],
       nid_Value = ''alice''\<rparr>\<rparr>"

definition sloX :: externs where
  "sloX = exampleIdpX\<lparr>x_UnmarshalLogoutRequest := (\<lambda>_. Inr exampleLogoutMessage)\<rparr>"

lemma sloX_sel [simp]:
  "x_UnmarshalLogoutRequest sloX d = Inr exampleLogoutMessage" "x_ParseCertificates sloX d = Inr [exampleCert d]"
  "x_ReadFromBytes sloX = x_ReadFromBytes exampleSpX" "x_XrvValidate sloX d = Inr ()"
  "x_WriteToBytes sloX = el_Tag" "x_Inflate sloX = x_Inflate exampleSpX"
  by (simp_all add: sloX_def)

lemma sloX_signs: "signsExample sloX"
  using exampleIdpX_signs by (simp add: sloX_def signsExample_def)

definition sloReq0 :: IdpLogoutRequest where
  "sloReq0 = (newLogoutRequest exampleAuthnHTTP 5)\<lparr>ilr_binding := HTTPPostBinding, ilr_RequestBuffer := ''X''\<rparr>"

definition sloEndpoint :: Endpoint where
  "sloEndpoint = \<lparr>ep_Binding = HTTPPostBinding, ep_Location = ''slo'', ep_ResponseLocation = []\<rparr>"

definition sloReq :: IdpLogoutRequest where
  "sloReq = sloReq0\<lparr>ilr_Request := exampleLogoutMessage, ilr_ServiceProviderMetadata := Some exampleSpMetadata,
     ilr_SLOEndpoint := Some sloEndpoint\<rparr>"

lemma sloReq0_read: "NewIdpLogoutRequest sloX exampleAuthnHTTP 5 = Inr sloReq0"
proof -
  have "ParseForm maxAuthnRequestBodySize exampleAuthnHTTP = Inr [(''SAMLRequest'', ''WA=='')]"
    by (simp add: ParseForm_def exampleAuthnHTTP_def maxAuthnRequestBodySize_def queryError_def parsePair_def cutAt_def
        ParseQuery_def map_filter_simps unhex_def byte_def char_of_def bit_0)
  moreover have "base64Decode ''WA=='' = Inr ''X''" by code_simp
  moreover have "rq_Method exampleAuthnHTTP = ''POST''" by (simp add: exampleAuthnHTTP_def)
  ultimately show ?thesis
    by (simp add: NewIdpLogoutRequest_def valuesGet_def sloReq0_def newLogoutRequest_def)
qed

lemma sloReq_check: "Logout_checkRequest exampleIdp (sloReq0\<lparr>ilr_Request := exampleLogoutMessage\<rparr>) = Inr ()"
  by (simp add: Logout_checkRequest_def exampleIdp_def exampleLogoutMessage_def zeroLogoutRequest_def sloReq0_def
      newLogoutRequest_def MaxIssueDelay_def MaxClockSkew_def ns_defs entityIssuer_def isValidAuthnRequestID_def
      maxAuthnRequestIDLength_def isAlnum_def byte_def)

lemma sloReq_validated: "Logout_Validate sloX 5 exampleIdp sloReq0 = Inr sloReq"
proof -
  let ?r = "sloReq0\<lparr>ilr_Request := exampleLogoutMessage, ilr_ServiceProviderMetadata := Some exampleSpMetadata\<rparr>"
  have sel: "ilr_RequestBuffer sloReq0 = ''X''" "ilr_RedirectQuery sloReq0 = []" "ilr_binding sloReq0 = HTTPPostBinding"
    by (simp_all add: sloReq0_def newLogoutRequest_def)
  have env: "verifyEnvelopedSignature sloX 5 exampleSigned [exampleCert ''key''] (Inr None) = Inr (Some exampleContent)"
    using exampleSigned_valid [OF sloX_signs, of exampleContent] by (simp add: exampleSigned_context tryE_def)
  have un: "unmarshalElement sloX (x_UnmarshalLogoutRequest sloX) ([], exampleContent) = Inr exampleLogoutMessage"
    by (simp add: unmarshalElement_def elementToBytes_def exampleContent_def samlDecl_def walk_defs)
  have issuer: "logoutIssuer exampleLogoutMessage = Inr ''sp''"
    by (simp add: exampleLogoutMessage_def logoutIssuer_def nonNil_def entityIssuer_def)
  have check: "Logout_checkRequest exampleIdp ?r = Inr ()"
    using sloReq_check by (simp add: Logout_fields)
  have certs: "serviceProviderSigningCertificates sloX exampleSpMetadata = Inr [exampleCert ''key'']"
    using exampleSpMetadata_certificates by (simp add: serviceProviderSigningCertificates_def)
  obtain c where c: "findChild ([], exampleSigned) dsNamespace ''Signature'' = Inr (Some c)"
    using exampleSigned_signature by blast
  have order: "sloReq0\<lparr>ilr_ServiceProviderMetadata := a, ilr_Request := b\<rparr>
      = sloReq0\<lparr>ilr_Request := b, ilr_ServiceProviderMetadata := a\<rparr>" for a b
    by (simp add: sloReq0_def newLogoutRequest_def)
  have "Logout_verifySignature sloX 5 exampleIdp ?r = Inr ?r"
    by (simp add: order Let_def Logout_verifySignature_def sel nonNil_def certs c env un issuer check del: verifyEnvelopedSignature.simps)
  moreover have "getSLOEndpoint ?r = Inr sloReq"
    by (simp add: getSLOEndpoint_def nonNil_def sloEndpoints_def exampleSpMetadata_def exampleSPSSO_def sel sloReq_def
        sloEndpoint_def)
  moreover have "checkAuthnRequestSize ''X'' = Inr ()"
    by (simp add: checkAuthnRequestSize_def maxAuthnRequestSize_def)
  moreover have "\<exists>n. lreq_NameID exampleLogoutMessage = Some n \<and> nid_Value n \<noteq> []"
    by (simp add: exampleLogoutMessage_def)
  ultimately show ?thesis using sloReq_check issuer
    by (auto simp: Logout_Validate_def sel exampleIdp_def)
qed

lemma slo_terminates: "terminationReported exampleIdp exampleAuthnHTTP sloReq [] (logoutStatus StatusSuccess None)"
  by (simp add: terminationReported_def logoutStatus_def exampleIdp_def)

lemma slo_read:
  "NewIdpLogoutRequest sloX exampleAuthnHTTP (env_Now exampleEnv) = Inr sloReq0"
  "Logout_Validate sloX (env_Clock exampleEnv) exampleIdp sloReq0 = Inr sloReq"
  by (simp_all add: sloReq0_read sloReq_validated)

lemma sloIdp_canSign: "idpCanSign sloX exampleEnv exampleIdp"
  by (simp add: idpCanSign_def signingContext_def exampleIdp_def nonNil_def NewSigningContext_def idpSignatureMethod_def
      exampleSigner_def SetSignatureMethod_def signatureMethodsByIdentifier_def rsaMethods_def signature_method_defs
      getPublicKeyAlgorithm_def keyAlgorithm_def signDigest_def sloX_def exampleIdpX_def exampleSpX_def exampleSignedX_def)

theorem logout_answers_witness:
  "\<exists>w. ServeSLO sloX exampleEnv exampleIdp exampleAuthnHTTP = Inr ([] @ [SetNoCacheHeaders, w]) \<and>
     logoutAnswer sloX exampleEnv exampleIdp sloReq (logoutStatus StatusSuccess None) w"
  by (rule logout_answers [OF slo_read slo_terminates sloIdp_canSign])
    (simp_all add: exampleIdp_def sloX_def exampleIdpX_def exampleSpX_def exampleSignedX_def)


theorem logout_request_authenticated_witness:
  "\<exists>req0 req md i n. NewIdpLogoutRequest sloX exampleAuthnHTTP (env_Now exampleEnv) = Inr req0 \<and>
    Logout_Validate sloX (env_Clock exampleEnv) exampleIdp req0 = Inr req \<and>
    lreq_Issuer (ilr_Request req) = Some i \<and> idp_GetServiceProvider exampleIdp exampleAuthnHTTP (iss_Value i) = Inr md \<and>
    Logout_checkRequest exampleIdp req = Inr () \<and> logoutRequestSigned sloX (env_Clock exampleEnv) md req \<and>
    lreq_NameID (ilr_Request req) = Some n \<and> nid_Value n \<noteq> [] \<and> logoutEndpointChosen md req"
proof -
  have "\<exists>w. ServeSLO sloX exampleEnv exampleIdp exampleAuthnHTTP = Inr ([] @ [SetNoCacheHeaders, w]) \<and>
     logoutAnswer sloX exampleEnv exampleIdp sloReq (logoutStatus StatusSuccess None) w"
    by (rule ServeSLO_total [OF slo_read slo_terminates sloIdp_canSign])
      (simp_all add: exampleIdp_def sloX_def exampleIdpX_def exampleSpX_def exampleSignedX_def)
  then obtain w where w: "ServeSLO sloX exampleEnv exampleIdp exampleAuthnHTTP = Inr [SetNoCacheHeaders, w]" by auto
  show ?thesis
    by (rule logout_request_authenticated [OF _ w]) (simp_all add: exampleSpX_def exampleSignedX_def exampleX_def)
qed

end
