(* ===== verification/Idp_Store.thy ===== *)
theory Idp_Store
  imports Saml_Prelude "HOL-Library.AList" "HOL-Library.Sublist"
begin

text \<open>
  The key-value store of the identity provider server (\<^verbatim>\<open>samlidp/store.go\<close>,
  \<^verbatim>\<open>samlidp/memory_store.go\<close>). The interface \<^verbatim>\<open>Store\<close> is a record of operations on a state; the locale
  \<open>key_value_store\<close> states what the server relies on of any store, in terms of the map that the state stands for, and
  \<open>reliable_store\<close> adds that no operation fails. \<^verbatim>\<open>MemoryStore\<close> is an interpretation of both.
\<close>

section \<open>The interface\<close>

text \<open>A store keeps the encoded form of the values. An operation that fails leaves the state as it is.\<close>

record 's Store =
  st_Get :: "'s \<Rightarrow> string \<Rightarrow> string result"
  st_Put :: "'s \<Rightarrow> string \<Rightarrow> string \<Rightarrow> 's result"
  st_Delete :: "'s \<Rightarrow> string \<Rightarrow> 's result"
  st_List :: "'s \<Rightarrow> string \<Rightarrow> string list result"

text \<open>\<^verbatim>\<open>Get\<close> unmarshals what it finds and \<^verbatim>\<open>Put\<close> stores the marshalled value.\<close>

definition Store_Get :: "'s Store \<Rightarrow> (string \<Rightarrow> 'v result) \<Rightarrow> 's \<Rightarrow> string \<Rightarrow> 'v result" where
  "Store_Get S unmarshal s key = bindE (st_Get S s key) unmarshal"

definition Store_Put :: "'s Store \<Rightarrow> ('v \<Rightarrow> string result) \<Rightarrow> 's \<Rightarrow> string \<Rightarrow> 'v \<Rightarrow> 's result" where
  "Store_Put S marshal s key v = bindE (marshal v) (st_Put S s key)"

text \<open>The keys of a map that start with a prefix, without it.\<close>

definition keysBelow :: "string \<Rightarrow> (string \<rightharpoonup> 'v) \<Rightarrow> string set" where
  "keysBelow p m = {k. p @ k \<in> dom m}"

locale key_value_store =
  fixes S :: "'s Store" and content :: "'s \<Rightarrow> string \<rightharpoonup> string" and valid :: "'s \<Rightarrow> bool"
  assumes get_present: "valid s \<Longrightarrow> st_Get S s k = Inr v \<Longrightarrow> content s k = Some v"
    and get_absent: "valid s \<Longrightarrow> st_Get S s k = Inl e \<Longrightarrow> errorsIs e ErrNotFound \<Longrightarrow> content s k = None"
    and put_content: "valid s \<Longrightarrow> st_Put S s k v = Inr s' \<Longrightarrow> content s' = (content s)(k \<mapsto> v)"
    and put_valid: "valid s \<Longrightarrow> st_Put S s k v = Inr s' \<Longrightarrow> valid s'"
    and delete_content: "valid s \<Longrightarrow> st_Delete S s k = Inr s' \<Longrightarrow> content s' = (content s)(k := None)"
    and delete_valid: "valid s \<Longrightarrow> st_Delete S s k = Inr s' \<Longrightarrow> valid s'"
    and list_keys: "valid s \<Longrightarrow> st_List S s p = Inr ks \<Longrightarrow> set ks = keysBelow p (content s)"
    and list_distinct: "valid s \<Longrightarrow> st_List S s p = Inr ks \<Longrightarrow> distinct ks"
begin

lemma get_value:
  assumes "valid s" "Store_Get S unmarshal s k = Inr v"
  obtains buf where "content s k = Some buf" "unmarshal buf = Inr v"
  using assms by (auto simp: Store_Get_def bindE_def split: sum.splits dest: get_present)

lemma put_value:
  assumes "valid s" "Store_Put S marshal s k v = Inr s'"
  obtains buf where "marshal v = Inr buf" "content s' = (content s)(k \<mapsto> buf)" "valid s'"
  using assms by (auto simp: Store_Put_def bindE_def split: sum.splits dest: put_content put_valid)

end

locale reliable_store = key_value_store +
  assumes get_total: "valid s \<Longrightarrow> st_Get S s k \<in> insert (Inl ErrNotFound) (range Inr)"
    and put_total: "valid s \<Longrightarrow> st_Put S s k v \<in> range Inr"
    and delete_total: "valid s \<Longrightarrow> st_Delete S s k \<in> range Inr"
    and list_total: "valid s \<Longrightarrow> st_List S s p \<in> range Inr"
begin

lemma get_eq: "valid s \<Longrightarrow> st_Get S s k = (case content s k of None \<Rightarrow> Inl ErrNotFound | Some v \<Rightarrow> Inr v)"
  using get_total [of s k] get_present [of s k] get_absent [of s k ErrNotFound] by (auto split: option.splits)

lemma get_value_eq:
  "valid s \<Longrightarrow> Store_Get S unmarshal s k = (case content s k of None \<Rightarrow> Inl ErrNotFound | Some v \<Rightarrow> unmarshal v)"
  by (simp add: Store_Get_def get_eq bindE_def split: option.splits)

end

section \<open>The memory store\<close>

text \<open>\<^verbatim>\<open>data\<close> is a map that the first \<^verbatim>\<open>Put\<close> makes. The order in which Go goes through a map is
  unspecified; here it is the order of the list, and no lemma about the server depends on it.\<close>

record MemoryStore =
  ms_data :: "(string \<times> string) list option"

definition msData :: "MemoryStore \<Rightarrow> (string \<times> string) list" where
  "msData s = (case ms_data s of None \<Rightarrow> [] | Some d \<Rightarrow> d)"

definition MemoryStore_Get :: "MemoryStore \<Rightarrow> string \<Rightarrow> string result" where
  "MemoryStore_Get s key = (case map_of (msData s) key of None \<Rightarrow> Inl ErrNotFound | Some v \<Rightarrow> Inr v)"

definition MemoryStore_Put :: "MemoryStore \<Rightarrow> string \<Rightarrow> string \<Rightarrow> MemoryStore result" where
  "MemoryStore_Put s key buf =
     (let s = (if ms_data s = None then s\<lparr>ms_data := Some []\<rparr> else s) in
      Inr (s\<lparr>ms_data := Some (AList.update key buf (msData s))\<rparr>))"

definition MemoryStore_Delete :: "MemoryStore \<Rightarrow> string \<Rightarrow> MemoryStore result" where
  "MemoryStore_Delete s key = Inr (s\<lparr>ms_data := map_option (AList.delete key) (ms_data s)\<rparr>)"

definition MemoryStore_List :: "MemoryStore \<Rightarrow> string \<Rightarrow> string list result" where
  "MemoryStore_List s p = Inr (map (drop (length p)) (filter (prefix p) (map fst (msData s))))"

definition memoryStore :: "MemoryStore Store" where
  "memoryStore = \<lparr>st_Get = MemoryStore_Get, st_Put = MemoryStore_Put, st_Delete = MemoryStore_Delete,
     st_List = MemoryStore_List\<rparr>"

definition emptyMemoryStore :: MemoryStore where "emptyMemoryStore = \<lparr>ms_data = None\<rparr>"

definition memoryContent :: "MemoryStore \<Rightarrow> string \<rightharpoonup> string" where
  "memoryContent s = map_of (msData s)"

definition memoryValid :: "MemoryStore \<Rightarrow> bool" where
  "memoryValid s \<longleftrightarrow> distinct (map fst (msData s))"

lemma stripped_keys: "drop (length p) ` {k \<in> fst ` set d. prefix p k} = keysBelow p (map_of d)"
proof
  show "keysBelow p (map_of d) \<subseteq> drop (length p) ` {k \<in> fst ` set d. prefix p k}"
  proof
    fix k assume "k \<in> keysBelow p (map_of d)"
    then have "p @ k \<in> {k \<in> fst ` set d. prefix p k}" by (simp add: keysBelow_def dom_map_of_conv_image_fst)
    then have "drop (length p) (p @ k) \<in> drop (length p) ` {k \<in> fst ` set d. prefix p k}" by (rule imageI)
    then show "k \<in> drop (length p) ` {k \<in> fst ` set d. prefix p k}" by simp
  qed
qed (force simp: keysBelow_def dom_map_of_conv_image_fst prefix_def)

lemma distinct_stripped: "distinct ks \<Longrightarrow> distinct (map (drop (length p)) (filter (prefix p) ks))"
  by (auto simp: distinct_map inj_on_def prefix_def)

interpretation mem: reliable_store memoryStore memoryContent memoryValid
  by unfold_locales
    (auto simp: memoryStore_def MemoryStore_Get_def MemoryStore_Put_def MemoryStore_Delete_def MemoryStore_List_def
      memoryContent_def memoryValid_def msData_def Let_def update_conv' delete_conv' distinct_update distinct_delete
      stripped_keys stripped_keys [of _ "[]", simplified] distinct_stripped fun_eq_iff
      split: option.splits if_splits)

lemma emptyMemoryStore [simp]: "memoryContent emptyMemoryStore = Map.empty" "memoryValid emptyMemoryStore"
  by (simp_all add: memoryContent_def memoryValid_def msData_def emptyMemoryStore_def)

end
