(* ===== verification/Go_Utf8.thy ===== *)
theory Go_Utf8
  imports Go_Encoding
begin

text \<open>Strings as sequences of runes: what the sources use of UTF-8, and of \<^verbatim>\<open>encoding/json\<close> for strings.\<close>

text \<open>JSON text is UTF-8: \<^verbatim>\<open>encoding/json\<close> replaces every byte of a string that is not part of a valid
  encoding by the replacement rune. \<open>runeLength\<close> is the length of the valid multi-byte encoding at the start of a
  string, or zero.\<close>

definition contByte :: "char \<Rightarrow> bool" where
  "contByte c \<longleftrightarrow> 128 \<le> byte c \<and> byte c < 192"

definition runeLength :: "string \<Rightarrow> nat" where
  "runeLength s =
     (case s of
        c0 # c1 # rest \<Rightarrow>
          let b0 = byte c0; b1 = byte c1 in
          if 194 \<le> b0 \<and> b0 \<le> 223 \<and> contByte c1 then 2
          else (case rest of
            c2 # rest' \<Rightarrow>
              if (b0 = 224 \<and> 160 \<le> b1 \<and> b1 \<le> 191 \<or> b0 = 237 \<and> 128 \<le> b1 \<and> b1 \<le> 159 \<or>
                  (225 \<le> b0 \<and> b0 \<le> 236 \<or> 238 \<le> b0 \<and> b0 \<le> 239) \<and> contByte c1) \<and> contByte c2 then 3
              else (case rest' of
                c3 # _ \<Rightarrow>
                  if (b0 = 240 \<and> 144 \<le> b1 \<and> b1 \<le> 191 \<or> b0 = 244 \<and> 128 \<le> b1 \<and> b1 \<le> 143 \<or>
                      241 \<le> b0 \<and> b0 \<le> 243 \<and> contByte c1) \<and> contByte c2 \<and> contByte c3 then 4
                  else 0
              | [] \<Rightarrow> 0)
          | [] \<Rightarrow> 0)
      | _ \<Rightarrow> 0)"

fun utf8Coerce :: "string \<Rightarrow> string" where
  "utf8Coerce [] = []"
| "utf8Coerce (c # cs) =
     (if byte c < 128 then c # utf8Coerce cs
      else if runeLength (c # cs) = 0 then map char_of [239, 191, 189 :: nat] @ utf8Coerce cs
      else take (runeLength (c # cs)) (c # cs) @ utf8Coerce (drop (runeLength (c # cs) - 1) cs))"

definition isASCII :: "string \<Rightarrow> bool" where
  "isASCII s \<longleftrightarrow> (\<forall>c \<in> set s. byte c < 128)"

lemma utf8Coerce_ASCII: "isASCII s \<Longrightarrow> utf8Coerce s = s"
  by (induction s) (simp_all add: isASCII_def)

end
