(* ===== verification/Server_Types.thy ===== *)
theory Server_Types
  imports Idp_Logout Idp_Store Go_Utf8
begin

text \<open>
  The identity provider server of \<^verbatim>\<open>samlidp\<close>: its stored values, its state, what it uses of libraries, and the
  helpers of \<^verbatim>\<open>samlidp/util.go\<close>.
\<close>

section \<open>Stored values\<close>

record User =
  usr_Name :: string
  usr_PlaintextPassword :: "string option"
  usr_HashedPassword :: string
  usr_Groups :: "string list"
  usr_Email :: string
  usr_CommonName :: string
  usr_Surname :: string
  usr_GivenName :: string
  usr_ScopedAffiliation :: string
  usr_Revision :: string

record storedSession = Session +
  sts_UserRevision :: string

record Service =
  svc_Name :: string
  svc_Metadata :: EntityDescriptor

record Shortcut =
  sct_Name :: string
  sct_ServiceProviderID :: string
  sct_RelayState :: "string option"
  sct_URISuffixAsRelayState :: bool

section \<open>The libraries\<close>

text \<open>\<^verbatim>\<open>encoding/json\<close> and \<^verbatim>\<open>encoding/xml\<close> on the types of the package (\<open>y_Decode\<close> is
  \<^verbatim>\<open>Decoder.Decode\<close> of a request body), \<^verbatim>\<open>bcrypt\<close> (the hash of a password with a salt, and the
  comparison of a hash and a password), and the case folding of \<^verbatim>\<open>strings.EqualFold\<close>.\<close>

record server_ext =
  y_MarshalUser :: "User \<Rightarrow> string result"
  y_UnmarshalUser :: "string \<Rightarrow> User result"
  y_DecodeUser :: "string \<Rightarrow> User result"
  y_MarshalStoredSession :: "storedSession \<Rightarrow> string result"
  y_UnmarshalStoredSession :: "string \<Rightarrow> storedSession result"
  y_UnmarshalSession :: "string \<Rightarrow> Session result"
  y_EncodeSession :: "Session \<Rightarrow> string result"
  y_MarshalService :: "Service \<Rightarrow> string result"
  y_UnmarshalService :: "string \<Rightarrow> Service result"
  y_MarshalShortcut :: "Shortcut \<Rightarrow> string result"
  y_UnmarshalShortcut :: "string \<Rightarrow> Shortcut result"
  y_DecodeShortcut :: "string \<Rightarrow> Shortcut result"
  y_EncodeNames :: "string \<Rightarrow> string list \<Rightarrow> string result"
  y_EncodeMetadata :: "EntityDescriptor \<Rightarrow> string result"
  y_UnmarshalEntityDescriptor :: "string \<Rightarrow> EntityDescriptor result"
  y_UnmarshalEntitiesDescriptor :: "string \<Rightarrow> EntitiesDescriptor result"
  y_GenerateFromPassword :: "string \<Rightarrow> string \<Rightarrow> string result"
  y_CompareHashAndPassword :: "string \<Rightarrow> string \<Rightarrow> unit result"
  y_Fold :: "string \<Rightarrow> string"

definition EqualFold :: "server_ext \<Rightarrow> string \<Rightarrow> string \<Rightarrow> bool" where
  "EqualFold Y s t \<longleftrightarrow> y_Fold Y s = y_Fold Y t"

lemma hexLower_alnum: "c \<in> set (hexLower s) \<Longrightarrow> isAlnum c"
proof -
  have digit: "isAlnum (lowerhexDigit n)" if "n < 16" for n
    using that by (auto simp: lowerhexDigit_def isAlnum_def byte_def)
  have byte: "byte c div 16 < 16" "byte c mod 16 < 16" for c using byte_less [of c] by (simp_all add: div_less_iff_less_mult)
  assume "c \<in> set (hexLower s)"
  then show ?thesis using digit byte by (auto simp: hexLower_def)
qed

lemma b64char_ASCII: "byte (b64char n) < 128"
  by (auto simp: b64char_def byte_def)

lemma base64Encode_ASCII: "isASCII (base64Encode s)"
  by (induction s rule: base64Encode.induct) (auto simp: isASCII_def b64char_ASCII Let_def byte_def [of "CHR ''=''"])

lemma hexLower_ASCII: "isASCII (hexLower s)"
  using hexLower_alnum [of _ s] by (fastforce simp: isASCII_def isAlnum_def Let_def)

definition coerceUser :: "User \<Rightarrow> User" where
  "coerceUser u = \<lparr>usr_Name = utf8Coerce (usr_Name u),
     usr_PlaintextPassword = map_option utf8Coerce (usr_PlaintextPassword u),
     usr_HashedPassword = usr_HashedPassword u, usr_Groups = map utf8Coerce (usr_Groups u),
     usr_Email = utf8Coerce (usr_Email u), usr_CommonName = utf8Coerce (usr_CommonName u),
     usr_Surname = utf8Coerce (usr_Surname u), usr_GivenName = utf8Coerce (usr_GivenName u),
     usr_ScopedAffiliation = utf8Coerce (usr_ScopedAffiliation u), usr_Revision = utf8Coerce (usr_Revision u)\<rparr>"

text \<open>The server writes sessions without custom attributes.\<close>

definition coerceSession :: "storedSession \<Rightarrow> storedSession" where
  "coerceSession s = \<lparr>ses_ID = utf8Coerce (ses_ID s), ses_CreateTime = ses_CreateTime s,
     ses_ExpireTime = ses_ExpireTime s, ses_Index = utf8Coerce (ses_Index s), ses_NameID = utf8Coerce (ses_NameID s),
     ses_NameIDFormat = utf8Coerce (ses_NameIDFormat s), ses_SubjectID = utf8Coerce (ses_SubjectID s),
     ses_Groups = map utf8Coerce (ses_Groups s), ses_UserName = utf8Coerce (ses_UserName s),
     ses_UserEmail = utf8Coerce (ses_UserEmail s), ses_UserCommonName = utf8Coerce (ses_UserCommonName s),
     ses_UserSurname = utf8Coerce (ses_UserSurname s), ses_UserGivenName = utf8Coerce (ses_UserGivenName s),
     ses_UserScopedAffiliation = utf8Coerce (ses_UserScopedAffiliation s),
     ses_EduPersonPrincipalName = utf8Coerce (ses_EduPersonPrincipalName s),
     ses_CustomAttributes = ses_CustomAttributes s,
     ses_AuthnContextClassRef = utf8Coerce (ses_AuthnContextClassRef s),
     ses_ClientAddress = utf8Coerce (ses_ClientAddress s), sts_UserRevision = utf8Coerce (sts_UserRevision s)\<rparr>"

text \<open>Metadata that was read from XML, of an entity or of one in a group, whose expiry may have been set since.\<close>

definition parsedMetadata :: "server_ext \<Rightarrow> EntityDescriptor \<Rightarrow> bool" where
  "parsedMetadata Y md \<longleftrightarrow>
     (\<exists>data. y_UnmarshalEntityDescriptor Y data = Inr md) \<or>
     (\<exists>data group e t. y_UnmarshalEntitiesDescriptor Y data = Inr group \<and> e \<in> set (eds_EntityDescriptors group) \<and>
        md = e\<lparr>ed_ValidUntil := t\<rparr>)"

text \<open>What the proofs assume of the libraries: a value that could be marshalled reads back as it was, with its strings
  coerced; what was read is coerced; a stored session reads as a session; and a service whose metadata came from XML,
  which is UTF-8, reads back with its entity ID.\<close>

definition jsonLaws :: "server_ext \<Rightarrow> bool" where
  "jsonLaws Y \<longleftrightarrow>
     (\<forall>u buf. y_MarshalUser Y u = Inr buf \<longrightarrow> y_UnmarshalUser Y buf = Inr (coerceUser u)) \<and>
     (\<forall>buf u. y_UnmarshalUser Y buf = Inr u \<or> y_DecodeUser Y buf = Inr u \<longrightarrow> coerceUser u = u) \<and>
     (\<forall>s buf. ses_CustomAttributes s = [] \<longrightarrow> y_MarshalStoredSession Y s = Inr buf \<longrightarrow>
        y_UnmarshalStoredSession Y buf = Inr (coerceSession s)) \<and>
     (\<forall>buf s. y_UnmarshalStoredSession Y buf = Inr s \<longrightarrow> y_UnmarshalSession Y buf = Inr (Session.truncate s)) \<and>
     (\<forall>v buf. parsedMetadata Y (svc_Metadata v) \<longrightarrow> y_MarshalService Y v = Inr buf \<longrightarrow>
        (\<exists>v'. y_UnmarshalService Y buf = Inr v' \<and> ed_EntityID (svc_Metadata v') = ed_EntityID (svc_Metadata v)))"

section \<open>The server\<close>

text \<open>\<open>srv_IDP\<close> is the configuration of the underlying identity provider; its session and service provider providers
  are the server itself (\<open>serverIDP\<close>). Of the login form template only whether its execution succeeds matters. The
  mutexes are not part of the state: a handler that holds one is a single step here.\<close>

record 's Server =
  srv_serviceProviders :: "string \<rightharpoonup> EntityDescriptor"
  srv_serviceIDs :: "string \<rightharpoonup> string"
  srv_IDP :: IdentityProvider
  srv_Store :: 's
  srv_LoginFormTemplate :: "(login_form \<Rightarrow> unit result) option"
  srv_AdminAuthorizer :: "(http_request \<Rightarrow> bool) option"

text \<open>What a request reads from its surroundings: the time when it starts and when the expiry of a new session is
  computed, the random bytes of a session's ID and index, the text of a new revision and the salt of a password.\<close>

record server_env =
  se_Now :: time
  se_ExpireNow :: time
  se_SessionID :: string
  se_SessionIndex :: string
  se_Revision :: string
  se_Salt :: string

definition userKey :: "string \<Rightarrow> string" where "userKey name = ''/users/'' @ name"
definition sessionKey :: "string \<Rightarrow> string" where "sessionKey sid = ''/sessions/'' @ sid"
definition serviceKey :: "string \<Rightarrow> string" where "serviceKey sid = ''/services/'' @ sid"
definition shortcutKey :: "string \<Rightarrow> string" where "shortcutKey name = ''/shortcuts/'' @ name"

lemma keys_distinct [simp]:
  "userKey a \<noteq> sessionKey b" "sessionKey b \<noteq> userKey a" "userKey a \<noteq> serviceKey b" "serviceKey b \<noteq> userKey a"
  "sessionKey a \<noteq> serviceKey b" "serviceKey b \<noteq> sessionKey a" "shortcutKey a \<noteq> userKey b" "userKey b \<noteq> shortcutKey a"
  "shortcutKey a \<noteq> sessionKey b" "sessionKey b \<noteq> shortcutKey a" "shortcutKey a \<noteq> serviceKey b" "serviceKey b \<noteq> shortcutKey a"
  "userKey a = userKey a' \<longleftrightarrow> a = a'" "sessionKey b = sessionKey b' \<longleftrightarrow> b = b'"
  "serviceKey c = serviceKey c' \<longleftrightarrow> c = c'" "shortcutKey d = shortcutKey d' \<longleftrightarrow> d = d'"
  by (simp_all add: userKey_def sessionKey_def serviceKey_def shortcutKey_def)

definition PathValue :: "http_request \<Rightarrow> string \<Rightarrow> string" where
  "PathValue r name = (case map_of (rq_PathValues r) name of None \<Rightarrow> [] | Some v \<Rightarrow> v)"

definition headerGet :: "http_request \<Rightarrow> string \<Rightarrow> string" where
  "headerGet r name = (case map_of (rq_Header r) name of None \<Rightarrow> [] | Some v \<Rightarrow> v)"

definition requestBody :: "http_request \<Rightarrow> string" where
  "requestBody r = (case rq_Body r of None \<Rightarrow> [] | Some b \<Rightarrow> b)"

text \<open>\<^verbatim>\<open>r.PostForm\<close> where a handler has parsed the form.\<close>

definition requestForm :: "http_request \<Rightarrow> (string \<times> string) list" where
  "requestForm r = (case ParseForm maxFormSize r of Inl _ \<Rightarrow> [] | Inr form \<Rightarrow> form)"

section \<open>Service provider metadata\<close>

definition coverExpiry :: "EntitiesDescriptor \<Rightarrow> EntityDescriptor \<Rightarrow> EntityDescriptor" where
  "coverExpiry entities e =
     (case eds_ValidUntil entities of
        None \<Rightarrow> e
      | Some until \<Rightarrow>
          if until \<noteq> 0 \<and> (ed_ValidUntil e = 0 \<or> until < ed_ValidUntil e) then e\<lparr>ed_ValidUntil := until\<rparr> else e)"

definition getSPMetadata :: "externs \<Rightarrow> server_ext \<Rightarrow> string \<Rightarrow> EntityDescriptor result" where
  "getSPMetadata X Y data =
     bindE (x_XrvValidate X data) (\<lambda>_.
       case y_UnmarshalEntityDescriptor Y data of
         Inr m \<Rightarrow> Inr m
       | Inl e \<Rightarrow>
           if e = wrongRootError then
             bindE (y_UnmarshalEntitiesDescriptor Y data) (\<lambda>entities.
               case find (\<lambda>e. ed_SPSSODescriptors e \<noteq> []) (eds_EntityDescriptors entities) of
                 Some e \<Rightarrow> Inr (coverExpiry entities e)
               | None \<Rightarrow> Inl (Err ''metadata contained no service provider metadata''))
           else Inl e)"

text \<open>The zero time is no expiry.\<close>

definition expired :: "time \<Rightarrow> time \<Rightarrow> bool" where
  "expired now until \<longleftrightarrow> until \<noteq> 0 \<and> \<not> now < until"

definition currentMetadata :: "EntityDescriptor \<Rightarrow> time \<Rightarrow> EntityDescriptor option" where
  "currentMetadata metadata now =
     (if expired now (ed_ValidUntil metadata) then None
      else
        let current = metadata\<lparr>ed_SPSSODescriptors :=
              filter (\<lambda>d. \<not> (\<exists>until \<in> set_option (rd_ValidUntil d). expired now until)) (ed_SPSSODescriptors metadata)\<rparr> in
        if ed_SPSSODescriptors current = [] then None else Some current)"

end
