(* ===== verification/Server_Sessions.thy ===== *)
theory Server_Sessions
  imports Server_Types
begin

text \<open>
  Sessions and users of the identity provider server (\<^verbatim>\<open>samlidp/session.go\<close>, \<^verbatim>\<open>samlidp/user.go\<close>). A
  handler takes the state of the server and gives the new one with what it writes.
\<close>

section \<open>Sessions\<close>

definition sessionMaxAge :: duration where "sessionMaxAge = nsHour"

definition hasCredentials :: "http_request \<Rightarrow> bool" where
  "hasCredentials r \<longleftrightarrow> rq_Method r = ''POST'' \<and> valuesGet (requestForm r) ''user'' \<noteq> []"

definition checkLoginOrigin :: "server_ext \<Rightarrow> 's Server \<Rightarrow> http_request \<Rightarrow> unit result" where
  "checkLoginOrigin Y srv r =
     (let site = headerGet r ''Sec-Fetch-Site'' in
      if site = ''same-origin'' \<or> site = ''none'' then Inr ()
      else if site \<noteq> [] then Inl (Errorf ''Sec-Fetch-Site is %q'' [site])
      else
        let origin = headerGet r ''Origin'';
            want = u_Scheme (idp_SSOURL (srv_IDP srv)) @ ''://'' @ u_Host (idp_SSOURL (srv_IDP srv)) in
        if origin = [] then Inr ()
        else if \<not> EqualFold Y origin want then Inl (Errorf ''origin %q is not %q'' [origin, want])
        else Inr ())"

definition existingSession :: "'s Store \<Rightarrow> server_ext \<Rightarrow> time \<Rightarrow> 's Server \<Rightarrow> http_request \<Rightarrow> Session option result" where
  "existingSession S Y now srv r =
     (case requestCookie r ''session'' of
        Inl _ \<Rightarrow> Inr None
      | Inr cookie \<Rightarrow>
     (case Store_Get S (y_UnmarshalStoredSession Y) (srv_Store srv) (sessionKey cookie) of
        Inl e \<Rightarrow> if e = ErrNotFound then Inr None else Inl e
      | Inr stored \<Rightarrow>
          if now > ses_ExpireTime stored then Inr None
          else
     (case Store_Get S (y_UnmarshalUser Y) (srv_Store srv) (userKey (ses_UserName stored)) of
        Inl e \<Rightarrow> if errorsIs e ErrNotFound then Inr None else Inl e
      | Inr user \<Rightarrow>
          if usr_Revision user \<noteq> sts_UserRevision stored then Inr None
          else Inr (Some (Session.truncate stored)))))"

text \<open>\<^verbatim>\<open>url.PathEscape\<close>.\<close>

fun PathEscape :: "string \<Rightarrow> string" where
  "PathEscape [] = []"
| "PathEscape (c # cs) =
     (if unreserved c \<or> c \<in> set ''$&+:=@'' then c # PathEscape cs
      else CHR ''%'' # upperhex (byte c div 16) # upperhex (byte c mod 16) # PathEscape cs)"

fun appendSegments :: "url \<Rightarrow> string list \<Rightarrow> url" where
  "appendSegments u [] = u"
| "appendSegments u (segment # segments) =
     appendSegments
       (if segment \<noteq> []
        then u\<lparr>u_Path := u_Path u @ ''/'' @ segment, u_Base := u_Base u @ ''/'' @ PathEscape segment\<rparr> else u)
       segments"

definition loginFormURL :: "'s Server \<Rightarrow> IdpAuthnRequest \<Rightarrow> string" where
  "loginFormURL srv req =
     (if iar_RequestBuffer req \<noteq> [] then urlString (idp_SSOURL (srv_IDP srv))
      else
        let shortcut = PathValue (iar_HTTPRequest req) ''shortcut'' in
        if shortcut \<noteq> [] then
          urlString (appendSegments (idp_LoginURL (srv_IDP srv)) [shortcut, PathValue (iar_HTTPRequest req) ''suffix''])
        else urlString (idp_LoginURL (srv_IDP srv)))"

definition sendLoginForm :: "'s Server \<Rightarrow> IdpAuthnRequest \<Rightarrow> string \<Rightarrow> http_write list" where
  "sendLoginForm srv req toast =
     (let data = \<lparr>lf_Toast = toast, lf_URL = loginFormURL srv req, lf_SAMLRequest = base64Encode (iar_RequestBuffer req),
                  lf_RelayState = iar_RelayState req, lf_RedirectQuery = iar_RedirectQuery req\<rparr> in
      case srv_LoginFormTemplate srv of
        None \<Rightarrow> [WriteLoginForm data]
      | Some execute \<Rightarrow>
          (case execute data of Inr _ \<Rightarrow> [WriteLoginForm data] | Inl _ \<Rightarrow> [HandlerPanic ''login form template'']))"

definition sessionCookie :: "'s Server \<Rightarrow> http_request \<Rightarrow> string \<Rightarrow> int \<Rightarrow> http_cookie" where
  "sessionCookie srv r value maxAge =
     \<lparr>ck_Name = ''session'', ck_Value = value, ck_Domain = [], ck_Path = ''/'', ck_MaxAge = maxAge, ck_Expired = False,
      ck_HttpOnly = True, ck_Secure = rq_TLS r \<or> u_Scheme (idp_SSOURL (srv_IDP srv)) = ''https'', ck_SameSite = 2\<rparr>"

text \<open>The session of a login, from the user as it was read.\<close>

definition newSession :: "server_env \<Rightarrow> User \<Rightarrow> storedSession" where
  "newSession env user =
     \<lparr>ses_ID = base64Encode (se_SessionID env), ses_CreateTime = se_Now env,
      ses_ExpireTime = se_ExpireNow env + sessionMaxAge, ses_Index = hexLower (se_SessionIndex env),
      ses_NameID = usr_Email user, ses_NameIDFormat = [], ses_SubjectID = [], ses_Groups = usr_Groups user,
      ses_UserName = usr_Name user, ses_UserEmail = usr_Email user, ses_UserCommonName = usr_CommonName user,
      ses_UserSurname = usr_Surname user, ses_UserGivenName = usr_GivenName user,
      ses_UserScopedAffiliation = usr_ScopedAffiliation user, ses_EduPersonPrincipalName = [],
      ses_CustomAttributes = [], ses_AuthnContextClassRef = [], ses_ClientAddress = [],
      sts_UserRevision = usr_Revision user\<rparr>"

definition authenticate ::
  "'s Store \<Rightarrow> server_ext \<Rightarrow> server_env \<Rightarrow> 's Server \<Rightarrow> http_request \<Rightarrow> IdpAuthnRequest \<Rightarrow>
   's Server \<times> http_write list \<times> Session option" where
  "authenticate S Y env srv r req =
     (case checkLoginOrigin Y srv r of
        Inl _ \<Rightarrow> (srv, [WriteError StatusForbidden], None)
      | Inr _ \<Rightarrow>
     (case Store_Get S (y_UnmarshalUser Y) (srv_Store srv) (userKey (valuesGet (requestForm r) ''user'')) of
        Inl _ \<Rightarrow> (srv, sendLoginForm srv req ''Invalid username or password'', None)
      | Inr user \<Rightarrow>
     (case y_CompareHashAndPassword Y (usr_HashedPassword user) (valuesGet (requestForm r) ''password'') of
        Inl _ \<Rightarrow> (srv, sendLoginForm srv req ''Invalid username or password'', None)
      | Inr _ \<Rightarrow>
          let stored = newSession env user in
     (case Store_Put S (y_MarshalStoredSession Y) (srv_Store srv) (sessionKey (ses_ID stored)) stored of
        Inl _ \<Rightarrow> (srv, [WriteError StatusInternalServerError], None)
      | Inr store \<Rightarrow>
          (srv\<lparr>srv_Store := store\<rparr>,
           [SetCookie (sessionCookie srv r (ses_ID stored) (sessionMaxAge div nsSecond))],
           Some (Session.truncate stored))))))"

definition Server_GetSession ::
  "'s Store \<Rightarrow> server_ext \<Rightarrow> server_env \<Rightarrow> 's Server \<Rightarrow> http_request \<Rightarrow> IdpAuthnRequest \<Rightarrow>
   's Server \<times> http_write list \<times> Session option" where
  "Server_GetSession S Y env srv r req =
     (if hasCredentials r then authenticate S Y env srv r req
      else
     (case existingSession S Y (se_Now env) srv r of
        Inl _ \<Rightarrow> (srv, [WriteError StatusInternalServerError], None)
      | Inr (Some session) \<Rightarrow> (srv, [], Some session)
      | Inr None \<Rightarrow> (srv, sendLoginForm srv req [], None)))"

definition Server_GetPassiveSession ::
  "'s Store \<Rightarrow> server_ext \<Rightarrow> time \<Rightarrow> 's Server \<Rightarrow> http_request \<Rightarrow> IdpAuthnRequest \<Rightarrow> Session option" where
  "Server_GetPassiveSession S Y now srv r req =
     (if areq_ForceAuthn (iar_Request req) = Some True then None
      else (case existingSession S Y now srv r of Inl _ \<Rightarrow> None | Inr session \<Rightarrow> session))"

definition Server_GetForcedSession ::
  "'s Store \<Rightarrow> server_ext \<Rightarrow> server_env \<Rightarrow> 's Server \<Rightarrow> http_request \<Rightarrow> IdpAuthnRequest \<Rightarrow>
   's Server \<times> http_write list \<times> Session option" where
  "Server_GetForcedSession S Y env srv r req =
     (if hasCredentials r then authenticate S Y env srv r req else (srv, sendLoginForm srv req [], None))"

text \<open>\<^verbatim>\<open>HandleLogin\<close> has no SAML request: the request it passes on has no HTTP request either.\<close>

definition HandleLogin ::
  "'s Store \<Rightarrow> server_ext \<Rightarrow> server_env \<Rightarrow> 's Server \<Rightarrow> http_request \<Rightarrow> 's Server \<times> http_write list" where
  "HandleLogin S Y env srv r =
     (case ParseForm maxFormSize r of
        Inl _ \<Rightarrow> (srv, [WriteError StatusBadRequest])
      | Inr _ \<Rightarrow>
     (case Server_GetSession S Y env srv r (newRequest (r\<lparr>rq_PathValues := []\<rparr>) 0) of
        (srv', ws, None) \<Rightarrow> (srv', ws)
      | (srv', ws, Some session) \<Rightarrow>
          (srv', ws @ (case y_EncodeSession Y session of
             Inr body \<Rightarrow> [WriteBody body] | Inl _ \<Rightarrow> [WriteError StatusInternalServerError]))))"

definition HandleListSessions :: "'s Store \<Rightarrow> server_ext \<Rightarrow> 's Server \<Rightarrow> http_write list" where
  "HandleListSessions S Y srv =
     (case bindE (st_List S (srv_Store srv) ''/sessions/'') (y_EncodeNames Y ''sessions'') of
        Inl _ \<Rightarrow> [WriteError StatusInternalServerError]
      | Inr body \<Rightarrow> [WriteBody body])"

definition HandleGetSession :: "'s Store \<Rightarrow> server_ext \<Rightarrow> 's Server \<Rightarrow> http_request \<Rightarrow> http_write list" where
  "HandleGetSession S Y srv r =
     (case bindE (Store_Get S (y_UnmarshalSession Y) (srv_Store srv) (sessionKey (PathValue r ''id''))) (y_EncodeSession Y) of
        Inl _ \<Rightarrow> [WriteError StatusInternalServerError]
      | Inr body \<Rightarrow> [WriteBody body])"

definition HandleDeleteSession :: "'s Store \<Rightarrow> 's Server \<Rightarrow> http_request \<Rightarrow> 's Server \<times> http_write list" where
  "HandleDeleteSession S srv r =
     (case st_Delete S (srv_Store srv) (sessionKey (PathValue r ''id'')) of
        Inl _ \<Rightarrow> (srv, [WriteError StatusInternalServerError])
      | Inr store \<Rightarrow> (srv\<lparr>srv_Store := store\<rparr>, [WriteStatus StatusNoContent]))"

definition TerminateSession ::
  "'s Store \<Rightarrow> server_ext \<Rightarrow> time \<Rightarrow> 's Server \<Rightarrow> http_request \<Rightarrow> IdpLogoutRequest \<Rightarrow>
   's Server \<times> http_write list \<times> unit result" where
  "TerminateSession S Y now srv r req =
     (if isl (requestCookie r ''session'') \<and> rq_Method r = ''POST'' then
        (srv, [], Inl (Err ''the session cookie is not sent with a cross-site POST''))
      else
     (case existingSession S Y now srv r of
        Inl e \<Rightarrow> (srv, [], Inl e)
      | Inr None \<Rightarrow> (srv, [], Inr ())
      | Inr (Some session) \<Rightarrow>
     (case lreq_NameID (ilr_Request req) of
        None \<Rightarrow> (srv, [], Inl (Panic ''nil pointer''))
      | Some nameID \<Rightarrow>
          if ses_NameID session \<noteq> nid_Value nameID then
            (srv, [], Inl (Err ''the session belongs to another principal''))
          else if lreq_SessionIndexes (ilr_Request req) \<noteq> [] \<and>
            ses_Index session \<notin> set (lreq_SessionIndexes (ilr_Request req)) then
            (srv, [], Inl (Err ''the session index of the session is not in the request''))
          else
     (case st_Delete S (srv_Store srv) (sessionKey (ses_ID session)) of
        Inl e \<Rightarrow> (srv, [], Inl e)
      | Inr store \<Rightarrow> (srv\<lparr>srv_Store := store\<rparr>, [SetCookie (sessionCookie srv r [] (- 1))], Inr ())))))"

section \<open>Users\<close>

definition HandleListUsers :: "'s Store \<Rightarrow> server_ext \<Rightarrow> 's Server \<Rightarrow> http_write list" where
  "HandleListUsers S Y srv =
     (case bindE (st_List S (srv_Store srv) ''/users/'') (y_EncodeNames Y ''users'') of
        Inl _ \<Rightarrow> [WriteError StatusInternalServerError]
      | Inr body \<Rightarrow> [WriteBody body])"

definition HandleGetUser :: "'s Store \<Rightarrow> server_ext \<Rightarrow> 's Server \<Rightarrow> http_request \<Rightarrow> http_write list" where
  "HandleGetUser S Y srv r =
     (case bindE (Store_Get S (y_UnmarshalUser Y) (srv_Store srv) (userKey (PathValue r ''id'')))
             (\<lambda>user. y_MarshalUser Y (user\<lparr>usr_HashedPassword := [], usr_Revision := []\<rparr>)) of
        Inl _ \<Rightarrow> [WriteError StatusInternalServerError]
      | Inr body \<Rightarrow> [WriteBody body])"

fun endSessionsOf :: "'s Store \<Rightarrow> server_ext \<Rightarrow> string \<Rightarrow> string list \<Rightarrow> 's \<Rightarrow> 's \<times> unit result" where
  "endSessionsOf S Y name [] s = (s, Inr ())"
| "endSessionsOf S Y name (sid # sids) s =
     (case Store_Get S (y_UnmarshalSession Y) s (sessionKey sid) of
        Inl e \<Rightarrow> if errorsIs e ErrNotFound then endSessionsOf S Y name sids s else (s, Inl e)
      | Inr session \<Rightarrow>
          if ses_UserName session \<noteq> name then endSessionsOf S Y name sids s
          else (case st_Delete S s (sessionKey sid) of
                  Inl e \<Rightarrow> if errorsIs e ErrNotFound then endSessionsOf S Y name sids s else (s, Inl e)
                | Inr s' \<Rightarrow> endSessionsOf S Y name sids s'))"

definition endUserSessions :: "'s Store \<Rightarrow> server_ext \<Rightarrow> string \<Rightarrow> 's \<Rightarrow> 's \<times> unit result" where
  "endUserSessions S Y name s =
     (case st_List S s ''/sessions/'' of Inl e \<Rightarrow> (s, Inl e) | Inr sids \<Rightarrow> endSessionsOf S Y name sids s)"

fun emailOwnerAmong :: "'s Store \<Rightarrow> server_ext \<Rightarrow> 's \<Rightarrow> string \<Rightarrow> string \<Rightarrow> string list \<Rightarrow> string result" where
  "emailOwnerAmong S Y s email except [] = Inr []"
| "emailOwnerAmong S Y s email except (name # names) =
     (if name = except then emailOwnerAmong S Y s email except names
      else (case Store_Get S (y_UnmarshalUser Y) s (userKey name) of
              Inl e \<Rightarrow> if errorsIs e ErrNotFound then emailOwnerAmong S Y s email except names else Inl e
            | Inr other \<Rightarrow>
                if EqualFold Y (usr_Email other) email then Inr name
                else emailOwnerAmong S Y s email except names))"

definition emailOwner :: "'s Store \<Rightarrow> server_ext \<Rightarrow> 's \<Rightarrow> string \<Rightarrow> string \<Rightarrow> string result" where
  "emailOwner S Y s email except = bindE (st_List S s ''/users/'') (emailOwnerAmong S Y s email except)"

fun checkEmails :: "'s Store \<Rightarrow> server_ext \<Rightarrow> 's \<Rightarrow> (string \<times> string) list \<Rightarrow> string list \<Rightarrow> unit result" where
  "checkEmails S Y s emails [] = Inr ()"
| "checkEmails S Y s emails (name # names) =
     bindE (Store_Get S (y_UnmarshalUser Y) s (userKey name)) (\<lambda>user.
       if usr_Email user = [] then checkEmails S Y s emails names
       else (case find (\<lambda>other. EqualFold Y (snd other) (usr_Email user)) emails of
               Some other \<Rightarrow> Inl (Errorf ''users %q and %q have the same email, which is their NameID: change one of them in the store''
                 [fst other, name])
             | None \<Rightarrow> checkEmails S Y s (emails @ [(name, usr_Email user)]) names))"

definition checkUserEmails :: "'s Store \<Rightarrow> server_ext \<Rightarrow> 's \<Rightarrow> unit result" where
  "checkUserEmails S Y s = bindE (st_List S s ''/users/'') (\<lambda>names. checkEmails S Y s [] (sort names))"

text \<open>The hashed password of a user that is put: of the new password, or the stored one.\<close>

definition passwordHash :: "'s Store \<Rightarrow> server_ext \<Rightarrow> server_env \<Rightarrow> 's \<Rightarrow> string \<Rightarrow> User \<Rightarrow> User result" where
  "passwordHash S Y env s key user =
     (case usr_PlaintextPassword user of
        Some password \<Rightarrow>
          bindE (y_GenerateFromPassword Y (se_Salt env) password) (\<lambda>h. Inr (user\<lparr>usr_HashedPassword := h\<rparr>))
      | None \<Rightarrow>
          (case Store_Get S (y_UnmarshalUser Y) s key of
             Inr existing \<Rightarrow> Inr (user\<lparr>usr_HashedPassword := usr_HashedPassword existing\<rparr>)
           | Inl e \<Rightarrow> if e = ErrNotFound then Inr user else Inl e))"

definition HandlePutUser ::
  "'s Store \<Rightarrow> server_ext \<Rightarrow> server_env \<Rightarrow> 's Server \<Rightarrow> http_request \<Rightarrow> 's Server \<times> http_write list" where
  "HandlePutUser S Y env srv r =
     (case y_DecodeUser Y (requestBody r) of
        Inl _ \<Rightarrow> (srv, [WriteError StatusBadRequest])
      | Inr user \<Rightarrow>
     let user = user\<lparr>usr_Name := PathValue r ''id''\<rparr>; s = srv_Store srv; key = userKey (PathValue r ''id'') in
     (case (if usr_Email user \<noteq> [] then emailOwner S Y s (usr_Email user) (usr_Name user) else Inr []) of
        Inl _ \<Rightarrow> (srv, [WriteError StatusInternalServerError])
      | Inr owner \<Rightarrow>
          if owner \<noteq> [] then (srv, [WriteError StatusConflict])
          else
     (case passwordHash S Y env s key user of
        Inl _ \<Rightarrow> (srv, [WriteError StatusInternalServerError])
      | Inr user \<Rightarrow>
     (case Store_Put S (y_MarshalUser Y) s key (user\<lparr>usr_PlaintextPassword := None, usr_Revision := se_Revision env\<rparr>) of
        Inl _ \<Rightarrow> (srv, [WriteError StatusInternalServerError])
      | Inr s \<Rightarrow>
     (case endUserSessions S Y (usr_Name user) s of
        (s, Inl _) \<Rightarrow> (srv\<lparr>srv_Store := s\<rparr>, [WriteError StatusInternalServerError])
      | (s, Inr _) \<Rightarrow> (srv\<lparr>srv_Store := s\<rparr>, [WriteStatus StatusNoContent]))))))"

definition HandleDeleteUser ::
  "'s Store \<Rightarrow> server_ext \<Rightarrow> 's Server \<Rightarrow> http_request \<Rightarrow> 's Server \<times> http_write list" where
  "HandleDeleteUser S Y srv r =
     (case st_Delete S (srv_Store srv) (userKey (PathValue r ''id'')) of
        Inl _ \<Rightarrow> (srv, [WriteError StatusInternalServerError])
      | Inr s \<Rightarrow>
     (case endUserSessions S Y (PathValue r ''id'') s of
        (s, Inl _) \<Rightarrow> (srv\<lparr>srv_Store := s\<rparr>, [WriteError StatusInternalServerError])
      | (s, Inr _) \<Rightarrow> (srv\<lparr>srv_Store := s\<rparr>, [WriteStatus StatusNoContent])))"

end
