(* ===== verification/Server_Services.thy ===== *)
theory Server_Services
  imports Server_Sessions
begin

text \<open>
  Service providers and shortcuts of the identity provider server, its handlers and its construction
  (\<^verbatim>\<open>samlidp/service.go\<close>, \<^verbatim>\<open>samlidp/shortcut.go\<close>, \<^verbatim>\<open>samlidp/samlidp.go\<close>).
\<close>

section \<open>Services\<close>

definition GetServiceProvider :: "time \<Rightarrow> 's Server \<Rightarrow> string \<Rightarrow> EntityDescriptor result" where
  "GetServiceProvider now srv serviceProviderID =
     (case srv_serviceProviders srv serviceProviderID of
        None \<Rightarrow> Inl ErrNotExist
      | Some rv \<Rightarrow> (case currentMetadata rv now of None \<Rightarrow> Inl ErrNotExist | Some current \<Rightarrow> Inr current))"

definition HandleListServices :: "'s Store \<Rightarrow> server_ext \<Rightarrow> 's Server \<Rightarrow> http_write list" where
  "HandleListServices S Y srv =
     (case bindE (st_List S (srv_Store srv) ''/services/'') (y_EncodeNames Y ''services'') of
        Inl _ \<Rightarrow> [WriteError StatusInternalServerError]
      | Inr body \<Rightarrow> [WriteBody body])"

definition HandleGetService :: "'s Store \<Rightarrow> server_ext \<Rightarrow> 's Server \<Rightarrow> http_request \<Rightarrow> http_write list" where
  "HandleGetService S Y srv r =
     (case bindE (Store_Get S (y_UnmarshalService Y) (srv_Store srv) (serviceKey (PathValue r ''id'')))
             (\<lambda>service. y_EncodeMetadata Y (svc_Metadata service)) of
        Inl _ \<Rightarrow> [WriteError StatusInternalServerError]
      | Inr body \<Rightarrow> [WriteBody body])"

definition deregisterServiceProvider :: "string \<Rightarrow> string \<Rightarrow> 's Server \<Rightarrow> 's Server" where
  "deregisterServiceProvider sid entityID srv =
     (if (case srv_serviceIDs srv entityID of None \<Rightarrow> [] | Some i \<Rightarrow> i) \<noteq> sid then srv
      else srv\<lparr>srv_serviceProviders := (srv_serviceProviders srv)(entityID := None),
               srv_serviceIDs := (srv_serviceIDs srv)(entityID := None)\<rparr>)"

definition registerServiceProvider :: "string \<Rightarrow> EntityDescriptor \<Rightarrow> 's Server \<Rightarrow> 's Server" where
  "registerServiceProvider sid metadata srv =
     srv\<lparr>srv_serviceProviders := (srv_serviceProviders srv)(ed_EntityID metadata \<mapsto> metadata),
         srv_serviceIDs := (srv_serviceIDs srv)(ed_EntityID metadata \<mapsto> sid)\<rparr>"

definition recognizedUses :: "EntityDescriptor \<Rightarrow> bool" where
  "recognizedUses metadata \<longleftrightarrow>
     list_all (\<lambda>d. list_all (\<lambda>k. kd_Use k \<in> {[], ''encryption'', ''signing''}) (rd_KeyDescriptors d)) (ed_SPSSODescriptors metadata)"

definition HandlePutService ::
  "externs \<Rightarrow> 's Store \<Rightarrow> server_ext \<Rightarrow> time \<Rightarrow> 's Server \<Rightarrow> http_request \<Rightarrow> 's Server \<times> http_write list" where
  "HandlePutService X S Y now srv r =
     (let sid = PathValue r ''id''; key = serviceKey sid in
      case getSPMetadata X Y (requestBody r) of
        Inl _ \<Rightarrow> (srv, [WriteError StatusBadRequest])
      | Inr metadata \<Rightarrow>
          if \<not> recognizedUses metadata then (srv, [WriteError StatusBadRequest])
          else if currentMetadata metadata now = None then (srv, [WriteError StatusBadRequest])
          else
            let service = \<lparr>svc_Name = [], svc_Metadata = metadata\<rparr> in
            if srv_serviceProviders srv (ed_EntityID metadata) \<noteq> None \<and>
               (case srv_serviceIDs srv (ed_EntityID metadata) of None \<Rightarrow> [] | Some i \<Rightarrow> i) \<noteq> sid
            then (srv, [WriteError StatusConflict])
            else
            let previous = Store_Get S (y_UnmarshalService Y) (srv_Store srv) key in
            if (case previous of Inl e \<Rightarrow> \<not> errorsIs e ErrNotFound | Inr _ \<Rightarrow> False)
            then (srv, [WriteError StatusInternalServerError])
            else
     (case Store_Put S (y_MarshalService Y) (srv_Store srv) key service of
        Inl _ \<Rightarrow> (srv, [WriteError StatusInternalServerError])
      | Inr s \<Rightarrow>
          let srv = srv\<lparr>srv_Store := s\<rparr>;
              srv = (case previous of
                       Inr p \<Rightarrow> deregisterServiceProvider sid (ed_EntityID (svc_Metadata p)) srv
                     | Inl _ \<Rightarrow> srv) in
          (registerServiceProvider sid metadata srv, [WriteStatus StatusNoContent])))"

definition HandleDeleteService ::
  "'s Store \<Rightarrow> server_ext \<Rightarrow> 's Server \<Rightarrow> http_request \<Rightarrow> 's Server \<times> http_write list" where
  "HandleDeleteService S Y srv r =
     (let sid = PathValue r ''id'' in
      case Store_Get S (y_UnmarshalService Y) (srv_Store srv) (serviceKey sid) of
        Inl _ \<Rightarrow> (srv, [WriteError StatusInternalServerError])
      | Inr service \<Rightarrow>
     (case st_Delete S (srv_Store srv) (serviceKey sid) of
        Inl _ \<Rightarrow> (srv, [WriteError StatusInternalServerError])
      | Inr s \<Rightarrow>
          (deregisterServiceProvider sid (ed_EntityID (svc_Metadata service)) (srv\<lparr>srv_Store := s\<rparr>),
           [WriteStatus StatusNoContent])))"

fun registerServices :: "'s Store \<Rightarrow> server_ext \<Rightarrow> 's Server \<Rightarrow> string list \<Rightarrow> 's Server result" where
  "registerServices S Y srv [] = Inr srv"
| "registerServices S Y srv (name # names) =
     bindE (Store_Get S (y_UnmarshalService Y) (srv_Store srv) (serviceKey name)) (\<lambda>service.
       case srv_serviceIDs srv (ed_EntityID (svc_Metadata service)) of
         Some other \<Rightarrow>
           Inl (Errorf ''services %q and %q both register entity ID %q: remove one of them from the store''
             [other, name, ed_EntityID (svc_Metadata service)])
       | None \<Rightarrow> registerServices S Y (registerServiceProvider name (svc_Metadata service) srv) names)"

definition initializeServices :: "'s Store \<Rightarrow> server_ext \<Rightarrow> 's Server \<Rightarrow> 's Server result" where
  "initializeServices S Y srv =
     bindE (st_List S (srv_Store srv) ''/services/'') (\<lambda>names. registerServices S Y srv (sort names))"

section \<open>Shortcuts\<close>

definition HandleListShortcuts :: "'s Store \<Rightarrow> server_ext \<Rightarrow> 's Server \<Rightarrow> http_write list" where
  "HandleListShortcuts S Y srv =
     (case bindE (st_List S (srv_Store srv) ''/shortcuts/'') (y_EncodeNames Y ''shortcuts'') of
        Inl _ \<Rightarrow> [WriteError StatusInternalServerError]
      | Inr body \<Rightarrow> [WriteBody body])"

definition HandleGetShortcut :: "'s Store \<Rightarrow> server_ext \<Rightarrow> 's Server \<Rightarrow> http_request \<Rightarrow> http_write list" where
  "HandleGetShortcut S Y srv r =
     (case bindE (Store_Get S (y_UnmarshalShortcut Y) (srv_Store srv) (shortcutKey (PathValue r ''id''))) (y_MarshalShortcut Y) of
        Inl _ \<Rightarrow> [WriteError StatusInternalServerError]
      | Inr body \<Rightarrow> [WriteBody body])"

definition HandlePutShortcut ::
  "'s Store \<Rightarrow> server_ext \<Rightarrow> 's Server \<Rightarrow> http_request \<Rightarrow> 's Server \<times> http_write list" where
  "HandlePutShortcut S Y srv r =
     (case y_DecodeShortcut Y (requestBody r) of
        Inl _ \<Rightarrow> (srv, [WriteError StatusBadRequest])
      | Inr shortcut \<Rightarrow>
     (case Store_Put S (y_MarshalShortcut Y) (srv_Store srv) (shortcutKey (PathValue r ''id''))
             (shortcut\<lparr>sct_Name := PathValue r ''id''\<rparr>) of
        Inl _ \<Rightarrow> (srv, [WriteError StatusInternalServerError])
      | Inr s \<Rightarrow> (srv\<lparr>srv_Store := s\<rparr>, [WriteStatus StatusNoContent])))"

definition HandleDeleteShortcut :: "'s Store \<Rightarrow> 's Server \<Rightarrow> http_request \<Rightarrow> 's Server \<times> http_write list" where
  "HandleDeleteShortcut S srv r =
     (case st_Delete S (srv_Store srv) (shortcutKey (PathValue r ''id'')) of
        Inl _ \<Rightarrow> (srv, [WriteError StatusInternalServerError])
      | Inr s \<Rightarrow> (srv\<lparr>srv_Store := s\<rparr>, [WriteStatus StatusNoContent]))"

definition isDotSegment :: "string \<Rightarrow> bool" where
  "isDotSegment segment \<longleftrightarrow> segment = ''.'' \<or> segment = ''..''"

section \<open>The server as the providers of the identity provider\<close>

definition serverIDP :: "'s Store \<Rightarrow> server_ext \<Rightarrow> server_env \<Rightarrow> 's Server \<Rightarrow> IdentityProvider" where
  "serverIDP S Y env srv = (srv_IDP srv)
     \<lparr>idp_GetServiceProvider := (\<lambda>_ serviceProviderID. GetServiceProvider (se_Now env) srv serviceProviderID),
      idp_SessionProvider :=
        \<lparr>spr_GetSession = (\<lambda>r req. snd (Server_GetSession S Y env srv r req)),
         spr_GetPassiveSession = Some (Server_GetPassiveSession S Y (se_Now env) srv),
         spr_GetForcedSession = Some (\<lambda>r req. snd (Server_GetForcedSession S Y env srv r req)),
         spr_TerminateSession = Some (\<lambda>r req. snd (TerminateSession S Y (se_Now env) srv r req))\<rparr>\<rparr>"

definition shortcutRelayState :: "Shortcut \<Rightarrow> http_request \<Rightarrow> string" where
  "shortcutRelayState shortcut r =
     (case sct_RelayState shortcut of
        Some relayState \<Rightarrow> relayState
      | None \<Rightarrow>
          if sct_URISuffixAsRelayState shortcut \<and> PathValue r ''suffix'' \<noteq> [] then ''/'' @ PathValue r ''suffix'' else [])"

text \<open>\<^verbatim>\<open>ServeIDPInitiated\<close> begins with \<^verbatim>\<open>GetSession\<close>, the only call that changes the store.\<close>

definition HandleIDPInitiated ::
  "externs \<Rightarrow> 's Store \<Rightarrow> server_ext \<Rightarrow> idp_env \<Rightarrow> server_env \<Rightarrow> 's Server \<Rightarrow> http_request \<Rightarrow>
   's Server \<times> http_write list result" where
  "HandleIDPInitiated X S Y ienv env srv r =
     (if isDotSegment (PathValue r ''shortcut'') \<or> isDotSegment (PathValue r ''suffix'') then
        (srv, Inr [WriteError StatusBadRequest])
      else if rq_Method r = ''POST'' \<and> isl (ParseForm maxFormSize r) then (srv, Inr [WriteError StatusBadRequest])
      else
     (case Store_Get S (y_UnmarshalShortcut Y) (srv_Store srv) (shortcutKey (PathValue r ''shortcut'')) of
        Inl _ \<Rightarrow> (srv, Inr [WriteError StatusInternalServerError])
      | Inr shortcut \<Rightarrow>
          let relayState = shortcutRelayState shortcut r in
          (fst (Server_GetSession S Y env srv r ((newRequest r (env_Now ienv))\<lparr>iar_RelayState := relayState\<rparr>)),
           ServeIDPInitiated X ienv (serverIDP S Y env srv) r (sct_ServiceProviderID shortcut) relayState)))"

text \<open>The handlers of \<^verbatim>\<open>/sso\<close> and \<^verbatim>\<open>/logout\<close> with their effect on the store.\<close>

definition HandleSSO ::
  "externs \<Rightarrow> 's Store \<Rightarrow> server_ext \<Rightarrow> idp_env \<Rightarrow> server_env \<Rightarrow> 's Server \<Rightarrow> http_request \<Rightarrow>
   's Server \<times> http_write list result" where
  "HandleSSO X S Y ienv env srv r =
     ((case bindE (NewIdpAuthnRequest X r (env_Now ienv)) (Idp_Validate X (env_Clock ienv) (serverIDP S Y env srv)) of
         Inl _ \<Rightarrow> srv
       | Inr req \<Rightarrow>
           if areq_IsPassive (iar_Request req) = Some True then srv
           else if areq_ForceAuthn (iar_Request req) = Some True then fst (Server_GetForcedSession S Y env srv r req)
           else fst (Server_GetSession S Y env srv r req)),
      ServeSSO X ienv (serverIDP S Y env srv) r)"

definition HandleSLO ::
  "externs \<Rightarrow> 's Store \<Rightarrow> server_ext \<Rightarrow> idp_env \<Rightarrow> server_env \<Rightarrow> 's Server \<Rightarrow> http_request \<Rightarrow>
   's Server \<times> http_write list result" where
  "HandleSLO X S Y ienv env srv r =
     ((case bindE (NewIdpLogoutRequest X r (env_Now ienv)) (Logout_Validate X (env_Clock ienv) (serverIDP S Y env srv)) of
         Inl _ \<Rightarrow> srv
       | Inr req \<Rightarrow> fst (TerminateSession S Y (se_Now env) srv r req)),
      ServeSLO X ienv (serverIDP S Y env srv) r)"

section \<open>Construction and administration\<close>

record options =
  op_Key :: "signer option"
  op_Signer :: "signer option"
  op_Certificate :: "certificate option"
  op_LoginFormTemplate :: "(login_form \<Rightarrow> unit result) option"
  op_AdminAuthorizer :: "(http_request \<Rightarrow> bool) option"
  op_URL :: url

definition maxLoginDuration :: duration where "maxLoginDuration = 300 * nsSecond"

text \<open>\<^verbatim>\<open>escapedPath\<close> is \<^verbatim>\<open>url.EscapedPath\<close> of a URL whose path was assigned, as \<^verbatim>\<open>New\<close> does.\<close>

fun escapedPath :: "string \<Rightarrow> string" where
  "escapedPath [] = []"
| "escapedPath (c # cs) =
     (if unreserved c \<or> c \<in> set ''$&+,/:;=@'' then c # escapedPath cs
      else CHR ''%'' # upperhex (byte c div 16) # upperhex (byte c mod 16) # escapedPath cs)"

definition trimSlash :: "string \<Rightarrow> string" where
  "trimSlash p = (if p \<noteq> [] \<and> last p = CHR ''/'' then butlast p else p)"

text \<open>\<^verbatim>\<open>opts.URL\<close> with a suffix on its path; \<open>u_Base\<close> up to the path is the scheme and the host.\<close>

definition withPath :: "url \<Rightarrow> string \<Rightarrow> url" where
  "withPath u path = u\<lparr>u_Path := trimSlash (u_Path u) @ path,
     u_Base := u_Scheme u @ ''://'' @ u_Host u @ escapedPath (trimSlash (u_Path u) @ path)\<rparr>"

text \<open>The providers are the server itself, \<open>serverIDP\<close>; until \<^verbatim>\<open>New\<close> sets them they are nil.\<close>

definition unsetProvider :: SessionProvider where
  "unsetProvider = \<lparr>spr_GetSession = (\<lambda>_ _. ([HandlerPanic ''nil pointer''], None)), spr_GetPassiveSession = None,
     spr_GetForcedSession = None, spr_TerminateSession = None\<rparr>"

definition newServer :: "options \<Rightarrow> 's \<Rightarrow> 's Server" where
  "newServer opts s =
     \<lparr>srv_serviceProviders = Map.empty, srv_serviceIDs = Map.empty,
      srv_IDP = \<lparr>idp_Key = op_Key opts, idp_Signer = op_Signer opts, idp_Certificate = op_Certificate opts,
        idp_Intermediates = [], idp_MaxAuthnRequestAge = maxLoginDuration,
        idp_MetadataURL = withPath (op_URL opts) ''/metadata'', idp_SSOURL = withPath (op_URL opts) ''/sso'',
        idp_LoginURL = withPath (op_URL opts) ''/login'', idp_LogoutURL = withPath (op_URL opts) ''/logout'',
        idp_GetServiceProvider = (\<lambda>_ _. Inl ErrNotExist), idp_SessionProvider = unsetProvider, idp_AssertionMaker = None,
        idp_SignatureMethod = [], idp_ValidDuration = None, idp_ResponseFormTemplate = None,
        idp_WantAuthnRequestsSigned = False, idp_NameIDPolicyEnforcer = None, idp_AuthnContextEnforcer = None,
        idp_SubjectEnforcer = None\<rparr>,
      srv_Store = s, srv_LoginFormTemplate = op_LoginFormTemplate opts, srv_AdminAuthorizer = op_AdminAuthorizer opts\<rparr>"

definition New :: "'s Store \<Rightarrow> server_ext \<Rightarrow> options \<Rightarrow> 's \<Rightarrow> 's Server result" where
  "New S Y opts s =
     bindE (initializeServices S Y (newServer opts s)) (\<lambda>srv.
     bindE (checkUserEmails S Y (srv_Store srv)) (\<lambda>_. Inr srv))"

text \<open>The wrapper around every handler of the RESTful interfaces.\<close>

definition admin :: "('s Server \<Rightarrow> http_request \<Rightarrow> 's Server \<times> http_write list) \<Rightarrow> 's Server \<Rightarrow> http_request \<Rightarrow>
  's Server \<times> http_write list" where
  "admin handler srv r =
     (case srv_AdminAuthorizer srv of
        None \<Rightarrow> (srv, [WriteError StatusForbidden])
      | Some authorizes \<Rightarrow> if authorizes r then handler srv r else (srv, [WriteError StatusForbidden]))"

definition readOnly :: "('s Server \<Rightarrow> http_request \<Rightarrow> http_write list) \<Rightarrow> 's Server \<Rightarrow> http_request \<Rightarrow> 's Server \<times> http_write list" where
  "readOnly handler srv r = (srv, handler srv r)"

text \<open>The patterns that \<^verbatim>\<open>InitializeHTTP\<close> registers behind the wrapper, with their handlers.\<close>

definition adminHandlers ::
  "externs \<Rightarrow> 's Store \<Rightarrow> server_ext \<Rightarrow> server_env \<Rightarrow> (string \<times> ('s Server \<Rightarrow> http_request \<Rightarrow> 's Server \<times> http_write list)) list" where
  "adminHandlers X S Y env = map (map_prod id admin)
     [(''GET /services/'', readOnly (\<lambda>srv _. HandleListServices S Y srv)),
      (''GET /services/{id}'', readOnly (HandleGetService S Y)),
      (''PUT /services/{id}'', HandlePutService X S Y (se_Now env)),
      (''POST /services/{id}'', HandlePutService X S Y (se_Now env)),
      (''DELETE /services/{id}'', HandleDeleteService S Y),
      (''GET /users/'', readOnly (\<lambda>srv _. HandleListUsers S Y srv)),
      (''GET /users/{id}'', readOnly (HandleGetUser S Y)),
      (''PUT /users/{id}'', HandlePutUser S Y env),
      (''DELETE /users/{id}'', HandleDeleteUser S Y),
      (''GET /sessions/'', readOnly (\<lambda>srv _. HandleListSessions S Y srv)),
      (''GET /sessions/{id}'', readOnly (HandleGetSession S Y)),
      (''DELETE /sessions/{id}'', HandleDeleteSession S),
      (''GET /shortcuts/'', readOnly (\<lambda>srv _. HandleListShortcuts S Y srv)),
      (''GET /shortcuts/{id}'', readOnly (HandleGetShortcut S Y)),
      (''PUT /shortcuts/{id}'', HandlePutShortcut S Y),
      (''DELETE /shortcuts/{id}'', HandleDeleteShortcut S)]"

end
