(* ===== verification/Server_Example.thy ===== *)
theory Server_Example
  imports Server_Services
begin

text \<open>
  A concrete server with one user and one service provider, and libraries that encode just these values: they show that
  the assumptions about the libraries can hold, and they are where the properties of the server are applied.
\<close>

definition exampleServerEnv :: server_env where
  "exampleServerEnv = \<lparr>se_Now = 5, se_ExpireNow = 6, se_SessionID = ''abc'', se_SessionIndex = ''i'', se_Revision = ''R'',
     se_Salt = []\<rparr>"

definition exampleUser :: User where
  "exampleUser = \<lparr>usr_Name = ''alice'', usr_PlaintextPassword = None, usr_HashedPassword = ''hpw'', usr_Groups = [''staff''],
     usr_Email = ''a@b'', usr_CommonName = [], usr_Surname = [], usr_GivenName = [], usr_ScopedAffiliation = [],
     usr_Revision = ''R''\<rparr>"

definition sentUser :: User where
  "sentUser = exampleUser\<lparr>usr_Name := [], usr_PlaintextPassword := Some ''pw'', usr_HashedPassword := [], usr_Revision := []\<rparr>"

definition exampleStored :: storedSession where
  "exampleStored = newSession exampleServerEnv exampleUser"

definition exampleService :: Service where
  "exampleService = \<lparr>svc_Name = [], svc_Metadata = exampleSpMetadata\<rparr>"

text \<open>A codec of one value.\<close>

definition only :: "'v \<Rightarrow> string \<Rightarrow> 'v \<Rightarrow> string result" where
  "only v buf w = (if w = v then Inr buf else Inl (Err ''unsupported value''))"

definition reads :: "string \<Rightarrow> 'v \<Rightarrow> string \<Rightarrow> 'v result" where
  "reads buf v s = (if s = buf then Inr v else Inl (Err ''invalid''))"

definition exampleY :: server_ext where
  "exampleY = \<lparr>y_MarshalUser = only exampleUser ''U'', y_UnmarshalUser = reads ''U'' exampleUser,
     y_DecodeUser = reads ''user'' sentUser, y_MarshalStoredSession = only exampleStored ''S'',
     y_UnmarshalStoredSession = reads ''S'' exampleStored,
     y_UnmarshalSession = reads ''S'' (Session.truncate exampleStored), y_EncodeSession = (\<lambda>_. Inr ''session''),
     y_MarshalService = only exampleService ''V'', y_UnmarshalService = reads ''V'' exampleService,
     y_MarshalShortcut = (\<lambda>_. Inl (Err ''unsupported value'')), y_UnmarshalShortcut = (\<lambda>_. Inl (Err ''invalid'')),
     y_DecodeShortcut = (\<lambda>_. Inl (Err ''invalid'')), y_EncodeNames = (\<lambda>_ _. Inr ''names''),
     y_EncodeMetadata = (\<lambda>_. Inr ''metadata''), y_UnmarshalEntityDescriptor = reads ''xml'' exampleSpMetadata,
     y_UnmarshalEntitiesDescriptor = (\<lambda>_. Inl (Err ''invalid'')),
     y_GenerateFromPassword = (\<lambda>salt pw. Inr (''h'' @ pw)),
     y_CompareHashAndPassword = (\<lambda>h pw. checkE (h = ''h'' @ pw) (Err ''mismatch'')), y_Fold = id\<rparr>"

lemma exampleY_sel [simp]:
  "y_MarshalUser exampleY = only exampleUser ''U''" "y_UnmarshalUser exampleY = reads ''U'' exampleUser"
  "y_DecodeUser exampleY = reads ''user'' sentUser" "y_MarshalStoredSession exampleY = only exampleStored ''S''"
  "y_UnmarshalStoredSession exampleY = reads ''S'' exampleStored"
  "y_UnmarshalSession exampleY = reads ''S'' (Session.truncate exampleStored)"
  "y_MarshalService exampleY = only exampleService ''V''" "y_UnmarshalService exampleY = reads ''V'' exampleService"
  "y_UnmarshalEntityDescriptor exampleY = reads ''xml'' exampleSpMetadata"
  "y_UnmarshalEntitiesDescriptor exampleY buf = Inl (Err ''invalid'')"
  "y_GenerateFromPassword exampleY salt pw = Inr (''h'' @ pw)"
  "y_CompareHashAndPassword exampleY h pw = checkE (h = ''h'' @ pw) (Err ''mismatch'')"
  "y_Fold exampleY = id"
  by (simp_all add: exampleY_def)

lemma coerce_newSession:
  "coerceUser u = u \<Longrightarrow> coerceSession (newSession env u) = newSession env u"
  by (cases u) (simp add: coerceUser_def coerceSession_def newSession_def utf8Coerce_ASCII base64Encode_ASCII hexLower_ASCII)

lemma exampleUser_coerced: "coerceUser exampleUser = exampleUser" "coerceUser sentUser = sentUser"
  by (simp_all add: coerceUser_def exampleUser_def sentUser_def byte_def)

lemma exampleY_laws: "jsonLaws exampleY"
proof -
  have "coerceSession exampleStored = exampleStored"
    by (simp add: exampleStored_def coerce_newSession exampleUser_coerced)
  then show ?thesis
    by (auto simp: jsonLaws_def only_def reads_def exampleUser_coerced exampleService_def)
qed

definition exampleOptions :: options where
  "exampleOptions = \<lparr>op_Key = None, op_Signer = None, op_Certificate = None, op_LoginFormTemplate = None,
     op_AdminAuthorizer = Some (\<lambda>_. True), op_URL = exampleURL ''https://idp''\<rparr>"

definition exampleServer :: "MemoryStore Server" where
  "exampleServer = newServer exampleOptions emptyMemoryStore"

definition putUserRequest :: http_request where
  "putUserRequest = exampleAuthnHTTP\<lparr>rq_Method := ''PUT'', rq_Body := Some ''user'', rq_PathValues := [(''id'', ''alice'')]\<rparr>"

definition putServiceRequest :: http_request where
  "putServiceRequest = exampleAuthnHTTP\<lparr>rq_Method := ''PUT'', rq_Body := Some ''xml'', rq_PathValues := [(''id'', ''app'')]\<rparr>"

text \<open>The store with the user, and with the service as well.\<close>

definition userStore :: MemoryStore where
  "userStore = \<lparr>ms_data = Some [(userKey ''alice'', ''U'')]\<rparr>"

definition serviceStore :: MemoryStore where
  "serviceStore = \<lparr>ms_data = Some [(userKey ''alice'', ''U''), (serviceKey ''app'', ''V'')]\<rparr>"

lemmas memoryStore_simps =
  memoryStore_def MemoryStore_Get_def MemoryStore_Put_def MemoryStore_Delete_def MemoryStore_List_def msData_def
  Store_Get_def Store_Put_def emptyMemoryStore_def userStore_def serviceStore_def bindE_def only_def reads_def

lemma exampleServer_put_user:
  "HandlePutUser memoryStore exampleY exampleServerEnv exampleServer putUserRequest =
     (exampleServer\<lparr>srv_Store := userStore\<rparr>, [WriteStatus StatusNoContent])"
  by (simp add: HandlePutUser_def putUserRequest_def exampleServer_def newServer_def requestBody_def PathValue_def
      sentUser_def exampleUser_def exampleServerEnv_def passwordHash_def emailOwner_def endUserSessions_def
      memoryStore_simps userKey_def Let_def)

lemma exampleServer_put_service:
  "HandlePutService exampleX memoryStore exampleY 5 (exampleServer\<lparr>srv_Store := userStore\<rparr>) putServiceRequest =
     (registerServiceProvider ''app'' exampleSpMetadata (exampleServer\<lparr>srv_Store := serviceStore\<rparr>), [WriteStatus StatusNoContent])"
  by (simp add: HandlePutService_def putServiceRequest_def exampleServer_def newServer_def requestBody_def PathValue_def
      getSPMetadata_def recognizedUses_def currentMetadata_def expired_def exampleSpMetadata_def exampleIdpMetadata_def
      exampleSPSSO_def exampleService_def memoryStore_simps userKey_def serviceKey_def Let_def)

lemma exampleServer_New: "New memoryStore exampleY exampleOptions emptyMemoryStore = Inr exampleServer"
  by (simp add: New_def initializeServices_def checkUserEmails_def exampleServer_def newServer_def memoryStore_simps)

end
