(* ===== verification/Server_Registry.thy ===== *)
theory Server_Registry
  imports Server_Example
begin

text \<open>
  The registry of service providers and the emails of the users stay consistent: lemmas for any store, in the locale
  \<open>key_value_store\<close>, and properties of the server with a memory store.
\<close>

section \<open>Views of the content of a store\<close>

definition decoded :: "(string \<Rightarrow> 'v result) \<Rightarrow> (string \<rightharpoonup> string) \<Rightarrow> string \<rightharpoonup> 'v" where
  "decoded unmarshal m key =
     (case m key of None \<Rightarrow> None | Some buf \<Rightarrow> (case unmarshal buf of Inr v \<Rightarrow> Some v | Inl _ \<Rightarrow> None))"

definition userOf :: "server_ext \<Rightarrow> (string \<rightharpoonup> string) \<Rightarrow> string \<rightharpoonup> User" where
  "userOf Y m name = decoded (y_UnmarshalUser Y) m (userKey name)"

definition sessionOf :: "server_ext \<Rightarrow> (string \<rightharpoonup> string) \<Rightarrow> string \<rightharpoonup> storedSession" where
  "sessionOf Y m sid = decoded (y_UnmarshalStoredSession Y) m (sessionKey sid)"

definition serviceOf :: "server_ext \<Rightarrow> (string \<rightharpoonup> string) \<Rightarrow> string \<rightharpoonup> Service" where
  "serviceOf Y m sid = decoded (y_UnmarshalService Y) m (serviceKey sid)"

lemmas view_defs = userOf_def sessionOf_def serviceOf_def

lemma decoded_upd: "decoded g (m(k \<mapsto> buf)) k' =
    (if k' = k then (case g buf of Inr v \<Rightarrow> Some v | Inl _ \<Rightarrow> None) else decoded g m k')"
  "decoded g (m(k := None)) k' = (if k' = k then None else decoded g m k')"
  by (simp_all add: decoded_def)

lemma view_upd [simp]:
  "userOf Y (m(sessionKey a := x)) n = userOf Y m n" "userOf Y (m(serviceKey a := x)) n = userOf Y m n"
  "userOf Y (m(shortcutKey a := x)) n = userOf Y m n"
  "sessionOf Y (m(userKey a := x)) n = sessionOf Y m n" "sessionOf Y (m(serviceKey a := x)) n = sessionOf Y m n"
  "sessionOf Y (m(shortcutKey a := x)) n = sessionOf Y m n"
  "serviceOf Y (m(userKey a := x)) n = serviceOf Y m n" "serviceOf Y (m(sessionKey a := x)) n = serviceOf Y m n"
  "serviceOf Y (m(shortcutKey a := x)) n = serviceOf Y m n"
  by (simp_all add: view_defs decoded_def)

lemma view_delete [simp]:
  "userOf Y (m(userKey a := None)) n = (if n = a then None else userOf Y m n)"
  "sessionOf Y (m(sessionKey a := None)) n = (if n = a then None else sessionOf Y m n)"
  "serviceOf Y (m(serviceKey a := None)) n = (if n = a then None else serviceOf Y m n)"
  by (simp_all add: view_defs decoded_upd)

lemma keysBelow_upd [simp]:
  "keysBelow ''/users/'' (m(sessionKey a := x)) = keysBelow ''/users/'' m"
  "keysBelow ''/users/'' (m(serviceKey a := x)) = keysBelow ''/users/'' m"
  "keysBelow ''/users/'' (m(shortcutKey a := x)) = keysBelow ''/users/'' m"
  by (auto simp: keysBelow_def sessionKey_def serviceKey_def shortcutKey_def split: if_splits)

lemma keysBelow_users:
  "keysBelow ''/users/'' (m(userKey a \<mapsto> buf)) = insert a (keysBelow ''/users/'' m)"
  "keysBelow ''/users/'' (m(userKey a := None)) = keysBelow ''/users/'' m - {a}"
  by (auto simp: keysBelow_def userKey_def split: if_splits)

lemma userOf_key: "userOf Y m n = Some u \<Longrightarrow> n \<in> keysBelow ''/users/'' m"
  by (auto simp: userOf_def decoded_def keysBelow_def userKey_def split: option.splits)

lemma serviceOf_key: "serviceOf Y m n = Some v \<Longrightarrow> n \<in> keysBelow ''/services/'' m"
  by (auto simp: serviceOf_def decoded_def keysBelow_def serviceKey_def split: option.splits)

section \<open>Consistency\<close>

text \<open>No two users have the same email. No user has the empty name: a pattern with \<^verbatim>\<open>{id}\<close> matches no empty
  segment.\<close>

definition emailsUnique :: "server_ext \<Rightarrow> (string \<rightharpoonup> string) \<Rightarrow> bool" where
  "emailsUnique Y m \<longleftrightarrow>
     (\<forall>a b u v. userOf Y m a = Some u \<longrightarrow> userOf Y m b = Some v \<longrightarrow> usr_Email u \<noteq> [] \<longrightarrow> usr_Email v \<noteq> [] \<longrightarrow>
        EqualFold Y (usr_Email u) (usr_Email v) \<longrightarrow> a = b)"

text \<open>The registered entity IDs are those of the stored services, each registered for the one service that has it.\<close>

definition entityOf :: "server_ext \<Rightarrow> (string \<rightharpoonup> string) \<Rightarrow> string \<rightharpoonup> string" where
  "entityOf Y m sid = map_option (\<lambda>v. ed_EntityID (svc_Metadata v)) (serviceOf Y m sid)"

definition inverseMaps :: "('a \<rightharpoonup> 'b) \<Rightarrow> ('b \<rightharpoonup> 'a) \<Rightarrow> bool" where
  "inverseMaps f g \<longleftrightarrow> (\<forall>a b. f a = Some b \<longleftrightarrow> g b = Some a)"

lemma inverseMaps_iff: "inverseMaps f g \<Longrightarrow> f a = Some b \<longleftrightarrow> g b = Some a"
  by (simp add: inverseMaps_def)

lemma inverseMaps_delete:
  assumes "inverseMaps f g" "g b = Some a"
  shows "inverseMaps (f(a := None)) (g(b := None))"
  unfolding inverseMaps_def
proof (intro allI)
  fix a' b'
  show "(f(a := None)) a' = Some b' \<longleftrightarrow> (g(b := None)) b' = Some a'"
    using assms(2) inverseMaps_iff [OF assms(1), of a' b'] inverseMaps_iff [OF assms(1), of a b']
      inverseMaps_iff [OF assms(1), of a b] by (cases "a' = a"; cases "b' = b") simp_all
qed

lemma inverseMaps_add:
  assumes "inverseMaps f g" "f a = None" "g b = None"
  shows "inverseMaps (f(a \<mapsto> b)) (g(b \<mapsto> a))"
  unfolding inverseMaps_def
proof (intro allI)
  fix a' b'
  show "(f(a \<mapsto> b)) a' = Some b' \<longleftrightarrow> (g(b \<mapsto> a)) b' = Some a'"
    using assms(2,3) inverseMaps_iff [OF assms(1), of a' b'] inverseMaps_iff [OF assms(1), of a b']
      inverseMaps_iff [OF assms(1), of a' b] by (cases "a' = a"; cases "b' = b") auto
qed

definition registryConsistent :: "server_ext \<Rightarrow> (string \<rightharpoonup> string) \<Rightarrow> 's Server \<Rightarrow> bool" where
  "registryConsistent Y m srv \<longleftrightarrow>
     dom (srv_serviceProviders srv) = dom (srv_serviceIDs srv) \<and>
     (\<forall>e md. srv_serviceProviders srv e = Some md \<longrightarrow> ed_EntityID md = e) \<and>
     inverseMaps (srv_serviceIDs srv) (entityOf Y m)"

lemma jsonLaws_user:
  "jsonLaws Y \<Longrightarrow> y_MarshalUser Y u = Inr buf \<Longrightarrow> y_UnmarshalUser Y buf = Inr (coerceUser u)"
  "jsonLaws Y \<Longrightarrow> y_UnmarshalUser Y buf = Inr u \<Longrightarrow> coerceUser u = u"
  "jsonLaws Y \<Longrightarrow> y_DecodeUser Y buf = Inr u \<Longrightarrow> coerceUser u = u"
  by (simp_all add: jsonLaws_def)

lemma jsonLaws_session:
  "jsonLaws Y \<Longrightarrow> ses_CustomAttributes s = [] \<Longrightarrow> y_MarshalStoredSession Y s = Inr buf \<Longrightarrow>
     y_UnmarshalStoredSession Y buf = Inr (coerceSession s)"
  "jsonLaws Y \<Longrightarrow> y_UnmarshalStoredSession Y buf = Inr s \<Longrightarrow> y_UnmarshalSession Y buf = Inr (Session.truncate s)"
  by (simp_all add: jsonLaws_def)

lemma jsonLaws_service:
  assumes "jsonLaws Y" "parsedMetadata Y (svc_Metadata v)" "y_MarshalService Y v = Inr buf"
  obtains v' where "y_UnmarshalService Y buf = Inr v'" "ed_EntityID (svc_Metadata v') = ed_EntityID (svc_Metadata v)"
  using assms unfolding jsonLaws_def by blast

lemma getSPMetadata_parsed:
  assumes "getSPMetadata X Y data = Inr md"
  shows "parsedMetadata Y md"
proof -
  have "\<exists>t. coverExpiry ents e = e\<lparr>ed_ValidUntil := t\<rparr>" for ents e
    by (rule exI [of _ "ed_ValidUntil (coverExpiry ents e)"]) (simp add: coverExpiry_def split: option.split)
  then have "parsedMetadata Y (coverExpiry ents e)"
    if "y_UnmarshalEntitiesDescriptor Y data = Inr ents"
      "find (\<lambda>e. ed_SPSSODescriptors e \<noteq> []) (eds_EntityDescriptors ents) = Some e" for ents e
    using that find_Some_in [OF that(2)] unfolding parsedMetadata_def by blast
  moreover have "parsedMetadata Y m" if "y_UnmarshalEntityDescriptor Y data = Inr m" for m
    using that unfolding parsedMetadata_def by blast
  ultimately show ?thesis using assms
    by (auto simp: getSPMetadata_def split: sum.splits if_splits option.splits)
qed

section \<open>Emails\<close>

lemma emailsUnique_delete: "emailsUnique Y m \<Longrightarrow> emailsUnique Y (m(k := None))"
  unfolding emailsUnique_def userOf_def decoded_upd by (simp split: if_split)

lemma emailsUnique_put:
  assumes unique: "emailsUnique Y m" and new: "y_UnmarshalUser Y buf = Inr u"
    and others: "usr_Email u \<noteq> [] \<Longrightarrow>
      \<forall>a v. userOf Y m a = Some v \<longrightarrow> a \<noteq> n \<longrightarrow> \<not> EqualFold Y (usr_Email v) (usr_Email u)"
  shows "emailsUnique Y (m(userKey n \<mapsto> buf))"
proof -
  have other: "userOf Y (m(userKey n \<mapsto> buf)) a = (if a = n then Some u else userOf Y m a)" for a
    using new by (simp add: userOf_def decoded_upd)
  show ?thesis
    unfolding emailsUnique_def other
  proof (intro allI impI)
    fix a b v w
    assume "(if a = n then Some u else userOf Y m a) = Some v" "(if b = n then Some u else userOf Y m b) = Some w"
      "usr_Email v \<noteq> []" "usr_Email w \<noteq> []" "EqualFold Y (usr_Email v) (usr_Email w)"
    then show "a = b"
      using others unique unfolding emailsUnique_def EqualFold_def by (cases "a = n"; cases "b = n") auto
  qed
qed

context key_value_store
begin

lemma get_decoded: "valid s \<Longrightarrow> Store_Get S g s k = Inr v \<Longrightarrow> decoded g (content s) k = Some v"
  by (auto elim!: get_value simp: decoded_def)

lemma get_absent_decoded:
  "valid s \<Longrightarrow> Store_Get S g s k = Inl e \<Longrightarrow> errorsIs e ErrNotFound \<Longrightarrow> decoded g (content s) k = None"
  by (auto simp: Store_Get_def bindE_def decoded_def dest: get_absent get_present split: sum.splits option.splits)

lemma emailOwnerAmong_none:
  assumes "valid s" "emailOwnerAmong S Y s email except names = Inr []" "[] \<notin> set names"
    "name \<in> set names" "name \<noteq> except" "userOf Y (content s) name = Some v"
  shows "\<not> EqualFold Y (usr_Email v) email"
  using assms(2-)
proof (induction names)
  case (Cons n names)
  show ?case
  proof (cases "Store_Get S (y_UnmarshalUser Y) s (userKey n)")
    case (Inl e)
    then show ?thesis
      using Cons get_absent_decoded [OF assms(1) Inl] by (auto simp: userOf_def split: if_splits)
  next
    case (Inr u)
    then have "userOf Y (content s) n = Some u" using assms(1) by (simp add: userOf_def get_decoded)
    then show ?thesis using Cons Inr by (auto split: if_splits)
  qed
qed simp

lemma emailOwner_none:
  assumes "valid s" "emailOwner S Y s email except = Inr []" "[] \<notin> keysBelow ''/users/'' (content s)"
    "userOf Y (content s) name = Some v" "name \<noteq> except"
  shows "\<not> EqualFold Y (usr_Email v) email"
proof -
  obtain names where "st_List S s ''/users/'' = Inr names" and none: "emailOwnerAmong S Y s email except names = Inr []"
    using assms(2) by (auto simp: emailOwner_def bindE_def split: sum.splits)
  then have "set names = keysBelow ''/users/'' (content s)" using assms(1) by (simp add: list_keys)
  then show ?thesis
    using emailOwnerAmong_none [OF assms(1) none] assms(3,4,5) userOf_key [OF assms(4)] by simp
qed

end

section \<open>What the user handlers do to a store\<close>

text \<open>\<^verbatim>\<open>endUserSessions\<close> removes some sessions and nothing else.\<close>

definition dropSessions :: "string set \<Rightarrow> (string \<rightharpoonup> string) \<Rightarrow> string \<rightharpoonup> string" where
  "dropSessions D m = m |` (- sessionKey ` D)"

lemma dropSessions_empty [simp]: "dropSessions {} m = m"
  by (simp add: dropSessions_def restrict_map_def)

lemma dropSessions_delete: "dropSessions D (m(sessionKey sid := None)) = dropSessions (insert sid D) m"
  by (auto simp: dropSessions_def restrict_map_def fun_eq_iff)

lemma dropSessions_views [simp]:
  "userOf Y (dropSessions D m) n = userOf Y m n" "serviceOf Y (dropSessions D m) i = serviceOf Y m i"
  "sessionOf Y (dropSessions D m) sid = (if sid \<in> D then None else sessionOf Y m sid)"
  by (auto simp: view_defs decoded_def dropSessions_def restrict_map_def)

lemma keysBelow_dropSessions [simp]: "keysBelow ''/users/'' (dropSessions D m) = keysBelow ''/users/'' m"
  by (auto simp: keysBelow_def dropSessions_def restrict_map_def sessionKey_def image_iff)

lemma emailsUnique_dropSessions [simp]: "emailsUnique Y (dropSessions D m) = emailsUnique Y m"
  by (simp add: emailsUnique_def)

context key_value_store
begin

lemma endSessionsOf_drops:
  "valid s \<Longrightarrow> endSessionsOf S Y name sids s = (s', res) \<Longrightarrow>
     valid s' \<and> (\<exists>D. content s' = dropSessions D (content s))"
proof (induction sids arbitrary: s)
  case Nil
  then show ?case by (auto intro: exI [of _ "{}"])
next
  case (Cons sid sids)
  show ?case
  proof (cases "endSessionsOf S Y name sids s = (s', res) \<or> s' = s")
    case True
    then show ?thesis using Cons by (auto intro: exI [of _ "{}"])
  next
    case False
    then obtain s1 where deleted: "st_Delete S s (sessionKey sid) = Inr s1" and rest: "endSessionsOf S Y name sids s1 = (s', res)"
      using Cons.prems by (auto split: sum.splits if_splits)
    have "valid s1" "content s1 = (content s)(sessionKey sid := None)"
      using deleted Cons.prems(1) by (simp_all add: delete_valid delete_content)
    with Cons.IH [OF _ rest] show ?thesis by (metis dropSessions_delete)
  qed
qed

lemma endUserSessions_drops:
  assumes "valid s" "endUserSessions S Y name s = (s', res)"
  obtains D where "valid s'" "content s' = dropSessions D (content s)"
proof (cases "st_List S s ''/sessions/''")
  case (Inl e)
  then show thesis using assms that [of "{}"] by (simp add: endUserSessions_def)
next
  case (Inr sids)
  then show thesis using assms that endSessionsOf_drops by (fastforce simp: endUserSessions_def)
qed

end

text \<open>The user that \<^verbatim>\<open>HandlePutUser\<close> stores.\<close>

definition putUserRequested :: "'s Store \<Rightarrow> server_ext \<Rightarrow> server_env \<Rightarrow> 's \<Rightarrow> http_request \<Rightarrow> User \<Rightarrow> bool" where
  "putUserRequested S Y env s r user \<longleftrightarrow>
     (\<exists>sent. y_DecodeUser Y (requestBody r) = Inr sent \<and> usr_Email user = usr_Email sent) \<and>
     usr_Name user = PathValue r ''id'' \<and> usr_PlaintextPassword user = None \<and> usr_Revision user = se_Revision env \<and>
     (usr_Email user \<noteq> [] \<longrightarrow> emailOwner S Y s (usr_Email user) (PathValue r ''id'') = Inr [])"

lemma passwordHash_keeps:
  "passwordHash S Y env s key u = Inr v \<Longrightarrow> usr_Email v = usr_Email u \<and> usr_Name v = usr_Name u"
  by (auto simp: passwordHash_def bindE_def split: option.splits sum.splits if_splits)

lemma HandlePutUser_runs:
  assumes "HandlePutUser S Y env srv r = (srv', ws)" "srv' \<noteq> srv \<or> ws = [WriteStatus StatusNoContent]"
  obtains user s1 s2 res where "putUserRequested S Y env (srv_Store srv) r user"
    "Store_Put S (y_MarshalUser Y) (srv_Store srv) (userKey (PathValue r ''id'')) user = Inr s1"
    "endUserSessions S Y (PathValue r ''id'') s1 = (s2, res)" "srv' = srv\<lparr>srv_Store := s2\<rparr>"
proof -
  obtain sent where sent: "y_DecodeUser Y (requestBody r) = Inr sent"
    using assms by (auto simp: HandlePutUser_def split: sum.splits)
  let ?u = "sent\<lparr>usr_Name := PathValue r ''id''\<rparr>"
  have free: "(if usr_Email ?u \<noteq> [] then emailOwner S Y (srv_Store srv) (usr_Email ?u) (PathValue r ''id'') else Inr []) = Inr []"
    using assms sent by (simp add: HandlePutUser_def Let_def split: sum.splits if_splits)
  then obtain v where hashed: "passwordHash S Y env (srv_Store srv) (userKey (PathValue r ''id'')) ?u = Inr v"
    using assms sent by (auto simp: HandlePutUser_def Let_def split: sum.splits if_splits)
  let ?w = "v\<lparr>usr_PlaintextPassword := None, usr_Revision := se_Revision env\<rparr>"
  obtain s1 where put: "Store_Put S (y_MarshalUser Y) (srv_Store srv) (userKey (PathValue r ''id'')) ?w = Inr s1"
    using assms sent free hashed by (auto simp: HandlePutUser_def Let_def split: sum.splits if_splits)
  obtain s2 res where ended: "endUserSessions S Y (PathValue r ''id'') s1 = (s2, res)" by fastforce
  have "srv' = srv\<lparr>srv_Store := s2\<rparr>"
    using assms sent free hashed put ended passwordHash_keeps [OF hashed]
    by (auto simp: HandlePutUser_def Let_def split: sum.splits if_splits)
  moreover have "putUserRequested S Y env (srv_Store srv) r ?w"
    using sent free passwordHash_keeps [OF hashed] by (auto simp: putUserRequested_def split: if_splits)
  ultimately show thesis using that put ended by blast
qed

lemma HandleDeleteUser_runs:
  assumes "HandleDeleteUser S Y srv r = (srv', ws)" "srv' \<noteq> srv \<or> ws = [WriteStatus StatusNoContent]"
  obtains s1 s2 res where "st_Delete S (srv_Store srv) (userKey (PathValue r ''id'')) = Inr s1"
    "endUserSessions S Y (PathValue r ''id'') s1 = (s2, res)" "srv' = srv\<lparr>srv_Store := s2\<rparr>"
  using assms by (auto simp: HandleDeleteUser_def split: sum.splits prod.splits)

context key_value_store
begin

lemma HandlePutUser_content:
  assumes "valid (srv_Store srv)" "HandlePutUser S Y env srv r = (srv', ws)" "srv' \<noteq> srv \<or> ws = [WriteStatus StatusNoContent]"
  obtains user buf D where "putUserRequested S Y env (srv_Store srv) r user" "y_MarshalUser Y user = Inr buf"
    "content (srv_Store srv') = dropSessions D ((content (srv_Store srv))(userKey (PathValue r ''id'') \<mapsto> buf))"
    "valid (srv_Store srv')" "srv' = srv\<lparr>srv_Store := srv_Store srv'\<rparr>"
proof (rule HandlePutUser_runs [OF assms(2,3)])
  fix user s1 s2 res
  assume user: "putUserRequested S Y env (srv_Store srv) r user"
    and put: "Store_Put S (y_MarshalUser Y) (srv_Store srv) (userKey (PathValue r ''id'')) user = Inr s1"
    and ended: "endUserSessions S Y (PathValue r ''id'') s1 = (s2, res)" and srv': "srv' = srv\<lparr>srv_Store := s2\<rparr>"
  obtain buf where buf: "y_MarshalUser Y user = Inr buf"
      "content s1 = (content (srv_Store srv))(userKey (PathValue r ''id'') \<mapsto> buf)" "valid s1"
    using put_value [OF assms(1) put] .
  obtain D where "valid s2" "content s2 = dropSessions D (content s1)"
    using endUserSessions_drops [OF buf(3) ended] .
  then show thesis using that user buf srv' by simp
qed

lemma HandleDeleteUser_content:
  assumes "valid (srv_Store srv)" "HandleDeleteUser S Y srv r = (srv', ws)" "srv' \<noteq> srv \<or> ws = [WriteStatus StatusNoContent]"
  obtains D where
    "content (srv_Store srv') = dropSessions D ((content (srv_Store srv))(userKey (PathValue r ''id'') := None))"
    "valid (srv_Store srv')" "srv' = srv\<lparr>srv_Store := srv_Store srv'\<rparr>"
proof (rule HandleDeleteUser_runs [OF assms(2,3)])
  fix s1 s2 res
  assume deleted: "st_Delete S (srv_Store srv) (userKey (PathValue r ''id'')) = Inr s1"
    and ended: "endUserSessions S Y (PathValue r ''id'') s1 = (s2, res)" and srv': "srv' = srv\<lparr>srv_Store := s2\<rparr>"
  have s1: "valid s1" "content s1 = (content (srv_Store srv))(userKey (PathValue r ''id'') := None)"
    using deleted assms(1) by (simp_all add: delete_valid delete_content)
  obtain D where "valid s2" "content s2 = dropSessions D (content s1)"
    using endUserSessions_drops [OF s1(1) ended] .
  then show thesis using that s1 srv' by simp
qed

lemma HandlePutUser_emails:
  assumes json: "jsonLaws Y" and store: "valid (srv_Store srv)"
    and unique: "emailsUnique Y (content (srv_Store srv))" "[] \<notin> keysBelow ''/users/'' (content (srv_Store srv))"
    and run: "HandlePutUser S Y env srv r = (srv', ws)"
  shows "emailsUnique Y (content (srv_Store srv'))"
proof (cases "srv' = srv")
  case False
  then obtain user buf D where user: "putUserRequested S Y env (srv_Store srv) r user"
      and buf: "y_MarshalUser Y user = Inr buf"
      and content: "content (srv_Store srv') = dropSessions D ((content (srv_Store srv))(userKey (PathValue r ''id'') \<mapsto> buf))"
    using HandlePutUser_content [OF store run] by metis
  obtain sent where sent: "y_DecodeUser Y (requestBody r) = Inr sent" "usr_Email user = usr_Email sent"
    using user by (auto simp: putUserRequested_def)
  have "usr_Email (coerceUser sent) = usr_Email sent" using jsonLaws_user(3) [OF json sent(1)] by simp
  then have email: "usr_Email (coerceUser user) = usr_Email user" using sent(2) by (simp add: coerceUser_def)
  show ?thesis unfolding content emailsUnique_dropSessions
  proof (rule emailsUnique_put [OF unique(1) jsonLaws_user(1) [OF json buf]], intro allI impI)
    fix a v assume "usr_Email (coerceUser user) \<noteq> []" "userOf Y (content (srv_Store srv)) a = Some v" "a \<noteq> PathValue r ''id''"
    then show "\<not> EqualFold Y (usr_Email v) (usr_Email (coerceUser user))"
      using emailOwner_none [OF store _ unique(2)] user email by (auto simp: putUserRequested_def)
  qed
qed (use unique in simp)

end

text \<open>The folded email of a user and the users among some names that have one.\<close>

definition foldedEmail :: "server_ext \<Rightarrow> (string \<rightharpoonup> string) \<Rightarrow> string \<Rightarrow> string" where
  "foldedEmail Y m name = y_Fold Y (usr_Email (the (userOf Y m name)))"

definition withEmail :: "server_ext \<Rightarrow> (string \<rightharpoonup> string) \<Rightarrow> string set \<Rightarrow> string set" where
  "withEmail Y m names = {n \<in> names. \<exists>u. userOf Y m n = Some u \<and> usr_Email u \<noteq> []}"

lemma emailsUnique_inj: "emailsUnique Y m \<longleftrightarrow> inj_on (foldedEmail Y m) (withEmail Y m UNIV)"
  by (auto simp: emailsUnique_def inj_on_def foldedEmail_def withEmail_def EqualFold_def)

lemma withEmail_insert: "withEmail Y m (insert n names) =
    (if \<exists>u. userOf Y m n = Some u \<and> usr_Email u \<noteq> [] then insert n (withEmail Y m names) else withEmail Y m names)"
  by (auto simp: withEmail_def)

lemma withEmail_users: "withEmail Y m (keysBelow ''/users/'' m) = withEmail Y m UNIV"
  by (auto simp: withEmail_def dest: userOf_key)

context reliable_store
begin

lemma get_userOf:
  "valid s \<Longrightarrow> Store_Get S (y_UnmarshalUser Y) s (userKey n) = Inr u \<longleftrightarrow> userOf Y (content s) n = Some u"
  by (auto simp: get_value_eq userOf_def decoded_def split: option.splits sum.splits)

lemma checkEmails_exact:
  "valid s \<Longrightarrow> distinct names \<Longrightarrow> checkEmails S Y s emails names = Inr () \<longleftrightarrow>
    set names \<subseteq> dom (userOf Y (content s)) \<and> inj_on (foldedEmail Y (content s)) (withEmail Y (content s) (set names)) \<and>
    foldedEmail Y (content s) ` withEmail Y (content s) (set names) \<inter> (\<lambda>other. y_Fold Y (snd other)) ` set emails = {}"
proof (induction names arbitrary: emails)
  case Nil
  then show ?case by (simp add: withEmail_def)
next
  case (Cons n names)
  show ?case
  proof (cases "Store_Get S (y_UnmarshalUser Y) s (userKey n)")
    case (Inl e)
    then have "n \<notin> dom (userOf Y (content s))" using get_userOf [OF Cons.prems(1), of Y n] by fastforce
    then show ?thesis using Inl by (simp add: bindE_def)
  next
    case (Inr u)
    then have u: "userOf Y (content s) n = Some u" using get_userOf Cons.prems(1) by blast
    have rest: "n \<notin> withEmail Y (content s) (set names)" using Cons.prems(2) by (simp add: withEmail_def)
    show ?thesis
    proof (cases "usr_Email u = []")
      case True
      then show ?thesis using Cons Inr u by (auto simp: bindE_def withEmail_insert)
    next
      case email: False
      have folded: "foldedEmail Y (content s) n = y_Fold Y (usr_Email u)" using u by (simp add: foldedEmail_def)
      show ?thesis
      proof (cases "find (\<lambda>other. EqualFold Y (snd other) (usr_Email u)) emails")
        case (Some other)
        then have "other \<in> set emails" "EqualFold Y (snd other) (usr_Email u)" by (auto simp: find_Some_iff)
        then show ?thesis
          using Inr Some u email by (simp add: bindE_def withEmail_insert folded EqualFold_def) (metis imageI)
      next
        case None
        then have "\<forall>other \<in> set emails. y_Fold Y (snd other) \<noteq> y_Fold Y (usr_Email u)"
          by (auto simp: find_None_iff EqualFold_def)
        then show ?thesis
          using Cons.IH [of "emails @ [(n, usr_Email u)]"] Cons.prems Inr None u email rest
          by (auto simp: bindE_def withEmail_insert folded)
      qed
    qed
  qed
qed

lemma checkUserEmails_iff:
  assumes "valid s"
  shows "checkUserEmails S Y s = Inr () \<longleftrightarrow>
    keysBelow ''/users/'' (content s) \<subseteq> dom (userOf Y (content s)) \<and> emailsUnique Y (content s)"
proof -
  obtain names where names: "st_List S s ''/users/'' = Inr names" using list_total [OF assms] by blast
  then have "set names = keysBelow ''/users/'' (content s)" "distinct names"
    using assms list_keys list_distinct by blast+
  then show ?thesis
    using checkEmails_exact [OF assms, of "sort names" Y "[]"] names
    by (simp add: checkUserEmails_def bindE_def emailsUnique_inj withEmail_users)
qed

end

section \<open>Registered service providers\<close>

lemma entityOf_upd:
  "entityOf Y (m(serviceKey sid := None)) = (entityOf Y m)(sid := None)"
  "y_UnmarshalService Y buf = Inr v \<Longrightarrow>
     entityOf Y (m(serviceKey sid \<mapsto> buf)) = (entityOf Y m)(sid \<mapsto> ed_EntityID (svc_Metadata v))"
  by (auto simp: entityOf_def serviceOf_def decoded_upd fun_eq_iff)

lemma registryConsistent_other_keys [simp]:
  "registryConsistent Y (m(userKey n := x)) srv = registryConsistent Y m srv"
  "registryConsistent Y (m(sessionKey n := x)) srv = registryConsistent Y m srv"
  "registryConsistent Y (m(shortcutKey n := x)) srv = registryConsistent Y m srv"
  "registryConsistent Y (dropSessions D m) srv = registryConsistent Y m srv"
  "registryConsistent Y m (srv\<lparr>srv_Store := s\<rparr>) = registryConsistent Y m srv"
  by (simp_all add: registryConsistent_def inverseMaps_def entityOf_def)

lemma registryConsistent_delete:
  assumes "registryConsistent Y m srv" "serviceOf Y m sid = Some old"
  shows "registryConsistent Y (m(serviceKey sid := None))
    (deregisterServiceProvider sid (ed_EntityID (svc_Metadata old)) srv)"
proof -
  have inverse: "inverseMaps (srv_serviceIDs srv) (entityOf Y m)" and dom: "dom (srv_serviceProviders srv) = dom (srv_serviceIDs srv)"
    and own: "\<forall>e md. srv_serviceProviders srv e = Some md \<longrightarrow> ed_EntityID md = e"
    using assms(1) by (simp_all add: registryConsistent_def)
  have entity: "entityOf Y m sid = Some (ed_EntityID (svc_Metadata old))" using assms(2) by (simp add: entityOf_def)
  then have "srv_serviceIDs srv (ed_EntityID (svc_Metadata old)) = Some sid" using inverse by (simp add: inverseMaps_def)
  then show ?thesis
    using inverseMaps_delete [OF inverse entity] dom own
    by (auto simp: deregisterServiceProvider_def registryConsistent_def entityOf_upd)
qed

lemma registryConsistent_register:
  assumes "registryConsistent Y (m(serviceKey sid := None)) srv" "srv_serviceIDs srv (ed_EntityID md) = None"
    "y_UnmarshalService Y buf = Inr v" "ed_EntityID (svc_Metadata v) = ed_EntityID md"
  shows "registryConsistent Y (m(serviceKey sid \<mapsto> buf)) (registerServiceProvider sid md srv)"
proof -
  have "inverseMaps ((srv_serviceIDs srv)(ed_EntityID md \<mapsto> sid)) ((entityOf Y (m(serviceKey sid := None)))(sid \<mapsto> ed_EntityID md))"
    using assms by (intro inverseMaps_add) (simp_all add: registryConsistent_def entityOf_upd)
  then show ?thesis
    using assms by (auto simp: registerServiceProvider_def registryConsistent_def entityOf_upd split: if_splits)
qed

lemma HandlePutService_runs:
  assumes "HandlePutService X S Y now srv r = (srv', ws)" "srv' \<noteq> srv \<or> ws = [WriteStatus StatusNoContent]"
  obtains md s previous where "getSPMetadata X Y (requestBody r) = Inr md" "recognizedUses md" "currentMetadata md now \<noteq> None"
    "srv_serviceProviders srv (ed_EntityID md) = None \<or>
      (case srv_serviceIDs srv (ed_EntityID md) of None \<Rightarrow> [] | Some i \<Rightarrow> i) = PathValue r ''id''"
    "Store_Get S (y_UnmarshalService Y) (srv_Store srv) (serviceKey (PathValue r ''id'')) = previous"
    "\<And>e. previous = Inl e \<Longrightarrow> errorsIs e ErrNotFound"
    "Store_Put S (y_MarshalService Y) (srv_Store srv) (serviceKey (PathValue r ''id'')) \<lparr>svc_Name = [], svc_Metadata = md\<rparr> = Inr s"
    "srv' = registerServiceProvider (PathValue r ''id'') md
      (case previous of
         Inr p \<Rightarrow> deregisterServiceProvider (PathValue r ''id'') (ed_EntityID (svc_Metadata p)) (srv\<lparr>srv_Store := s\<rparr>)
       | Inl _ \<Rightarrow> srv\<lparr>srv_Store := s\<rparr>)"
proof -
  obtain md where md: "getSPMetadata X Y (requestBody r) = Inr md"
    using assms by (cases "getSPMetadata X Y (requestBody r)") (auto simp: HandlePutService_def Let_def)
  note run = assms [unfolded HandlePutService_def Let_def md sum.case]
  have ok: "recognizedUses md" "currentMetadata md now \<noteq> None"
    "srv_serviceProviders srv (ed_EntityID md) = None \<or>
      (case srv_serviceIDs srv (ed_EntityID md) of None \<Rightarrow> [] | Some i \<Rightarrow> i) = PathValue r ''id''"
    using run by (auto split: if_splits)
  let ?p = "Store_Get S (y_UnmarshalService Y) (srv_Store srv) (serviceKey (PathValue r ''id''))"
  have found: "\<And>e. ?p = Inl e \<Longrightarrow> errorsIs e ErrNotFound" using run ok by (auto split: if_splits)
  then have "\<not> (case ?p of Inl e \<Rightarrow> \<not> errorsIs e ErrNotFound | Inr _ \<Rightarrow> False)" by (simp split: sum.split)
  with run ok obtain s where
    "Store_Put S (y_MarshalService Y) (srv_Store srv) (serviceKey (PathValue r ''id'')) \<lparr>svc_Name = [], svc_Metadata = md\<rparr> = Inr s"
    "srv' = registerServiceProvider (PathValue r ''id'') md
      (case ?p of
         Inr p \<Rightarrow> deregisterServiceProvider (PathValue r ''id'') (ed_EntityID (svc_Metadata p)) (srv\<lparr>srv_Store := s\<rparr>)
       | Inl _ \<Rightarrow> srv\<lparr>srv_Store := s\<rparr>)"
    by (cases "Store_Put S (y_MarshalService Y) (srv_Store srv) (serviceKey (PathValue r ''id'')) \<lparr>svc_Name = [], svc_Metadata = md\<rparr>")
      (auto split: if_splits)
  then show thesis using that [of md ?p s] md ok found by simp
qed

lemma HandleDeleteService_runs:
  assumes "HandleDeleteService S Y srv r = (srv', ws)" "srv' \<noteq> srv \<or> ws = [WriteStatus StatusNoContent]"
  obtains service s where
    "Store_Get S (y_UnmarshalService Y) (srv_Store srv) (serviceKey (PathValue r ''id'')) = Inr service"
    "st_Delete S (srv_Store srv) (serviceKey (PathValue r ''id'')) = Inr s"
    "srv' = deregisterServiceProvider (PathValue r ''id'') (ed_EntityID (svc_Metadata service)) (srv\<lparr>srv_Store := s\<rparr>)"
  using assms by (auto simp: HandleDeleteService_def Let_def split: sum.splits)

lemma register_store [simp]:
  "srv_Store (registerServiceProvider sid md srv) = srv_Store srv"
  "srv_Store (deregisterServiceProvider sid e srv) = srv_Store srv"
  by (simp_all add: registerServiceProvider_def deregisterServiceProvider_def)

lemma deregister_none:
  "srv_serviceIDs srv e = None \<Longrightarrow> srv_serviceIDs (deregisterServiceProvider sid e' srv) e = None"
  "srv_serviceIDs srv e = Some sid \<Longrightarrow> srv_serviceIDs (deregisterServiceProvider sid e srv) e = None"
  by (simp_all add: deregisterServiceProvider_def)

context key_value_store
begin

lemma HandlePutService_registry:
  assumes json: "jsonLaws Y" and store: "valid (srv_Store srv)"
    and consistent: "registryConsistent Y (content (srv_Store srv)) srv"
    and run: "HandlePutService X S Y now srv r = (srv', ws)" "srv' \<noteq> srv \<or> ws = [WriteStatus StatusNoContent]"
  obtains buf where "registryConsistent Y (content (srv_Store srv')) srv'" "valid (srv_Store srv')"
    "content (srv_Store srv') = (content (srv_Store srv))(serviceKey (PathValue r ''id'') \<mapsto> buf)"
proof (rule HandlePutService_runs [OF run])
  fix md s previous
  let ?id = "PathValue r ''id''" and ?m = "content (srv_Store srv)"
  assume md: "getSPMetadata X Y (requestBody r) = Inr md"
    and free: "srv_serviceProviders srv (ed_EntityID md) = None \<or>
      (case srv_serviceIDs srv (ed_EntityID md) of None \<Rightarrow> [] | Some i \<Rightarrow> i) = ?id"
    and previous: "Store_Get S (y_UnmarshalService Y) (srv_Store srv) (serviceKey ?id) = previous"
      "\<And>e. previous = Inl e \<Longrightarrow> errorsIs e ErrNotFound"
    and put: "Store_Put S (y_MarshalService Y) (srv_Store srv) (serviceKey ?id) \<lparr>svc_Name = [], svc_Metadata = md\<rparr> = Inr s"
    and srv': "srv' = registerServiceProvider ?id md
      (case previous of Inr p \<Rightarrow> deregisterServiceProvider ?id (ed_EntityID (svc_Metadata p)) (srv\<lparr>srv_Store := s\<rparr>)
       | Inl _ \<Rightarrow> srv\<lparr>srv_Store := s\<rparr>)"
  obtain buf where buf: "y_MarshalService Y \<lparr>svc_Name = [], svc_Metadata = md\<rparr> = Inr buf"
      and s: "content s = ?m(serviceKey ?id \<mapsto> buf)" "valid s"
    using put_value [OF store put] .
  obtain v where v: "y_UnmarshalService Y buf = Inr v" "ed_EntityID (svc_Metadata v) = ed_EntityID md"
    using jsonLaws_service [OF json _ buf] getSPMetadata_parsed [OF md] by auto
  have owned: "srv_serviceIDs srv (ed_EntityID md) \<in> {None, Some ?id}"
    using free consistent by (auto simp: registryConsistent_def split: option.splits)
  have "\<exists>srv1. srv' = registerServiceProvider ?id md srv1 \<and> srv_Store srv1 = s \<and>
      registryConsistent Y (?m(serviceKey ?id := None)) srv1 \<and> srv_serviceIDs srv1 (ed_EntityID md) = None" (is "\<exists>srv1. ?P srv1")
  proof (cases previous)
    case (Inl e)
    then have "serviceOf Y ?m ?id = None" using get_absent_decoded [OF store] previous by (simp add: serviceOf_def)
    then have "entityOf Y ?m ?id = None" by (simp add: entityOf_def)
    moreover from this have "entityOf Y (?m(serviceKey ?id := None)) = entityOf Y ?m" by (simp add: entityOf_upd fun_upd_idem)
    moreover have "srv_serviceIDs srv (ed_EntityID md) \<noteq> Some ?id"
      using calculation(1) consistent by (simp add: registryConsistent_def inverseMaps_def)
    ultimately show ?thesis using Inl srv' consistent owned by (intro exI [of _ "srv\<lparr>srv_Store := s\<rparr>"]) (auto simp: registryConsistent_def)
  next
    case (Inr p)
    then have p: "serviceOf Y ?m ?id = Some p" using get_decoded [OF store] previous(1) by (simp add: serviceOf_def)
    let ?srv1 = "deregisterServiceProvider ?id (ed_EntityID (svc_Metadata p)) (srv\<lparr>srv_Store := s\<rparr>)"
    have "registryConsistent Y (?m(serviceKey ?id := None)) ?srv1"
      by (rule registryConsistent_delete [OF _ p]) (simp add: consistent)
    moreover have "srv_serviceIDs srv (ed_EntityID md) = Some ?id \<Longrightarrow> ed_EntityID (svc_Metadata p) = ed_EntityID md"
      using p consistent by (simp add: registryConsistent_def inverseMaps_def entityOf_def)
    then have "srv_serviceIDs ?srv1 (ed_EntityID md) = None" using owned by (auto simp: deregister_none)
    ultimately show ?thesis using Inr srv' by auto
  qed
  then obtain srv1 where "?P srv1" ..
  then show thesis using that [of buf] s registryConsistent_register [OF _ _ v, of ?m ?id srv1] by simp
qed

lemma HandleDeleteService_registry:
  assumes "valid (srv_Store srv)" "registryConsistent Y (content (srv_Store srv)) srv"
    "HandleDeleteService S Y srv r = (srv', ws)" "srv' \<noteq> srv \<or> ws = [WriteStatus StatusNoContent]"
  shows "registryConsistent Y (content (srv_Store srv')) srv'" "valid (srv_Store srv')"
    "content (srv_Store srv') = (content (srv_Store srv))(serviceKey (PathValue r ''id'') := None)"
proof -
  obtain service s where service: "Store_Get S (y_UnmarshalService Y) (srv_Store srv) (serviceKey (PathValue r ''id'')) = Inr service"
    and s: "st_Delete S (srv_Store srv) (serviceKey (PathValue r ''id'')) = Inr s"
    and srv': "srv' = deregisterServiceProvider (PathValue r ''id'') (ed_EntityID (svc_Metadata service)) (srv\<lparr>srv_Store := s\<rparr>)"
    using HandleDeleteService_runs [OF assms(3,4)] .
  show "valid (srv_Store srv')" "content (srv_Store srv') = (content (srv_Store srv))(serviceKey (PathValue r ''id'') := None)"
    using s assms(1) by (simp_all add: srv' delete_valid delete_content)
  then show "registryConsistent Y (content (srv_Store srv')) srv'"
    using registryConsistent_delete [of Y "content (srv_Store srv)" "srv\<lparr>srv_Store := s\<rparr>"] service assms(1,2)
    by (simp add: srv' serviceOf_def get_decoded)
qed

end

text \<open>Services registered so far, when the stored ones are read in turn.\<close>

definition registeredUpTo :: "server_ext \<Rightarrow> (string \<rightharpoonup> string) \<Rightarrow> string set \<Rightarrow> 's Server \<Rightarrow> bool" where
  "registeredUpTo Y m N srv \<longleftrightarrow>
     dom (srv_serviceProviders srv) = dom (srv_serviceIDs srv) \<and>
     (\<forall>e md. srv_serviceProviders srv e = Some md \<longrightarrow> ed_EntityID md = e) \<and>
     inverseMaps (srv_serviceIDs srv) (entityOf Y m |` N)"

lemma registeredUpTo_all: "registeredUpTo Y m (keysBelow ''/services/'' m) srv \<longleftrightarrow> registryConsistent Y m srv"
proof -
  have "entityOf Y m |` keysBelow ''/services/'' m = entityOf Y m"
    by (auto simp: restrict_map_def entityOf_def fun_eq_iff dest: serviceOf_key) (metis not_Some_eq serviceOf_key)
  then show ?thesis by (simp add: registeredUpTo_def registryConsistent_def)
qed

context key_value_store
begin

lemma registerServices_registered:
  assumes "valid s" "distinct names" "set names \<inter> N = {}" "srv_Store srv = s" "registeredUpTo Y (content s) N srv"
    "registerServices S Y srv names = Inr srv'"
  shows "registeredUpTo Y (content s) (N \<union> set names) srv' \<and> srv_Store srv' = s"
  using assms(2-)
proof (induction names arbitrary: N srv)
  case (Cons name names)
  then obtain v where read: "Store_Get S (y_UnmarshalService Y) s (serviceKey name) = Inr v"
      and new: "srv_serviceIDs srv (ed_EntityID (svc_Metadata v)) = None"
      and rest: "registerServices S Y (registerServiceProvider name (svc_Metadata v) srv) names = Inr srv'"
    by (auto simp: bindE_def split: sum.splits option.splits)
  have "entityOf Y (content s) name = Some (ed_EntityID (svc_Metadata v))"
    using get_decoded [OF assms(1) read] by (simp add: entityOf_def serviceOf_def)
  then have "entityOf Y (content s) |` insert name N = (entityOf Y (content s) |` N)(name \<mapsto> ed_EntityID (svc_Metadata v))"
    by (auto simp: restrict_map_def fun_eq_iff)
  moreover have "(entityOf Y (content s) |` N) name = None" using Cons.prems by (simp add: restrict_map_def)
  ultimately have "registeredUpTo Y (content s) (insert name N) (registerServiceProvider name (svc_Metadata v) srv)"
    using Cons.prems(4) new inverseMaps_add
    by (auto simp: registeredUpTo_def registerServiceProvider_def)
  then show ?case using Cons.IH [OF _ _ _ _ rest, of "insert name N"] Cons.prems by simp
qed simp

lemma initializeServices_registry:
  assumes "valid (srv_Store srv)" "srv_serviceProviders srv = Map.empty" "srv_serviceIDs srv = Map.empty"
    "initializeServices S Y srv = Inr srv'"
  shows "registryConsistent Y (content (srv_Store srv')) srv'" "srv_Store srv' = srv_Store srv"
proof -
  obtain names where names: "st_List S (srv_Store srv) ''/services/'' = Inr names"
      and run: "registerServices S Y srv (sort names) = Inr srv'"
    using assms(4) by (auto simp: initializeServices_def bindE_def split: sum.splits)
  have "registeredUpTo Y (content (srv_Store srv)) {} srv"
    using assms(2,3) by (simp add: registeredUpTo_def inverseMaps_def)
  then have "registeredUpTo Y (content (srv_Store srv)) ({} \<union> set (sort names)) srv' \<and> srv_Store srv' = srv_Store srv"
    using list_distinct [OF assms(1) names] by (intro registerServices_registered [OF assms(1) _ _ _ _ run]) simp_all
  then show "registryConsistent Y (content (srv_Store srv')) srv'" "srv_Store srv' = srv_Store srv"
    using list_keys [OF assms(1) names] registeredUpTo_all by auto
qed

end

section \<open>Reachable servers\<close>

text \<open>The handlers that change the state, each as one step: the calls of the session provider, which \<^verbatim>\<open>/login\<close>,
  \<^verbatim>\<open>/login/{shortcut}\<close>, \<^verbatim>\<open>/sso\<close> and \<^verbatim>\<open>/logout\<close> make, and the administrative handlers.\<close>

inductive served :: "externs \<Rightarrow> 's Store \<Rightarrow> server_ext \<Rightarrow> 's Server \<Rightarrow> 's Server \<Rightarrow> bool" for X S Y where
  get_session: "served X S Y srv (fst (Server_GetSession S Y env srv r req))"
| forced_session: "served X S Y srv (fst (Server_GetForcedSession S Y env srv r req))"
| terminate: "served X S Y srv (fst (TerminateSession S Y now srv r lreq))"
| delete_session: "served X S Y srv (fst (HandleDeleteSession S srv r))"
| put_user: "PathValue r ''id'' \<noteq> [] \<Longrightarrow> served X S Y srv (fst (HandlePutUser S Y env srv r))"
| delete_user: "served X S Y srv (fst (HandleDeleteUser S Y srv r))"
| put_service: "served X S Y srv (fst (HandlePutService X S Y now srv r))"
| delete_service: "served X S Y srv (fst (HandleDeleteService S Y srv r))"
| put_shortcut: "served X S Y srv (fst (HandlePutShortcut S Y srv r))"
| delete_shortcut: "served X S Y srv (fst (HandleDeleteShortcut S srv r))"

definition serverConsistent :: "server_ext \<Rightarrow> (string \<rightharpoonup> string) \<Rightarrow> 's Server \<Rightarrow> bool" where
  "serverConsistent Y m srv \<longleftrightarrow> emailsUnique Y m \<and> [] \<notin> keysBelow ''/users/'' m \<and> registryConsistent Y m srv"

lemma emailsUnique_other_keys [simp]:
  "emailsUnique Y (m(sessionKey n := x)) = emailsUnique Y m" "emailsUnique Y (m(serviceKey n := x)) = emailsUnique Y m"
  "emailsUnique Y (m(shortcutKey n := x)) = emailsUnique Y m"
  by (simp_all add: emailsUnique_def)

lemma serverConsistent_other_keys:
  "serverConsistent Y m srv \<Longrightarrow> serverConsistent Y (m(sessionKey n := x)) (srv\<lparr>srv_Store := s\<rparr>)"
  "serverConsistent Y m srv \<Longrightarrow> serverConsistent Y (m(shortcutKey n := x)) (srv\<lparr>srv_Store := s\<rparr>)"
  by (simp_all add: serverConsistent_def)

context key_value_store
begin

definition sound :: "server_ext \<Rightarrow> 's Server \<Rightarrow> bool" where
  "sound Y srv \<longleftrightarrow> valid (srv_Store srv) \<and> serverConsistent Y (content (srv_Store srv)) srv"

lemma sound_update:
  assumes "sound Y srv" "valid s" "content s = (content (srv_Store srv))(k := x)" "k \<in> range sessionKey \<union> range shortcutKey"
  shows "sound Y (srv\<lparr>srv_Store := s\<rparr>)"
  using assms by (auto simp: sound_def serverConsistent_other_keys)

lemma sound_put:
  assumes "sound Y srv" "Store_Put S g (srv_Store srv) k v = Inr s" "k \<in> range sessionKey \<union> range shortcutKey"
  shows "sound Y (srv\<lparr>srv_Store := s\<rparr>)"
proof -
  have "valid (srv_Store srv)" using assms(1) by (simp add: sound_def)
  then obtain buf where "content s = (content (srv_Store srv))(k \<mapsto> buf)" "valid s" using put_value assms(2) by metis
  then show ?thesis using sound_update assms(1,3) by blast
qed

lemma sound_delete:
  assumes "sound Y srv" "st_Delete S (srv_Store srv) k = Inr s" "k \<in> range sessionKey \<union> range shortcutKey"
  shows "sound Y (srv\<lparr>srv_Store := s\<rparr>)"
proof -
  have "valid (srv_Store srv)" using assms(1) by (simp add: sound_def)
  then have "content s = (content (srv_Store srv))(k := None)" "valid s"
    using assms(2) by (simp_all only: delete_content delete_valid)
  then show ?thesis using sound_update assms(1,3) by blast
qed

lemma sound_authenticate: "sound Y srv \<Longrightarrow> sound Y (fst (authenticate S Y env srv r req))"
  by (auto simp: authenticate_def Let_def intro: sound_put split: sum.split)

lemma sound_terminate: "sound Y srv \<Longrightarrow> sound Y (fst (TerminateSession S Y now srv r lreq))"
  by (auto simp: TerminateSession_def intro: sound_delete split: sum.split option.split)

lemma sound_put_user:
  assumes json: "jsonLaws Y" and sound: "sound Y srv" and named: "PathValue r ''id'' \<noteq> []"
  shows "sound Y (fst (HandlePutUser S Y env srv r))"
proof -
  obtain srv' ws where run: "HandlePutUser S Y env srv r = (srv', ws)" by fastforce
  have emails: "emailsUnique Y (content (srv_Store srv'))"
    using HandlePutUser_emails [OF json _ _ _ run] sound by (simp add: sound_def serverConsistent_def)
  show ?thesis
  proof (cases "srv' = srv")
    case False
    then obtain buf D where "valid (srv_Store srv')" "srv' = srv\<lparr>srv_Store := srv_Store srv'\<rparr>"
      "content (srv_Store srv') = dropSessions D ((content (srv_Store srv))(userKey (PathValue r ''id'') \<mapsto> buf))"
      using HandlePutUser_content [OF _ run] sound unfolding sound_def by metis
    moreover have "registryConsistent Y m srv' = registryConsistent Y m srv" for m
      using calculation(2) by (metis registryConsistent_other_keys(5))
    ultimately show ?thesis
      using emails sound named run by (auto simp: sound_def serverConsistent_def keysBelow_users)
  qed (use run sound in simp)
qed

lemma sound_delete_user:
  assumes "sound Y srv"
  shows "sound Y (fst (HandleDeleteUser S Y srv r))"
proof -
  obtain srv' ws where run: "HandleDeleteUser S Y srv r = (srv', ws)" by fastforce
  show ?thesis
  proof (cases "srv' = srv")
    case False
    then obtain D where "valid (srv_Store srv')" "srv' = srv\<lparr>srv_Store := srv_Store srv'\<rparr>"
      "content (srv_Store srv') = dropSessions D ((content (srv_Store srv))(userKey (PathValue r ''id'') := None))"
      using HandleDeleteUser_content [OF _ run] assms unfolding sound_def by metis
    moreover have "registryConsistent Y m srv' = registryConsistent Y m srv" for m
      using calculation(2) by (metis registryConsistent_other_keys(5))
    ultimately show ?thesis
      using assms run by (auto simp: sound_def serverConsistent_def keysBelow_users emailsUnique_delete)
  qed (use run assms in simp)
qed

lemma sound_put_service:
  assumes json: "jsonLaws Y" and sound: "sound Y srv"
  shows "sound Y (fst (HandlePutService X S Y now srv r))"
proof -
  obtain srv' ws where run: "HandlePutService X S Y now srv r = (srv', ws)" by fastforce
  show ?thesis
  proof (cases "srv' = srv")
    case False
    then obtain buf where "registryConsistent Y (content (srv_Store srv')) srv'" "valid (srv_Store srv')"
      "content (srv_Store srv') = (content (srv_Store srv))(serviceKey (PathValue r ''id'') \<mapsto> buf)"
      using HandlePutService_registry [OF json _ _ run] sound unfolding sound_def serverConsistent_def by metis
    then show ?thesis using sound run by (simp add: sound_def serverConsistent_def)
  qed (use run sound in simp)
qed

lemma sound_delete_service:
  assumes "sound Y srv"
  shows "sound Y (fst (HandleDeleteService S Y srv r))"
proof -
  obtain srv' ws where run: "HandleDeleteService S Y srv r = (srv', ws)" by fastforce
  show ?thesis
    using HandleDeleteService_registry [OF _ _ run] assms run
    by (cases "srv' = srv") (simp_all add: sound_def serverConsistent_def)
qed

lemma sound_served:
  assumes "jsonLaws Y" "served X S Y srv srv'" "sound Y srv"
  shows "sound Y srv'"
  using assms(2)
proof cases
  case (get_session env r req)
  then show ?thesis using assms(3)
    by (auto simp: Server_GetSession_def sound_authenticate split: sum.split option.split)
next
  case (forced_session env r req)
  then show ?thesis using assms(3) by (simp add: Server_GetForcedSession_def sound_authenticate)
next
  case (delete_session r)
  then show ?thesis using assms(3) by (auto simp: HandleDeleteSession_def intro: sound_delete split: sum.split)
next
  case (put_shortcut r)
  then show ?thesis using assms(3) by (auto simp: HandlePutShortcut_def intro: sound_put split: sum.split)
next
  case (delete_shortcut r)
  then show ?thesis using assms(3) by (auto simp: HandleDeleteShortcut_def intro: sound_delete split: sum.split)
qed (use assms in \<open>simp_all add: sound_terminate sound_put_user sound_delete_user sound_put_service sound_delete_service\<close>)

end

section \<open>Properties\<close>

lemma sound_New:
  assumes "New memoryStore Y opts s = Inr srv" "memoryValid s" "[] \<notin> keysBelow ''/users/'' (memoryContent s)"
  shows "mem.sound Y srv"
proof -
  obtain srv1 where run: "initializeServices memoryStore Y (newServer opts s) = Inr srv1"
      and emails: "checkUserEmails memoryStore Y (srv_Store srv1) = Inr ()" and srv: "srv = srv1"
    using assms(1) by (auto simp: New_def bindE_def split: sum.splits)
  have "registryConsistent Y (memoryContent (srv_Store srv1)) srv1" "srv_Store srv1 = s"
    using mem.initializeServices_registry [OF _ _ _ run] assms(2) by (simp_all add: newServer_def)
  then show ?thesis
    using emails assms(2,3) mem.checkUserEmails_iff by (simp add: srv mem.sound_def serverConsistent_def)
qed

text \<open>
  C29. However the handlers of the server are called, one after the other, on a server that \<^verbatim>\<open>New\<close> made, no two users
  get the same email, and the registered entity IDs are exactly those of the stored services, each with the one service
  that has it: no service can take over the entity ID of another, and a replaced or deleted service leaves none behind.
\<close>
theorem reachable_servers_consistent:
  assumes "jsonLaws Y" "memoryValid s" "[] \<notin> keysBelow ''/users/'' (memoryContent s)"
    "New memoryStore Y opts s = Inr srv0" "(served X memoryStore Y)\<^sup>*\<^sup>* srv0 srv"
  shows "serverConsistent Y (memoryContent (srv_Store srv)) srv"
proof -
  have "mem.sound Y srv"
    using assms(5) sound_New [OF assms(4,2,3)] by (induction rule: rtranclp_induct) (auto intro: mem.sound_served [OF assms(1)])
  then show ?thesis by (simp add: mem.sound_def)
qed

theorem reachable_servers_consistent_witness:
  "\<exists>srv. (served exampleX memoryStore exampleY)\<^sup>*\<^sup>* exampleServer srv \<and> serverConsistent exampleY (memoryContent (srv_Store srv)) srv \<and>
     userOf exampleY (memoryContent (srv_Store srv)) ''alice'' = Some exampleUser \<and>
     srv_serviceIDs srv ''sp'' = Some ''app''"
proof -
  let ?srv1 = "exampleServer\<lparr>srv_Store := userStore\<rparr>"
    and ?srv2 = "registerServiceProvider ''app'' exampleSpMetadata (exampleServer\<lparr>srv_Store := serviceStore\<rparr>)"
  have "served exampleX memoryStore exampleY exampleServer ?srv1"
    using served.put_user [of putUserRequest exampleX memoryStore exampleY exampleServer exampleServerEnv]
    by (simp add: exampleServer_put_user) (simp add: putUserRequest_def PathValue_def)
  moreover have "served exampleX memoryStore exampleY ?srv1 ?srv2"
    using served.put_service [of exampleX memoryStore exampleY ?srv1 5 putServiceRequest] by (simp add: exampleServer_put_service)
  ultimately have run: "(served exampleX memoryStore exampleY)\<^sup>*\<^sup>* exampleServer ?srv2" by simp
  have "serverConsistent exampleY (memoryContent (srv_Store ?srv2)) ?srv2"
    by (rule reachable_servers_consistent [OF exampleY_laws _ _ exampleServer_New run]) (simp_all add: keysBelow_def)
  moreover have "userOf exampleY (memoryContent (srv_Store ?srv2)) ''alice'' = Some exampleUser"
    by (simp add: userOf_def decoded_def memoryContent_def msData_def serviceStore_def reads_def)
  moreover have "srv_serviceIDs ?srv2 ''sp'' = Some ''app''" by (simp add: registerServiceProvider_def exampleSpMetadata_def)
  ultimately show ?thesis using run by blast
qed

text \<open>
  C35. The check of the stored users when a server is made is exact: it succeeds if and only if every stored user can
  be read and no two users have the same email, ignoring case.
\<close>
theorem user_emails_check_exact:
  assumes "memoryValid s"
  shows "checkUserEmails memoryStore Y s = Inr () \<longleftrightarrow>
    keysBelow ''/users/'' (memoryContent s) \<subseteq> dom (userOf Y (memoryContent s)) \<and> emailsUnique Y (memoryContent s)"
  using mem.checkUserEmails_iff [OF assms] .

theorem user_emails_check_exact_witness:
  "checkUserEmails memoryStore exampleY \<lparr>ms_data = Some [(userKey ''a'', ''U''), (userKey ''b'', ''U'')]\<rparr> \<noteq> Inr ()"
proof -
  let ?s = "\<lparr>ms_data = Some [(userKey ''a'', ''U''), (userKey ''b'', ''U'')]\<rparr>"
  have users: "userOf exampleY (memoryContent ?s) ''a'' = Some exampleUser" "userOf exampleY (memoryContent ?s) ''b'' = Some exampleUser"
    by (simp_all add: userOf_def decoded_def memoryContent_def msData_def reads_def)
  have "\<not> emailsUnique exampleY (memoryContent ?s)"
  proof
    assume "emailsUnique exampleY (memoryContent ?s)"
    then have "''a'' = ''b''"
      unfolding emailsUnique_def using users by (fastforce simp: exampleUser_def EqualFold_def)
    then show False by simp
  qed
  then show ?thesis using user_emails_check_exact [of ?s exampleY] by (simp add: memoryValid_def msData_def)
qed

text \<open>
  C36. The identity provider gets the metadata of a service provider exactly as long as it is valid. On a consistent
  server, a lookup succeeds if and only if the entity is registered, its metadata as a whole is still valid and so is at
  least one of its service provider roles; it is then the entity of a stored service. The result is the registered
  metadata less exactly the service provider roles that are no longer valid. A time of validity that is absent or zero
  does not expire. (The other roles and parts of the metadata are left as they are.)
\<close>
theorem service_provider_metadata_current:
  assumes "serverConsistent Y m srv"
  shows "GetServiceProvider now srv entityID = Inr md \<longleftrightarrow>
    (\<exists>rv sid. srv_serviceProviders srv entityID = Some rv \<and> entityOf Y m sid = Some entityID \<and>
       ed_EntityID rv = entityID \<and> (ed_ValidUntil rv = 0 \<or> now < ed_ValidUntil rv) \<and>
       md = rv\<lparr>ed_SPSSODescriptors :=
         filter (\<lambda>d. case rd_ValidUntil d of None \<Rightarrow> True | Some t \<Rightarrow> t = 0 \<or> now < t) (ed_SPSSODescriptors rv)\<rparr> \<and>
       ed_SPSSODescriptors md \<noteq> [])"
proof -
  have unexpired: "\<not> expired now t \<longleftrightarrow> t = 0 \<or> now < t" for t by (auto simp: expired_def)
  have valid: "(\<lambda>d :: SPSSODescriptor. \<not> (\<exists>until \<in> set_option (rd_ValidUntil d). expired now until)) =
      (\<lambda>d. case rd_ValidUntil d of None \<Rightarrow> True | Some t \<Rightarrow> t = 0 \<or> now < t)"
    by (auto simp: expired_def not_le split: option.splits)
  have stored: "\<exists>sid. entityOf Y m sid = Some entityID" "ed_EntityID rv = entityID"
    if "srv_serviceProviders srv entityID = Some rv" for rv
  proof -
    have "entityID \<in> dom (srv_serviceIDs srv)" "ed_EntityID rv = entityID"
      and "inverseMaps (srv_serviceIDs srv) (entityOf Y m)"
      using assms that by (auto simp: serverConsistent_def registryConsistent_def)
    then show "\<exists>sid. entityOf Y m sid = Some entityID" "ed_EntityID rv = entityID" by (auto simp: inverseMaps_iff)
  qed
  have "GetServiceProvider now srv entityID = Inr md \<longleftrightarrow>
      (\<exists>rv. srv_serviceProviders srv entityID = Some rv \<and> currentMetadata rv now = Some md)"
    by (auto simp: GetServiceProvider_def split: option.splits)
  also have "\<dots> \<longleftrightarrow> (\<exists>rv. srv_serviceProviders srv entityID = Some rv \<and> \<not> expired now (ed_ValidUntil rv) \<and>
      md = rv\<lparr>ed_SPSSODescriptors :=
         filter (\<lambda>d. case rd_ValidUntil d of None \<Rightarrow> True | Some t \<Rightarrow> t = 0 \<or> now < t) (ed_SPSSODescriptors rv)\<rparr> \<and>
      ed_SPSSODescriptors md \<noteq> [])"
    unfolding currentMetadata_def valid Let_def by auto
  finally show ?thesis unfolding unexpired using stored by blast
qed

theorem service_provider_metadata_current_witness:
  "\<exists>(srv :: MemoryStore Server) rv sid. GetServiceProvider 5 srv ''sp'' = Inr exampleSpMetadata \<and>
     srv_serviceProviders srv ''sp'' = Some rv \<and>
     entityOf exampleY (memoryContent (srv_Store srv)) sid = Some ''sp'' \<and> ed_EntityID rv = ''sp''"
proof -
  let ?srv = "registerServiceProvider ''app'' exampleSpMetadata (exampleServer\<lparr>srv_Store := serviceStore\<rparr>)"
  have "serverConsistent exampleY (memoryContent (srv_Store ?srv)) ?srv"
  proof -
    have "mem.sound exampleY (exampleServer\<lparr>srv_Store := userStore\<rparr>)"
      using mem.sound_put_user [OF exampleY_laws sound_New [OF exampleServer_New], of putUserRequest exampleServerEnv]
        exampleServer_put_user by (simp add: keysBelow_def PathValue_def putUserRequest_def)
    then show ?thesis
      using mem.sound_put_service [OF exampleY_laws, of "exampleServer\<lparr>srv_Store := userStore\<rparr>" exampleX 5 putServiceRequest]
      by (simp add: exampleServer_put_service mem.sound_def)
  qed
  moreover have "GetServiceProvider 5 ?srv ''sp'' = Inr exampleSpMetadata"
    by (simp add: GetServiceProvider_def registerServiceProvider_def currentMetadata_def expired_def exampleSpMetadata_def
        exampleIdpMetadata_def exampleSPSSO_def)
  ultimately show ?thesis using service_provider_metadata_current [of exampleY _ ?srv 5 "''sp''" exampleSpMetadata] by blast
qed

end
