(* ===== verification/Server_Login.thy ===== *)
theory Server_Login
  imports Server_Registry
begin

text \<open>
  Sessions under concurrent requests. A handler makes several calls of the store, between which other handlers run:
  \<open>store_step\<close> is one call of the store on its content, together with the users that logins in progress have read. The
  invariant is that a session is only used while it describes its user.
\<close>

section \<open>Steps of the store\<close>

text \<open>A revision that nothing stored and no login in progress has, as \<^verbatim>\<open>rand.Text\<close> gives it.\<close>

definition freshRevision :: "server_ext \<Rightarrow> (string \<rightharpoonup> string) \<Rightarrow> User list \<Rightarrow> string \<Rightarrow> bool" where
  "freshRevision Y m P rv \<longleftrightarrow> isASCII rv \<and>
     (\<forall>n u. userOf Y m n = Some u \<longrightarrow> usr_Revision u \<noteq> rv) \<and> (\<forall>u \<in> set P. usr_Revision u \<noteq> rv) \<and>
     (\<forall>sid s. sessionOf Y m sid = Some s \<longrightarrow> sts_UserRevision s \<noteq> rv)"

inductive store_step :: "server_ext \<Rightarrow> (string \<rightharpoonup> string) \<times> User list \<Rightarrow> (string \<rightharpoonup> string) \<times> User list \<Rightarrow> bool" for Y where
  read_user: "userOf Y m n = Some u \<Longrightarrow> store_step Y (m, P) (m, u # P)"
| put_session: "u \<in> set P \<Longrightarrow> y_MarshalStoredSession Y (newSession env u) = Inr buf \<Longrightarrow>
    store_step Y (m, P) (m(sessionKey (ses_ID (newSession env u)) \<mapsto> buf), P)"
| put_user: "freshRevision Y m P (usr_Revision u) \<Longrightarrow> y_MarshalUser Y u = Inr buf \<Longrightarrow>
    store_step Y (m, P) (m(userKey n \<mapsto> buf), P)"
| delete: "store_step Y (m, P) (m(k := None), P)"
| put_service: "store_step Y (m, P) (m(serviceKey k \<mapsto> buf), P)"
| put_shortcut: "store_step Y (m, P) (m(shortcutKey k \<mapsto> buf), P)"

inductive_cases store_stepE: "store_step Y (m, P) c"

section \<open>Sessions describe their users\<close>

definition describes :: "'a Session_scheme \<Rightarrow> User \<Rightarrow> bool" where
  "describes s u \<longleftrightarrow> ses_NameID s = usr_Email u \<and> ses_UserEmail s = usr_Email u \<and> ses_UserName s = usr_Name u \<and>
     ses_Groups s = usr_Groups u \<and> ses_UserCommonName s = usr_CommonName u \<and> ses_UserSurname s = usr_Surname u \<and>
     ses_UserGivenName s = usr_GivenName u \<and> ses_UserScopedAffiliation s = usr_ScopedAffiliation u"

definition sameDetails :: "User \<Rightarrow> User \<Rightarrow> bool" where
  "sameDetails u v \<longleftrightarrow> usr_Email u = usr_Email v \<and> usr_Name u = usr_Name v \<and> usr_Groups u = usr_Groups v \<and>
     usr_CommonName u = usr_CommonName v \<and> usr_Surname u = usr_Surname v \<and> usr_GivenName u = usr_GivenName v \<and>
     usr_ScopedAffiliation u = usr_ScopedAffiliation v"

text \<open>What was read of a user is what is stored under its name while the revision is the same.\<close>

definition userCurrent :: "server_ext \<Rightarrow> (string \<rightharpoonup> string) \<Rightarrow> User \<Rightarrow> bool" where
  "userCurrent Y m u0 \<longleftrightarrow>
     (\<forall>u. userOf Y m (usr_Name u0) = Some u \<longrightarrow> usr_Revision u = usr_Revision u0 \<longrightarrow> sameDetails u u0)"

definition sessionCurrent :: "server_ext \<Rightarrow> (string \<rightharpoonup> string) \<Rightarrow> storedSession \<Rightarrow> bool" where
  "sessionCurrent Y m s \<longleftrightarrow>
     (\<forall>u. userOf Y m (ses_UserName s) = Some u \<longrightarrow> usr_Revision u = sts_UserRevision s \<longrightarrow> describes s u)"

definition sessionsCurrent :: "server_ext \<Rightarrow> (string \<rightharpoonup> string) \<times> User list \<Rightarrow> bool" where
  "sessionsCurrent Y c \<longleftrightarrow> (case c of (m, P) \<Rightarrow>
     (\<forall>u \<in> set P. coerceUser u = u \<and> userCurrent Y m u) \<and>
     (\<forall>n u. userOf Y m n = Some u \<longrightarrow> userCurrent Y m u) \<and>
     (\<forall>sid s. sessionOf Y m sid = Some s \<longrightarrow> sessionCurrent Y m s \<and> ses_ID s = sid))"

lemma describes_newSession: "sameDetails u u0 \<Longrightarrow> describes (newSession env u0) u"
  by (simp add: describes_def sameDetails_def newSession_def)

lemma sameDetails_refl [simp]: "sameDetails u u"
  by (simp add: sameDetails_def)

lemma userOf_coerced: "jsonLaws Y \<Longrightarrow> userOf Y m n = Some u \<Longrightarrow> coerceUser u = u"
  by (auto simp: userOf_def decoded_def intro: jsonLaws_user split: option.splits sum.splits)

lemma userCurrent_subset: "userOf Y m' \<subseteq>\<^sub>m userOf Y m \<Longrightarrow> userCurrent Y m u \<Longrightarrow> userCurrent Y m' u"
  by (metis domI map_le_def userCurrent_def)

lemma sessionCurrent_subset: "userOf Y m' \<subseteq>\<^sub>m userOf Y m \<Longrightarrow> sessionCurrent Y m s \<Longrightarrow> sessionCurrent Y m' s"
  by (metis domI map_le_def sessionCurrent_def)

lemma decoded_delete_le: "userOf Y (m(k := None)) \<subseteq>\<^sub>m userOf Y m" "sessionOf Y (m(k := None)) \<subseteq>\<^sub>m sessionOf Y m"
  by (auto simp: map_le_def view_defs decoded_upd split: if_splits)

lemma sessionsCurrent_smaller:
  assumes "sessionsCurrent Y (m, P)" "userOf Y m' \<subseteq>\<^sub>m userOf Y m" "sessionOf Y m' \<subseteq>\<^sub>m sessionOf Y m"
  shows "sessionsCurrent Y (m', P)"
proof -
  have "userOf Y m n = Some u" if "userOf Y m' n = Some u" for n u using assms(2) that by (metis domI map_le_def)
  moreover have "sessionOf Y m n = Some s" if "sessionOf Y m' n = Some s" for n s using assms(3) that by (metis domI map_le_def)
  ultimately show ?thesis
    using assms(1) userCurrent_subset [OF assms(2)] sessionCurrent_subset [OF assms(2)]
    unfolding sessionsCurrent_def prod.case by blast
qed

lemma sessionsCurrent_put_session:
  assumes "jsonLaws Y" "sessionsCurrent Y (m, P)" "u \<in> set P" "y_MarshalStoredSession Y (newSession env u) = Inr buf"
  shows "sessionsCurrent Y (m(sessionKey (ses_ID (newSession env u)) \<mapsto> buf), P)"
proof -
  let ?s = "newSession env u" and ?m = "m(sessionKey (ses_ID (newSession env u)) \<mapsto> buf)"
  have u: "coerceUser u = u" "userCurrent Y m u" using assms(2,3) by (auto simp: sessionsCurrent_def)
  have read: "y_UnmarshalStoredSession Y buf = Inr ?s"
    using jsonLaws_session(1) [OF assms(1) _ assms(4)] coerce_newSession [OF u(1)] by (simp add: newSession_def)
  have users: "userOf Y ?m = userOf Y m" by (simp add: fun_eq_iff)
  have sessions: "sessionOf Y ?m sid = (if sid = ses_ID ?s then Some ?s else sessionOf Y m sid)" for sid
    using read by (simp add: sessionOf_def decoded_upd)
  have "sessionCurrent Y m ?s"
    using u(2) describes_newSession by (simp add: sessionCurrent_def userCurrent_def) (simp add: newSession_def)
  moreover have "userCurrent Y ?m = userCurrent Y m" "sessionCurrent Y ?m = sessionCurrent Y m"
    by (simp_all add: fun_eq_iff userCurrent_def sessionCurrent_def users)
  ultimately show ?thesis
    using assms(2) by (simp add: sessionsCurrent_def users sessions)
qed

lemma sessionsCurrent_put_user:
  assumes "jsonLaws Y" "sessionsCurrent Y (m, P)" "freshRevision Y m P (usr_Revision u)" "y_MarshalUser Y u = Inr buf"
  shows "sessionsCurrent Y (m(userKey n \<mapsto> buf), P)"
proof -
  let ?m = "m(userKey n \<mapsto> buf)" and ?u = "coerceUser u"
  have rev: "usr_Revision ?u = usr_Revision u"
    using assms(3) by (simp add: freshRevision_def coerceUser_def utf8Coerce_ASCII)
  have users: "userOf Y ?m a = (if a = n then Some ?u else userOf Y m a)" for a
    using jsonLaws_user(1) [OF assms(1,4)] by (simp add: userOf_def decoded_upd)
  have old: "userCurrent Y ?m v" if "userCurrent Y m v" "usr_Revision v \<noteq> usr_Revision u" for v
    using that by (auto simp: userCurrent_def users rev)
  have new: "userCurrent Y ?m ?u"
    using assms(3) by (auto simp: userCurrent_def users rev freshRevision_def)
  have session: "sessionCurrent Y ?m s" if "sessionCurrent Y m s" "sts_UserRevision s \<noteq> usr_Revision u" for s
    using that by (auto simp: sessionCurrent_def users rev)
  show ?thesis
    using assms(2,3) old new session unfolding sessionsCurrent_def prod.case freshRevision_def
    by (auto simp: users split: if_splits)
qed

lemma sessionsCurrent_step:
  assumes "jsonLaws Y" "store_step Y c c'" "sessionsCurrent Y c"
  shows "sessionsCurrent Y c'"
  using assms(2)
proof cases
  case (read_user m n u P)
  then show ?thesis using assms(3) userOf_coerced [OF assms(1)] by (auto simp: sessionsCurrent_def)
next
  case (put_session u P env buf m)
  then show ?thesis using assms sessionsCurrent_put_session by blast
next
  case (put_user m P u buf n)
  then show ?thesis using assms sessionsCurrent_put_user by blast
next
  case (delete m P k)
  then show ?thesis using assms(3) sessionsCurrent_smaller decoded_delete_le by blast
next
  case (put_service m P k buf)
  then show ?thesis using assms(3) sessionsCurrent_smaller [of Y m P "m(serviceKey k \<mapsto> buf)"] by (simp add: map_le_def)
next
  case (put_shortcut m P k buf)
  then show ?thesis using assms(3) sessionsCurrent_smaller [of Y m P "m(shortcutKey k \<mapsto> buf)"] by (simp add: map_le_def)
qed

lemma sessionsCurrent_steps:
  assumes "jsonLaws Y" "(store_step Y)\<^sup>*\<^sup>* c c'" "sessionsCurrent Y c"
  shows "sessionsCurrent Y c'"
  using assms(2,3) by (induction rule: rtranclp_induct) (auto intro: sessionsCurrent_step [OF assms(1)])

lemma sessionsCurrent_initial:
  assumes "keysBelow ''/sessions/'' m = {}" "\<And>n u. userOf Y m n = Some u \<Longrightarrow> usr_Name u = n"
  shows "sessionsCurrent Y (m, [])"
proof -
  have "sessionOf Y m sid = None" for sid
    using assms(1) by (auto simp: sessionOf_def decoded_def keysBelow_def sessionKey_def split: option.splits)
  moreover have "userCurrent Y m u" if "userOf Y m n = Some u" for n u
    using that assms(2) by (fastforce simp: userCurrent_def)
  ultimately show ?thesis by (simp add: sessionsCurrent_def)
qed

section \<open>The handlers are sequences of steps\<close>

lemma other_put_steps:
  "(store_step Y)\<^sup>*\<^sup>* (m, P) (m(serviceKey k \<mapsto> buf), P)" "(store_step Y)\<^sup>*\<^sup>* (m, P) (m(shortcutKey k \<mapsto> buf), P)"
  by (rule r_into_rtranclp, rule store_step.intros)+

context key_value_store
begin

lemma delete_step:
  "valid s \<Longrightarrow> st_Delete S s k = Inr s' \<Longrightarrow> store_step Y (content s, P) (content s', P)"
  by (simp add: delete_content store_step.delete)

lemma endSessionsOf_steps:
  "valid s \<Longrightarrow> endSessionsOf S Y name sids s = (s', res) \<Longrightarrow> (store_step Y)\<^sup>*\<^sup>* (content s, P) (content s', P)"
proof (induction sids arbitrary: s)
  case (Cons sid sids)
  show ?case
  proof (cases "endSessionsOf S Y name sids s = (s', res) \<or> s' = s")
    case False
    then obtain s1 where deleted: "st_Delete S s (sessionKey sid) = Inr s1" and rest: "endSessionsOf S Y name sids s1 = (s', res)"
      using Cons.prems by (auto split: sum.splits if_splits)
    have "valid s1" using delete_valid [OF Cons.prems(1) deleted] .
    then show ?thesis
      using converse_rtranclp_into_rtranclp [OF delete_step [OF Cons.prems(1) deleted] Cons.IH [OF _ rest]] by simp
  qed (use Cons in auto)
qed simp

lemma endUserSessions_steps:
  "valid s \<Longrightarrow> endUserSessions S Y name s = (s', res) \<Longrightarrow> (store_step Y)\<^sup>*\<^sup>* (content s, P) (content s', P)"
  by (auto simp: endUserSessions_def intro: endSessionsOf_steps split: sum.splits)

lemma authenticate_runs:
  assumes "authenticate S Y env srv r req = (srv', ws, session)" "srv' \<noteq> srv \<or> session \<noteq> None"
  obtains user s where "checkLoginOrigin Y srv r = Inr ()"
    "Store_Get S (y_UnmarshalUser Y) (srv_Store srv) (userKey (valuesGet (requestForm r) ''user'')) = Inr user"
    "y_CompareHashAndPassword Y (usr_HashedPassword user) (valuesGet (requestForm r) ''password'') = Inr ()"
    "Store_Put S (y_MarshalStoredSession Y) (srv_Store srv) (sessionKey (ses_ID (newSession env user))) (newSession env user) = Inr s"
    "srv' = srv\<lparr>srv_Store := s\<rparr>" "session = Some (Session.truncate (newSession env user))"
    "ws = [SetCookie (sessionCookie srv r (ses_ID (newSession env user)) (sessionMaxAge div nsSecond))]"
proof -
  obtain user where 1: "checkLoginOrigin Y srv r = Inr ()"
    "Store_Get S (y_UnmarshalUser Y) (srv_Store srv) (userKey (valuesGet (requestForm r) ''user'')) = Inr user"
    "y_CompareHashAndPassword Y (usr_HashedPassword user) (valuesGet (requestForm r) ''password'') = Inr ()"
    using assms by (auto simp: authenticate_def Let_def split: sum.splits)
  then obtain s where
    "Store_Put S (y_MarshalStoredSession Y) (srv_Store srv) (sessionKey (ses_ID (newSession env user))) (newSession env user) = Inr s"
    using assms by (auto simp: authenticate_def Let_def split: sum.splits)
  then show thesis using assms that [OF 1] by (auto simp: authenticate_def Let_def 1)
qed

lemma authenticate_steps:
  assumes "valid (srv_Store srv)"
  shows "\<exists>P'. (store_step Y)\<^sup>*\<^sup>* (content (srv_Store srv), P) (content (srv_Store (fst (authenticate S Y env srv r req))), P')"
proof -
  obtain srv' ws session where run: "authenticate S Y env srv r req = (srv', ws, session)" by (metis prod_cases3)
  show ?thesis
  proof (cases "srv' = srv")
    case False
    then obtain user s where user: "Store_Get S (y_UnmarshalUser Y) (srv_Store srv) (userKey (valuesGet (requestForm r) ''user'')) = Inr user"
      and put: "Store_Put S (y_MarshalStoredSession Y) (srv_Store srv) (sessionKey (ses_ID (newSession env user))) (newSession env user) = Inr s"
      and srv': "srv' = srv\<lparr>srv_Store := s\<rparr>"
      using authenticate_runs [OF run] by metis
    obtain buf where buf: "y_MarshalStoredSession Y (newSession env user) = Inr buf"
      "content s = (content (srv_Store srv))(sessionKey (ses_ID (newSession env user)) \<mapsto> buf)"
      using put_value [OF assms put] by metis
    have "store_step Y (content (srv_Store srv), P) (content (srv_Store srv), user # P)"
      using get_decoded [OF assms user] by (intro store_step.read_user) (simp add: userOf_def)
    moreover have "store_step Y (content (srv_Store srv), user # P) (content s, user # P)"
      using buf store_step.put_session [of user "user # P" Y env buf "content (srv_Store srv)"] by simp
    ultimately have "(store_step Y)\<^sup>*\<^sup>* (content (srv_Store srv), P) (content s, user # P)" by simp
    then show ?thesis using run srv' by auto
  qed (use run in auto)
qed

lemma GetSession_steps:
  assumes "valid (srv_Store srv)"
  shows "\<exists>P'. (store_step Y)\<^sup>*\<^sup>* (content (srv_Store srv), P) (content (srv_Store (fst (Server_GetSession S Y env srv r req))), P')"
    "\<exists>P'. (store_step Y)\<^sup>*\<^sup>* (content (srv_Store srv), P) (content (srv_Store (fst (Server_GetForcedSession S Y env srv r req))), P')"
  using authenticate_steps [OF assms] by (auto simp: Server_GetSession_def Server_GetForcedSession_def split: sum.split option.split)

lemma delete_handlers_steps:
  assumes "valid (srv_Store srv)"
  shows "(store_step Y)\<^sup>*\<^sup>* (content (srv_Store srv), P) (content (srv_Store (fst (TerminateSession S Y now srv r lreq))), P)"
    "(store_step Y)\<^sup>*\<^sup>* (content (srv_Store srv), P) (content (srv_Store (fst (HandleDeleteSession S srv r))), P)"
    "(store_step Y)\<^sup>*\<^sup>* (content (srv_Store srv), P) (content (srv_Store (fst (HandleDeleteShortcut S srv r))), P)"
    "(store_step Y)\<^sup>*\<^sup>* (content (srv_Store srv), P) (content (srv_Store (fst (HandleDeleteService S Y srv r))), P)"
  using delete_step [OF assms]
  by (auto simp: TerminateSession_def HandleDeleteSession_def HandleDeleteShortcut_def HandleDeleteService_def Let_def
      split: sum.split option.split)

lemma put_handlers_steps:
  assumes "valid (srv_Store srv)"
  shows "(store_step Y)\<^sup>*\<^sup>* (content (srv_Store srv), P) (content (srv_Store (fst (HandlePutShortcut S Y srv r))), P)"
    "(store_step Y)\<^sup>*\<^sup>* (content (srv_Store srv), P) (content (srv_Store (fst (HandlePutService X S Y now srv r))), P)"
proof -
  show "(store_step Y)\<^sup>*\<^sup>* (content (srv_Store srv), P) (content (srv_Store (fst (HandlePutShortcut S Y srv r))), P)"
    by (auto simp: HandlePutShortcut_def other_put_steps split: sum.split elim!: put_value [OF assms])
  obtain srv' ws where run: "HandlePutService X S Y now srv r = (srv', ws)" by fastforce
  show "(store_step Y)\<^sup>*\<^sup>* (content (srv_Store srv), P) (content (srv_Store (fst (HandlePutService X S Y now srv r))), P)"
  proof (cases "srv' = srv")
    case False
    then obtain md where put: "Store_Put S (y_MarshalService Y) (srv_Store srv) (serviceKey (PathValue r ''id''))
        \<lparr>svc_Name = [], svc_Metadata = md\<rparr> = Inr (srv_Store srv')"
      by (rule HandlePutService_runs [OF run disjI1]) (simp split: sum.splits)
    obtain buf where "content (srv_Store srv') = (content (srv_Store srv))(serviceKey (PathValue r ''id'') \<mapsto> buf)"
      using put_value [OF assms put] .
    then show ?thesis using run by (simp add: other_put_steps)
  qed (use run in simp)
qed

lemma user_handlers_steps:
  assumes "valid (srv_Store srv)"
  shows "freshRevision Y (content (srv_Store srv)) P (se_Revision env) \<Longrightarrow>
      (store_step Y)\<^sup>*\<^sup>* (content (srv_Store srv), P) (content (srv_Store (fst (HandlePutUser S Y env srv r))), P)"
    "(store_step Y)\<^sup>*\<^sup>* (content (srv_Store srv), P) (content (srv_Store (fst (HandleDeleteUser S Y srv r))), P)"
proof -
  obtain srv' ws where run: "HandlePutUser S Y env srv r = (srv', ws)" by fastforce
  assume fresh: "freshRevision Y (content (srv_Store srv)) P (se_Revision env)"
  show "(store_step Y)\<^sup>*\<^sup>* (content (srv_Store srv), P) (content (srv_Store (fst (HandlePutUser S Y env srv r))), P)"
  proof (cases "srv' = srv")
    case False
    then obtain user s1 s2 res where user: "putUserRequested S Y env (srv_Store srv) r user"
      and put: "Store_Put S (y_MarshalUser Y) (srv_Store srv) (userKey (PathValue r ''id'')) user = Inr s1"
      and ended: "endUserSessions S Y (PathValue r ''id'') s1 = (s2, res)" "srv' = srv\<lparr>srv_Store := s2\<rparr>"
      using HandlePutUser_runs [OF run] by metis
    obtain buf where buf: "y_MarshalUser Y user = Inr buf" "valid s1"
      "content s1 = (content (srv_Store srv))(userKey (PathValue r ''id'') \<mapsto> buf)"
      using put_value [OF assms put] .
    have "store_step Y (content (srv_Store srv), P) (content s1, P)"
      using buf(1,3) user fresh store_step.put_user [of Y _ P user buf "PathValue r ''id''"] by (simp add: putUserRequested_def)
    then show ?thesis using endUserSessions_steps [OF buf(2) ended(1)] run ended(2) by (simp add: converse_rtranclp_into_rtranclp)
  qed (use run in simp)
next
  obtain srv' ws where run: "HandleDeleteUser S Y srv r = (srv', ws)" by fastforce
  show "(store_step Y)\<^sup>*\<^sup>* (content (srv_Store srv), P) (content (srv_Store (fst (HandleDeleteUser S Y srv r))), P)"
  proof (cases "srv' = srv")
    case False
    then obtain s1 s2 res where deleted: "st_Delete S (srv_Store srv) (userKey (PathValue r ''id'')) = Inr s1"
      and ended: "endUserSessions S Y (PathValue r ''id'') s1 = (s2, res)" "srv' = srv\<lparr>srv_Store := s2\<rparr>"
      using HandleDeleteUser_runs [OF run] by metis
    then show ?thesis
      using converse_rtranclp_into_rtranclp [OF delete_step [OF assms deleted]
          endUserSessions_steps [OF delete_valid [OF assms deleted] ended(1)]] run by simp
  qed (use run in simp)
qed

end

section \<open>Existing sessions\<close>

context key_value_store
begin

lemma existingSession_Some:
  assumes "valid (srv_Store srv)" "existingSession S Y now srv r = Inr (Some session)"
  obtains cookie stored u where "requestCookie r ''session'' = Inr cookie"
    "sessionOf Y (content (srv_Store srv)) cookie = Some stored" "session = Session.truncate stored"
    "now \<le> ses_ExpireTime stored" "userOf Y (content (srv_Store srv)) (ses_UserName stored) = Some u"
    "usr_Revision u = sts_UserRevision stored"
proof -
  obtain cookie where cookie: "requestCookie r ''session'' = Inr cookie"
    using assms(2) by (auto simp: existingSession_def split: sum.splits)
  then obtain stored where stored: "Store_Get S (y_UnmarshalStoredSession Y) (srv_Store srv) (sessionKey cookie) = Inr stored"
    using assms(2) by (auto simp: existingSession_def split: sum.splits if_splits)
  then obtain u where "Store_Get S (y_UnmarshalUser Y) (srv_Store srv) (userKey (ses_UserName stored)) = Inr u"
      "now \<le> ses_ExpireTime stored" "usr_Revision u = sts_UserRevision stored" "session = Session.truncate stored"
    using assms(2) cookie by (auto simp: existingSession_def split: sum.splits if_splits)
  moreover from this stored have "sessionOf Y (content (srv_Store srv)) cookie = Some stored"
      "userOf Y (content (srv_Store srv)) (ses_UserName stored) = Some u"
    using get_decoded [OF assms(1)] by (simp_all add: userOf_def sessionOf_def)
  ultimately show thesis using that cookie by blast
qed

end

lemma truncate_sel [simp]:
  "ses_ID (Session.truncate s) = ses_ID s" "ses_UserName (Session.truncate s) = ses_UserName s"
  "ses_ExpireTime (Session.truncate s) = ses_ExpireTime s" "ses_NameID (Session.truncate s) = ses_NameID s"
  "ses_Index (Session.truncate s) = ses_Index s" "describes (Session.truncate s) u = describes s u"
  by (simp_all add: Session.defs describes_def)

section \<open>Properties\<close>

text \<open>
  C30. Whatever logins, changes of users, deletions and logouts run at the same time, call of the store by call of the
  store, the session that a request presents is only used while it has not expired and the user it names is stored with
  the revision the session was made from, and then it describes that user: a session that a login stores after its user
  was changed is never used with the old details.
\<close>
theorem sessions_describe_current_users:
  assumes "jsonLaws Y" "keysBelow ''/sessions/'' m0 = {}" "\<And>n u. userOf Y m0 n = Some u \<Longrightarrow> usr_Name u = n"
    "(store_step Y)\<^sup>*\<^sup>* (m0, []) (memoryContent (srv_Store srv), P)" "memoryValid (srv_Store srv)"
    "existingSession memoryStore Y now srv r = Inr (Some session)"
  shows "\<exists>u. userOf Y (memoryContent (srv_Store srv)) (ses_UserName session) = Some u \<and> describes session u \<and>
    now \<le> ses_ExpireTime session \<and> requestCookie r ''session'' = Inr (ses_ID session)"
proof -
  have current: "sessionsCurrent Y (memoryContent (srv_Store srv), P)"
    by (rule sessionsCurrent_steps [OF assms(1,4) sessionsCurrent_initial [OF assms(2,3)]])
  obtain cookie stored u where stored: "requestCookie r ''session'' = Inr cookie"
      "sessionOf Y (memoryContent (srv_Store srv)) cookie = Some stored" "session = Session.truncate stored"
      "now \<le> ses_ExpireTime stored" "userOf Y (memoryContent (srv_Store srv)) (ses_UserName stored) = Some u"
      "usr_Revision u = sts_UserRevision stored"
    using mem.existingSession_Some [OF assms(5,6)] .
  then have "sessionCurrent Y (memoryContent (srv_Store srv)) stored" "ses_ID stored = cookie"
    using current by (auto simp: sessionsCurrent_def)
  then show ?thesis using stored by (auto simp: sessionCurrent_def)
qed

definition sessionStore :: MemoryStore where
  "sessionStore = \<lparr>ms_data = Some [(userKey ''alice'', ''U''), (sessionKey (ses_ID exampleStored), ''S'')]\<rparr>"

definition sessionRequest :: http_request where
  "sessionRequest = exampleAuthnHTTP\<lparr>rq_Cookies := [(''session'', ses_ID exampleStored)]\<rparr>"

lemma example_session:
  "existingSession memoryStore exampleY 5 (exampleServer\<lparr>srv_Store := sessionStore\<rparr>) sessionRequest =
     Inr (Some (Session.truncate exampleStored))"
  by (simp add: existingSession_def sessionRequest_def requestCookie_def sessionStore_def memoryStore_simps)
    (simp add: exampleStored_def newSession_def exampleServerEnv_def exampleUser_def sessionMaxAge_def ns_defs)

lemma example_users: "userOf exampleY (memoryContent userStore) n = Some u \<Longrightarrow> usr_Name u = n"
  by (auto simp: userOf_def decoded_def memoryContent_def msData_def userStore_def reads_def exampleUser_def split: if_splits)

lemma example_no_sessions: "keysBelow ''/sessions/'' (memoryContent userStore) = {}"
  by (auto simp: keysBelow_def memoryContent_def msData_def userStore_def userKey_def)

lemma example_run:
  "(store_step exampleY)\<^sup>*\<^sup>* (memoryContent userStore, []) (memoryContent sessionStore, [exampleUser])"
proof -
  have "store_step exampleY (memoryContent userStore, []) (memoryContent userStore, [exampleUser])"
    by (rule store_step.read_user [of _ _ "''alice''"])
      (simp add: userOf_def decoded_def memoryContent_def msData_def userStore_def reads_def)
  moreover have "memoryContent sessionStore = (memoryContent userStore)(sessionKey (ses_ID exampleStored) \<mapsto> ''S'')"
    by (auto simp: memoryContent_def msData_def userStore_def sessionStore_def fun_eq_iff)
  then have "store_step exampleY (memoryContent userStore, [exampleUser]) (memoryContent sessionStore, [exampleUser])"
    using store_step.put_session [of exampleUser "[exampleUser]" exampleY exampleServerEnv "''S''" "memoryContent userStore"]
    by (simp add: only_def exampleStored_def)
  ultimately show ?thesis by simp
qed

lemma example_stores_valid: "memoryValid userStore" "memoryValid sessionStore"
  by (simp_all add: memoryValid_def msData_def userStore_def sessionStore_def)

theorem sessions_describe_current_users_witness:
  "\<exists>u. userOf exampleY (memoryContent sessionStore) ''alice'' = Some u \<and> describes (Session.truncate exampleStored) u"
proof -
  have "\<exists>u. userOf exampleY (memoryContent (srv_Store (exampleServer\<lparr>srv_Store := sessionStore\<rparr>)))
      (ses_UserName (Session.truncate exampleStored)) = Some u \<and> describes (Session.truncate exampleStored) u \<and>
      5 \<le> ses_ExpireTime (Session.truncate exampleStored) \<and>
      requestCookie sessionRequest ''session'' = Inr (ses_ID (Session.truncate exampleStored))"
    by (rule sessions_describe_current_users [OF exampleY_laws example_no_sessions example_users _ _ example_session])
      (use example_run example_stores_valid in simp_all)
  moreover have "ses_UserName (Session.truncate exampleStored) = ''alice''"
    by (simp add: exampleStored_def newSession_def exampleUser_def)
  ultimately show ?thesis by auto
qed

text \<open>
  C31. The steps that the previous property lets run in any order are those of the handlers: what a handler of the
  server does to the store, whether it succeeds or stops at an error, is a sequence of such steps.
\<close>
theorem handlers_are_store_steps:
  assumes "memoryValid (srv_Store srv)" "freshRevision Y (memoryContent (srv_Store srv)) P (se_Revision env)"
    "srv' \<in> {fst (Server_GetSession memoryStore Y env srv r req), fst (Server_GetForcedSession memoryStore Y env srv r req),
       fst (TerminateSession memoryStore Y now srv r lreq), fst (HandleDeleteSession memoryStore srv r),
       fst (HandlePutUser memoryStore Y env srv r), fst (HandleDeleteUser memoryStore Y srv r),
       fst (HandlePutService X memoryStore Y now srv r), fst (HandleDeleteService memoryStore Y srv r),
       fst (HandlePutShortcut memoryStore Y srv r), fst (HandleDeleteShortcut memoryStore srv r)}"
  shows "\<exists>P'. (store_step Y)\<^sup>*\<^sup>* (memoryContent (srv_Store srv), P) (memoryContent (srv_Store srv'), P')"
  using assms(3)
  by (elim insertE emptyE; hypsubst)
    (rule mem.GetSession_steps [OF assms(1)]
     | rule exI, rule mem.delete_handlers_steps [OF assms(1)] mem.put_handlers_steps [OF assms(1)]
         mem.user_handlers_steps(1) [OF assms(1,2)] mem.user_handlers_steps(2) [OF assms(1)])+

theorem handlers_are_store_steps_witness:
  "\<exists>P'. (store_step exampleY)\<^sup>*\<^sup>* (Map.empty, []) (memoryContent userStore, P')"
proof -
  have "freshRevision exampleY (memoryContent (srv_Store exampleServer)) [] (se_Revision exampleServerEnv)"
    by (simp add: freshRevision_def view_defs decoded_def exampleServer_def newServer_def exampleServerEnv_def isASCII_def byte_def)
  then show ?thesis
    using handlers_are_store_steps [of exampleServer exampleY "[]" exampleServerEnv "exampleServer\<lparr>srv_Store := userStore\<rparr>"
        putUserRequest] exampleServer_put_user
    by (simp add: exampleServer_def newServer_def)
qed

text \<open>
  C32. Once a user has been changed or deleted, no session of that user is used any more, not even one that could not be
  removed from the store: a new login is needed.
\<close>
theorem changed_users_lose_sessions:
  assumes "jsonLaws Y" "memoryValid (srv_Store srv)" "freshRevision Y (memoryContent (srv_Store srv)) P (se_Revision env)"
    "(srv', [WriteStatus StatusNoContent]) \<in> {HandlePutUser memoryStore Y env srv r, HandleDeleteUser memoryStore Y srv r}"
    "ses_UserName session = PathValue r ''id''"
  shows "existingSession memoryStore Y now srv' r' \<noteq> Inr (Some session)"
proof
  assume used: "existingSession memoryStore Y now srv' r' = Inr (Some session)"
  have "\<exists>D x. memoryContent (srv_Store srv') = dropSessions D ((memoryContent (srv_Store srv))(userKey (PathValue r ''id'') := x)) \<and>
      memoryValid (srv_Store srv') \<and>
      (x = None \<or> (\<exists>user buf. x = Some buf \<and> y_MarshalUser Y user = Inr buf \<and> usr_Revision user = se_Revision env))"
    using assms(4)
  proof (elim insertE emptyE)
    assume "(srv', [WriteStatus StatusNoContent]) = HandlePutUser memoryStore Y env srv r"
    then show ?thesis
      by (elim mem.HandlePutUser_content [OF assms(2) sym disjI2]) (auto simp: putUserRequested_def)
  next
    assume "(srv', [WriteStatus StatusNoContent]) = HandleDeleteUser memoryStore Y srv r"
    then show ?thesis by (elim mem.HandleDeleteUser_content [OF assms(2) sym disjI2]) auto
  qed
  then obtain D x where m': "memoryContent (srv_Store srv') = dropSessions D ((memoryContent (srv_Store srv))(userKey (PathValue r ''id'') := x))"
    and valid: "memoryValid (srv_Store srv')"
    and x: "x = None \<or> (\<exists>user buf. x = Some buf \<and> y_MarshalUser Y user = Inr buf \<and> usr_Revision user = se_Revision env)"
    by blast
  obtain cookie stored u where stored: "sessionOf Y (memoryContent (srv_Store srv')) cookie = Some stored"
      "session = Session.truncate stored" "userOf Y (memoryContent (srv_Store srv')) (ses_UserName stored) = Some u"
      "usr_Revision u = sts_UserRevision stored"
    using mem.existingSession_Some [OF valid used] .
  have "sts_UserRevision stored \<noteq> se_Revision env"
    using stored(1) assms(3) by (auto simp: m' freshRevision_def split: if_splits)
  moreover have "usr_Revision u = se_Revision env"
  proof -
    have "userOf Y ((memoryContent (srv_Store srv))(userKey (PathValue r ''id'') := x)) (PathValue r ''id'') = Some u"
      using stored(2,3) assms(5) by (simp add: m')
    then show ?thesis
      using x jsonLaws_user(1) [OF assms(1)] assms(3)
      by (auto simp: userOf_def decoded_upd coerceUser_def utf8Coerce_ASCII freshRevision_def)
  qed
  ultimately show False using stored(4) by simp
qed

text \<open>
  C34. When the termination of a session succeeds, the session that the request presents is over: the request has no
  session any more, now or later, and no request that presents another session is affected.
\<close>
theorem logout_ends_session:
  assumes "sessionsCurrent Y (memoryContent (srv_Store srv), P)" "memoryValid (srv_Store srv)"
    "TerminateSession memoryStore Y now srv r req = (srv', ws, Inr ())" "now \<le> later"
  shows "existingSession memoryStore Y later srv' r = Inr None \<and>
    (requestCookie r' ''session'' \<noteq> requestCookie r ''session'' \<longrightarrow>
       existingSession memoryStore Y later srv' r' = existingSession memoryStore Y later srv r')"
proof -
  obtain found where found: "existingSession memoryStore Y now srv r = Inr found"
    using assms(3) by (auto simp: TerminateSession_def split: if_splits sum.splits)
  show ?thesis
  proof (cases found)
    case None
    then have "srv' = srv" using assms(3) found by (auto simp: TerminateSession_def split: if_splits)
    moreover have "existingSession memoryStore Y later srv r = Inr None"
      using found None assms(4) by (auto simp: existingSession_def split: sum.splits if_splits)
    ultimately show ?thesis by simp
  next
    case (Some session)
    then obtain cookie stored where cookie: "requestCookie r ''session'' = Inr cookie"
        and stored: "sessionOf Y (memoryContent (srv_Store srv)) cookie = Some stored" "session = Session.truncate stored"
      using mem.existingSession_Some [OF assms(2)] found by metis
    have sid: "ses_ID session = cookie" using assms(1) stored by (auto simp: sessionsCurrent_def)
    obtain s where deleted: "st_Delete memoryStore (srv_Store srv) (sessionKey cookie) = Inr s" "srv' = srv\<lparr>srv_Store := s\<rparr>"
      using assms(3) found Some sid by (auto simp: TerminateSession_def split: if_splits option.splits sum.splits)
    have s: "memoryValid s" "memoryContent s = (memoryContent (srv_Store srv))(sessionKey cookie := None)"
      using mem.delete_valid [OF assms(2) deleted(1)] mem.delete_content [OF assms(2) deleted(1)] by simp_all
    have get: "st_Get memoryStore s k =
        (if k = sessionKey cookie then Inl ErrNotFound else st_Get memoryStore (srv_Store srv) k)" for k
      using mem.get_eq [OF s(1)] mem.get_eq [OF assms(2)] by (simp add: s(2))
    show ?thesis using cookie deleted(2) by (auto simp: existingSession_def Store_Get_def get bindE_def split: sum.splits)
  qed
qed

text \<open>
  C33. A login succeeds only for a request that is not from another origin, with the password of the user. It sets a
  cookie for a session that describes the user, and a request with that cookie gets just this session until it expires.
\<close>
theorem login_establishes_session:
  assumes "jsonLaws Y" "memoryValid (srv_Store srv)"
    "\<And>n u. userOf Y (memoryContent (srv_Store srv)) n = Some u \<Longrightarrow> usr_Name u = n"
    "authenticate memoryStore Y env srv r req = (srv', ws, Some session)"
  shows "checkLoginOrigin Y srv r = Inr () \<and>
    (\<exists>user. userOf Y (memoryContent (srv_Store srv)) (valuesGet (requestForm r) ''user'') = Some user \<and>
       y_CompareHashAndPassword Y (usr_HashedPassword user) (valuesGet (requestForm r) ''password'') = Inr () \<and>
       describes session user) \<and>
    ws = [SetCookie (sessionCookie srv r (ses_ID session) 3600)] \<and>
    (requestCookie r' ''session'' = Inr (ses_ID session) \<longrightarrow> now \<le> ses_ExpireTime session \<longrightarrow>
       existingSession memoryStore Y now srv' r' = Inr (Some session))"
proof -
  obtain user s where origin: "checkLoginOrigin Y srv r = Inr ()"
    and user: "Store_Get memoryStore (y_UnmarshalUser Y) (srv_Store srv) (userKey (valuesGet (requestForm r) ''user'')) = Inr user"
    and password: "y_CompareHashAndPassword Y (usr_HashedPassword user) (valuesGet (requestForm r) ''password'') = Inr ()"
    and put: "Store_Put memoryStore (y_MarshalStoredSession Y) (srv_Store srv) (sessionKey (ses_ID (newSession env user))) (newSession env user) = Inr s"
    and result: "srv' = srv\<lparr>srv_Store := s\<rparr>" "session = Session.truncate (newSession env user)"
      "ws = [SetCookie (sessionCookie srv r (ses_ID (newSession env user)) (sessionMaxAge div nsSecond))]"
    using mem.authenticate_runs [OF assms(4)] by auto
  have stored: "userOf Y (memoryContent (srv_Store srv)) (valuesGet (requestForm r) ''user'') = Some user"
    using mem.get_decoded [OF assms(2) user] by (simp add: userOf_def)
  obtain buf where buf: "y_MarshalStoredSession Y (newSession env user) = Inr buf" "memoryValid s"
      "memoryContent s = (memoryContent (srv_Store srv))(sessionKey (ses_ID (newSession env user)) \<mapsto> buf)"
    using mem.put_value [OF assms(2) put] .
  have read: "y_UnmarshalStoredSession Y buf = Inr (newSession env user)"
    using jsonLaws_session(1) [OF assms(1) _ buf(1)] coerce_newSession userOf_coerced [OF assms(1) stored] by (simp add: newSession_def)
  have "ses_UserName (newSession env user) = valuesGet (requestForm r) ''user''"
    using assms(3) [OF stored] by (simp add: newSession_def)
  then have current: "Store_Get memoryStore (y_UnmarshalUser Y) s (userKey (ses_UserName (newSession env user))) = Inr user"
    using user by (simp add: mem.get_value_eq [OF buf(2)] mem.get_value_eq [OF assms(2)] buf(3))
  have "Store_Get memoryStore (y_UnmarshalStoredSession Y) s (sessionKey (ses_ID (newSession env user))) = Inr (newSession env user)"
    using read by (simp add: mem.get_value_eq [OF buf(2)] buf(3))
  then have "requestCookie r' ''session'' = Inr (ses_ID session) \<longrightarrow> now \<le> ses_ExpireTime session \<longrightarrow>
       existingSession memoryStore Y now srv' r' = Inr (Some session)"
    using current by (simp add: existingSession_def result) (simp add: newSession_def)
  then show ?thesis
    using origin password stored describes_newSession [of user user env] result
    by (simp add: sessionMaxAge_def ns_defs)
qed

section \<open>A user logs in, logs out and is deleted\<close>

abbreviation sessionServer :: "MemoryStore Server" where
  "sessionServer \<equiv> exampleServer\<lparr>srv_Store := sessionStore\<rparr>"

definition deleteUserRequest :: http_request where
  "deleteUserRequest = exampleAuthnHTTP\<lparr>rq_Method := ''DELETE'', rq_PathValues := [(''id'', ''alice'')]\<rparr>"

lemma exampleStored_sel [simp]: "ses_UserName exampleStored = ''alice''" "ses_NameID exampleStored = ''a@b''"
  "sts_UserRevision exampleStored = ''R''"
  by (simp_all add: exampleStored_def newSession_def exampleUser_def)

lemma example_delete_user:
  "HandleDeleteUser memoryStore exampleY sessionServer deleteUserRequest =
     (exampleServer\<lparr>srv_Store := \<lparr>ms_data = Some []\<rparr>\<rparr>, [WriteStatus StatusNoContent])"
  by (simp add: HandleDeleteUser_def deleteUserRequest_def PathValue_def endUserSessions_def sessionStore_def memoryStore_simps
      sessionKey_def userKey_def)

theorem changed_users_lose_sessions_witness:
  "existingSession memoryStore exampleY 5 sessionServer sessionRequest = Inr (Some (Session.truncate exampleStored)) \<and>
   existingSession memoryStore exampleY 5 (fst (HandleDeleteUser memoryStore exampleY sessionServer deleteUserRequest)) sessionRequest
     \<noteq> Inr (Some (Session.truncate exampleStored))"
proof -
  have "freshRevision exampleY (memoryContent (srv_Store sessionServer)) [] (se_Revision (exampleServerEnv\<lparr>se_Revision := ''Q''\<rparr>))"
    by (auto simp: freshRevision_def isASCII_def byte_def view_defs decoded_def memoryContent_def msData_def sessionStore_def
        reads_def exampleUser_def split: if_splits)
  then show ?thesis
    using example_session changed_users_lose_sessions [OF exampleY_laws, of sessionServer "[]" "exampleServerEnv\<lparr>se_Revision := ''Q''\<rparr>"
        "fst (HandleDeleteUser memoryStore exampleY sessionServer deleteUserRequest)" deleteUserRequest "Session.truncate exampleStored" 5
        sessionRequest]
    by (simp add: example_stores_valid example_delete_user) (simp add: deleteUserRequest_def PathValue_def)
qed

definition exampleLogout :: IdpLogoutRequest where
  "exampleLogout = (newLogoutRequest sessionRequest 5)\<lparr>ilr_Request := zeroLogoutRequest\<lparr>lreq_NameID :=
     Some \<lparr>nid_NameQualifier = [], nid_SPNameQualifier = [], nid_Format = [], nid_SPProvidedID = [], nid_Value = ''a@b''\<rparr>\<rparr>\<rparr>"

lemma example_terminates:
  "TerminateSession memoryStore exampleY 5 sessionServer sessionRequest exampleLogout =
     (exampleServer\<lparr>srv_Store := userStore\<rparr>, [SetCookie (sessionCookie sessionServer sessionRequest [] (- 1))], Inr ())"
proof -
  have "st_Delete memoryStore sessionStore (sessionKey (ses_ID exampleStored)) = Inr userStore"
    by (simp add: memoryStore_simps sessionStore_def)
  moreover have "\<not> isl (requestCookie sessionRequest ''session'')" by (simp add: sessionRequest_def requestCookie_def)
  moreover have "ilr_Request exampleLogout = zeroLogoutRequest\<lparr>lreq_NameID := lreq_NameID (ilr_Request exampleLogout)\<rparr>"
      "map_option nid_Value (lreq_NameID (ilr_Request exampleLogout)) = Some ''a@b''"
    by (simp_all add: exampleLogout_def newLogoutRequest_def)
  moreover from this(1) have "lreq_SessionIndexes (ilr_Request exampleLogout) = []"
    by (metis LogoutRequest.select_convs(9) LogoutRequest.update_convs(7) zeroLogoutRequest_def)
  ultimately show ?thesis by (auto simp: TerminateSession_def example_session)
qed

theorem logout_ends_session_witness:
  "\<exists>srv' ws. TerminateSession memoryStore exampleY 5 sessionServer sessionRequest exampleLogout = (srv', ws, Inr ()) \<and> ws \<noteq> [] \<and>
     existingSession memoryStore exampleY 6 srv' sessionRequest = Inr None"
proof -
  have "sessionsCurrent exampleY (memoryContent (srv_Store sessionServer), [exampleUser])"
    using sessionsCurrent_steps [OF exampleY_laws example_run sessionsCurrent_initial [OF example_no_sessions example_users]] by simp
  then have "existingSession memoryStore exampleY 6 (exampleServer\<lparr>srv_Store := userStore\<rparr>) sessionRequest = Inr None"
    using logout_ends_session [OF _ _ example_terminates, of "[exampleUser]" 6 sessionRequest] by (simp add: example_stores_valid)
  then show ?thesis using example_terminates by auto
qed

definition loginRequest :: http_request where
  "loginRequest = exampleAuthnHTTP\<lparr>rq_Body := Some ''user=alice&password=pw''\<rparr>"

lemma loginRequest_form: "requestForm loginRequest = [(''user'', ''alice''), (''password'', ''pw'')]"
  by (simp add: requestForm_def loginRequest_def exampleAuthnHTTP_def ParseForm_def maxFormSize_def queryError_def ParseQuery_def
      parsePair_def bindE_def cutAt_def map_filter_simps unhex_def byte_def char_of_def bit_0)

lemma example_login:
  "authenticate memoryStore exampleY exampleServerEnv (exampleServer\<lparr>srv_Store := userStore\<rparr>) loginRequest req =
     (sessionServer, [SetCookie (sessionCookie (exampleServer\<lparr>srv_Store := userStore\<rparr>) loginRequest (ses_ID exampleStored) 3600)],
      Some (Session.truncate exampleStored))"
proof -
  have "checkLoginOrigin exampleY (exampleServer\<lparr>srv_Store := userStore\<rparr>) loginRequest = Inr ()"
    by (simp add: checkLoginOrigin_def headerGet_def loginRequest_def exampleAuthnHTTP_def)
  moreover have "Store_Put memoryStore (y_MarshalStoredSession exampleY) userStore (sessionKey (ses_ID exampleStored)) exampleStored = Inr sessionStore"
    by (simp add: memoryStore_simps sessionStore_def)
  moreover have "Store_Get memoryStore (y_UnmarshalUser exampleY) userStore (userKey ''alice'') = Inr exampleUser"
    by (simp add: memoryStore_simps)
  moreover have "usr_HashedPassword exampleUser = ''hpw''" by (simp add: exampleUser_def)
  ultimately show ?thesis
    by (simp add: authenticate_def loginRequest_form valuesGet_def Let_def flip: exampleStored_def)
      (simp add: checkE_def sessionMaxAge_def ns_defs)
qed

theorem login_establishes_session_witness:
  "\<exists>srv' ws. authenticate memoryStore exampleY exampleServerEnv (exampleServer\<lparr>srv_Store := userStore\<rparr>) loginRequest
       (newRequest loginRequest 5) = (srv', ws, Some (Session.truncate exampleStored)) \<and>
     existingSession memoryStore exampleY 5 srv' sessionRequest = Inr (Some (Session.truncate exampleStored))"
proof -
  have "5 \<le> ses_ExpireTime exampleStored" "requestCookie sessionRequest ''session'' = Inr (ses_ID exampleStored)"
    by (simp_all add: exampleStored_def newSession_def exampleServerEnv_def sessionMaxAge_def ns_defs sessionRequest_def requestCookie_def)
  then have "existingSession memoryStore exampleY 5 sessionServer sessionRequest = Inr (Some (Session.truncate exampleStored))"
    using login_establishes_session [OF exampleY_laws _ _ example_login, of sessionRequest 5] example_users by (simp add: example_stores_valid)
  then show ?thesis using example_login by auto
qed

end
