(* ===== verification/Sp_Tokens.thy ===== *)
theory Sp_Tokens
  imports Sp_Logout Go_Utf8 "HOL-Library.Sublist"
begin

text \<open>
  The signed tokens of the service provider middleware: tracked requests and sessions as JSON Web Tokens in cookies
  (\<^verbatim>\<open>samlsp/request_tracker.go\<close>, \<^verbatim>\<open>request_tracker_cookie.go\<close>, \<^verbatim>\<open>request_tracker_jwt.go\<close>,
  \<^verbatim>\<open>session.go\<close>, \<^verbatim>\<open>session_cookie.go\<close>, \<^verbatim>\<open>session_jwt.go\<close>).
\<close>

section \<open>Claims and tokens\<close>

record TrackedRequest =
  tr_Index :: string
  tr_SAMLRequestID :: string
  tr_URI :: string

text \<open>\<^verbatim>\<open>jwt.Claims\<close>, with times in the numeric form of a token.\<close>

record jwt_claims =
  cl_Issuer :: string
  cl_Subject :: string
  cl_Audience :: "string list"
  cl_Expiry :: "int option"
  cl_NotBefore :: "int option"
  cl_IssuedAt :: "int option"

record JWTTrackedRequestClaims =
  tc_Claims :: jwt_claims
  tc_TrackedRequest :: TrackedRequest
  tc_SAMLAuthnRequest :: bool

record JWTSessionClaims =
  jc_Claims :: jwt_claims
  jc_Attributes :: "string \<rightharpoonup> string list"
  jc_SAMLSession :: bool

text \<open>The library \<^verbatim>\<open>jose\<close>: making a signer, the serialized token of each kind of claims, parsing a token, its
  claims read as each kind under a public key, the validation of the registered claims, and numeric dates
  (nil of the zero time).\<close>

record jwt_lib =
  w_NewSigner :: "string \<Rightarrow> signer \<Rightarrow> unit result"
  w_SerializeTracked :: "string \<Rightarrow> signer \<Rightarrow> JWTTrackedRequestClaims \<Rightarrow> string result"
  w_SerializeSession :: "string \<Rightarrow> signer \<Rightarrow> JWTSessionClaims \<Rightarrow> string result"
  w_ParseSigned :: "string \<Rightarrow> string list \<Rightarrow> string result"
  w_TrackedClaims :: "string \<Rightarrow> public_key \<Rightarrow> JWTTrackedRequestClaims result"
  w_SessionClaims :: "string \<Rightarrow> public_key \<Rightarrow> JWTSessionClaims result"
  w_ValidateWithLeeway :: "jwt_claims \<Rightarrow> string \<Rightarrow> string \<Rightarrow> time \<Rightarrow> duration \<Rightarrow> unit result"
  w_NewNumericDate :: "time \<Rightarrow> int option"
  w_Time :: "int \<Rightarrow> time"

definition signJWT :: "jwt_lib \<Rightarrow> (string \<Rightarrow> signer \<Rightarrow> 'c \<Rightarrow> string result) \<Rightarrow> string \<Rightarrow> signer \<Rightarrow> 'c \<Rightarrow> string result" where
  "signJWT W serialize alg key claims = bindE (w_NewSigner W alg key) (\<lambda>_. serialize alg key claims)"

definition verifyJWT ::
  "jwt_lib \<Rightarrow> (string \<Rightarrow> public_key \<Rightarrow> 'c result) \<Rightarrow> ('c \<Rightarrow> jwt_claims) \<Rightarrow> string \<Rightarrow> string \<Rightarrow> signer \<Rightarrow> string \<Rightarrow> string \<Rightarrow> time \<Rightarrow>
   'c result" where
  "verifyJWT W claimsOf registered signed alg key audience issuer now =
     bindE (w_ParseSigned W signed [alg]) (\<lambda>token.
     bindE (claimsOf token (sg_Public key)) (\<lambda>dest.
     bindE (w_ValidateWithLeeway W (registered dest) issuer audience now 0) (\<lambda>_. Inr dest)))"

section \<open>Tracked requests\<close>

record JWTTrackedRequestCodec =
  tcd_SigningMethod :: string
  tcd_Audience :: string
  tcd_Issuer :: string
  tcd_MaxAge :: duration
  tcd_Key :: signer

definition trackedClaims :: "jwt_lib \<Rightarrow> JWTTrackedRequestCodec \<Rightarrow> time \<Rightarrow> TrackedRequest \<Rightarrow> JWTTrackedRequestClaims" where
  "trackedClaims W s now value =
     \<lparr>tc_Claims = \<lparr>cl_Issuer = tcd_Issuer s, cl_Subject = tr_Index value, cl_Audience = [tcd_Audience s],
        cl_Expiry = w_NewNumericDate W (now + tcd_MaxAge s), cl_NotBefore = w_NewNumericDate W now,
        cl_IssuedAt = w_NewNumericDate W now\<rparr>,
      tc_TrackedRequest = value, tc_SAMLAuthnRequest = True\<rparr>"

definition Tracked_Encode :: "jwt_lib \<Rightarrow> JWTTrackedRequestCodec \<Rightarrow> time \<Rightarrow> TrackedRequest \<Rightarrow> string result" where
  "Tracked_Encode W s now value =
     signJWT W (w_SerializeTracked W) (tcd_SigningMethod s) (tcd_Key s) (trackedClaims W s now value)"

definition Tracked_Decode :: "jwt_lib \<Rightarrow> JWTTrackedRequestCodec \<Rightarrow> time \<Rightarrow> string \<Rightarrow> TrackedRequest result" where
  "Tracked_Decode W s now signed =
     bindE (verifyJWT W (w_TrackedClaims W) tc_Claims signed (tcd_SigningMethod s) (tcd_Key s) (tcd_Audience s) (tcd_Issuer s) now)
       (\<lambda>claims.
         if \<not> tc_SAMLAuthnRequest claims then Inl (Err ''expected saml-authn-request'')
         else Inr ((tc_TrackedRequest claims)\<lparr>tr_Index := cl_Subject (tc_Claims claims)\<rparr>))"

text \<open>The interface \<^verbatim>\<open>TrackedRequestCodec\<close>, whose operations read the time, and the codec as one.\<close>

record TrackedRequestCodec =
  tco_Encode :: "time \<Rightarrow> TrackedRequest \<Rightarrow> string result"
  tco_Decode :: "time \<Rightarrow> string \<Rightarrow> TrackedRequest result"

definition jwtTrackedCodec :: "jwt_lib \<Rightarrow> JWTTrackedRequestCodec \<Rightarrow> TrackedRequestCodec" where
  "jwtTrackedCodec W s = \<lparr>tco_Encode = Tracked_Encode W s, tco_Decode = Tracked_Decode W s\<rparr>"

text \<open>\<open>crt_RelayStateFunc\<close> may write to the response.\<close>

record CookieRequestTracker =
  crt_ServiceProvider :: ServiceProvider
  crt_NamePrefix :: string
  crt_Codec :: TrackedRequestCodec
  crt_MaxAge :: duration
  crt_RelayStateFunc :: "(http_request \<Rightarrow> http_write list \<times> string) option"
  crt_SameSite :: nat

text \<open>\<^verbatim>\<open>base64.RawURLEncoding\<close>.\<close>

definition rawURLEncode :: "string \<Rightarrow> string" where
  "rawURLEncode s = map (\<lambda>c. if c = CHR ''+'' then CHR ''-'' else if c = CHR ''/'' then CHR ''_'' else c)
     (filter (\<lambda>c. c \<noteq> CHR ''='') (base64Encode s))"

definition seconds :: "duration \<Rightarrow> int" where "seconds d = sgn d * (\<bar>d\<bar> div nsSecond)"

text \<open>\<^verbatim>\<open>url.Hostname\<close>: the host without a port and without brackets.\<close>

definition validOptionalPort :: "string \<Rightarrow> bool" where
  "validOptionalPort p \<longleftrightarrow> p = [] \<or> hd p = CHR '':'' \<and> list_all (\<lambda>c. 48 \<le> byte c \<and> byte c \<le> 57) (tl p)"

definition hostname :: "string \<Rightarrow> string" where
  "hostname h =
     (let port = takeWhile (\<lambda>c. c \<noteq> CHR '':'') (rev h);
          n = length h - length port;
          host = (if n > 0 \<and> validOptionalPort (drop (n - 1) h) then take (n - 1) h else h) in
      if length host \<ge> 2 \<and> hd host = CHR ''['' \<and> last host = CHR '']'' then butlast (tl host) else host)"

definition trackingCookie :: "CookieRequestTracker \<Rightarrow> string \<Rightarrow> string \<Rightarrow> http_cookie" where
  "trackingCookie t index signed =
     \<lparr>ck_Name = crt_NamePrefix t @ index, ck_Value = signed, ck_Domain = [],
      ck_Path = u_Path (sp_AcsURL (crt_ServiceProvider t)), ck_MaxAge = seconds (crt_MaxAge t), ck_Expired = False,
      ck_HttpOnly = True, ck_Secure = (u_Scheme (sp_AcsURL (crt_ServiceProvider t)) = ''https''),
      ck_SameSite = crt_SameSite t\<rparr>"

definition TrackRequest ::
  "CookieRequestTracker \<Rightarrow> time \<Rightarrow> string \<Rightarrow> http_request \<Rightarrow> string \<Rightarrow> http_write list \<times> string result" where
  "TrackRequest t now rnd r samlRequestID =
     (let (written, chosen) = (case crt_RelayStateFunc t of None \<Rightarrow> ([], []) | Some f \<Rightarrow> f r);
          tracked = \<lparr>tr_Index = (if chosen \<noteq> [] then chosen else rawURLEncode rnd), tr_SAMLRequestID = samlRequestID,
                     tr_URI = rq_URL r\<rparr> in
      case tco_Encode (crt_Codec t) now tracked of
        Inl e \<Rightarrow> (written, Inl e)
      | Inr signed \<Rightarrow>
          (written @ [SetCookie (trackingCookie t (tr_Index tracked) signed)], Inr (tr_Index tracked)))"

definition StopTrackingRequest :: "CookieRequestTracker \<Rightarrow> http_request \<Rightarrow> string \<Rightarrow> http_write list result" where
  "StopTrackingRequest t r index =
     bindE (requestCookie r (crt_NamePrefix t @ index)) (\<lambda>_.
       Inr [SetCookie \<lparr>ck_Name = crt_NamePrefix t @ index, ck_Value = [],
         ck_Domain = hostname (u_Host (sp_AcsURL (crt_ServiceProvider t))),
         ck_Path = u_Path (sp_AcsURL (crt_ServiceProvider t)), ck_MaxAge = 0, ck_Expired = True, ck_HttpOnly = False,
         ck_Secure = False, ck_SameSite = 0\<rparr>])"

fun trackedCookies :: "CookieRequestTracker \<Rightarrow> time \<Rightarrow> (string \<times> string) list \<Rightarrow> TrackedRequest list" where
  "trackedCookies t now [] = []"
| "trackedCookies t now ((name, value) # cookies) =
     (if \<not> prefix (crt_NamePrefix t) name then trackedCookies t now cookies
      else (case tco_Decode (crt_Codec t) now value of
              Inl _ \<Rightarrow> trackedCookies t now cookies
            | Inr tracked \<Rightarrow>
                if drop (length (crt_NamePrefix t)) name \<noteq> tr_Index tracked then trackedCookies t now cookies
                else tracked # trackedCookies t now cookies))"

definition GetTrackedRequests :: "CookieRequestTracker \<Rightarrow> time \<Rightarrow> http_request \<Rightarrow> TrackedRequest list" where
  "GetTrackedRequests t now r = trackedCookies t now (rq_Cookies r)"

definition GetTrackedRequest :: "CookieRequestTracker \<Rightarrow> time \<Rightarrow> http_request \<Rightarrow> string \<Rightarrow> TrackedRequest result" where
  "GetTrackedRequest t now r index =
     bindE (requestCookie r (crt_NamePrefix t @ index)) (\<lambda>value.
     bindE (tco_Decode (crt_Codec t) now value) (\<lambda>tracked.
       if tr_Index tracked \<noteq> index then Inl (Errorf ''expected index %q, got %q'' [index, tr_Index tracked])
       else Inr tracked))"

section \<open>Sessions\<close>

record JWTSessionCodec =
  jsc_SigningMethod :: string
  jsc_Audience :: string
  jsc_Issuer :: string
  jsc_MaxAge :: duration
  jsc_Key :: signer

definition appendClaim :: "string \<Rightarrow> string list \<Rightarrow> (string \<rightharpoonup> string list) \<Rightarrow> string \<rightharpoonup> string list" where
  "appendClaim name values m = (if values = [] then m
     else m(name \<mapsto> (case m name of None \<Rightarrow> [] | Some vs \<Rightarrow> vs) @ values))"

definition claimName :: "'a Attribute_scheme \<Rightarrow> string" where
  "claimName attr = (if att_FriendlyName attr = [] then att_Name attr else att_FriendlyName attr)"

definition assertionClaims :: "Assertion \<Rightarrow> string \<rightharpoonup> string list" where
  "assertionClaims assertion =
     fold (\<lambda>st. appendClaim ''SessionIndex'' [as_SessionIndex st]) (asr_AuthnStatements assertion)
       (fold (\<lambda>attr. appendClaim (claimName attr) (map av_Value (att_Values attr)))
          (concat (map ats_Attributes (asr_AttributeStatements assertion))) Map.empty)"

definition sessionSubject :: "Assertion \<Rightarrow> string" where
  "sessionSubject assertion =
     (case asr_Subject assertion of
        None \<Rightarrow> []
      | Some sub \<Rightarrow> (case subj_NameID sub of None \<Rightarrow> [] | Some nameID \<Rightarrow> nid_Value nameID))"

definition Session_New :: "jwt_lib \<Rightarrow> JWTSessionCodec \<Rightarrow> time \<Rightarrow> Assertion \<Rightarrow> JWTSessionClaims" where
  "Session_New W c now assertion =
     \<lparr>jc_Claims = \<lparr>cl_Issuer = jsc_Issuer c,
        cl_Subject = sessionSubject assertion,
        cl_Audience = [jsc_Audience c], cl_Expiry = w_NewNumericDate W (now + jsc_MaxAge c),
        cl_NotBefore = w_NewNumericDate W now, cl_IssuedAt = w_NewNumericDate W now\<rparr>,
      jc_Attributes = assertionClaims assertion, jc_SAMLSession = True\<rparr>"

definition Session_Encode :: "jwt_lib \<Rightarrow> JWTSessionCodec \<Rightarrow> JWTSessionClaims \<Rightarrow> string result" where
  "Session_Encode W c claims = signJWT W (w_SerializeSession W) (jsc_SigningMethod c) (jsc_Key c) claims"

definition Session_Decode :: "jwt_lib \<Rightarrow> JWTSessionCodec \<Rightarrow> time \<Rightarrow> string \<Rightarrow> JWTSessionClaims result" where
  "Session_Decode W c now signed =
     bindE (verifyJWT W (w_SessionClaims W) jc_Claims signed (jsc_SigningMethod c) (jsc_Key c) (jsc_Audience c) (jsc_Issuer c) now)
       (\<lambda>claims. if \<not> jc_SAMLSession claims then Inl (Err ''expected saml-session'') else Inr claims)"

definition Attributes_Get :: "(string \<rightharpoonup> string list) \<Rightarrow> string \<Rightarrow> string" where
  "Attributes_Get a key = (case a key of None \<Rightarrow> [] | Some vs \<Rightarrow> (case vs of [] \<Rightarrow> [] | v # _ \<Rightarrow> v))"

text \<open>The interface \<^verbatim>\<open>SessionCodec\<close>, and the codec as one.\<close>

record 'ses SessionCodec =
  sco_New :: "time \<Rightarrow> Assertion \<Rightarrow> 'ses result"
  sco_Encode :: "'ses \<Rightarrow> string result"
  sco_Decode :: "time \<Rightarrow> string \<Rightarrow> 'ses result"

definition jwtSessionCodec :: "jwt_lib \<Rightarrow> JWTSessionCodec \<Rightarrow> JWTSessionClaims SessionCodec" where
  "jwtSessionCodec W c = \<lparr>sco_New = (\<lambda>now assertion. Inr (Session_New W c now assertion)), sco_Encode = Session_Encode W c,
     sco_Decode = Session_Decode W c\<rparr>"

record 'ses CookieSessionProvider =
  csp_Name :: string
  csp_Domain :: string
  csp_HTTPOnly :: bool
  csp_Secure :: bool
  csp_SameSite :: nat
  csp_MaxAge :: duration
  csp_Path :: string
  csp_Codec :: "'ses SessionCodec"

text \<open>Both methods strip the port of the domain.\<close>

definition cookieDomain :: "externs \<Rightarrow> 'ses CookieSessionProvider \<Rightarrow> string" where
  "cookieDomain X c = (case x_SplitHostPort X (csp_Domain c) of Inr domain \<Rightarrow> domain | Inl _ \<Rightarrow> csp_Domain c)"

definition CreateSession ::
  "externs \<Rightarrow> 'ses CookieSessionProvider \<Rightarrow> time \<Rightarrow> http_request \<Rightarrow> Assertion \<Rightarrow> http_write list result" where
  "CreateSession X c now r assertion =
     bindE (sco_New (csp_Codec c) now assertion) (\<lambda>session.
     bindE (sco_Encode (csp_Codec c) session) (\<lambda>value.
       Inr [SetCookie \<lparr>ck_Name = csp_Name c, ck_Value = value, ck_Domain = cookieDomain X c,
         ck_Path = (if csp_Path c = [] then ''/'' else csp_Path c), ck_MaxAge = seconds (csp_MaxAge c), ck_Expired = False,
         ck_HttpOnly = csp_HTTPOnly c, ck_Secure = (csp_Secure c \<or> rq_Scheme r = ''https''), ck_SameSite = csp_SameSite c\<rparr>]))"

definition DeleteSession :: "externs \<Rightarrow> 'ses CookieSessionProvider \<Rightarrow> http_request \<Rightarrow> http_write list result" where
  "DeleteSession X c r =
     (case requestCookie r (csp_Name c) of
        Inl e \<Rightarrow> if e = ErrNoCookie then Inr [] else Inl e
      | Inr _ \<Rightarrow>
          Inr [SetCookie \<lparr>ck_Name = csp_Name c, ck_Value = [], ck_Domain = cookieDomain X c, ck_Path = ''/'', ck_MaxAge = 0,
            ck_Expired = True, ck_HttpOnly = False, ck_Secure = False, ck_SameSite = 0\<rparr>])"

definition GetSession :: "'ses CookieSessionProvider \<Rightarrow> time \<Rightarrow> http_request \<Rightarrow> 'ses result" where
  "GetSession c now r =
     (case requestCookie r (csp_Name c) of
        Inl e \<Rightarrow> Inl (if e = ErrNoCookie then ErrNoSession else e)
      | Inr value \<Rightarrow>
          (case sco_Decode (csp_Codec c) now value of Inl _ \<Rightarrow> Inl ErrNoSession | Inr session \<Rightarrow> Inr session))"


section \<open>Tokens that expire\<close>

text \<open>The contract of a codec: for times that the standard library prints with a four-digit year, what was made
  at a time \<open>now\<close> reads back from then on until a second before its lifetime ends, and not after it.\<close>

definition printableTime :: "time \<Rightarrow> bool" where
  "printableTime t \<longleftrightarrow> 0 < t \<and> t < 315537897600 * nsSecond"

locale expiring_tokens =
  fixes mint :: "time \<Rightarrow> 'a \<Rightarrow> ('v \<times> string) result"
    and decode :: "time \<Rightarrow> string \<Rightarrow> 'v result"
    and lifetime :: duration
    and kept :: "time \<Rightarrow> 'a \<Rightarrow> bool"
  assumes decode_minted:
      "mint now a = Inr (v, s) \<Longrightarrow> kept now a \<Longrightarrow> now \<le> t \<Longrightarrow> t + nsSecond \<le> now + lifetime \<Longrightarrow> decode t s = Inr v"
    and decode_expired:
      "mint now a = Inr (v, s) \<Longrightarrow> kept now a \<Longrightarrow> now + lifetime < t \<Longrightarrow> \<exists>e. decode t s = Inl e"

definition mintTracked :: "TrackedRequestCodec \<Rightarrow> time \<Rightarrow> TrackedRequest \<Rightarrow> (TrackedRequest \<times> string) result" where
  "mintTracked C now v = bindE (tco_Encode C now v) (\<lambda>s. Inr (v, s))"

definition mintSession :: "'ses SessionCodec \<Rightarrow> time \<Rightarrow> Assertion \<Rightarrow> ('ses \<times> string) result" where
  "mintSession C now assertion =
     bindE (sco_New C now assertion) (\<lambda>session. bindE (sco_Encode C session) (\<lambda>s. Inr (session, s)))"

lemma CreateSession_cookie:
  assumes "CreateSession X P now r assertion = Inr ws"
  obtains c session where "ws = [SetCookie c]" "sco_New (csp_Codec P) now assertion = Inr session"
    "mintSession (csp_Codec P) now assertion = Inr (session, ck_Value c)" "ck_Name c = csp_Name P"
proof -
  obtain session s where s: "sco_New (csp_Codec P) now assertion = Inr session" "sco_Encode (csp_Codec P) session = Inr s"
    using assms by (auto simp: CreateSession_def)
  with assms show ?thesis by (intro that [OF _ s(1)]) (auto simp: CreateSession_def mintSession_def)
qed

text \<open>The clients: a tracker and a session provider over a codec with that contract.\<close>

locale request_tracking = expiring_tokens "mintTracked (crt_Codec T)" "tco_Decode (crt_Codec T)" lifetime kept
  for T :: CookieRequestTracker and lifetime kept
begin

lemma tracked_cookie:
  assumes "TrackRequest T now rnd r samlRequestID = (ws, Inr index)"
  obtains ws' s where "ws = ws' @ [SetCookie (trackingCookie T index s)]"
    "mintTracked (crt_Codec T) now \<lparr>tr_Index = index, tr_SAMLRequestID = samlRequestID, tr_URI = rq_URL r\<rparr>
       = Inr (\<lparr>tr_Index = index, tr_SAMLRequestID = samlRequestID, tr_URI = rq_URL r\<rparr>, s)"
  using assms by (auto simp: TrackRequest_def mintTracked_def Let_def split: prod.splits sum.splits)

lemma trackedCookies_mem:
  assumes "(crt_NamePrefix T @ tr_Index v, s) \<in> set cookies" "tco_Decode (crt_Codec T) t s = Inr v"
  shows "v \<in> set (trackedCookies T t cookies)"
  using assms(1)
  by (induction cookies) (use assms(2) in \<open>auto split: sum.splits\<close>)

lemma get_tracked:
  assumes "requestCookie r (crt_NamePrefix T @ tr_Index v) = Inr s" "tco_Decode (crt_Codec T) t s = Inr v"
  shows "GetTrackedRequest T t r (tr_Index v) = Inr v \<and> v \<in> set (GetTrackedRequests T t r)"
  using assms trackedCookies_mem [of v s "rq_Cookies r" t]
  by (auto simp: GetTrackedRequest_def GetTrackedRequests_def requestCookie_def split: option.splits dest: map_of_SomeD)

lemma tracked_until_expiry:
  assumes minted: "mintTracked (crt_Codec T) now v = Inr (v, s)" and "kept now v" "now \<le> t"
    and cookie: "requestCookie r (crt_NamePrefix T @ tr_Index v) = Inr s"
  shows "t + nsSecond \<le> now + lifetime \<Longrightarrow>
      GetTrackedRequest T t r (tr_Index v) = Inr v \<and> v \<in> set (GetTrackedRequests T t r)"
    and "now + lifetime < t \<Longrightarrow> \<exists>e. GetTrackedRequest T t r (tr_Index v) = Inl e"
  using get_tracked [OF cookie] decode_minted [OF minted assms(2,3)] decode_expired [OF minted assms(2), of t] cookie
  by (blast, auto simp: GetTrackedRequest_def)

end

locale cookie_sessions = expiring_tokens "mintSession (csp_Codec P)" "sco_Decode (csp_Codec P)" lifetime kept
  for P :: "'ses CookieSessionProvider" and lifetime kept
begin

lemma session_until_expiry:
  assumes minted: "mintSession (csp_Codec P) now assertion = Inr (session, s)" and "kept now assertion" "now \<le> t"
    and cookie: "requestCookie r (csp_Name P) = Inr s"
  shows "t + nsSecond \<le> now + lifetime \<Longrightarrow> GetSession P t r = Inr session"
    and "now + lifetime < t \<Longrightarrow> GetSession P t r = Inl ErrNoSession"
  using decode_minted [OF minted assms(2,3)] decode_expired [OF minted assms(2), of t] cookie
  by (auto simp: GetSession_def)

end

section \<open>JSON Web Tokens\<close>

text \<open>What a token keeps: strings that are UTF-8, and dates that a floating point number represents. The index of a
  tracked request is not part of its JSON form.\<close>

definition keptClaims :: "jwt_claims \<Rightarrow> bool" where
  "keptClaims c \<longleftrightarrow> list_all (\<lambda>s. utf8Coerce s = s) (cl_Issuer c # cl_Subject c # cl_Audience c) \<and>
     list_all (\<lambda>d. case d of None \<Rightarrow> True | Some n \<Rightarrow> \<bar>n\<bar> < 2 ^ 53) [cl_Expiry c, cl_NotBefore c, cl_IssuedAt c]"

definition keptTracked :: "JWTTrackedRequestClaims \<Rightarrow> bool" where
  "keptTracked c \<longleftrightarrow> keptClaims (tc_Claims c) \<and> utf8Coerce (tr_SAMLRequestID (tc_TrackedRequest c)) = tr_SAMLRequestID (tc_TrackedRequest c) \<and>
     utf8Coerce (tr_URI (tc_TrackedRequest c)) = tr_URI (tc_TrackedRequest c)"

definition keptAttributes :: "(string \<rightharpoonup> string list) \<Rightarrow> bool" where
  "keptAttributes m \<longleftrightarrow> (\<forall>k vs. m k = Some vs \<longrightarrow> utf8Coerce k = k \<and> (\<forall>v \<in> set vs. utf8Coerce v = v))"

definition dateHolds :: "jwt_lib \<Rightarrow> int option \<Rightarrow> (time \<Rightarrow> bool) \<Rightarrow> bool" where
  "dateHolds W d P \<longleftrightarrow> (case d of None \<Rightarrow> True | Some n \<Rightarrow> P (w_Time W n))"

text \<open>What the code relies on of the library: a serialized token parses under its algorithm and gives its claims to
  the public key; read as claims of the other kind, the mark of that kind is absent; the registered claims are valid
  for the issuer and the audience between their dates; a numeric date is the second of a time.\<close>

definition jwtLaws :: "jwt_lib \<Rightarrow> bool" where
  "jwtLaws W \<longleftrightarrow>
     (\<forall>alg key c s. w_SerializeTracked W alg key c = Inr s \<longrightarrow>
        (\<exists>token. w_ParseSigned W s [alg] = Inr token \<and>
           (keptTracked c \<longrightarrow>
              w_TrackedClaims W token (sg_Public key) = Inr (c\<lparr>tc_TrackedRequest := (tc_TrackedRequest c)\<lparr>tr_Index := []\<rparr>\<rparr>))) \<and>
        (\<forall>algs token pub c'. w_ParseSigned W s algs = Inr token \<longrightarrow> w_SessionClaims W token pub = Inr c' \<longrightarrow>
           \<not> jc_SAMLSession c')) \<and>
     (\<forall>alg key c s. w_SerializeSession W alg key c = Inr s \<longrightarrow>
        (\<exists>token. w_ParseSigned W s [alg] = Inr token \<and>
           (keptClaims (jc_Claims c) \<and> keptAttributes (jc_Attributes c) \<longrightarrow> w_SessionClaims W token (sg_Public key) = Inr c)) \<and>
        (\<forall>algs token pub c'. w_ParseSigned W s algs = Inr token \<longrightarrow> w_TrackedClaims W token pub = Inr c' \<longrightarrow>
           \<not> tc_SAMLAuthnRequest c')) \<and>
     (\<forall>c issuer audience t. t \<noteq> 0 \<longrightarrow>
        (w_ValidateWithLeeway W c issuer audience t 0 = Inr () \<longleftrightarrow>
           (issuer \<noteq> [] \<longrightarrow> cl_Issuer c = issuer) \<and> audience \<in> set (cl_Audience c) \<and>
           dateHolds W (cl_NotBefore c) (\<lambda>d. d \<le> t) \<and> dateHolds W (cl_Expiry c) (\<lambda>d. t \<le> d) \<and>
           dateHolds W (cl_IssuedAt c) (\<lambda>d. d \<le> t))) \<and>
     (\<forall>t. printableTime t \<longrightarrow>
        (\<exists>n. w_NewNumericDate W t = Some n \<and> \<bar>n\<bar> < 2 ^ 53 \<and> w_Time W n \<le> t \<and> t < w_Time W n + nsSecond))"

lemma jwtLaws_date:
  assumes "jwtLaws W" "printableTime t"
  obtains n where "w_NewNumericDate W t = Some n" "\<bar>n\<bar> < 2 ^ 53" "w_Time W n \<le> t" "t < w_Time W n + nsSecond"
  using assms unfolding jwtLaws_def by meson

lemma jwtLaws_tracked:
  assumes "jwtLaws W" "w_SerializeTracked W alg key c = Inr s"
  shows "keptTracked c \<Longrightarrow> \<exists>token. w_ParseSigned W s [alg] = Inr token \<and>
      w_TrackedClaims W token (sg_Public key) = Inr (c\<lparr>tc_TrackedRequest := (tc_TrackedRequest c)\<lparr>tr_Index := []\<rparr>\<rparr>)"
    and "w_ParseSigned W s algs = Inr token \<Longrightarrow> w_SessionClaims W token pub = Inr c' \<Longrightarrow> \<not> jc_SAMLSession c'"
  using assms(1) [unfolded jwtLaws_def, THEN conjunct1, THEN spec, THEN spec, THEN spec, THEN spec, THEN mp, OF assms(2)]
  by blast+

lemma jwtLaws_session:
  assumes "jwtLaws W" "w_SerializeSession W alg key c = Inr s"
  shows "keptClaims (jc_Claims c) \<Longrightarrow> keptAttributes (jc_Attributes c) \<Longrightarrow>
      \<exists>token. w_ParseSigned W s [alg] = Inr token \<and> w_SessionClaims W token (sg_Public key) = Inr c"
    and "w_ParseSigned W s algs = Inr token \<Longrightarrow> w_TrackedClaims W token pub = Inr c' \<Longrightarrow> \<not> tc_SAMLAuthnRequest c'"
  using assms(1) [unfolded jwtLaws_def, THEN conjunct2, THEN conjunct1, THEN spec, THEN spec, THEN spec, THEN spec, THEN mp, OF assms(2)]
  by blast+

lemma jwtLaws_validate:
  assumes "jwtLaws W" "t \<noteq> 0"
  shows "w_ValidateWithLeeway W c issuer audience t 0 = Inr () \<longleftrightarrow>
     (issuer \<noteq> [] \<longrightarrow> cl_Issuer c = issuer) \<and> audience \<in> set (cl_Audience c) \<and>
     dateHolds W (cl_NotBefore c) (\<lambda>d. d \<le> t) \<and> dateHolds W (cl_Expiry c) (\<lambda>d. t \<le> d) \<and>
     dateHolds W (cl_IssuedAt c) (\<lambda>d. d \<le> t)"
  using assms unfolding jwtLaws_def by blast


text \<open>What the claims of a token made at \<open>now\<close> with a lifetime say of a later time.\<close>

definition lifetimeClaims :: "jwt_lib \<Rightarrow> time \<Rightarrow> duration \<Rightarrow> jwt_claims \<Rightarrow> bool" where
  "lifetimeClaims W now lifetime c \<longleftrightarrow> cl_Expiry c = w_NewNumericDate W (now + lifetime) \<and>
     cl_NotBefore c = w_NewNumericDate W now \<and> cl_IssuedAt c = w_NewNumericDate W now"

lemma lifetime_validation:
  assumes W: "jwtLaws W" and c: "lifetimeClaims W now lifetime c" "cl_Issuer c = issuer" "cl_Audience c = [audience]"
    and times: "printableTime now" "printableTime (now + lifetime)"
  shows "now \<le> t \<Longrightarrow> t + nsSecond \<le> now + lifetime \<Longrightarrow> w_ValidateWithLeeway W c issuer audience t 0 = Inr ()"
    and "now + lifetime < t \<Longrightarrow> t \<noteq> 0 \<Longrightarrow> w_ValidateWithLeeway W c issuer audience t 0 \<noteq> Inr ()"
proof -
  obtain n e where n: "w_NewNumericDate W now = Some n" "w_Time W n \<le> now"
    and e: "w_NewNumericDate W (now + lifetime) = Some e" "w_Time W e \<le> now + lifetime" "now + lifetime < w_Time W e + nsSecond"
    using jwtLaws_date [OF W times(1)] jwtLaws_date [OF W times(2)] by metis
  note validate = jwtLaws_validate [OF W, of t c issuer audience]
  show "w_ValidateWithLeeway W c issuer audience t 0 = Inr ()" if "now \<le> t" "t + nsSecond \<le> now + lifetime"
    using that times(1) validate c n e by (simp add: lifetimeClaims_def dateHolds_def printableTime_def)
  show "w_ValidateWithLeeway W c issuer audience t 0 \<noteq> Inr ()" if "now + lifetime < t" "t \<noteq> 0"
    using that validate c n e by (simp add: lifetimeClaims_def dateHolds_def)
qed

lemma lifetimeClaims_kept:
  assumes "jwtLaws W" "lifetimeClaims W now lifetime c" "printableTime now" "printableTime (now + lifetime)"
  shows "keptClaims c \<longleftrightarrow> list_all (\<lambda>s. utf8Coerce s = s) (cl_Issuer c # cl_Subject c # cl_Audience c)"
  using assms jwtLaws_date [OF assms(1,3)] jwtLaws_date [OF assms(1,4)]
  by (fastforce simp: lifetimeClaims_def keptClaims_def)

text \<open>A serialized token as the code verifies it.\<close>

lemma verifyJWT_parsed:
  assumes "w_ParseSigned W s [alg] = Inr token" "claimsOf token (sg_Public key) = Inr c"
  shows "verifyJWT W claimsOf registered s alg key audience issuer t =
    bindE (w_ValidateWithLeeway W (registered c) issuer audience t 0) (\<lambda>_. Inr c)"
  using assms by (simp add: verifyJWT_def)

definition trackedKept :: "JWTTrackedRequestCodec \<Rightarrow> time \<Rightarrow> TrackedRequest \<Rightarrow> bool" where
  "trackedKept s now v \<longleftrightarrow> printableTime now \<and> printableTime (now + tcd_MaxAge s) \<and>
     list_all (\<lambda>x. utf8Coerce x = x) [tcd_Issuer s, tcd_Audience s, tr_Index v, tr_SAMLRequestID v, tr_URI v]"

lemma jwt_tracked_tokens:
  assumes W: "jwtLaws W" and age: "0 \<le> tcd_MaxAge s"
  shows "expiring_tokens (mintTracked (jwtTrackedCodec W s)) (tco_Decode (jwtTrackedCodec W s)) (tcd_MaxAge s) (trackedKept s)"
proof
  fix now v v' signed t
  assume m: "mintTracked (jwtTrackedCodec W s) now v = Inr (v', signed)" and k: "trackedKept s now v"
  let ?c = "trackedClaims W s now v"
  let ?d = "?c\<lparr>tc_TrackedRequest := v\<lparr>tr_Index := []\<rparr>\<rparr>"
  have v': "v' = v" and ser: "w_SerializeTracked W (tcd_SigningMethod s) (tcd_Key s) ?c = Inr signed"
    using m by (auto simp: mintTracked_def jwtTrackedCodec_def Tracked_Encode_def signJWT_def)
  have life: "lifetimeClaims W now (tcd_MaxAge s) (tc_Claims ?c)" by (simp add: lifetimeClaims_def trackedClaims_def)
  have times: "printableTime now" "printableTime (now + tcd_MaxAge s)" using k by (simp_all add: trackedKept_def)
  have "keptTracked ?c"
    using k lifetimeClaims_kept [OF W life times] by (simp add: keptTracked_def trackedKept_def trackedClaims_def)
  then obtain token where "w_ParseSigned W signed [tcd_SigningMethod s] = Inr token"
    "w_TrackedClaims W token (sg_Public (tcd_Key s)) = Inr ?d"
    using jwtLaws_tracked(1) [OF W ser] by (auto simp: trackedClaims_def)
  then have dec: "tco_Decode (jwtTrackedCodec W s) t signed =
      bindE (w_ValidateWithLeeway W (tc_Claims ?c) (tcd_Issuer s) (tcd_Audience s) t 0) (\<lambda>_. Inr v)"
    by (simp add: jwtTrackedCodec_def Tracked_Decode_def verifyJWT_def trackedClaims_def bindE_assoc)
  note valid = lifetime_validation [OF W life _ _ times, of "tcd_Issuer s" "tcd_Audience s" t]
  show "tco_Decode (jwtTrackedCodec W s) t signed = Inr v'" if "now \<le> t" "t + nsSecond \<le> now + tcd_MaxAge s"
    using valid(1) [OF _ _ that] v' by (simp add: dec trackedClaims_def)
  show "\<exists>e. tco_Decode (jwtTrackedCodec W s) t signed = Inl e" if "now + tcd_MaxAge s < t"
    using valid(2) [OF _ _ that] times age that
    by (cases "w_ValidateWithLeeway W (tc_Claims ?c) (tcd_Issuer s) (tcd_Audience s) t 0")
      (auto simp: dec trackedClaims_def printableTime_def)
qed


definition sessionKept :: "JWTSessionCodec \<Rightarrow> time \<Rightarrow> Assertion \<Rightarrow> bool" where
  "sessionKept c now assertion \<longleftrightarrow> printableTime now \<and> printableTime (now + jsc_MaxAge c) \<and>
     list_all (\<lambda>x. utf8Coerce x = x) [jsc_Issuer c, jsc_Audience c, sessionSubject assertion] \<and>
     keptAttributes (assertionClaims assertion)"

lemma jwt_session_tokens:
  assumes W: "jwtLaws W" and age: "0 \<le> jsc_MaxAge c"
  shows "expiring_tokens (mintSession (jwtSessionCodec W c)) (sco_Decode (jwtSessionCodec W c)) (jsc_MaxAge c) (sessionKept c)"
proof
  fix now assertion session signed t
  assume m: "mintSession (jwtSessionCodec W c) now assertion = Inr (session, signed)" and k: "sessionKept c now assertion"
  let ?c = "Session_New W c now assertion"
  have session: "session = ?c" and ser: "w_SerializeSession W (jsc_SigningMethod c) (jsc_Key c) ?c = Inr signed"
    using m by (auto simp: mintSession_def jwtSessionCodec_def Session_Encode_def signJWT_def)
  have life: "lifetimeClaims W now (jsc_MaxAge c) (jc_Claims ?c)" by (simp add: lifetimeClaims_def Session_New_def)
  have times: "printableTime now" "printableTime (now + jsc_MaxAge c)" using k by (simp_all add: sessionKept_def)
  have "keptClaims (jc_Claims ?c)" "keptAttributes (jc_Attributes ?c)"
    using k lifetimeClaims_kept [OF W life times] by (simp_all add: sessionKept_def Session_New_def)
  then obtain token where "w_ParseSigned W signed [jsc_SigningMethod c] = Inr token"
    "w_SessionClaims W token (sg_Public (jsc_Key c)) = Inr ?c"
    using jwtLaws_session(1) [OF W ser] by auto
  then have dec: "sco_Decode (jwtSessionCodec W c) t signed =
      bindE (w_ValidateWithLeeway W (jc_Claims ?c) (jsc_Issuer c) (jsc_Audience c) t 0) (\<lambda>_. Inr ?c)"
    by (simp add: jwtSessionCodec_def Session_Decode_def verifyJWT_def Session_New_def bindE_assoc)
  note valid = lifetime_validation [OF W life _ _ times, of "jsc_Issuer c" "jsc_Audience c" t]
  show "sco_Decode (jwtSessionCodec W c) t signed = Inr session" if "now \<le> t" "t + nsSecond \<le> now + jsc_MaxAge c"
    using valid(1) [OF _ _ that] session by (simp add: dec Session_New_def)
  show "\<exists>e. sco_Decode (jwtSessionCodec W c) t signed = Inl e" if "now + jsc_MaxAge c < t"
    using valid(2) [OF _ _ that] times age that
    by (cases "w_ValidateWithLeeway W (jc_Claims ?c) (jsc_Issuer c) (jsc_Audience c) t 0")
      (auto simp: dec Session_New_def printableTime_def)
qed

text \<open>The tracker and the session provider over the codecs of the package, with any token library that meets the
  laws.\<close>

locale jwt_tracking =
  fixes W :: jwt_lib and s :: JWTTrackedRequestCodec and T :: CookieRequestTracker
  assumes laws: "jwtLaws W" and age: "0 \<le> tcd_MaxAge s" and codec: "crt_Codec T = jwtTrackedCodec W s"

sublocale jwt_tracking \<subseteq> request_tracking T "tcd_MaxAge s" "trackedKept s"
  unfolding request_tracking_def codec by (rule jwt_tracked_tokens [OF laws age])

context jwt_tracking
begin

lemma contract: "request_tracking T (tcd_MaxAge s) (trackedKept s)"
  by unfold_locales

end

locale jwt_sessions =
  fixes W :: jwt_lib and c :: JWTSessionCodec and P :: "JWTSessionClaims CookieSessionProvider"
  assumes laws: "jwtLaws W" and age: "0 \<le> jsc_MaxAge c" and codec: "csp_Codec P = jwtSessionCodec W c"

sublocale jwt_sessions \<subseteq> cookie_sessions P "jsc_MaxAge c" "sessionKept c"
  unfolding cookie_sessions_def codec by (rule jwt_session_tokens [OF laws age])

context jwt_sessions
begin

lemma contract: "cookie_sessions P (jsc_MaxAge c) (sessionKept c)"
  by unfold_locales

end

text \<open>A token of one kind is refused as the other, whatever the codec.\<close>

lemma tracked_token_no_session:
  assumes "jwtLaws W" "Tracked_Encode W s now v = Inr signed"
  shows "\<exists>e. Session_Decode W c t signed = Inl e"
proof -
  have "w_SerializeTracked W (tcd_SigningMethod s) (tcd_Key s) (trackedClaims W s now v) = Inr signed"
    using assms(2) by (simp add: Tracked_Encode_def signJWT_def)
  from jwtLaws_tracked(2) [OF assms(1) this] show ?thesis
    by (cases "Session_Decode W c t signed") (auto simp: Session_Decode_def verifyJWT_def split: if_splits)
qed

lemma session_token_not_tracked:
  assumes "jwtLaws W" "Session_Encode W c session = Inr signed"
  shows "\<exists>e. Tracked_Decode W s t signed = Inl e"
proof -
  have "w_SerializeSession W (jsc_SigningMethod c) (jsc_Key c) session = Inr signed"
    using assms(2) by (simp add: Session_Encode_def signJWT_def)
  from jwtLaws_session(2) [OF assms(1) this] show ?thesis
    by (cases "Tracked_Decode W s t signed") (auto simp: Tracked_Decode_def verifyJWT_def split: if_splits)
qed


section \<open>A token library and a tracker\<close>

definition exampleTrackedCodec :: JWTTrackedRequestCodec where
  "exampleTrackedCodec = \<lparr>tcd_SigningMethod = ''RS256'', tcd_Audience = ''https://sp/'', tcd_Issuer = ''https://sp/'',
     tcd_MaxAge = MaxIssueDelay, tcd_Key = exampleSigner\<rparr>"

definition exampleSessionCodec :: JWTSessionCodec where
  "exampleSessionCodec = \<lparr>jsc_SigningMethod = ''RS256'', jsc_Audience = ''https://sp/'', jsc_Issuer = ''https://sp/'',
     jsc_MaxAge = nsHour, jsc_Key = exampleSigner\<rparr>"

definition exampleTracked :: TrackedRequest where
  "exampleTracked = \<lparr>tr_Index = ''YWJj'', tr_SAMLRequestID = ''id'', tr_URI = ''/app''\<rparr>"

text \<open>The registered claims of the tokens that the library makes, in the first second; it reads all others as invalid.\<close>

definition exampleDates :: "string \<Rightarrow> int \<Rightarrow> jwt_claims" where
  "exampleDates subject expiry = \<lparr>cl_Issuer = ''https://sp/'', cl_Subject = subject, cl_Audience = [''https://sp/''],
     cl_Expiry = Some expiry, cl_NotBefore = Some 0, cl_IssuedAt = Some 0\<rparr>"

definition exampleTrackedToken :: JWTTrackedRequestClaims where
  "exampleTrackedToken = \<lparr>tc_Claims = exampleDates ''YWJj'' 90, tc_TrackedRequest = exampleTracked, tc_SAMLAuthnRequest = True\<rparr>"

definition exampleSessionToken :: JWTSessionClaims where
  "exampleSessionToken = \<lparr>jc_Claims = exampleDates [] 3600, jc_Attributes = Map.empty, jc_SAMLSession = True\<rparr>"

definition exampleUserToken :: JWTSessionClaims where
  "exampleUserToken = \<lparr>jc_Claims = exampleDates [] 3600, jc_Attributes = [''mail'' \<mapsto> [''a@b'']], jc_SAMLSession = True\<rparr>"

definition exampleJwt :: jwt_lib where
  "exampleJwt =
     \<lparr>w_NewSigner = (\<lambda>_ _. Inr ()),
      w_SerializeTracked = (\<lambda>_ _ c. if c = exampleTrackedToken then Inr ''T'' else Inl (Err ''claims'')),
      w_SerializeSession = (\<lambda>_ _ c. if c = exampleSessionToken then Inr ''S'' else if c = exampleUserToken then Inr ''U''
         else Inl (Err ''claims'')),
      w_ParseSigned = (\<lambda>s _. if s \<in> {''T'', ''S'', ''U''} then Inr s else Inl (Err ''token'')),
      w_TrackedClaims = (\<lambda>s _. Inr (if s = ''T'' then exampleTrackedToken\<lparr>tc_TrackedRequest := exampleTracked\<lparr>tr_Index := []\<rparr>\<rparr>
         else \<lparr>tc_Claims = exampleDates [] 3600, tc_TrackedRequest = \<lparr>tr_Index = [], tr_SAMLRequestID = [], tr_URI = []\<rparr>,
               tc_SAMLAuthnRequest = False\<rparr>)),
      w_SessionClaims = (\<lambda>s _. Inr (if s = ''S'' then exampleSessionToken else if s = ''U'' then exampleUserToken
         else \<lparr>jc_Claims = exampleDates ''YWJj'' 90, jc_Attributes = Map.empty, jc_SAMLSession = False\<rparr>)),
      w_ValidateWithLeeway = (\<lambda>c issuer audience t leeway.
         if (issuer = [] \<or> cl_Issuer c = issuer) \<and> audience \<in> set (cl_Audience c) \<and>
            list_all (\<lambda>d. case d of None \<Rightarrow> True | Some n \<Rightarrow> n * nsSecond \<le> t) [cl_NotBefore c, cl_IssuedAt c] \<and>
            (case cl_Expiry c of None \<Rightarrow> True | Some n \<Rightarrow> t \<le> n * nsSecond)
         then Inr () else Inl (Err ''invalid claims'')),
      w_NewNumericDate = (\<lambda>t. if t = 0 then None else Some (t div nsSecond)), w_Time = (\<lambda>n. n * nsSecond)\<rparr>"

lemma exampleJwt_laws: "jwtLaws exampleJwt"
proof -
  have "\<exists>n. w_NewNumericDate exampleJwt t = Some n \<and> \<bar>n\<bar> < 2 ^ 53 \<and> w_Time exampleJwt n \<le> t \<and> t < w_Time exampleJwt n + nsSecond"
    if "printableTime t" for t
    using that by (auto simp: exampleJwt_def printableTime_def nsSecond_def)
  then show ?thesis
    by (simp add: jwtLaws_def exampleJwt_def exampleTrackedToken_def exampleSessionToken_def exampleUserToken_def dateHolds_def
        split: option.splits) auto
qed

definition exampleTracker :: CookieRequestTracker where
  "exampleTracker = \<lparr>crt_ServiceProvider = exampleSP, crt_NamePrefix = ''saml_'',
     crt_Codec = jwtTrackedCodec exampleJwt exampleTrackedCodec, crt_MaxAge = MaxIssueDelay, crt_RelayStateFunc = None,
     crt_SameSite = 0\<rparr>"

definition exampleSessions :: "JWTSessionClaims CookieSessionProvider" where
  "exampleSessions = \<lparr>csp_Name = ''token'', csp_Domain = ''sp'', csp_HTTPOnly = True, csp_Secure = True, csp_SameSite = 0,
     csp_MaxAge = nsHour, csp_Path = [], csp_Codec = jwtSessionCodec exampleJwt exampleSessionCodec\<rparr>"

interpretation tracker: jwt_tracking exampleJwt exampleTrackedCodec exampleTracker
  using exampleJwt_laws by unfold_locales (simp_all add: exampleTracker_def exampleTrackedCodec_def MaxIssueDelay_def nsSecond_def)

interpretation sessions: jwt_sessions exampleJwt exampleSessionCodec exampleSessions
  using exampleJwt_laws by unfold_locales (simp_all add: exampleSessions_def exampleSessionCodec_def ns_defs)

section \<open>Properties\<close>

text \<open>
  C39. A tracked request comes back. When TrackRequest returns an index, it has set a cookie that is scoped to the
  assertion consumer service; from a request with that cookie, until a second before the end of its lifetime, the
  index gives exactly the tracked request (its ID and the URL to return to), which is also among all tracked
  requests; after the lifetime it is an error. The token of the cookie is never a session. The strings are UTF-8,
  since the token is JSON, and the times have years of four digits.
\<close>

theorem tracked_request_round_trip:
  assumes "jwtLaws W" "0 \<le> tcd_MaxAge s" "crt_Codec T = jwtTrackedCodec W s"
    and "TrackRequest T now rnd r samlRequestID = (ws, Inr index)"
    and "trackedKept s now \<lparr>tr_Index = index, tr_SAMLRequestID = samlRequestID, tr_URI = rq_URL r\<rparr>"
  shows "\<exists>ws' signed. ws = ws' @ [SetCookie (trackingCookie T index signed)] \<and>
    (\<forall>c t. \<exists>e. Session_Decode W c t signed = Inl e) \<and>
    (\<forall>r' t. requestCookie r' (crt_NamePrefix T @ index) = Inr signed \<and> now \<le> t \<longrightarrow>
       (let tracked = \<lparr>tr_Index = index, tr_SAMLRequestID = samlRequestID, tr_URI = rq_URL r\<rparr> in
        (t + nsSecond \<le> now + tcd_MaxAge s \<longrightarrow>
           GetTrackedRequest T t r' index = Inr tracked \<and> tracked \<in> set (GetTrackedRequests T t r')) \<and>
        (now + tcd_MaxAge s < t \<longrightarrow> (\<exists>e. GetTrackedRequest T t r' index = Inl e))))"
proof -
  have "jwt_tracking W s T" using assms(1-3) by unfold_locales
  note tracking = jwt_tracking.contract [OF this]
  obtain ws' signed where w: "ws = ws' @ [SetCookie (trackingCookie T index signed)]"
    "mintTracked (crt_Codec T) now \<lparr>tr_Index = index, tr_SAMLRequestID = samlRequestID, tr_URI = rq_URL r\<rparr>
       = Inr (\<lparr>tr_Index = index, tr_SAMLRequestID = samlRequestID, tr_URI = rq_URL r\<rparr>, signed)"
    by (rule request_tracking.tracked_cookie [OF tracking assms(4)])
  have "\<exists>e. Session_Decode W c t signed = Inl e" for c t
    using w(2) assms(3) by (intro tracked_token_no_session [OF assms(1)]) (auto simp: mintTracked_def jwtTrackedCodec_def)
  with w(1) request_tracking.tracked_until_expiry [OF tracking w(2) assms(5)] show ?thesis
    by (simp add: Let_def) blast
qed

definition exampleVisit :: http_request where
  "exampleVisit = \<lparr>rq_Method = ''GET'', rq_Path = ''/app'', rq_RawQuery = [], rq_FormType = False, rq_Body = None,
     rq_RemoteAddr = [], rq_Cookies = [], rq_Header = [], rq_TLS = True, rq_Scheme = [], rq_URL = ''/app'', rq_PathValues = []\<rparr>"

lemma exampleIndex: "rawURLEncode ''abc'' = ''YWJj''"
  by (simp add: rawURLEncode_def b64char_def byte_def char_of_def bit_0)

lemma exampleTracked_claims: "trackedClaims exampleJwt exampleTrackedCodec 5 exampleTracked = exampleTrackedToken"
  by (simp add: trackedClaims_def exampleJwt_def exampleTrackedCodec_def exampleTrackedToken_def exampleTracked_def
      exampleDates_def nsSecond_def MaxIssueDelay_def)

lemma exampleTracked_signed: "Tracked_Encode exampleJwt exampleTrackedCodec 5 exampleTracked = Inr ''T''"
  unfolding Tracked_Encode_def exampleTracked_claims by (simp add: signJWT_def exampleJwt_def)

lemma exampleVisit_tracked:
  "TrackRequest exampleTracker 5 ''abc'' exampleVisit ''id''
     = ([SetCookie (trackingCookie exampleTracker ''YWJj'' ''T'')], Inr ''YWJj'')"
proof -
  have "\<lparr>tr_Index = rawURLEncode ''abc'', tr_SAMLRequestID = ''id'', tr_URI = rq_URL exampleVisit\<rparr> = exampleTracked"
    by (simp add: exampleVisit_def exampleTracked_def exampleIndex)
  moreover have "crt_RelayStateFunc exampleTracker = None" "crt_Codec exampleTracker = jwtTrackedCodec exampleJwt exampleTrackedCodec"
    by (simp_all add: exampleTracker_def)
  ultimately show ?thesis
    by (simp add: TrackRequest_def jwtTrackedCodec_def exampleTracked_signed) (simp add: exampleTracked_def)
qed

lemma exampleVisit_kept: "trackedKept exampleTrackedCodec 5 exampleTracked"
  by (simp add: trackedKept_def exampleTrackedCodec_def exampleTracked_def printableTime_def MaxIssueDelay_def nsSecond_def
      utf8Coerce_ASCII isASCII_def byte_def)

theorem tracked_request_round_trip_witness:
  "GetTrackedRequest exampleTracker (40 * nsSecond) (exampleVisit\<lparr>rq_Cookies := [(''saml_YWJj'', ''T'')]\<rparr>) ''YWJj'' = Inr exampleTracked \<and>
   (\<exists>e. GetTrackedRequest exampleTracker (91 * nsSecond) (exampleVisit\<lparr>rq_Cookies := [(''saml_YWJj'', ''T'')]\<rparr>) ''YWJj'' = Inl e)"
proof -
  let ?r = "exampleVisit\<lparr>rq_Cookies := [(''saml_YWJj'', ''T'')]\<rparr>"
  have cookie: "requestCookie ?r (crt_NamePrefix exampleTracker @ ''YWJj'') = Inr ''T''"
    by (simp add: requestCookie_def exampleTracker_def)
  have "crt_Codec exampleTracker = jwtTrackedCodec exampleJwt exampleTrackedCodec" "0 \<le> tcd_MaxAge exampleTrackedCodec"
    by (simp_all add: exampleTracker_def exampleTrackedCodec_def MaxIssueDelay_def nsSecond_def)
  moreover have tracked: "\<lparr>tr_Index = ''YWJj'', tr_SAMLRequestID = ''id'', tr_URI = rq_URL exampleVisit\<rparr> = exampleTracked"
    by (simp add: exampleVisit_def exampleTracked_def)
  ultimately obtain ws signed where
      "[SetCookie (trackingCookie exampleTracker ''YWJj'' ''T'')] = ws @ [SetCookie (trackingCookie exampleTracker ''YWJj'' signed)]"
    and get: "\<And>r' t. requestCookie r' (crt_NamePrefix exampleTracker @ ''YWJj'') = Inr signed \<and> 5 \<le> t \<Longrightarrow>
        (t + nsSecond \<le> 5 + tcd_MaxAge exampleTrackedCodec \<longrightarrow> GetTrackedRequest exampleTracker t r' ''YWJj'' = Inr exampleTracked) \<and>
        (5 + tcd_MaxAge exampleTrackedCodec < t \<longrightarrow> (\<exists>e. GetTrackedRequest exampleTracker t r' ''YWJj'' = Inl e))"
    using tracked_request_round_trip [OF exampleJwt_laws _ _ exampleVisit_tracked, of exampleTrackedCodec] exampleVisit_kept
    unfolding Let_def tracked by blast
  then have "signed = ''T''" by (simp add: trackingCookie_def Cons_eq_append_conv)
  with get [of ?r "40 * nsSecond"] get [of ?r "91 * nsSecond"] cookie show ?thesis
    by (simp add: exampleTrackedCodec_def MaxIssueDelay_def nsSecond_def)
qed


section \<open>The attributes of a session\<close>

text \<open>The values of a name, in the order of the assertion: those of the attributes with this friendly name, and of
  those without a friendly name that have this name; the session indexes come last.\<close>

definition claimValues :: "Assertion \<Rightarrow> string \<Rightarrow> string list" where
  "claimValues assertion name =
     concat (map (\<lambda>attr. if att_FriendlyName attr = name \<and> name \<noteq> [] \<or> att_FriendlyName attr = [] \<and> att_Name attr = name
         then map av_Value (att_Values attr) else [])
       (concat (map ats_Attributes (asr_AttributeStatements assertion)))) @
     (if name = ''SessionIndex'' then map as_SessionIndex (asr_AuthnStatements assertion) else [])"

lemma appendClaim_fold:
  "the_default [] (fold (\<lambda>x. appendClaim (n x) (v x)) xs m k) =
     the_default [] (m k) @ concat (map (\<lambda>x. if n x = k then v x else []) xs)"
  by (induction xs arbitrary: m) (auto simp: appendClaim_def split: option.splits)

lemma appendClaim_fold_nonempty:
  "m k \<noteq> Some [] \<Longrightarrow> fold (\<lambda>x. appendClaim (n x) (v x)) xs m k \<noteq> Some []"
  by (induction xs arbitrary: m) (auto simp: appendClaim_def split: option.splits)

lemma assertionClaims_values:
  "the_default [] (assertionClaims assertion name) = claimValues assertion name"
  "assertionClaims assertion name \<noteq> Some []"
proof -
  have named: "claimName attr = name \<longleftrightarrow> att_FriendlyName attr = name \<and> name \<noteq> [] \<or> att_FriendlyName attr = [] \<and> att_Name attr = name"
    for attr :: Attribute
    by (auto simp: claimName_def)
  show "the_default [] (assertionClaims assertion name) = claimValues assertion name"
    by (auto simp: assertionClaims_def appendClaim_fold claimValues_def named simp flip: map_concat intro!: arg_cong [of _ _ concat])
  show "assertionClaims assertion name \<noteq> Some []"
    by (simp add: assertionClaims_def appendClaim_fold_nonempty)
qed

end
