(* ===== verification/Sp_Middleware.thy ===== *)
theory Sp_Middleware
  imports Sp_Tokens Http_Redirect
begin

text \<open>
  The middleware of the service provider (\<^verbatim>\<open>samlsp/middleware.go\<close>, \<^verbatim>\<open>new.go\<close>, \<^verbatim>\<open>error.go\<close>,
  \<^verbatim>\<open>fetch_metadata.go\<close>). Its request tracker, session provider and assertion handler are interfaces: records of
  functions, which \<^verbatim>\<open>New\<close> fills with the trackers and providers of \<open>Sp_Tokens\<close>.
\<close>

section \<open>The middleware\<close>

record request_tracker =
  rt_TrackRequest :: "http_request \<Rightarrow> string \<Rightarrow> http_write list \<times> string result"
  rt_StopTrackingRequest :: "http_request \<Rightarrow> string \<Rightarrow> http_write list result"
  rt_GetTrackedRequests :: "http_request \<Rightarrow> TrackedRequest list"
  rt_GetTrackedRequest :: "http_request \<Rightarrow> string \<Rightarrow> TrackedRequest result"

record 'ses session_provider =
  sep_CreateSession :: "http_request \<Rightarrow> Assertion \<Rightarrow> http_write list result"
  sep_DeleteSession :: "http_request \<Rightarrow> http_write list result"
  sep_GetSession :: "http_request \<Rightarrow> 'ses result"

record 'ses Middleware =
  mw_ServiceProvider :: ServiceProvider
  mw_OnError :: "http_request \<Rightarrow> error \<Rightarrow> http_write list"
  mw_Binding :: string
  mw_ResponseBinding :: string
  mw_RequestTracker :: request_tracker
  mw_Session :: "'ses session_provider"
  mw_AssertionHandler :: "Assertion \<Rightarrow> unit result"

text \<open>What the handlers read from their surroundings: the times of the service provider and of the signature
  validation, random bytes for messages and their signatures, the exchange with the artifact resolution service, and
  the URL of the request as \<^verbatim>\<open>ParseResponse\<close> sees it.\<close>

record mw_env =
  me_Now :: time
  me_Clock :: time
  me_ID :: string
  me_Signature :: string
  me_Post :: "string \<Rightarrow> string \<Rightarrow> http_exchange result"
  me_Registry :: registry
  me_URL :: url

section \<open>Redirects\<close>

text \<open>\<^verbatim>\<open>unicode.IsControl\<close> of some rune of the string: the C0 controls, DEL and the C1 controls.\<close>

fun containsControl :: "string \<Rightarrow> bool" where
  "containsControl [] = False"
| "containsControl (c # cs) =
     (if byte c < 128 then byte c < 32 \<or> byte c = 127 \<or> containsControl cs
      else if runeLength (c # cs) = 0 then containsControl cs
      else runeLength (c # cs) = 2 \<and> byte c = 194 \<and> byte (hd cs) < 160 \<or>
        containsControl (drop (runeLength (c # cs) - 1) cs))"

text \<open>\<open>fold\<close> is the case folding of \<^verbatim>\<open>strings.EqualFold\<close>.\<close>

definition isLocalRedirect :: "externs \<Rightarrow> (string \<Rightarrow> string) \<Rightarrow> ServiceProvider \<Rightarrow> string \<Rightarrow> bool" where
  "isLocalRedirect X caseFold sp uri \<longleftrightarrow>
     (if containsControl uri then False
      else if prefix ''/'' uri then \<not> prefix ''//'' uri \<and> \<not> prefix [CHR ''/'', CHR 0x5C] uri
      else (case x_ParseURL X uri of
              Inl _ \<Rightarrow> False
            | Inr u \<Rightarrow> \<not> u_HasUser u \<and> caseFold (u_Scheme u) = caseFold (u_Scheme (sp_AcsURL sp)) \<and>
                caseFold (u_Host u) = caseFold (u_Host (sp_AcsURL sp))))"

definition relayState :: "http_request \<Rightarrow> (string \<times> string) list \<Rightarrow> string" where
  "relayState r posted =
     (if valuesHas posted ''SAMLResponse'' \<or> valuesHas posted ''SAMLart'' then valuesGet posted ''RelayState''
      else valuesGet (ParseQuery (rq_RawQuery r)) ''RelayState'')"

text \<open>Where the user is redirected, with what stopping to track the request writes; \<open>Inl\<close> is an error for
  \<^verbatim>\<open>OnError\<close>.\<close>

definition redirectTarget ::
  "externs \<Rightarrow> (string \<Rightarrow> string) \<Rightarrow> 'ses Middleware \<Rightarrow> http_request \<Rightarrow> string \<Rightarrow> string \<Rightarrow> (http_write list \<times> string) result" where
  "redirectTarget X caseFold m r index redirectURI =
     (if index = [] then Inr ([], redirectURI)
      else
     (case rt_GetTrackedRequest (mw_RequestTracker m) r index of
        Inl e \<Rightarrow>
          if e = ErrNoCookie \<and> sp_AllowIDPInitiated (mw_ServiceProvider m) then
            Inr ([], if isLocalRedirect X caseFold (mw_ServiceProvider m) index then index else redirectURI)
          else Inl e
      | Inr tracked \<Rightarrow>
          bindE (rt_StopTrackingRequest (mw_RequestTracker m) r index) (\<lambda>stopped.
            Inr (stopped, if isLocalRedirect X caseFold (mw_ServiceProvider m) (tr_URI tracked) then tr_URI tracked
                          else redirectURI))))"

definition CreateSessionFromAssertion ::
  "externs \<Rightarrow> (string \<Rightarrow> string) \<Rightarrow> 'ses Middleware \<Rightarrow> http_request \<Rightarrow> (string \<times> string) list \<Rightarrow> Assertion \<Rightarrow> string \<Rightarrow> http_write list" where
  "CreateSessionFromAssertion X caseFold m r posted assertion redirectURI =
     (case redirectTarget X caseFold m r (relayState r posted) redirectURI of
        Inl e \<Rightarrow> mw_OnError m r e
      | Inr (stopped, target) \<Rightarrow>
          stopped @ (case sep_CreateSession (mw_Session m) r assertion of
             Inl e \<Rightarrow> mw_OnError m r e
           | Inr created \<Rightarrow> created @ [WriteRedirect (redirectLocation X r target)]))"

section \<open>Handlers\<close>

text \<open>The form of a request after \<^verbatim>\<open>ParseForm\<close>: the posted values before those of the query.\<close>

definition requestValues :: "http_request \<Rightarrow> (string \<times> string) list \<Rightarrow> (string \<times> string) list" where
  "requestValues r posted = posted @ ParseQuery (rq_RawQuery r)"

definition possibleIDs :: "'ses Middleware \<Rightarrow> http_request \<Rightarrow> string list" where
  "possibleIDs m r = (if sp_AllowIDPInitiated (mw_ServiceProvider m) then [[]] else []) @
     map tr_SAMLRequestID (rt_GetTrackedRequests (mw_RequestTracker m) r)"

definition ServeACS ::
  "externs \<Rightarrow> (string \<Rightarrow> string) \<Rightarrow> mw_env \<Rightarrow> 'ses Middleware \<Rightarrow> http_request \<Rightarrow> http_write list" where
  "ServeACS X caseFold env m r =
     (case ParseForm maxFormSize r of
        Inl e \<Rightarrow> mw_OnError m r e
      | Inr posted \<Rightarrow>
     (case ParseResponse X (me_Registry env) (me_Clock env) (mw_ServiceProvider m) (me_Post env) (me_ID env) (me_Signature env)
             (requestValues r posted) posted (possibleIDs m r) (me_Now env) (me_URL env) of
        Inl e \<Rightarrow> mw_OnError m r e
      | Inr assertion \<Rightarrow>
     (case mw_AssertionHandler m assertion of
        Inl e \<Rightarrow> mw_OnError m r e
      | Inr _ \<Rightarrow> CreateSessionFromAssertion X caseFold m r posted assertion (sp_DefaultRedirectURI (mw_ServiceProvider m)))))"

definition Mw_ServeMetadata :: "mw_env \<Rightarrow> 'ses Middleware \<Rightarrow> http_write list" where
  "Mw_ServeMetadata env m = [WriteMetadata (Metadata (mw_ServiceProvider m) (me_Now env))]"

definition ServeHTTP ::
  "externs \<Rightarrow> (string \<Rightarrow> string) \<Rightarrow> mw_env \<Rightarrow> 'ses Middleware \<Rightarrow> http_request \<Rightarrow> http_write list" where
  "ServeHTTP X caseFold env m r =
     (if rq_Path r = u_Path (sp_MetadataURL (mw_ServiceProvider m)) then Mw_ServeMetadata env m
      else if rq_Path r = u_Path (sp_AcsURL (mw_ServiceProvider m)) then ServeACS X caseFold env m r
      else [WriteError StatusNotFound])"

text \<open>The binding of the authentication request and its location.\<close>

definition chooseBinding :: "'ses Middleware \<Rightarrow> (string \<times> string) result" where
  "chooseBinding m =
     (if mw_Binding m \<noteq> [] then bindE (GetSSOBindingLocation (mw_ServiceProvider m) (mw_Binding m)) (\<lambda>l. Inr (mw_Binding m, l))
      else bindE (GetSSOBindingLocation (mw_ServiceProvider m) HTTPRedirectBinding) (\<lambda>l.
        if l \<noteq> [] then Inr (HTTPRedirectBinding, l)
        else bindE (GetSSOBindingLocation (mw_ServiceProvider m) HTTPPostBinding) (\<lambda>l. Inr (HTTPPostBinding, l))))"

text \<open>The page of the POST binding carries the form as its body.\<close>

definition HandleStartAuthFlow ::
  "externs \<Rightarrow> (PostForm \<Rightarrow> string) \<Rightarrow> mw_env \<Rightarrow> 'ses Middleware \<Rightarrow> http_request \<Rightarrow> http_write list" where
  "HandleStartAuthFlow X render env m r =
     (if rq_Path r = u_Path (sp_AcsURL (mw_ServiceProvider m)) then [HandlerPanic ''don't wrap Middleware with RequireAccount'']
      else
     (case chooseBinding m of
        Inl _ \<Rightarrow> [HandlerPanic ''nil pointer'']
      | Inr (binding, location) \<Rightarrow>
     (case MakeAuthenticationRequest X (me_ID env) (me_Signature env) (me_Now env) (mw_ServiceProvider m) location binding
             (mw_ResponseBinding m) of
        Inl _ \<Rightarrow> [WriteError StatusInternalServerError]
      | Inr authReq \<Rightarrow>
     (case rt_TrackRequest (mw_RequestTracker m) r (areq_ID authReq) of
        (ws, Inl _) \<Rightarrow> ws @ [WriteError StatusInternalServerError]
      | (ws, Inr index) \<Rightarrow>
          if binding = HTTPRedirectBinding then
            (case AuthnRequest_Redirect X (me_Signature env) authReq index (Some (mw_ServiceProvider m)) of
               Inl _ \<Rightarrow> ws @ [WriteError StatusInternalServerError]
             | Inr u \<Rightarrow> ws @ [WriteRedirect (urlString u)])
          else if binding = HTTPPostBinding then
            ws @ [WriteBody (''<!DOCTYPE html><html><body>'' @ render (AuthnRequest_Post X authReq index) @ ''</body></html>'')]
          else ws @ [HandlerPanic ''not reached'']))))"

text \<open>\<^verbatim>\<open>RequireAccount\<close> and \<^verbatim>\<open>RequireAttribute\<close> wrap a handler, which gets the session of the context.\<close>

definition RequireAccount ::
  "externs \<Rightarrow> (PostForm \<Rightarrow> string) \<Rightarrow> mw_env \<Rightarrow> 'ses Middleware \<Rightarrow> ('ses option \<Rightarrow> http_request \<Rightarrow> http_write list) \<Rightarrow>
   http_request \<Rightarrow> http_write list" where
  "RequireAccount X render env m handler r =
     (case sep_GetSession (mw_Session m) r of
        Inr session \<Rightarrow> handler (Some session) r
      | Inl e \<Rightarrow> if e = ErrNoSession then HandleStartAuthFlow X render env m r else mw_OnError m r e)"

definition RequireAttribute ::
  "('ses \<Rightarrow> string \<rightharpoonup> string list) \<Rightarrow> string \<Rightarrow> string \<Rightarrow> ('ses option \<Rightarrow> http_request \<Rightarrow> http_write list) \<Rightarrow>
   'ses option \<Rightarrow> http_request \<Rightarrow> http_write list" where
  "RequireAttribute attributes name value handler session r =
     (case session of
        None \<Rightarrow> [WriteError StatusForbidden]
      | Some s \<Rightarrow>
          (case attributes s name of
             None \<Rightarrow> [WriteError StatusForbidden]
           | Some values \<Rightarrow> if list_ex (\<lambda>v. v = value) values then handler session r else [WriteError StatusForbidden]))"

definition AttributeFromContext :: "('ses \<Rightarrow> string \<rightharpoonup> string list) \<Rightarrow> 'ses option \<Rightarrow> string \<Rightarrow> string" where
  "AttributeFromContext attributes session name =
     (case session of None \<Rightarrow> [] | Some s \<Rightarrow> Attributes_Get (attributes s) name)"

definition DefaultOnError :: "http_request \<Rightarrow> error \<Rightarrow> http_write list" where
  "DefaultOnError r err = [WriteError StatusForbidden]"

section \<open>Default configuration\<close>

record mw_options =
  mo_EntityID :: string
  mo_URL :: url
  mo_Key :: "signer option"
  mo_Certificate :: "certificate option"
  mo_Intermediates :: "certificate list"
  mo_AllowIDPInitiated :: bool
  mo_DefaultRedirectURI :: string
  mo_IDPMetadata :: "EntityDescriptor option"
  mo_SignRequest :: bool
  mo_UseArtifactResponse :: bool
  mo_ForceAuthn :: bool
  mo_RequestedAuthnContext :: "RequestedAuthnContext option"
  mo_CookieSameSite :: nat
  mo_CookieName :: string
  mo_RelayStateFunc :: "(http_request \<Rightarrow> http_write list \<times> string) option"
  mo_LogoutBindings :: "string list"

definition getDefaultSigningMethod :: "signer option \<Rightarrow> string" where
  "getDefaultSigningMethod signer =
     (case signer of
        None \<Rightarrow> ''RS256''
      | Some sg \<Rightarrow>
          (case sg_Public sg of
             ECDSA_Key bitSize _ _ \<Rightarrow> if bitSize = 384 then ''ES384'' else if bitSize = 521 then ''ES512'' else ''ES256''
           | _ \<Rightarrow> ''RS256''))"

definition defaultSessionMaxAge :: duration where "defaultSessionMaxAge = nsHour"

text \<open>A nil key is a nil pointer when a codec uses it: \<open>key\<close> is the key of the options that are given one.\<close>

definition DefaultSessionCodec :: "mw_options \<Rightarrow> signer \<Rightarrow> JWTSessionCodec" where
  "DefaultSessionCodec opts key = \<lparr>jsc_SigningMethod = getDefaultSigningMethod (mo_Key opts),
     jsc_Audience = urlString (mo_URL opts), jsc_Issuer = urlString (mo_URL opts), jsc_MaxAge = defaultSessionMaxAge, jsc_Key = key\<rparr>"

definition DefaultSessionProvider :: "jwt_lib \<Rightarrow> mw_options \<Rightarrow> signer \<Rightarrow> JWTSessionClaims CookieSessionProvider" where
  "DefaultSessionProvider W opts key =
     \<lparr>csp_Name = (if mo_CookieName opts = [] then ''token'' else mo_CookieName opts), csp_Domain = u_Host (mo_URL opts),
      csp_HTTPOnly = True, csp_Secure = (u_Scheme (mo_URL opts) = ''https''), csp_SameSite = mo_CookieSameSite opts,
      csp_MaxAge = defaultSessionMaxAge, csp_Path = [], csp_Codec = jwtSessionCodec W (DefaultSessionCodec opts key)\<rparr>"

definition DefaultTrackedRequestCodec :: "mw_options \<Rightarrow> signer \<Rightarrow> JWTTrackedRequestCodec" where
  "DefaultTrackedRequestCodec opts key = \<lparr>tcd_SigningMethod = getDefaultSigningMethod (mo_Key opts),
     tcd_Audience = urlString (mo_URL opts), tcd_Issuer = urlString (mo_URL opts), tcd_MaxAge = MaxIssueDelay, tcd_Key = key\<rparr>"

definition DefaultRequestTracker :: "jwt_lib \<Rightarrow> mw_options \<Rightarrow> signer \<Rightarrow> ServiceProvider \<Rightarrow> CookieRequestTracker" where
  "DefaultRequestTracker W opts key serviceProvider =
     \<lparr>crt_ServiceProvider = serviceProvider, crt_NamePrefix = ''saml_'', 
      crt_Codec = jwtTrackedCodec W (DefaultTrackedRequestCodec opts key),
      crt_MaxAge = MaxIssueDelay, crt_RelayStateFunc = mo_RelayStateFunc opts, crt_SameSite = mo_CookieSameSite opts\<rparr>"

definition defaultSigningMethodForKey :: "signer option \<Rightarrow> string result" where
  "defaultSigningMethodForKey key =
     (case key of
        None \<Rightarrow> Inr []
      | Some sg \<Rightarrow>
          (case sg_Public sg of
             RSA_Key _ \<Rightarrow> Inr RSASHA256SignatureMethod
           | ECDSA_Key _ orderBits _ \<Rightarrow> Inr (DefaultECDSASignatureMethod orderBits)
           | Other_Key _ \<Rightarrow> Inl (Panic ''programming error: unsupported key type'')))"

text \<open>\<open>resolve\<close> is \<^verbatim>\<open>url.ResolveReference\<close> with a relative path.\<close>

definition DefaultServiceProvider :: "(url \<Rightarrow> string \<Rightarrow> url) \<Rightarrow> mw_options \<Rightarrow> ServiceProvider result" where
  "DefaultServiceProvider resolve opts =
     bindE (defaultSigningMethodForKey (mo_Key opts)) (\<lambda>signatureMethod.
       Inr \<lparr>sp_EntityID = mo_EntityID opts, sp_Key = mo_Key opts, sp_Certificate = mo_Certificate opts,
         sp_Intermediates = mo_Intermediates opts, sp_MetadataURL = resolve (mo_URL opts) ''saml/metadata'',
         sp_AcsURL = resolve (mo_URL opts) ''saml/acs'', sp_SloURL = resolve (mo_URL opts) ''saml/slo'',
         sp_IDPMetadata = mo_IDPMetadata opts, sp_IDPCertificateFingerprint = None,
         sp_IDPCertificateFingerprintAlgorithm = None, sp_IDPCertificate = None, sp_AuthnNameIDFormat = [],
         sp_MetadataValidDuration = 0, sp_ForceAuthn = (if mo_ForceAuthn opts then Some True else None),
         sp_RequestedAuthnContext = mo_RequestedAuthnContext opts, sp_AllowIDPInitiated = mo_AllowIDPInitiated opts,
         sp_DefaultRedirectURI = (if mo_DefaultRedirectURI opts = [] then ''/'' else mo_DefaultRedirectURI opts),
         sp_SignatureVerifier = None, sp_SignatureMethod = (if mo_SignRequest opts then signatureMethod else []),
         sp_LogoutBindings = (if mo_LogoutBindings opts = [] then [HTTPPostBinding] else mo_LogoutBindings opts),
         sp_ValidateAudienceRestriction = None, sp_ValidateRequestID = None\<rparr>)"

text \<open>The default providers as the interfaces of the middleware, at the time \<open>now\<close> and with the random bytes of an
  index.\<close>

definition cookieTracker :: "CookieRequestTracker \<Rightarrow> time \<Rightarrow> string \<Rightarrow> request_tracker" where
  "cookieTracker t now rnd = \<lparr>rt_TrackRequest = TrackRequest t now rnd, rt_StopTrackingRequest = StopTrackingRequest t,
     rt_GetTrackedRequests = GetTrackedRequests t now, rt_GetTrackedRequest = GetTrackedRequest t now\<rparr>"

definition cookieSessions :: "externs \<Rightarrow> 'ses CookieSessionProvider \<Rightarrow> time \<Rightarrow> 'ses session_provider" where
  "cookieSessions X c now = \<lparr>sep_CreateSession = CreateSession X c now, sep_DeleteSession = DeleteSession X c,
     sep_GetSession = GetSession c now\<rparr>"

definition NewMiddleware ::
  "externs \<Rightarrow> jwt_lib \<Rightarrow> (url \<Rightarrow> string \<Rightarrow> url) \<Rightarrow> mw_options \<Rightarrow> signer \<Rightarrow> time \<Rightarrow> string \<Rightarrow> JWTSessionClaims Middleware result" where
  "NewMiddleware X W resolve opts key now rnd =
     bindE (DefaultServiceProvider resolve opts) (\<lambda>sp.
       Inr \<lparr>mw_ServiceProvider = sp, mw_OnError = DefaultOnError, mw_Binding = [],
         mw_ResponseBinding = (if mo_UseArtifactResponse opts then HTTPArtifactBinding else HTTPPostBinding),
         mw_RequestTracker = cookieTracker (DefaultRequestTracker W opts key sp) now rnd,
         mw_Session = cookieSessions X (DefaultSessionProvider W opts key) now, mw_AssertionHandler = (\<lambda>_. Inr ())\<rparr>)"

section \<open>Metadata of the identity provider\<close>

text \<open>The arguments are \<^verbatim>\<open>xml.Unmarshal\<close> into the two types.\<close>

definition ParseMetadata ::
  "externs \<Rightarrow> (string \<Rightarrow> EntityDescriptor result) \<Rightarrow> (string \<Rightarrow> EntitiesDescriptor result) \<Rightarrow> string \<Rightarrow> EntityDescriptor result" where
  "ParseMetadata X unmarshalEntity unmarshalEntities data =
     bindE (x_XrvValidate X data) (\<lambda>_.
       case unmarshalEntity data of
         Inr entity \<Rightarrow> Inr entity
       | Inl e \<Rightarrow>
           if e = wrongRootError then
             bindE (unmarshalEntities data) (\<lambda>entities.
               case find (\<lambda>e. ed_IDPSSODescriptors e \<noteq> []) (eds_EntityDescriptors entities) of
                 Some e \<Rightarrow> Inr e
               | None \<Rightarrow> Inl (Err ''no entity found with IDPSSODescriptor''))
           else Inl e)"

definition maxMetadataSize :: nat where "maxMetadataSize = 256 * 1024 * 1024"

text \<open>\<open>get\<close> is the exchange of the HTTP client for a URL.\<close>

definition FetchMetadata ::
  "externs \<Rightarrow> (string \<Rightarrow> EntityDescriptor result) \<Rightarrow> (string \<Rightarrow> EntitiesDescriptor result) \<Rightarrow> (string \<Rightarrow> http_exchange result) \<Rightarrow>
   url \<Rightarrow> EntityDescriptor result" where
  "FetchMetadata X unmarshalEntity unmarshalEntities get metadataURL =
     bindE (get (urlString metadataURL)) (\<lambda>resp.
       if hx_Status resp \<ge> 400 then Inl (Err ''failed to fetch metadata: unexpected status code %d'')
       else bindE (readLimited (maxMetadataSize + 1) resp) (\<lambda>data.
         if length data > maxMetadataSize then Inl (Err ''failed to fetch metadata: too large, the limit is %d bytes'')
         else ParseMetadata X unmarshalEntity unmarshalEntities data))"


section \<open>Middleware with the default parts\<close>

text \<open>What \<^verbatim>\<open>New\<close> fills in, apart from the service provider and the assertion handler, which may be replaced.\<close>

definition defaultParts ::
  "externs \<Rightarrow> 'ses Middleware \<Rightarrow> CookieRequestTracker \<Rightarrow> 'ses CookieSessionProvider \<Rightarrow> time \<Rightarrow> string \<Rightarrow> bool" where
  "defaultParts X m T P now rnd \<longleftrightarrow> mw_OnError m = DefaultOnError \<and> mw_RequestTracker m = cookieTracker T now rnd \<and>
     mw_Session m = cookieSessions X P now"

lemma NewMiddleware_defaultParts:
  assumes "NewMiddleware X W resolve opts key now rnd = Inr m"
  shows "defaultParts X m (DefaultRequestTracker W opts key (mw_ServiceProvider m)) (DefaultSessionProvider W opts key) now rnd"
    and "sp_SignatureVerifier (mw_ServiceProvider m) = None"
  using assms by (auto simp: NewMiddleware_def DefaultServiceProvider_def defaultParts_def)

lemma redirectTarget_local:
  assumes "redirectTarget X caseFold m r index redirectURI = Inr (stopped, target)"
  shows "target = redirectURI \<or> isLocalRedirect X caseFold (mw_ServiceProvider m) target"
  using assms by (auto simp: redirectTarget_def split: if_splits sum.splits)

text \<open>Cookies that the browser deletes.\<close>

definition onlyExpires :: "http_write list \<Rightarrow> bool" where
  "onlyExpires ws \<longleftrightarrow> list_all (\<lambda>w. case w of SetCookie c \<Rightarrow> ck_Expired c | _ \<Rightarrow> False) ws"

lemma redirectTarget_stopped:
  assumes "redirectTarget X caseFold m r index redirectURI = Inr (stopped, target)"
    "mw_RequestTracker m = cookieTracker T now rnd"
  shows "onlyExpires stopped"
  using assms
  by (auto simp: redirectTarget_def cookieTracker_def StopTrackingRequest_def onlyExpires_def split: if_splits sum.splits)

text \<open>Where the user is sent: for the default URI, for an absolute URL with the scheme and the host of the endpoint
  and no user information, or for a path. For a path the location begins with one slash, and with a slash and a
  backslash only if a later element of the path begins with a backslash.\<close>

definition localLocation :: "externs \<Rightarrow> (string \<Rightarrow> string) \<Rightarrow> ServiceProvider \<Rightarrow> http_request \<Rightarrow> string \<Rightarrow> bool" where
  "localLocation X caseFold sp r location \<longleftrightarrow>
     (\<exists>target. location = redirectLocation X r target \<and>
        (target = sp_DefaultRedirectURI sp \<or>
         \<not> containsControl target \<and> prefix ''/'' target \<and> prefix ''/'' location \<and> \<not> prefix ''//'' location \<and>
           (prefix [CHR ''/'', CHR 0x5C] location \<longrightarrow>
              sublist [CHR ''/'', CHR 0x5C] target \<and> \<not> prefix [CHR ''/'', CHR 0x5C] target) \<or>
         \<not> containsControl target \<and> \<not> prefix ''/'' target \<and>
           (\<exists>u. x_ParseURL X target = Inr u \<and> \<not> u_HasUser u \<and>
              caseFold (u_Scheme u) = caseFold (u_Scheme (sp_AcsURL sp)) \<and>
              caseFold (u_Host u) = caseFold (u_Host (sp_AcsURL sp)) \<and>
              (u_Scheme u = [] \<and> u_Host u = [] \<or> location = hexEscapeNonASCII target))))"

lemma isLocalRedirect_location:
  assumes "isLocalRedirect X caseFold sp target"
  shows "localLocation X caseFold sp r (redirectLocation X r target)"
proof (cases "prefix ''/'' target")
  case True
  with assms have t: "\<not> containsControl target" "\<not> prefix ''//'' target" "\<not> prefix [CHR ''/'', CHR 0x5C] target"
    by (auto simp: isLocalRedirect_def simp del: containsControl.simps split: if_splits)
  from t True redirectLocation_path [OF True t(2,3), of X r] show ?thesis
    unfolding localLocation_def by blast
next
  case False
  with assms obtain u where u: "\<not> containsControl target" "x_ParseURL X target = Inr u" "\<not> u_HasUser u"
      "caseFold (u_Scheme u) = caseFold (u_Scheme (sp_AcsURL sp))" "caseFold (u_Host u) = caseFold (u_Host (sp_AcsURL sp))"
    by (auto simp: isLocalRedirect_def simp del: containsControl.simps split: if_splits sum.splits)
  moreover have "u_Scheme u = [] \<and> u_Host u = [] \<or> redirectLocation X r target = hexEscapeNonASCII target"
    using redirectLocation_absolute [OF u(2), of r] by blast
  ultimately show ?thesis using False unfolding localLocation_def by blast
qed

lemma default_location: "localLocation X caseFold sp r (redirectLocation X r (sp_DefaultRedirectURI sp))"
  unfolding localLocation_def by blast

text \<open>The exception is real: \<^verbatim>\<open>isLocalRedirect\<close> looks at the URI before \<^verbatim>\<open>http.Redirect\<close> cleans it. The path
  \<^verbatim>\<open>/./\evil.com\<close> is accepted as one of this service provider and sent as \<^verbatim>\<open>/\evil.com\<close>, the very form that is
  refused when it is asked for, because browsers take it for another host.\<close>

lemma cleaned_redirect_refused_form:
  assumes "x_ParseURL X (''/./'' @ CHR 0x5C # ''evil.com'') = Inr u" "u_Scheme u = []" "u_Host u = []"
  shows "isLocalRedirect X caseFold sp (''/./'' @ CHR 0x5C # ''evil.com'')"
    and "redirectLocation X r (''/./'' @ CHR 0x5C # ''evil.com'') = CHR ''/'' # CHR 0x5C # ''evil.com''"
    and "\<not> isLocalRedirect X caseFold sp (CHR ''/'' # CHR 0x5C # ''evil.com'')"
  using assms
  by (simp_all add: isLocalRedirect_def redirectLocation_def cleanedURL_def pathClean_def hexEscapeNonASCII_def suffix_def
      byte_def)

text \<open>The outcomes of the endpoint: an error, or a session for an assertion that was parsed and handled.\<close>

definition acsSession ::
  "externs \<Rightarrow> (string \<Rightarrow> string) \<Rightarrow> mw_env \<Rightarrow> 'ses Middleware \<Rightarrow> 'ses CookieSessionProvider \<Rightarrow> time \<Rightarrow> http_request \<Rightarrow>
   http_cookie \<Rightarrow> string \<Rightarrow> bool" where
  "acsSession X caseFold env m P now r c location \<longleftrightarrow>
     (\<exists>a session. acceptable (mw_ServiceProvider m) (possibleIDs m r) (me_Now env) a \<and>
        authenticAssertion X (me_Registry env) (me_Clock env) (mw_ServiceProvider m) a \<and> mw_AssertionHandler m a = Inr () \<and>
        mintSession (csp_Codec P) now a = Inr (session, ck_Value c)) \<and> ck_Name c = csp_Name P \<and>
     localLocation X caseFold (mw_ServiceProvider m) r location"


lemma CreateSessionFromAssertion_outcomes:
  assumes parts: "defaultParts X m T P now rnd"
  obtains stopped where "onlyExpires stopped"
      "CreateSessionFromAssertion X caseFold m r posted a uri = stopped @ [WriteError StatusForbidden]"
  | stopped c session target where "onlyExpires stopped"
      "CreateSessionFromAssertion X caseFold m r posted a uri =
        stopped @ [SetCookie c, WriteRedirect (redirectLocation X r target)]"
      "ck_Name c = csp_Name P" "mintSession (csp_Codec P) now a = Inr (session, ck_Value c)"
      "target = uri \<or> isLocalRedirect X caseFold (mw_ServiceProvider m) target"
proof (cases "redirectTarget X caseFold m r (relayState r posted) uri")
  case (Inl e)
  then show ?thesis
    using parts that(1) [of "[]"] by (simp add: CreateSessionFromAssertion_def defaultParts_def DefaultOnError_def onlyExpires_def)
next
  case (Inr st)
  obtain stopped target where st: "st = (stopped, target)" by (cases st)
  note target = Inr [unfolded st]
  have expires: "onlyExpires stopped" using redirectTarget_stopped [OF target] parts by (simp add: defaultParts_def)
  show ?thesis
  proof (cases "CreateSession X P now r a")
    case (Inl e)
    with target parts expires that(1) show ?thesis
      by (simp add: CreateSessionFromAssertion_def defaultParts_def cookieSessions_def DefaultOnError_def)
  next
    case (Inr ws)
    then obtain c session where "ws = [SetCookie c]" "ck_Name c = csp_Name P" "mintSession (csp_Codec P) now a = Inr (session, ck_Value c)"
      using CreateSession_cookie by metis
    with Inr target parts expires that(2) redirectTarget_local [OF target] show ?thesis
      by (simp add: CreateSessionFromAssertion_def defaultParts_def cookieSessions_def)
  qed
qed

section \<open>Properties\<close>

text \<open>
  C37. The assertion consumer service. With the default tracker, session provider and error function, a request to
  the endpoint ends in one of two ways: an error, with no session; or a session cookie and a redirect. Then the
  session was made from an assertion that is acceptable for the requests tracked in the cookies of this browser (or
  for none, where the identity provider may initiate), that a trusted certificate signs (directly, with its
  response or with the artifact response that carried it) and that the assertion handler accepted, and the redirect
  goes to the default URI, to an absolute URL with the scheme and the host of the endpoint, or to a path: a location that
  begins with one slash, and not with a slash and a backslash unless a later element of the requested path begins with
  a backslash (\<open>cleaned_redirect_refused_form\<close> shows that this happens). Apart from that only expired cookies are set.
\<close>

theorem acs_establishes_sessions:
  assumes parts: "defaultParts X m T P now rnd" and verifier: "sp_SignatureVerifier (mw_ServiceProvider m) = None"
  shows "\<exists>stopped. onlyExpires stopped \<and>
    (ServeACS X caseFold env m r = stopped @ [WriteError StatusForbidden] \<or>
     (\<exists>c location. ServeACS X caseFold env m r = stopped @ [SetCookie c, WriteRedirect location] \<and>
        acsSession X caseFold env m P now r c location))"
proof (cases "ServeACS X caseFold env m r = [WriteError StatusForbidden]")
  case True
  then show ?thesis by (intro exI [of _ "[]"]) (simp add: onlyExpires_def)
next
  case False
  have onError: "mw_OnError m r e = [WriteError StatusForbidden]" for e
    using parts by (simp add: defaultParts_def DefaultOnError_def)
  from False obtain posted a where parsed: "ParseResponse X (me_Registry env) (me_Clock env) (mw_ServiceProvider m) (me_Post env) (me_ID env)
      (me_Signature env) (requestValues r posted) posted (possibleIDs m r) (me_Now env) (me_URL env) = Inr a"
    and handled: "mw_AssertionHandler m a = Inr ()"
    and acs: "ServeACS X caseFold env m r =
      CreateSessionFromAssertion X caseFold m r posted a (sp_DefaultRedirectURI (mw_ServiceProvider m))"
    by (auto simp: ServeACS_def onError split: sum.splits)
  note sound = ParseResponse_sound [OF parsed verifier] handled
  show ?thesis
    by (rule CreateSessionFromAssertion_outcomes [OF parts, of caseFold r posted a "sp_DefaultRedirectURI (mw_ServiceProvider m)"])
      (use sound default_location isLocalRedirect_location in \<open>auto simp: acs acsSession_def\<close>)
qed

text \<open>
  C38. A session lasts and says who signed in. A session that CreateSession makes from an assertion is what
  RequireAccount gives to the handler for a request with the cookie, until a second before the lifetime of the session
  ends: RequireAttribute lets the request through exactly when the value is among those that the assertion has under
  the name, friendly names first, the session indexes under SessionIndex. After the lifetime the user is sent to the
  identity provider again. The token is never a tracked request.
\<close>

theorem session_round_trip:
  assumes "jwtLaws W" "0 \<le> jsc_MaxAge codec" "csp_Codec P = jwtSessionCodec W codec"
    and "CreateSession X P now r a = Inr ws" "sessionKept codec now a"
  shows "\<exists>c. ws = [SetCookie c] \<and> (\<forall>s t. \<exists>e. Tracked_Decode W s t (ck_Value c) = Inl e) \<and>
    (\<forall>r' t m. requestCookie r' (csp_Name P) = Inr (ck_Value c) \<and> now \<le> t \<and> mw_Session m = cookieSessions X P t \<longrightarrow>
       (t + nsSecond \<le> now + jsc_MaxAge codec \<longrightarrow>
          RequireAccount X render env m (RequireAttribute jc_Attributes name value handler) r' =
            (if value \<in> set (claimValues a name) then handler (Some (Session_New W codec now a)) r' else [WriteError StatusForbidden])) \<and>
       (now + jsc_MaxAge codec < t \<longrightarrow>
          RequireAccount X render env m (RequireAttribute jc_Attributes name value handler) r' = HandleStartAuthFlow X render env m r'))"
proof -
  have "jwt_sessions W codec P" using assms(1-3) by unfold_locales
  note sessions = jwt_sessions.contract [OF this]
  obtain c session where c: "ws = [SetCookie c]" "sco_New (csp_Codec P) now a = Inr session"
    "mintSession (csp_Codec P) now a = Inr (session, ck_Value c)"
    by (rule CreateSession_cookie [OF assms(4)])
  have session: "session = Session_New W codec now a" using c(2) assms(3) by (simp add: jwtSessionCodec_def)
  have untracked: "\<exists>e. Tracked_Decode W s t (ck_Value c) = Inl e" for s t
    using c(3) assms(3) by (intro session_token_not_tracked [OF assms(1)]) (auto simp: mintSession_def jwtSessionCodec_def)
  have attribute: "RequireAttribute jc_Attributes name value handler (Some session) r' =
      (if value \<in> set (claimValues a name) then handler (Some session) r' else [WriteError StatusForbidden])" for r'
    using assertionClaims_values [of a name]
    by (auto simp: RequireAttribute_def session Session_New_def list_ex_iff the_default_def split: option.splits)
  have "RequireAccount X render env m (RequireAttribute jc_Attributes name value handler) r' =
      (case GetSession P t r' of
         Inr session \<Rightarrow> RequireAttribute jc_Attributes name value handler (Some session) r'
       | Inl e \<Rightarrow> if e = ErrNoSession then HandleStartAuthFlow X render env m r' else mw_OnError m r' e)"
    if "mw_Session m = cookieSessions X P t" for r' t m
    using that by (simp add: RequireAccount_def cookieSessions_def)
  with c(1) untracked attribute cookie_sessions.session_until_expiry [OF sessions c(3) assms(5)] session show ?thesis
    by simp
qed


text \<open>A middleware with the default parts, and the response to a tracked request.\<close>

definition exampleMiddleware :: "JWTSessionClaims Middleware" where
  "exampleMiddleware = \<lparr>mw_ServiceProvider = exampleSP, mw_OnError = DefaultOnError, mw_Binding = [],
     mw_ResponseBinding = HTTPPostBinding, mw_RequestTracker = cookieTracker exampleTracker 5 ''abc'',
     mw_Session = cookieSessions exampleSpX exampleSessions 5, mw_AssertionHandler = (\<lambda>_. Inr ())\<rparr>"

definition exampleMwEnv :: mw_env where
  "exampleMwEnv = \<lparr>me_Now = 5, me_Clock = 5, me_ID = [], me_Signature = [], me_Post = (\<lambda>_ _. Inl (Err ''no route'')),
     me_Registry = defaultRegistry, me_URL = exampleURL ''acs''\<rparr>"

definition exampleAcs :: http_request where
  "exampleAcs = \<lparr>rq_Method = ''POST'', rq_Path = ''/acs'', rq_RawQuery = [], rq_FormType = True,
     rq_Body = Some ''SAMLResponse=WA%3D%3D&RelayState=YWJj'', rq_RemoteAddr = [], rq_Cookies = [(''saml_YWJj'', ''T'')],
     rq_Header = [], rq_TLS = True, rq_Scheme = [], rq_URL = ''/acs'', rq_PathValues = []\<rparr>"

lemma exampleAcs_form: "ParseForm maxFormSize exampleAcs = Inr [(''SAMLResponse'', ''WA==''), (''RelayState'', ''YWJj'')]"
  by (simp add: ParseForm_def exampleAcs_def maxFormSize_def queryError_def parsePair_def cutAt_def
      ParseQuery_def map_filter_simps unhex_def byte_def char_of_def bit_0)

lemma exampleTracked_decodes: "Tracked_Decode exampleJwt exampleTrackedCodec 5 ''T'' = Inr exampleTracked"
proof -
  have "nsSecond \<le> tcd_MaxAge exampleTrackedCodec" by (simp add: exampleTrackedCodec_def MaxIssueDelay_def nsSecond_def)
  with tracker.decode_minted [of 5 exampleTracked exampleTracked "''T''" 5] exampleVisit_kept show ?thesis
    by (simp add: mintTracked_def exampleTracker_def jwtTrackedCodec_def exampleTracked_signed)
qed

lemma exampleAcs_tracked:
  "GetTrackedRequests exampleTracker 5 exampleAcs = [exampleTracked]"
  "GetTrackedRequest exampleTracker 5 exampleAcs ''YWJj'' = Inr exampleTracked"
  by (simp_all add: GetTrackedRequests_def GetTrackedRequest_def exampleAcs_def exampleTracker_def jwtTrackedCodec_def
      exampleTracked_decodes requestCookie_def exampleTracked_def)

lemma exampleSession_created:
  "mintSession (csp_Codec exampleSessions) 5 exampleAssertion = Inr (exampleSessionToken, ''S'')"
  "CreateSession exampleSpX exampleSessions 5 r exampleAssertion \<noteq> Inl e"
proof -
  have "Session_New exampleJwt exampleSessionCodec 5 exampleAssertion = exampleSessionToken"
    by (simp add: Session_New_def exampleJwt_def exampleSessionCodec_def exampleSessionToken_def exampleDates_def
        sessionSubject_def exampleAssertion_def assertionClaims_def ns_defs)
  then show "mintSession (csp_Codec exampleSessions) 5 exampleAssertion = Inr (exampleSessionToken, ''S'')"
    and "CreateSession exampleSpX exampleSessions 5 r exampleAssertion \<noteq> Inl e"
    by (simp_all add: mintSession_def CreateSession_def exampleSessions_def jwtSessionCodec_def Session_Encode_def signJWT_def
        exampleJwt_def)
qed


lemma exampleMiddleware_parts: "defaultParts exampleSpX exampleMiddleware exampleTracker exampleSessions 5 ''abc''"
  by (simp add: defaultParts_def exampleMiddleware_def)

lemma exampleMiddleware_sel [simp]:
  "mw_ServiceProvider exampleMiddleware = exampleSP" "mw_AssertionHandler exampleMiddleware a = Inr ()"
  "mw_RequestTracker exampleMiddleware = cookieTracker exampleTracker 5 ''abc''"
  "mw_Session exampleMiddleware = cookieSessions exampleSpX exampleSessions 5"
  by (simp_all add: exampleMiddleware_def)

lemma exampleAcs_redirect:
  "\<exists>stopped c. ServeACS exampleSpX caseFold exampleMwEnv exampleMiddleware exampleAcs = stopped @ [SetCookie c, WriteRedirect ''/app'']"
proof -
  let ?posted = "[(''SAMLResponse'', ''WA==''), (''RelayState'', ''YWJj'')]"
  have "base64Decode ''WA=='' = Inr ''X''" by code_simp
  moreover have ids: "possibleIDs exampleMiddleware exampleAcs = [''id'']"
    by (simp add: possibleIDs_def cookieTracker_def exampleAcs_tracked) (simp add: exampleTracked_def)
  moreover have "requestValues exampleAcs ?posted = ?posted"
    by (simp add: requestValues_def exampleAcs_def ParseQuery_def map_filter_simps parsePair_def)
  ultimately have acs: "ServeACS exampleSpX caseFold exampleMwEnv exampleMiddleware exampleAcs =
      CreateSessionFromAssertion exampleSpX caseFold exampleMiddleware exampleAcs ?posted exampleAssertion (sp_DefaultRedirectURI exampleSP)"
    by (simp add: ServeACS_def exampleAcs_form ParseResponse_def parseResponseHTTP_def exampleMwEnv_def example_parsed valuesGet_def)
  have "relayState exampleAcs ?posted = ''YWJj''" by (simp add: relayState_def valuesHas_def valuesGet_def)
  moreover have "isLocalRedirect exampleSpX caseFold exampleSP (tr_URI exampleTracked)"
    by (simp add: isLocalRedirect_def exampleTracked_def byte_def)
  moreover have "\<exists>c. StopTrackingRequest exampleTracker exampleAcs ''YWJj'' = Inr [c]"
    by (simp add: StopTrackingRequest_def requestCookie_def exampleAcs_def exampleTracker_def)
  ultimately obtain stopped where
    "redirectTarget exampleSpX caseFold exampleMiddleware exampleAcs (relayState exampleAcs ?posted) uri = Inr (stopped, ''/app'')" for uri
    by (auto simp: redirectTarget_def cookieTracker_def exampleAcs_tracked) (simp add: exampleTracked_def)
  moreover obtain ws where ws: "CreateSession exampleSpX exampleSessions 5 exampleAcs exampleAssertion = Inr ws"
    using exampleSession_created(2) [of exampleAcs] by (cases "CreateSession exampleSpX exampleSessions 5 exampleAcs exampleAssertion") auto
  moreover obtain c where "ws = [SetCookie c]" using CreateSession_cookie [OF ws] by metis
  moreover have "redirectLocation exampleSpX exampleAcs ''/app'' = ''/app''"
    by (simp add: redirectLocation_def cleanedURL_def pathClean_def hexEscapeNonASCII_def suffix_def byte_def exampleSpX_def
        exampleSignedX_def exampleX_def)
  ultimately show ?thesis by (simp add: acs CreateSessionFromAssertion_def cookieSessions_def)
qed

theorem acs_establishes_sessions_witness:
  "\<exists>c. acsSession exampleSpX id exampleMwEnv exampleMiddleware exampleSessions 5 exampleAcs c ''/app''"
proof -
  obtain ws c where acs: "ServeACS exampleSpX id exampleMwEnv exampleMiddleware exampleAcs = ws @ [SetCookie c, WriteRedirect ''/app'']"
    using exampleAcs_redirect by blast
  have "sp_SignatureVerifier (mw_ServiceProvider exampleMiddleware) = None" by simp
  from acs_establishes_sessions [OF exampleMiddleware_parts this, of id exampleMwEnv exampleAcs] acs
  show ?thesis by auto
qed

definition exampleUserAssertion :: Assertion where
  "exampleUserAssertion = exampleAssertion\<lparr>asr_AttributeStatements := [\<lparr>ats_Attributes =
     [\<lparr>att_FriendlyName = ''mail'', att_Name = ''urn:mail'', att_NameFormat = [],
       att_Values = [\<lparr>av_Type = [], av_Value = ''a@b'', av_NameID = None\<rparr>]\<rparr>]\<rparr>]\<rparr>"

lemma exampleUser_claims [simp]: "assertionClaims exampleUserAssertion = [''mail'' \<mapsto> [''a@b'']]"
  by (simp add: assertionClaims_def exampleUserAssertion_def exampleAssertion_def appendClaim_def claimName_def)

lemma exampleUser_session:
  "Session_New exampleJwt exampleSessionCodec 5 exampleUserAssertion = exampleUserToken"
  by (simp add: Session_New_def exampleJwt_def exampleSessionCodec_def exampleUserToken_def exampleDates_def
      sessionSubject_def exampleUserAssertion_def exampleAssertion_def ns_defs flip: exampleUser_claims)

lemma exampleJwt_sel:
  "w_NewSigner exampleJwt alg key = Inr ()"
  "w_SerializeSession exampleJwt alg key c = (if c = exampleSessionToken then Inr ''S'' else if c = exampleUserToken then Inr ''U''
     else Inl (Err ''claims''))"
  by (simp_all add: exampleJwt_def)

lemma exampleUser_created:
  obtains c where "CreateSession exampleSpX exampleSessions 5 r exampleUserAssertion = Inr [SetCookie c]" "ck_Value c = ''U''"
proof -
  have "exampleUserToken \<noteq> exampleSessionToken" by (simp add: exampleUserToken_def exampleSessionToken_def)
  then show ?thesis
    by (intro that [of "\<lparr>ck_Name = csp_Name exampleSessions, ck_Value = ''U'', ck_Domain = cookieDomain exampleSpX exampleSessions,
         ck_Path = ''/'', ck_MaxAge = seconds nsHour, ck_Expired = False, ck_HttpOnly = True, ck_Secure = True, ck_SameSite = 0\<rparr>"])
      (simp_all add: CreateSession_def exampleSessions_def jwtSessionCodec_def Session_Encode_def signJWT_def exampleUser_session
        cookieDomain_def exampleJwt_sel)
qed

theorem session_round_trip_witness:
  "RequireAccount exampleSpX (\<lambda>_. []) exampleMwEnv exampleMiddleware
     (RequireAttribute jc_Attributes ''mail'' ''a@b'' (\<lambda>_ _. [WriteRedirect ''/ok''])) (exampleVisit\<lparr>rq_Cookies := [(''token'', ''U'')]\<rparr>) =
   [WriteRedirect ''/ok'']"
proof -
  obtain c where created: "CreateSession exampleSpX exampleSessions 5 exampleVisit exampleUserAssertion = Inr [SetCookie c]"
    and c: "ck_Value c = ''U''" by (rule exampleUser_created)
  have cookie: "requestCookie (exampleVisit\<lparr>rq_Cookies := [(''token'', ''U'')]\<rparr>) (csp_Name exampleSessions) = Inr ''U''"
    by (simp add: requestCookie_def exampleSessions_def)
  have codec: "csp_Codec exampleSessions = jwtSessionCodec exampleJwt exampleSessionCodec" "0 \<le> jsc_MaxAge exampleSessionCodec"
    "5 + nsSecond \<le> 5 + jsc_MaxAge exampleSessionCodec"
    by (simp_all add: exampleSessions_def exampleSessionCodec_def ns_defs)
  have kept: "sessionKept exampleSessionCodec 5 exampleUserAssertion"
    by (simp add: sessionKept_def exampleSessionCodec_def printableTime_def ns_defs keptAttributes_def utf8Coerce_ASCII isASCII_def
        byte_def) (simp add: sessionSubject_def exampleUserAssertion_def exampleAssertion_def)
  have "''a@b'' \<in> set (claimValues exampleUserAssertion ''mail'')"
    by (simp flip: assertionClaims_values(1))
  with session_round_trip [OF exampleJwt_laws codec(2,1) created kept, of "\<lambda>_. []" exampleMwEnv "''mail''" "''a@b''"
      "\<lambda>_ _. [WriteRedirect ''/ok'']"] c codec(3)
  have "mw_Session m = cookieSessions exampleSpX exampleSessions 5 \<Longrightarrow> requestCookie r' (csp_Name exampleSessions) = Inr ''U'' \<Longrightarrow>
      RequireAccount exampleSpX (\<lambda>_. []) exampleMwEnv m
        (RequireAttribute jc_Attributes ''mail'' ''a@b'' (\<lambda>_ _. [WriteRedirect ''/ok''])) r' = [WriteRedirect ''/ok'']" for m r'
    by fastforce
  from this [OF exampleMiddleware_sel(4) cookie] show ?thesis .
qed

end
