(* ===== verification/Go_Float.thy ===== *)
theory Go_Float
  imports Complex_Main Go_Numbers "HOL-Library.Log_Nat"
begin

text \<open>The non-negative part of \<^verbatim>\<open>float64\<close>, as rational numbers.\<close>

section \<open>Rounding\<close>

text \<open>The nearest \<^verbatim>\<open>float64\<close> of a non-negative number, ties to even, without the overflow to infinity: 53 bits
  of precision down to the subnormal numbers. \<open>binade\<close> is the exponent of the power of two below the number.\<close>

definition roundEven :: "rat \<Rightarrow> int" where
  "roundEven x = (let n = \<lfloor>x\<rfloor>; r = x - of_int n in if r < 1 / 2 \<or> r = 1 / 2 \<and> even n then n else n + 1)"

definition binade :: "rat \<Rightarrow> int" where
  "binade x = (case quotient_of x of (p, q) \<Rightarrow>
     let e = bitlen p - bitlen q in if (2 powi e :: rat) \<le> x then e else e - 1)"

definition ulp :: "rat \<Rightarrow> rat" where
  "ulp x = 2 powi max (binade x - 52) (-1074)"

definition float64 :: "rat \<Rightarrow> rat" where
  "float64 x = (if x \<le> 0 then 0 else of_int (roundEven (x / ulp x)) * ulp x)"

definition floatInfinite :: "rat \<Rightarrow> bool" where
  "floatInfinite x \<longleftrightarrow> 2 ^ 1024 \<le> x"

lemma roundEven_error: "\<bar>of_int (roundEven x) - x\<bar> \<le> 1 / 2"
  using of_int_floor_le [of x] floor_correct [of x]
  by (cases "x - of_int \<lfloor>x\<rfloor> < 1 / 2 \<or> x - of_int \<lfloor>x\<rfloor> = 1 / 2 \<and> even \<lfloor>x\<rfloor>") (auto simp: roundEven_def Let_def)

lemma roundEven_eqI:
  assumes "\<bar>x - of_int n\<bar> < 1 / 2"
  shows "roundEven x = n"
proof -
  have "\<bar>of_int (roundEven x) - (of_int n :: rat)\<bar> < 1" using roundEven_error [of x] assms by linarith
  then have "\<bar>roundEven x - n\<bar> < 1" by (metis of_int_abs of_int_diff of_int_less_1_iff)
  then show ?thesis by simp
qed

lemma roundEven_of_int [simp]: "roundEven (of_int n) = n"
  by (simp add: roundEven_def)

lemma ulp_pos [simp]: "0 < ulp x"
  by (simp add: ulp_def)

lemma bitlen_powi:
  assumes "0 < p"
  shows "(2::rat) powi (bitlen p - 1) \<le> of_int p" and "of_int p < (2::rat) powi bitlen p"
proof -
  have "1 \<le> bitlen p" using assms by (simp add: bitlen_alt_def)
  then have "(2::rat) powi (bitlen p - 1) = of_int (2 ^ nat (bitlen p - 1))" "(2::rat) powi bitlen p = of_int (2 ^ nat (bitlen p))"
    by (simp_all add: power_int_def)
  then show "(2::rat) powi (bitlen p - 1) \<le> of_int p" "of_int p < (2::rat) powi bitlen p"
    using bitlen_bounds [OF assms] by (simp_all only: of_int_le_iff of_int_less_iff)
qed

lemma binade_bounds:
  assumes "0 < x"
  shows "2 powi binade x \<le> x" and "x < 2 powi (binade x + 1)"
proof -
  obtain p q where pq: "quotient_of x = (p, q)" by (cases "quotient_of x")
  have q: "0 < q" and x: "x = of_int p / of_int q" using quotient_of_denom_pos [OF pq] quotient_of_div [OF pq] by auto
  with assms have p: "0 < p" by (simp add: zero_less_divide_iff)
  define a where "a = bitlen p"
  define b where "b = bitlen q"
  note P = bitlen_powi [OF p, folded a_def] and Q = bitlen_powi [OF q, folded b_def]
  have e: "(2::rat) powi (a - 1 - b) * of_int q \<le> of_int p" "of_int p < (2::rat) powi (a - b + 1) * of_int q"
  proof -
    have "(2::rat) powi (a - 1 - b) * of_int q \<le> 2 powi (a - 1 - b) * 2 powi b"
      using Q(2) by (intro mult_left_mono) auto
    also have "\<dots> = 2 powi (a - 1)" by (simp flip: power_int_add)
    finally show "(2::rat) powi (a - 1 - b) * of_int q \<le> of_int p" using P(1) by linarith
    have "(2::rat) powi a = 2 powi (a - b + 1) * 2 powi (b - 1)" by (simp flip: power_int_add)
    also have "\<dots> \<le> 2 powi (a - b + 1) * of_int q" using Q(1) by (intro mult_left_mono) auto
    finally show "of_int p < (2::rat) powi (a - b + 1) * of_int q" using P(2) by linarith
  qed
  have "(2::rat) powi (a - b - 1) \<le> x" "x < 2 powi (a - b + 1)"
    using e q by (simp_all add: x field_simps)
  then show "2 powi binade x \<le> x" "x < 2 powi (binade x + 1)"
    by (simp_all add: binade_def pq a_def b_def Let_def)
qed

lemma binade_eq:
  assumes "2 powi e \<le> x" "x < 2 powi (e + 1)"
  shows "binade x = e"
proof -
  have x: "0 < x" by (rule less_le_trans [OF _ assms(1)]) simp
  have "\<not> e + 1 \<le> binade x" using power_int_increasing [of "e + 1" "binade x" "2::rat"] binade_bounds(1) [OF x] assms(2) by auto
  moreover have "\<not> binade x + 1 \<le> e" using power_int_increasing [of "binade x + 1" e "2::rat"] binade_bounds(2) [OF x] assms(1) by auto
  ultimately show ?thesis by simp
qed

lemma float64_binade:
  assumes "2 powi e \<le> x" "x < 2 powi (e + 1)" "-1022 \<le> e"
  shows "float64 x = of_int (roundEven (x / 2 powi (e - 52))) * 2 powi (e - 52)"
proof -
  have "0 < x" by (rule less_le_trans [OF _ assms(1)]) simp
  moreover have "max (e - 52) (-1074) = e - 52" using assms(3) by simp
  ultimately show ?thesis by (simp only: float64_def ulp_def binade_eq [OF assms(1,2)]) simp
qed

lemma float64_error:
  assumes "2 powi (- 1000) \<le> x"
  shows "\<bar>float64 x - x\<bar> \<le> x / 2 ^ 53"
proof -
  have x: "0 < x" by (rule less_le_trans [OF _ assms]) simp
  have "ulp x \<le> x / 2 ^ 52"
  proof (cases "-1074 \<le> binade x - 52")
    case True
    then have "ulp x = 2 powi (binade x - 52)" unfolding ulp_def by (simp only: max_absorb1)
    also have "\<dots> = 2 powi binade x / 2 ^ 52" by (simp add: power_int_diff)
    also have "\<dots> \<le> x / 2 ^ 52" using binade_bounds(1) [OF x] by (intro divide_right_mono) auto
    finally show ?thesis .
  next
    case False
    then have "ulp x = 2 powi (-1074)" by (simp add: ulp_def)
    also have "\<dots> \<le> 2 powi (-1000) / 2 ^ 52" by (simp add: power_int_def field_simps)
    also have "\<dots> \<le> x / 2 ^ 52" using assms by (intro divide_right_mono) auto
    finally show ?thesis .
  qed
  moreover have "\<bar>float64 x - x\<bar> = \<bar>of_int (roundEven (x / ulp x)) - x / ulp x\<bar> * ulp x"
  proof -
    have "float64 x - x = (of_int (roundEven (x / ulp x)) - x / ulp x) * ulp x"
      using x ulp_pos [of x] by (simp add: float64_def left_diff_distrib less_imp_neq [THEN not_sym])
    then show ?thesis by (simp add: abs_mult less_imp_le)
  qed
  moreover have "\<dots> \<le> 1 / 2 * ulp x" by (intro mult_right_mono roundEven_error) (simp add: less_imp_le)
  ultimately have "\<bar>float64 x - x\<bar> \<le> 1 / 2 * ulp x" "ulp x \<le> x / 2 ^ 52" by simp_all
  then show ?thesis by simp
qed

lemma float64_small_int [simp]:
  assumes "0 \<le> n" "n < 2 ^ 53"
  shows "float64 (of_int n) = of_int n"
proof (cases "n = 0")
  case False
  then have pos: "0 < (of_int n :: rat)" using assms(1) by simp
  define e where "e = max (binade (of_int n) - 52) (-1074)"
  have "(2::rat) powi binade (of_int n) \<le> of_int n" by (rule binade_bounds(1) [OF pos])
  also have "\<dots> < of_int (2 ^ 53)" using assms(2) by (simp only: of_int_less_iff)
  finally have "(2::rat) powi binade (of_int n) < 2 powi 53" by simp
  then have "binade (of_int n) < 53" using power_int_increasing [of 53 "binade (of_int n)" "2::rat"] by (cases "binade (of_int n) < 53") auto
  then have e: "e \<le> 0" by (simp add: e_def)
  have "(of_int n :: rat) / ulp (of_int n) = of_int (n * 2 ^ nat (- e))"
    using e by (simp add: ulp_def power_int_def flip: e_def) (simp add: field_simps)
  moreover from this have "of_int (n * 2 ^ nat (- e)) * ulp (of_int n) = (of_int n :: rat)"
    using ulp_pos [of "of_int n"] by (metis nonzero_divide_eq_eq less_irrefl)
  ultimately show ?thesis using pos by (simp only: float64_def roundEven_of_int) simp
qed (simp add: float64_def)

end
