(* ===== verification/Duration_Text.thy ===== *)
theory Duration_Text
  imports Go_Float "HOL-Library.Signed_Division"
begin

text \<open>
  Durations in the text format of XML schema (\<^verbatim>\<open>duration.go\<close>): writing, reading, and durations that keep their
  lexical form.
\<close>

section \<open>Writing\<close>

text \<open>The components are those of a duration in nanoseconds; \<open>None\<close> is a nil slice. The negation wraps, and
  division truncates.\<close>

definition Duration_MarshalText :: "int \<Rightarrow> string option" where
  "Duration_MarshalText d0 =
     (if d0 = 0 then None
      else
        let d = (if d0 < 0 then wrap64 (d0 * -1) else d0);
            out = (if d0 < 0 then ''-PT'' else ''PT'');
            h = d sdiv nsHour;
            m = (d smod nsHour) sdiv nsMinute;
            s = (d smod nsMinute) sdiv nsSecond;
            ns = d smod nsSecond in
        Some (out @ (if h > 0 then decimal (nat h) @ ''H'' else []) @
          (if m > 0 then decimal (nat m) @ ''M'' else []) @
          (if s > 0 \<or> ns > 0
           then decimal (nat s) @ (if ns > 0 then trimZeros (''.'' @ fixedDigits 9 (nat ns)) else []) @ ''S''
           else [])))"

section \<open>Reading\<close>

definition nsDay :: duration where "nsDay = 24 * nsHour"
definition nsMonth :: duration where "nsMonth = 30 * nsDay"
definition nsYear :: duration where "nsYear = 365 * nsDay"

text \<open>An optional group \<^verbatim>\<open>(\d+)U\<close> of the expressions, at the start of the text: its digits, if it matches, and the
  rest. Only all leading digits can match.\<close>

definition takeUnit :: "char \<Rightarrow> string \<Rightarrow> string \<times> string" where
  "takeUnit u s =
     (let ds = takeWhile isDigit s; rest = dropWhile isDigit s in
      if ds \<noteq> [] \<and> rest \<noteq> [] \<and> hd rest = u then (ds, tl rest) else ([], s))"

text \<open>The optional group \<^verbatim>\<open>(\d+(?:\.\d+)?)S\<close>.\<close>

definition takeSeconds :: "string \<Rightarrow> string \<times> string" where
  "takeSeconds s =
     (let ds = takeWhile isDigit s; rest = dropWhile isDigit s in
      if ds = [] \<or> rest = [] then ([], s)
      else if hd rest = CHR ''S'' then (ds, tl rest)
      else if hd rest = CHR ''.'' then
        (let fs = takeWhile isDigit (tl rest); rest' = dropWhile isDigit (tl rest) in
         if fs \<noteq> [] \<and> rest' \<noteq> [] \<and> hd rest' = CHR ''S'' then (ds @ ''.'' @ fs, tl rest') else ([], s))
      else ([], s))"

record duration_match =
  dm_Sign :: bool
  dm_Years :: string
  dm_Months :: string
  dm_Days :: string
  dm_Time :: string

text \<open>\<^verbatim>\<open>durationRegexp\<close>: the dot does not match a newline.\<close>

definition matchDuration :: "string \<Rightarrow> duration_match option" where
  "matchDuration s =
     (let sign = (s \<noteq> [] \<and> hd s = CHR ''-''); r0 = (if sign then tl s else s) in
      if r0 = [] \<or> hd r0 \<noteq> CHR ''P'' then None
      else
        let (y, r1) = takeUnit CHR ''Y'' (tl r0); (mo, r2) = takeUnit CHR ''M'' r1; (d, r3) = takeUnit CHR ''D'' r2 in
        if r3 = [] then Some \<lparr>dm_Sign = sign, dm_Years = y, dm_Months = mo, dm_Days = d, dm_Time = []\<rparr>
        else if hd r3 = CHR ''T'' \<and> tl r3 \<noteq> [] \<and> list_all (\<lambda>c. c \<noteq> CHR 0x0A) (tl r3)
        then Some \<lparr>dm_Sign = sign, dm_Years = y, dm_Months = mo, dm_Days = d, dm_Time = tl r3\<rparr>
        else None)"

text \<open>\<^verbatim>\<open>durationTimeRegexp\<close>: hours, minutes and seconds.\<close>

definition matchTime :: "string \<Rightarrow> (string \<times> string \<times> string) option" where
  "matchTime s =
     (let (h, r1) = takeUnit CHR ''H'' s; (m, r2) = takeUnit CHR ''M'' r1; (sec, r3) = takeSeconds r2 in
      if r3 = [] then Some (h, m, sec) else None)"

definition addUnits :: "string \<Rightarrow> string \<Rightarrow> string \<Rightarrow> duration \<Rightarrow> int \<Rightarrow> int result" where
  "addUnits text0 msg ds unit out =
     (if ds = [] then Inr out
      else bindE (wrapE (Wrapf msg [text0]) (Atoi ds)) (\<lambda>n. Inr (wrap64 (out + wrap64 (n * unit)))))"

text \<open>\<^verbatim>\<open>strconv.ParseFloat\<close> of digits with an optional fraction.\<close>

definition decimalFraction :: "string \<Rightarrow> rat" where
  "decimalFraction s =
     (let ds = takeWhile isDigit s; fs = drop (length ds + 1) s in
      of_nat (digitsValue ds) + of_nat (digitsValue fs) / 10 ^ length fs)"

definition ParseFloat :: "string \<Rightarrow> rat result" where
  "ParseFloat s = (let x = float64 (decimalFraction s) in if floatInfinite x then Inl (Err ''value out of range'') else Inr x)"

text \<open>The conversion of a product with a number of nanoseconds to an integer. Out of range its value depends on the
  implementation: \<open>big\<close>.\<close>

definition floatNanoseconds :: "(rat \<Rightarrow> int) \<Rightarrow> rat \<Rightarrow> int" where
  "floatNanoseconds big x = (let p = float64 (x * of_int nsSecond) in if p < 2 ^ 63 then \<lfloor>p\<rfloor> else wrap64 (big p))"

definition addSeconds :: "(rat \<Rightarrow> int) \<Rightarrow> string \<Rightarrow> string \<Rightarrow> int \<Rightarrow> int result" where
  "addSeconds big text0 ds out =
     (if ds = [] then Inr out
      else bindE (wrapE (Wrapf ''invalid duration seconds (%s): %s'' [text0]) (ParseFloat ds)) (\<lambda>s.
        Inr (wrap64 (out + floatNanoseconds big s))))"

definition addTime :: "(rat \<Rightarrow> int) \<Rightarrow> string \<Rightarrow> string \<Rightarrow> int \<Rightarrow> int result" where
  "addTime big text0 t out =
     (if t = [] then Inr out
      else
     (case matchTime t of
        None \<Rightarrow> Inl (Errorf ''invalid duration (%s)'' [text0])
      | Some (h, m, s) \<Rightarrow>
          bindE (addUnits text0 ''invalid duration hours (%s): %s'' h nsHour out) (\<lambda>out.
          bindE (addUnits text0 ''invalid duration minutes (%s): %s'' m nsMinute out) (\<lambda>out.
          addSeconds big text0 s out))))"

definition Duration_UnmarshalText :: "(rat \<Rightarrow> int) \<Rightarrow> string option \<Rightarrow> int result" where
  "Duration_UnmarshalText big input =
     (case input of
        None \<Rightarrow> Inr 0
      | Some s \<Rightarrow>
     (case matchDuration s of
        None \<Rightarrow> Inl (Errorf ''invalid duration (%s)'' [s])
      | Some m \<Rightarrow>
          if dm_Years m @ dm_Months m @ dm_Days m @ dm_Time m = [] then Inl (Errorf ''invalid duration (%s)'' [s])
          else
            bindE (addUnits s ''invalid duration years (%s): %s'' (dm_Years m) nsYear 0) (\<lambda>out.
            bindE (addUnits s ''invalid duration months (%s): %s'' (dm_Months m) nsMonth out) (\<lambda>out.
            bindE (addUnits s ''invalid duration days (%s): %s'' (dm_Days m) nsDay out) (\<lambda>out.
            bindE (addTime big s (dm_Time m) out) (\<lambda>out.
              Inr (wrap64 ((if dm_Sign m then -1 else 1) * out))))))))"

section \<open>Durations in lexical form\<close>

text \<open>\<^verbatim>\<open>MarshalXMLAttr\<close>: \<open>None\<close> is the empty attribute, which is omitted.\<close>

definition XSDDuration_MarshalXMLAttr :: "string \<Rightarrow> string option" where
  "XSDDuration_MarshalXMLAttr d = (if d = [] then None else Some d)"

text \<open>The conversion to a string and back makes a slice that is not nil.\<close>

definition XSDDuration_UnmarshalText :: "(rat \<Rightarrow> int) \<Rightarrow> string \<Rightarrow> string result" where
  "XSDDuration_UnmarshalText big s = bindE (Duration_UnmarshalText big (Some s)) (\<lambda>_. Inr s)"

text \<open>\<open>jsonString\<close> and \<open>jsonInt\<close> are \<^verbatim>\<open>json.Unmarshal\<close> into a string and into an \<^verbatim>\<open>int64\<close>.\<close>

definition XSDDuration_UnmarshalJSON ::
  "(rat \<Rightarrow> int) \<Rightarrow> (string \<Rightarrow> string result) \<Rightarrow> (string \<Rightarrow> int result) \<Rightarrow> string \<Rightarrow> string result" where
  "XSDDuration_UnmarshalJSON big jsonString jsonInt data =
     (case jsonString data of
        Inr s \<Rightarrow> if s = [] then Inr [] else XSDDuration_UnmarshalText big s
      | Inl _ \<Rightarrow> bindE (jsonInt data) (\<lambda>nanoseconds. Inr (the_default [] (Duration_MarshalText nanoseconds))))"


section \<open>Parts of a duration\<close>

lemma letters_no_digits [simp]:
  "\<not> isDigit CHR ''Y''" "\<not> isDigit CHR ''M''" "\<not> isDigit CHR ''D''" "\<not> isDigit CHR ''T''" "\<not> isDigit CHR ''H''"
  "\<not> isDigit CHR ''S''" "\<not> isDigit CHR ''.''"
  by (simp_all add: isDigit_def byte_def)

lemma takeUnit_skip [simp]:
  "takeUnit u [] = ([], [])" "\<not> isDigit c \<Longrightarrow> takeUnit u (c # r) = ([], c # r)"
  "(\<forall>c \<in> set ds. isDigit c) \<Longrightarrow> \<not> isDigit c \<Longrightarrow> c \<noteq> u \<Longrightarrow> takeUnit u (ds @ c # r) = ([], ds @ c # r)"
  by (simp_all add: takeUnit_def span_digits)

lemma takeUnit_optional:
  assumes "\<not> isDigit u" "takeUnit u w = ([], w)"
  shows "takeUnit u ((if b then decimal n @ [u] else []) @ w) = (if b then decimal n else [], w)"
proof (cases b)
  case True
  have "takeUnit u (decimal n @ u # w) = (decimal n, w)" using assms(1) by (simp add: takeUnit_def span_digits Let_def)
  with True show ?thesis by simp
qed (use assms(2) in simp)

definition fraction :: "nat \<Rightarrow> string" where
  "fraction ns = (if ns > 0 then CHR ''.'' # trimZeros (fixedDigits 9 ns) else [])"

definition secondsText :: "nat \<Rightarrow> nat \<Rightarrow> string" where
  "secondsText s ns = (if s > 0 \<or> ns > 0 then decimal s @ fraction ns else [])"

lemma fraction_value:
  assumes "0 < ns" "ns < 10 ^ 9"
  shows "(of_nat (digitsValue (trimZeros (fixedDigits 9 ns))) :: rat) / 10 ^ length (trimZeros (fixedDigits 9 ns)) = of_nat ns / 10 ^ 9"
    and "trimZeros (fixedDigits 9 ns) \<noteq> []"
    and "\<forall>c \<in> set (trimZeros (fixedDigits 9 ns)). isDigit c"
proof -
  show v: "(of_nat (digitsValue (trimZeros (fixedDigits 9 ns))) :: rat) / 10 ^ length (trimZeros (fixedDigits 9 ns)) = of_nat ns / 10 ^ 9"
  proof -
    let ?f = "trimZeros (fixedDigits 9 ns)"
    have n: "digitsValue ?f * 10 ^ (9 - length ?f) = ns"
      using trimZeros_value [of "fixedDigits 9 ns"] digitsValue_fixedDigits [OF assms(2)] by (simp only: length_fixedDigits)
    have "of_nat ns = (of_nat (digitsValue ?f * 10 ^ (9 - length ?f)) :: rat)" by (simp only: n)
    then have ns: "of_nat ns = (of_nat (digitsValue ?f) * 10 ^ (9 - length ?f) :: rat)" by simp
    have "(10::rat) ^ 9 = 10 ^ (length ?f + (9 - length ?f))" using trimZeros_length [of "fixedDigits 9 ns"] by simp
    then have ten: "(10::rat) ^ 9 = 10 ^ length ?f * 10 ^ (9 - length ?f)" by (simp only: power_add)
    show ?thesis unfolding ns ten by simp
  qed
  show "trimZeros (fixedDigits 9 ns) \<noteq> []"
  proof
    assume "trimZeros (fixedDigits 9 ns) = []"
    with v assms show False by simp
  qed
  show "\<forall>c \<in> set (trimZeros (fixedDigits 9 ns)). isDigit c"
    using trimZeros_subset [of "fixedDigits 9 ns"] fixedDigits_digits by blast
qed

lemma takeSeconds_text:
  assumes "ns < 10 ^ 9"
  shows "takeSeconds ((if s > 0 \<or> ns > 0 then decimal s @ fraction ns @ ''S'' else [])) = (secondsText s ns, [])"
proof (cases "ns = 0")
  case True
  then show ?thesis by (simp add: takeSeconds_def secondsText_def fraction_def span_digits)
next
  case False
  then have f: "trimZeros (fixedDigits 9 ns) \<noteq> []" "\<forall>c \<in> set (trimZeros (fixedDigits 9 ns)). isDigit c"
    using fraction_value [of ns] assms by auto
  then show ?thesis using False
    by (simp add: takeSeconds_def secondsText_def fraction_def span_digits Let_def)
qed

lemma decimalFraction_text:
  assumes "ns < 10 ^ 9" "s > 0 \<or> ns > 0"
  shows "decimalFraction (secondsText s ns) = of_nat (s * 10 ^ 9 + ns) / 10 ^ 9"
proof (cases "ns = 0")
  case True
  then show ?thesis using assms by (simp add: decimalFraction_def secondsText_def fraction_def span_all_digits)
next
  case False
  then show ?thesis using assms fraction_value(1) [of ns]
    by (simp add: decimalFraction_def secondsText_def fraction_def span_digits add_divide_distrib)
qed

lemma takeUnit_seconds:
  assumes "ns < 10 ^ 9" "u \<noteq> CHR ''.''" "u \<noteq> CHR ''S''"
  shows "takeUnit u (if s > 0 \<or> ns > 0 then decimal s @ fraction ns @ ''S'' else [])
    = ([], if s > 0 \<or> ns > 0 then decimal s @ fraction ns @ ''S'' else [])"
  using assms by (simp add: fraction_def)


section \<open>Writing and reading back\<close>

text \<open>Less than a minute in nanoseconds, printed as decimal seconds and read through a floating point number, loses
  at most a nanosecond, and nothing when it is whole seconds.\<close>

lemma two_roundings:
  fixes N Y Z :: rat
  assumes "\<bar>Y - N\<bar> \<le> N / 2 ^ 53" "1 \<le> N"
  shows "1 / 10 ^ 9 \<le> Y"
    and "\<bar>Z - Y\<bar> \<le> Y / 2 ^ 53 \<Longrightarrow> N \<le> 60 * 10 ^ 9 \<Longrightarrow> N - 1 < Z \<and> Z < N + 1"
proof -
  have Y: "N - N / 2 ^ 53 \<le> Y" "Y \<le> N + N / 2 ^ 53" using assms(1) unfolding abs_diff_le_iff by simp_all
  then show "1 / 10 ^ 9 \<le> Y" using assms(2) by simp
  assume "\<bar>Z - Y\<bar> \<le> Y / 2 ^ 53" and N: "N \<le> 60 * 10 ^ 9"
  then have "Y - Y / 2 ^ 53 \<le> Z" "Z \<le> Y + Y / 2 ^ 53" unfolding abs_diff_le_iff by simp_all
  with Y N assms(2) show "N - 1 < Z \<and> Z < N + 1" by simp
qed

lemma float64_seconds:
  assumes "0 < n"
  shows "\<bar>float64 (of_nat n / 10 ^ 9) - of_nat n / 10 ^ 9\<bar> \<le> of_nat n / 10 ^ 9 / 2 ^ 53"
proof (rule float64_error)
  have "(2::rat) powi - 1000 \<le> 1 / 10 ^ 9" by (simp add: power_int_def field_simps)
  also have "\<dots> \<le> of_nat n / 10 ^ 9" using assms by (intro divide_right_mono) auto
  finally show "(2::rat) powi - 1000 \<le> of_nat n / 10 ^ 9" .
qed

lemma float64_seconds_finite:
  assumes "0 < n" "n < 60 * 10 ^ 9"
  shows "float64 (of_nat n / 10 ^ 9) < 2 ^ 1024"
proof -
  let ?x = "of_nat n / 10 ^ 9 :: rat"
  have "float64 ?x \<le> ?x + ?x / 2 ^ 53" using float64_seconds [OF assms(1)] unfolding abs_diff_le_iff by simp
  moreover have "?x \<le> 60" using of_nat_mono [of n "60 * 10 ^ 9", where 'a = rat] assms by simp
  then have "?x + ?x / 2 ^ 53 \<le> 60 + 60 / 2 ^ 53" by (intro add_mono divide_right_mono) simp_all
  moreover have "(60 + 60 / 2 ^ 53 :: rat) < 2 ^ 1024" by simp
  ultimately show ?thesis by linarith
qed

lemma float_nanoseconds:
  assumes "0 < n" "n < 60 * 10 ^ 9"
  shows "floatNanoseconds big (float64 (of_nat n / 10 ^ 9)) \<in> {int n - 1, int n}"
    and "n mod 10 ^ 9 = 0 \<Longrightarrow> floatNanoseconds big (float64 (of_nat n / 10 ^ 9)) = int n"
proof -
  let ?x = "of_nat n / 10 ^ 9 :: rat" and ?ns = "of_int nsSecond :: rat"
  let ?y = "float64 ?x" and ?z = "float64 (float64 ?x * ?ns)"
  have ns: "?ns = 10 ^ 9" by (simp add: nsSecond_def)
  have n: "(1::rat) \<le> of_nat n" "(of_nat n :: rat) \<le> 60 * 10 ^ 9"
    using of_nat_mono [of 1 n, where 'a = rat] of_nat_mono [of n "60 * 10 ^ 9", where 'a = rat] assms by simp_all
  have small: "(2::rat) powi - 1000 \<le> 1 / 10 ^ 9" by (simp add: power_int_def field_simps)
  have y: "\<bar>?y - ?x\<bar> \<le> ?x / 2 ^ 53" by (rule float64_seconds [OF assms(1)])
  then have y': "\<bar>?y * ?ns - of_nat n\<bar> \<le> of_nat n / 2 ^ 53" by (simp add: ns abs_le_iff field_simps)
  from two_roundings(1) [OF y' n(1)]
  have "(2::rat) powi - 1000 \<le> ?y * ?ns" using small by (rule order_trans [rotated])
  then have "\<bar>?z - ?y * ?ns\<bar> \<le> ?y * ?ns / 2 ^ 53" by (rule float64_error)
  then have z: "of_nat n - 1 < ?z" "?z < of_nat n + 1" using two_roundings(2) [OF y' n(1) _ n(2)] by simp_all
  then have "?z < 2 ^ 63" using n by simp
  then have f: "floatNanoseconds big ?y = \<lfloor>?z\<rfloor>" by (simp add: floatNanoseconds_def)
  have "\<lfloor>?z\<rfloor> \<le> int n" "int n - 1 \<le> \<lfloor>?z\<rfloor>" using z by (simp_all add: floor_le_iff le_floor_iff)
  then show "floatNanoseconds big ?y \<in> {int n - 1, int n}" unfolding f by auto
  assume "n mod 10 ^ 9 = 0"
  then obtain k where k: "n = 10 ^ 9 * k" by (metis mod_eq_0_iff_dvd dvdE)
  then have "?x = of_int (int k)" by simp
  moreover have "int k < 2 ^ 53" "int n < 2 ^ 53" using assms k by simp_all
  ultimately have "?y = of_int (int k)" using float64_small_int [of "int k"] by simp
  then have "?y * ?ns = of_int (int n)" using k by (simp add: ns)
  with \<open>int n < 2 ^ 53\<close> have "?z = of_int (int n)" using float64_small_int [of "int n"] by simp
  then show "floatNanoseconds big ?y = int n" unfolding f by simp
qed


definition timeText :: "nat \<Rightarrow> nat \<Rightarrow> nat \<Rightarrow> nat \<Rightarrow> string" where
  "timeText h m s ns = (if h > 0 then decimal h @ ''H'' else []) @ (if m > 0 then decimal m @ ''M'' else []) @
     (if s > 0 \<or> ns > 0 then decimal s @ fraction ns @ ''S'' else [])"

lemma MarshalText_text:
  assumes "0 < a" "a < 2 ^ 63" "d = (if neg then - int a else int a)"
  shows "Duration_MarshalText d = Some ((if neg then ''-PT'' else ''PT'') @
    timeText (a div 3600000000000) (a mod 3600000000000 div 60000000000) (a mod 60000000000 div 10 ^ 9) (a mod 10 ^ 9))"
proof -
  have "wrap64 (int a) = int a" using assms(2) by (simp add: wrap64_def)
  with assms have d: "(if neg then wrap64 (d * -1) else d) = int a" "(d < 0) = neg" "d \<noteq> 0"
    by (auto split: if_splits)
  have parts: "int a sdiv nsHour = int (a div 3600000000000)" "(int a smod nsHour) sdiv nsMinute = int (a mod 3600000000000 div 60000000000)"
    "(int a smod nsMinute) sdiv nsSecond = int (a mod 60000000000 div 10 ^ 9)" "int a smod nsSecond = int (a mod 10 ^ 9)"
    by (simp_all add: signed_divide_int_def signed_modulo_int_def ns_defs sgn_if zdiv_int zmod_int)
  have "(if int h > 0 then decimal (nat (int h)) @ ''H'' else []) @ (if int m > 0 then decimal (nat (int m)) @ ''M'' else []) @
      (if int s > 0 \<or> int ns > 0 then decimal (nat (int s)) @ (if int ns > 0 then trimZeros (''.'' @ fixedDigits 9 (nat (int ns))) else []) @ ''S''
       else []) = timeText h m s ns" for h m s ns
    by (simp add: timeText_def fraction_def)
  then show ?thesis unfolding Duration_MarshalText_def Let_def d(2) d(1) parts by (simp only: d(3) if_False)
qed

lemma matchTime_text:
  assumes "ns < 10 ^ 9"
  shows "matchTime (timeText h m s ns) = Some (if h > 0 then decimal h else [], if m > 0 then decimal m else [], secondsText s ns)"
proof -
  let ?S = "if s > 0 \<or> ns > 0 then decimal s @ fraction ns @ ''S'' else []"
  let ?M = "(if m > 0 then decimal m @ ''M'' else []) @ ?S"
  have M: "takeUnit CHR ''M'' ?M = (if m > 0 then decimal m else [], ?S)"
    by (rule takeUnit_optional) (simp_all add: takeUnit_seconds [OF assms])
  have "takeUnit CHR ''H'' ?M = ([], ?M)"
  proof (cases "m > 0")
    case True
    with takeUnit_skip(3) [of "decimal m" "CHR ''M''" "CHR ''H''" ?S] show ?thesis by simp
  next
    case False
    with takeUnit_seconds [OF assms, of "CHR ''H''" s] show ?thesis by simp
  qed
  then have "takeUnit CHR ''H'' (timeText h m s ns) = (if h > 0 then decimal h else [], ?M)"
    unfolding timeText_def by (intro takeUnit_optional) simp
  then show ?thesis unfolding matchTime_def by (simp only: M takeSeconds_text [OF assms] Let_def prod.case) simp
qed

lemma timeText_characters:
  assumes "ns < 10 ^ 9"
  shows "list_all (\<lambda>c. c \<noteq> CHR 0x0A) (timeText h m s ns)"
proof -
  have "c \<noteq> CHR 0x0A" if "isDigit c" for c using that by (auto simp: isDigit_def byte_def)
  moreover have "\<forall>c \<in> set (fraction ns). isDigit c \<or> c = CHR ''.''"
    using fraction_value(3) [of ns] assms by (auto simp: fraction_def)
  ultimately show ?thesis unfolding timeText_def list_all_iff by (auto dest: decimal_digits)
qed

lemma matchDuration_text:
  assumes "t \<noteq> []" "list_all (\<lambda>c. c \<noteq> CHR 0x0A) t"
  shows "matchDuration ((if neg then ''-PT'' else ''PT'') @ t) = Some \<lparr>dm_Sign = neg, dm_Years = [], dm_Months = [], dm_Days = [], dm_Time = t\<rparr>"
  using assms by (cases neg) (simp_all add: matchDuration_def)

lemma addUnits_text:
  assumes "0 \<le> out" "out + int n * unit < 2 ^ 63" "0 < unit"
  shows "addUnits text0 msg (if n > 0 then decimal n else []) unit out = Inr (out + int n * unit)"
proof (cases "n > 0")
  case True
  have "int n \<le> int n * unit" using assms(3) by (simp add: mult_le_cancel_left1)
  then have "int n < 2 ^ 63" "int64 (int n * unit)" "int64 (out + int n * unit)"
    using assms by (simp_all add: int64_def)
  with True show ?thesis by (simp add: addUnits_def Atoi_def nat_less_numeral_power_cancel_iff)
qed (simp add: addUnits_def)


lemma addTime_text:
  assumes "s < 60" "ns < 10 ^ 9" "h > 0 \<or> m > 0 \<or> s > 0 \<or> ns > 0"
    and total: "int h * nsHour + int m * nsMinute + int (s * 10 ^ 9 + ns) < 2 ^ 63"
  shows "\<exists>v. addTime big text0 (timeText h m s ns) 0 = Inr v \<and>
    v \<in> {int h * nsHour + int m * nsMinute + int (s * 10 ^ 9 + ns) - 1, int h * nsHour + int m * nsMinute + int (s * 10 ^ 9 + ns)} \<and>
    (ns = 0 \<longrightarrow> v = int h * nsHour + int m * nsMinute + int (s * 10 ^ 9 + ns)) \<and> 0 \<le> v"
proof -
  let ?out = "int h * nsHour + int m * nsMinute" and ?n = "s * 10 ^ 9 + ns"
  have pos: "0 < nsHour" "0 < nsMinute" "0 \<le> int h * nsHour" "0 \<le> int m * nsMinute" by (simp_all add: ns_defs)
  have nonempty: "timeText h m s ns \<noteq> []" using assms(3) by (auto simp: timeText_def)
  have hours: "addUnits text0 msg (if h > 0 then decimal h else []) nsHour 0 = Inr (int h * nsHour)" for msg
  proof -
    have "0 + int h * nsHour < 2 ^ 63" using total pos by linarith
    from addUnits_text [OF order_refl this pos(1)] show ?thesis by simp
  qed
  have minutes: "addUnits text0 msg (if m > 0 then decimal m else []) nsMinute (int h * nsHour) = Inr ?out" for msg
  proof -
    have "?out < 2 ^ 63" using total by linarith
    from addUnits_text [OF pos(3) this pos(2)] show ?thesis .
  qed
  have units: "addTime big text0 (timeText h m s ns) 0 = addSeconds big text0 (secondsText s ns) ?out"
    by (simp only: addTime_def matchTime_text [OF assms(2)] nonempty if_False option.case prod.case hours minutes bindE_simps)
  show ?thesis
  proof (cases "s > 0 \<or> ns > 0")
    case False
    then have "addTime big text0 (timeText h m s ns) 0 = Inr ?out"
      unfolding units by (simp add: secondsText_def addSeconds_def)
    with False pos show ?thesis by simp
  next
    case True
    let ?f = "floatNanoseconds big (float64 (of_nat ?n / 10 ^ 9))"
    have n: "0 < ?n" "?n < 60 * 10 ^ 9" using True assms(1,2) by simp_all
    note f = float_nanoseconds [OF n, of big]
    have x: "float64 (of_nat ?n / 10 ^ 9) < 2 ^ 1024" by (rule float64_seconds_finite [OF n])
    have "1 \<le> int ?n" using n(1) by linarith
    moreover have "v \<in> {k - 1, k} \<Longrightarrow> 1 \<le> k \<Longrightarrow> 0 \<le> v \<and> v \<le> k" for v k :: int by auto
    ultimately have "0 \<le> ?f \<and> ?f \<le> int ?n" using f(1) by blast
    then have "0 \<le> ?out + ?f" "?out + ?f < 2 ^ 63" using total pos by linarith+
    then have "int64 (?out + ?f)" by (simp add: int64_def)
    moreover have "secondsText s ns \<noteq> []" using True by (simp add: secondsText_def)
    moreover have "\<not> floatInfinite (float64 (of_nat ?n / 10 ^ 9))" using x by (simp only: floatInfinite_def not_le)
    then have "ParseFloat (secondsText s ns) = Inr (float64 (of_nat ?n / 10 ^ 9))"
      by (simp only: ParseFloat_def decimalFraction_text [OF assms(2) True] Let_def if_False)
    ultimately have "addSeconds big text0 (secondsText s ns) ?out = Inr (?out + ?f)"
      by (simp only: addSeconds_def if_False wrapE_simps bindE_simps wrap64_int64)
    with units f pos n show ?thesis by auto
  qed
qed


lemma duration_parts:
  "int (a div 3600000000000) * nsHour + int (a mod 3600000000000 div 60000000000) * nsMinute +
     int (a mod 60000000000 div 10 ^ 9 * 10 ^ 9 + a mod 10 ^ 9) = int a"
proof -
  have "a mod 60000000000 mod 10 ^ 9 = a mod 10 ^ 9" "a mod 3600000000000 mod 60000000000 = a mod 60000000000"
    by (simp_all add: mod_mod_cancel)
  then have "a = a div 3600000000000 * 3600000000000 + a mod 3600000000000 div 60000000000 * 60000000000 +
      (a mod 60000000000 div 10 ^ 9 * 10 ^ 9 + a mod 10 ^ 9)"
    using div_mult_mod_eq [of a 3600000000000] div_mult_mod_eq [of "a mod 3600000000000" 60000000000]
      div_mult_mod_eq [of "a mod 60000000000" "10 ^ 9"] by linarith
  then have "int a = int (a div 3600000000000 * 3600000000000 + a mod 3600000000000 div 60000000000 * 60000000000 +
      (a mod 60000000000 div 10 ^ 9 * 10 ^ 9 + a mod 10 ^ 9))" by (rule arg_cong)
  then show ?thesis by (simp only: of_nat_add of_nat_mult ns_defs)
qed

lemma UnmarshalText_text:
  assumes "0 < a" "a < 2 ^ 63" "d = (if neg then - int a else int a)"
  shows "\<exists>d'. Duration_UnmarshalText big (Duration_MarshalText d) = Inr d' \<and> \<bar>d - d'\<bar> \<le> 1 \<and> (a mod 10 ^ 9 = 0 \<longrightarrow> d' = d)"
proof -
  define h where "h = a div 3600000000000"
  define m where "m = a mod 3600000000000 div 60000000000"
  define s where "s = a mod 60000000000 div 10 ^ 9"
  define ns where "ns = a mod 10 ^ 9"
  let ?t = "timeText h m s ns" and ?text = "(if neg then ''-PT'' else ''PT'') @ timeText h m s ns"
  have sum: "int h * nsHour + int m * nsMinute + int (s * 10 ^ 9 + ns) = int a"
    unfolding h_def m_def s_def ns_def by (rule duration_parts)
  have "a mod 60000000000 < 60 * 10 ^ 9" using mod_less_divisor [of 60000000000 a] by simp
  then have bounds: "s < 60" "ns < 10 ^ 9" unfolding s_def ns_def by (simp_all add: less_mult_imp_div_less)
  have some: "h > 0 \<or> m > 0 \<or> s > 0 \<or> ns > 0" using sum assms(1) by (cases "h = 0 \<and> m = 0 \<and> s = 0 \<and> ns = 0") auto
  obtain v where v: "addTime big ?text ?t 0 = Inr v" "v \<in> {int a - 1, int a}" "ns = 0 \<longrightarrow> v = int a" "0 \<le> v"
    using addTime_text [OF bounds some, of big ?text] assms(2) unfolding sum by auto
  have nonempty: "?t \<noteq> []" using some by (auto simp: timeText_def)
  have written: "Duration_MarshalText d = Some ?text"
    unfolding h_def m_def s_def ns_def by (rule MarshalText_text [OF assms])
  have "Duration_UnmarshalText big (Some ?text) = Inr (wrap64 ((if neg then -1 else 1) * v))"
    using nonempty v(1)
    by (simp add: Duration_UnmarshalText_def matchDuration_text [OF nonempty timeText_characters [OF bounds(2)]] addUnits_def)
  moreover have "int64 ((if neg then -1 else 1) * v)" using v(2,4) assms(2) by (auto simp: int64_def)
  ultimately show ?thesis unfolding written using v(2,3) assms(3) by (auto simp: ns_def)
qed


lemma whole_seconds_read_back:
  assumes "int64 d" "d \<noteq> - (2 ^ 63)" "nsSecond dvd d"
  shows "Duration_UnmarshalText big (Duration_MarshalText d) = Inr d"
proof (cases "d = 0")
  case False
  then have a: "0 < nat \<bar>d\<bar>" "nat \<bar>d\<bar> < 2 ^ 63" using assms(1,2) by (auto simp: int64_def nat_less_iff)
  have "nat \<bar>d\<bar> mod 10 ^ 9 = 0" using assms(3) by (simp add: nsSecond_def mod_eq_0_iff_dvd flip: int_dvd_int_iff)
  moreover have "d = (if d < 0 then - int (nat \<bar>d\<bar>) else int (nat \<bar>d\<bar>))" by simp
  ultimately show ?thesis using UnmarshalText_text [OF a, of d "d < 0" big] by metis
qed (simp add: Duration_MarshalText_def Duration_UnmarshalText_def)

section \<open>Properties\<close>

text \<open>
  C40. Durations read back. The text that MarshalText writes for a 64-bit duration is read back by UnmarshalText as
  the same duration when it is a whole number of seconds, and otherwise as one that differs by at most a nanosecond,
  since the fraction goes through a floating point number. The exception is the smallest duration, whose negation
  overflows: its text has no components and is refused.
\<close>

theorem duration_round_trip:
  assumes "int64 d"
  shows "Duration_UnmarshalText big (Duration_MarshalText d) = Inl (Errorf ''invalid duration (%s)'' [''-PT'']) \<and> d = - (2 ^ 63) \<or>
    (\<exists>d'. Duration_UnmarshalText big (Duration_MarshalText d) = Inr d' \<and> d \<noteq> - (2 ^ 63) \<and>
       \<bar>d - d'\<bar> \<le> 1 \<and> (nsSecond dvd d \<longrightarrow> d' = d))"
proof -
  consider "d = 0" | "d = - (2 ^ 63)" | "0 < nat \<bar>d\<bar>" "nat \<bar>d\<bar> < 2 ^ 63"
    using assms by (fastforce simp: int64_def nat_less_iff)
  then show ?thesis
  proof cases
    case 1
    then show ?thesis by (simp add: Duration_MarshalText_def Duration_UnmarshalText_def)
  next
    case 2
    then have "Duration_MarshalText d = Some ''-PT''"
      by (simp add: Duration_MarshalText_def wrap64_def ns_defs signed_divide_int_def signed_modulo_int_def)
    moreover have "matchDuration ''-PT'' = None" by (simp add: matchDuration_def)
    ultimately show ?thesis using 2 by (simp add: Duration_UnmarshalText_def)
  next
    case 3
    have "nat \<bar>d\<bar> mod 10 ^ 9 = 0" if "nsSecond dvd d"
      using that by (simp add: nsSecond_def mod_eq_0_iff_dvd flip: int_dvd_int_iff)
    moreover have "d \<noteq> - (2 ^ 63)" using 3(2) by auto
    moreover have "d = (if d < 0 then - int (nat \<bar>d\<bar>) else int (nat \<bar>d\<bar>))" by simp
    moreover from this obtain d' where "Duration_UnmarshalText big (Duration_MarshalText d) = Inr d'" "\<bar>d - d'\<bar> \<le> 1"
      "nat \<bar>d\<bar> mod 10 ^ 9 = 0 \<longrightarrow> d' = d"
      using UnmarshalText_text [OF 3, of d "d < 0" big] by metis
    ultimately show ?thesis by (intro disjI2 exI [of _ d'] conjI) auto
  qed
qed

text \<open>The nanosecond that is lost, for a duration of a second and a millisecond.\<close>

lemma fixedDigits_numeral:
  "fixedDigits (numeral k) n = fixedDigits (pred_numeral k) (n div 10) @ [digit (n mod 10)]"
  by (simp only: numeral_eq_Suc [of k] fixedDigits.simps)

lemma duration_text_example: "Duration_MarshalText 1001000000 = Some ''PT1.001S''"
proof -
  have "trimZeros (fixedDigits 9 1000000) = ''001''"
    by (simp add: fixedDigits_numeral) (simp add: trimZeros_def digit_def char_of_def bit_0)
  then show ?thesis
    using MarshalText_text [of 1001000000 1001000000 False]
    by (simp add: timeText_def fraction_def decimal.simps [of "Suc 0"] digit_def char_of_def bit_0)
qed

lemma duration_loses_nanosecond: "Duration_UnmarshalText big (Some ''PT1.001S'') = Inr 1000999999"
proof -
  have powers: "(2::rat) powi (0 - 52) = 1 / 4503599627370496" "(2::rat) powi (29 - 52) = 1 / 8388608"
    "(2::rat) powi 29 = 536870912" "(2::rat) powi (29 + 1) = 1073741824"
    by (simp_all add: power_int_def power_divide)
  have "roundEven (1001 / 1000 / (1 / 4503599627370496)) = 4508103226997866"
    "roundEven (4508103226997866 / 4503599627370496 * 1000000000 / (1 / 8388608)) = 8396996607999999"
    by (rule roundEven_eqI, simp)+
  note rounded = this
  have x: "float64 (1001 / 1000) = 4508103226997866 / 4503599627370496"
    using float64_binade [of 0 "1001 / 1000"] unfolding powers rounded by simp
  have "float64 (4508103226997866 / 4503599627370496 * 1000000000) = 8396996607999999 / 8388608"
    using float64_binade [of 29 "4508103226997866 / 4503599627370496 * 1000000000"] unfolding powers rounded by simp
  moreover have "(8396996607999999 / 8388608 :: rat) < 2 ^ 63" "\<lfloor>8396996607999999 / 8388608 :: rat\<rfloor> = 1000999999" by (simp_all add: floor_eq_iff)
  ultimately have f: "floatNanoseconds big (float64 (1001 / 1000)) = 1000999999"
    unfolding x floatNanoseconds_def nsSecond_def by (simp only: of_int_numeral Let_def if_True)
  have "decimalFraction ''1.001'' = 1001 / 1000"
    by (simp add: decimalFraction_def digitsValue_def isDigit_def byte_def)
  moreover have "\<not> floatInfinite (float64 (1001 / 1000))" unfolding x by (simp add: floatInfinite_def)
  ultimately have "ParseFloat ''1.001'' = Inr (float64 (1001 / 1000))" by (simp only: ParseFloat_def Let_def if_False)
  then have "addSeconds big ''PT1.001S'' ''1.001'' 0 = Inr 1000999999"
    by (simp add: addSeconds_def f wrap64_def)
  then have "addTime big ''PT1.001S'' ''1.001S'' 0 = Inr 1000999999"
    by (simp add: addTime_def matchTime_def takeUnit_def takeSeconds_def isDigit_def byte_def addUnits_def)
  then show ?thesis
    by (simp add: Duration_UnmarshalText_def matchDuration_def takeUnit_def isDigit_def byte_def addUnits_def wrap64_def)
qed

theorem duration_round_trip_witness:
  "\<exists>d'. Duration_UnmarshalText (\<lambda>_. 0) (Duration_MarshalText 5400000000000) = Inr d' \<and> d' = 5400000000000"
  using duration_round_trip [of 5400000000000 "\<lambda>_. 0"] by (simp add: int64_def nsSecond_def)

end
