(* ===== verification/Metadata_Wire.thy ===== *)
theory Metadata_Wire
  imports Externals Duration_Text
begin

text \<open>
  What \<^verbatim>\<open>metadata.go\<close> does beyond the types when metadata is read: the locations of endpoints, which are checked
  against the binding. \<^verbatim>\<open>encoding/xml\<close> decodes the attributes and is an argument.
\<close>

definition SOAPBindingV1 :: string where
  "SOAPBindingV1 = ''urn:oasis:names:tc:SAML:1.0:bindings:SOAP-binding''"

definition webBindings :: "string list" where
  "webBindings = [HTTPPostBinding, HTTPRedirectBinding, HTTPArtifactBinding, SOAPBinding, SOAPBindingV1]"

definition checkEndpointLocation :: "externs \<Rightarrow> string \<Rightarrow> string \<Rightarrow> string result" where
  "checkEndpointLocation X binding location =
     (if binding \<in> set webBindings then
        bindE (wrapE (Wrapf ''invalid url %q: %w'' [location]) (x_ParseURL X location)) (\<lambda>locationURL.
          if u_Scheme locationURL = ''http'' \<or> u_Scheme locationURL = ''https'' then Inr location
          else Inl (Errorf ''invalid url scheme %q for binding %q'' [u_Scheme locationURL, binding]))
      else Inr [])"

definition Endpoint_UnmarshalXML :: "externs \<Rightarrow> Endpoint result \<Rightarrow> Endpoint result" where
  "Endpoint_UnmarshalXML X decoded =
     bindE decoded (\<lambda>m.
     bindE (checkEndpointLocation X (ep_Binding m) (ep_Location m)) (\<lambda>location.
     bindE (if ep_ResponseLocation m \<noteq> [] then checkEndpointLocation X (ep_Binding m) (ep_ResponseLocation m) else Inr [])
       (\<lambda>response. Inr (m\<lparr>ep_Location := location, ep_ResponseLocation := response\<rparr>))))"

definition IndexedEndpoint_UnmarshalXML :: "externs \<Rightarrow> IndexedEndpoint result \<Rightarrow> IndexedEndpoint result" where
  "IndexedEndpoint_UnmarshalXML X decoded =
     bindE decoded (\<lambda>m.
     bindE (checkEndpointLocation X (iep_Binding m) (iep_Location m)) (\<lambda>location.
     bindE (case iep_ResponseLocation m of
              None \<Rightarrow> Inr None
            | Some l \<Rightarrow> bindE (checkEndpointLocation X (iep_Binding m) l) (\<lambda>l'. Inr (if l' \<noteq> [] then Some l' else None)))
       (\<lambda>response. Inr (m\<lparr>iep_Location := location, iep_ResponseLocation := response\<rparr>))))"

section \<open>Locations that are kept\<close>

text \<open>A location is empty, or an HTTP URL of a binding that is known to use one.\<close>

definition locationKept :: "externs \<Rightarrow> string \<Rightarrow> string \<Rightarrow> bool" where
  "locationKept X binding l \<longleftrightarrow>
     l = [] \<or> binding \<in> set webBindings \<and> (\<exists>u. x_ParseURL X l = Inr u \<and> u_Scheme u \<in> {''http'', ''https''})"

lemma checkEndpointLocation_kept:
  "checkEndpointLocation X binding l = Inr l' \<Longrightarrow> locationKept X binding l' \<and> (l' = l \<or> binding \<notin> set webBindings)"
  by (auto simp: checkEndpointLocation_def locationKept_def split: if_splits)

lemma Endpoint_UnmarshalXML_kept:
  assumes "Endpoint_UnmarshalXML X decoded = Inr m"
  shows "locationKept X (ep_Binding m) (ep_Location m)" and "locationKept X (ep_Binding m) (ep_ResponseLocation m)"
  using assms checkEndpointLocation_kept
  by (auto simp: Endpoint_UnmarshalXML_def locationKept_def split: if_splits) blast+

lemma IndexedEndpoint_UnmarshalXML_kept:
  assumes "IndexedEndpoint_UnmarshalXML X decoded = Inr m"
  shows "locationKept X (iep_Binding m) (iep_Location m)"
    and "iep_ResponseLocation m = Some l \<Longrightarrow> l \<noteq> [] \<and> locationKept X (iep_Binding m) l"
  using assms checkEndpointLocation_kept
  by (auto simp: IndexedEndpoint_UnmarshalXML_def split: if_splits option.splits)

text \<open>Reading again what was read changes nothing, so that stored metadata stays readable.\<close>

lemma Endpoint_UnmarshalXML_again:
  assumes "Endpoint_UnmarshalXML X decoded = Inr m"
    and "ep_Binding m \<in> set webBindings \<longrightarrow> ep_Location m \<noteq> []"
  shows "Endpoint_UnmarshalXML X (Inr m) = Inr m"
proof -
  note kept = Endpoint_UnmarshalXML_kept [OF assms(1)]
  have check: "checkEndpointLocation X (ep_Binding m) l = Inr l"
    if "locationKept X (ep_Binding m) l" "ep_Binding m \<in> set webBindings \<longrightarrow> l \<noteq> []" for l
    using that by (auto simp: checkEndpointLocation_def locationKept_def)
  show ?thesis
    using check [OF kept(1) assms(2)] check [OF kept(2)] by (auto simp: Endpoint_UnmarshalXML_def)
qed

end
