(* ===== verification/Schema_Wire.thy ===== *)
theory Schema_Wire
  imports Saml_Messages Metadata_Wire
begin

text \<open>
  The XML marshalling methods of \<^verbatim>\<open>schema.go\<close> and \<^verbatim>\<open>metadata.go\<close>. Each wraps its struct in one with
  attributes of its own for the times and durations, which shadow those of the struct: marshalling gives the
  attributes of the outer struct beside the struct itself, and unmarshalling sets the fields from the attributes after
  \<^verbatim>\<open>encoding/xml\<close> has decoded the rest. The library itself, and which of several errors it reports, is not
  modelled.
\<close>

section \<open>Attributes\<close>

type_synonym wire_attrs = "(string \<times> string) list"

text \<open>An attribute for a time, and for a pointer with \<^verbatim>\<open>omitempty\<close>, which is omitted when nil.\<close>

definition timeAttr :: "string \<Rightarrow> time \<Rightarrow> wire_attrs" where
  "timeAttr name t = [(name, RelaxedTime_String t)]"

definition timePtrAttr :: "string \<Rightarrow> time option \<Rightarrow> wire_attrs" where
  "timePtrAttr name t = (case t of None \<Rightarrow> [] | Some t \<Rightarrow> timeAttr name t)"

text \<open>An attribute that is absent leaves the zero value, or nil.\<close>

definition readTime :: "wire_attrs \<Rightarrow> string \<Rightarrow> time result" where
  "readTime as name = (case map_of as name of None \<Rightarrow> Inr 0 | Some s \<Rightarrow> RelaxedTime_UnmarshalText s)"

definition readTimePtr :: "wire_attrs \<Rightarrow> string \<Rightarrow> time option result" where
  "readTimePtr as name =
     (case map_of as name of None \<Rightarrow> Inr None | Some s \<Rightarrow> bindE (RelaxedTime_UnmarshalText s) (\<lambda>t. Inr (Some t)))"

text \<open>Durations: a zero is an empty value, which \<^verbatim>\<open>omitempty\<close> omits, but a pointer to a zero is not. The text of
  an attribute is never a nil slice.\<close>

definition durationAttr :: "string \<Rightarrow> duration \<Rightarrow> wire_attrs" where
  "durationAttr name d = (if d = 0 then [] else [(name, the_default [] (Duration_MarshalText d))])"

definition durationPtrAttr :: "string \<Rightarrow> duration option \<Rightarrow> wire_attrs" where
  "durationPtrAttr name d = (case d of None \<Rightarrow> [] | Some d \<Rightarrow> [(name, the_default [] (Duration_MarshalText d))])"

definition readDuration :: "(rat \<Rightarrow> int) \<Rightarrow> wire_attrs \<Rightarrow> string \<Rightarrow> duration result" where
  "readDuration big as name = (case map_of as name of None \<Rightarrow> Inr 0 | Some s \<Rightarrow> Duration_UnmarshalText big (Some s))"

definition readDurationPtr :: "(rat \<Rightarrow> int) \<Rightarrow> wire_attrs \<Rightarrow> string \<Rightarrow> duration option result" where
  "readDurationPtr big as name =
     (case map_of as name of None \<Rightarrow> Inr None | Some s \<Rightarrow> bindE (Duration_UnmarshalText big (Some s)) (\<lambda>d. Inr (Some d)))"

section \<open>Messages\<close>

definition LogoutRequest_Bytes :: "externs \<Rightarrow> LogoutRequest \<Rightarrow> string" where
  "LogoutRequest_Bytes X r = x_WriteToBytes X (LogoutRequest_Element r)"

definition LogoutRequest_Deflate :: "externs \<Rightarrow> LogoutRequest \<Rightarrow> string" where
  "LogoutRequest_Deflate X r = x_Deflate X (LogoutRequest_Bytes X r)"

text \<open>The second time of a logout request is a pointer without \<^verbatim>\<open>omitempty\<close>. When it is nil, \<^verbatim>\<open>encoding/xml\<close> is
  left with a nil pointer of a type that marshals its own text; \<open>nilText\<close> is what it makes of that.\<close>

definition LogoutRequest_MarshalXML :: "wire_attrs result \<Rightarrow> LogoutRequest \<Rightarrow> (wire_attrs \<times> LogoutRequest) result" where
  "LogoutRequest_MarshalXML nilText r =
     bindE (case lreq_NotOnOrAfter r of None \<Rightarrow> nilText | Some t \<Rightarrow> Inr (timeAttr ''NotOnOrAfter'' t)) (\<lambda>notOnOrAfter.
       Inr (timeAttr ''IssueInstant'' (lreq_IssueInstant r) @ notOnOrAfter, r))"

definition LogoutRequest_UnmarshalXML :: "wire_attrs \<Rightarrow> LogoutRequest \<Rightarrow> LogoutRequest result" where
  "LogoutRequest_UnmarshalXML as r =
     bindE (readTime as ''IssueInstant'') (\<lambda>issueInstant.
     bindE (readTimePtr as ''NotOnOrAfter'') (\<lambda>notOnOrAfter.
       Inr (r\<lparr>lreq_IssueInstant := issueInstant, lreq_NotOnOrAfter := notOnOrAfter\<rparr>)))"

definition AuthnRequest_MarshalXML :: "AuthnRequest \<Rightarrow> wire_attrs \<times> AuthnRequest" where
  "AuthnRequest_MarshalXML r = (timeAttr ''IssueInstant'' (areq_IssueInstant r), r)"

definition AuthnRequest_UnmarshalXML :: "wire_attrs \<Rightarrow> AuthnRequest \<Rightarrow> AuthnRequest result" where
  "AuthnRequest_UnmarshalXML as r = bindE (readTime as ''IssueInstant'') (\<lambda>t. Inr (r\<lparr>areq_IssueInstant := t\<rparr>))"

definition ArtifactResolve_MarshalXML :: "ArtifactResolve \<Rightarrow> wire_attrs \<times> ArtifactResolve" where
  "ArtifactResolve_MarshalXML r = (timeAttr ''IssueInstant'' (ares_IssueInstant r), r)"

definition ArtifactResolve_UnmarshalXML :: "wire_attrs \<Rightarrow> ArtifactResolve \<Rightarrow> ArtifactResolve result" where
  "ArtifactResolve_UnmarshalXML as r = bindE (readTime as ''IssueInstant'') (\<lambda>t. Inr (r\<lparr>ares_IssueInstant := t\<rparr>))"

definition ArtifactResponse_MarshalXML :: "ArtifactResponse \<Rightarrow> wire_attrs \<times> ArtifactResponse" where
  "ArtifactResponse_MarshalXML r = (timeAttr ''IssueInstant'' (arsp_IssueInstant r), r)"

definition ArtifactResponse_UnmarshalXML :: "wire_attrs \<Rightarrow> ArtifactResponse \<Rightarrow> ArtifactResponse result" where
  "ArtifactResponse_UnmarshalXML as r = bindE (readTime as ''IssueInstant'') (\<lambda>t. Inr (r\<lparr>arsp_IssueInstant := t\<rparr>))"

definition Response_MarshalXML :: "Response \<Rightarrow> wire_attrs \<times> Response" where
  "Response_MarshalXML r = (timeAttr ''IssueInstant'' (resp_IssueInstant r), r)"

definition Response_UnmarshalXML :: "wire_attrs \<Rightarrow> Response \<Rightarrow> Response result" where
  "Response_UnmarshalXML as r = bindE (readTime as ''IssueInstant'') (\<lambda>t. Inr (r\<lparr>resp_IssueInstant := t\<rparr>))"

definition LogoutResponse_MarshalXML :: "LogoutResponse \<Rightarrow> wire_attrs \<times> LogoutResponse" where
  "LogoutResponse_MarshalXML r = (timeAttr ''IssueInstant'' (lrsp_IssueInstant r), r)"

definition LogoutResponse_UnmarshalXML :: "wire_attrs \<Rightarrow> LogoutResponse \<Rightarrow> LogoutResponse result" where
  "LogoutResponse_UnmarshalXML as r = bindE (readTime as ''IssueInstant'') (\<lambda>t. Inr (r\<lparr>lrsp_IssueInstant := t\<rparr>))"

text \<open>An assertion has only the one that reads.\<close>

definition Assertion_UnmarshalXML :: "wire_attrs \<Rightarrow> Assertion \<Rightarrow> Assertion result" where
  "Assertion_UnmarshalXML as a = bindE (readTime as ''IssueInstant'') (\<lambda>t. Inr (a\<lparr>asr_IssueInstant := t\<rparr>))"

text \<open>Of the two times of a confirmation only the later one has an attribute of the outer struct.\<close>

definition SubjectConfirmationData_MarshalXML :: "SubjectConfirmationData \<Rightarrow> wire_attrs \<times> SubjectConfirmationData" where
  "SubjectConfirmationData_MarshalXML s = (timeAttr ''NotOnOrAfter'' (scd_NotOnOrAfter s), s)"

definition SubjectConfirmationData_UnmarshalXML ::
  "wire_attrs \<Rightarrow> SubjectConfirmationData \<Rightarrow> SubjectConfirmationData result" where
  "SubjectConfirmationData_UnmarshalXML as s = bindE (readTime as ''NotOnOrAfter'') (\<lambda>t. Inr (s\<lparr>scd_NotOnOrAfter := t\<rparr>))"

definition Conditions_MarshalXML :: "Conditions \<Rightarrow> wire_attrs \<times> Conditions" where
  "Conditions_MarshalXML c =
     (timeAttr ''NotBefore'' (cond_NotBefore c) @ timeAttr ''NotOnOrAfter'' (cond_NotOnOrAfter c), c)"

definition Conditions_UnmarshalXML :: "wire_attrs \<Rightarrow> Conditions \<Rightarrow> Conditions result" where
  "Conditions_UnmarshalXML as c =
     bindE (readTime as ''NotBefore'') (\<lambda>notBefore.
     bindE (readTime as ''NotOnOrAfter'') (\<lambda>notOnOrAfter.
       Inr (c\<lparr>cond_NotBefore := notBefore, cond_NotOnOrAfter := notOnOrAfter\<rparr>)))"

definition AuthnStatement_MarshalXML :: "AuthnStatement \<Rightarrow> wire_attrs \<times> AuthnStatement" where
  "AuthnStatement_MarshalXML a =
     (timeAttr ''AuthnInstant'' (as_AuthnInstant a) @ timePtrAttr ''SessionNotOnOrAfter'' (as_SessionNotOnOrAfter a), a)"

definition AuthnStatement_UnmarshalXML :: "wire_attrs \<Rightarrow> AuthnStatement \<Rightarrow> AuthnStatement result" where
  "AuthnStatement_UnmarshalXML as a =
     bindE (readTime as ''AuthnInstant'') (\<lambda>authnInstant.
     bindE (readTimePtr as ''SessionNotOnOrAfter'') (\<lambda>sessionNotOnOrAfter.
       Inr (a\<lparr>as_AuthnInstant := authnInstant, as_SessionNotOnOrAfter := sessionNotOnOrAfter\<rparr>)))"

section \<open>Metadata\<close>

text \<open>The time of an entity is a struct, which is never an empty value. Unmarshalling a group sets its fields only
  where the attributes are present.\<close>

definition EntityDescriptor_MarshalXML :: "EntityDescriptor \<Rightarrow> wire_attrs \<times> EntityDescriptor" where
  "EntityDescriptor_MarshalXML m =
     (timeAttr ''validUntil'' (ed_ValidUntil m) @ durationAttr ''cacheDuration'' (ed_CacheDuration m), m)"

definition EntityDescriptor_UnmarshalXML :: "(rat \<Rightarrow> int) \<Rightarrow> wire_attrs \<Rightarrow> EntityDescriptor \<Rightarrow> EntityDescriptor result" where
  "EntityDescriptor_UnmarshalXML big as m =
     bindE (readTime as ''validUntil'') (\<lambda>validUntil.
     bindE (readDuration big as ''cacheDuration'') (\<lambda>cacheDuration.
       Inr (m\<lparr>ed_ValidUntil := validUntil, ed_CacheDuration := cacheDuration\<rparr>)))"

definition EntitiesDescriptor_MarshalXML :: "EntitiesDescriptor \<Rightarrow> wire_attrs \<times> EntitiesDescriptor" where
  "EntitiesDescriptor_MarshalXML m =
     (timePtrAttr ''validUntil'' (eds_ValidUntil m) @ durationPtrAttr ''cacheDuration'' (eds_CacheDuration m), m)"

definition EntitiesDescriptor_UnmarshalXML ::
  "(rat \<Rightarrow> int) \<Rightarrow> wire_attrs \<Rightarrow> EntitiesDescriptor \<Rightarrow> EntitiesDescriptor result" where
  "EntitiesDescriptor_UnmarshalXML big as m =
     bindE (readTimePtr as ''validUntil'') (\<lambda>validUntil.
     bindE (readDurationPtr big as ''cacheDuration'') (\<lambda>cacheDuration.
       Inr (m\<lparr>eds_ValidUntil := (case validUntil of None \<Rightarrow> eds_ValidUntil m | Some t \<Rightarrow> Some t),
              eds_CacheDuration := (case cacheDuration of None \<Rightarrow> eds_CacheDuration m | Some d \<Rightarrow> Some d)\<rparr>)))"

section \<open>Reading what was written\<close>

text \<open>The contract of a pair of methods: what one writes the other reads, with the times rounded to milliseconds. So
  a message that was read once stays the same however often it is written and read again.\<close>

locale wire_form =
  fixes marshal :: "'a \<Rightarrow> wire_attrs \<times> 'a"
    and unmarshal :: "wire_attrs \<Rightarrow> 'a \<Rightarrow> 'a result"
    and rounded :: "'a \<Rightarrow> 'a"
    and printable :: "'a \<Rightarrow> bool"
  assumes read_back: "printable r \<Longrightarrow> case_prod unmarshal (marshal r) = Inr (rounded r)"
    and rounded_printable: "printable r \<Longrightarrow> printable (rounded r)"
    and rounded_idem: "rounded (rounded r) = rounded r"
begin

lemma stable: "printable r \<Longrightarrow> case_prod unmarshal (marshal r) = Inr r' \<Longrightarrow> case_prod unmarshal (marshal r') = Inr r'"
  using read_back [of r] read_back [of r'] rounded_printable [of r] by (auto simp: rounded_idem)

end

definition wireTime :: "time \<Rightarrow> bool" where
  "wireTime t \<longleftrightarrow> 0 \<le> roundMillisecond t \<and> roundMillisecond t < 315537897600 * nsSecond"

lemma roundMillisecond_idem [simp]: "roundMillisecond (roundMillisecond t) = roundMillisecond t"
  by (rule roundMillisecond_id [OF roundMillisecond_dvd])

lemma wireTime_round [simp]: "wireTime (roundMillisecond t) = wireTime t"
  by (simp add: wireTime_def)

lemma wireTime_read [simp]: "wireTime t \<Longrightarrow> RelaxedTime_UnmarshalText (RelaxedTime_String t) = Inr (roundMillisecond t)"
  by (simp add: wireTime_def RelaxedTime_round_trip)

lemmas wire_defs = timeAttr_def timePtrAttr_def readTime_def readTimePtr_def

interpretation AuthnRequest_wire: wire_form AuthnRequest_MarshalXML AuthnRequest_UnmarshalXML
    "\<lambda>r. r\<lparr>areq_IssueInstant := roundMillisecond (areq_IssueInstant r)\<rparr>" "\<lambda>r. wireTime (areq_IssueInstant r)"
  by unfold_locales (simp_all add: AuthnRequest_MarshalXML_def AuthnRequest_UnmarshalXML_def wire_defs)

interpretation ArtifactResolve_wire: wire_form ArtifactResolve_MarshalXML ArtifactResolve_UnmarshalXML
    "\<lambda>r. r\<lparr>ares_IssueInstant := roundMillisecond (ares_IssueInstant r)\<rparr>" "\<lambda>r. wireTime (ares_IssueInstant r)"
  by unfold_locales (simp_all add: ArtifactResolve_MarshalXML_def ArtifactResolve_UnmarshalXML_def wire_defs)

interpretation ArtifactResponse_wire: wire_form ArtifactResponse_MarshalXML ArtifactResponse_UnmarshalXML
    "\<lambda>r. r\<lparr>arsp_IssueInstant := roundMillisecond (arsp_IssueInstant r)\<rparr>" "\<lambda>r. wireTime (arsp_IssueInstant r)"
  by unfold_locales (simp_all add: ArtifactResponse_MarshalXML_def ArtifactResponse_UnmarshalXML_def wire_defs)

interpretation Response_wire: wire_form Response_MarshalXML Response_UnmarshalXML
    "\<lambda>r. r\<lparr>resp_IssueInstant := roundMillisecond (resp_IssueInstant r)\<rparr>" "\<lambda>r. wireTime (resp_IssueInstant r)"
  by unfold_locales (simp_all add: Response_MarshalXML_def Response_UnmarshalXML_def wire_defs)

interpretation LogoutResponse_wire: wire_form LogoutResponse_MarshalXML LogoutResponse_UnmarshalXML
    "\<lambda>r. r\<lparr>lrsp_IssueInstant := roundMillisecond (lrsp_IssueInstant r)\<rparr>" "\<lambda>r. wireTime (lrsp_IssueInstant r)"
  by unfold_locales (simp_all add: LogoutResponse_MarshalXML_def LogoutResponse_UnmarshalXML_def wire_defs)

interpretation SubjectConfirmationData_wire: wire_form SubjectConfirmationData_MarshalXML SubjectConfirmationData_UnmarshalXML
    "\<lambda>s. s\<lparr>scd_NotOnOrAfter := roundMillisecond (scd_NotOnOrAfter s)\<rparr>" "\<lambda>s. wireTime (scd_NotOnOrAfter s)"
  by unfold_locales (simp_all add: SubjectConfirmationData_MarshalXML_def SubjectConfirmationData_UnmarshalXML_def wire_defs)

interpretation Conditions_wire: wire_form Conditions_MarshalXML Conditions_UnmarshalXML
    "\<lambda>c. c\<lparr>cond_NotBefore := roundMillisecond (cond_NotBefore c), cond_NotOnOrAfter := roundMillisecond (cond_NotOnOrAfter c)\<rparr>"
    "\<lambda>c. wireTime (cond_NotBefore c) \<and> wireTime (cond_NotOnOrAfter c)"
  by unfold_locales (simp_all add: Conditions_MarshalXML_def Conditions_UnmarshalXML_def wire_defs)

lemma LogoutRequest_read_back:
  assumes "wireTime (lreq_IssueInstant r)" "lreq_NotOnOrAfter r = Some t" "wireTime t"
  shows "bindE (LogoutRequest_MarshalXML nilText r) (case_prod LogoutRequest_UnmarshalXML) =
    Inr (r\<lparr>lreq_IssueInstant := roundMillisecond (lreq_IssueInstant r), lreq_NotOnOrAfter := Some (roundMillisecond t)\<rparr>)"
  using assms by (simp add: LogoutRequest_MarshalXML_def LogoutRequest_UnmarshalXML_def wire_defs)

interpretation AuthnStatement_wire: wire_form AuthnStatement_MarshalXML AuthnStatement_UnmarshalXML
    "\<lambda>a. a\<lparr>as_AuthnInstant := roundMillisecond (as_AuthnInstant a), as_SessionNotOnOrAfter := map_option roundMillisecond (as_SessionNotOnOrAfter a)\<rparr>"
    "\<lambda>a. wireTime (as_AuthnInstant a) \<and> pred_option wireTime (as_SessionNotOnOrAfter a)"
  by unfold_locales
    (auto simp: AuthnStatement_MarshalXML_def AuthnStatement_UnmarshalXML_def wire_defs option.map_comp comp_def pred_option_def
      split: option.splits)

text \<open>Metadata: durations of whole seconds are kept.\<close>

lemma readDuration_text:
  assumes "int64 d" "d \<noteq> - (2 ^ 63)" "nsSecond dvd d" "d \<noteq> 0"
  shows "Duration_UnmarshalText big (Some (the_default [] (Duration_MarshalText d))) = Inr d"
proof -
  obtain s where s: "Duration_MarshalText d = Some s" using assms(4) by (auto simp: Duration_MarshalText_def Let_def)
  with whole_seconds_read_back [OF assms(1,2,3), of big] show ?thesis by simp
qed

interpretation EntityDescriptor_wire: wire_form EntityDescriptor_MarshalXML "EntityDescriptor_UnmarshalXML big"
    "\<lambda>m. m\<lparr>ed_ValidUntil := roundMillisecond (ed_ValidUntil m)\<rparr>"
    "\<lambda>m. wireTime (ed_ValidUntil m) \<and> int64 (ed_CacheDuration m) \<and> ed_CacheDuration m \<noteq> - (2 ^ 63) \<and> nsSecond dvd ed_CacheDuration m"
  by unfold_locales
    (auto simp: EntityDescriptor_MarshalXML_def EntityDescriptor_UnmarshalXML_def wire_defs durationAttr_def readDuration_def readDuration_text)

text \<open>A pointer to a zero duration is written as an empty attribute, which is not read back: a group with it is
  lost as a whole.\<close>

lemma zero_cache_duration_refused:
  assumes "eds_CacheDuration m = Some 0"
  shows "\<exists>e. case_prod (EntitiesDescriptor_UnmarshalXML big) (EntitiesDescriptor_MarshalXML m) = Inl e"
proof -
  have "Duration_MarshalText 0 = None" by (simp add: Duration_MarshalText_def)
  moreover have "Duration_UnmarshalText big (Some []) = Inl (Errorf ''invalid duration (%s)'' [[]])"
    by (simp add: Duration_UnmarshalText_def matchDuration_def)
  ultimately show ?thesis using assms
    by (auto simp: EntitiesDescriptor_UnmarshalXML_def EntitiesDescriptor_MarshalXML_def wire_defs durationPtrAttr_def
        readDurationPtr_def bindE_def split: option.splits sum.splits)
qed

end
