(* ===== verification/Dsig_Search.thy ===== *)
theory Dsig_Search
  imports Dsig_Tree
begin

text \<open>
  The functions of \<^verbatim>\<open>internal/dsig/etreeutils/namespace.go\<close> that search for one element, and the prefix map of a
  context. A function that the code gives the default context starts with its prefixes and its limit.
\<close>

section \<open>Functions\<close>

definition Prefixes :: "nscontext \<Rightarrow> string \<Rightarrow> string option" where
  "Prefixes ctx = map_of (ns_prefixes ctx)"

text \<open>The outcome of a search, with the limit that it leaves.\<close>

fun searched :: "('r, element) walk \<Rightarrow> ('r option \<times> nat) result" where
  "searched (WErr e) = Inl e"
| "searched (WHalt r path limit el) = Inr (Some r, limit)"
| "searched (WDone limit el) = Inr (None, limit)"

definition NSSelectOneCtx :: "nscontext \<Rightarrow> nat \<Rightarrow> element \<Rightarrow> string \<Rightarrow> string \<Rightarrow> (element option \<times> nat) result" where
  "NSSelectOneCtx ctx limit el namespace tag =
     searched (NSFindIterateCtx ctx limit el namespace tag (\<lambda>ctx limit el.
       case NSDetatch ctx limit el of
         Inl e \<Rightarrow> VErr e
       | Inr (limit, found) \<Rightarrow> VHalt found limit el))"

definition NSSelectOne :: "element \<Rightarrow> string \<Rightarrow> string \<Rightarrow> (element option \<times> nat) result" where
  "NSSelectOne el namespace tag = NSSelectOneCtx NewDefaultNSContext defaultLimit el namespace tag"

definition NSFindOneCtx :: "nscontext \<Rightarrow> nat \<Rightarrow> element \<Rightarrow> string \<Rightarrow> string \<Rightarrow> (element option \<times> nat) result" where
  "NSFindOneCtx ctx limit el namespace tag =
     searched (NSFindIterateCtx ctx limit el namespace tag (\<lambda>ctx limit el. VHalt el limit el))"

definition NSFindOne :: "element \<Rightarrow> string \<Rightarrow> string \<Rightarrow> (element option \<times> nat) result" where
  "NSFindOne el namespace tag = NSFindOneCtx NewDefaultNSContext defaultLimit el namespace tag"

definition NSFindOneChild :: "element \<Rightarrow> string \<Rightarrow> string \<Rightarrow> (element option \<times> nat) result" where
  "NSFindOneChild el namespace tag = NSFindOneChildCtx NewDefaultNSContext defaultLimit el namespace tag"

section \<open>What a search finds\<close>

text \<open>A handler that only reads leaves the tree as it is. When it halts, it does so at an element of the tree; when it
  never halts, it has visited every element of the tree.\<close>

definition readsOnly :: "(nscontext \<Rightarrow> nat \<Rightarrow> element \<Rightarrow> 'r visit) \<Rightarrow> bool" where
  "readsOnly handle \<longleftrightarrow> (\<forall>ctx limit el. case handle ctx limit el of VErr e \<Rightarrow> True | VHalt r l el' \<Rightarrow> el' = el | VNext l el' \<Rightarrow> el' = el)"

lemma readsOnlyD:
  assumes "readsOnly handle"
  shows "handle ctx limit el = VHalt r l el' \<Longrightarrow> el' = el" "handle ctx limit el = VNext l el' \<Longrightarrow> el' = el"
  using assms [unfolded readsOnly_def, THEN spec [of _ ctx], THEN spec [of _ limit], THEN spec [of _ el]] by simp_all

definition halted :: "(nscontext \<Rightarrow> nat \<Rightarrow> element \<Rightarrow> 'r visit) \<Rightarrow> element \<Rightarrow> 'r \<Rightarrow> bool" where
  "halted handle c r \<longleftrightarrow> (\<exists>ctx limit l. handle ctx limit c = VHalt r l c)"

definition passed :: "(nscontext \<Rightarrow> nat \<Rightarrow> element \<Rightarrow> 'r visit) \<Rightarrow> element \<Rightarrow> bool" where
  "passed handle c \<longleftrightarrow> (\<exists>ctx limit l. handle ctx limit c = VNext l c)"

lemma setChild_same [simp]: "setChild el (el_Child el) = el"
  by (cases el) (simp add: setChild_def)

lemma subtree_cases: "subtree c el \<longleftrightarrow> c = el \<or> (\<exists>d. Elem d \<in> set (el_Child el) \<and> subtree c d)"
  by (auto simp: child_elements_iff intro: subtree.intros elim: subtree.cases)

lemma reading_traversal:
  "readsOnly handle \<Longrightarrow>
    (case NSTraverse handle ctx limit el of
       WErr e \<Rightarrow> True
     | WHalt r path l el' \<Rightarrow> el' = el \<and> (\<exists>c. subtree c el \<and> halted handle c r)
     | WDone l el' \<Rightarrow> el' = el \<and> (\<forall>c. subtree c el \<longrightarrow> passed handle c))"
  "readsOnly handle \<Longrightarrow>
    (case NSTraverseChildren handle ctx limit i ts of
       WErr e \<Rightarrow> True
     | WHalt r path l ts' \<Rightarrow> ts' = ts \<and> (\<exists>d c. Elem d \<in> set ts \<and> subtree c d \<and> halted handle c r)
     | WDone l ts' \<Rightarrow> ts' = ts \<and> (\<forall>d c. Elem d \<in> set ts \<and> subtree c d \<longrightarrow> passed handle c))"
proof (induction handle ctx limit el and handle ctx limit i ts rule: NSTraverse_NSTraverseChildren.induct)
  case (1 handle ctx limit el)
  show ?case
  proof (cases "NSTraverse handle ctx limit el")
    case (WHalt r path l el')
    then obtain limit1 ctx1 where s: "CheckLimit limit = Inr limit1" "SubContext ctx el = Inr ctx1"
      by (auto simp: NSTraverse.simps [of handle ctx] split: sum.splits)
    show ?thesis
    proof (cases "handle ctx1 limit1 el")
      case (VHalt r2 l2 el2)
      with WHalt s show ?thesis using readsOnlyD(1) [OF "1.prems" VHalt] by (auto simp: NSTraverse.simps [of handle ctx] halted_def intro: subtree_refl)
    next
      case (VNext l2 el2)
      with WHalt s "1.IH" [OF s VNext "1.prems"] show ?thesis using readsOnlyD(2) [OF "1.prems" VNext]
        by (auto simp: NSTraverse.simps [of handle ctx] subtree_cases [of _ el] split: walk.splits)
    qed (use WHalt s in \<open>simp add: NSTraverse.simps [of handle ctx]\<close>)
  next
    case (WDone l el')
    then obtain limit1 ctx1 where s: "CheckLimit limit = Inr limit1" "SubContext ctx el = Inr ctx1"
      by (auto simp: NSTraverse.simps [of handle ctx] split: sum.splits)
    then obtain l2 where VNext: "handle ctx1 limit1 el = VNext l2 el"
      using WDone readsOnlyD(2) [OF "1.prems"] by (auto simp: NSTraverse.simps [of handle ctx] split: visit.splits)
    with WDone s "1.IH" [OF s VNext "1.prems"] show ?thesis
      by (auto simp: NSTraverse.simps [of handle ctx] subtree_cases [of _ el] passed_def split: walk.splits)
  qed simp
next
  case (3 handle ctx limit i c ts)
  then show ?case by (fastforce split: walk.splits)
qed (auto split: walk.splits)

lemma reading_search:
  assumes "readsOnly handle"
  shows "searched (NSTraverse handle ctx limit el) = Inr (Some r, l) \<Longrightarrow> \<exists>c. subtree c el \<and> halted handle c r"
    "searched (NSTraverse handle ctx limit el) = Inr (None, l) \<Longrightarrow> subtree c el \<Longrightarrow> passed handle c"
  using reading_traversal(1) [OF assms, where ctx = ctx and limit = limit and el = el]
  by (cases "NSTraverse handle ctx limit el"; auto)+

text \<open>The handler of a search for a name, which acts on the elements of that name.\<close>

definition onMatch :: "string \<Rightarrow> string \<Rightarrow> (nscontext \<Rightarrow> nat \<Rightarrow> element \<Rightarrow> 'r visit) \<Rightarrow> nscontext \<Rightarrow> nat \<Rightarrow> element \<Rightarrow> 'r visit" where
  "onMatch namespace tag handle ctx limit el =
     (case nsMatches ctx el namespace tag of
        Inl e \<Rightarrow> VErr e
      | Inr found \<Rightarrow> if found then handle ctx limit el else VNext limit el)"

lemma NSFindIterateCtx_onMatch:
  "NSFindIterateCtx ctx limit el namespace tag handle = NSTraverse (onMatch namespace tag handle) ctx limit el"
  by (simp add: NSFindIterateCtx_def onMatch_def [abs_def])

lemma readsOnly_onMatch:
  "readsOnly handle \<Longrightarrow> readsOnly (onMatch namespace tag handle)"
  by (auto simp: readsOnly_def onMatch_def split: sum.splits)

lemma onMatch_cases:
  "onMatch namespace tag handle ctx limit el = VHalt r l c \<Longrightarrow>
     nsMatches ctx el namespace tag = Inr True \<and> handle ctx limit el = VHalt r l c"
  "(\<And>l. handle ctx limit el \<noteq> VNext l c) \<Longrightarrow> onMatch namespace tag handle ctx limit el = VNext l c \<Longrightarrow>
     nsMatches ctx el namespace tag = Inr False"
  by (auto simp: onMatch_def split: sum.splits if_splits)

lemma readsOnly_found: "readsOnly (\<lambda>ctx limit el. VHalt el limit el)"
  by (simp add: readsOnly_def)

lemma readsOnly_detached:
  "readsOnly (\<lambda>ctx limit el. case NSDetatch ctx limit el of Inl e \<Rightarrow> VErr e | Inr (limit, found) \<Rightarrow> VHalt found limit el)"
  by (simp add: readsOnly_def split: sum.split)

lemmas search_rules = reading_search [OF readsOnly_onMatch [OF readsOnly_found]] reading_search [OF readsOnly_onMatch [OF readsOnly_detached]]

lemma NSFindOneCtx_found:
  assumes "NSFindOneCtx ctx limit el namespace tag = Inr (Some c, l)"
  shows "subtree c el \<and> (\<exists>ctx'. nsMatches ctx' c namespace tag = Inr True)"
  using search_rules(1) [OF assms [unfolded NSFindOneCtx_def NSFindIterateCtx_onMatch]]
  by (auto simp: halted_def dest!: onMatch_cases(1))

lemma NSFindOneCtx_none:
  assumes "NSFindOneCtx ctx limit el namespace tag = Inr (None, l)" "subtree c el"
  shows "\<exists>ctx'. nsMatches ctx' c namespace tag = Inr False"
  using search_rules(2) [OF assms(1) [unfolded NSFindOneCtx_def NSFindIterateCtx_onMatch] assms(2)]
  by (auto simp: passed_def dest!: onMatch_cases(2) [rotated])

text \<open>What is selected is an element of the tree with that name, detached: with the declarations that are in scope.\<close>

lemma NSSelectOneCtx_found:
  assumes "NSSelectOneCtx ctx limit el namespace tag = Inr (Some d, l)"
  shows "\<exists>c ctx' limit' l'. subtree c el \<and> nsMatches ctx' c namespace tag = Inr True \<and> NSDetatch ctx' limit' c = Inr (l', d)"
  using search_rules(3) [OF assms [unfolded NSSelectOneCtx_def NSFindIterateCtx_onMatch]]
  by (fastforce simp: halted_def dest!: onMatch_cases(1) split: sum.splits)

end
