(* ===== verification/Spec2Isabelle.thy ===== *)
theory Spec2Isabelle
  imports Idp_Logout Server_Login Sp_Middleware Schema_Wire Dsig_Search
begin

text \<open>
  A verification development of the SAML 2.0 library \<^verbatim>\<open>authelia/saml-provider\<close>, a Go package with a service
  provider and an identity provider over XML signatures, XML encryption and the HTTP bindings, and of the two packages
  that put sessions, cookies and storage around them.

  \<^bold>\<open>The program.\<close> A service provider (\<^verbatim>\<open>service_provider.go\<close>) makes AuthnRequests, LogoutRequests and
  ArtifactResolves and accepts Responses, LogoutResponses and ArtifactResponses. An identity provider
  (\<^verbatim>\<open>identity_provider.go\<close>, \<^verbatim>\<open>identity_provider_signature.go\<close>, \<^verbatim>\<open>identity_provider_logout.go\<close>) validates
  requests, makes assertions for sessions, and signs, encrypts and sends responses. Both know the other's metadata
  (\<^verbatim>\<open>metadata.go\<close>) and exchange the messages of \<^verbatim>\<open>schema.go\<close> by forms and redirects. Signatures are made and
  validated by \<^verbatim>\<open>internal/dsig\<close> on trees and namespace contexts of \<^verbatim>\<open>internal/dsig/etreeutils\<close>; assertions are
  encrypted by \<^verbatim>\<open>xmlenc\<close>. \<^verbatim>\<open>samlsp\<close> is middleware for an application that is a service provider: it tracks
  requests and keeps sessions in signed cookies. \<^verbatim>\<open>samlidp\<close> is an identity provider server: it keeps users,
  sessions, services and shortcuts in a store and authenticates users by password.

  \<^bold>\<open>The theories.\<close>
  \<^item> \<open>Saml_Prelude\<close>: errors and fallible results (\<open>'a result\<close>; a panic is an error that no call handles), strings,
    times as integers of nanoseconds, the simplification rules that all theories use.
  \<^item> \<open>Go_Encoding\<close>, \<open>Go_Utf8\<close>, \<open>Go_Numbers\<close>, \<open>Go_Float\<close>: what the sources use of the standard library:
    \<^verbatim>\<open>url.QueryEscape\<close>, \<^verbatim>\<open>url.ParseQuery\<close>, base64, URLs, the UTF-8 of JSON strings, decimal numbers, 64-bit
    arithmetic and the rounding of \<^verbatim>\<open>float64\<close>. The locales \<open>text_codec\<close>, \<open>safe_codec\<close> and \<open>codec_pair\<close> state
    what a client of an encoding relies on; they are interpreted on the codecs.
  \<^item> \<open>Time_Text\<close>, \<open>Duration_Text\<close>: \<^verbatim>\<open>time.go\<close> and \<^verbatim>\<open>duration.go\<close>, the text forms of times and durations, with
    the calendar of \<^verbatim>\<open>time.Time\<close>.
  \<^item> \<open>Externals\<close>: the record \<open>externs\<close> of what the code calls outside the repository (hashes, keys, XML reading and
    writing, DEFLATE, certificates). It is an argument of every definition that uses it.
  \<^item> \<open>Xml_Tree\<close>, \<open>Dsig_Tree\<close>, \<open>Dsig_Search\<close>, \<open>Dsig_Canon\<close>, \<open>Xml_Access\<close>: elements, namespace contexts and
    traversal limits, searches, canonicalization, and the access functions of the service provider. An element that the
    code reaches through its parent pointers is a \<open>node\<close>, the element with its ancestors.
  \<^item> \<open>Schema_Types\<close>, \<open>Saml_Messages\<close>, \<open>Schema_Wire\<close>, \<open>Metadata_Wire\<close>: the structs of the messages and metadata as
    records, their \<^verbatim>\<open>Element\<close> methods, the attributes for times and durations of their XML methods, and the checks
    of endpoints. The locale \<open>wire_form\<close> has what one of a pair of XML methods promises the other; it is interpreted on
    the pairs.
  \<^item> \<open>Dsig_Keys\<close>, \<open>Dsig_Sign\<close>, \<open>Dsig_Validate\<close>: signing contexts, enveloped signatures, and their validation.
  \<^item> \<open>Message_Signing\<close>: canonicalization succeeds exactly on closed trees and keeps their meaning; what the library
    builds it can canonicalize and sign.
  \<^item> \<open>Xml_Enc\<close>: block ciphers, RSA key transport, decryption and its registry. The locale \<open>content_cipher\<close> has the
    round trip of a cipher; it is interpreted on the CBC and GCM modes.
  \<^item> \<open>Redirect_Binding\<close>, \<open>Http_Model\<close>, \<open>Http_Redirect\<close>: the HTTP-Redirect binding with its query signatures, what the
    handlers read from a request and write to a response, and the location that \<^verbatim>\<open>http.Redirect\<close> sends for a URL.
  \<^item> \<open>Sp_Config\<close>, \<open>Sp_Validation\<close>, \<open>Sp_Logout\<close>: the service provider: configuration, metadata and messages; the
    validation of responses and assertions; logout responses and artifacts.
  \<^item> \<open>Idp_Types\<close>, \<open>Idp_Request\<close>, \<open>Idp_Assertion\<close>, \<open>Idp_Response\<close>, \<open>Idp_Sso\<close>, \<open>Idp_Logout\<close>: the identity
    provider: its types and metadata; reading and validating a request; constraints and the default assertion; signed
    and encrypted responses and the handlers; the properties of single sign-on; single logout.
  \<^item> \<open>Sp_Tokens\<close>, \<open>Sp_Middleware\<close>: \<^verbatim>\<open>samlsp\<close>: tracked requests and sessions as tokens in cookies; the handlers,
    the configuration and the fetching of metadata. The locale \<open>expiring_tokens\<close> is the contract of a codec,
    \<open>request_tracking\<close> and \<open>cookie_sessions\<close> are its clients; the sublocales \<open>jwt_tracking\<close> and \<open>jwt_sessions\<close>
    give the contract for the codecs of the package over any token library that meets \<open>jwtLaws\<close>.
  \<^item> \<open>Idp_Store\<close>, \<open>Server_Types\<close>, \<open>Server_Sessions\<close>, \<open>Server_Services\<close>, \<open>Server_Example\<close>, \<open>Server_Registry\<close>,
    \<open>Server_Login\<close>: \<^verbatim>\<open>samlidp\<close>: the store with the locales \<open>key_value_store\<close> and \<open>reliable_store\<close>, interpreted on
    the memory store; stored values and the state of the server; sessions and users; services, shortcuts and the
    construction of a server; an example; the consistency of the registry and the users; sessions under concurrent
    requests.
  \<^item> This theory: the two providers together.

  \<^bold>\<open>State and effects.\<close> A struct is a record with a short prefix for its fields, an operation that mutates a struct
  returns it updated, and an operation that may fail returns a \<open>result\<close>. The clock and the random bytes that an
  operation reads are arguments. A handler returns the list of what it writes to the HTTP response. An interface that is
  configured (session provider, service provider lookup, enforcers, store, codecs) is a record of functions or a
  function in the provider's record. A handler of the server is a function on its state; the mutexes of the code make
  the changes of users and of services single steps. For sessions, whose handlers run between each other's calls of the
  store, \<open>store_step\<close> is one call, and the invariant holds for every interleaving; \<open>handlers_are_store_steps\<close> ties the
  handlers to it. JSON, JSON Web Tokens, bcrypt and case folding are records of functions; what the properties rely on
  is named (\<open>jsonLaws\<close>, \<open>jwtLaws\<close>), and an example shows that it can hold. So are the hypotheses on cryptography:
  \<open>canSign\<close> and \<open>idpCanSign\<close> (the key signs the digests of its hash), \<open>lawfulBlocks\<close>, \<open>lawfulGCM\<close> and \<open>decryptionPair\<close>
  (decryption inverts encryption, within the sizes that the algorithms accept).

  \<^bold>\<open>What is shown.\<close> Acceptance: an assertion, a logout response, an authentication request or a logout request is only
  accepted if every condition on it holds and it is read from content that a trusted certificate signs; what the
  validation of a signature returns is what the canonical bytes of the verified digest were read back from. Sending:
  responses go only to endpoints of the metadata and carry assertions only for sessions that meet the request, and
  a refusal names the constraint that is not met; encryption is not downgraded; passive requests do not authenticate;
  valid requests are answered, logout requests with the status of the outcome. Canonicalization: it keeps the meaning of
  a tree and fails exactly where a prefix is not declared. Removing unused declarations leaves exactly those needed, in
  every element. Encodings and encryption: round trips,
  bounds on what is read, the default registry never uses PKCS 1 v1.5; times read back to the millisecond, durations
  exactly when they are whole seconds. Middleware: a session is only made for an acceptable, signed assertion, and the
  redirect that follows goes to the default URI, to the scheme and host of the service provider, or to a path, except
  that cleaning a path can put a backslash after its first slash (\<open>cleaned_redirect_refused_form\<close>); sessions
  and tracked requests last as long as they should and are never taken for each other. Server: users and services stay
  consistent in every reachable state; a session is only used while its user is unchanged, under any interleaving.
  Composition: requests, assertions and logout responses of the one provider fit the other.

  \<^bold>\<open>Bounds and termination.\<close> All functions are total. Recursion over trees ends by the size of the tree; traversals
  with a handler also by the traversal limit of the code; reading compressed data by the 10 MiB limit of the code. There
  is no fuel.

  \<^bold>\<open>Not modelled.\<close> The logger and the text of the HTML forms, which carry no logic; \<^verbatim>\<open>encoding/xml\<close>, so the
  fields of structs other than times, durations and endpoints, for which readers of XML are external functions; groups
  of entities within a group; the matching of paths by \<^verbatim>\<open>http.ServeMux\<close>, which gives a handler its path values; the
  example programs and the test helpers; \<^verbatim>\<open>saml.go\<close>, which holds the documentation of the package. The conversion of
  a float that does not fit into an integer, which Go leaves to the implementation, is an argument.
\<close>

section \<open>Two providers that know each other's metadata\<close>

text \<open>The service provider is configured with the identity provider's metadata.\<close>

definition trusts :: "ServiceProvider \<Rightarrow> IdentityProvider \<Rightarrow> bool" where
  "trusts sp idp \<longleftrightarrow> (\<exists>t md. Idp_Metadata idp t = Inr md \<and> sp_IDPMetadata sp = Some md)"

lemma trusts_metadata:
  assumes "trusts sp idp"
  obtains md d where "sp_IDPMetadata sp = Some md" "ed_EntityID md = urlString (idp_MetadataURL idp)"
    "ed_IDPSSODescriptors md = [d]" "idps_SingleSignOnServices d = idpEndpoints (idp_SSOURL idp)"
  using assms by (auto simp: trusts_def Idp_Metadata_def Let_def)

text \<open>The one role in the metadata of a service provider.\<close>

definition spRole :: "ServiceProvider \<Rightarrow> time \<Rightarrow> SPSSODescriptor" where
  "spRole sp t = hd (ed_SPSSODescriptors (Metadata sp t))"

lemma spRole:
  "ed_SPSSODescriptors (Metadata sp t) = [spRole sp t]" "ed_EntityID (Metadata sp t) = spEntityID sp"
  "sps_AssertionConsumerServices (spRole sp t) =
     [\<lparr>iep_Binding = HTTPPostBinding, iep_Location = urlString (sp_AcsURL sp), iep_ResponseLocation = None,
        iep_Index = 1, iep_IsDefault = None\<rparr>,
      \<lparr>iep_Binding = HTTPArtifactBinding, iep_Location = urlString (sp_AcsURL sp), iep_ResponseLocation = None,
        iep_Index = 2, iep_IsDefault = None\<rparr>]"
  "rd_KeyDescriptors (spRole sp t) = spKeyDescriptors sp"
  by (simp_all add: spRole_def Metadata_def Let_def)

lemma spRole_endpoints:
  "e \<in> set (sps_AssertionConsumerServices (spRole sp t)) \<Longrightarrow> iep_Location e = urlString (sp_AcsURL sp)"
  "e' \<in> set (sso_SingleLogoutServices (spRole sp t)) \<Longrightarrow> responseLocation e' = urlString (sp_SloURL sp)"
  by (auto simp: spRole_def Metadata_def Let_def responseLocation_def)

lemma length_hexLower: "length (hexLower s) = 2 * length s"
  by (induction s) (simp_all add: hexLower_def)

lemma randomID_valid: "length rnd \<le> 126 \<Longrightarrow> isValidAuthnRequestID (randomID rnd)"
  using hexLower_alnum [of _ rnd]
  by (auto simp: randomID_def isValidAuthnRequestID_def maxAuthnRequestIDLength_def length_hexLower list_all_iff isAlnum_def byte_def)

text \<open>
  C25. What a service provider asks, an identity provider accepts. If a service provider makes a request for the
  single sign-on endpoint that it finds in the identity provider's metadata, and the identity provider knows the
  metadata that the service provider publishes, then the request passes the identity provider's checks while it is not
  older than the maximum age, and the endpoint selected for the response is the service provider's assertion consumer
  service.
\<close>

theorem request_fits_identity_provider:
  assumes "trusts sp idp" "binding \<in> {HTTPRedirectBinding, HTTPPostBinding}"
    "GetSSOBindingLocation sp binding = Inr location"
    "MakeAuthenticationRequest X idRnd rnd made sp location binding HTTPPostBinding = Inr r"
    "iar_Request req = r" "iar_ServiceProviderMetadata req = Some (Metadata sp published)"
    "spEntityID sp \<noteq> []" "urlString (sp_AcsURL sp) \<noteq> []" "length idRnd = 20"
    "made \<le> iar_Now req + MaxClockSkew"
    "iar_Now req \<le> made + (if idp_MaxAuthnRequestAge idp = 0 then MaxIssueDelay else idp_MaxAuthnRequestAge idp)"
  shows "checkRequest idp req = Inr () \<and>
    (\<exists>d e. getACSEndpoint req = Inr (req\<lparr>iar_SPSSODescriptor := Some d, iar_ACSEndpoint := Some e\<rparr>) \<and>
       iep_Location e = urlString (sp_AcsURL sp))"
proof -
  obtain md d where md: "sp_IDPMetadata sp = Some md" "ed_IDPSSODescriptors md = [d]"
      "idps_SingleSignOnServices d = idpEndpoints (idp_SSOURL idp)" using trusts_metadata [OF assms(1)] .
  then have loc: "location = urlString (idp_SSOURL idp)"
    using assms(2,3) by (auto simp: GetSSOBindingLocation_def endpointLocation_def idpEndpoints_def)
  have r: "areq_Destination r = location" "areq_IssueInstant r = made" "areq_Version r = ''2.0''" "areq_ID r = randomID idRnd"
    "areq_Issuer r = Some (entityIssuer (spEntityID sp))" "areq_ACSURL r = urlString (sp_AcsURL sp)" "areq_ACSIndex r = []"
    using assms(4) by (auto simp: MakeAuthenticationRequest_def zeroAuthnRequest_def SignAuthnRequest_def Let_def split: if_splits)
  have "checkRequest idp req = Inr ()"
    using assms(5,7,9-11) r loc randomID_valid [of idRnd] by (simp add: checkRequest_def Let_def entityIssuer_def)
  moreover have "getACSEndpoint req = Inr (req\<lparr>iar_SPSSODescriptor := Some (spRole sp published),
      iar_ACSEndpoint := Some (hd (sps_AssertionConsumerServices (spRole sp published)))\<rparr>)"
    using assms(5,6,8) r by (simp add: spRole getACSEndpoint_def nonNil_def acsPairs_def selectEndpoint_def)
  moreover have "iep_Location (hd (sps_AssertionConsumerServices (spRole sp published))) = urlString (sp_AcsURL sp)"
    by (simp add: spRole)
  ultimately show ?thesis by blast
qed


text \<open>
  C26. What an identity provider asserts, the service provider accepts. An assertion made for a request by the default
  assertion maker, for an endpoint of the metadata that the service provider publishes, is accepted by that service
  provider's validation if the service provider is configured with the identity provider's metadata, has made the
  request, and validates the assertion within the maximum delay of the request's arrival; its clock may lag behind
  that of the identity provider by twice the allowed skew.
\<close>

theorem assertion_fits_service_provider:
  assumes "trusts sp idp" "iar_ServiceProviderMetadata req = Some (Metadata sp published)"
    "endpointSelected (Metadata sp published) req" "MakeAssertion X env idp req session = Inr req'"
    "iar_Assertion req' = Some a" "areq_ID (iar_Request req) \<in> set ids" "sp_ValidateAudienceRestriction sp = None"
    "iar_Now req \<le> env_AssertionNow env" "now \<le> iar_Now req + MaxIssueDelay" "iar_Now req \<le> now + 2 * MaxClockSkew"
  shows "validateAssertion sp a ids now = Inr ()"
proof -
  obtain idpMd where md: "sp_IDPMetadata sp = Some idpMd" "ed_EntityID idpMd = urlString (idp_MetadataURL idp)"
    using trusts_metadata [OF assms(1)] by metis
  from assms(3) obtain e where e: "iar_ACSEndpoint req = Some e" "iep_Location e = urlString (sp_AcsURL sp)"
    using spRole_endpoints(1) [of _ sp published] by (auto simp: endpointSelected_def spRole)
  obtain addr ats where a: "a = defaultAssertion (urlString (idp_MetadataURL idp)) (spEntityID sp)
      (randomID (env_AssertionID env)) (areq_ID (iar_Request req)) (urlString (sp_AcsURL sp)) addr (iar_Now req)
      (env_AssertionNow env) ats session"
    using assms(2,4,5) e by (auto simp: spRole MakeAssertion_def Idp_Metadata_def Let_def split: if_splits)
  have "MaxClockSkew \<ge> 0" by (simp add: MaxClockSkew_def ns_defs)
  then have "acceptable sp ids now a"
    using md assms(6-10)
    by (simp add: acceptable_def a defaultAssertion_def confirmedBy_def audienceAccepted_def entityIssuer_def)
  then show ?thesis by (simp add: validateAssertion_Inr)
qed

text \<open>
  C27. What an identity provider answers to a logout request, the service provider accepts. The response to a logout
  request with the status Success, for an endpoint of the metadata that the service provider publishes, is accepted by
  the service provider's validation within the maximum delay.
\<close>

theorem logout_response_fits_service_provider:
  assumes "trusts sp idp" "logoutEndpointChosen (Metadata sp published) req"
    "Logout_MakeResponse env idp req status = Inr response" "sc_Value (st_StatusCode status) = StatusSuccess"
    "lreq_ID (ilr_Request req) \<in> set ids" "lreq_ID (ilr_Request req) \<noteq> []" "now \<le> ilr_Now req + MaxIssueDelay"
  shows "validateLogoutResponse sp response ids now = Inr ()"
proof -
  obtain idpMd where md: "sp_IDPMetadata sp = Some idpMd" "ed_EntityID idpMd = urlString (idp_MetadataURL idp)"
    using trusts_metadata [OF assms(1)] by metis
  from assms(2) obtain e where "ilr_SLOEndpoint req = Some e" "responseLocation e = urlString (sp_SloURL sp)"
    using spRole_endpoints(2) [of _ sp published] by (auto simp: logoutEndpointChosen_def sloEndpoints_def spRole)
  then have "logoutAcceptable sp ids now response"
    using assms(3-7) md by (auto simp: Logout_MakeResponse_def logoutAcceptable_def entityIssuer_def)
  then show ?thesis by (simp add: validateLogoutResponse_Inr)
qed

text \<open>
  C28. Intermediate certificates break encrypted assertions. A service provider with an RSA certificate and intermediates
  publishes its encryption certificate with the intermediates appended to it. Since parsing a single certificate
  rejects what follows it, the identity provider cannot use that certificate, and as it must not send the assertion in
  plain text either, it never makes an assertion element for this service provider. (The signing certificates, which
  are published in the same way, are parsed as a sequence.)
\<close>

theorem intermediates_prevent_assertions:
  assumes "sp_Certificate sp = Some cert" "isRSA (cert_PublicKey cert)" "cert_Raw cert \<noteq> []"
    "x_ParseCertificate X (cert_Raw cert @ concat (map cert_Raw (sp_Intermediates sp))) = Inl (Err trailing)"
    "iar_SPSSODescriptor req = Some d" "d \<in> set (ed_SPSSODescriptors (Metadata sp published))"
  shows "\<exists>e. MakeAssertionEl X env idp req = Inl e"
proof -
  let ?der = "cert_Raw cert @ concat (map cert_Raw (sp_Intermediates sp))"
  have "d = spRole sp published" using assms(6) by (simp add: spRole)
  then have kds: "rd_KeyDescriptors d = spKeyDescriptors sp" by (simp add: spRole)
  have ne: "base64Encode ?der \<noteq> []" using assms(3) base64.enc_inject [of ?der "[]"] by (simp del: base64.enc_inject)
  have kd: "spEncryptionKeyDescriptor d = Some \<lparr>kd_Use = ''encryption'', kd_X509Certificates = [base64Encode ?der],
      kd_EncryptionMethods = spEncryptionMethods\<rparr>"
    using assms(1,2) ne by (simp add: spEncryptionKeyDescriptor_def kds spKeyDescriptors_def firstCertificateData_def Let_def)
  have refused: "\<exists>e. getSPEncryptionCert X d md = Inl e \<and> e \<noteq> ErrNotExist" for md
    using ne assms(4) by (simp add: getSPEncryptionCert_def kd firstCertificateData_def isPanic_def)
  show ?thesis
  proof (cases "MakeAssertionEl X env idp req")
    case (Inr req')
    from MakeAssertionEl_parts [OF Inr] obtain d' a plain where
      c: "iar_SPSSODescriptor req = Some d'" "chooseEncryption X env req d' a plain = Inr req'" .
    from refused [of "iar_ServiceProviderMetadata req"] c assms(5) show ?thesis by (auto simp: chooseEncryption_def)
  qed simp
qed

section \<open>An example\<close>

definition pairedSP :: ServiceProvider where
  "pairedSP = exampleSP\<lparr>sp_IDPMetadata := Some (projr (Idp_Metadata exampleIdp 5)), sp_LogoutBindings := [HTTPPostBinding],
     sp_Certificate := Some (exampleCert ''key''), sp_Intermediates := [exampleCert ''ca'']\<rparr>"

lemma pairedSP_trusts: "trusts pairedSP exampleIdp"
  by (simp add: trusts_def pairedSP_def Idp_Metadata_def exampleIdp_def nonNil_def Let_def)

lemma pairedSP_sel [simp]:
  "spEntityID pairedSP = ''sp''" "sp_AcsURL pairedSP = exampleURL ''acs''" "sp_SloURL pairedSP = exampleURL ''slo''"
  "sp_ValidateAudienceRestriction pairedSP = None" "sp_SignatureMethod pairedSP = []"
  by (simp_all add: pairedSP_def exampleSP_def spEntityID_def firstSet_def)

definition pairedRequest :: AuthnRequest where
  "pairedRequest = projr (MakeAuthenticationRequest exampleIdpX (replicate 20 CHR ''x'') [] 5 pairedSP ''sso''
     HTTPRedirectBinding HTTPPostBinding)"

definition pairedReq :: IdpAuthnRequest where
  "pairedReq = (newRequest exampleAuthnHTTP 5)\<lparr>iar_Request := pairedRequest,
     iar_ServiceProviderMetadata := Some (Metadata pairedSP 5)\<rparr>"

lemma pairedReq_made:
  "GetSSOBindingLocation pairedSP HTTPRedirectBinding = Inr ''sso''"
  "MakeAuthenticationRequest exampleIdpX (replicate 20 CHR ''x'') [] 5 pairedSP ''sso'' HTTPRedirectBinding HTTPPostBinding
     = Inr pairedRequest"
  "iar_Request pairedReq = pairedRequest" "iar_Now pairedReq = 5"
  "iar_ServiceProviderMetadata pairedReq = Some (Metadata pairedSP 5)"
  by (simp_all add: pairedRequest_def MakeAuthenticationRequest_def Let_def pairedReq_def newRequest_def)
    (simp add: GetSSOBindingLocation_def pairedSP_def idpMetadata_def Idp_Metadata_def exampleIdp_def nonNil_def Let_def
      endpointLocation_def idpEndpoints_def)

theorem request_fits_identity_provider_witness:
  "checkRequest exampleIdp pairedReq = Inr () \<and>
    (\<exists>d e. getACSEndpoint pairedReq = Inr (pairedReq\<lparr>iar_SPSSODescriptor := Some d, iar_ACSEndpoint := Some e\<rparr>) \<and>
       iep_Location e = urlString (sp_AcsURL pairedSP))"
  by (rule request_fits_identity_provider [OF pairedSP_trusts _ pairedReq_made(1,2,3,5)])
    (simp_all add: pairedReq_made(4) MaxClockSkew_def MaxIssueDelay_def ns_defs exampleIdp_def)

definition answeredReq :: IdpAuthnRequest where
  "answeredReq = pairedReq\<lparr>iar_SPSSODescriptor := Some (spRole pairedSP 5),
     iar_ACSEndpoint := Some (hd (sps_AssertionConsumerServices (spRole pairedSP 5)))\<rparr>"

lemma answeredReq_selected: "endpointSelected (Metadata pairedSP 5) answeredReq"
  by (simp add: endpointSelected_def answeredReq_def spRole pairedReq_made pairedRequest_def MakeAuthenticationRequest_def Let_def)

theorem assertion_fits_service_provider_witness:
  "\<exists>req' a. MakeAssertion exampleIdpX exampleEnv exampleIdp answeredReq exampleSession = Inr req' \<and>
     iar_Assertion req' = Some a \<and> validateAssertion pairedSP a [areq_ID pairedRequest] 5 = Inr ()"
proof -
  have sel: "iar_SPSSODescriptor answeredReq = Some (spRole pairedSP 5)"
    "iar_ServiceProviderMetadata answeredReq = Some (Metadata pairedSP 5)"
    "iar_ACSEndpoint answeredReq = Some (hd (sps_AssertionConsumerServices (spRole pairedSP 5)))"
    "iar_Request answeredReq = pairedRequest" "iar_Now answeredReq = 5"
    by (simp_all add: answeredReq_def pairedReq_made)
  have "ses_NameID exampleSession \<noteq> []" by (simp add: exampleSession_def)
  then obtain a where a: "MakeAssertion exampleIdpX exampleEnv exampleIdp answeredReq exampleSession =
      Inr (answeredReq\<lparr>iar_Assertion := Some a\<rparr>)"
    using MakeAssertion_total [OF exampleIdp_canSign _ sel(1-3)] by metis
  have "validateAssertion pairedSP a [areq_ID pairedRequest] 5 = Inr ()"
    by (rule assertion_fits_service_provider [OF pairedSP_trusts sel(2) answeredReq_selected a])
      (simp_all add: sel exampleEnv_def MaxIssueDelay_def MaxClockSkew_def ns_defs)
  with a show ?thesis by auto
qed

definition answeredLogout :: IdpLogoutRequest where
  "answeredLogout = sloReq\<lparr>ilr_ServiceProviderMetadata := Some (Metadata pairedSP 5),
     ilr_SLOEndpoint := Some \<lparr>ep_Binding = HTTPPostBinding, ep_Location = ''slo'', ep_ResponseLocation = ''slo''\<rparr>\<rparr>"

theorem logout_response_fits_service_provider_witness:
  "\<exists>response. Logout_MakeResponse exampleEnv exampleIdp answeredLogout (logoutStatus StatusSuccess None) = Inr response \<and>
     validateLogoutResponse pairedSP response [''id''] 5 = Inr ()"
proof -
  have sel: "lreq_ID (ilr_Request answeredLogout) = ''id''" "ilr_Now answeredLogout = 5"
    by (simp_all add: answeredLogout_def sloReq_def sloReq0_def newLogoutRequest_def exampleLogoutMessage_def)
  obtain response where
    r: "Logout_MakeResponse exampleEnv exampleIdp answeredLogout (logoutStatus StatusSuccess None) = Inr response"
    by (simp add: Logout_MakeResponse_def answeredLogout_def nonNil_def)
  have chosen: "logoutEndpointChosen (Metadata pairedSP 5) answeredLogout"
    by (simp add: logoutEndpointChosen_def answeredLogout_def sloReq_def sloReq0_def newLogoutRequest_def sloEndpoints_def
        Metadata_def Let_def pairedSP_def exampleSP_def)
  have "validateLogoutResponse pairedSP response [''id''] 5 = Inr ()"
    by (rule logout_response_fits_service_provider [OF pairedSP_trusts chosen r])
      (simp_all add: sel logoutStatus_def MaxIssueDelay_def ns_defs)
  with r show ?thesis by blast
qed

definition strictX :: externs where
  "strictX = exampleIdpX\<lparr>x_ParseCertificate := (\<lambda>d. if length d = 3 then Inr (exampleCert d) else Inl (Err ''trailing data''))\<rparr>"

theorem intermediates_prevent_assertions_witness:
  "\<exists>e. MakeAssertionEl strictX exampleEnv exampleIdp answeredReq = Inl e"
  by (rule intermediates_prevent_assertions [of pairedSP "exampleCert ''key''" _ "''trailing data''" _ "spRole pairedSP 5" 5])
    (simp_all add: pairedSP_def exampleCert_def isRSA_def strictX_def answeredReq_def spRole)

end
